(* ===== verification/Prelude.thy ===== *)
theory Prelude
  imports Main "HOL-Library.AList"
begin

text \<open>
  What every component of the development shares: effectful Python code as explicit state
  passing with exceptions as values, and the list and association-list facts the component
  proofs use.

  A Python coroutine or method that reads and writes a state \<open>'s\<close>, may raise an exception
  of type \<open>'e\<close> and otherwise returns an \<open>'a\<close> is a function of type \<open>('s, 'e, 'a) eff\<close>:
  it takes the state and returns the outcome together with the state afterwards.  A raise keeps
  the state changes made before it, as an exception in Python does.
\<close>

named_theorems eff_simps \<open>unfolding rules of the effect combinators\<close>

type_synonym ('s, 'e, 'a) eff = "'s \<Rightarrow> ('e + 'a) \<times> 's"

definition ret_eff :: "'a \<Rightarrow> ('s, 'e, 'a) eff" where
  "ret_eff a = (\<lambda>s. (Inr a, s))"

definition raise_eff :: "'e \<Rightarrow> ('s, 'e, 'a) eff" where
  "raise_eff e = (\<lambda>s. (Inl e, s))"

definition bind_eff :: "('s, 'e, 'a) eff \<Rightarrow> ('a \<Rightarrow> ('s, 'e, 'b) eff) \<Rightarrow> ('s, 'e, 'b) eff" where
  "bind_eff m k = (\<lambda>s. case m s of (Inl e, s') \<Rightarrow> (Inl e, s') | (Inr a, s') \<Rightarrow> k a s')"

definition catch_eff :: "('s, 'e, 'a) eff \<Rightarrow> ('e \<Rightarrow> ('s, 'e, 'a) eff) \<Rightarrow> ('s, 'e, 'a) eff" where
  "catch_eff m h = (\<lambda>s. case m s of (Inl e, s') \<Rightarrow> h e s' | (Inr a, s') \<Rightarrow> (Inr a, s'))"

definition lift_eff :: "'e + 'a \<Rightarrow> ('s, 'e, 'a) eff" where
  "lift_eff r = (\<lambda>s. (r, s))"

definition modify_eff :: "('s \<Rightarrow> 's) \<Rightarrow> ('s, 'e, unit) eff" where
  "modify_eff f = (\<lambda>s. (Inr (), f s))"

definition read_eff :: "('s \<Rightarrow> 'a) \<Rightarrow> ('s, 'e, 'a) eff" where
  "read_eff f = (\<lambda>s. (Inr (f s), s))"

lemma ret_eff_apply [eff_simps]: "ret_eff a s = (Inr a, s)"
  by (simp add: ret_eff_def)

lemma raise_eff_apply [eff_simps]: "raise_eff e s = (Inl e, s)"
  by (simp add: raise_eff_def)

lemma lift_eff_apply [eff_simps]: "lift_eff r s = (r, s)"
  by (simp add: lift_eff_def)

lemma modify_eff_apply [eff_simps]: "modify_eff f s = (Inr (), f s)"
  by (simp add: modify_eff_def)

lemma read_eff_apply [eff_simps]: "read_eff f s = (Inr (f s), s)"
  by (simp add: read_eff_def)

lemma bind_eff_apply [eff_simps]:
  "bind_eff m k s = (case m s of (Inl e, s') \<Rightarrow> (Inl e, s') | (Inr a, s') \<Rightarrow> k a s')"
  by (simp add: bind_eff_def)

lemma catch_eff_apply [eff_simps]:
  "catch_eff m h s = (case m s of (Inl e, s') \<Rightarrow> h e s' | (Inr a, s') \<Rightarrow> (Inr a, s'))"
  by (simp add: catch_eff_def)

text \<open>How a sequence of two effects ends: the two ways to get a result out of a bind.\<close>

lemma bind_eff_Inr:
  "bind_eff m k s = (Inr b, t) \<longleftrightarrow> (\<exists>a u. m s = (Inr a, u) \<and> k a u = (Inr b, t))"
  by (auto simp: bind_eff_def split: prod.splits sum.splits)

lemma bind_eff_Inl:
  "bind_eff m k s = (Inl e, t) \<longleftrightarrow>
     m s = (Inl e, t) \<or> (\<exists>a u. m s = (Inr a, u) \<and> k a u = (Inl e, t))"
  by (auto simp: bind_eff_def split: prod.splits sum.splits)

lemma bind_ret_eff [simp]: "bind_eff (ret_eff a) k = k a"
  by (simp add: bind_eff_def ret_eff_def)

lemma bind_eff_ret [simp]: "bind_eff m ret_eff = m"
  by (rule ext) (auto simp: bind_eff_def ret_eff_def split: prod.splits sum.splits)

lemma bind_eff_assoc:
  "bind_eff (bind_eff m k) h = bind_eff m (\<lambda>a. bind_eff (k a) h)"
  by (rule ext) (auto simp: bind_eff_def split: prod.splits sum.splits)

text \<open>An effect that never touches the part of the state read by \<open>f\<close>.\<close>

definition keeps :: "('s \<Rightarrow> 'x) \<Rightarrow> ('s, 'e, 'a) eff \<Rightarrow> bool" where
  "keeps f m \<longleftrightarrow> (\<forall>s. f (snd (m s)) = f s)"

lemma keeps_ret [simp]: "keeps f (ret_eff a)"
  by (simp add: keeps_def ret_eff_def)

lemma keeps_raise [simp]: "keeps f (raise_eff e)"
  by (simp add: keeps_def raise_eff_def)

lemma keeps_bind [intro]: "keeps f m \<Longrightarrow> (\<And>a. keeps f (k a)) \<Longrightarrow> keeps f (bind_eff m k)"
  unfolding keeps_def bind_eff_def by (auto split: prod.splits sum.splits) (metis snd_conv)+

lemma keepsD: "keeps f m \<Longrightarrow> m s = (r, t) \<Longrightarrow> f t = f s"
  unfolding keeps_def by (metis snd_conv)

text \<open>An effect that keeps a predicate of the state, whatever its outcome is.\<close>

named_theorems preserve_intros \<open>which effects keep a predicate\<close>

definition preserves :: "('s \<Rightarrow> bool) \<Rightarrow> ('s, 'e, 'a) eff \<Rightarrow> bool" where
  "preserves I m \<longleftrightarrow> (\<forall>s. I s \<longrightarrow> I (snd (m s)))"

lemma preservesD: "preserves I m \<Longrightarrow> I s \<Longrightarrow> m s = (r, t) \<Longrightarrow> I t"
  unfolding preserves_def by (metis snd_conv)

lemma preserves_ret [preserve_intros]: "preserves I (ret_eff a)"
  by (simp add: preserves_def ret_eff_def)

lemma preserves_raise [preserve_intros]: "preserves I (raise_eff e)"
  by (simp add: preserves_def raise_eff_def)

lemma preserves_lift [preserve_intros]: "preserves I (lift_eff r)"
  by (simp add: preserves_def lift_eff_def)

lemma preserves_read [preserve_intros]: "preserves I (read_eff f)"
  by (simp add: preserves_def read_eff_def)

lemma preserves_bind [preserve_intros]:
  assumes "preserves I m" "\<And>a. preserves I (k a)"
  shows "preserves I (bind_eff m k)"
  unfolding preserves_def
proof (intro allI impI)
  fix s
  assume "I s"
  obtain r t where m: "m s = (r, t)" by (cases "m s")
  then have "I t" using assms(1) \<open>I s\<close> by (rule preservesD [rotated 2])
  then show "I (snd (bind_eff m k s))"
    using m assms(2) by (cases r) (simp_all add: bind_eff_def preserves_def)
qed

lemma preserves_catch [preserve_intros]:
  assumes "preserves I m" "\<And>e. preserves I (h e)"
  shows "preserves I (catch_eff m h)"
  unfolding preserves_def
proof (intro allI impI)
  fix s
  assume "I s"
  obtain r t where m: "m s = (r, t)" by (cases "m s")
  then have "I t" using assms(1) \<open>I s\<close> by (rule preservesD [rotated 2])
  then show "I (snd (catch_eff m h s))"
    using m assms(2) by (cases r) (simp_all add: catch_eff_def preserves_def)
qed

text \<open>A comprehension over a call that may raise: the first exception ends it.\<close>

fun traverse :: "('a \<Rightarrow> 'e + 'b) \<Rightarrow> 'a list \<Rightarrow> 'e + 'b list" where
  "traverse f [] = Inr []"
| "traverse f (x # xs) = (case f x of Inl e \<Rightarrow> Inl e
     | Inr y \<Rightarrow> (case traverse f xs of Inl e \<Rightarrow> Inl e | Inr ys \<Rightarrow> Inr (y # ys)))"

lemma traverse_ok:
  "\<forall>x \<in> set xs. \<exists>y. f x = Inr y \<and> P x y \<Longrightarrow> \<exists>ys. traverse f xs = Inr ys \<and> list_all2 P xs ys"
  by (induction xs) auto

lemma traverse_total: "(\<And>x. x \<in> set xs \<Longrightarrow> f x = Inr (g x)) \<Longrightarrow> traverse f xs = Inr (map g xs)"
  by (induction xs) auto

text \<open>JSON, with the members of an object in order.\<close>

datatype json = JNull | JBool bool | JInt int | JStr string | JArr "json list" | JObj "(string \<times> json) list"

text \<open>\<open>xs or []\<close>, for an argument that may be none.\<close>

definition or_empty :: "'a list option \<Rightarrow> 'a list" where
  "or_empty d = (case d of None \<Rightarrow> [] | Some d \<Rightarrow> d)"

text \<open>
  A Python \<open>dict\<close> whose iteration order matters is an association list: \<open>AList.update\<close>
  keeps the position of an existing key and appends a new one, \<open>AList.delete\<close> removes the key.
\<close>

lemma map_of_update: "map_of (AList.update k v al) = (map_of al)(k \<mapsto> v)"
  by (simp add: update_conv')

lemma map_of_delete_eq: "map_of (AList.delete k al) = (map_of al)(k := None)"
  by (simp add: delete_conv')

lemma takeWhile_all_drop:
  "n \<le> m \<Longrightarrow> (\<forall>x \<in> set (drop n (take m xs)). P x) \<Longrightarrow> m \<le> length xs \<Longrightarrow>
    takeWhile P (drop n xs) = drop n (take m xs) @ takeWhile P (drop m xs)"
proof -
  assume nm: "n \<le> m" and P: "\<forall>x \<in> set (drop n (take m xs)). P x" and m: "m \<le> length xs"
  have "drop n xs = drop n (take m xs) @ drop m xs"
    using nm m by (metis append_take_drop_id diff_is_0_eq' drop_0 drop_append length_take min.absorb2)
  then show ?thesis using P by (simp add: takeWhile_append)
qed

end
