(* ===== verification/PyText.thy ===== *)
theory PyText
  imports Prelude
begin

text \<open>
  The Python string operations the program uses, on \<open>string\<close> (lists of characters, one per
  code point; a character is a code point below 256): \<open>strip\<close>, \<open>replace\<close> of one character,
  \<open>rfind\<close>, \<open>split\<close> and \<open>join\<close> on one separator, slices with negative bounds,
  \<open>startswith\<close>, and the decimal notation of integers with \<open>str\<close> and \<open>int\<close>.
\<close>

lemma of_char_bound: "(of_char c :: nat) < 256"
  using of_char_mod_256 [where 'a = nat, of c] by simp

subsection \<open>Stripping and slicing\<close>

text \<open>The code points below 256 for which Python's \<open>str.isspace\<close> is true.\<close>

definition py_space :: "char \<Rightarrow> bool" where
  "py_space c \<longleftrightarrow> (of_char c :: nat) \<in> {9, 10, 11, 12, 13, 28, 29, 30, 31, 32, 133, 160}"

definition py_lstrip :: "string \<Rightarrow> string" where
  "py_lstrip s = dropWhile py_space s"

definition py_strip :: "string \<Rightarrow> string" where
  "py_strip s = rev (dropWhile py_space (rev (py_lstrip s)))"

definition py_slice_to :: "'a list \<Rightarrow> int \<Rightarrow> 'a list" where
  "py_slice_to s k = (if k < 0 then take (nat (int (length s) + k)) s else take (nat k) s)"

definition py_slice_from :: "'a list \<Rightarrow> int \<Rightarrow> 'a list" where
  "py_slice_from s k = (if k < 0 then drop (nat (int (length s) + k)) s else drop (nat k) s)"

definition py_startswith :: "string \<Rightarrow> string \<Rightarrow> bool" where
  "py_startswith s p \<longleftrightarrow> take (length p) s = p"

definition py_removeprefix :: "string \<Rightarrow> string \<Rightarrow> string" where
  "py_removeprefix s p = (if py_startswith s p then drop (length p) s else s)"

lemma length_py_strip: "length (py_strip s) \<le> length s"
  unfolding py_strip_def py_lstrip_def
  by (metis length_dropWhile_le length_rev order_trans)

lemma set_py_strip: "set (py_strip s) \<subseteq> set s"
  unfolding py_strip_def py_lstrip_def by (auto dest!: set_dropWhileD)

lemma length_py_slice_to: "0 \<le> k \<Longrightarrow> int (length (py_slice_to s k)) \<le> k"
  by (simp add: py_slice_to_def)

lemma length_py_slice_from: "0 \<le> k \<Longrightarrow> int (length (py_slice_from s k)) = max 0 (int (length s) - k)"
  by (simp add: py_slice_from_def)

lemma py_startswith_append [simp]: "py_startswith (p @ s) p"
  by (simp add: py_startswith_def)

lemma py_startswith_iff: "py_startswith s p \<longleftrightarrow> (\<exists>t. s = p @ t)"
  unfolding py_startswith_def by (metis append_eq_conv_conj append_take_drop_id)

lemma py_removeprefix_append [simp]: "py_removeprefix (p @ s) p = s"
  by (simp add: py_removeprefix_def)

subsection \<open>Replacing and searching one character\<close>

definition py_replace :: "char \<Rightarrow> string \<Rightarrow> string \<Rightarrow> string" where
  "py_replace c r s = concat (map (\<lambda>x. if x = c then r else [x]) s)"

lemma py_replace_simps [simp]:
  "py_replace c r [] = []"
  "py_replace c r (x # s) = (if x = c then r else [x]) @ py_replace c r s"
  by (simp_all add: py_replace_def)

lemma py_replace_append [simp]: "py_replace c r (s @ t) = py_replace c r s @ py_replace c r t"
  by (simp add: py_replace_def)

lemma set_py_replace: "c \<notin> set r \<Longrightarrow> c \<notin> set (py_replace c r s)"
  by (induction s) auto

fun last_index :: "'a \<Rightarrow> 'a list \<Rightarrow> nat option" where
  "last_index c [] = None"
| "last_index c (x # xs) =
     (case last_index c xs of Some i \<Rightarrow> Some (Suc i) | None \<Rightarrow> if x = c then Some 0 else None)"

text \<open>\<open>s.rfind(c, 0, end)\<close>: the last index below the bound, or -1.\<close>

definition py_rfind :: "char \<Rightarrow> string \<Rightarrow> int \<Rightarrow> int" where
  "py_rfind c s end = (case last_index c (py_slice_to s end) of None \<Rightarrow> -1 | Some i \<Rightarrow> int i)"

lemma last_index_Some: "last_index c xs = Some i \<Longrightarrow> i < length xs \<and> xs ! i = c"
  by (induction xs arbitrary: i) (auto split: option.splits if_splits)

lemma last_index_None: "last_index c xs = None \<longleftrightarrow> c \<notin> set xs"
  by (induction xs) (auto split: option.splits)

lemma py_rfind_bound: "0 \<le> end \<Longrightarrow> py_rfind c s end \<noteq> -1 \<Longrightarrow> 0 \<le> py_rfind c s end \<and> py_rfind c s end < end"
  using length_py_slice_to [of "end" s]
  by (auto simp: py_rfind_def split: option.splits dest!: last_index_Some)

text \<open>An optional value in a text.\<close>

definition none_str :: "string option \<Rightarrow> string" where
  "none_str v = (case v of None \<Rightarrow> ''None'' | Some t \<Rightarrow> t)"

subsection \<open>Splitting and joining on one separator\<close>

fun py_split :: "'a \<Rightarrow> 'a list \<Rightarrow> 'a list list" where
  "py_split c [] = [[]]"
| "py_split c (x # s) =
     (if x = c then [] # py_split c s
      else (case py_split c s of [] \<Rightarrow> [[x]] | w # ws \<Rightarrow> (x # w) # ws))"

fun py_join :: "'a list \<Rightarrow> 'a list list \<Rightarrow> 'a list" where
  "py_join sep [] = []"
| "py_join sep [w] = w"
| "py_join sep (w # ws) = w @ sep @ py_join sep ws"

lemma py_split_not_Nil [simp]: "py_split c s \<noteq> []"
  by (cases s) (auto split: list.splits)

lemma py_join_split: "py_join [c] (py_split c s) = s"
proof (induction s)
  case Nil
  then show ?case by simp
next
  case (Cons x s)
  show ?case
  proof (cases "py_split c s")
    case Nil
    then show ?thesis by simp
  next
    case (Cons w ws)
    then show ?thesis using Cons.IH by (cases ws) auto
  qed
qed

lemma py_split_no_sep [simp]: "c \<notin> set s \<Longrightarrow> py_split c s = [s]"
  by (induction s) auto

lemma py_split_append: "c \<notin> set s \<Longrightarrow> py_split c (s @ c # t) = s # py_split c t"
  by (induction s) auto

lemma py_split_join:
  "ws \<noteq> [] \<Longrightarrow> \<forall>w \<in> set ws. c \<notin> set w \<Longrightarrow> py_split c (py_join [c] ws) = ws"
proof (induction ws)
  case (Cons w ws)
  then show ?case by (cases ws) (simp_all add: py_split_append)
qed simp

lemma py_split_no_sep_in: "w \<in> set (py_split c s) \<Longrightarrow> c \<notin> set w"
  by (induction s arbitrary: w) (auto split: list.splits if_splits)

text \<open>\<open>s.split(c, 1)\<close>: split at the first separator only.\<close>

definition py_split1 :: "'a \<Rightarrow> 'a list \<Rightarrow> 'a list list" where
  "py_split1 c s =
     (case dropWhile (\<lambda>x. x \<noteq> c) s of [] \<Rightarrow> [s] | _ # t \<Rightarrow> [takeWhile (\<lambda>x. x \<noteq> c) s, t])"

lemma py_split1_append [simp]: "c \<notin> set s \<Longrightarrow> py_split1 c (s @ c # t) = [s, t]"
proof -
  assume c: "c \<notin> set s"
  then have "dropWhile (\<lambda>x. x \<noteq> c) (s @ c # t) = c # t"
    by (subst dropWhile_append2) auto
  moreover have "takeWhile (\<lambda>x. x \<noteq> c) (s @ c # t) = s"
    using c by (subst takeWhile_append2) auto
  ultimately show ?thesis by (simp add: py_split1_def)
qed

text \<open>\<open>s.split()\<close>: the maximal runs without white space.\<close>

function py_words :: "string \<Rightarrow> string list" where
  "py_words s =
     (case dropWhile py_space s of [] \<Rightarrow> []
      | t \<Rightarrow> takeWhile (\<lambda>c. \<not> py_space c) t # py_words (dropWhile (\<lambda>c. \<not> py_space c) t))"
  by pat_completeness auto
termination
proof (relation "measure length")
  show "(dropWhile (\<lambda>c. \<not> py_space c) (x # xs), s) \<in> measure length"
    if "dropWhile py_space s = x # xs" for s x xs
  proof -
    have "\<not> py_space x" using that by (metis hd_dropWhile list.distinct(1) list.sel(1))
    then have "length (dropWhile (\<lambda>c. \<not> py_space c) (x # xs)) \<le> length xs"
      by (simp add: length_dropWhile_le)
    also have "length xs < length s" using that by (metis Suc_le_lessD length_Cons length_dropWhile_le)
    finally show ?thesis by simp
  qed
qed simp

declare py_words.simps [simp del]

lemma py_words_single:
  assumes "s \<noteq> []" "\<forall>c \<in> set s. \<not> py_space c"
  shows "py_words s = [s]"
proof -
  obtain x s' where s: "s = x # s'" using assms(1) by (cases s) auto
  have "dropWhile py_space s = s" using assms s by auto
  moreover have "dropWhile (\<lambda>c. \<not> py_space c) s = []" "takeWhile (\<lambda>c. \<not> py_space c) s = s"
    using assms by auto
  ultimately show ?thesis using s
    by (subst py_words.simps) (simp add: py_words.simps [of "[]"])
qed

lemma py_words_pair:
  assumes "s \<noteq> []" "\<forall>c \<in> set s. \<not> py_space c" "t \<noteq> []" "\<forall>c \<in> set t. \<not> py_space c" "py_space b"
  shows "py_words (s @ b # t) = [s, t]"
proof -
  obtain x s' where s: "s = x # s'" using assms(1) by (cases s) auto
  have "dropWhile py_space (s @ b # t) = s @ b # t" using assms(2) s by simp
  moreover have "takeWhile (\<lambda>c. \<not> py_space c) (s @ b # t) = s"
    using assms(2,5) by (simp add: takeWhile_append2)
  moreover have "dropWhile (\<lambda>c. \<not> py_space c) (s @ b # t) = b # t"
    using assms(2,5) by (subst dropWhile_append2) auto
  moreover have "py_words (b # t) = py_words t"
    using assms(5) by (simp add: py_words.simps [of "b # t"] py_words.simps [of t])
  ultimately show ?thesis using s py_words_single [OF assms(3,4)]
    by (subst py_words.simps) simp
qed

subsection \<open>Decimal notation\<close>

definition digit_char :: "nat \<Rightarrow> char" where
  "digit_char d = char_of (48 + d)"

definition is_digit :: "char \<Rightarrow> bool" where
  "is_digit c \<longleftrightarrow> 48 \<le> (of_char c :: nat) \<and> (of_char c :: nat) \<le> 57"

definition digit_val :: "char \<Rightarrow> nat" where
  "digit_val c = of_char c - 48"

fun nat_str :: "nat \<Rightarrow> string" where
  "nat_str n = (if n < 10 then [digit_char n] else nat_str (n div 10) @ [digit_char (n mod 10)])"

declare nat_str.simps [simp del]

definition digits_val :: "string \<Rightarrow> nat" where
  "digits_val s = foldl (\<lambda>v c. 10 * v + digit_val c) 0 s"

definition int_str :: "int \<Rightarrow> string" where
  "int_str i = (if i < 0 then CHR ''-'' # nat_str (nat (- i)) else nat_str (nat i))"

text \<open>
  \<open>int(s)\<close> on an optional sign and ASCII digits, after stripping white space; \<open>None\<close> for
  \<open>ValueError\<close>.  (Python also accepts single underscores between digits and other Unicode
  digits, which none of the program's own output contains.)
\<close>

definition py_int :: "string \<Rightarrow> int option" where
  "py_int s =
     (let t = py_strip s in
      case t of [] \<Rightarrow> None
      | c # ds \<Rightarrow>
          if c = CHR ''-'' then (if ds \<noteq> [] \<and> list_all is_digit ds then Some (- int (digits_val ds)) else None)
          else if c = CHR ''+'' then (if ds \<noteq> [] \<and> list_all is_digit ds then Some (int (digits_val ds)) else None)
          else if list_all is_digit t then Some (int (digits_val t)) else None)"

lemma of_char_digit [simp]: "d < 10 \<Longrightarrow> (of_char (digit_char d) :: nat) = 48 + d"
  by (simp add: digit_char_def)

lemma digit_char_props [simp]:
  "d < 10 \<Longrightarrow> is_digit (digit_char d)" "d < 10 \<Longrightarrow> digit_val (digit_char d) = d"
  "d < 10 \<Longrightarrow> \<not> py_space (digit_char d)"
  by (simp_all add: is_digit_def digit_val_def py_space_def)

lemma nat_str_digits: "list_all is_digit (nat_str n) \<and> nat_str n \<noteq> [] \<and> digits_val (nat_str n) = n"
proof (induction n rule: nat_str.induct)
  case (1 n)
  show ?case
  proof (cases "n < 10")
    case True
    then show ?thesis by (simp add: nat_str.simps [of n] digits_val_def)
  next
    case False
    then have "digits_val (nat_str n) = 10 * digits_val (nat_str (n div 10)) + n mod 10"
      by (simp add: nat_str.simps [of n] digits_val_def)
    with False "1.IH" show ?thesis by (simp add: nat_str.simps [of n])
  qed
qed

lemma is_digit_not_space: "is_digit c \<Longrightarrow> \<not> py_space c"
  by (auto simp: is_digit_def py_space_def)

lemma is_digit_not: "is_digit c \<Longrightarrow> c \<notin> {CHR ''-'', CHR ''+'', CHR ''_'', CHR ''.'', CHR ''p''}"
  by (auto simp: is_digit_def)

lemma py_strip_id: "\<forall>c \<in> set s. \<not> py_space c \<Longrightarrow> py_strip s = s"
proof -
  assume s: "\<forall>c \<in> set s. \<not> py_space c"
  then have "dropWhile py_space s = s" by (cases s) auto
  moreover have "dropWhile py_space (rev s) = rev s"
    using s by (metis dropWhile_eq_self_iff hd_in_set set_rev)
  ultimately show ?thesis by (simp add: py_strip_def py_lstrip_def)
qed

lemma nat_str_no_space: "\<forall>c \<in> set (nat_str n). \<not> py_space c"
  using nat_str_digits [of n] is_digit_not_space by (auto simp: list_all_iff)

lemma set_int_str: "c \<in> set (int_str i) \<Longrightarrow> is_digit c \<or> c = CHR ''-''"
  using nat_str_digits [of "nat i"] nat_str_digits [of "nat (- i)"]
  by (auto simp: int_str_def list_all_iff split: if_splits)

lemma int_str_no_space: "\<forall>c \<in> set (int_str i). \<not> py_space c"
proof
  fix c
  assume "c \<in> set (int_str i)"
  then consider "is_digit c" | "c = CHR ''-''" using set_int_str by blast
  then show "\<not> py_space c" by cases (simp_all add: is_digit_not_space, simp add: py_space_def)
qed

lemma int_str_not_Nil [simp]: "int_str i \<noteq> []"
  using nat_str_digits by (simp add: int_str_def)

lemma nat_str_not_Nil [simp]: "nat_str i \<noteq> []"
  using nat_str_digits by simp

lemma int_str_no_underscore: "CHR ''_'' \<notin> set (int_str i)"
  using set_int_str [of "CHR ''_''" i] by (auto simp: is_digit_def)

lemma int_str_no_p: "CHR ''p'' \<notin> set (int_str i)"
  using set_int_str [of "CHR ''p''" i] by (auto simp: is_digit_def)

text \<open>Reading back what \<open>str\<close> printed.\<close>

lemma py_int_str [simp]: "py_int (int_str i) = Some i"
proof -
  have d: "list_all is_digit (nat_str n)" "nat_str n \<noteq> []" "digits_val (nat_str n) = n" for n
    using nat_str_digits by blast+
  show ?thesis
  proof (cases "i < 0")
    case True
    then show ?thesis using d by (simp add: py_int_def py_strip_id [OF int_str_no_space]) (simp add: int_str_def)
  next
    case False
    obtain c cs where c: "nat_str (nat i) = c # cs" using d(2) by (cases "nat_str (nat i)") auto
    then have "is_digit c" using d(1) [of "nat i"] by simp
    then show ?thesis using False c d(1,3) [of "nat i"] is_digit_not [of c]
      by (simp add: py_int_def py_strip_id [OF int_str_no_space]) (simp add: int_str_def)
  qed
qed

lemma int_str_inj: "int_str i = int_str j \<longleftrightarrow> i = j"
  by (metis option.inject py_int_str)

lemma nat_str_inj: "nat_str i = nat_str j \<longleftrightarrow> i = j"
  by (metis nat_str_digits)

subsection \<open>Lower case and partitions\<close>

text \<open>\<open>str.lower\<close> of ASCII text.\<close>

definition to_lower :: "string \<Rightarrow> string" where
  "to_lower s = map (\<lambda>c. let n = of_char c :: nat in if 65 \<le> n \<and> n \<le> 90 then char_of (n + 32) else c) s"

lemma to_lower_idem [simp]: "to_lower (to_lower s) = to_lower s"
proof -
  have "(of_char (char_of (n + 32)) :: nat) = n + 32" if "n \<le> 90" for n using that by simp
  then show ?thesis by (auto simp: to_lower_def Let_def)
qed

text \<open>\<open>s.partition(c)\<close> and \<open>s.rpartition(c)\<close>: whether the separator was found stands for it.\<close>

definition py_partition :: "char \<Rightarrow> string \<Rightarrow> string \<times> bool \<times> string" where
  "py_partition c s = (case dropWhile (\<lambda>x. x \<noteq> c) s of
     [] \<Rightarrow> (s, False, [])
   | _ # t \<Rightarrow> (takeWhile (\<lambda>x. x \<noteq> c) s, True, t))"

definition py_rpartition :: "char \<Rightarrow> string \<Rightarrow> string \<times> bool \<times> string" where
  "py_rpartition c s = (case dropWhile (\<lambda>x. x \<noteq> c) (rev s) of
     [] \<Rightarrow> ([], False, s)
   | _ # t \<Rightarrow> (rev t, True, rev (takeWhile (\<lambda>x. x \<noteq> c) (rev s))))"

lemma takeWhile_dropWhile_neq:
  "c \<notin> set s \<Longrightarrow> takeWhile (\<lambda>x. x \<noteq> c) (s @ c # t) = s \<and> dropWhile (\<lambda>x. x \<noteq> c) (s @ c # t) = c # t"
  by (induction s) auto

lemma takeWhile_dropWhile_absent:
  "c \<notin> set s \<Longrightarrow> takeWhile (\<lambda>x. x \<noteq> c) s = s \<and> dropWhile (\<lambda>x. x \<noteq> c) s = []"
  by (induction s) auto

lemma py_partition_found [simp]: "c \<notin> set s \<Longrightarrow> py_partition c (s @ c # t) = (s, True, t)"
  by (simp add: py_partition_def takeWhile_dropWhile_neq)

lemma py_partition_first [simp]: "py_partition c (c # t) = ([], True, t)"
  by (simp add: py_partition_def)

lemma py_partition_absent [simp]: "c \<notin> set s \<Longrightarrow> py_partition c s = (s, False, [])"
  by (simp add: py_partition_def takeWhile_dropWhile_absent)

lemma py_rpartition_found [simp]: "c \<notin> set t \<Longrightarrow> py_rpartition c (s @ c # t) = (s, True, t)"
  using takeWhile_dropWhile_neq [of c "rev t" "rev s"] by (simp add: py_rpartition_def)

lemma py_rpartition_absent [simp]: "c \<notin> set s \<Longrightarrow> py_rpartition c s = ([], False, s)"
proof -
  assume "c \<notin> set s"
  then have "dropWhile (\<lambda>x. x \<noteq> c) (rev s) = []" using takeWhile_dropWhile_absent [of c "rev s"] by simp
  then show ?thesis by (simp add: py_rpartition_def del: dropWhile_eq_Nil_conv)
qed

definition py_removesuffix :: "string \<Rightarrow> string \<Rightarrow> string" where
  "py_removesuffix s p = (if p \<noteq> [] \<and> py_startswith (rev s) (rev p) then take (length s - length p) s else s)"

end
