(* ===== verification/TimeText.thy ===== *)
theory TimeText
  imports PyText
begin

text \<open>
  Dates and times: \<open>safir.datetime\<close> (\<open>_format.py\<close>, \<open>_parse.py\<close>) and
  \<open>safir.database._datetime\<close>.

  A Python \<open>datetime\<close> is its wall-clock reading, in microseconds since 0001-01-01T00:00:00,
  with its \<open>tzinfo\<close>; the civil fields are computed from it with the proleptic Gregorian calendar of the standard library.  A
  \<open>timedelta\<close> is a number of microseconds.
\<close>

subsection \<open>The calendar of the standard library\<close>

definition is_leap :: "int \<Rightarrow> bool" where
  "is_leap y \<longleftrightarrow> y mod 4 = 0 \<and> (y mod 100 \<noteq> 0 \<or> y mod 400 = 0)"

definition days_before_year :: "int \<Rightarrow> int" where
  "days_before_year y = (y - 1) * 365 + (y - 1) div 4 - (y - 1) div 100 + (y - 1) div 400"

text \<open>The months of a year as \<open>(first day of the year before it, length)\<close>.\<close>

definition month_table :: "bool \<Rightarrow> (int \<times> int) list" where
  "month_table leap =
     (let l = (if leap then 1 else 0) in
      [(0, 31), (31, 28 + l), (59 + l, 31), (90 + l, 30), (120 + l, 31), (151 + l, 30),
       (181 + l, 31), (212 + l, 31), (243 + l, 30), (273 + l, 31), (304 + l, 30), (334 + l, 31)])"

definition days_before_month :: "int \<Rightarrow> int \<Rightarrow> int" where
  "days_before_month y m = fst (month_table (is_leap y) ! nat (m - 1))"

definition days_in_month :: "int \<Rightarrow> int \<Rightarrow> int" where
  "days_in_month y m = snd (month_table (is_leap y) ! nat (m - 1))"

definition ymd2ord :: "int \<Rightarrow> int \<Rightarrow> int \<Rightarrow> int" where
  "ymd2ord y m d = days_before_year y + days_before_month y m + d"

definition date_valid :: "int \<Rightarrow> int \<Rightarrow> int \<Rightarrow> bool" where
  "date_valid y m d \<longleftrightarrow> 1 \<le> y \<and> y \<le> 9999 \<and> 1 \<le> m \<and> m \<le> 12 \<and> 1 \<le> d \<and> d \<le> days_in_month y m"

text \<open>The year of a day number, and the day of that year counted from 0.\<close>

definition ord2year :: "int \<Rightarrow> int \<times> int" where
  "ord2year n =
     (let n400 = (n - 1) div 146097; r400 = (n - 1) mod 146097;
          n100 = r400 div 36524; r100 = r400 mod 36524;
          n4 = r100 div 1461; r4 = r100 mod 1461;
          n1 = r4 div 365; r1 = r4 mod 365;
          y = n400 * 400 + n100 * 100 + n4 * 4 + n1 + 1
      in if n1 = 4 \<or> n100 = 4 then (y - 1, 365) else (y, r1))"

fun find_month :: "int \<Rightarrow> (int \<times> int) list \<Rightarrow> int \<Rightarrow> int \<times> int" where
  "find_month m [] r = (m, r + 1)"
| "find_month m ((b, l) # ms) r = (if r < b + l then (m, r - b + 1) else find_month (m + 1) ms r)"

definition ord2ymd :: "int \<Rightarrow> int \<times> int \<times> int" where
  "ord2ymd n = (let (y, r) = ord2year n; (m, d) = find_month 1 (month_table (is_leap y)) r in (y, m, d))"

text \<open>A year written as 400-, 100-, 4- and 1-year cycles.\<close>

lemma year_cycles:
  fixes a b c e :: int
  assumes y: "y = 400 * a + 100 * b + 4 * c + e + 1"
    and "0 \<le> b" "b \<le> 3" "0 \<le> c" "c \<le> 24" "0 \<le> e" "e \<le> 3"
  shows "days_before_year y = 146097 * a + 36524 * b + 1461 * c + 365 * e"
    and "is_leap y \<longleftrightarrow> e = 3 \<and> (c \<noteq> 24 \<or> b = 3)"
proof -
  have "(y - 1) div 4 = 100 * a + 25 * b + c"
    by (rule int_div_pos_eq [where r = e]) (use assms in simp_all)
  moreover have "(y - 1) div 100 = 4 * a + b"
    by (rule int_div_pos_eq [where r = "4 * c + e"]) (use assms in simp_all)
  moreover have "(y - 1) div 400 = a"
    by (rule int_div_pos_eq [where r = "100 * b + 4 * c + e"]) (use assms in simp_all)
  ultimately show "days_before_year y = 146097 * a + 36524 * b + 1461 * c + 365 * e"
    using y by (simp add: days_before_year_def)
  have 4: "y mod 4 = 0 \<longleftrightarrow> e = 3"
  proof (cases "e = 3")
    case True
    then have "y mod 4 = 0" by (intro int_mod_pos_eq [where q = "100 * a + 25 * b + c + 1"]) (use y in simp_all)
    then show ?thesis using True by simp
  next
    case False
    then have "y mod 4 = e + 1" by (intro int_mod_pos_eq [where q = "100 * a + 25 * b + c"]) (use assms in simp_all)
    then show ?thesis using False assms by simp
  qed
  have 100: "y mod 100 = 0 \<longleftrightarrow> e = 3 \<and> c = 24"
  proof (cases "e = 3 \<and> c = 24")
    case True
    then have "y mod 100 = 0" by (intro int_mod_pos_eq [where q = "4 * a + b + 1"]) (use y in simp_all)
    then show ?thesis using True by simp
  next
    case False
    then have "y mod 100 = 4 * c + e + 1" by (intro int_mod_pos_eq [where q = "4 * a + b"]) (use assms in auto)
    then show ?thesis using False assms by simp
  qed
  have 400: "y mod 400 = 0 \<longleftrightarrow> e = 3 \<and> c = 24 \<and> b = 3"
  proof (cases "e = 3 \<and> c = 24 \<and> b = 3")
    case True
    then have "y mod 400 = 0" by (intro int_mod_pos_eq [where q = "a + 1"]) (use y in simp_all)
    then show ?thesis using True by simp
  next
    case False
    then have "y mod 400 = 100 * b + 4 * c + e + 1" by (intro int_mod_pos_eq [where q = a]) (use assms in auto)
    then show ?thesis using False assms by simp
  qed
  show "is_leap y \<longleftrightarrow> e = 3 \<and> (c \<noteq> 24 \<or> b = 3)"
    using 4 100 400 by (auto simp: is_leap_def)
qed

lemma ord2year_correct:
  assumes "1 \<le> n" "ord2year n = (y, r)"
  shows "n = days_before_year y + r + 1 \<and> 0 \<le> r \<and> r < 365 + (if is_leap y then 1 else 0) \<and> 1 \<le> y"
proof -
  define n400 r400 where "n400 = (n - 1) div 146097" and "r400 = (n - 1) mod 146097"
  define n100 r100 where "n100 = r400 div 36524" and "r100 = r400 mod 36524"
  define n4 r4 where "n4 = r100 div 1461" and "r4 = r100 mod 1461"
  define n1 r1 where "n1 = r4 div 365" and "r1 = r4 mod 365"
  have n: "n - 1 = 146097 * n400 + r400" "0 \<le> r400" "r400 < 146097" "0 \<le> n400"
    using assms(1) by (simp_all add: n400_def r400_def pos_imp_zdiv_nonneg_iff)
  have c: "r400 = 36524 * n100 + r100" "0 \<le> r100" "r100 < 36524"
    by (simp_all add: n100_def r100_def)
  have q: "r100 = 1461 * n4 + r4" "0 \<le> r4" "r4 < 1461"
    by (simp_all add: n4_def r4_def)
  have o: "r4 = 365 * n1 + r1" "0 \<le> r1" "r1 < 365"
    by (simp_all add: n1_def r1_def)
  have b: "0 \<le> n100" "n100 \<le> 4" using n(2,3) c by simp_all
  have b': "0 \<le> n4" "n4 \<le> 24" using c(2,3) q by simp_all
  have b'': "0 \<le> n1" "n1 \<le> 4" using q(2,3) o by simp_all
  have yr: "(y, r) = (if n1 = 4 \<or> n100 = 4 then (n400 * 400 + n100 * 100 + n4 * 4 + n1 + 1 - 1, 365)
       else (n400 * 400 + n100 * 100 + n4 * 4 + n1 + 1, r1))"
    using assms(2)
    unfolding ord2year_def Let_def n400_def r400_def n100_def r100_def n4_def r4_def n1_def r1_def
    by (rule sym)
  show ?thesis
  proof (cases "n1 = 4 \<or> n100 = 4")
    case True
    then consider "n100 = 4" "r100 = 0" "n4 = 0" "n1 = 0"
      | "n100 \<le> 3" "n1 = 4" "r1 = 0" "n4 \<noteq> 24 \<or> n100 = 3"
    proof (cases "n100 = 4")
      case 100: True
      then have "r100 = 0" using n(3) c by simp
      moreover from this have "n4 = 0" "r4 = 0" using q b' by simp_all
      moreover from this have "n1 = 0" using o b'' by simp
      ultimately show ?thesis using that(1) 100 by blast
    next
      case 100: False
      then have 1: "n1 = 4" using True by blast
      then have r: "r1 = 0" "r4 = 1460" using o(1,2) q(3) by simp_all
      have "n4 \<noteq> 24" using r q c by simp
      then show ?thesis using that(2) 100 1 r b by simp
    qed
    then show ?thesis
    proof cases
      case 1
      then have y: "y = 400 * n400 + 100 * 3 + 4 * 24 + 3 + 1" "r = 365" using yr by simp_all
      show ?thesis using year_cycles [OF y(1)] 1 y n(1,4) c(1) by simp
    next
      case 2
      then have y: "y = 400 * n400 + 100 * n100 + 4 * n4 + 3 + 1" "r = 365" using yr by simp_all
      show ?thesis using year_cycles [OF y(1)] 2 y b b' n(1,4) c(1) q(1) o(1) by simp
    qed
  next
    case False
    then have y: "y = 400 * n400 + 100 * n100 + 4 * n4 + n1 + 1" "r = r1" using yr by simp_all
    show ?thesis using year_cycles [OF y(1)] False y b b' b'' n(1,4) c(1) q(1) o by simp
  qed
qed

fun month_chain :: "int \<Rightarrow> (int \<times> int) list \<Rightarrow> int \<Rightarrow> bool" where
  "month_chain b [] e \<longleftrightarrow> b = e"
| "month_chain b ((b', l) # ms) e \<longleftrightarrow> b = b' \<and> month_chain (b + l) ms e"

lemma find_month_chain:
  "month_chain b ms e \<Longrightarrow> b \<le> r \<Longrightarrow> r < e \<Longrightarrow> find_month k ms r = (m, d) \<Longrightarrow>
    k \<le> m \<and> m < k + int (length ms) \<and> r + 1 = fst (ms ! nat (m - k)) + d \<and>
    1 \<le> d \<and> d \<le> snd (ms ! nat (m - k))"
proof (induction k ms r arbitrary: b rule: find_month.induct)
  case (1 k r)
  then show ?case by simp
next
  case (2 k b' l ms r)
  show ?case
  proof (cases "r < b' + l")
    case True
    then show ?thesis using 2 by auto
  next
    case False
    have IH: "k + 1 \<le> m \<and> m < k + 1 + int (length ms) \<and> r + 1 = fst (ms ! nat (m - (k + 1))) + d \<and>
      1 \<le> d \<and> d \<le> snd (ms ! nat (m - (k + 1)))"
      by (rule "2.IH" [of "b' + l"]) (use False 2 in auto)
    then have "nat (m - k) = Suc (nat (m - (k + 1)))" by linarith
    then show ?thesis using IH by simp
  qed
qed

lemma find_month_correct:
  assumes "0 \<le> r" "r < 365 + (if leap then 1 else 0)"
    and "find_month 1 (month_table leap) r = (m, d)"
  shows "1 \<le> m \<and> m \<le> 12 \<and> r + 1 = fst (month_table leap ! nat (m - 1)) + d \<and>
    1 \<le> d \<and> d \<le> snd (month_table leap ! nat (m - 1))"
proof -
  have "month_chain 0 (month_table leap) (365 + (if leap then 1 else 0))" "length (month_table leap) = 12"
    by (cases leap; simp add: month_table_def)+
  then show ?thesis using find_month_chain [OF _ assms] by simp
qed

lemma ord2ymd_correct:
  assumes "1 \<le> n" "n \<le> 3652059" "ord2ymd n = (y, m, d)"
  shows "date_valid y m d \<and> ymd2ord y m d = n"
proof -
  obtain r where r: "ord2year n = (y, r)" "find_month 1 (month_table (is_leap y)) r = (m, d)"
    using assms(3) by (auto simp: ord2ymd_def split: prod.splits)
  note y = ord2year_correct [OF assms(1) r(1)]
  have "y \<le> 9999"
  proof (rule ccontr)
    assume "\<not> y \<le> 9999"
    then have x: "9999 \<le> y - 1" by simp
    define q where "q = (y - 1) div 100"
    have "9999 div 4 \<le> (y - 1) div 4" "9999 div 400 \<le> (y - 1) div 400"
      using x by (intro zdiv_mono1; simp)+
    moreover have "100 * q \<le> y - 1" unfolding q_def by simp
    ultimately have "3652059 \<le> days_before_year y"
      using x unfolding days_before_year_def q_def [symmetric] by simp
    then show False using y assms(2) by linarith
  qed
  then show ?thesis
    using y find_month_correct [OF _ _ r(2)]
    by (simp add: date_valid_def ymd2ord_def days_before_month_def days_in_month_def)
qed

subsection \<open>Datetimes and their text\<close>

text \<open>
  A \<open>tzinfo\<close>: none, a \<open>datetime.timezone\<close> (equal to \<open>UTC\<close> when its offset is 0), or another
  class such as \<open>ZoneInfo\<close> (never equal to \<open>UTC\<close>), each with its offset in microseconds.
\<close>

datatype py_tz = Naive | FixedTz int | OtherTz int

fun utcoffset :: "py_tz \<Rightarrow> int option" where
  "utcoffset Naive = None"
| "utcoffset (FixedTz z) = Some z"
| "utcoffset (OtherTz z) = Some z"

record py_datetime =
  dt_us :: int
  dt_tz :: py_tz

datatype time_error = TimeValueError | TimeOverflowError

record civil =
  c_year :: int
  c_month :: int
  c_day :: int
  c_hour :: int
  c_minute :: int
  c_second :: int
  c_micro :: int

definition day_us :: int where
  "day_us = 86400000000"

definition civil_of :: "int \<Rightarrow> civil" where
  "civil_of us =
     (let (y, m, d) = ord2ymd (us div day_us + 1); r = us mod day_us in
      \<lparr>c_year = y, c_month = m, c_day = d, c_hour = r div 3600000000, c_minute = r div 60000000 mod 60,
       c_second = r div 1000000 mod 60, c_micro = r mod 1000000\<rparr>)"

definition civil_valid :: "civil \<Rightarrow> bool" where
  "civil_valid c \<longleftrightarrow> date_valid (c_year c) (c_month c) (c_day c) \<and> 0 \<le> c_hour c \<and> c_hour c < 24 \<and>
     0 \<le> c_minute c \<and> c_minute c < 60 \<and> 0 \<le> c_second c \<and> c_second c < 60 \<and>
     0 \<le> c_micro c \<and> c_micro c < 1000000"

definition us_of :: "civil \<Rightarrow> int" where
  "us_of c = (ymd2ord (c_year c) (c_month c) (c_day c) - 1) * day_us + c_hour c * 3600000000
     + c_minute c * 60000000 + c_second c * 1000000 + c_micro c"

text \<open>The datetimes Python can hold: years 1 to 9999.\<close>

definition us_ok :: "int \<Rightarrow> bool" where
  "us_ok us \<longleftrightarrow> 0 \<le> us \<and> us < 3652059 * day_us"

definition zero_pad :: "nat \<Rightarrow> string \<Rightarrow> string" where
  "zero_pad n s = replicate (n - length s) (CHR ''0'') @ s"

definition two :: "int \<Rightarrow> string" where
  "two i = zero_pad 2 (int_str i)"

text \<open>
  \<open>timestamp.strftime("%Y-%m-%dT%H:%M:%SZ")\<close>; the platform's \<open>strftime\<close> does not pad the
  year.
\<close>

definition strftime_iso :: "civil \<Rightarrow> string" where
  "strftime_iso c = int_str (c_year c) @ ''-'' @ two (c_month c) @ ''-'' @ two (c_day c) @ ''T''
     @ two (c_hour c) @ '':'' @ two (c_minute c) @ '':'' @ two (c_second c) @ ''Z''"

definition isodatetime :: "py_datetime \<Rightarrow> time_error + string" where
  "isodatetime timestamp =
     (if utcoffset (dt_tz timestamp) \<noteq> Some 0 then Inl TimeValueError
      else Inr (strftime_iso (civil_of (dt_us timestamp))))"

text \<open>\<open>timestamp.isoformat(sep=" ", timespec=...)\<close> of a datetime in UTC, offset included.\<close>

definition isoformat_utc :: "bool \<Rightarrow> civil \<Rightarrow> string" where
  "isoformat_utc millis c = zero_pad 4 (int_str (c_year c)) @ ''-'' @ two (c_month c) @ ''-'' @ two (c_day c)
     @ '' '' @ two (c_hour c) @ '':'' @ two (c_minute c) @ '':'' @ two (c_second c)
     @ (if millis then ''.'' @ zero_pad 3 (int_str (c_micro c div 1000)) else []) @ ''+00:00''"

definition format_datetime_for_logging :: "py_datetime option \<Rightarrow> time_error + string option" where
  "format_datetime_for_logging timestamp = (case timestamp of
     None \<Rightarrow> Inr None
   | Some t \<Rightarrow>
       if utcoffset (dt_tz t) \<noteq> Some 0 then Inl TimeValueError
       else let c = civil_of (dt_us t);
                result = (if c_micro c \<noteq> 0 then isoformat_utc True c else isoformat_utc False c)
            in Inr (Some (hd (py_split (CHR ''+'') result))))"

text \<open>
  The pattern of an IVOA timestamp, read from the left: four digits, \<open>-\<close>, two digits, \<open>-\<close>,
  two digits, optionally a time with optional milliseconds, optionally a \<open>Z\<close>, and then the end
  or a final newline.  Each optional group is taken when it can be, which never loses a match
  here because what follows it starts with another character.
\<close>

definition take_digits :: "nat \<Rightarrow> string \<Rightarrow> (int \<times> string) option" where
  "take_digits n s =
     (if length (take n s) = n \<and> list_all is_digit (take n s)
      then Some (int (digits_val (take n s)), drop n s) else None)"

definition take_char :: "char \<Rightarrow> string \<Rightarrow> string option" where
  "take_char c s = (case s of [] \<Rightarrow> None | x # t \<Rightarrow> if x = c then Some t else None)"

definition take_clock :: "string \<Rightarrow> (int \<times> int \<times> int \<times> string) option" where
  "take_clock s =
     Option.bind (take_char (CHR ''T'') s) (\<lambda>s. Option.bind (take_digits 2 s) (\<lambda>(h, s).
     Option.bind (take_char (CHR '':'') s) (\<lambda>s. Option.bind (take_digits 2 s) (\<lambda>(mi, s).
     Option.bind (take_char (CHR '':'') s) (\<lambda>s. Option.bind (take_digits 2 s) (\<lambda>(sec, s).
     Some (h, mi, sec, s)))))))"

definition take_millis :: "string \<Rightarrow> int \<times> string" where
  "take_millis s = (case Option.bind (take_char (CHR ''.'') s) (take_digits 3) of
     None \<Rightarrow> (0, s) | Some r \<Rightarrow> r)"

definition ivoa_pattern :: "string \<Rightarrow> civil option" where
  "ivoa_pattern s =
     Option.bind (take_digits 4 s) (\<lambda>(y, s). Option.bind (take_char (CHR ''-'') s) (\<lambda>s.
     Option.bind (take_digits 2 s) (\<lambda>(m, s). Option.bind (take_char (CHR ''-'') s) (\<lambda>s.
     Option.bind (take_digits 2 s) (\<lambda>(d, s).
       let (h, mi, sec, ms, s) =
             (case take_clock s of None \<Rightarrow> (0, 0, 0, 0, s)
              | Some (h, mi, sec, s) \<Rightarrow> (case take_millis s of (ms, s) \<Rightarrow> (h, mi, sec, ms, s)));
           s = (case take_char (CHR ''Z'') s of None \<Rightarrow> s | Some s \<Rightarrow> s)
       in if s = [] \<or> s = [CHR 10]
          then Some \<lparr>c_year = y, c_month = m, c_day = d, c_hour = h, c_minute = mi, c_second = sec,
                     c_micro = ms * 1000\<rparr>
          else None)))))"

text \<open>\<open>datetime.fromisoformat\<close> raises \<open>ValueError\<close> when a field is out of range.\<close>

definition parse_isodatetime :: "string \<Rightarrow> time_error + py_datetime" where
  "parse_isodatetime time_string = (case ivoa_pattern time_string of
     Some c \<Rightarrow> if civil_valid c then Inr \<lparr>dt_us = us_of c, dt_tz = FixedTz 0\<rparr> else Inl TimeValueError
   | None \<Rightarrow> Inl TimeValueError)"

definition datetime_from_db :: "py_datetime option \<Rightarrow> time_error + py_datetime option" where
  "datetime_from_db time = (case time of
     None \<Rightarrow> Inr None
   | Some t \<Rightarrow> if dt_tz t \<notin> {Naive, FixedTz 0} then Inl TimeValueError
               else Inr (Some (t\<lparr>dt_tz := FixedTz 0\<rparr>)))"

definition datetime_to_db :: "py_datetime option \<Rightarrow> time_error + py_datetime option" where
  "datetime_to_db time = (case time of
     None \<Rightarrow> Inr None
   | Some t \<Rightarrow> if utcoffset (dt_tz t) \<noteq> Some 0 then Inl TimeValueError else Inr (Some (t\<lparr>dt_tz := Naive\<rparr>)))"

subsection \<open>Durations\<close>

text \<open>
  The pattern of \<open>parse_timedelta\<close> as the backtracking matcher runs it: a piece of the pattern
  maps the rest of the input to the list of its matches, the preferred one first, and the whole
  pattern matches with the first combination that reaches the end (\<open>$\<close>, which also accepts
  a final newline).
\<close>

fun lazy_digits :: "string \<Rightarrow> string \<Rightarrow> (string \<times> string) list" where
  "lazy_digits acc [] = []"
| "lazy_digits acc (c # s) =
     (if is_digit c then (acc @ [c], s) # lazy_digits (acc @ [c]) s else [])"

fun greedy_spaces :: "string \<Rightarrow> string list" where
  "greedy_spaces [] = [[]]"
| "greedy_spaces (c # s) = (if py_space c then greedy_spaces s @ [c # s] else [c # s])"

definition literal_alt :: "string list \<Rightarrow> string \<Rightarrow> string list" where
  "literal_alt units s = map (\<lambda>u. drop (length u) s) (filter (py_startswith s) units)"

definition duration_group :: "string list \<Rightarrow> string \<Rightarrow> (string option \<times> string) list" where
  "duration_group units s =
     concat (map (\<lambda>(ds, s). concat (map (\<lambda>s. map (\<lambda>s. (Some ds, s)) (literal_alt units s)) (greedy_spaces s)))
       (lazy_digits [] s)) @ [(None, s)]"

definition duration_units :: "string list list" where
  "duration_units =
     [[''weeks'', ''week'', ''w''], [''days'', ''day'', ''d''], [''hours'', ''hour'', ''hr'', ''h''],
      [''minutes'', ''minute'', ''mins'', ''min'', ''m''],
      [''seconds'', ''second'', ''secs'', ''sec'', ''s'']]"

text \<open>The groups separated by optional white space, then the end.\<close>

fun duration_match :: "string list list \<Rightarrow> string \<Rightarrow> string option list list" where
  "duration_match [] s = (if s = [] \<or> s = [CHR 10] then [[]] else [])"
| "duration_match (units # rest) s =
     concat (map (\<lambda>(v, s). map ((#) v) (concat (map (duration_match rest)
         (if rest = [] then [s] else greedy_spaces s))))
       (duration_group units s))"

text \<open>
  \<open>int(v)\<close> of more than 4300 digits raises \<open>ValueError\<close>; \<open>timedelta\<close> raises \<open>OverflowError\<close>
  from a billion days on.
\<close>

definition duration_seconds :: "int list \<Rightarrow> int" where
  "duration_seconds vs = sum_list (map2 (*) [604800, 86400, 3600, 60, 1] vs)"

definition parse_timedelta :: "string \<Rightarrow> time_error + int" where
  "parse_timedelta text = (case duration_match duration_units (py_strip text) of
     [] \<Rightarrow> Inl TimeValueError
   | vs # _ \<Rightarrow>
       if list_ex (\<lambda>v. case v of None \<Rightarrow> False | Some ds \<Rightarrow> length ds > 4300) vs then Inl TimeValueError
       else let seconds = duration_seconds (map (\<lambda>v. case v of None \<Rightarrow> 0 | Some ds \<Rightarrow> int (digits_val ds)) vs)
            in if seconds div 86400 > 999999999 then Inl TimeOverflowError else Inr (seconds * 1000000))"

subsection \<open>Reading back what was printed\<close>

lemma civil_of_correct:
  assumes "us_ok us"
  shows "civil_valid (civil_of us) \<and> us_of (civil_of us) = us"
proof -
  obtain y m d where o: "ord2ymd (us div day_us + 1) = (y, m, d)" by (metis prod_cases3)
  have "1 \<le> us div day_us + 1" "us div day_us + 1 \<le> 3652059"
    using assms by (auto simp: us_ok_def day_us_def pos_imp_zdiv_nonneg_iff)
  note ymd = ord2ymd_correct [OF this o]
  define r where "r = us mod day_us"
  have r: "0 \<le> r" "r < day_us" "us = us div day_us * day_us + r"
    by (simp_all add: r_def day_us_def)
  have h: "r = 3600000000 * (r div 3600000000) + 60000000 * (r div 60000000 mod 60)
      + 1000000 * (r div 1000000 mod 60) + r mod 1000000"
  proof -
    define sec mn where "sec = r div 1000000" and "mn = sec div 60"
    have "r div 60000000 = mn" "r div 3600000000 = mn div 60"
      using zdiv_zmult2_eq [of 60 r 1000000] zdiv_zmult2_eq [of 60 r 60000000]
      by (simp_all add: sec_def mn_def)
    moreover have "r' = 3600000000 * h + 60000000 * w + 1000000 * v + u"
      if "r' = 1000000 * s + u" "s = 60 * m + v" "m = 60 * h + w" for r' s m h u v w :: int
      using that by simp
    moreover have "r = 1000000 * sec + r mod 1000000" "sec = 60 * mn + sec mod 60" "mn = 60 * (mn div 60) + mn mod 60"
      by (simp_all add: sec_def mn_def)
    ultimately show ?thesis unfolding sec_def [symmetric] by metis
  qed
  have civ: "civil_of us = \<lparr>c_year = y, c_month = m, c_day = d, c_hour = r div 3600000000,
      c_minute = r div 60000000 mod 60, c_second = r div 1000000 mod 60, c_micro = r mod 1000000\<rparr>"
    using o by (simp add: civil_of_def r_def Let_def)
  have hb: "r div 3600000000 < 24" "0 \<le> r div 3600000000"
    using r(1,2) by (simp_all add: day_us_def div_less_iff_less_mult pos_imp_zdiv_nonneg_iff)
  have "civil_valid (civil_of us)"
    unfolding civ civil_valid_def civil.select_convs
    using conjunct1 [OF ymd] hb pos_mod_sign pos_mod_bound by (intro conjI) simp_all
  moreover have "us_of (civil_of us) = us"
  proof -
    have "(ymd2ord y m d - 1) * day_us + r div 3600000000 * 3600000000 + r div 60000000 mod 60 * 60000000
      + r div 1000000 mod 60 * 1000000 + r mod 1000000 = us div day_us * day_us + r"
    proof -
      have alg: "e * x + a * 3600000000 + b * 60000000 + c * 1000000 + u = e * x + r'"
        if "r' = 3600000000 * a + 60000000 * b + 1000000 * c + u" for e x a b c u r' :: int
        using that by simp
      have e: "ymd2ord y m d - 1 = us div day_us" using ymd by simp
      show ?thesis unfolding e by (rule alg [OF h])
    qed
    also have "\<dots> = us" using r(3) by (rule sym)
    finally show ?thesis unfolding civ us_of_def civil.select_convs .
  qed
  ultimately show ?thesis by (rule conjI)
qed

lemma zero_pad_digits:
  "list_all is_digit s \<Longrightarrow> list_all is_digit (zero_pad n s) \<and> digits_val (zero_pad n s) = digits_val s"
proof -
  have "foldl (\<lambda>v c. 10 * v + digit_val c) 0 (replicate k CHR ''0'') = 0" for k
    by (induction k) (simp_all add: digit_val_def)
  then show "list_all is_digit s \<Longrightarrow> ?thesis"
    by (auto simp: zero_pad_def digits_val_def list_all_iff is_digit_def)
qed

lemma length_zero_pad: "length s \<le> n \<Longrightarrow> length (zero_pad n s) = n"
  by (simp add: zero_pad_def)

lemma length_nat_str: "n < 10 ^ Suc k \<Longrightarrow> length (nat_str n) \<le> Suc k"
proof (induction n arbitrary: k rule: nat_str.induct)
  case (1 n)
  show ?case
  proof (cases "n < 10")
    case True
    then show ?thesis by (simp add: nat_str.simps [of n])
  next
    case False
    then obtain j where j: "k = Suc j" using "1.prems" by (cases k) auto
    then have "n div 10 < 10 ^ Suc j" using "1.prems" by (simp add: div_less_iff_less_mult)
    then show ?thesis using "1.IH" [OF False] j False by (simp add: nat_str.simps [of n])
  qed
qed

lemma length_nat_str_ge: "10 ^ k \<le> n \<Longrightarrow> Suc k \<le> length (nat_str n)"
proof (induction n arbitrary: k rule: nat_str.induct)
  case (1 n)
  show ?case
  proof (cases k)
    case 0
    then show ?thesis using nat_str_not_Nil [of n] by (cases "nat_str n") auto
  next
    case (Suc j)
    then have "10 * 10 ^ j \<le> n" using "1.prems" by simp
    then have "10 ^ j \<le> n div 10" by (simp add: less_eq_div_iff_mult_less_eq)
    moreover have n: "\<not> n < 10"
    proof -
      have "10 * 1 \<le> 10 * (10::nat) ^ j" by (rule mult_le_mono2) simp
      then show ?thesis using \<open>10 * 10 ^ j \<le> n\<close> by linarith
    qed
    ultimately show ?thesis using "1.IH" [OF n, of j] Suc by (simp add: nat_str.simps [of n])
  qed
qed

lemma take_digits_append:
  "length s = n \<Longrightarrow> list_all is_digit s \<Longrightarrow> take_digits n (s @ t) = Some (int (digits_val s), t)"
  by (simp add: take_digits_def)

lemma take_two: "0 \<le> i \<Longrightarrow> i < 100 \<Longrightarrow> take_digits 2 (two i @ t) = Some (i, t)"
proof -
  assume i: "0 \<le> i" "i < 100"
  then have "nat i < 10 ^ Suc 1" by simp
  from length_nat_str [OF this] have "length (nat_str (nat i)) \<le> 2" by simp
  moreover have "list_all is_digit (nat_str (nat i))" "digits_val (nat_str (nat i)) = nat i"
    using nat_str_digits by auto
  ultimately show ?thesis using i zero_pad_digits [of "nat_str (nat i)" 2]
    by (simp add: two_def int_str_def take_digits_append length_zero_pad)
qed

lemma take_year: "1000 \<le> y \<Longrightarrow> y \<le> 9999 \<Longrightarrow> take_digits 4 (int_str y @ t) = Some (y, t)"
proof -
  assume y: "1000 \<le> y" "y \<le> 9999"
  then have "nat y < 10 ^ Suc 3" "10 ^ 3 \<le> nat y" by simp_all
  from length_nat_str [OF this(1)] length_nat_str_ge [OF this(2)]
  have "length (nat_str (nat y)) = 4" by simp
  moreover have "list_all is_digit (nat_str (nat y))" "digits_val (nat_str (nat y)) = nat y"
    using nat_str_digits by auto
  ultimately show ?thesis using y by (simp add: int_str_def take_digits_append)
qed

lemma take_char_same [simp]: "take_char c (c # s) = Some s"
  by (simp add: take_char_def)

lemma ivoa_pattern_strftime:
  assumes "civil_valid c" "1000 \<le> c_year c" "c_micro c = 0"
  shows "ivoa_pattern (strftime_iso c) = Some c"
proof -
  have b: "c_month c < 100" "c_day c < 100" "0 \<le> c_month c" "0 \<le> c_day c" "c_year c \<le> 9999"
  proof -
    have "nat (c_month c - 1) < 12" using assms(1) by (auto simp: civil_valid_def date_valid_def)
    then have "days_in_month (c_year c) (c_month c) \<le> 31"
      unfolding days_in_month_def month_table_def
      by (auto simp: less_Suc_eq numeral_eq_Suc nth_Cons' Let_def)
    then show "c_month c < 100" "c_day c < 100" "0 \<le> c_month c" "0 \<le> c_day c" "c_year c \<le> 9999"
      using assms(1) by (auto simp: civil_valid_def date_valid_def)
  qed
  have h: "0 \<le> c_hour c" "c_hour c < 100" "0 \<le> c_minute c" "c_minute c < 100" "0 \<le> c_second c" "c_second c < 100"
    using assms(1) by (auto simp: civil_valid_def)
  have "take_clock (''T'' @ two (c_hour c) @ '':'' @ two (c_minute c) @ '':'' @ two (c_second c) @ ''Z'')
      = Some (c_hour c, c_minute c, c_second c, ''Z'')"
    using h by (simp add: take_clock_def take_two)
  moreover have "take_millis ''Z'' = (0, ''Z'')" by (simp add: take_millis_def take_char_def)
  ultimately show ?thesis using b assms(2,3)
    by (simp add: ivoa_pattern_def strftime_iso_def take_year take_two)
qed


text \<open> C20. The text \<open>isodatetime\<close> makes of a UTC time of whole seconds from the year 1000 on
  is accepted by \<open>parse_isodatetime\<close>, which returns the same instant in UTC. \<close>
theorem isodatetime_roundtrip:
  assumes "utcoffset (dt_tz t) = Some 0" "us_ok (dt_us t)" "dt_us t mod 1000000 = 0"
    "1000 \<le> c_year (civil_of (dt_us t))"
  shows "\<exists>text. isodatetime t = Inr text \<and> parse_isodatetime text = Inr \<lparr>dt_us = dt_us t, dt_tz = FixedTz 0\<rparr>"
proof -
  have "c_micro (civil_of (dt_us t)) = 0"
  proof -
    have "dt_us t mod 86400000000 mod 1000000 = dt_us t mod 1000000"
      by (rule mod_mod_cancel) simp
    then show ?thesis using assms(3) by (simp add: civil_of_def day_us_def Let_def split: prod.split)
  qed
  then show ?thesis
    using assms civil_of_correct [OF assms(2)] ivoa_pattern_strftime [of "civil_of (dt_us t)"]
    by (simp add: isodatetime_def parse_isodatetime_def)
qed

theorem isodatetime_roundtrip_witness:
  "\<exists>text. isodatetime \<lparr>dt_us = 63897638399000000, dt_tz = OtherTz 0\<rparr> = Inr text \<and>
     parse_isodatetime text = Inr \<lparr>dt_us = 63897638399000000, dt_tz = FixedTz 0\<rparr>"
proof -
  let ?t = "\<lparr>dt_us = 63897638399000000, dt_tz = OtherTz 0\<rparr>"
  have y: "1000 \<le> c_year (civil_of (dt_us ?t))" by code_simp
  show ?thesis using isodatetime_roundtrip [of ?t] y by (simp add: us_ok_def day_us_def)
qed

text \<open>
  What the matcher does on a number directly followed by a unit: no shorter digit string is
  followed by a unit, so the whole number is the only way to take the group.
\<close>

lemma greedy_spaces_hd: "s \<noteq> [] \<Longrightarrow> \<not> py_space (hd s) \<Longrightarrow> greedy_spaces s = [s]"
  by (cases s) auto

lemma lazy_digits_number:
  "list_all is_digit ds \<Longrightarrow> s = [] \<or> \<not> is_digit (hd s) \<Longrightarrow>
    lazy_digits acc (ds @ s) = map (\<lambda>k. (acc @ take (Suc k) ds, drop (Suc k) ds @ s)) [0..<length ds]"
proof (induction ds arbitrary: acc)
  case Nil
  then show ?case by (cases s) auto
next
  case (Cons d ds)
  then show ?case by (simp add: upt_conv_Cons map_Suc_upt [symmetric] o_def del: upt_Suc)
qed

lemma literal_alt_digit: "is_digit c \<Longrightarrow> units \<in> set duration_units \<Longrightarrow> literal_alt units (c # s) = []"
  by (auto simp: literal_alt_def duration_units_def py_startswith_def is_digit_def)

lemma duration_group_number:
  assumes "units \<in> set duration_units" "ds \<noteq> []" "list_all is_digit ds"
    "s \<noteq> []" "\<not> is_digit (hd s)" "\<not> py_space (hd s)"
  shows "duration_group units (ds @ s) = map (Pair (Some ds)) (literal_alt units s) @ [(None, ds @ s)]"
proof -
  let ?f = "\<lambda>(ds, s). concat (map (\<lambda>s. map (\<lambda>s. (Some ds, s)) (literal_alt units s)) (greedy_spaces s))"
  obtain n where n: "length ds = Suc n" using assms(2) by (cases ds) auto
  have "?f (take (Suc k) ds, drop (Suc k) ds @ s) = []" if "k < n" for k
  proof -
    obtain c t where c: "drop (Suc k) ds = c # t" using \<open>k < n\<close> n by (cases "drop (Suc k) ds") auto
    then have d: "is_digit c" using assms(3) by (metis in_set_dropD list.set_intros(1) list_all_iff)
    then show ?thesis using c assms(1) is_digit_not_space [of c] by (simp add: literal_alt_digit)
  qed
  then have "concat (map ?f (map (\<lambda>k. (take (Suc k) ds, drop (Suc k) ds @ s)) [0..<n])) = []"
    by (auto simp del: concat_map_singleton)
  moreover have "?f (take (Suc n) ds, drop (Suc n) ds @ s) = map (Pair (Some ds)) (literal_alt units s)"
    using assms(4,6) n by (simp add: greedy_spaces_hd)
  ultimately show ?thesis
    using lazy_digits_number [of ds s "[]"] assms(3,5) n by (simp add: duration_group_def)
qed

text \<open>A duration as a list of optional numbers with the unit each is spelled with.\<close>

fun duration_text :: "(nat \<times> string) option list \<Rightarrow> string" where
  "duration_text [] = []"
| "duration_text (None # cs) = duration_text cs"
| "duration_text (Some (n, u) # cs) = nat_str n @ u @ duration_text cs"

definition duration_choice :: "string list \<Rightarrow> (nat \<times> string) option \<Rightarrow> bool" where
  "duration_choice units c \<longleftrightarrow> (case c of None \<Rightarrow> True | Some (n, u) \<Rightarrow> u \<in> set units)"

definition choice_value :: "(nat \<times> string) option \<Rightarrow> int" where
  "choice_value c = (case c of None \<Rightarrow> 0 | Some (n, u) \<Rightarrow> int n)"

lemma duration_text_hd: "duration_text cs = [] \<or> is_digit (hd (duration_text cs))"
proof (induction cs rule: duration_text.induct)
  case (3 n u cs)
  show ?case using nat_str_digits [of n] by (cases "nat_str n") auto
qed simp_all

lemma units_longest_first:
  "\<forall>units \<in> set duration_units. \<forall>u \<in> set units.
     filter (py_startswith u) units = u # tl (filter (py_startswith u) units)"
  by code_simp

lemma unit_no_digit: "\<forall>units \<in> set duration_units. \<forall>u \<in> set units. \<forall>c \<in> set u. \<not> is_digit c"
  by code_simp

lemma py_startswith_no_digit:
  assumes "\<forall>c \<in> set v. \<not> is_digit c" "s = [] \<or> is_digit (hd s)"
  shows "py_startswith (u @ s) v = py_startswith u v"
proof
  assume "py_startswith (u @ s) v"
  then obtain t where t: "u @ s = v @ t" by (auto simp: py_startswith_iff)
  then obtain w where "u = v @ w \<or> v = u @ w \<and> s = w @ t" by (auto simp: append_eq_append_conv2)
  then show "py_startswith u v"
  proof (elim disjE conjE)
    assume w: "v = u @ w" "s = w @ t"
    show ?thesis
    proof (cases w)
      case (Cons c cs)
      then have "is_digit c" using w(2) assms(2) by simp
      then show ?thesis using assms(1) w(1) Cons by auto
    qed (use w in \<open>simp add: py_startswith_def\<close>)
  qed simp
next
  assume "py_startswith u v"
  then show "py_startswith (u @ s) v" by (auto simp: py_startswith_iff)
qed

lemma literal_alt_own:
  assumes "units \<in> set duration_units" "u \<in> set units" "s = [] \<or> is_digit (hd s)"
  shows "\<exists>more. literal_alt units (u @ s) = s # more"
proof -
  have "filter (py_startswith (u @ s)) units = filter (py_startswith u) units"
    using unit_no_digit assms py_startswith_no_digit [OF _ assms(3)] by (intro filter_cong) auto
  also obtain us where "\<dots> = u # us" using units_longest_first assms(1,2) by blast
  finally show ?thesis by (simp add: literal_alt_def)
qed

lemma literal_alt_other:
  assumes "units \<in> set duration_units" "units' \<in> set duration_units" "units \<noteq> units'" "u \<in> set units'"
  shows "literal_alt units (u @ s) = []"
proof -
  have letters: "\<forall>x \<in> set duration_units. \<forall>v \<in> set x. v \<noteq> [] \<and> hd v = hd (hd x)"
    "\<forall>x \<in> set duration_units. \<forall>y \<in> set duration_units. hd (hd x) = hd (hd y) \<longrightarrow> x = y"
    by (simp_all add: duration_units_def)
  have "\<not> py_startswith (u @ s) v" if "v \<in> set units" for v
  proof
    assume "py_startswith (u @ s) v"
    then obtain t where t: "u @ s = v @ t" by (auto simp: py_startswith_iff)
    have "v \<noteq> []" "u \<noteq> []" "hd v = hd (hd units)" "hd u = hd (hd units')"
      using letters(1) assms(1,2,4) that by blast+
    then have "hd (hd units) = hd (hd units')" using t by (metis hd_append2)
    then show False using letters(2) assms(1-3) by blast
  qed
  then have "filter (py_startswith (u @ s)) units = []" by (simp add: filter_empty_conv)
  then show ?thesis by (simp add: literal_alt_def)
qed

lemma unit_hd: "units \<in> set duration_units \<Longrightarrow> u \<in> set units \<Longrightarrow>
    u @ s \<noteq> [] \<and> \<not> is_digit (hd (u @ s)) \<and> \<not> py_space (hd (u @ s))"
  by (auto simp: duration_units_def is_digit_def py_space_def)

lemma duration_group_other:
  assumes "units \<in> set duration_units" "units \<notin> set us" "set us \<subseteq> set duration_units"
    "list_all2 duration_choice us cs"
  shows "duration_group units (duration_text cs) = [(None, duration_text cs)]"
  using assms(4,2,3)
proof (induction us cs rule: list_all2_induct)
  case Nil
  then show ?case by (simp add: duration_group_def)
next
  case (Cons x xs c cs)
  show ?case
  proof (cases c)
    case None
    then show ?thesis using Cons by simp
  next
    case (Some nu)
    then obtain n u where c: "c = Some (n, u)" by (cases nu) auto
    have u: "x \<in> set duration_units" "u \<in> set x" "units \<noteq> x"
      using Cons c by (auto simp: duration_choice_def)
    then have "duration_group units (nat_str n @ u @ duration_text cs)
        = [(None, nat_str n @ u @ duration_text cs)]"
      using duration_group_number [OF assms(1), of "nat_str n" "u @ duration_text cs"]
        nat_str_digits [of n] unit_hd [OF u(1,2)] literal_alt_other [OF assms(1) u(1) u(3) u(2)] by simp
    then show ?thesis using c by simp
  qed
qed

lemma greedy_spaces_text: "greedy_spaces (duration_text cs) = [duration_text cs]"
proof (cases "duration_text cs = []")
  case False
  then have "is_digit (hd (duration_text cs))" using duration_text_hd by blast
  then show ?thesis using False greedy_spaces_hd is_digit_not_space by blast
qed simp

lemma duration_match_text:
  assumes "list_all2 duration_choice us cs" "distinct us" "set us \<subseteq> set duration_units"
  shows "\<exists>more. duration_match us (duration_text cs) = map (map_option (\<lambda>c. nat_str (fst c))) cs # more"
  using assms
proof (induction us cs rule: list_all2_induct)
  case Nil
  then show ?case by simp
next
  case (Cons x xs c cs)
  then obtain more where IH: "duration_match xs (duration_text cs) = map (map_option (\<lambda>c. nat_str (fst c))) cs # more"
    by auto
  have sp: "(if xs = [] then [duration_text cs] else greedy_spaces (duration_text cs)) = [duration_text cs]"
    by (simp add: greedy_spaces_text)
  have "\<exists>others. duration_group x (duration_text (c # cs)) = (map_option (\<lambda>c. nat_str (fst c)) c, duration_text cs) # others"
  proof (cases c)
    case None
    then show ?thesis using duration_group_other [of x xs cs] Cons by simp
  next
    case (Some nu)
    then obtain n u where c: "c = Some (n, u)" by (cases nu) auto
    have u: "x \<in> set duration_units" "u \<in> set x" using Cons c by (auto simp: duration_choice_def)
    obtain alts where "literal_alt x (u @ duration_text cs) = duration_text cs # alts"
      using literal_alt_own [OF u duration_text_hd] by blast
    then show ?thesis
      using duration_group_number [OF u(1), of "nat_str n" "u @ duration_text cs"]
        nat_str_digits [of n] unit_hd [OF u] c by simp
  qed
  then show ?case using sp IH by (auto simp del: duration_text.simps)
qed

lemma unit_no_space: "\<forall>units \<in> set duration_units. \<forall>u \<in> set units. \<forall>c \<in> set u. \<not> py_space c"
  by code_simp

lemma duration_text_no_space:
  "list_all2 duration_choice us cs \<Longrightarrow> set us \<subseteq> set duration_units \<Longrightarrow> \<forall>c \<in> set (duration_text cs). \<not> py_space c"
proof (induction us cs rule: list_all2_induct)
  case (Cons x xs c cs)
  show ?case
  proof (cases c)
    case (Some nu)
    then obtain n u where c: "c = Some (n, u)" by (cases nu) auto
    then have "\<forall>c \<in> set u. \<not> py_space c"
      using Cons unit_no_space by (auto simp: duration_choice_def)
    then show ?thesis using Cons c nat_str_no_space [of n] by auto
  qed (use Cons in auto)
qed simp

text \<open>\<open>parse_timedelta\<close> reads a duration written with any of the documented units, each
  present or not, in the documented order: it returns the total, or raises \<open>OverflowError\<close> when
  the total is a billion days or more. \<close>
theorem parse_timedelta_total:
  assumes "list_all2 duration_choice duration_units cs"
    and "list_all (\<lambda>c. length (nat_str (nat (choice_value c))) \<le> 4300) cs"
  shows "parse_timedelta (duration_text cs) =
    (let seconds = duration_seconds (map choice_value cs)
     in if seconds div 86400 > 999999999 then Inl TimeOverflowError else Inr (seconds * 1000000))"
proof -
  have d: "distinct duration_units" by (simp add: duration_units_def)
  obtain more where m: "duration_match duration_units (duration_text cs) = map (map_option (\<lambda>c. nat_str (fst c))) cs # more"
    using duration_match_text [OF assms(1) d] by blast
  let ?ds = "map (map_option (\<lambda>c. nat_str (fst c))) cs"
  have "map (\<lambda>v. case v of None \<Rightarrow> 0 | Some ds \<Rightarrow> int (digits_val ds)) ?ds = map choice_value cs"
    using nat_str_digits by (auto simp: choice_value_def split: option.split)
  moreover have "\<not> list_ex (\<lambda>v. case v of None \<Rightarrow> False | Some ds \<Rightarrow> length ds > 4300) ?ds"
  proof
    assume "list_ex (\<lambda>v. case v of None \<Rightarrow> False | Some ds \<Rightarrow> length ds > 4300) ?ds"
    then obtain n u where "Some (n, u) \<in> set cs" "length (nat_str n) > 4300"
      by (auto simp: list_ex_iff split: option.splits)
    then show False using assms(2) by (force simp: list_all_iff choice_value_def)
  qed
  moreover have "py_strip (duration_text cs) = duration_text cs"
    using duration_text_no_space [OF assms(1)] by (intro py_strip_id) simp
  ultimately show ?thesis
    unfolding parse_timedelta_def by (simp only: m list.case if_False)
qed

theorem parse_timedelta_total_witness:
  "parse_timedelta (duration_text [None, None, Some (4, ''h''), Some (3, ''minutes''), None]) = Inr 14580000000"
proof -
  let ?cs = "[None, None, Some (4, ''h''), Some (3, ''minutes''), None]"
  have "list_all2 duration_choice duration_units ?cs" by code_simp
  moreover have "list_all (\<lambda>c. length (nat_str (nat (choice_value c))) \<le> 4300) ?cs" by code_simp
  ultimately show ?thesis using parse_timedelta_total [of ?cs]
    by (simp add: duration_seconds_def choice_value_def)
qed

end
