(* ===== verification/Blockkit.thy ===== *)
theory Blockkit
  imports TimeText
begin

text \<open>
  Slack Block Kit messages and the exceptions that report themselves to Slack and Sentry:
  \<open>safir.slack.blockkit\<close> and \<open>safir.slack.sentry\<close>.  Slack rejects a message one of whose texts
  is over its limit, so the truncation functions are what keeps an alert deliverable.
\<close>

datatype slack_error = SlackIndexError | SlackValueError

subsection \<open>Escaping and truncating\<close>

definition newline :: char where
  "newline = CHR 10"

definition slack_escape :: "string \<Rightarrow> string" where
  "slack_escape s = py_replace (CHR ''>'') ''&gt;'' (py_replace (CHR ''<'') ''&lt;''
     (py_replace (CHR 38) ''&amp;'' (py_strip s)))"

definition end_marker :: string where
  "end_marker = newline # ''... truncated ...''"

definition start_marker :: string where
  "start_marker = ''... truncated ...'' @ [newline]"

definition format_and_truncate_at_end :: "string \<Rightarrow> int \<Rightarrow> string" where
  "format_and_truncate_at_end str max_length =
     (let str = slack_escape str in
      if int (length str) \<le> max_length then str
      else let last_newline = py_rfind newline str (max_length - int (length end_marker)) in
           if last_newline = -1
           then py_slice_to str (max_length - int (length end_marker)) @ end_marker
           else py_slice_to str last_newline @ end_marker)"

text \<open>The loop that pops lines off the front; popping from an empty list raises \<open>IndexError\<close>.\<close>

fun pop_lines :: "int \<Rightarrow> int \<Rightarrow> string list \<Rightarrow> slack_error + string list" where
  "pop_lines bound len lines =
     (if bound < len
      then (case lines of [] \<Rightarrow> Inl SlackIndexError
            | line # lines' \<Rightarrow> pop_lines bound (len - (int (length line) + 1)) lines')
      else Inr lines)"

declare pop_lines.simps [simp del]

definition format_and_truncate_at_start :: "string \<Rightarrow> int \<Rightarrow> slack_error + string" where
  "format_and_truncate_at_start str max_length =
     (let str = slack_escape str; len = int (length str); marker = int (length start_marker) in
      if len \<le> max_length then Inr str
      else let lines = py_split newline str in
           if length lines = 1
           then Inr (start_marker @ py_slice_from str (len - max_length + marker))
           else (case pop_lines (max_length - marker) len lines of
                   Inl e \<Rightarrow> Inl e
                 | Inr lines \<Rightarrow> Inr (start_marker @ py_join [newline] lines)))"

subsection \<open>Blocks, fields and messages\<close>

datatype slack_block =
    SlackTextBlock (blk_heading: string) (blk_text: string)
  | SlackCodeBlock (blk_heading: string) (blk_text: string)
  | SlackTextField (blk_heading: string) (blk_text: string)
  | SlackCodeField (blk_heading: string) (blk_text: string)

fun is_slack_field :: "slack_block \<Rightarrow> bool" where
  "is_slack_field (SlackTextField _ _) = True"
| "is_slack_field (SlackCodeField _ _) = True"
| "is_slack_field _ = False"

definition max_formatted_length :: "slack_block \<Rightarrow> int" where
  "max_formatted_length b = (if is_slack_field b then 2000 else 3000)"

text \<open>A Slack text object: \<open>{"type": "mrkdwn", "text": ..., "verbatim": ...}\<close>.\<close>

record mrkdwn =
  mk_text :: string
  mk_verbatim :: bool

definition text_to_slack :: "int \<Rightarrow> string \<Rightarrow> string \<Rightarrow> slack_error + mrkdwn" where
  "text_to_slack limit hd_text body =
     (let heading = ''*'' @ hd_text @ ''*'' @ [newline];
          max_length = limit - int (length heading);
          body = format_and_truncate_at_end body max_length
      in Inr \<lparr>mk_text = heading @ body, mk_verbatim = True\<rparr>)"

definition code_to_slack :: "int \<Rightarrow> string \<Rightarrow> string \<Rightarrow> slack_error + mrkdwn" where
  "code_to_slack limit hd_text code =
     (let heading = ''*'' @ hd_text @ ''*'' @ [newline];
          extra_needed = int (length heading) + 8;
          max_length = limit - extra_needed
      in case format_and_truncate_at_start code max_length of
           Inl e \<Rightarrow> Inl e
         | Inr code \<Rightarrow>
             Inr \<lparr>mk_text = heading @ ''```'' @ [newline] @ code @ [newline] @ ''```'', mk_verbatim = True\<rparr>)"

fun block_to_slack :: "slack_block \<Rightarrow> slack_error + mrkdwn" where
  "block_to_slack (SlackTextBlock h t) = text_to_slack (max_formatted_length (SlackTextBlock h t)) h t"
| "block_to_slack (SlackTextField h t) = text_to_slack (max_formatted_length (SlackTextField h t)) h t"
| "block_to_slack (SlackCodeBlock h t) = code_to_slack (max_formatted_length (SlackCodeBlock h t)) h t"
| "block_to_slack (SlackCodeField h t) = code_to_slack (max_formatted_length (SlackCodeField h t)) h t"

record slack_message =
  sm_message :: string
  sm_verbatim :: bool
  sm_fields :: "slack_block list"
  sm_blocks :: "slack_block list"
  sm_attachments :: "slack_block list"

text \<open>
  Constructing a message validates it: the type of \<open>fields\<close> admits fields only, and the
  validator at most ten of them.
\<close>

definition validate_fields :: "slack_block list \<Rightarrow> slack_error + slack_block list" where
  "validate_fields v = (if length v > 10 then Inl SlackValueError else Inr v)"

definition make_slack_message ::
  "string \<Rightarrow> bool \<Rightarrow> slack_block list \<Rightarrow> slack_block list \<Rightarrow> slack_block list \<Rightarrow> slack_error + slack_message" where
  "make_slack_message message verbatim fs blocks attachments =
     (if list_all is_slack_field fs
      then (case validate_fields fs of
              Inl e \<Rightarrow> Inl e
            | Inr fs \<Rightarrow> Inr \<lparr>sm_message = message, sm_verbatim = verbatim, sm_fields = fs,
                                sm_blocks = blocks, sm_attachments = attachments\<rparr>)
      else Inl SlackValueError)"

datatype slack_section = Section mrkdwn | SectionFields "mrkdwn list" | Divider

record slack_payload =
  sp_blocks :: "slack_section list"
  sp_attachments :: "slack_section list option"

definition message_to_slack :: "slack_message \<Rightarrow> slack_error + slack_payload" where
  "message_to_slack m =
     (case traverse block_to_slack (sm_attachments m) of Inl e \<Rightarrow> Inl e | Inr attachments \<Rightarrow>
      let message = format_and_truncate_at_end (sm_message m) 3000;
          first = Section \<lparr>mk_text = message, mk_verbatim = sm_verbatim m\<rparr>
      in (case traverse block_to_slack (sm_fields m) of Inl e \<Rightarrow> Inl e | Inr fs \<Rightarrow>
          (case traverse block_to_slack (sm_blocks m) of Inl e \<Rightarrow> Inl e | Inr blocks \<Rightarrow>
             let bs = [first] @ (if fs \<noteq> [] then [SectionFields fs] else []) @ map Section blocks
             in if attachments \<noteq> []
                then Inr \<lparr>sp_blocks = bs, sp_attachments = Some (map Section attachments)\<rparr>
                else Inr \<lparr>sp_blocks = bs @ (if fs \<noteq> [] \<or> sm_blocks m \<noteq> [] then [Divider] else []),
                          sp_attachments = None\<rparr>)))"

subsection \<open>Exceptions that report themselves\<close>

text \<open>
  The class of an exception is kept as its name (\<open>type(self).__name__\<close>).  The constructor takes
  the current time, used when no failure time is given.
\<close>

record slack_exception =
  se_class :: string
  se_message :: string
  se_user :: "string option"
  se_failed_at :: py_datetime

record slack_web_exception = slack_exception +
  we_method :: "string option"
  we_url :: "string option"
  we_status :: "int option"
  we_body :: "string option"

definition make_slack_exception ::
  "string \<Rightarrow> string \<Rightarrow> string option \<Rightarrow> py_datetime option \<Rightarrow> py_datetime \<Rightarrow> slack_exception" where
  "make_slack_exception cls message user failed_at now =
     \<lparr>se_class = cls, se_message = message, se_user = user,
      se_failed_at = (case failed_at of Some t \<Rightarrow> t | None \<Rightarrow> now)\<rparr>"

definition make_slack_web_exception ::
  "string \<Rightarrow> string \<Rightarrow> py_datetime option \<Rightarrow> string option \<Rightarrow> string option \<Rightarrow> string option \<Rightarrow> int option
     \<Rightarrow> string option \<Rightarrow> py_datetime \<Rightarrow> slack_web_exception" where
  "make_slack_web_exception cls message failed_at method url user status body now =
     \<lparr>se_class = cls, se_message = message, se_user = user,
      se_failed_at = (case failed_at of Some t \<Rightarrow> t | None \<Rightarrow> now),
      we_method = method, we_url = url, we_status = status, we_body = body\<rparr>"

text \<open>Python truth of an optional string.\<close>

definition truthy :: "'a list option \<Rightarrow> bool" where
  "truthy s = (case s of None \<Rightarrow> False | Some t \<Rightarrow> t \<noteq> [])"

text \<open>
  The base method; \<open>str(self)\<close> is a virtual call, so its result is an argument.  The type of the
  field excludes \<open>None\<close>, and \<open>format_datetime_for_logging\<close> never returns it for a time.
\<close>

definition slack_exception_to_slack :: "'x slack_exception_scheme \<Rightarrow> string \<Rightarrow> slack_error + slack_message" where
  "slack_exception_to_slack exc str_self =
     (case format_datetime_for_logging (Some (se_failed_at exc)) of
        Inr (Some failed_at) \<Rightarrow>
          (let fs = [SlackTextField ''Exception type'' (se_class exc), SlackTextField ''Failed at'' failed_at]
                @ (if truthy (se_user exc) then [SlackTextField ''User'' (the (se_user exc))] else [])
           in make_slack_message str_self True fs [] [])
      | _ \<Rightarrow> Inl SlackValueError)"

record sentry_info =
  si_tags :: "(string \<times> string) list"
  si_contexts :: "(string \<times> (string \<times> string) list) list"
  si_attachments :: "(string \<times> string) list"
  si_username :: "string option"

definition slack_exception_to_sentry :: "'x slack_exception_scheme \<Rightarrow> sentry_info" where
  "slack_exception_to_sentry exc =
     \<lparr>si_tags = [], si_contexts = [], si_attachments = [], si_username = se_user exc\<rparr>"

text \<open>
  The \<open>httpx\<close> errors: a status error has a response, whose body may not have been read; the
  others have a text and perhaps a request.
\<close>

datatype http_error =
    HTTPStatusError (he_status: int) (he_method: string) (he_url: string) (he_body: "string option")
  | HTTPOtherError (he_class: string) (he_text: string) (he_request: "(string \<times> string) option")

definition web_exception_from :: "string \<Rightarrow> http_error \<Rightarrow> string option \<Rightarrow> py_datetime \<Rightarrow> slack_web_exception" where
  "web_exception_from cls exc user now = (case exc of
     HTTPStatusError status method url body \<Rightarrow>
       make_slack_web_exception cls
         (''Status '' @ int_str status @ '' from '' @ method @ '' '' @ url)
         None (Some method) (Some url) user (Some status) body now
   | HTTPOtherError name txt request \<Rightarrow>
       (let message = (if txt \<noteq> [] then name @ '': '' @ txt else name) in
        case request of
          Some (method, url) \<Rightarrow>
            make_slack_web_exception cls message None (Some method) (Some url) user None None now
        | None \<Rightarrow> make_slack_web_exception cls message None None None user None None now))"

definition web_exception_str :: "'x slack_web_exception_scheme \<Rightarrow> string" where
  "web_exception_str exc = se_message exc @
     (if truthy (we_body exc) then newline # ''Body:'' @ [newline] @ the (we_body exc) @ [newline] else [])"

definition web_exception_to_slack :: "'x slack_web_exception_scheme \<Rightarrow> slack_error + slack_message" where
  "web_exception_to_slack exc =
     (case slack_exception_to_slack exc (web_exception_str exc) of
        Inl e \<Rightarrow> Inl e
      | Inr message \<Rightarrow>
          (let message = message\<lparr>sm_message := se_message exc\<rparr>;
               message = (if truthy (we_url exc)
                  then let txt = (if truthy (we_method exc) then the (we_method exc) @ '' '' @ the (we_url exc)
                                  else the (we_url exc))
                       in message\<lparr>sm_blocks := sm_blocks message @ [SlackTextBlock ''URL'' txt]\<rparr>
                  else message);
               message = (if truthy (we_body exc)
                  then message\<lparr>sm_attachments :=
                         sm_attachments message @ [SlackCodeBlock ''Response'' (the (we_body exc))]\<rparr>
                  else message)
           in Inr message))"

definition web_exception_to_sentry :: "'x slack_web_exception_scheme \<Rightarrow> sentry_info" where
  "web_exception_to_sentry exc =
     (let info = slack_exception_to_sentry exc;
          info = (if truthy (we_url exc)
            then (let info = (if truthy (we_method exc)
                    then info\<lparr>si_tags := AList.update ''httpx_request_method'' (the (we_method exc)) (si_tags info)\<rparr>
                    else info)
                  in info\<lparr>si_tags := AList.update ''httpx_request_url'' (the (we_url exc)) (si_tags info)\<rparr>)
            else info)
      in if truthy (we_body exc)
         then info\<lparr>si_attachments := AList.update ''httpx_response_body'' (the (we_body exc)) (si_attachments info)\<rparr>
         else info)"

subsection \<open>What truncation guarantees\<close>

lemma length_end_marker [simp]: "length end_marker = 18"
  by (simp add: end_marker_def)

lemma length_start_marker [simp]: "length start_marker = 18"
  by (simp add: start_marker_def)

lemma slack_escape_no_angle: "CHR ''<'' \<notin> set (slack_escape s) \<and> CHR ''>'' \<notin> set (slack_escape s)"
proof -
  have "CHR ''<'' \<notin> set (py_replace (CHR ''>'') ''&gt;'' (py_replace (CHR ''<'') ''&lt;'' t))" for t
    by (induction t) auto
  then show ?thesis unfolding slack_escape_def by (simp add: set_py_replace)
qed

lemma truncate_end_length:
  "18 \<le> max_length \<Longrightarrow> int (length (format_and_truncate_at_end s max_length)) \<le> max_length"
  using length_py_slice_to [of "max_length - 18" "slack_escape s"]
    length_py_slice_to [of "py_rfind newline (slack_escape s) (max_length - 18)" "slack_escape s"]
    py_rfind_bound [of "max_length - 18" newline "slack_escape s"]
  by (auto simp: format_and_truncate_at_end_def Let_def)

lemma truncate_end_prefix:
  "format_and_truncate_at_end s max_length = slack_escape s \<and> int (length (slack_escape s)) \<le> max_length \<or>
    (\<exists>p q. slack_escape s = p @ q \<and> format_and_truncate_at_end s max_length = p @ end_marker)"
proof -
  have "\<exists>q. slack_escape s = py_slice_to (slack_escape s) k @ q" for k
    by (metis append_take_drop_id py_slice_to_def)
  then show ?thesis by (auto simp: format_and_truncate_at_end_def Let_def)
qed

lemma pop_lines_total:
  "0 \<le> bound + 1 \<Longrightarrow> lines \<noteq> [] \<and> len = int (length (py_join [newline] lines)) \<or> lines = [] \<and> len = -1 \<Longrightarrow>
    \<exists>k. pop_lines bound len lines = Inr (drop k lines) \<and>
      (int (length (py_join [newline] (drop k lines))) \<le> max bound 0)"
proof (induction bound len lines rule: pop_lines.induct)
  case (1 bound len lines)
  show ?case
  proof (cases "bound < len")
    case False
    then show ?thesis using "1.prems" by (intro exI [of _ 0]) (auto simp: pop_lines.simps)
  next
    case True
    then obtain l ls where ls: "lines = l # ls" using "1.prems" by (cases lines) auto
    then have "ls \<noteq> [] \<and> len - (int (length l) + 1) = int (length (py_join [newline] ls)) \<or>
        ls = [] \<and> len - (int (length l) + 1) = -1"
      using "1.prems" by (cases ls) auto
    then obtain k where "pop_lines bound (len - (int (length l) + 1)) ls = Inr (drop k ls)"
        "int (length (py_join [newline] (drop k ls))) \<le> max bound 0"
      using "1.IH" [OF True ls "1.prems"(1)] by auto
    then show ?thesis using True ls by (intro exI [of _ "Suc k"]) (simp add: pop_lines.simps)
  qed
qed

lemma truncate_start_ok:
  assumes "17 \<le> max_length"
  shows "\<exists>t. format_and_truncate_at_start s max_length = Inr t \<and> int (length t) \<le> max 18 max_length"
proof -
  let ?s = "slack_escape s"
  show ?thesis
  proof (cases "int (length ?s) \<le> max_length \<or> length (py_split newline ?s) = 1")
    case True
    then show ?thesis using assms
      by (auto simp: format_and_truncate_at_start_def Let_def length_py_slice_from)
  next
    case False
    obtain k where "pop_lines (max_length - 18) (int (length ?s)) (py_split newline ?s)
          = Inr (drop k (py_split newline ?s))"
        "int (length (py_join [newline] (drop k (py_split newline ?s)))) \<le> max (max_length - 18) 0"
      using pop_lines_total [where bound = "max_length - 18" and len = "int (length ?s)" and lines = "py_split newline ?s"] assms
      by (auto simp: py_join_split)
    then show ?thesis using False by (simp add: format_and_truncate_at_start_def Let_def)
  qed
qed

lemma py_join_drop: "\<exists>p. py_join sep lines = p @ py_join sep (drop k lines)"
proof (induction k arbitrary: lines)
  case (Suc k)
  show ?case
  proof (cases lines)
    case (Cons l ls)
    obtain p where "py_join sep ls = p @ py_join sep (drop k ls)" using Suc.IH by blast
    then show ?thesis using Cons by (cases ls) (auto intro: exI [of _ "l @ sep @ p"])
  qed simp
qed simp

lemma pop_lines_drop: "pop_lines bound len lines = Inr r \<Longrightarrow> \<exists>k. r = drop k lines"
proof (induction bound len lines rule: pop_lines.induct)
  case (1 bound len lines)
  show ?case
  proof (cases "bound < len")
    case True
    then obtain l ls where ls: "lines = l # ls" and r: "pop_lines bound (len - (int (length l) + 1)) ls = Inr r"
      using "1.prems" by (subst (asm) pop_lines.simps) (auto split: list.splits)
    then obtain k where "r = drop k ls" using "1.IH" [OF True ls r] by blast
    then show ?thesis using ls by (intro exI [of _ "Suc k"]) simp
  next
    case False
    then show ?thesis using "1.prems" by (subst (asm) pop_lines.simps) (auto intro: exI [of _ 0])
  qed
qed

lemma truncate_start_suffix:
  assumes "format_and_truncate_at_start s max_length = Inr t"
  shows "t = slack_escape s \<and> int (length (slack_escape s)) \<le> max_length \<or>
    (\<exists>p q. slack_escape s = p @ q \<and> t = start_marker @ q)"
proof -
  let ?s = "slack_escape s"
  have cut: "\<exists>p. ?s = p @ py_slice_from ?s k" for k
    by (metis append_take_drop_id py_slice_from_def)
  have lines: "\<exists>p. ?s = p @ py_join [newline] r" if "pop_lines b n (py_split newline ?s) = Inr r" for b n r
    using pop_lines_drop [OF that] py_join_drop by (metis py_join_split)
  show ?thesis using assms cut lines
    by (auto simp: format_and_truncate_at_start_def Let_def split: if_splits sum.splits)
qed

text \<open>
  What a truncated text shows: both functions return the escaped text when it fits;
  otherwise the one truncating at the end returns a prefix of it and the marker, and the one
  truncating at the start (when it returns) the marker and a suffix of it.  The escaped text
  contains no angle bracket, so no Slack control sequence. \<close>
theorem truncation_shows_escaped_text:
  "(format_and_truncate_at_end s n = slack_escape s \<or>
      (\<exists>p q. slack_escape s = p @ q \<and> format_and_truncate_at_end s n = p @ end_marker)) \<and>
    (case format_and_truncate_at_start s n of
       Inl _ \<Rightarrow> True
     | Inr t \<Rightarrow> t = slack_escape s \<or> (\<exists>p q. slack_escape s = p @ q \<and> t = start_marker @ q)) \<and>
    set (slack_escape s) \<inter> {CHR ''<'', CHR ''>''} = {}"
  using truncate_end_prefix [of s n] truncate_start_suffix [of s n] slack_escape_no_angle [of s]
  by (auto split: sum.split)

subsection \<open>Messages within the limits of Slack\<close>

text \<open>A heading short enough that the marker still fits below it.\<close>

definition heading_fits :: "slack_block \<Rightarrow> bool" where
  "heading_fits b \<longleftrightarrow> int (length (blk_heading b)) + 29 \<le> max_formatted_length b"

definition section_ok :: "slack_section \<Rightarrow> bool" where
  "section_ok s = (case s of
     Section t \<Rightarrow> length (mk_text t) \<le> 3000
   | SectionFields ts \<Rightarrow> ts \<noteq> [] \<and> length ts \<le> 10 \<and> list_all (\<lambda>t. length (mk_text t) \<le> 2000) ts
   | Divider \<Rightarrow> True)"

definition payload_ok :: "slack_payload \<Rightarrow> bool" where
  "payload_ok p \<longleftrightarrow> list_all section_ok (sp_blocks p) \<and>
     (case sp_attachments p of None \<Rightarrow> True | Some atts \<Rightarrow> atts \<noteq> [] \<and> list_all section_ok atts)"

lemma block_to_slack_ok:
  assumes "heading_fits b"
  shows "\<exists>t. block_to_slack b = Inr t \<and> int (length (mk_text t)) \<le> max_formatted_length b"
proof -
  have tb: "\<exists>t. text_to_slack l h x = Inr t \<and> int (length (mk_text t)) \<le> l"
    if "int (length h) + 29 \<le> l" for l h x
    using truncate_end_length [of "l - (int (length h) + 3)" x] that
    by (simp add: text_to_slack_def Let_def algebra_simps)
  have cb: "\<exists>t. code_to_slack l h x = Inr t \<and> int (length (mk_text t)) \<le> l"
    if l: "int (length h) + 29 \<le> l" for l h x
  proof -
    obtain t where "format_and_truncate_at_start x (l - (int (length h) + 3 + 8)) = Inr t"
        "int (length t) \<le> max 18 (l - (int (length h) + 3 + 8))"
      using truncate_start_ok [of "l - (int (length h) + 3 + 8)" x] l by auto
    then show ?thesis using l by (simp add: code_to_slack_def Let_def algebra_simps)
  qed
  show ?thesis using assms tb cb by (cases b) (auto simp: heading_fits_def)
qed

lemma traverse_blocks_ok:
  assumes "\<forall>b \<in> set bs. heading_fits b"
  shows "\<exists>ts. traverse block_to_slack bs = Inr ts \<and>
    list_all2 (\<lambda>b t. int (length (mk_text t)) \<le> max_formatted_length b) bs ts"
  using assms block_to_slack_ok by (intro traverse_ok) blast

lemma sections_ok:
  "list_all2 (\<lambda>b t. int (length (mk_text t)) \<le> max_formatted_length b) bs ts \<Longrightarrow>
    list_all section_ok (map Section ts)"
  by (induction rule: list_all2_induct) (auto simp: section_ok_def max_formatted_length_def split: if_splits)

lemma fields_ok:
  "list_all2 (\<lambda>b t. int (length (mk_text t)) \<le> max_formatted_length b) bs ts \<Longrightarrow>
    list_all is_slack_field bs \<Longrightarrow> list_all (\<lambda>t. length (mk_text t) \<le> 2000) ts"
  by (induction rule: list_all2_induct) (auto simp: max_formatted_length_def)

lemma message_to_slack_ok:
  assumes "list_all is_slack_field (sm_fields m)" "length (sm_fields m) \<le> 10"
    and "\<forall>b \<in> set (sm_fields m @ sm_blocks m @ sm_attachments m). heading_fits b"
  shows "\<exists>p. message_to_slack m = Inr p \<and> payload_ok p"
proof -
  obtain fs where fs: "traverse block_to_slack (sm_fields m) = Inr fs"
      "list_all2 (\<lambda>b t. int (length (mk_text t)) \<le> max_formatted_length b) (sm_fields m) fs"
    using traverse_blocks_ok [of "sm_fields m"] assms(3) by auto
  obtain bs where bs: "traverse block_to_slack (sm_blocks m) = Inr bs"
      "list_all2 (\<lambda>b t. int (length (mk_text t)) \<le> max_formatted_length b) (sm_blocks m) bs"
    using traverse_blocks_ok [of "sm_blocks m"] assms(3) by auto
  obtain atts where atts: "traverse block_to_slack (sm_attachments m) = Inr atts"
      "list_all2 (\<lambda>b t. int (length (mk_text t)) \<le> max_formatted_length b) (sm_attachments m) atts"
    using traverse_blocks_ok [of "sm_attachments m"] assms(3) by auto
  have "fs \<noteq> [] \<Longrightarrow> section_ok (SectionFields fs)"
    using fields_ok [OF fs(2) assms(1)] list_all2_lengthD [OF fs(2)] assms(2)
    by (simp add: section_ok_def)
  moreover have "section_ok (Section \<lparr>mk_text = format_and_truncate_at_end (sm_message m) 3000, mk_verbatim = v\<rparr>)" for v
    using truncate_end_length [of 3000 "sm_message m"] by (simp add: section_ok_def)
  moreover have "section_ok Divider" by (simp add: section_ok_def)
  ultimately show ?thesis
    using fs(1) bs(1) atts(1) sections_ok [OF bs(2)] sections_ok [OF atts(2)]
    by (simp add: message_to_slack_def payload_ok_def Let_def)
qed

text \<open> C16. Every Slack message the constructor accepts, with headings that leave room for the
  truncation marker, is formatted without an exception into a payload within the limits of
  Slack: texts of at most 3000 characters, at most ten fields of at most 2000, and no empty
  list of fields or attachments. \<close>
theorem slack_message_within_limits:
  assumes "make_slack_message message verbatim fs bs atts = Inr m"
    and "\<forall>b \<in> set (fs @ bs @ atts). heading_fits b"
  shows "\<exists>p. message_to_slack m = Inr p \<and> payload_ok p"
  using assms message_to_slack_ok [of m]
  by (auto simp: make_slack_message_def validate_fields_def split: if_splits)

theorem slack_message_within_limits_witness:
  "\<exists>p. message_to_slack \<lparr>sm_message = ''Some message'', sm_verbatim = True,
      sm_fields = [SlackCodeField ''Some code'' ''Here is''], sm_blocks = [],
      sm_attachments = [SlackCodeBlock ''Backtrace'' ''a < b'']\<rparr> = Inr p \<and> payload_ok p"
  using slack_message_within_limits
    [of "''Some message''" True "[SlackCodeField ''Some code'' ''Here is'']" "[]"
        "[SlackCodeBlock ''Backtrace'' ''a < b'']"]
  by (simp add: make_slack_message_def validate_fields_def heading_fits_def max_formatted_length_def)

text \<open>The alert of an exception from a failed HTTP request, raised with a time in UTC, is
  always deliverable, whatever its message, user, URL and response body are: it is formatted
  without an exception within the limits of Slack, with the message without the body as its
  text and the body, when there is one, as its only attachment. \<close>
theorem web_exception_alert_deliverable:
  fixes exc :: slack_web_exception
  assumes "utcoffset (dt_tz (se_failed_at exc)) = Some 0"
  shows "\<exists>m p. web_exception_to_slack exc = Inr m \<and> message_to_slack m = Inr p \<and> payload_ok p \<and>
    sm_message m = se_message exc \<and>
    sm_attachments m = (if truthy (we_body exc) then [SlackCodeBlock ''Response'' (the (we_body exc))] else [])"
proof -
  obtain ft where ft: "format_datetime_for_logging (Some (se_failed_at exc)) = Inr (Some ft)"
    using assms by (simp add: format_datetime_for_logging_def Let_def)
  define fs where "fs = [SlackTextField ''Exception type'' (se_class exc), SlackTextField ''Failed at'' ft]
                @ (if truthy (se_user exc) then [SlackTextField ''User'' (the (se_user exc))] else [])"
  have fs: "list_all is_slack_field fs" "length fs \<le> 10" "\<forall>b \<in> set fs. heading_fits b"
    by (auto simp: fs_def heading_fits_def max_formatted_length_def)
  have "slack_exception_to_slack exc (web_exception_str exc) =
      Inr \<lparr>sm_message = web_exception_str exc, sm_verbatim = True, sm_fields = fs, sm_blocks = [], sm_attachments = []\<rparr>"
    using ft fs unfolding fs_def
    by (simp add: slack_exception_to_slack_def make_slack_message_def validate_fields_def Let_def)
  then obtain m where m: "web_exception_to_slack exc = Inr m" "sm_fields m = fs" "sm_message m = se_message exc"
      "\<forall>b \<in> set (sm_blocks m @ sm_attachments m). heading_fits b"
      "sm_attachments m = (if truthy (we_body exc) then [SlackCodeBlock ''Response'' (the (we_body exc))] else [])"
    by (auto simp: web_exception_to_slack_def Let_def heading_fits_def max_formatted_length_def)
  have "\<exists>p. message_to_slack m = Inr p \<and> payload_ok p"
    using fs m by (intro message_to_slack_ok) auto
  then show ?thesis using m by auto
qed

theorem web_exception_alert_deliverable_witness:
  "\<exists>m p. web_exception_to_slack (web_exception_from ''SomeError''
        (HTTPStatusError 404 ''GET'' ''https://example.org/'' (Some ''Some error'')) None
        \<lparr>dt_us = 63897638399000000, dt_tz = FixedTz 0\<rparr>) = Inr m \<and> message_to_slack m = Inr p \<and> payload_ok p"
  using web_exception_alert_deliverable [of "web_exception_from ''SomeError''
        (HTTPStatusError 404 ''GET'' ''https://example.org/'' (Some ''Some error'')) None
        \<lparr>dt_us = 63897638399000000, dt_tz = FixedTz 0\<rparr>"]
  by (auto simp: web_exception_from_def make_slack_web_exception_def)

end
