(* ===== verification/SlackAlerts.thy ===== *)
theory SlackAlerts
  imports Blockkit
begin

text \<open>
  Reporting exceptions: \<open>safir.slack.webhook\<close> (the webhook client and the route class that
  reports uncaught exceptions) and \<open>safir.sentry._helpers\<close>.

  The world \<open>'w\<close> is whatever the HTTP client, the logger and the Sentry SDK act on.  An
  exception is seen the way this code sees it: an ignored one, one of the HTTP framework, one
  that formats itself (with what its \<open>to_slack\<close> and \<open>to_sentry\<close> give), or any other.
\<close>

datatype alert_exc =
    AlertIgnored (ax_name: string) (ax_text: string)
  | AlertHttp (ax_name: string) (ax_text: string)
  | AlertSlack (ax_slack: "slack_error + slack_message") (ax_sentry: sentry_info) (ax_name: string) (ax_text: string)
  | AlertOther (ax_name: string) (ax_text: string)

text \<open>
  What the code needs of its surroundings: the current time, the POST to the webhook (\<open>Inl\<close>
  for any exception of the request or an error status), the error log and the Sentry capture.
\<close>

record 'w alert_env =
  ae_now :: "'w \<Rightarrow> py_datetime"
  ae_post :: "string \<Rightarrow> slack_payload \<Rightarrow> ('w, string, unit) eff"
  ae_log_error :: "string \<Rightarrow> 'w \<Rightarrow> 'w"
  ae_capture :: "alert_exc \<Rightarrow> 'w \<Rightarrow> 'w"

record slack_client =
  sc_hook_url :: string
  sc_application :: string

subsection \<open>The webhook client\<close>

definition slack_post :: "'w alert_env \<Rightarrow> slack_client \<Rightarrow> slack_message \<Rightarrow> ('w, slack_error, unit) eff" where
  "slack_post env client message =
     bind_eff (lift_eff (message_to_slack message)) (\<lambda>body w.
       case ae_post env (sc_hook_url client) body w of
         (Inr _, w) \<Rightarrow> (Inr (), w)
       | (Inl _, w) \<Rightarrow> (Inr (), ae_log_error env ''Posting Slack message failed'' w))"

definition alert_message :: "'w alert_env \<Rightarrow> slack_client \<Rightarrow> alert_exc \<Rightarrow> 'w \<Rightarrow> slack_error + slack_message" where
  "alert_message env client exc w = (case exc of
     AlertSlack to_slack _ _ _ \<Rightarrow>
       (case to_slack of
          Inl e \<Rightarrow> Inl e
        | Inr message \<Rightarrow>
            Inr (message\<lparr>sm_message := ''Error in '' @ sc_application client @ '': '' @ sm_message message\<rparr>))
   | _ \<Rightarrow>
       (case format_datetime_for_logging (Some (ae_now env w)) of
          Inr (Some date) \<Rightarrow>
            (let name = ax_name exc; error = name @ '': '' @ ax_text exc in
             make_slack_message (''Error in '' @ sc_application client) True
               [SlackTextField ''Exception type'' name, SlackTextField ''Failed at'' date]
               [SlackCodeBlock ''Exception'' error] [])
        | _ \<Rightarrow> Inl SlackValueError))"

definition post_exception :: "'w alert_env \<Rightarrow> slack_client \<Rightarrow> alert_exc \<Rightarrow> ('w, slack_error, unit) eff" where
  "post_exception env client exc = (\<lambda>w.
     bind_eff (lift_eff (alert_message env client exc w)) (slack_post env client) w)"

subsection \<open>The route class\<close>

fun ignored_exception :: "alert_exc \<Rightarrow> bool" where
  "ignored_exception (AlertIgnored _ _) = True"
| "ignored_exception (AlertHttp _ _) = True"
| "ignored_exception _ = False"

fun slack_error_exc :: "slack_error \<Rightarrow> alert_exc" where
  "slack_error_exc SlackIndexError = AlertOther ''IndexError'' ''pop from empty list''"
| "slack_error_exc SlackValueError = AlertOther ''ValueError'' []"

definition wrapped_route_handler ::
  "'w alert_env \<Rightarrow> slack_client option \<Rightarrow> ('w, alert_exc, 'r) eff \<Rightarrow> ('w, alert_exc, 'r) eff" where
  "wrapped_route_handler env alert_client original =
     catch_eff original (\<lambda>e.
       if ignored_exception e then raise_eff e
       else (case alert_client of
         None \<Rightarrow> raise_eff e
       | Some client \<Rightarrow> (\<lambda>w. case post_exception env client e w of
             (Inl err, w) \<Rightarrow> (Inl (slack_error_exc err), w)
           | (Inr _, w) \<Rightarrow> (Inl e, w))))"

subsection \<open>Sentry\<close>

record sentry_event =
  ev_environment :: "string option"
  ev_fingerprint :: "string list option"
  ev_tags :: "(string \<times> string) list option"
  ev_contexts :: "(string \<times> (string \<times> string) list) list option"
  ev_user :: "(string \<times> string) list option"

record sentry_hint =
  hi_exc_info :: "alert_exc option"
  hi_attachments :: "(string \<times> string) list option"

text \<open>\<open>span.timestamp\<close> is missing while the span is open; times are microseconds.\<close>

definition span_duration :: "int \<Rightarrow> int \<Rightarrow> int option \<Rightarrow> int" where
  "span_duration now start_timestamp timestamp =
     (let timestamp = (case timestamp of None \<Rightarrow> now | Some t \<Rightarrow> t) in timestamp - start_timestamp)"

definition fingerprint_env_handler :: "sentry_event \<Rightarrow> sentry_event" where
  "fingerprint_env_handler event =
     (let env = (case ev_environment event of None \<Rightarrow> ''no environment'' | Some e \<Rightarrow> e);
          fingerprint = (case ev_fingerprint event of None \<Rightarrow> [] | Some f \<Rightarrow> f)
      in event\<lparr>ev_fingerprint := Some ([''{{ default }}''] @ fingerprint @ [env])\<rparr>)"

text \<open>\<open>d.update(other)\<close> and \<open>d.setdefault(key, {})\<close> on an optional dictionary.\<close>

definition dict_update :: "('k \<times> 'v) list \<Rightarrow> ('k \<times> 'v) list \<Rightarrow> ('k \<times> 'v) list" where
  "dict_update d other = fold (\<lambda>(k, v). AList.update k v) other d"

definition sentry_exception_handler :: "sentry_event \<Rightarrow> sentry_hint \<Rightarrow> sentry_event \<times> sentry_hint" where
  "sentry_exception_handler event hint = (case hi_exc_info hint of
     Some (AlertSlack _ info _ _) \<Rightarrow>
       (let event = event\<lparr>ev_tags := Some (dict_update (or_empty (ev_tags event)) (si_tags info))\<rparr>;
            event = event\<lparr>ev_contexts := Some (dict_update (or_empty (ev_contexts event)) (si_contexts info))\<rparr>;
            event = (if truthy (si_username info)
              then event\<lparr>ev_user := Some (AList.update ''username'' (the (si_username info)) (or_empty (ev_user event)))\<rparr>
              else event);
            hint = (if si_attachments info = [] then hint
              else hint\<lparr>hi_attachments := Some (or_empty (hi_attachments hint) @ si_attachments info)\<rparr>)
        in (event, hint))
   | _ \<Rightarrow> (event, hint))"

definition before_send_handler :: "sentry_event \<Rightarrow> sentry_hint \<Rightarrow> sentry_event \<times> sentry_hint" where
  "before_send_handler event hint =
     (let event = fingerprint_env_handler event in sentry_exception_handler event hint)"

definition report_exception :: "'w alert_env \<Rightarrow> slack_client option \<Rightarrow> alert_exc \<Rightarrow> ('w, slack_error, unit) eff" where
  "report_exception env slack_client exc =
     (case exc of AlertIgnored _ _ \<Rightarrow> ret_eff ()
      | _ \<Rightarrow> bind_eff (modify_eff (ae_capture env exc)) (\<lambda>_.
          case slack_client of None \<Rightarrow> ret_eff () | Some client \<Rightarrow> post_exception env client exc))"

subsection \<open>Alerts are delivered and change nothing else\<close>

lemma slack_post_ok:
  assumes "message_to_slack m = Inr p"
  shows "\<exists>w'. slack_post env client m w = (Inr (), w') \<and>
    w' = (case ae_post env (sc_hook_url client) p w of
      (Inr _, w1) \<Rightarrow> w1 | (Inl _, w1) \<Rightarrow> ae_log_error env ''Posting Slack message failed'' w1)"
proof -
  obtain res w1 where r: "ae_post env (sc_hook_url client) p w = (res, w1)" by (cases "ae_post env (sc_hook_url client) p w")
  show ?thesis using assms r by (cases res) (simp_all add: slack_post_def eff_simps)
qed

text \<open>An exception whose alert can be formatted whatever the limits of Slack cut off: its own message, if it makes one, has
  at most ten fields and headings that leave room for their texts.\<close>

definition alert_formattable :: "alert_exc \<Rightarrow> bool" where
  "alert_formattable e = (case e of
     AlertSlack to_slack _ _ _ \<Rightarrow>
       (case to_slack of Inl _ \<Rightarrow> False
        | Inr m \<Rightarrow> list_all is_slack_field (sm_fields m) \<and> length (sm_fields m) \<le> 10 \<and>
            list_all heading_fits (sm_fields m @ sm_blocks m @ sm_attachments m))
   | _ \<Rightarrow> True)"

lemma alert_message_ok:
  assumes "alert_formattable e" "utcoffset (dt_tz (ae_now env w)) = Some 0"
  shows "\<exists>m p. alert_message env client e w = Inr m \<and> message_to_slack m = Inr p \<and> payload_ok p \<and>
    py_startswith (sm_message m) (''Error in '' @ sc_application client)"
proof (cases "\<exists>ts si n t. e = AlertSlack ts si n t")
  case True
  then obtain m si n t where e: "e = AlertSlack (Inr m) si n t"
    using assms(1) by (auto simp: alert_formattable_def split: sum.splits)
  let ?m = "m\<lparr>sm_message := ''Error in '' @ sc_application client @ '': '' @ sm_message m\<rparr>"
  have "\<exists>p. message_to_slack ?m = Inr p \<and> payload_ok p"
    using assms(1) e by (intro message_to_slack_ok) (auto simp: alert_formattable_def list_all_iff)
  then show ?thesis using e by (auto simp: alert_message_def py_startswith_iff)
next
  case False
  obtain d where d: "format_datetime_for_logging (Some (ae_now env w)) = Inr (Some d)"
    using assms(2) by (simp add: format_datetime_for_logging_def Let_def)
  let ?m = "\<lparr>sm_message = ''Error in '' @ sc_application client, sm_verbatim = True,
      sm_fields = [SlackTextField ''Exception type'' (ax_name e), SlackTextField ''Failed at'' d],
      sm_blocks = [SlackCodeBlock ''Exception'' (ax_name e @ '': '' @ ax_text e)], sm_attachments = []\<rparr>"
  have m: "alert_message env client e w = Inr ?m"
    using False d by (cases e) (simp_all add: alert_message_def make_slack_message_def validate_fields_def Let_def)
  have "\<exists>p. message_to_slack ?m = Inr p \<and> payload_ok p"
    by (rule message_to_slack_ok) (simp_all add: heading_fits_def max_formatted_length_def)
  then show ?thesis using m by (auto simp: py_startswith_iff)
qed

lemma post_exception_ok:
  assumes "alert_formattable e" "utcoffset (dt_tz (ae_now env w)) = Some 0"
  shows "\<exists>p. payload_ok p \<and> post_exception env client e w =
    (Inr (), case ae_post env (sc_hook_url client) p w of
      (Inr _, w1) \<Rightarrow> w1 | (Inl _, w1) \<Rightarrow> ae_log_error env ''Posting Slack message failed'' w1)"
proof -
  obtain m p where m: "alert_message env client e w = Inr m" "message_to_slack m = Inr p" "payload_ok p"
    using alert_message_ok [OF assms] by blast
  show ?thesis using slack_post_ok [OF m(2), of env client w] m
    by (intro exI [of _ p]) (auto simp: post_exception_def eff_simps)
qed

text \<open>The payload of an alert, or why there is none.\<close>

definition alert_payload :: "'w alert_env \<Rightarrow> slack_client \<Rightarrow> alert_exc \<Rightarrow> 'w \<Rightarrow> slack_error + slack_payload" where
  "alert_payload env client e w = (case alert_message env client e w of Inl err \<Rightarrow> Inl err | Inr m \<Rightarrow> message_to_slack m)"

lemma alert_payload_ok:
  assumes "alert_formattable e" "utcoffset (dt_tz (ae_now env w)) = Some 0"
  shows "\<exists>p. alert_payload env client e w = Inr p \<and> payload_ok p"
  using alert_message_ok [OF assms, of client] by (auto simp: alert_payload_def)

text \<open>An alert whose payload is made is posted once; one whose payload cannot be made raises, with nothing posted.\<close>

lemma post_exception_payload:
  "post_exception env client e w = (case alert_payload env client e w of
     Inl err \<Rightarrow> (Inl err, w)
   | Inr p \<Rightarrow> (Inr (), case ae_post env (sc_hook_url client) p w of
       (Inr _, w1) \<Rightarrow> w1 | (Inl _, w1) \<Rightarrow> ae_log_error env ''Posting Slack message failed'' w1))"
  by (simp add: post_exception_def alert_payload_def slack_post_def eff_simps split: sum.split prod.split)

text \<open> C17. The route class is transparent: a request that succeeds is passed through untouched; one
  that raises an ignored exception, or any exception while no alert client is set, raises it
  with nothing posted.  For any other exception exactly one payload is posted, if there is one, and the exception is
  raised again, also when that POST fails; if its message cannot be formatted, nothing is posted and the failure
  of the formatting is raised in its place, as it is for an exception whose own \<open>to_slack\<close> raises.  With the clock in UTC
  every exception whose message has at most ten fields and short headings has a payload, within the limits of Slack. \<close>
theorem route_handler_alerts:
  "case original w of
      (Inr r, w1) \<Rightarrow> wrapped_route_handler env alert_client original w = (Inr r, w1)
    | (Inl e, w1) \<Rightarrow>
        (if ignored_exception e \<or> alert_client = None
         then wrapped_route_handler env alert_client original w = (Inl e, w1)
         else (case alert_payload env (the alert_client) e w1 of
             Inr p \<Rightarrow> wrapped_route_handler env alert_client original w = (Inl e,
               case ae_post env (sc_hook_url (the alert_client)) p w1 of
                 (Inr _, w2) \<Rightarrow> w2 | (Inl _, w2) \<Rightarrow> ae_log_error env ''Posting Slack message failed'' w2)
           | Inl err \<Rightarrow> wrapped_route_handler env alert_client original w = (Inl (slack_error_exc err), w1)) \<and>
           (\<forall>err info n t. e = AlertSlack (Inl err) info n t \<longrightarrow> alert_payload env (the alert_client) e w1 = Inl err) \<and>
           (alert_formattable e \<and> utcoffset (dt_tz (ae_now env w1)) = Some 0 \<longrightarrow>
             (\<exists>p. alert_payload env (the alert_client) e w1 = Inr p \<and> payload_ok p)))"
proof (cases "original w")
  case (Pair res w1)
  show ?thesis
  proof (cases res)
    case (Inr r)
    then show ?thesis using Pair by (simp add: wrapped_route_handler_def eff_simps)
  next
    case (Inl e)
    show ?thesis
    proof (cases "ignored_exception e \<or> alert_client = None")
      case True
      then show ?thesis using Pair Inl
        by (auto simp: wrapped_route_handler_def eff_simps split: option.split)
    next
      case False
      then obtain client where c: "alert_client = Some client" "\<not> ignored_exception e" by auto
      have "alert_payload env client (AlertSlack (Inl err) info n t) w1 = Inl err" for err info n t
        by (simp add: alert_payload_def alert_message_def)
      then show ?thesis using Pair Inl c alert_payload_ok [of e env w1 client]
        by (simp add: wrapped_route_handler_def eff_simps post_exception_payload split: sum.split)
    qed
  qed
qed

definition alert_demo_env :: "(nat \<times> string list) alert_env" where
  "alert_demo_env =
     \<lparr>ae_now = (\<lambda>_. \<lparr>dt_us = 63897638399000000, dt_tz = FixedTz 0\<rparr>),
      ae_post = (\<lambda>_ _ (n, l). (Inl ''down'', (n + 1, l))),
      ae_log_error = (\<lambda>m (n, l). (n, l @ [m])), ae_capture = (\<lambda>_ w. w)\<rparr>"

definition demo_sentry_info :: sentry_info where
  "demo_sentry_info = \<lparr>si_tags = [], si_contexts = [], si_attachments = [], si_username = None\<rparr>"

theorem route_handler_alerts_witness:
  "wrapped_route_handler alert_demo_env (Some \<lparr>sc_hook_url = ''https://hook'', sc_application = ''App''\<rparr>)
      (raise_eff (AlertOther ''ValueError'' ''bad'') :: (nat \<times> string list, alert_exc, unit) eff) (0, [])
    = (Inl (AlertOther ''ValueError'' ''bad''), (1, [''Posting Slack message failed''])) \<and>
   wrapped_route_handler alert_demo_env (Some \<lparr>sc_hook_url = ''https://hook'', sc_application = ''App''\<rparr>)
      (raise_eff (AlertIgnored ''UsageError'' ''bad'') :: (nat \<times> string list, alert_exc, unit) eff) (0, [])
    = (Inl (AlertIgnored ''UsageError'' ''bad''), (0, [])) \<and>
   wrapped_route_handler alert_demo_env (Some \<lparr>sc_hook_url = ''https://hook'', sc_application = ''App''\<rparr>)
      (raise_eff (AlertSlack (Inl SlackValueError) demo_sentry_info ''TaskError'' ''naive'') :: (nat \<times> string list, alert_exc, unit) eff) (0, [])
    = (Inl (AlertOther ''ValueError'' []), (0, []))"
proof -
  let ?client = "Some \<lparr>sc_hook_url = ''https://hook'', sc_application = ''App''\<rparr>"
  note th = route_handler_alerts [where w = "(0, [])" and env = alert_demo_env and alert_client = ?client]
  have "wrapped_route_handler alert_demo_env ?client
      (raise_eff (AlertOther ''ValueError'' ''bad'') :: (nat \<times> string list, alert_exc, unit) eff) (0, [])
    = (Inl (AlertOther ''ValueError'' ''bad''), (1, [''Posting Slack message failed'']))"
    using th [where original = "raise_eff (AlertOther ''ValueError'' ''bad'') :: (nat \<times> string list, alert_exc, unit) eff"]
    by (auto simp: eff_simps alert_formattable_def alert_demo_env_def split: sum.splits)
  moreover have "wrapped_route_handler alert_demo_env ?client
      (raise_eff (AlertIgnored ''UsageError'' ''bad'') :: (nat \<times> string list, alert_exc, unit) eff) (0, [])
    = (Inl (AlertIgnored ''UsageError'' ''bad''), (0, []))"
    using th [where original = "raise_eff (AlertIgnored ''UsageError'' ''bad'') :: (nat \<times> string list, alert_exc, unit) eff"]
    by (simp add: eff_simps)
  moreover have "wrapped_route_handler alert_demo_env ?client
      (raise_eff (AlertSlack (Inl SlackValueError) demo_sentry_info ''TaskError'' ''naive'') :: (nat \<times> string list, alert_exc, unit) eff) (0, [])
    = (Inl (AlertOther ''ValueError'' []), (0, []))"
    using th [where original = "raise_eff (AlertSlack (Inl SlackValueError) demo_sentry_info ''TaskError'' ''naive'') :: (nat \<times> string list, alert_exc, unit) eff"]
    by (auto simp: eff_simps)
  ultimately show ?thesis by blast
qed

end
