(* ===== verification/ArqQueue.thy ===== *)
theory ArqQueue
  imports PyText
begin

text \<open>
  The arq job queue: \<open>safir.arq._queue\<close>, \<open>_models\<close> and \<open>_exceptions\<close>.

  The type \<open>'v\<close> is that of task arguments, \<open>'a\<close> of task results and \<open>'e\<close> of the exceptions
  a task can fail with.  \<open>asyncio.CancelledError\<close>, the outcome of an aborted task, is not an
  \<open>Exception\<close> and has a constructor of its own.  Times are microseconds.  A fresh job
  identifier (\<open>uuid.uuid4\<close>) and the current time are arguments of the operations that read
  them.
\<close>

subsection \<open>Models and exceptions\<close>

datatype job_status = Deferred | Queued | InProgress | Complete | NotFound

datatype ('a, 'e) arq_outcome = Returned 'a | Failed 'e | Cancelled

record 'v job_metadata =
  jm_id :: string
  jm_name :: string
  jm_args :: "'v list"
  jm_kwargs :: "(string \<times> 'v) list"
  jm_enqueue_time :: int
  jm_status :: job_status
  jm_queue_name :: string

record ('v, 'a, 'e) job_result = "'v job_metadata" +
  jr_start_time :: int
  jr_finish_time :: int
  jr_success :: bool
  jr_result :: "('a, 'e) arq_outcome"

text \<open>
  \<open>ArqKeyError\<close> is the \<open>KeyError\<close> of an unknown queue name; \<open>ArqClientError\<close> stands for
  whatever the arq client itself raises.
\<close>

datatype arq_error =
    JobNotQueued "string option" | JobNotFound string | JobResultUnavailable string
  | ArqKeyError string | ArqClientError string

fun arq_error_job_id :: "arq_error \<Rightarrow> string option" where
  "arq_error_job_id (JobNotQueued i) = i"
| "arq_error_job_id (JobNotFound i) = Some i"
| "arq_error_job_id (JobResultUnavailable i) = Some i"
| "arq_error_job_id _ = None"

fun arq_error_str :: "arq_error \<Rightarrow> string" where
  "arq_error_str (JobNotQueued i) = ''Job was not queued because it already exists. id=''
     @ (case i of None \<Rightarrow> ''None'' | Some i \<Rightarrow> i)"
| "arq_error_str (JobNotFound i) = ''Job could not be found. id='' @ i"
| "arq_error_str (JobResultUnavailable i) = ''Job result could not be found. id='' @ i"
| "arq_error_str (ArqKeyError k) = k"
| "arq_error_str (ArqClientError m) = m"

subsection \<open>The queue over Redis\<close>

text \<open>
  The operations of the arq client on a Redis state \<open>'p\<close>; each may raise and change the state,
  and other clients may act between two of them.
\<close>

record 'v job_def =
  jd_function :: string
  jd_args :: "'v list"
  jd_kwargs :: "(string \<times> 'v) list"
  jd_enqueue_time :: int

record ('v, 'a, 'e) result_info =
  ri_start_time :: int
  ri_finish_time :: int
  ri_success :: bool
  ri_queue_name :: string
  ri_result :: "('a, 'e) arq_outcome"

record ('p, 'v, 'a, 'e) arq_pool =
  ap_enqueue_job :: "string \<Rightarrow> 'v list \<Rightarrow> (string \<times> 'v) list \<Rightarrow> string \<Rightarrow> ('p, arq_error, string option) eff"
  ap_info :: "string \<Rightarrow> string \<Rightarrow> ('p, arq_error, 'v job_def option) eff"
  ap_status :: "string \<Rightarrow> string \<Rightarrow> ('p, arq_error, job_status) eff"
  ap_result_info :: "string \<Rightarrow> string \<Rightarrow> ('p, arq_error, ('v, 'a, 'e) result_info option) eff"
  ap_abort :: "string \<Rightarrow> string \<Rightarrow> int option \<Rightarrow> ('p, arq_error, bool) eff"
  ap_aclose :: "('p, arq_error, unit) eff"

definition resolve_queue :: "string \<Rightarrow> string option \<Rightarrow> string" where
  "resolve_queue dflt queue_name =
     (case queue_name of None \<Rightarrow> dflt | Some q \<Rightarrow> if q = [] then dflt else q)"

definition metadata_from_job ::
  "('p, 'v, 'a, 'e) arq_pool \<Rightarrow> string \<Rightarrow> string \<Rightarrow> ('p, arq_error, 'v job_metadata) eff" where
  "metadata_from_job pool job_id queue =
     bind_eff (ap_info pool job_id queue) (\<lambda>job_info. case job_info of
       None \<Rightarrow> raise_eff (JobNotFound job_id)
     | Some info \<Rightarrow> bind_eff (ap_status pool job_id queue) (\<lambda>status.
         if status = NotFound then raise_eff (JobNotFound job_id)
         else ret_eff \<lparr>jm_id = job_id, jm_name = jd_function info, jm_args = jd_args info,
                jm_kwargs = jd_kwargs info, jm_enqueue_time = jd_enqueue_time info,
                jm_status = status, jm_queue_name = queue\<rparr>))"

definition result_from_job ::
  "('p, 'v, 'a, 'e) arq_pool \<Rightarrow> string \<Rightarrow> string \<Rightarrow> ('p, arq_error, ('v, 'a, 'e) job_result) eff" where
  "result_from_job pool job_id queue =
     bind_eff (ap_info pool job_id queue) (\<lambda>job_info. case job_info of
       None \<Rightarrow> raise_eff (JobNotFound job_id)
     | Some info \<Rightarrow> bind_eff (ap_status pool job_id queue) (\<lambda>status.
         if status = NotFound then raise_eff (JobNotFound job_id)
         else bind_eff (ap_result_info pool job_id queue) (\<lambda>result_info. case result_info of
           None \<Rightarrow> raise_eff (JobResultUnavailable job_id)
         | Some ri \<Rightarrow>
             ret_eff \<lparr>jm_id = job_id, jm_name = jd_function info, jm_args = jd_args info,
                jm_kwargs = jd_kwargs info, jm_enqueue_time = jd_enqueue_time info,
                jm_status = status, jm_queue_name = ri_queue_name ri,
                jr_start_time = ri_start_time ri, jr_finish_time = ri_finish_time ri,
                jr_success = ri_success ri, jr_result = ri_result ri\<rparr>)))"

definition redis_enqueue ::
  "('p, 'v, 'a, 'e) arq_pool \<Rightarrow> string \<Rightarrow> string \<Rightarrow> 'v list \<Rightarrow> string option \<Rightarrow> (string \<times> 'v) list
     \<Rightarrow> ('p, arq_error, 'v job_metadata) eff" where
  "redis_enqueue pool dflt task_name task_args queue_name task_kwargs =
     bind_eff (ap_enqueue_job pool task_name task_args task_kwargs (resolve_queue dflt queue_name))
       (\<lambda>job. case job of
          Some job_id \<Rightarrow> metadata_from_job pool job_id (resolve_queue dflt queue_name)
        | None \<Rightarrow> raise_eff (JobNotQueued None))"

definition redis_abort_job ::
  "('p, 'v, 'a, 'e) arq_pool \<Rightarrow> string \<Rightarrow> string \<Rightarrow> string option \<Rightarrow> int option \<Rightarrow> ('p, arq_error, bool) eff" where
  "redis_abort_job pool dflt job_id queue_name timeout =
     ap_abort pool job_id (resolve_queue dflt queue_name) timeout"

definition redis_get_job_metadata ::
  "('p, 'v, 'a, 'e) arq_pool \<Rightarrow> string \<Rightarrow> string \<Rightarrow> string option \<Rightarrow> ('p, arq_error, 'v job_metadata) eff" where
  "redis_get_job_metadata pool dflt job_id queue_name =
     metadata_from_job pool job_id (resolve_queue dflt queue_name)"

definition redis_get_job_result ::
  "('p, 'v, 'a, 'e) arq_pool \<Rightarrow> string \<Rightarrow> string \<Rightarrow> string option
     \<Rightarrow> ('p, arq_error, ('v, 'a, 'e) job_result) eff" where
  "redis_get_job_result pool dflt job_id queue_name =
     result_from_job pool job_id (resolve_queue dflt queue_name)"

definition redis_aclose :: "('p, 'v, 'a, 'e) arq_pool \<Rightarrow> ('p, arq_error, unit) eff" where
  "redis_aclose pool = ap_aclose pool"

subsection \<open>The mock queue\<close>

text \<open>
  Two dictionaries of dictionaries, by queue name and job identifier.  The metadata and result
  objects the code hands out are the stored ones; the model hands out their value at that time.
\<close>

record ('v, 'a, 'e) mock_arq =
  ma_default :: string
  ma_metadata :: "string \<rightharpoonup> (string \<rightharpoonup> 'v job_metadata)"
  ma_results :: "string \<rightharpoonup> (string \<rightharpoonup> ('v, 'a, 'e) job_result)"

definition mock_init :: "string \<Rightarrow> ('v, 'a, 'e) mock_arq" where
  "mock_init dflt = \<lparr>ma_default = dflt, ma_metadata = [dflt \<mapsto> Map.empty], ma_results = [dflt \<mapsto> Map.empty]\<rparr>"

definition mock_queue :: "('v, 'a, 'e) mock_arq \<Rightarrow> string option \<Rightarrow> string" where
  "mock_queue s queue_name = resolve_queue (ma_default s) queue_name"

definition put_metadata :: "string \<Rightarrow> 'v job_metadata \<Rightarrow> ('v, 'a, 'e) mock_arq \<Rightarrow> ('v, 'a, 'e) mock_arq" where
  "put_metadata q m s = s\<lparr>ma_metadata := (ma_metadata s)(q \<mapsto> (the (ma_metadata s q))(jm_id m \<mapsto> m))\<rparr>"

definition mock_enqueue ::
  "string \<Rightarrow> int \<Rightarrow> string \<Rightarrow> 'v list \<Rightarrow> string option \<Rightarrow> (string \<times> 'v) list
     \<Rightarrow> (('v, 'a, 'e) mock_arq, arq_error, 'v job_metadata) eff" where
  "mock_enqueue uuid now task_name task_args queue_name task_kwargs = (\<lambda>s.
     let queue = mock_queue s queue_name;
         new_job = \<lparr>jm_id = uuid, jm_name = task_name, jm_args = task_args, jm_kwargs = task_kwargs,
                    jm_enqueue_time = now, jm_status = Queued, jm_queue_name = queue\<rparr>
     in case ma_metadata s queue of
          None \<Rightarrow> (Inl (ArqKeyError queue), s)
        | Some _ \<Rightarrow> (Inr new_job, put_metadata queue new_job s))"

text \<open>\<open>self._job_metadata[queue_name][job_id]\<close>, \<open>None\<close> for either \<open>KeyError\<close>.\<close>

definition mock_lookup :: "('v, 'a, 'e) mock_arq \<Rightarrow> string \<Rightarrow> string \<Rightarrow> 'v job_metadata option" where
  "mock_lookup s queue job_id = (case ma_metadata s queue of None \<Rightarrow> None | Some jobs \<Rightarrow> jobs job_id)"

definition make_result ::
  "'v job_metadata \<Rightarrow> int \<Rightarrow> bool \<Rightarrow> ('a, 'e) arq_outcome \<Rightarrow> string \<Rightarrow> ('v, 'a, 'e) job_result" where
  "make_result m now success result queue =
     \<lparr>jm_id = jm_id m, jm_name = jm_name m, jm_args = jm_args m, jm_kwargs = jm_kwargs m,
      jm_enqueue_time = jm_enqueue_time m, jm_status = jm_status m, jm_queue_name = queue,
      jr_start_time = now, jr_finish_time = now, jr_success = success, jr_result = result\<rparr>"

definition put_result ::
  "string \<Rightarrow> string \<Rightarrow> ('v, 'a, 'e) job_result \<Rightarrow> (('v, 'a, 'e) mock_arq, arq_error, unit) eff" where
  "put_result queue job_id r = (\<lambda>s. case ma_results s queue of
     None \<Rightarrow> (Inl (ArqKeyError queue), s)
   | Some rs \<Rightarrow> (Inr (), s\<lparr>ma_results := (ma_results s)(queue \<mapsto> rs(job_id \<mapsto> r))\<rparr>))"

definition mock_abort_job ::
  "int \<Rightarrow> string \<Rightarrow> string option \<Rightarrow> (('v, 'a, 'e) mock_arq, arq_error, bool) eff" where
  "mock_abort_job now job_id queue_name = (\<lambda>s.
     let queue = mock_queue s queue_name in
     case mock_lookup s queue job_id of
       None \<Rightarrow> (Inr False, s)
     | Some m \<Rightarrow>
         if jm_status m = InProgress
         then (let m = m\<lparr>jm_status := Complete\<rparr>;
                   s = s\<lparr>ma_metadata := (ma_metadata s)(queue \<mapsto> (the (ma_metadata s queue))(job_id \<mapsto> m))\<rparr>
               in bind_eff (put_result queue job_id (make_result m now False Cancelled queue))
                    (\<lambda>_. ret_eff True) s)
         else if jm_status m \<in> {Deferred, Queued}
         then (Inr True, s\<lparr>ma_metadata := (ma_metadata s)(queue \<mapsto> (the (ma_metadata s queue))(job_id := None))\<rparr>)
         else (Inr False, s))"

definition mock_get_job_metadata ::
  "string \<Rightarrow> string option \<Rightarrow> (('v, 'a, 'e) mock_arq, arq_error, 'v job_metadata) eff" where
  "mock_get_job_metadata job_id queue_name = (\<lambda>s.
     case mock_lookup s (mock_queue s queue_name) job_id of
       None \<Rightarrow> (Inl (JobNotFound job_id), s) | Some m \<Rightarrow> (Inr m, s))"

definition mock_get_job_result ::
  "string \<Rightarrow> string option \<Rightarrow> (('v, 'a, 'e) mock_arq, arq_error, ('v, 'a, 'e) job_result) eff" where
  "mock_get_job_result job_id queue_name = (\<lambda>s.
     case Option.bind (ma_results s (mock_queue s queue_name)) (\<lambda>rs. rs job_id) of
       None \<Rightarrow> (Inl (JobResultUnavailable job_id), s) | Some r \<Rightarrow> (Inr r, s))"

text \<open>
  \<open>set_in_progress\<close> deletes a key equal to the job identifier from the outer dictionary, whose
  keys are queue names.
\<close>

definition mock_set_in_progress ::
  "string \<Rightarrow> string option \<Rightarrow> (('v, 'a, 'e) mock_arq, arq_error, unit) eff" where
  "mock_set_in_progress job_id queue_name =
     bind_eff (mock_get_job_metadata job_id queue_name) (\<lambda>job s.
       let queue = mock_queue s queue_name;
           s = s\<lparr>ma_metadata := (ma_metadata s)(queue \<mapsto>
                  (the (ma_metadata s queue))(job_id \<mapsto> job\<lparr>jm_status := InProgress\<rparr>))\<rparr>
       in (Inr (), if job_id \<in> dom (ma_results s) then s\<lparr>ma_results := (ma_results s)(job_id := None)\<rparr> else s))"

definition mock_set_complete ::
  "int \<Rightarrow> string \<Rightarrow> ('a, 'e) arq_outcome \<Rightarrow> bool \<Rightarrow> string option \<Rightarrow> (('v, 'a, 'e) mock_arq, arq_error, unit) eff" where
  "mock_set_complete now job_id result success queue_name =
     bind_eff (mock_get_job_metadata job_id queue_name) (\<lambda>job s.
       let queue = mock_queue s queue_name;
           job = job\<lparr>jm_status := Complete\<rparr>;
           s = s\<lparr>ma_metadata := (ma_metadata s)(queue \<mapsto> (the (ma_metadata s queue))(job_id \<mapsto> job))\<rparr>
       in put_result queue job_id (make_result job now success result queue) s)"

subsection \<open>What a job queue promises\<close>

text \<open>
  The abstract queue is a table of jobs, each waiting, running or done with its outcome.  The
  contract of the operations on it is the interface the UWS components rely on.
\<close>

datatype ('a, 'e) job_state = Waiting | Running | Done "('a, 'e) arq_outcome"

definition aborted_state :: "('a, 'e) job_state \<Rightarrow> ('a, 'e) job_state option" where
  "aborted_state j = (case j of Waiting \<Rightarrow> None | Running \<Rightarrow> Some (Done Cancelled) | Done r \<Rightarrow> Some (Done r))"

locale job_queue =
  fixes table :: "'s \<Rightarrow> string \<Rightarrow> ('a, 'e) job_state option"
    and ok :: "'s \<Rightarrow> bool"
    and fresh :: "'s \<Rightarrow> string \<Rightarrow> bool"
    and enqueue :: "string \<Rightarrow> int \<Rightarrow> string \<Rightarrow> 'v list \<Rightarrow> ('s, arq_error, 'v job_metadata) eff"
    and abort :: "int \<Rightarrow> string \<Rightarrow> ('s, arq_error, bool) eff"
    and result :: "string \<Rightarrow> ('s, arq_error, ('v, 'a, 'e) job_result) eff"
    and started :: "string \<Rightarrow> ('s, arq_error, unit) eff"
    and completed :: "int \<Rightarrow> string \<Rightarrow> ('a, 'e) arq_outcome \<Rightarrow> ('s, arq_error, unit) eff"
  assumes fresh_table: "ok s \<Longrightarrow> fresh s i \<Longrightarrow> table s i = None"
    and enqueue_law: "ok s \<Longrightarrow> fresh s i \<Longrightarrow> \<exists>m s'. enqueue i now task args s = (Inr m, s') \<and>
        jm_id m = i \<and> jm_name m = task \<and> jm_args m = args \<and> jm_status m = Queued \<and>
        ok s' \<and> table s' = (table s)(i \<mapsto> Waiting)"
    and abort_none: "ok s \<Longrightarrow> table s i = None \<Longrightarrow> abort now i s = (Inr False, s)"
    and abort_some: "ok s \<Longrightarrow> table s i = Some j \<Longrightarrow> \<exists>s'. abort now i s = (Inr (\<nexists>r. j = Done r), s') \<and>
        ok s' \<and> table s' = (table s)(i := aborted_state j)"
    and result_done: "ok s \<Longrightarrow> table s i = Some (Done r) \<Longrightarrow>
        \<exists>jr. result i s = (Inr jr, s) \<and> jr_result jr = r \<and> jm_id jr = i"
    and result_none: "ok s \<Longrightarrow> table s i = None \<or> table s i = Some Waiting \<Longrightarrow>
        result i s = (Inl (JobResultUnavailable i), s)"
    and started_law: "ok s \<Longrightarrow> table s i = Some j \<Longrightarrow> \<exists>s'. started i s = (Inr (), s') \<and>
        ok s' \<and> table s' = (table s)(i \<mapsto> Running)"
    and completed_law: "ok s \<Longrightarrow> table s i = Some j \<Longrightarrow> \<exists>s'. completed now i r s = (Inr (), s') \<and>
        ok s' \<and> table s' = (table s)(i \<mapsto> Done r)"
begin

lemma abort_waiting_undoes_enqueue:
  assumes "ok s" "fresh s i"
  shows "\<exists>s'. bind_eff (enqueue i now task args) (\<lambda>m. abort now' (jm_id m)) s = (Inr True, s') \<and>
    ok s' \<and> table s' = table s"
proof -
  obtain m s1 where e: "enqueue i now task args s = (Inr m, s1)" "jm_id m = i" "ok s1"
      "table s1 = (table s)(i \<mapsto> Waiting)"
    using enqueue_law [OF assms] by blast
  have "table s1 i = Some Waiting" using e(4) by simp
  from abort_some [OF e(3) this, of now'] obtain s2 where a: "abort now' i s1 = (Inr True, s2)" "ok s2"
      "table s2 = (table s1)(i := None)"
    by (auto simp: aborted_state_def)
  have "table s2 = table s" using a(3) e(4) fresh_table [OF assms] by (simp add: fun_upd_idem)
  then show ?thesis using e(1,2) a(1,2) by (simp add: eff_simps)
qed

lemma run_to_result:
  assumes "ok s" "fresh s i"
  shows "\<exists>jr s'. bind_eff (enqueue i now task args) (\<lambda>m. bind_eff (started (jm_id m))
      (\<lambda>_. bind_eff (completed now' (jm_id m) r) (\<lambda>_. result (jm_id m)))) s = (Inr jr, s') \<and>
    jr_result jr = r \<and> ok s' \<and> table s' = (table s)(i \<mapsto> Done r)"
proof -
  obtain m s1 where e: "enqueue i now task args s = (Inr m, s1)" "jm_id m = i" "ok s1"
      "table s1 = (table s)(i \<mapsto> Waiting)"
    using enqueue_law [OF assms] by blast
  have "table s1 i = Some Waiting" using e(4) by simp
  from started_law [OF e(3) this] obtain s2 where
    b: "started i s1 = (Inr (), s2)" "ok s2" "table s2 = (table s1)(i \<mapsto> Running)" by blast
  have "table s2 i = Some Running" using b(3) by simp
  from completed_law [OF b(2) this] obtain s3 where
    c: "completed now' i r s2 = (Inr (), s3)" "ok s3" "table s3 = (table s2)(i \<mapsto> Done r)" by blast
  have "table s3 i = Some (Done r)" using c(3) by simp
  from result_done [OF c(2) this] obtain jr where "result i s3 = (Inr jr, s3)" "jr_result jr = r" by blast
  then show ?thesis using e b c by (simp add: eff_simps)
qed

end

subsection \<open>The mock queue keeps the contract\<close>

definition mock_result :: "('v, 'a, 'e) mock_arq \<Rightarrow> string \<Rightarrow> string \<Rightarrow> ('v, 'a, 'e) job_result option" where
  "mock_result s queue job_id = Option.bind (ma_results s queue) (\<lambda>rs. rs job_id)"

definition mock_table :: "('v, 'a, 'e) mock_arq \<Rightarrow> string \<Rightarrow> ('a, 'e) job_state option" where
  "mock_table s job_id = (case mock_lookup s (ma_default s) job_id of
     None \<Rightarrow> None
   | Some m \<Rightarrow> (case jm_status m of
       Complete \<Rightarrow> map_option (\<lambda>r. Done (jr_result r)) (mock_result s (ma_default s) job_id)
     | InProgress \<Rightarrow> Some Running
     | _ \<Rightarrow> Some Waiting))"

text \<open>
  The invariant: both dictionaries have the default queue and the same queues; a job is stored
  under its identifier, which is no queue name; a complete job has a result; a result belongs
  to a job that was started.
\<close>

definition mock_arq_inv :: "('v, 'a, 'e) mock_arq \<Rightarrow> bool" where
  "mock_arq_inv s \<longleftrightarrow> ma_default s \<in> dom (ma_metadata s) \<and> dom (ma_results s) = dom (ma_metadata s) \<and>
     (\<forall>q i m. mock_lookup s q i = Some m \<longrightarrow>
        jm_id m = i \<and> i \<notin> dom (ma_metadata s) \<and> jm_status m \<in> {Queued, InProgress, Complete} \<and>
        (jm_status m = Complete \<longrightarrow> mock_result s q i \<noteq> None)) \<and>
     (\<forall>q i r. mock_result s q i = Some r \<longrightarrow> jm_id r = i \<and>
        (\<exists>m. mock_lookup s q i = Some m \<and> jm_status m \<in> {InProgress, Complete}))"

definition mock_fresh :: "('v, 'a, 'e) mock_arq \<Rightarrow> string \<Rightarrow> bool" where
  "mock_fresh s i \<longleftrightarrow> i \<notin> dom (ma_metadata s) \<and>
     (\<forall>q. mock_lookup s q i = None \<and> mock_result s q i = None)"

lemma mock_init_inv: "mock_arq_inv (mock_init q)"
  by (auto simp: mock_arq_inv_def mock_init_def mock_lookup_def mock_result_def)

text \<open>The two dictionaries after an update of one job.\<close>

definition set_job :: "string \<Rightarrow> string \<Rightarrow> 'v job_metadata option \<Rightarrow> ('v, 'a, 'e) mock_arq \<Rightarrow> ('v, 'a, 'e) mock_arq" where
  "set_job q i m s = s\<lparr>ma_metadata := (ma_metadata s)(q \<mapsto> (the (ma_metadata s q))(i := m))\<rparr>"

definition set_res :: "string \<Rightarrow> string \<Rightarrow> ('v, 'a, 'e) job_result \<Rightarrow> ('v, 'a, 'e) mock_arq \<Rightarrow> ('v, 'a, 'e) mock_arq" where
  "set_res q i r s = s\<lparr>ma_results := (ma_results s)(q \<mapsto> (the (ma_results s q))(i \<mapsto> r))\<rparr>"

lemma set_job_simps [simp]:
  "ma_default (set_job q i m s) = ma_default s"
  "dom (ma_metadata (set_job q i m s)) = insert q (dom (ma_metadata s))"
  "ma_results (set_job q i m s) = ma_results s"
  "mock_result (set_job q i m s) = mock_result s"
  by (auto simp: set_job_def mock_result_def fun_eq_iff)

lemma mock_lookup_set_job [simp]:
  "q \<in> dom (ma_metadata s) \<Longrightarrow>
    mock_lookup (set_job q i m s) q' i' = (if q' = q \<and> i' = i then m else mock_lookup s q' i')"
  by (auto simp: set_job_def mock_lookup_def)

lemma set_res_simps [simp]:
  "ma_default (set_res q i r s) = ma_default s"
  "dom (ma_results (set_res q i r s)) = insert q (dom (ma_results s))"
  "ma_metadata (set_res q i r s) = ma_metadata s"
  "mock_lookup (set_res q i r s) = mock_lookup s"
  by (auto simp: set_res_def mock_lookup_def fun_eq_iff)

lemma mock_result_set_res [simp]:
  "q \<in> dom (ma_results s) \<Longrightarrow>
    mock_result (set_res q i r s) q' i' = (if q' = q \<and> i' = i then Some r else mock_result s q' i')"
  by (auto simp: set_res_def mock_result_def)

lemma mock_arq_invD:
  assumes "mock_arq_inv s"
  shows "ma_default s \<in> dom (ma_metadata s)" "ma_default s \<in> dom (ma_results s)"
    "dom (ma_results s) = dom (ma_metadata s)"
    "mock_lookup s q i = Some m \<Longrightarrow> jm_id m = i \<and> i \<notin> dom (ma_metadata s) \<and>
       (jm_status m = Queued \<or> jm_status m = InProgress \<or> jm_status m = Complete) \<and>
       (jm_status m = Complete \<longrightarrow> (\<exists>r. mock_result s q i = Some r))"
    "mock_result s q i = Some r \<Longrightarrow> jm_id r = i \<and>
       (\<exists>m. mock_lookup s q i = Some m \<and> (jm_status m = InProgress \<or> jm_status m = Complete))"
  using assms unfolding mock_arq_inv_def by auto

lemma mock_arq_inv_set_job:
  assumes "mock_arq_inv s" "q \<in> dom (ma_metadata s)" "jm_id m = i" "i \<notin> dom (ma_metadata s)"
    and "jm_status m = Queued \<and> mock_result s q i = None \<or> jm_status m = InProgress \<or>
      jm_status m = Complete \<and> mock_result s q i \<noteq> None"
  shows "mock_arq_inv (set_job q i (Some m) s)"
  using assms mock_arq_invD [OF assms(1)] unfolding mock_arq_inv_def
  by (auto simp: insert_absorb split: if_splits)

lemma mock_arq_inv_del_job:
  assumes "mock_arq_inv s" "q \<in> dom (ma_metadata s)" "mock_result s q i = None"
  shows "mock_arq_inv (set_job q i None s)"
  using assms mock_arq_invD [OF assms(1)] unfolding mock_arq_inv_def
  by (auto simp: insert_absorb split: if_splits)

lemma mock_arq_inv_done:
  assumes "mock_arq_inv s" "q \<in> dom (ma_metadata s)" "mock_lookup s q i = Some m" "jm_id m' = i"
    "jm_status m' = Complete" "jm_id r = i"
  shows "mock_arq_inv (set_res q i r (set_job q i (Some m') s))"
  using assms mock_arq_invD [OF assms(1)] unfolding mock_arq_inv_def
  by (auto simp: insert_absorb split: if_splits)

lemma resolve_default [simp]: "mock_queue s None = ma_default s"
  by (simp add: mock_queue_def resolve_queue_def)

lemma mock_enqueue_eq:
  assumes "ma_default s \<in> dom (ma_metadata s)"
  shows "\<exists>m. mock_enqueue i now task args None kw s = (Inr m, set_job (ma_default s) i (Some m) s) \<and>
    jm_id m = i \<and> jm_name m = task \<and> jm_args m = args \<and> jm_kwargs m = kw \<and> jm_enqueue_time m = now \<and>
    jm_status m = Queued \<and> jm_queue_name m = ma_default s"
  using assms by (auto simp: mock_enqueue_def put_metadata_def set_job_def Let_def)

lemma put_result_eq:
  "q \<in> dom (ma_results s) \<Longrightarrow> put_result q i r s = (Inr (), set_res q i r s)"
  by (auto simp: put_result_def set_res_def)

lemma mock_started_eq:
  assumes "mock_arq_inv s" "mock_lookup s (ma_default s) i = Some m"
  shows "mock_set_in_progress i None s =
    (Inr (), set_job (ma_default s) i (Some (m\<lparr>jm_status := InProgress\<rparr>)) s)"
proof -
  have "i \<notin> dom (ma_results s)" using mock_arq_invD [OF assms(1)] assms(2) by blast
  then show ?thesis using assms(2)
    by (simp add: mock_set_in_progress_def mock_get_job_metadata_def eff_simps set_job_def Let_def)
qed

lemma mock_completed_eq:
  assumes "mock_arq_inv s" "mock_lookup s (ma_default s) i = Some m"
  shows "mock_set_complete now i r success None s =
    (Inr (), set_res (ma_default s) i (make_result (m\<lparr>jm_status := Complete\<rparr>) now success r (ma_default s))
       (set_job (ma_default s) i (Some (m\<lparr>jm_status := Complete\<rparr>)) s))"
  using assms(2) mock_arq_invD(2) [OF assms(1)] put_result_eq
  by (simp add: mock_set_complete_def mock_get_job_metadata_def eff_simps Let_def)
    (simp add: set_job_def put_result_eq)

lemma mock_abort_eq:
  assumes "mock_arq_inv s" "mock_lookup s (ma_default s) i = Some m"
  shows "mock_abort_job now i None s = (case jm_status m of
      InProgress \<Rightarrow> (Inr True, set_res (ma_default s) i
         (make_result (m\<lparr>jm_status := Complete\<rparr>) now False Cancelled (ma_default s))
         (set_job (ma_default s) i (Some (m\<lparr>jm_status := Complete\<rparr>)) s))
    | Queued \<Rightarrow> (Inr True, set_job (ma_default s) i None s)
    | Deferred \<Rightarrow> (Inr True, set_job (ma_default s) i None s)
    | _ \<Rightarrow> (Inr False, s))"
proof -
  have "ma_default s \<in> dom (ma_results s)" using mock_arq_invD(2) [OF assms(1)] .
  then have "put_result (ma_default s) i r (set_job (ma_default s) i m' s) =
      (Inr (), set_res (ma_default s) i r (set_job (ma_default s) i m' s))" for r m'
    by (simp add: put_result_eq)
  then show ?thesis using assms(2)
    by (cases "jm_status m") (simp_all add: mock_abort_job_def eff_simps Let_def set_job_def)
qed

lemma make_result_simps [simp]:
  "jm_id (make_result m now b r q) = jm_id m" "jr_result (make_result m now b r q) = r"
  by (simp_all add: make_result_def)

lemma mock_table_lookup:
  assumes "mock_arq_inv s"
  shows "mock_table s i = None \<longleftrightarrow> mock_lookup s (ma_default s) i = None"
    and "mock_table s i = Some Waiting \<longleftrightarrow>
      (\<exists>m. mock_lookup s (ma_default s) i = Some m \<and> jm_status m = Queued)"
    and "mock_table s i = Some Running \<longleftrightarrow>
      (\<exists>m. mock_lookup s (ma_default s) i = Some m \<and> jm_status m = InProgress)"
    and "mock_table s i = Some (Done r) \<longleftrightarrow>
      (\<exists>m jr. mock_lookup s (ma_default s) i = Some m \<and> jm_status m = Complete \<and>
        mock_result s (ma_default s) i = Some jr \<and> jr_result jr = r)"
  using mock_arq_invD(4) [OF assms, of "ma_default s" i]
  by (auto simp: mock_table_def split: option.splits job_status.splits)

lemma mock_table_other:
  assumes "q = ma_default s" "ma_default s' = q"
    and "\<And>i'. i' \<noteq> i \<Longrightarrow> mock_lookup s' q i' = mock_lookup s q i' \<and> mock_result s' q i' = mock_result s q i'"
  shows "mock_table s' = (mock_table s)(i := mock_table s' i)"
proof (rule ext)
  fix x
  show "mock_table s' x = ((mock_table s)(i := mock_table s' i)) x"
    using assms(1,2) assms(3) [of x]
    by (cases "x = i") (auto simp: mock_table_def split: option.split job_status.split)
qed

interpretation mq: job_queue
  "mock_table :: ('v, 'a, 'e) mock_arq \<Rightarrow> string \<Rightarrow> ('a, 'e) job_state option"
  mock_arq_inv mock_fresh
  "\<lambda>i now task args. mock_enqueue i now task (args :: 'v list) None []"
  "\<lambda>now i. mock_abort_job now i None"
  "\<lambda>i. mock_get_job_result i None"
  "\<lambda>i. mock_set_in_progress i None"
  "\<lambda>now i r. mock_set_complete now i r True None"
proof
  fix s :: "('v, 'a, 'e) mock_arq" and i
  assume inv: "mock_arq_inv s" and new: "mock_fresh s i"
  show "mock_table s i = None" using new by (simp add: mock_table_def mock_fresh_def)
next
  fix s :: "('v, 'a, 'e) mock_arq" and i now task and args :: "'v list"
  assume inv: "mock_arq_inv s" and new: "mock_fresh s i"
  note d = mock_arq_invD [OF inv]
  obtain m where m: "mock_enqueue i now task args None [] s = (Inr m, set_job (ma_default s) i (Some m) s)"
      "jm_id m = i" "jm_name m = task" "jm_args m = args" "jm_status m = Queued"
    using mock_enqueue_eq [OF d(1)] by metis
  let ?s = "set_job (ma_default s) i (Some m) s"
  have "mock_arq_inv ?s"
    by (rule mock_arq_inv_set_job) (use inv new m d(1) in \<open>simp_all add: mock_fresh_def\<close>)
  moreover have "mock_table ?s = (mock_table s)(i := mock_table ?s i)"
    by (rule mock_table_other [where q = "ma_default s"]) (use d(1) in simp_all)
  moreover have "mock_table ?s i = Some Waiting" using d(1) m(5) by (simp add: mock_table_def)
  ultimately show "\<exists>m s'. mock_enqueue i now task args None [] s = (Inr m, s') \<and> jm_id m = i \<and>
      jm_name m = task \<and> jm_args m = args \<and> jm_status m = Queued \<and> mock_arq_inv s' \<and>
      mock_table s' = (mock_table s)(i \<mapsto> Waiting)"
    using m by metis
next
  fix s :: "('v, 'a, 'e) mock_arq" and i now
  assume "mock_arq_inv s" "mock_table s i = None"
  then show "mock_abort_job now i None s = (Inr False, s)"
    using mock_table_lookup(1) [of s i] by (simp add: mock_abort_job_def Let_def)
next
  fix s :: "('v, 'a, 'e) mock_arq" and i now and j :: "('a, 'e) job_state"
  assume inv: "mock_arq_inv s" and t: "mock_table s i = Some j"
  note d = mock_arq_invD [OF inv]
  obtain m where m: "mock_lookup s (ma_default s) i = Some m"
    using t mock_table_lookup(1) [OF inv, of i] by (cases "mock_lookup s (ma_default s) i") auto
  note id = d(4) [OF m]
  show "\<exists>s'. mock_abort_job now i None s = (Inr (\<nexists>r. j = Done r), s') \<and> mock_arq_inv s' \<and>
      mock_table s' = (mock_table s)(i := aborted_state j)"
  proof (cases j)
    case Waiting
    then have q: "jm_status m = Queued" using t m mock_table_lookup(2) [OF inv] by auto
    let ?s = "set_job (ma_default s) i None s"
    have "mock_result s (ma_default s) i = None"
      using d(5) [of "ma_default s" i] m q by (cases "mock_result s (ma_default s) i") auto
    then have "mock_arq_inv ?s" by (rule mock_arq_inv_del_job [OF inv d(1)])
    moreover have "mock_table ?s = (mock_table s)(i := mock_table ?s i)"
      by (rule mock_table_other [where q = "ma_default s"]) (use d(1) in simp_all)
    moreover have "mock_table ?s i = None" using d(1) by (simp add: mock_table_def)
    ultimately show ?thesis using Waiting mock_abort_eq [OF inv m] q
      by (auto simp: aborted_state_def)
  next
    case Running
    then have q: "jm_status m = InProgress" using t m mock_table_lookup(3) [OF inv] by auto
    let ?m = "m\<lparr>jm_status := Complete\<rparr>"
    let ?r = "make_result ?m now False Cancelled (ma_default s) :: ('v, 'a, 'e) job_result"
    let ?s = "set_res (ma_default s) i ?r (set_job (ma_default s) i (Some ?m) s)"
    have "mock_arq_inv ?s" by (rule mock_arq_inv_done [OF inv d(1) m]) (use id in simp_all)
    moreover have "mock_table ?s = (mock_table s)(i := mock_table ?s i)"
      by (rule mock_table_other [where q = "ma_default s"]) (use d(1,2) in simp_all)
    moreover have "mock_table ?s i = Some (Done Cancelled)" using d(1,2) by (simp add: mock_table_def)
    ultimately show ?thesis using Running mock_abort_eq [OF inv m] q
      by (auto simp: aborted_state_def)
  next
    case (Done r)
    then have "jm_status m = Complete" using t m mock_table_lookup(4) [OF inv] by auto
    then show ?thesis using Done mock_abort_eq [OF inv m] inv t
      by (auto simp: aborted_state_def fun_upd_idem)
  qed
next
  fix s :: "('v, 'a, 'e) mock_arq" and i and r :: "('a, 'e) arq_outcome"
  assume inv: "mock_arq_inv s" and t: "mock_table s i = Some (Done r)"
  then obtain jr where "mock_result s (ma_default s) i = Some jr" "jr_result jr = r"
    using mock_table_lookup(4) [OF inv] by blast
  then show "\<exists>jr. mock_get_job_result i None s = (Inr jr, s) \<and> jr_result jr = r \<and> jm_id jr = i"
    using mock_arq_invD(5) [OF inv] by (simp add: mock_get_job_result_def mock_result_def)
next
  fix s :: "('v, 'a, 'e) mock_arq" and i
  assume inv: "mock_arq_inv s" and t: "mock_table s i = None \<or> mock_table s i = Some Waiting"
  have "mock_result s (ma_default s) i = None"
  proof (rule ccontr)
    assume "mock_result s (ma_default s) i \<noteq> None"
    then obtain r where "mock_result s (ma_default s) i = Some r" by blast
    then obtain m where "mock_lookup s (ma_default s) i = Some m" "jm_status m = InProgress \<or> jm_status m = Complete"
      using mock_arq_invD(5) [OF inv] by blast
    then show False using t mock_table_lookup(1,2) [OF inv, of i] by auto
  qed
  then show "mock_get_job_result i None s = (Inl (JobResultUnavailable i), s)"
    by (simp add: mock_get_job_result_def mock_result_def)
next
  fix s :: "('v, 'a, 'e) mock_arq" and i and j :: "('a, 'e) job_state"
  assume inv: "mock_arq_inv s" and t: "mock_table s i = Some j"
  note d = mock_arq_invD [OF inv]
  obtain m where m: "mock_lookup s (ma_default s) i = Some m"
    using t mock_table_lookup(1) [OF inv, of i] by (cases "mock_lookup s (ma_default s) i") auto
  let ?s = "set_job (ma_default s) i (Some (m\<lparr>jm_status := InProgress\<rparr>)) s"
  have "mock_arq_inv ?s" by (rule mock_arq_inv_set_job) (use inv d(1) d(4) [OF m] in simp_all)
  moreover have "mock_table ?s = (mock_table s)(i := mock_table ?s i)"
    by (rule mock_table_other [where q = "ma_default s"]) (use d(1) in simp_all)
  moreover have "mock_table ?s i = Some Running" using d(1) by (simp add: mock_table_def)
  ultimately show "\<exists>s'. mock_set_in_progress i None s = (Inr (), s') \<and> mock_arq_inv s' \<and>
      mock_table s' = (mock_table s)(i \<mapsto> Running)"
    using mock_started_eq [OF inv m] by auto
next
  fix s :: "('v, 'a, 'e) mock_arq" and i now and j :: "('a, 'e) job_state" and r :: "('a, 'e) arq_outcome"
  assume inv: "mock_arq_inv s" and t: "mock_table s i = Some j"
  note d = mock_arq_invD [OF inv]
  obtain m where m: "mock_lookup s (ma_default s) i = Some m"
    using t mock_table_lookup(1) [OF inv, of i] by (cases "mock_lookup s (ma_default s) i") auto
  let ?m = "m\<lparr>jm_status := Complete\<rparr>"
  let ?r = "make_result ?m now True r (ma_default s) :: ('v, 'a, 'e) job_result"
  let ?s = "set_res (ma_default s) i ?r (set_job (ma_default s) i (Some ?m) s)"
  have "mock_arq_inv ?s" by (rule mock_arq_inv_done [OF inv d(1) m]) (use d(4) [OF m] in simp_all)
  moreover have "mock_table ?s = (mock_table s)(i := mock_table ?s i)"
    by (rule mock_table_other [where q = "ma_default s"]) (use d(1,2) in simp_all)
  moreover have "mock_table ?s i = Some (Done r)" using d(1,2) by (simp add: mock_table_def)
  ultimately show "\<exists>s'. mock_set_complete now i r True None s = (Inr (), s') \<and> mock_arq_inv s' \<and>
      mock_table s' = (mock_table s)(i \<mapsto> Done r)"
    using mock_completed_eq [OF inv m] by auto
qed

text \<open> C15. The mock queue refines the table of jobs: from a state that satisfies the invariant,
  enqueuing under a fresh identifier adds a waiting job with the given task and arguments,
  starting makes a known job running and completing makes it done with the outcome; aborting
  drops a waiting job, makes a running one done with a cancellation and reports whether it did
  either; and the result of a done job is its outcome, while one not yet started has none.
  The invariant holds again afterwards. \<close>
theorem mock_arq_refines_table:
  fixes s :: "('v, 'a, 'e) mock_arq"
  assumes "mock_arq_inv s"
  shows "(mock_fresh s i \<longrightarrow> (\<exists>m s'. mock_enqueue i now task args None [] s = (Inr m, s') \<and>
       jm_id m = i \<and> jm_name m = task \<and> jm_args m = args \<and> mock_arq_inv s' \<and>
       mock_table s' = (mock_table s)(i \<mapsto> Waiting)))
    \<and> (mock_table s i \<noteq> None \<longrightarrow>
       (\<exists>s'. mock_set_in_progress i None s = (Inr (), s') \<and> mock_arq_inv s' \<and>
          mock_table s' = (mock_table s)(i \<mapsto> Running)) \<and>
       (\<exists>s'. mock_set_complete now i r True None s = (Inr (), s') \<and> mock_arq_inv s' \<and>
          mock_table s' = (mock_table s)(i \<mapsto> Done r)))
    \<and> (\<exists>s'. mock_abort_job now i None s =
          (Inr (mock_table s i = Some Waiting \<or> mock_table s i = Some Running), s') \<and>
        mock_arq_inv s' \<and>
        mock_table s' = (mock_table s)(i := Option.bind (mock_table s i) aborted_state))
    \<and> (case mock_table s i of
         Some (Done r) \<Rightarrow> \<exists>jr. mock_get_job_result i None s = (Inr jr, s) \<and> jr_result jr = r
       | Some Running \<Rightarrow> True
       | _ \<Rightarrow> mock_get_job_result i None s = (Inl (JobResultUnavailable i), s))"
proof -
  have "\<exists>s'. mock_abort_job now i None s =
          (Inr (mock_table s i = Some Waiting \<or> mock_table s i = Some Running), s') \<and>
        mock_arq_inv s' \<and>
        mock_table s' = (mock_table s)(i := Option.bind (mock_table s i) aborted_state)"
  proof (cases "mock_table s i")
    case None
    then show ?thesis using mq.abort_none [OF assms None] assms by (simp add: fun_upd_idem)
  next
    case (Some j)
    then show ?thesis using mq.abort_some [OF assms Some, of now] by (cases j) auto
  qed
  moreover have "case mock_table s i of
         Some (Done r) \<Rightarrow> \<exists>jr. mock_get_job_result i None s = (Inr jr, s) \<and> jr_result jr = r
       | Some Running \<Rightarrow> True
       | _ \<Rightarrow> mock_get_job_result i None s = (Inl (JobResultUnavailable i), s)"
    using mq.result_done [OF assms, of i] mq.result_none [OF assms, of i]
    by (cases "mock_table s i"; simp) (auto split: job_state.split)
  moreover have "mock_fresh s i \<longrightarrow> (\<exists>m s'. mock_enqueue i now task args None [] s = (Inr m, s') \<and>
       jm_id m = i \<and> jm_name m = task \<and> jm_args m = args \<and> mock_arq_inv s' \<and>
       mock_table s' = (mock_table s)(i \<mapsto> Waiting))"
    using mq.enqueue_law [OF assms, of i now task args] by blast
  moreover have "mock_table s i \<noteq> None \<longrightarrow>
       (\<exists>s'. mock_set_in_progress i None s = (Inr (), s') \<and> mock_arq_inv s' \<and>
          mock_table s' = (mock_table s)(i \<mapsto> Running)) \<and>
       (\<exists>s'. mock_set_complete now i r True None s = (Inr (), s') \<and> mock_arq_inv s' \<and>
          mock_table s' = (mock_table s)(i \<mapsto> Done r))"
    using mq.started_law [OF assms, of i] mq.completed_law [OF assms, of i _ now r] by blast
  ultimately show ?thesis by (intro conjI)
qed

theorem mock_arq_refines_table_witness:
  "\<exists>s'. mock_abort_job 7 ''a1'' None
      (snd (mock_enqueue ''a1'' 5 ''task'' [True] None [] (mock_init ''arq:queue'' :: (bool, nat, nat) mock_arq)))
      = (Inr True, s') \<and> mock_table s' = (\<lambda>_. None)"
proof -
  let ?s0 = "mock_init ''arq:queue'' :: (bool, nat, nat) mock_arq"
  have f: "mock_fresh ?s0 ''a1''" "mock_table ?s0 = (\<lambda>_. None)"
    by (auto simp: mock_fresh_def mock_init_def mock_lookup_def mock_result_def mock_table_def fun_eq_iff)
  obtain m s1 where 1: "mock_enqueue ''a1'' 5 ''task'' [True] None [] ?s0 = (Inr m, s1)" "mock_arq_inv s1"
      "mock_table s1 = (mock_table ?s0)(''a1'' \<mapsto> Waiting)"
    using mock_arq_refines_table [OF mock_init_inv, where i = "''a1''" and now = 5 and task = "''task''"
        and args = "[True]", of "''arq:queue''"] f(1)
    by blast
  obtain s2 where "mock_abort_job 7 ''a1'' None s1 = (Inr (mock_table s1 ''a1'' = Some Waiting \<or> mock_table s1 ''a1'' = Some Running), s2)"
      "mock_table s2 = (mock_table s1)(''a1'' := Option.bind (mock_table s1 ''a1'') aborted_state)"
    using mock_arq_refines_table [OF 1(2), where i = "''a1''" and now = 7] by blast
  then show ?thesis using 1 f(2) by (auto simp: aborted_state_def)
qed

text \<open>
  A task enqueued on the mock queue, then started and completed, hands its outcome to
  whoever asks for the result under the identifier that enqueuing returned, and leaves every
  other job of the table as it was. \<close>
theorem mock_arq_run_to_result:
  assumes "mock_arq_inv s" "mock_fresh s i"
  shows "\<exists>jr s'. bind_eff (mock_enqueue i now task args None []) (\<lambda>m. bind_eff (mock_set_in_progress (jm_id m) None)
      (\<lambda>_. bind_eff (mock_set_complete now' (jm_id m) r True None) (\<lambda>_. mock_get_job_result (jm_id m) None))) s
      = (Inr jr, s') \<and>
    jr_result jr = r \<and> mock_arq_inv s' \<and> mock_table s' = (mock_table s)(i \<mapsto> Done r)"
  by (rule mq.run_to_result [OF assms])

theorem mock_arq_run_to_result_witness:
  "\<exists>jr s'. bind_eff (mock_enqueue ''a1'' 5 ''task'' [True] None []) (\<lambda>m. bind_eff (mock_set_in_progress (jm_id m) None)
      (\<lambda>_. bind_eff (mock_set_complete 9 (jm_id m) (Returned 3) True None) (\<lambda>_. mock_get_job_result (jm_id m) None)))
      (mock_init ''arq:queue'' :: (bool, nat, nat) mock_arq) = (Inr jr, s') \<and> jr_result jr = Returned 3"
proof -
  have "mock_fresh (mock_init ''arq:queue'' :: (bool, nat, nat) mock_arq) ''a1''"
    by (auto simp: mock_fresh_def mock_init_def mock_lookup_def mock_result_def)
  from mock_arq_run_to_result [OF mock_init_inv this, where now = 5 and task = "''task''" and args = "[True]"
      and now' = 9 and r = "Returned 3"]
  show ?thesis by blast
qed

text \<open>
  What the contract leaves open for a running job is where the mock errs: a job started again
  after it completed still hands out its old result, because \<open>set_in_progress\<close> looks for it
  among the queue names.
\<close>

lemma mock_arq_stale_result:
  "let run = bind_eff (mock_enqueue ''a1'' 5 ''task'' [True] None []) (\<lambda>_.
        bind_eff (mock_set_complete 6 ''a1'' (Returned 3) True None) (\<lambda>_.
        bind_eff (mock_set_in_progress ''a1'' None) (\<lambda>_. mock_get_job_result ''a1'' None)))
   in case run (mock_init ''arq:queue'' :: (bool, nat, nat) mock_arq) of
        (Inr jr, s) \<Rightarrow> jr_result jr = Returned 3 \<and> mock_table s ''a1'' = Some Running
      | _ \<Rightarrow> False"
  by code_simp

end
