(* ===== verification/UWSModels.thy ===== *)
theory UWSModels
  imports SlackAlerts ArqQueue
begin

text \<open>
  The data of the UWS layer: the job models of \<open>safir.uws._models\<close> and the exceptions of
  \<open>safir.uws._exceptions\<close> and \<open>safir.arq.uws\<close>.

  A time is the number of microseconds of a UTC datetime and a duration a number of
  microseconds.  Job parameters, an application's Pydantic model, are the fields of that model
  as JSON.  The classes of \<open>vo_models\<close> appear as records of the fields this code gives them.
\<close>

subsection \<open>Job models\<close>

type_synonym params = "(string \<times> json) list"

datatype execution_phase =
    PENDING | QUEUED | EXECUTING | COMPLETED | ERROR | ABORTED | UNKNOWN | HELD | SUSPENDED | ARCHIVED

definition active_phases :: "execution_phase list" where
  "active_phases = [PENDING, QUEUED, EXECUTING]"

datatype error_type = TRANSIENT | FATAL

record job_error =
  je_type :: error_type
  je_code :: string
  je_message :: string
  je_detail :: "string option"

text \<open>\<open>JobResult\<close>, and with \<open>ur_signed\<close> its subclass \<open>SignedJobResult\<close>.\<close>

record uws_job_result =
  ur_id :: string
  ur_url :: string
  ur_size :: "int option"
  ur_mime_type :: "string option"
  ur_signed :: bool

record job_base =
  jb_parameters :: params
  jb_run_id :: "string option"
  jb_destruction_time :: int
  jb_execution_duration :: "int option"

record serialized_job = job_base +
  sj_id :: string
  sj_service :: string
  sj_owner :: string
  sj_phase :: execution_phase
  sj_message_id :: "string option"
  sj_creation_time :: int
  sj_start_time :: "int option"
  sj_end_time :: "int option"
  sj_quote :: "int option"
  sj_errors :: "job_error list"
  sj_results :: "uws_job_result list"

record uws_job = serialized_job +
  job_parameters :: params

text \<open>
  \<open>int(t.total_seconds())\<close> truncates; on the wire a duration is a whole number of seconds.
  The updates of the metadata write a zero duration as null.
\<close>

definition whole_seconds :: "int \<Rightarrow> int" where
  "whole_seconds us = (if us < 0 then - ((- us) div 1000000) else us div 1000000)"

definition wire_duration :: "int option \<Rightarrow> int option" where
  "wire_duration d = map_option (\<lambda>t. whole_seconds t * 1000000) d"

definition wire_update_duration :: "int option \<Rightarrow> int option" where
  "wire_update_duration d = (case d of None \<Rightarrow> None
     | Some t \<Rightarrow> if t \<noteq> 0 then Some (whole_seconds t * 1000000) else None)"

definition wire_job :: "'x job_base_scheme \<Rightarrow> 'x job_base_scheme" where
  "wire_job job = job\<lparr>jb_execution_duration := wire_duration (jb_execution_duration job)\<rparr>"

record worker_result =
  wr_result_id :: string
  wr_url :: string
  wr_size :: "int option"
  wr_mime_type :: "string option"

text \<open>A result read as a \<open>JobResult\<close>, whatever it was before.\<close>

definition plain_result :: "uws_job_result \<Rightarrow> uws_job_result" where
  "plain_result r = r\<lparr>ur_signed := False\<rparr>"

definition from_worker_result :: "worker_result \<Rightarrow> uws_job_result" where
  "from_worker_result result =
     \<lparr>ur_id = wr_result_id result, ur_url = wr_url result, ur_size = wr_size result,
      ur_mime_type = wr_mime_type result, ur_signed = False\<rparr>"

record error_summary =
  es_message :: string
  es_type :: error_type
  es_has_detail :: bool

definition error_to_xml :: "job_error \<Rightarrow> error_summary" where
  "error_to_xml e = \<lparr>es_message = je_code e @ '': '' @ je_message e, es_type = je_type e,
     es_has_detail = (je_detail e \<noteq> None)\<rparr>"

record result_reference =
  rr_id :: string
  rr_href :: "string option"
  rr_size :: "int option"
  rr_mime_type :: "string option"

definition result_to_xml :: "uws_job_result \<Rightarrow> result_reference" where
  "result_to_xml r =
     \<lparr>rr_id = ur_id r, rr_href = (if ur_signed r then Some (ur_url r) else None),
      rr_size = ur_size r, rr_mime_type = ur_mime_type r\<rparr>"

record short_job_description =
  sd_phase :: execution_phase
  sd_run_id :: "string option"
  sd_creation_time :: int
  sd_owner_id :: string
  sd_job_id :: string
  sd_href :: string

definition to_job_description :: "string \<Rightarrow> 'x serialized_job_scheme \<Rightarrow> short_job_description" where
  "to_job_description base_url job =
     \<lparr>sd_phase = sj_phase job, sd_run_id = jb_run_id job, sd_creation_time = sj_creation_time job,
      sd_owner_id = sj_owner job, sd_job_id = sj_id job, sd_href = base_url @ ''/'' @ sj_id job\<rparr>"

record job_summary =
  js_job_id :: string
  js_run_id :: "string option"
  js_owner_id :: string
  js_phase :: execution_phase
  js_quote :: "int option"
  js_creation_time :: int
  js_start_time :: "int option"
  js_end_time :: "int option"
  js_execution_duration :: "int option"
  js_destruction :: int
  js_parameters :: params
  js_results :: "result_reference list option"
  js_error_summary :: "error_summary option"

text \<open>The parameters' own \<open>to_xml_model\<close> belongs to the application.\<close>

definition job_to_xml :: "(params \<Rightarrow> params) \<Rightarrow> uws_job \<Rightarrow> job_summary" where
  "job_to_xml params_xml job =
     (let results = (if sj_results job \<noteq> [] then Some (map result_to_xml (sj_results job)) else None);
          duration = (case jb_execution_duration job of None \<Rightarrow> None
                      | Some d \<Rightarrow> if d \<noteq> 0 then Some (whole_seconds d) else None);
          error_summary = (case sj_errors job of [] \<Rightarrow> None | e # _ \<Rightarrow> Some (error_to_xml e))
      in \<lparr>js_job_id = sj_id job, js_run_id = jb_run_id job, js_owner_id = sj_owner job,
          js_phase = sj_phase job, js_quote = sj_quote job, js_creation_time = sj_creation_time job,
          js_start_time = sj_start_time job, js_end_time = sj_end_time job,
          js_execution_duration = duration, js_destruction = jb_destruction_time job,
          js_parameters = params_xml (job_parameters job), js_results = results,
          js_error_summary = error_summary\<rparr>)"

text \<open>The inputs of a job update, one constructor per model.\<close>

datatype job_update =
    UpdateAborted
  | UpdateCompleted "uws_job_result list"
  | UpdateExecuting int
  | UpdateError "job_error list"
  | UpdateQueued "string option"
  | UpdateMetadata int "int option"

text \<open>
  What a phase promises about the rest of the record, the well-formedness the components keep.
\<close>

definition job_wf :: "'x serialized_job_scheme \<Rightarrow> bool" where
  "job_wf job \<longleftrightarrow>
     (sj_phase job = EXECUTING \<longrightarrow> sj_start_time job \<noteq> None) \<and>
     (sj_phase job = COMPLETED \<longrightarrow> sj_end_time job \<noteq> None) \<and>
     (sj_phase job = ERROR \<longrightarrow> sj_end_time job \<noteq> None \<and> sj_errors job \<noteq> []) \<and>
     (sj_phase job = QUEUED \<longrightarrow> sj_message_id job \<noteq> None)"

subsection \<open>Errors of the backend worker\<close>

datatype worker_error_type = WFatal | WTransient | WUsage

datatype worker_error_class =
    WorkerError | WorkerFatalError | WorkerTransientError | WorkerTimeoutError | WorkerUsageError

fun class_error_type :: "worker_error_class \<Rightarrow> worker_error_type" where
  "class_error_type WorkerTransientError = WTransient"
| "class_error_type WorkerTimeoutError = WTransient"
| "class_error_type WorkerUsageError = WUsage"
| "class_error_type _ = WFatal"

fun worker_class_name :: "worker_error_class \<Rightarrow> string" where
  "worker_class_name WorkerError = ''WorkerError''"
| "worker_class_name WorkerFatalError = ''WorkerFatalError''"
| "worker_class_name WorkerTransientError = ''WorkerTransientError''"
| "worker_class_name WorkerTimeoutError = ''WorkerTimeoutError''"
| "worker_class_name WorkerUsageError = ''WorkerUsageError''"

text \<open>A cause is the qualified name of its class and its formatted traceback.\<close>

record worker_error =
  wk_class :: worker_error_class
  wk_message :: string
  wk_detail :: "string option"
  wk_add_traceback :: bool
  wk_cause :: "(string \<times> string) option"
  wk_cause_type :: "string option"
  wk_traceback :: "string option"

definition make_worker_error :: "worker_error_class \<Rightarrow> string \<Rightarrow> string option \<Rightarrow> bool \<Rightarrow> worker_error" where
  "make_worker_error cls message detail add_traceback =
     \<lparr>wk_class = cls, wk_message = message, wk_detail = detail, wk_add_traceback = add_traceback,
      wk_cause = None, wk_cause_type = None, wk_traceback = None\<rparr>"

text \<open>
  The message gives both durations as \<open>total_seconds()\<close> prints them, an application of the
  float formatting left to the argument.
\<close>

definition make_worker_timeout_error :: "(int \<Rightarrow> string) \<Rightarrow> int \<Rightarrow> int \<Rightarrow> worker_error" where
  "make_worker_timeout_error seconds elapsed timeout =
     make_worker_error WorkerTimeoutError
       (''Job timed out after '' @ seconds elapsed @ ''s (timeout: '' @ seconds timeout @ ''s)'') None False"

definition serialize_cause_type :: "worker_error \<Rightarrow> string option" where
  "serialize_cause_type e = map_option fst (wk_cause e)"

definition serialize_traceback :: "worker_error \<Rightarrow> string option" where
  "serialize_traceback e = (if \<not> wk_add_traceback e then None else map_option snd (wk_cause e))"

definition worker_cause_type :: "worker_error \<Rightarrow> string option" where
  "worker_cause_type e = (if truthy (wk_cause_type e) then wk_cause_type e else serialize_cause_type e)"

definition worker_traceback :: "worker_error \<Rightarrow> string option" where
  "worker_traceback e = (if truthy (wk_traceback e) then wk_traceback e else serialize_traceback e)"

text \<open>
  Pickling stores the class, the constructor arguments (the message alone, the one \<open>args\<close> has)
  and the attributes after \<open>__reduce__\<close> serialized the cause; unpickling calls the class with
  those arguments and restores the attributes, and \<open>__cause__\<close> is gone.  The constructor of
  \<open>WorkerTimeoutError\<close> takes two arguments, so unpickling one raises \<open>TypeError\<close> (\<open>None\<close>).
\<close>

definition worker_reduce :: "worker_error \<Rightarrow> worker_error" where
  "worker_reduce e = e\<lparr>wk_cause_type := serialize_cause_type e, wk_traceback := serialize_traceback e\<rparr>"

definition worker_unpickle :: "worker_error \<Rightarrow> worker_error option" where
  "worker_unpickle e =
     (if wk_class e = WorkerTimeoutError then None
      else Some ((make_worker_error (wk_class e) (wk_message e) None False)
        \<lparr>wk_detail := wk_detail e, wk_add_traceback := wk_add_traceback e,
         wk_cause_type := wk_cause_type e, wk_traceback := wk_traceback e\<rparr>))"

subsection \<open>Errors of the UWS layer\<close>

datatype uws_error_class =
    UWSError | SyncJobFailedError | SyncJobNoResultsError | SyncJobTimeoutError | UsageError
  | DataMissingError | InvalidPhaseError | ParameterError | UnknownJobError

record uws_error =
  ue_class :: uws_error_class
  ue_error_code :: string
  ue_message :: string
  ue_detail :: "string option"
  ue_status_code :: int

definition make_uws_error :: "uws_error_class \<Rightarrow> string \<Rightarrow> string \<Rightarrow> string option \<Rightarrow> uws_error" where
  "make_uws_error cls error_code message detail =
     \<lparr>ue_class = cls, ue_error_code = error_code, ue_message = message, ue_detail = detail,
      ue_status_code = 400\<rparr>"

definition sync_job_failed_error :: "job_error \<Rightarrow> uws_error" where
  "sync_job_failed_error error =
     (make_uws_error SyncJobFailedError (je_code error) (je_message error) (je_detail error))
       \<lparr>ue_status_code := (if je_code error = ''UsageError'' then 422 else 500)\<rparr>"

definition sync_job_no_results_error :: uws_error where
  "sync_job_no_results_error =
     (make_uws_error SyncJobNoResultsError ''Error'' ''Job completed but produced no results'' None)
       \<lparr>ue_status_code := 500\<rparr>"

definition sync_job_timeout_error :: "(int \<Rightarrow> string) \<Rightarrow> int \<Rightarrow> uws_error" where
  "sync_job_timeout_error seconds timeout =
     (make_uws_error SyncJobTimeoutError ''Error'' (''Job did not complete in '' @ seconds timeout @ ''s'') None)
       \<lparr>ue_status_code := 500\<rparr>"

definition usage_error :: "uws_error_class \<Rightarrow> string \<Rightarrow> string option \<Rightarrow> uws_error" where
  "usage_error cls message detail =
     (make_uws_error cls ''UsageError'' message detail)\<lparr>ue_status_code := 422\<rparr>"

definition data_missing_error :: "uws_error_class \<Rightarrow> string \<Rightarrow> uws_error" where
  "data_missing_error cls message =
     (make_uws_error cls ''UsageError'' message None)\<lparr>ue_status_code := 404\<rparr>"

definition unknown_job_error :: "string \<Rightarrow> uws_error" where
  "unknown_job_error job_id = data_missing_error UnknownJobError (''Job '' @ job_id @ '' not found'')"

fun uws_class_name :: "uws_error_class \<Rightarrow> string" where
  "uws_class_name UWSError = ''UWSError''"
| "uws_class_name SyncJobFailedError = ''SyncJobFailedError''"
| "uws_class_name SyncJobNoResultsError = ''SyncJobNoResultsError''"
| "uws_class_name SyncJobTimeoutError = ''SyncJobTimeoutError''"
| "uws_class_name UsageError = ''UsageError''"
| "uws_class_name DataMissingError = ''DataMissingError''"
| "uws_class_name InvalidPhaseError = ''InvalidPhaseError''"
| "uws_class_name ParameterError = ''ParameterError''"
| "uws_class_name UnknownJobError = ''UnknownJobError''"

text \<open>The text response of \<open>_uws_error_handler\<close>.\<close>

definition uws_error_response :: "uws_error \<Rightarrow> int \<times> string" where
  "uws_error_response exc =
     (let response = ue_error_code exc @ '': '' @ ue_message exc @ [newline];
          response = (if truthy (ue_detail exc) then response @ [newline] @ the (ue_detail exc) else response)
      in (ue_status_code exc, response))"

record task_error = slack_exception +
  te_job_id :: "string option"
  te_slack_ignore :: bool
  te_started_at :: "int option"
  te_error_code :: string
  te_error_type :: error_type
  te_detail :: "string option"
  te_cause_type :: "string option"
  te_traceback :: "string option"

definition task_from_worker_error :: "py_datetime \<Rightarrow> worker_error \<Rightarrow> task_error" where
  "task_from_worker_error now exc =
     (let (error_code, error_type, slack_ignore) = (case class_error_type (wk_class exc) of
            WFatal \<Rightarrow> (''Error'', FATAL, False)
          | WTransient \<Rightarrow> (''ServiceUnavailable'', TRANSIENT, False)
          | WUsage \<Rightarrow> (''UsageError'', FATAL, True))
      in \<lparr>se_class = ''TaskError'', se_message = wk_message exc, se_user = None, se_failed_at = now,
          te_job_id = None, te_slack_ignore = slack_ignore, te_started_at = None,
          te_error_code = error_code, te_error_type = error_type, te_detail = wk_detail exc,
          te_cause_type = worker_cause_type exc, te_traceback = worker_traceback exc\<rparr>)"

definition or_else :: "'a list option \<Rightarrow> 'a list option \<Rightarrow> 'a list option" where
  "or_else a b = (if truthy a then a else b)"

definition task_to_job_error :: "task_error \<Rightarrow> job_error" where
  "task_to_job_error e =
     (let detail = (if truthy (te_traceback e) \<and> truthy (te_detail e)
          then Some (the (te_detail e) @ [newline, newline] @ the (te_traceback e))
          else or_else (te_detail e) (te_traceback e))
      in \<lparr>je_type = te_error_type e, je_code = te_error_code e, je_message = se_message e, je_detail = detail\<rparr>)"

definition insert_at_1 :: "'a \<Rightarrow> 'a list \<Rightarrow> 'a list" where
  "insert_at_1 x xs = take 1 xs @ x # drop 1 xs"

definition utc_datetime :: "int \<Rightarrow> py_datetime" where
  "utc_datetime us = \<lparr>dt_us = us, dt_tz = FixedTz 0\<rparr>"

definition logging_time :: "int \<Rightarrow> string" where
  "logging_time us = (case format_datetime_for_logging (Some (utc_datetime us)) of
     Inr (Some t) \<Rightarrow> t | _ \<Rightarrow> [])"

definition task_to_slack :: "task_error \<Rightarrow> slack_error + slack_message" where
  "task_to_slack e =
     (case slack_exception_to_slack e (se_message e) of
        Inl err \<Rightarrow> Inl err
      | Inr message \<Rightarrow>
          (let message = (if truthy (te_traceback e)
                then message\<lparr>sm_attachments := sm_attachments message @ [SlackCodeBlock ''Traceback'' (the (te_traceback e))]\<rparr>
                else message);
               message = (case te_started_at e of None \<Rightarrow> message
                | Some t \<Rightarrow> message\<lparr>sm_fields := insert_at_1 (SlackTextField ''Started at'' (logging_time t)) (sm_fields message)\<rparr>);
               message = (if truthy (te_job_id e)
                then message\<lparr>sm_fields := insert_at_1 (SlackTextField ''UWS job ID'' (the (te_job_id e))) (sm_fields message)\<rparr>
                else message);
               message = (if truthy (te_cause_type e)
                then message\<lparr>sm_blocks := sm_blocks message @ [SlackTextBlock ''Original exception'' (the (te_cause_type e))]\<rparr>
                else message);
               message = (if truthy (te_detail e)
                then message\<lparr>sm_blocks := sm_blocks message @ [SlackTextBlock ''Detail'' (the (te_detail e))]\<rparr>
                else message)
           in Inr message))"

definition task_to_sentry :: "task_error \<Rightarrow> sentry_info" where
  "task_to_sentry e =
     (let info = slack_exception_to_sentry e;
          info = (if truthy (te_traceback e)
            then info\<lparr>si_attachments := AList.update ''traceback'' (the (te_traceback e)) (si_attachments info)\<rparr> else info);
          info = (case te_started_at e of None \<Rightarrow> info
            | Some t \<Rightarrow> info\<lparr>si_contexts := AList.update ''info'' [(''started_at'', logging_time t)] (si_contexts info)\<rparr>);
          info = (if truthy (te_job_id e)
            then info\<lparr>si_tags := AList.update ''job_id'' (the (te_job_id e)) (si_tags info)\<rparr> else info)
      in if truthy (te_detail e) \<or> truthy (te_cause_type e)
         then info\<lparr>si_contexts := AList.update ''original_exception''
               ((if truthy (te_detail e) then [(''detail'', the (te_detail e))] else []) @
                (if truthy (te_cause_type e) then [(''cause_type'', the (te_cause_type e))] else []))
               (si_contexts info)\<rparr>
         else info)"

subsection \<open>Every exception of the UWS components\<close>

text \<open>
  Other exceptions (a Pydantic \<open>ValidationError\<close>, a \<open>TypeError\<close>, what application code
  raises) are their class name and text.
\<close>

datatype exc =
    ExcUWS uws_error
  | ExcWobbly slack_web_exception
  | ExcTask task_error
  | ExcSlack slack_exception
  | ExcWorker worker_error
  | ExcArq arq_error
  | ExcOther string string

fun arq_class_name :: "arq_error \<Rightarrow> string" where
  "arq_class_name (JobNotQueued _) = ''JobNotQueued''"
| "arq_class_name (JobNotFound _) = ''JobNotFound''"
| "arq_class_name (JobResultUnavailable _) = ''JobResultUnavailable''"
| "arq_class_name (ArqKeyError _) = ''KeyError''"
| "arq_class_name (ArqClientError _) = ''Exception''"

fun exc_name :: "exc \<Rightarrow> string" where
  "exc_name (ExcUWS e) = uws_class_name (ue_class e)"
| "exc_name (ExcWobbly e) = se_class e"
| "exc_name (ExcTask e) = se_class e"
| "exc_name (ExcSlack e) = se_class e"
| "exc_name (ExcWorker e) = worker_class_name (wk_class e)"
| "exc_name (ExcArq e) = arq_class_name e"
| "exc_name (ExcOther n t) = n"

fun exc_str :: "exc \<Rightarrow> string" where
  "exc_str (ExcUWS e) = ue_message e"
| "exc_str (ExcWobbly e) = web_exception_str e"
| "exc_str (ExcTask e) = se_message e"
| "exc_str (ExcSlack e) = se_message e"
| "exc_str (ExcWorker e) = wk_message e"
| "exc_str (ExcArq e) = arq_error_str e"
| "exc_str (ExcOther n t) = t"

fun alert_of :: "exc \<Rightarrow> alert_exc" where
  "alert_of (ExcUWS e) = AlertIgnored (exc_name (ExcUWS e)) (exc_str (ExcUWS e))"
| "alert_of (ExcWobbly e) =
     AlertSlack (web_exception_to_slack e) (web_exception_to_sentry e) (se_class e) (web_exception_str e)"
| "alert_of (ExcTask e) = AlertSlack (task_to_slack e) (task_to_sentry e) (se_class e) (se_message e)"
| "alert_of (ExcSlack e) =
     AlertSlack (slack_exception_to_slack e (se_message e)) (slack_exception_to_sentry e) (se_class e) (se_message e)"
| "alert_of e = AlertOther (exc_name e) (exc_str e)"

fun is_unknown_job :: "exc \<Rightarrow> bool" where
  "is_unknown_job (ExcUWS e) = (ue_class e = UnknownJobError)"
| "is_unknown_job _ = False"

definition validation_error :: exc where
  "validation_error = ExcOther ''ValidationError'' []"

text \<open>
  \<open>Job.from_serialized_job\<close>: the job is dumped (its duration with it), and the parameters are
  validated when the stored ones are not empty; without them the required field
  \<open>parameters\<close> is missing.  The results are validated as \<open>JobResult\<close>.  \<open>None\<close> of the validator is a \<open>ValidationError\<close>.
\<close>

definition from_serialized_job :: "(params \<Rightarrow> params option) \<Rightarrow> serialized_job \<Rightarrow> exc + uws_job" where
  "from_serialized_job parse job =
     (if jb_parameters job = [] then Inl validation_error
      else case parse (jb_parameters job) of
        None \<Rightarrow> Inl validation_error
      | Some parameters \<Rightarrow>
          Inr \<lparr>jb_parameters = jb_parameters job, jb_run_id = jb_run_id job,
               jb_destruction_time = jb_destruction_time job,
               jb_execution_duration = wire_duration (jb_execution_duration job),
               sj_id = sj_id job, sj_service = sj_service job, sj_owner = sj_owner job, sj_phase = sj_phase job,
               sj_message_id = sj_message_id job, sj_creation_time = sj_creation_time job,
               sj_start_time = sj_start_time job, sj_end_time = sj_end_time job, sj_quote = sj_quote job,
               sj_errors = sj_errors job, sj_results = map plain_result (sj_results job), job_parameters = parameters\<rparr>)"

definition to_serialized_job :: "uws_job \<Rightarrow> serialized_job" where
  "to_serialized_job job = (wire_job (serialized_job.truncate job))\<lparr>sj_results := map plain_result (sj_results job)\<rparr>"

subsection \<open>What the models guarantee\<close>

lemma whole_seconds_idem [simp]: "whole_seconds (whole_seconds us * 1000000) * 1000000 = whole_seconds us * 1000000"
  by (auto simp: whole_seconds_def)

lemma wire_duration_idem [simp]: "wire_duration (wire_duration d) = wire_duration d"
  by (cases d) (simp_all add: wire_duration_def)

lemma plain_result_idem [simp]: "plain_result (plain_result r) = plain_result r"
  by (simp add: plain_result_def)

text \<open>The whole seconds of a duration, towards zero.\<close>

lemma whole_seconds_bounds:
  "\<bar>whole_seconds t * 1000000\<bar> \<le> \<bar>t\<bar> \<and> \<bar>t\<bar> < \<bar>whole_seconds t * 1000000\<bar> + 1000000 \<and> 0 \<le> whole_seconds t * t"
proof (cases "t < 0")
  case True
  then have "whole_seconds t = - ((- t) div 1000000)" by (simp add: whole_seconds_def)
  moreover have "(- t) div 1000000 * 1000000 \<le> - t" "- t < (- t) div 1000000 * 1000000 + 1000000" "0 \<le> (- t) div 1000000"
    using True by auto
  moreover have "(- t) div 1000000 * t \<le> 0" using True calculation(4) by (intro mult_nonneg_nonpos) simp_all
  ultimately show ?thesis using True by auto
next
  case False
  then have "whole_seconds t = t div 1000000" by (simp add: whole_seconds_def)
  moreover have "t div 1000000 * 1000000 \<le> t" "t < t div 1000000 * 1000000 + 1000000" "0 \<le> t div 1000000"
    using False by auto
  ultimately show ?thesis using False by auto
qed

text \<open> C18. Serializing a job read from the storage gives back what was stored, field by field, with the execution
  duration, if there is one, cut to whole seconds towards zero and the results unsigned; the job read has that duration
  and the parsed parameters, and reading what was serialized again gives the same job.  Reading fails exactly where the
  stored parameters are empty or are rejected by the application. \<close>
theorem serialized_job_roundtrip:
  "case from_serialized_job parse sj of
     Inr job \<Rightarrow> jb_parameters sj \<noteq> [] \<and> parse (jb_parameters sj) = Some (job_parameters job) \<and>
       (\<exists>d. to_serialized_job job = sj\<lparr>jb_execution_duration := d, sj_results := map (\<lambda>r. r\<lparr>ur_signed := False\<rparr>) (sj_results sj)\<rparr> \<and>
         jb_execution_duration job = d \<and>
         (case jb_execution_duration sj of
            None \<Rightarrow> d = None
          | Some t \<Rightarrow> \<exists>n. d = Some (n * 1000000) \<and> \<bar>n * 1000000\<bar> \<le> \<bar>t\<bar> \<and> \<bar>t\<bar> < \<bar>n * 1000000\<bar> + 1000000 \<and> 0 \<le> n * t)) \<and>
       from_serialized_job parse (to_serialized_job job) = Inr job
   | Inl e \<Rightarrow> e = validation_error \<and> (jb_parameters sj = [] \<or> parse (jb_parameters sj) = None)"
proof (cases "from_serialized_job parse sj")
  case (Inl e)
  then show ?thesis by (auto simp: from_serialized_job_def split: option.splits if_splits)
next
  case (Inr job)
  then have p: "jb_parameters sj \<noteq> []" "parse (jb_parameters sj) = Some (job_parameters job)"
    by (auto simp: from_serialized_job_def split: option.splits if_splits)
  let ?d = "wire_duration (jb_execution_duration sj)"
  have s: "to_serialized_job job = sj\<lparr>jb_execution_duration := ?d, sj_results := map (\<lambda>r. r\<lparr>ur_signed := False\<rparr>) (sj_results sj)\<rparr>"
    and d: "jb_execution_duration job = ?d"
    and r: "from_serialized_job parse (to_serialized_job job) = Inr job"
    using Inr by (cases sj; auto simp: from_serialized_job_def to_serialized_job_def wire_job_def plain_result_def
        serialized_job.defs split: option.splits if_splits)+
  have "case jb_execution_duration sj of None \<Rightarrow> ?d = None
      | Some t \<Rightarrow> \<exists>n. ?d = Some (n * 1000000) \<and> \<bar>n * 1000000\<bar> \<le> \<bar>t\<bar> \<and> \<bar>t\<bar> < \<bar>n * 1000000\<bar> + 1000000 \<and> 0 \<le> n * t"
    using whole_seconds_bounds by (auto simp: wire_duration_def split: option.split)
  then show ?thesis using Inr p s d r by auto
qed

definition demo_serialized_job :: "int option \<Rightarrow> serialized_job" where
  "demo_serialized_job duration = \<lparr>jb_parameters = [(''id'', JInt 1)], jb_run_id = None, jb_destruction_time = 0,
     jb_execution_duration = duration, sj_id = ''1'', sj_service = ''svc'', sj_owner = ''ann'', sj_phase = PENDING,
     sj_message_id = None, sj_creation_time = 0, sj_start_time = None, sj_end_time = None, sj_quote = None,
     sj_errors = [], sj_results = []\<rparr>"

theorem serialized_job_roundtrip_witness:
  "\<exists>job. from_serialized_job Some (demo_serialized_job (Some 1999999)) = Inr job \<and>
     to_serialized_job job = demo_serialized_job (Some 1000000)"
proof -
  have "\<exists>job. from_serialized_job Some (demo_serialized_job (Some 1999999)) = Inr job"
    by (simp add: from_serialized_job_def demo_serialized_job_def)
  then obtain job where job: "from_serialized_job Some (demo_serialized_job (Some 1999999)) = Inr job" by blast
  then obtain n :: int where "to_serialized_job job = (demo_serialized_job (Some 1999999))\<lparr>jb_execution_duration := Some (n * 1000000), sj_results := []\<rparr>"
    "\<bar>n * 1000000\<bar> \<le> 1999999" "1999999 < \<bar>n * 1000000\<bar> + 1000000" "0 \<le> n * 1999999"
    using serialized_job_roundtrip [where parse = Some and sj = "demo_serialized_job (Some 1999999)"] by (auto simp: demo_serialized_job_def)
  moreover from this have "n = 1" by linarith
  ultimately show ?thesis using job by (simp add: demo_serialized_job_def)
qed

text \<open>
  An alert about any of these exceptions, if they were raised with a time in UTC, can be
  formatted whatever texts they carry.
\<close>

definition exc_utc :: "exc \<Rightarrow> bool" where
  "exc_utc e = (case e of
     ExcWobbly e \<Rightarrow> utcoffset (dt_tz (se_failed_at e)) = Some 0
   | ExcTask e \<Rightarrow> utcoffset (dt_tz (se_failed_at e)) = Some 0
   | ExcSlack e \<Rightarrow> utcoffset (dt_tz (se_failed_at e)) = Some 0
   | _ \<Rightarrow> True)"

lemma heading_fits_short:
  "length (blk_heading b) \<le> 100 \<Longrightarrow> heading_fits b"
  by (simp add: heading_fits_def max_formatted_length_def)

lemma slack_exception_fields:
  assumes "utcoffset (dt_tz (se_failed_at e)) = Some 0"
  shows "\<exists>m. slack_exception_to_slack e t = Inr m \<and> list_all is_slack_field (sm_fields m) \<and>
    length (sm_fields m) \<le> 3 \<and> list_all heading_fits (sm_fields m) \<and> sm_message m = t \<and>
    sm_blocks m = [] \<and> sm_attachments m = []"
proof -
  obtain ft where ft: "format_datetime_for_logging (Some (se_failed_at e)) = Inr (Some ft)"
    using assms by (simp add: format_datetime_for_logging_def Let_def)
  show ?thesis using ft
    by (auto simp: slack_exception_to_slack_def make_slack_message_def validate_fields_def Let_def
        intro!: heading_fits_short)
qed

lemma alert_of_formattable:
  assumes "exc_utc e"
  shows "alert_formattable (alert_of e)"
proof (cases e)
  case (ExcWobbly x)
  then obtain m where "slack_exception_to_slack x (web_exception_str x) = Inr m"
      "list_all is_slack_field (sm_fields m)" "length (sm_fields m) \<le> 3" "list_all heading_fits (sm_fields m)"
      "sm_blocks m = []" "sm_attachments m = []"
    using slack_exception_fields [of x "web_exception_str x"] assms by (auto simp: exc_utc_def)
  then show ?thesis using ExcWobbly
    by (auto simp: alert_formattable_def web_exception_to_slack_def Let_def intro!: heading_fits_short)
next
  case (ExcTask x)
  then obtain m where m: "slack_exception_to_slack x (se_message x) = Inr m"
      "list_all is_slack_field (sm_fields m)" "length (sm_fields m) \<le> 3" "list_all heading_fits (sm_fields m)"
      "sm_blocks m = []" "sm_attachments m = []"
    using slack_exception_fields [of x "se_message x"] assms by (auto simp: exc_utc_def)
  have "list_all P (insert_at_1 y ys) \<longleftrightarrow> P y \<and> list_all P ys" "length (insert_at_1 y ys) = Suc (length ys)"
    for P and y :: slack_block and ys
    by (cases ys; simp add: insert_at_1_def; blast)+
  then show ?thesis using ExcTask m
    by (auto simp: alert_formattable_def task_to_slack_def Let_def split: option.split intro!: heading_fits_short)
next
  case (ExcSlack x)
  then show ?thesis using slack_exception_fields [of x "se_message x"] assms
    by (auto simp: exc_utc_def alert_formattable_def)
qed (simp_all add: alert_formattable_def)

text \<open>
  The way of an error that the worker function raises: the child process pickles it for the process pool, which
  unpickles it and sets its \<open>__cause__\<close> to a \<open>_RemoteTraceback\<close> whose text is the traceback of the child
  (\<open>concurrent.futures.process\<close>), and arq pickles it again into the result of the task.
\<close>

definition queue_transport :: "string \<Rightarrow> worker_error \<Rightarrow> worker_error option" where
  "queue_transport remote e = (case worker_unpickle (worker_reduce e) of
     None \<Rightarrow> None
   | Some e1 \<Rightarrow> worker_unpickle (worker_reduce (e1\<lparr>wk_cause := Some (''_RemoteTraceback'', remote)\<rparr>)))"

lemma worker_pickled:
  "worker_unpickle (worker_reduce e) = (if wk_class e = WorkerTimeoutError then None
     else Some (e\<lparr>wk_cause := None, wk_cause_type := serialize_cause_type e, wk_traceback := serialize_traceback e\<rparr>))"
  by (simp add: worker_unpickle_def worker_reduce_def make_worker_error_def)

text \<open> C19. Pickling and unpickling a worker error once keeps its class, message and detail and drops its cause, and what
  is left converts to the task error that the error gives by its own cause alone, whatever cause type and traceback an
  earlier pickling left in it; only \<open>WorkerTimeoutError\<close> cannot be unpickled.  On the way through the process
  pool and the queue, where it is pickled twice, the task error keeps its message, detail, code and
  kind, but the cause type is \<open>_RemoteTraceback\<close>, not that of the error's own cause, and the traceback, if one is
  wanted, is the text of the child process.  The name and the traceback of a cause are taken to be non-empty. \<close>
theorem worker_error_pickle_roundtrip:
  assumes cause: "\<And>name formatted. wk_cause e = Some (name, formatted) \<Longrightarrow> name \<noteq> [] \<and> formatted \<noteq> []" and remote: "remote \<noteq> []"
  shows "(case worker_unpickle (worker_reduce e) of
      None \<Rightarrow> wk_class e = WorkerTimeoutError
    | Some e1 \<Rightarrow> wk_class e \<noteq> WorkerTimeoutError \<and> wk_class e1 = wk_class e \<and> wk_message e1 = wk_message e \<and>
        wk_detail e1 = wk_detail e \<and> wk_cause e1 = None \<and>
        task_from_worker_error now e1 = task_from_worker_error now (e\<lparr>wk_cause_type := None, wk_traceback := None\<rparr>)) \<and>
    (case queue_transport remote e of
      None \<Rightarrow> wk_class e = WorkerTimeoutError
    | Some e2 \<Rightarrow> wk_class e \<noteq> WorkerTimeoutError \<and> wk_cause e2 = None \<and>
        task_from_worker_error now e2 = (task_from_worker_error now e)
          \<lparr>te_cause_type := Some ''_RemoteTraceback'', te_traceback := if wk_add_traceback e then Some remote else None\<rparr>)"
proof (cases "wk_class e = WorkerTimeoutError")
  case True
  then show ?thesis by (simp add: queue_transport_def worker_pickled)
next
  case False
  have "task_from_worker_error now (e\<lparr>wk_cause := None, wk_cause_type := serialize_cause_type e, wk_traceback := serialize_traceback e\<rparr>)
      = task_from_worker_error now (e\<lparr>wk_cause_type := None, wk_traceback := None\<rparr>)"
    using cause by (cases "wk_cause e")
      (auto simp: task_from_worker_error_def worker_cause_type_def worker_traceback_def serialize_cause_type_def
        serialize_traceback_def truthy_def)
  moreover have "task_from_worker_error now (e\<lparr>wk_cause := None, wk_cause_type := Some ''_RemoteTraceback'',
        wk_traceback := if wk_add_traceback e then Some remote else None\<rparr>)
      = (task_from_worker_error now e)
          \<lparr>te_cause_type := Some ''_RemoteTraceback'', te_traceback := if wk_add_traceback e then Some remote else None\<rparr>"
    using remote by (simp add: task_from_worker_error_def worker_cause_type_def worker_traceback_def serialize_cause_type_def
        serialize_traceback_def truthy_def Let_def split: prod.split)
  ultimately show ?thesis using False
    by (cases "wk_add_traceback e") (simp_all add: queue_transport_def worker_pickled serialize_cause_type_def serialize_traceback_def)
qed

theorem worker_error_pickle_roundtrip_witness:
  "worker_unpickle (worker_reduce (make_worker_timeout_error int_str 600000000 500000000)) = None \<and>
   (case worker_unpickle (worker_reduce ((make_worker_error WorkerUsageError ''bad'' None True)
        \<lparr>wk_cause := Some (''ValueError'', ''Traceback'')\<rparr>)) of
      None \<Rightarrow> False
    | Some e1 \<Rightarrow> te_cause_type (task_from_worker_error (utc_datetime 0) e1) = Some ''ValueError'') \<and>
   (case queue_transport ''child'' ((make_worker_error WorkerUsageError ''bad'' None True)
        \<lparr>wk_cause := Some (''ValueError'', ''Traceback'')\<rparr>) of
      None \<Rightarrow> False
    | Some e2 \<Rightarrow> te_cause_type (task_from_worker_error (utc_datetime 0) e2) = Some ''_RemoteTraceback'')"
  using worker_error_pickle_roundtrip
      [where e = "make_worker_timeout_error int_str 600000000 500000000" and now = "utc_datetime 0" and remote = "''child''"]
    worker_error_pickle_roundtrip
      [where e = "(make_worker_error WorkerUsageError ''bad'' None True)\<lparr>wk_cause := Some (''ValueError'', ''Traceback'')\<rparr>"
        and now = "utc_datetime 0" and remote = "''child''"]
  by (auto simp: make_worker_timeout_error_def make_worker_error_def worker_pickled queue_transport_def
      task_from_worker_error_def worker_cause_type_def serialize_cause_type_def truthy_def)

end
