(* ===== verification/UWSConfig.thy ===== *)
theory UWSConfig
  imports UWSModels
begin

text \<open>
  The configuration of the UWS layer, \<open>safir.uws._config\<close> and \<open>safir.arq._config\<close>: what an
  application gives, and what the components read.  The functions an application supplies (the
  validators, the parsing and conversion of its job parameters) are functions of the record.
\<close>

datatype arq_mode = Production | TestMode

record redis_settings =
  rs_host :: string
  rs_port :: int
  rs_database :: int
  rs_password :: "string option"

text \<open>A Redis URL after parsing: host, port and path may be missing.\<close>

record redis_url =
  ru_host :: "string option"
  ru_port :: "int option"
  ru_path :: "string option"

definition py_lstrip_char :: "char \<Rightarrow> string \<Rightarrow> string" where
  "py_lstrip_char c s = dropWhile (\<lambda>x. x = c) s"

definition py_rstrip_char :: "char \<Rightarrow> string \<Rightarrow> string" where
  "py_rstrip_char c s = rev (dropWhile (\<lambda>x. x = c) (rev s))"

text \<open>
  \<open>build_arq_redis_settings\<close>; a path that is no integer raises \<open>ValueError\<close> (\<open>None\<close>).
\<close>

definition build_arq_redis_settings :: "redis_url \<Rightarrow> string option \<Rightarrow> redis_settings option" where
  "build_arq_redis_settings url password =
     (case (if truthy (ru_path url) then py_int (py_lstrip_char (CHR ''/'') (the (ru_path url))) else Some 0) of
        None \<Rightarrow> None
      | Some database \<Rightarrow> Some
          \<lparr>rs_host = (if truthy (ru_host url) then the (ru_host url) else ''localhost''),
           rs_port = (case ru_port url of None \<Rightarrow> 6379 | Some p \<Rightarrow> if p = 0 then 6379 else p),
           rs_database = database,
           rs_password = (if truthy password then password else None)\<rparr>)"

record uws_route =
  rt_summary :: string
  rt_description :: "string option"

record uws_config =
  cfg_arq_mode :: arq_mode
  cfg_arq_redis_settings :: redis_settings
  cfg_async_post_route :: uws_route
  cfg_execution_duration :: int
  cfg_lifetime :: int
  cfg_parse_parameters :: "params \<Rightarrow> params option"
  cfg_worker_parameters :: "params \<Rightarrow> exc + params"
  cfg_parameters_xml :: "params \<Rightarrow> params"
  cfg_signing_service_account :: string
  cfg_wobbly_url :: string
  cfg_worker :: string
  cfg_slack_webhook :: "string option"
  cfg_sync_get_route :: "uws_route option"
  cfg_sync_post_route :: "uws_route option"
  cfg_sync_timeout :: int
  cfg_url_lifetime :: int
  cfg_validate_destruction :: "(int \<Rightarrow> uws_job \<Rightarrow> exc + int) option"
  cfg_validate_execution_duration :: "(int option \<Rightarrow> uws_job \<Rightarrow> exc + int option) option"
  cfg_wait_timeout :: int

text \<open>The settings of an application, with their defaults.\<close>

record uws_app_settings =
  app_arq_mode :: arq_mode
  app_arq_queue_url :: redis_url
  app_arq_queue_password :: "string option"
  app_grace_period :: int
  app_lifetime :: int
  app_service_account :: string
  app_storage_url :: string
  app_sync_timeout :: int
  app_timeout :: int
  app_wobbly_url :: string

definition default_app_settings :: "redis_url \<Rightarrow> string \<Rightarrow> string \<Rightarrow> string \<Rightarrow> uws_app_settings" where
  "default_app_settings arq_queue_url service_account storage_url wobbly_url =
     \<lparr>app_arq_mode = Production, app_arq_queue_url = arq_queue_url, app_arq_queue_password = None,
      app_grace_period = 30000000, app_lifetime = 7 * 86400000000, app_service_account = service_account,
      app_storage_url = storage_url, app_sync_timeout = 60000000, app_timeout = 600000000,
      app_wobbly_url = wobbly_url\<rparr>"

definition build_uws_config ::
  "uws_app_settings \<Rightarrow> uws_route \<Rightarrow> (params \<Rightarrow> params option) \<Rightarrow> (params \<Rightarrow> exc + params) \<Rightarrow> (params \<Rightarrow> params)
     \<Rightarrow> string option \<Rightarrow> uws_route option \<Rightarrow> uws_route option \<Rightarrow> int
     \<Rightarrow> (int \<Rightarrow> uws_job \<Rightarrow> exc + int) option \<Rightarrow> (int option \<Rightarrow> uws_job \<Rightarrow> exc + int option) option
     \<Rightarrow> int \<Rightarrow> string \<Rightarrow> uws_config option" where
  "build_uws_config app async_post_route parse worker_parameters parameters_xml slack_webhook
       sync_get_route sync_post_route url_lifetime validate_destruction validate_execution_duration
       wait_timeout worker =
     (case build_arq_redis_settings (app_arq_queue_url app) (app_arq_queue_password app) of
        None \<Rightarrow> None
      | Some redis \<Rightarrow> Some
          \<lparr>cfg_arq_mode = app_arq_mode app, cfg_arq_redis_settings = redis,
           cfg_async_post_route = async_post_route, cfg_execution_duration = app_timeout app,
           cfg_lifetime = app_lifetime app, cfg_parse_parameters = parse,
           cfg_worker_parameters = worker_parameters, cfg_parameters_xml = parameters_xml,
           cfg_signing_service_account = app_service_account app, cfg_wobbly_url = app_wobbly_url app,
           cfg_worker = worker, cfg_slack_webhook = slack_webhook, cfg_sync_get_route = sync_get_route,
           cfg_sync_post_route = sync_post_route, cfg_sync_timeout = app_sync_timeout app,
           cfg_url_lifetime = url_lifetime, cfg_validate_destruction = validate_destruction,
           cfg_validate_execution_duration = validate_execution_duration,
           cfg_wait_timeout = wait_timeout\<rparr>)"

text \<open>The database number of a Redis URL survives the round trip through the settings.\<close>

lemma build_arq_redis_settings_database:
  "0 \<le> n \<Longrightarrow> build_arq_redis_settings \<lparr>ru_host = h, ru_port = p, ru_path = Some (CHR ''/'' # int_str n)\<rparr> pw
     = Some \<lparr>rs_host = (if truthy h then the h else ''localhost''),
          rs_port = (case p of None \<Rightarrow> 6379 | Some p \<Rightarrow> if p = 0 then 6379 else p),
          rs_database = n, rs_password = (if truthy pw then pw else None)\<rparr>"
proof -
  assume n: "0 \<le> n"
  obtain c cs where c: "int_str n = c # cs" by (cases "int_str n") auto
  then have "c \<noteq> CHR ''/''" using set_int_str [of c n] by (auto simp: is_digit_def)
  then have "py_lstrip_char (CHR ''/'') (CHR ''/'' # int_str n) = int_str n"
    using c by (simp add: py_lstrip_char_def)
  then show ?thesis by (simp add: build_arq_redis_settings_def truthy_def)
qed

end
