(* ===== verification/UWSStorage.thy ===== *)
theory UWSStorage
  imports UWSConfig
begin

text \<open>
  The storage layer, \<open>safir.uws._storage\<close>: \<open>JobStore\<close> turns each operation on jobs into one
  HTTP request to the Wobbly service and its response into a job or an exception.  The HTTP
  client, and everything else the UWS components reach outside themselves, is the record
  \<open>uws_env\<close> of functions on a world \<open>'w\<close>.
\<close>

subsection \<open>Requests and the surroundings\<close>

datatype http_method = GET | POST | PATCH | DELETE

fun method_name :: "http_method \<Rightarrow> string" where
  "method_name GET = ''GET''"
| "method_name POST = ''POST''"
| "method_name PATCH = ''PATCH''"
| "method_name DELETE = ''DELETE''"

text \<open>The JSON body of a request: the dump of one of the models.\<close>

datatype wob_body = BodyCreate job_base | BodyUpdate job_update

record wob_request =
  rq_method :: http_method
  rq_url :: string
  rq_authorization :: string
  rq_body :: "wob_body option"
  rq_params :: "(string \<times> string) list"

text \<open>
  A response: its status, the value its JSON body is the dump of, its text, and the URL the
  client reports for its request.
\<close>

datatype wob_json = WobJob serialized_job | WobJobs "serialized_job list" | WobNone

record wob_response =
  rp_status :: int
  rp_json :: wob_json
  rp_text :: string
  rp_url :: string

text \<open>A request fails with an \<open>HTTPError\<close> of the client or with any other exception.\<close>

datatype client_error = ClientHTTP http_error | ClientExc exc

record worker_job_info =
  wj_job_id :: string
  wj_user :: string
  wj_token :: string
  wj_timeout :: int
  wj_run_id :: "string option"

text \<open>The arguments of the tasks this code enqueues.\<close>

datatype arq_arg = ArgParams params | ArgInfo worker_job_info | ArgStr string | ArgTime int

type_synonym uws_arq_result = "(arq_arg, worker_result list, exc) job_result"

text \<open>
  The surroundings: the HTTP client, the clock (microseconds, UTC), the arq queue, the event
  loop (sleeping some picoseconds, in which other parties act, and the picoseconds the next
  request will take), what alerts go to, and how a phase of \<open>vo_models\<close>, a float number of
  seconds and the traceback of an exception are formatted.
\<close>

record 'w uws_env =
  en_request :: "wob_request \<Rightarrow> ('w, client_error, wob_response) eff"
  en_now :: "'w \<Rightarrow> int"
  en_enqueue :: "string \<Rightarrow> arq_arg list \<Rightarrow> ('w, arq_error, arq_arg job_metadata) eff"
  en_abort :: "string \<Rightarrow> int option \<Rightarrow> ('w, arq_error, bool) eff"
  en_result :: "string \<Rightarrow> ('w, arq_error, uws_arq_result) eff"
  en_sleep :: "nat \<Rightarrow> 'w \<Rightarrow> 'w"
  en_latency :: "'w \<Rightarrow> nat"
  en_alert :: "'w alert_env"
  en_phase_str :: "execution_phase \<Rightarrow> string"
  en_seconds_str :: "int \<Rightarrow> string"
  en_traceback :: "exc \<Rightarrow> string"

fun phase_value :: "execution_phase \<Rightarrow> string" where
  "phase_value PENDING = ''PENDING''"
| "phase_value QUEUED = ''QUEUED''"
| "phase_value EXECUTING = ''EXECUTING''"
| "phase_value COMPLETED = ''COMPLETED''"
| "phase_value ERROR = ''ERROR''"
| "phase_value ABORTED = ''ABORTED''"
| "phase_value UNKNOWN = ''UNKNOWN''"
| "phase_value HELD = ''HELD''"
| "phase_value SUSPENDED = ''SUSPENDED''"
| "phase_value ARCHIVED = ''ARCHIVED''"

subsection \<open>The job store\<close>

definition base_url :: "uws_config \<Rightarrow> string" where
  "base_url cfg = py_rstrip_char (CHR ''/'') (cfg_wobbly_url cfg)"

definition job_url :: "uws_config \<Rightarrow> string option \<Rightarrow> string" where
  "job_url cfg job_id =
     (let url = base_url cfg @ ''/jobs'' in
      if truthy job_id then url @ ''/'' @ the job_id else url)"

definition make_request ::
  "uws_config \<Rightarrow> http_method \<Rightarrow> string \<Rightarrow> string option \<Rightarrow> wob_body option \<Rightarrow> (string \<times> string) list \<Rightarrow> wob_request" where
  "make_request cfg meth token job_id body query =
     \<lparr>rq_method = meth, rq_url = job_url cfg job_id, rq_authorization = ''bearer '' @ token,
      rq_body = body, rq_params = query\<rparr>"

definition wobbly_error :: "'w uws_env \<Rightarrow> http_error \<Rightarrow> ('w, exc, 'a) eff" where
  "wobbly_error env e = (\<lambda>w.
     (Inl (ExcWobbly (web_exception_from ''WobblyError'' e None (utc_datetime (en_now env w)))), w))"

definition store_request ::
  "uws_config \<Rightarrow> 'w uws_env \<Rightarrow> http_method \<Rightarrow> string \<Rightarrow> string option \<Rightarrow> wob_body option
     \<Rightarrow> (string \<times> string) list \<Rightarrow> ('w, exc, wob_response) eff" where
  "store_request cfg env meth token job_id body query = (\<lambda>w.
     case en_request env (make_request cfg meth token job_id body query) w of
       (Inl (ClientHTTP e), w) \<Rightarrow> wobbly_error env e w
     | (Inl (ClientExc e), w) \<Rightarrow> (Inl e, w)
     | (Inr r, w) \<Rightarrow>
         if rp_status r = 404 \<and> truthy job_id then (Inl (ExcUWS (unknown_job_error (the job_id))), w)
         else if 200 \<le> rp_status r \<and> rp_status r < 300 then (Inr r, w)
         else wobbly_error env
           (HTTPStatusError (rp_status r) (method_name meth) (rp_url r) (Some (rp_text r))) w)"

definition validate_job :: "wob_json \<Rightarrow> exc + serialized_job" where
  "validate_job j = (case j of WobJob job \<Rightarrow> Inr job | _ \<Rightarrow> Inl validation_error)"

definition validate_jobs :: "wob_json \<Rightarrow> exc + serialized_job list" where
  "validate_jobs j = (case j of WobJobs jobs \<Rightarrow> Inr jobs | _ \<Rightarrow> Inl validation_error)"

definition response_job :: "uws_config \<Rightarrow> wob_response \<Rightarrow> ('w, exc, uws_job) eff" where
  "response_job cfg r =
     bind_eff (lift_eff (validate_job (rp_json r))) (\<lambda>job.
     lift_eff (from_serialized_job (cfg_parse_parameters cfg) job))"

definition store_create ::
  "uws_config \<Rightarrow> 'w uws_env \<Rightarrow> string \<Rightarrow> string option \<Rightarrow> params \<Rightarrow> int \<Rightarrow> int \<Rightarrow> ('w, exc, uws_job) eff" where
  "store_create cfg env token run_id parameters execution_duration lifetime =
     bind_eff (read_eff (en_now env)) (\<lambda>now.
     let now = now - now mod 1000000;
         job_create = \<lparr>jb_parameters = parameters, jb_run_id = run_id, jb_destruction_time = now + lifetime,
                       jb_execution_duration = Some execution_duration\<rparr>
     in bind_eff (store_request cfg env POST token None (Some (BodyCreate (wire_job job_create))) []) (\<lambda>r.
        response_job cfg r))"

definition store_delete :: "uws_config \<Rightarrow> 'w uws_env \<Rightarrow> string \<Rightarrow> string \<Rightarrow> ('w, exc, unit) eff" where
  "store_delete cfg env token job_id =
     bind_eff (store_request cfg env DELETE token (Some job_id) None []) (\<lambda>_. ret_eff ())"

definition store_get :: "uws_config \<Rightarrow> 'w uws_env \<Rightarrow> string \<Rightarrow> string \<Rightarrow> ('w, exc, uws_job) eff" where
  "store_get cfg env token job_id =
     bind_eff (store_request cfg env GET token (Some job_id) None []) (\<lambda>r. response_job cfg r)"

definition list_query ::
  "execution_phase list option \<Rightarrow> py_datetime option \<Rightarrow> int option \<Rightarrow> exc + (string \<times> string) list" where
  "list_query phases after count =
     (let query = (case phases of None \<Rightarrow> [] | Some ps \<Rightarrow> map (\<lambda>p. (''phase'', phase_value p)) ps);
          limit = (case count of None \<Rightarrow> [] | Some n \<Rightarrow> if n \<noteq> 0 then [(''limit'', int_str n)] else [])
      in case after of
           None \<Rightarrow> Inr (query @ limit)
         | Some t \<Rightarrow> (case isodatetime t of
             Inl _ \<Rightarrow> Inl (ExcOther ''ValueError'' ''datetime not in UTC'')
           | Inr s \<Rightarrow> Inr (query @ [(''since'', s)] @ limit)))"

definition store_list_jobs ::
  "uws_config \<Rightarrow> 'w uws_env \<Rightarrow> string \<Rightarrow> execution_phase list option \<Rightarrow> py_datetime option \<Rightarrow> int option
     \<Rightarrow> ('w, exc, serialized_job list) eff" where
  "store_list_jobs cfg env token phases after count =
     bind_eff (lift_eff (list_query phases after count)) (\<lambda>query.
     bind_eff (store_request cfg env GET token None None query) (\<lambda>r.
     lift_eff (validate_jobs (rp_json r))))"

definition store_update ::
  "uws_config \<Rightarrow> 'w uws_env \<Rightarrow> string \<Rightarrow> string \<Rightarrow> job_update \<Rightarrow> ('w, exc, unit) eff" where
  "store_update cfg env token job_id update =
     bind_eff (store_request cfg env PATCH token (Some job_id) (Some (BodyUpdate update)) []) (\<lambda>_. ret_eff ())"

definition mark_aborted :: "uws_config \<Rightarrow> 'w uws_env \<Rightarrow> string \<Rightarrow> string \<Rightarrow> ('w, exc, unit) eff" where
  "mark_aborted cfg env token job_id = store_update cfg env token job_id UpdateAborted"

definition mark_failed :: "uws_config \<Rightarrow> 'w uws_env \<Rightarrow> string \<Rightarrow> string \<Rightarrow> exc \<Rightarrow> ('w, exc, unit) eff" where
  "mark_failed cfg env token job_id e =
     (let error = (case e of
            ExcTask t \<Rightarrow> task_to_job_error t
          | _ \<Rightarrow> \<lparr>je_type = FATAL, je_code = ''Error'', je_message = ''Unknown error executing task'',
                  je_detail = Some (exc_name e @ '': '' @ exc_str e)\<rparr>)
      in store_update cfg env token job_id (UpdateError [error]))"

text \<open>
  The result of a job: an exception marks it failed; anything else is iterated over, which
  raises \<open>TypeError\<close> for the \<open>CancelledError\<close> of an aborted task.
\<close>

definition mark_completed ::
  "uws_config \<Rightarrow> 'w uws_env \<Rightarrow> string \<Rightarrow> string \<Rightarrow> (worker_result list, exc) arq_outcome \<Rightarrow> ('w, exc, unit) eff" where
  "mark_completed cfg env token job_id result = (case result of
     Failed e \<Rightarrow> mark_failed cfg env token job_id e
   | Cancelled \<Rightarrow> raise_eff (ExcOther ''TypeError'' ''CancelledError object is not iterable'')
   | Returned rs \<Rightarrow> store_update cfg env token job_id (UpdateCompleted (map from_worker_result rs)))"

definition mark_executing :: "uws_config \<Rightarrow> 'w uws_env \<Rightarrow> string \<Rightarrow> string \<Rightarrow> int \<Rightarrow> ('w, exc, unit) eff" where
  "mark_executing cfg env token job_id start_time =
     store_update cfg env token job_id (UpdateExecuting start_time)"

definition mark_queued ::
  "uws_config \<Rightarrow> 'w uws_env \<Rightarrow> string \<Rightarrow> string \<Rightarrow> 'v job_metadata \<Rightarrow> ('w, exc, unit) eff" where
  "mark_queued cfg env token job_id metadata =
     store_update cfg env token job_id (UpdateQueued (Some (jm_id metadata)))"

definition update_metadata ::
  "uws_config \<Rightarrow> 'w uws_env \<Rightarrow> string \<Rightarrow> string \<Rightarrow> int \<Rightarrow> int option \<Rightarrow> ('w, exc, unit) eff" where
  "update_metadata cfg env token job_id destruction_time execution_duration =
     store_update cfg env token job_id
       (UpdateMetadata destruction_time (wire_update_duration execution_duration))"

end
