(* ===== verification/UWSService.thy ===== *)
theory UWSService
  imports UWSStorage
begin

text \<open>
  The service layer, \<open>safir.uws._service\<close> and \<open>safir.uws._results\<close>: \<open>JobService\<close> dispatches
  jobs to the arq queue and tracks them in the job store.  Durations are microseconds, the
  delays of the polling loop picoseconds, in which all of them are exact.
\<close>

subsection \<open>Waiting for a job\<close>

text \<open>
  The delay before poll \<open>n\<close>: 0.1 s, then 1.5 times the one before, at most 5 s.
\<close>

fun poll_delay :: "nat \<Rightarrow> nat" where
  "poll_delay 0 = 100000000000"
| "poll_delay (Suc n) = min (poll_delay n * 3 div 2) 5000000000000"

lemma poll_delay_pos: "100000000000 \<le> poll_delay n"
  by (induction n) auto

text \<open>
  The loop under \<open>asyncio.timeout\<close>: \<open>elapsed\<close> of the \<open>timeout\<close> is used up.  When the time runs
  out during the sleep or during the request, the \<open>TimeoutError\<close> ends the loop and is
  suppressed; an exception of the request within the time leaves the function.
\<close>

function wait_loop ::
  "uws_config \<Rightarrow> 'w uws_env \<Rightarrow> string \<Rightarrow> string \<Rightarrow> execution_phase list \<Rightarrow> nat \<Rightarrow> nat \<Rightarrow> nat \<Rightarrow> execution_phase
     \<Rightarrow> ('w, exc, unit) eff" where
  "wait_loop cfg env token job_id until_not timeout elapsed n phase w =
     (if phase \<notin> set until_not then (Inr (), w)
      else if timeout \<le> elapsed + poll_delay n then (Inr (), en_sleep env (timeout - elapsed) w)
      else let w = en_sleep env (poll_delay n) w; elapsed = elapsed + poll_delay n + en_latency env w in
           case store_get cfg env token job_id w of
             (res, w) \<Rightarrow>
               if timeout \<le> elapsed then (Inr (), w)
               else (case res of
                  Inl e \<Rightarrow> (Inl e, w)
                | Inr job \<Rightarrow> wait_loop cfg env token job_id until_not timeout elapsed (Suc n) (sj_phase job) w))"
  by pat_completeness auto

termination
proof (relation "measure (\<lambda>(_, _, _, _, _, timeout, elapsed, _, _, _). timeout - elapsed)")
  fix cfg and env :: "'a uws_env" and token job_id until_not and timeout elapsed n :: nat and phase
    and w x :: 'a and xa res y and job :: uws_job
  assume "\<not> timeout \<le> elapsed + poll_delay n" "x = en_sleep env (poll_delay n) w"
    "xa = elapsed + poll_delay n + en_latency env x" "\<not> timeout \<le> xa"
  then show "((cfg, env, token, job_id, until_not, timeout, xa, Suc n, sj_phase job, y),
       cfg, env, token, job_id, until_not, timeout, elapsed, n, phase, w)
      \<in> measure (\<lambda>(_, _, _, _, _, timeout, elapsed, _, _, _). timeout - elapsed)"
    using poll_delay_pos [of n] by simp
qed simp

declare wait_loop.simps [simp del]

definition wait_for_job ::
  "uws_config \<Rightarrow> 'w uws_env \<Rightarrow> string \<Rightarrow> uws_job \<Rightarrow> execution_phase list \<Rightarrow> int \<Rightarrow> ('w, exc, uws_job) eff" where
  "wait_for_job cfg env token job until_not timeout =
     bind_eff (wait_loop cfg env token (sj_id job) until_not (nat (timeout * 1000000)) 0 0 (sj_phase job))
       (\<lambda>_. store_get cfg env token (sj_id job))"

subsection \<open>Operations on jobs\<close>

definition is_active :: "'x serialized_job_scheme \<Rightarrow> bool" where
  "is_active job \<longleftrightarrow> sj_phase job \<in> set active_phases"

text \<open>What a call to the arq queue raises, as an exception of the service.\<close>

definition arq_call :: "('w, arq_error, 'a) eff \<Rightarrow> ('w, exc, 'a) eff" where
  "arq_call m = (\<lambda>w. case m w of (Inl e, w) \<Rightarrow> (Inl (ExcArq e), w) | (Inr a, w) \<Rightarrow> (Inr a, w))"

definition abort :: "uws_config \<Rightarrow> 'w uws_env \<Rightarrow> string \<Rightarrow> string \<Rightarrow> ('w, exc, unit) eff" where
  "abort cfg env token job_id =
     bind_eff (store_get cfg env token job_id) (\<lambda>job.
       if \<not> is_active job then ret_eff ()
       else bind_eff (if truthy (sj_message_id job)
                      then bind_eff (arq_call (en_abort env (the (sj_message_id job)) (Some 30000000))) (\<lambda>_. ret_eff ())
                      else ret_eff ())
              (\<lambda>_. mark_aborted cfg env token job_id))"

definition create :: "uws_config \<Rightarrow> 'w uws_env \<Rightarrow> string \<Rightarrow> params \<Rightarrow> string option \<Rightarrow> ('w, exc, uws_job) eff" where
  "create cfg env token parameters run_id =
     store_create cfg env token run_id parameters (cfg_execution_duration cfg) (cfg_lifetime cfg)"

definition delete :: "uws_config \<Rightarrow> 'w uws_env \<Rightarrow> string \<Rightarrow> string \<Rightarrow> ('w, exc, unit) eff" where
  "delete cfg env token job_id =
     bind_eff (store_get cfg env token job_id) (\<lambda>job.
     bind_eff (if is_active job \<and> truthy (sj_message_id job)
               then catch_eff (bind_eff (arq_call (en_abort env (the (sj_message_id job)) None)) (\<lambda>_. ret_eff ()))
                      (\<lambda>_. ret_eff ())
               else ret_eff ())
       (\<lambda>_. store_delete cfg env token job_id))"

definition wait_time :: "uws_config \<Rightarrow> int \<Rightarrow> int" where
  "wait_time cfg wait_seconds =
     (if wait_seconds < 0 then cfg_wait_timeout cfg else min (wait_seconds * 1000000) (cfg_wait_timeout cfg))"

definition get ::
  "uws_config \<Rightarrow> 'w uws_env \<Rightarrow> string \<Rightarrow> string \<Rightarrow> int option \<Rightarrow> execution_phase option \<Rightarrow> bool
     \<Rightarrow> ('w, exc, uws_job) eff" where
  "get cfg env token job_id wait_seconds wait_phase wait_for_completion =
     bind_eff (store_get cfg env token job_id) (\<lambda>job.
       case wait_seconds of
         None \<Rightarrow> ret_eff job
       | Some s \<Rightarrow>
           if s \<noteq> 0 \<and> is_active job
           then (let until_not = (if wait_for_completion then active_phases
                       else case wait_phase of Some p \<Rightarrow> [p] | None \<Rightarrow> [sj_phase job])
                 in wait_for_job cfg env token job until_not (wait_time cfg s))
           else ret_eff job)"

definition get_error :: "uws_config \<Rightarrow> 'w uws_env \<Rightarrow> string \<Rightarrow> string \<Rightarrow> ('w, exc, job_error list) eff" where
  "get_error cfg env token job_id =
     bind_eff (store_get cfg env token job_id) (\<lambda>job. ret_eff (sj_errors job))"

text \<open>
  Signing, \<open>ResultStore.sign_url\<close>: a URL that is already HTTP is kept, any other one is signed by
  the storage service (\<open>signed_url\<close> of \<open>safir.gcs\<close>, which may raise).
\<close>

definition sign_url ::
  "(string \<Rightarrow> string option \<Rightarrow> ('w, exc, string) eff) \<Rightarrow> uws_job_result \<Rightarrow> ('w, exc, uws_job_result) eff" where
  "sign_url signed_url result =
     bind_eff (if py_startswith (ur_url result) ''http'' \<or> py_startswith (ur_url result) ''https''
               then ret_eff (ur_url result) else signed_url (ur_url result) (ur_mime_type result))
       (\<lambda>url. ret_eff \<lparr>ur_id = ur_id result, ur_url = url, ur_size = ur_size result,
                        ur_mime_type = ur_mime_type result, ur_signed = True\<rparr>)"

fun map_eff :: "('a \<Rightarrow> ('s, 'e, 'b) eff) \<Rightarrow> 'a list \<Rightarrow> ('s, 'e, 'b list) eff" where
  "map_eff f [] = ret_eff []"
| "map_eff f (x # xs) = bind_eff (f x) (\<lambda>y. bind_eff (map_eff f xs) (\<lambda>ys. ret_eff (y # ys)))"

definition get_summary ::
  "uws_config \<Rightarrow> 'w uws_env \<Rightarrow> string \<Rightarrow> string \<Rightarrow> (string \<Rightarrow> string option \<Rightarrow> ('w, exc, string) eff) option
     \<Rightarrow> int option \<Rightarrow> execution_phase option \<Rightarrow> ('w, exc, job_summary) eff" where
  "get_summary cfg env token job_id signer wait_seconds wait_phase =
     bind_eff (get cfg env token job_id wait_seconds wait_phase False) (\<lambda>job.
     bind_eff (case signer of
         None \<Rightarrow> ret_eff job
       | Some signed_url \<Rightarrow> bind_eff (map_eff (sign_url signed_url) (sj_results job)) (\<lambda>rs.
           ret_eff (job\<lparr>sj_results := rs\<rparr>)))
     (\<lambda>job. ret_eff (job_to_xml (cfg_parameters_xml cfg) job)))"

definition list_jobs ::
  "uws_config \<Rightarrow> 'w uws_env \<Rightarrow> string \<Rightarrow> string \<Rightarrow> execution_phase list option \<Rightarrow> py_datetime option \<Rightarrow> int option
     \<Rightarrow> ('w, exc, short_job_description list) eff" where
  "list_jobs cfg env token url phases after count =
     bind_eff (store_list_jobs cfg env token phases after count) (\<lambda>jobs.
     ret_eff (map (to_job_description url) jobs))"

definition invalid_phase :: "'w uws_env \<Rightarrow> execution_phase \<Rightarrow> exc" where
  "invalid_phase env phase =
     ExcUWS (usage_error InvalidPhaseError (''Cannot start job in phase '' @ en_phase_str env phase) None)"

text \<open>\<open>job.execution_duration or self._config.lifetime\<close>: a zero duration counts as none.\<close>

definition start :: "uws_config \<Rightarrow> 'w uws_env \<Rightarrow> string \<Rightarrow> string \<Rightarrow> string \<Rightarrow> ('w, exc, arq_arg job_metadata) eff" where
  "start cfg env token user job_id =
     bind_eff (store_get cfg env token job_id) (\<lambda>job.
       if sj_phase job \<notin> {PENDING, HELD} then raise_eff (invalid_phase env (sj_phase job))
       else let info = \<lparr>wj_job_id = sj_id job, wj_user = user, wj_token = token,
              wj_timeout = (case jb_execution_duration job of None \<Rightarrow> cfg_lifetime cfg
                            | Some d \<Rightarrow> if d = 0 then cfg_lifetime cfg else d),
              wj_run_id = jb_run_id job\<rparr>
       in bind_eff (lift_eff (cfg_worker_parameters cfg (job_parameters job))) (\<lambda>params.
          bind_eff (arq_call (en_enqueue env (cfg_worker cfg) [ArgParams params, ArgInfo info])) (\<lambda>metadata.
          bind_eff (mark_queued cfg env token job_id metadata) (\<lambda>_. ret_eff metadata))))"

definition run_sync ::
  "uws_config \<Rightarrow> 'w uws_env \<Rightarrow> string \<Rightarrow> string \<Rightarrow> params \<Rightarrow> string option
     \<Rightarrow> ('w, exc, uws_job_result) eff" where
  "run_sync cfg env token user parameters runid =
     bind_eff (create cfg env token parameters runid) (\<lambda>job.
     bind_eff (start cfg env token user (sj_id job)) (\<lambda>metadata.
     bind_eff (get cfg env token (sj_id job) (Some (whole_seconds (cfg_sync_timeout cfg))) None True) (\<lambda>job.
       if sj_phase job \<notin> {COMPLETED, ERROR}
       then raise_eff (ExcUWS (sync_job_timeout_error (en_seconds_str env) (cfg_sync_timeout cfg)))
       else case sj_errors job of
         error # _ \<Rightarrow> raise_eff (ExcUWS (sync_job_failed_error error))
       | [] \<Rightarrow> (case sj_results job of
           [] \<Rightarrow> raise_eff (ExcUWS sync_job_no_results_error)
         | r # _ \<Rightarrow> ret_eff r))))"

definition update_destruction ::
  "uws_config \<Rightarrow> 'w uws_env \<Rightarrow> string \<Rightarrow> string \<Rightarrow> int \<Rightarrow> ('w, exc, int option) eff" where
  "update_destruction cfg env token job_id destruction =
     bind_eff (store_get cfg env token job_id) (\<lambda>job.
     bind_eff (lift_eff (case cfg_validate_destruction cfg of
         Some validator \<Rightarrow> validator destruction job
       | None \<Rightarrow> Inr (if jb_destruction_time job < destruction then jb_destruction_time job else destruction)))
     (\<lambda>destruction.
       if destruction = jb_destruction_time job then ret_eff None
       else bind_eff (update_metadata cfg env token job_id destruction (jb_execution_duration job))
              (\<lambda>_. ret_eff (Some destruction))))"

definition update_execution_duration ::
  "uws_config \<Rightarrow> 'w uws_env \<Rightarrow> string \<Rightarrow> string \<Rightarrow> int option \<Rightarrow> ('w, exc, int option) eff" where
  "update_execution_duration cfg env token job_id duration =
     bind_eff (store_get cfg env token job_id) (\<lambda>job.
     bind_eff (lift_eff (case cfg_validate_execution_duration cfg of
         Some validator \<Rightarrow> validator duration job
       | None \<Rightarrow> Inr duration))
     (\<lambda>duration.
       let duration = (case duration of Some d \<Rightarrow> if d \<noteq> 0 then Some (min d (cfg_execution_duration cfg)) else Some d
                       | None \<Rightarrow> None)
       in if duration = jb_execution_duration job then ret_eff None
          else bind_eff (update_metadata cfg env token job_id (jb_destruction_time job) duration)
                 (\<lambda>_. ret_eff duration)))"

end
