(* ===== verification/UWSHandlers.thy ===== *)
theory UWSHandlers
  imports UWSService
begin

text \<open>
  The route handlers of a UWS service, \<open>safir.uws._handlers\<close>, with the parameter dependencies of
  \<open>_dependencies\<close> and the error responses of \<open>_app\<close>.  A handler gets its validated
  parameters, the delegated token, the user and the URLs of the routes it redirects to;
  rendering a model to XML or through a template is left to the response.
\<close>

datatype uws_response =
    JobsXml "short_job_description list"
  | JobXml job_summary
  | ParametersXml params
  | ResultsXml "result_reference list"
  | ErrorXml job_error
  | AvailabilityXml bool
  | PlainText string
  | Redirect string

text \<open>\<open>request.url_for\<close> of the two routes redirected to.\<close>

record route_urls =
  url_job_list :: string
  url_job :: "string \<Rightarrow> string"

type_synonym 'w signer = "string \<Rightarrow> string option \<Rightarrow> ('w, exc, string) eff"

definition request_validation_error :: exc where
  "request_validation_error = ExcOther ''RequestValidationError'' []"

definition get_job_list ::
  "uws_config \<Rightarrow> 'w uws_env \<Rightarrow> route_urls \<Rightarrow> string \<Rightarrow> execution_phase list option \<Rightarrow> py_datetime option
     \<Rightarrow> int option \<Rightarrow> ('w, exc, uws_response) eff" where
  "get_job_list cfg env urls token phase after count =
     bind_eff (list_jobs cfg env token (url_job_list urls) phase after count) (\<lambda>jobs. ret_eff (JobsXml jobs))"

definition get_job_handler ::
  "uws_config \<Rightarrow> 'w uws_env \<Rightarrow> 'w signer \<Rightarrow> string \<Rightarrow> string \<Rightarrow> int option \<Rightarrow> execution_phase option
     \<Rightarrow> ('w, exc, uws_response) eff" where
  "get_job_handler cfg env signed_url token job_id wait phase =
     bind_eff (get_summary cfg env token job_id (Some signed_url) wait phase) (\<lambda>job. ret_eff (JobXml job))"

definition delete_job_handler ::
  "uws_config \<Rightarrow> 'w uws_env \<Rightarrow> route_urls \<Rightarrow> string \<Rightarrow> string \<Rightarrow> ('w, exc, uws_response) eff" where
  "delete_job_handler cfg env urls token job_id =
     bind_eff (delete cfg env token job_id) (\<lambda>_. ret_eff (Redirect (url_job_list urls)))"

definition delete_job_via_post ::
  "uws_config \<Rightarrow> 'w uws_env \<Rightarrow> route_urls \<Rightarrow> string \<Rightarrow> string \<Rightarrow> string option \<Rightarrow> ('w, exc, uws_response) eff" where
  "delete_job_via_post cfg env urls token job_id action =
     (if action \<notin> {None, Some ''DELETE''} then raise_eff request_validation_error
      else bind_eff (delete cfg env token job_id) (\<lambda>_. ret_eff (Redirect (url_job_list urls))))"

definition iso_text :: "int \<Rightarrow> ('w, exc, string) eff" where
  "iso_text t = (case isodatetime (utc_datetime t) of
     Inl _ \<Rightarrow> raise_eff (ExcOther ''ValueError'' []) | Inr s \<Rightarrow> ret_eff s)"

definition get_job_destruction :: "uws_config \<Rightarrow> 'w uws_env \<Rightarrow> string \<Rightarrow> string \<Rightarrow> ('w, exc, uws_response) eff" where
  "get_job_destruction cfg env token job_id =
     bind_eff (get cfg env token job_id None None False) (\<lambda>job.
     bind_eff (iso_text (jb_destruction_time job)) (\<lambda>t. ret_eff (PlainText t)))"

text \<open>The form field is an \<open>IvoaIsoDatetime\<close>, parsed by \<open>parse_isodatetime\<close>.\<close>

definition post_job_destruction ::
  "uws_config \<Rightarrow> 'w uws_env \<Rightarrow> route_urls \<Rightarrow> string \<Rightarrow> string \<Rightarrow> string \<Rightarrow> ('w, exc, uws_response) eff" where
  "post_job_destruction cfg env urls token job_id destruction = (case parse_isodatetime destruction of
     Inl _ \<Rightarrow> raise_eff request_validation_error
   | Inr t \<Rightarrow> bind_eff (update_destruction cfg env token job_id (dt_us t)) (\<lambda>_.
       ret_eff (Redirect (url_job urls job_id))))"

definition data_missing :: "string \<Rightarrow> exc" where
  "data_missing message = ExcUWS (data_missing_error DataMissingError message)"

definition get_job_error :: "uws_config \<Rightarrow> 'w uws_env \<Rightarrow> string \<Rightarrow> string \<Rightarrow> ('w, exc, uws_response) eff" where
  "get_job_error cfg env token job_id =
     bind_eff (get_error cfg env token job_id) (\<lambda>errors. case errors of
       [] \<Rightarrow> raise_eff (data_missing (''Job '' @ job_id @ '' did not fail''))
     | e # _ \<Rightarrow> ret_eff (ErrorXml e))"

definition get_job_execution_duration ::
  "uws_config \<Rightarrow> 'w uws_env \<Rightarrow> string \<Rightarrow> string \<Rightarrow> ('w, exc, uws_response) eff" where
  "get_job_execution_duration cfg env token job_id =
     bind_eff (get cfg env token job_id None None False) (\<lambda>job.
       case jb_execution_duration job of
         None \<Rightarrow> ret_eff (PlainText ''0'')
       | Some d \<Rightarrow> ret_eff (PlainText (if d \<noteq> 0 then int_str (whole_seconds d) else ''0'')))"

text \<open>The form field is an integer of at least 0; a \<open>timedelta\<close> from a billion days on overflows.\<close>

definition post_job_execution_duration ::
  "uws_config \<Rightarrow> 'w uws_env \<Rightarrow> route_urls \<Rightarrow> string \<Rightarrow> string \<Rightarrow> int \<Rightarrow> ('w, exc, uws_response) eff" where
  "post_job_execution_duration cfg env urls token job_id executionduration =
     (if executionduration < 0 then raise_eff request_validation_error
      else if executionduration div 86400 > 999999999 then raise_eff (ExcOther ''OverflowError'' [])
      else let duration = (if executionduration > 0 then Some (executionduration * 1000000) else None)
           in bind_eff (update_execution_duration cfg env token job_id duration) (\<lambda>_.
              ret_eff (Redirect (url_job urls job_id))))"

definition get_job_owner :: "uws_config \<Rightarrow> 'w uws_env \<Rightarrow> string \<Rightarrow> string \<Rightarrow> ('w, exc, uws_response) eff" where
  "get_job_owner cfg env token job_id =
     bind_eff (get cfg env token job_id None None False) (\<lambda>job. ret_eff (PlainText (sj_owner job)))"

text \<open>\<open>job.parameters\<close> of the XML model is a model object, whose truth value is always true.\<close>

definition get_job_parameters :: "uws_config \<Rightarrow> 'w uws_env \<Rightarrow> string \<Rightarrow> string \<Rightarrow> ('w, exc, uws_response) eff" where
  "get_job_parameters cfg env token job_id =
     bind_eff (get_summary cfg env token job_id None None None) (\<lambda>job.
     ret_eff (ParametersXml (js_parameters job)))"

definition get_job_phase :: "uws_config \<Rightarrow> 'w uws_env \<Rightarrow> string \<Rightarrow> string \<Rightarrow> ('w, exc, uws_response) eff" where
  "get_job_phase cfg env token job_id =
     bind_eff (get cfg env token job_id None None False) (\<lambda>job. ret_eff (PlainText (phase_value (sj_phase job))))"

definition post_job_phase ::
  "uws_config \<Rightarrow> 'w uws_env \<Rightarrow> route_urls \<Rightarrow> string \<Rightarrow> string \<Rightarrow> string \<Rightarrow> string option \<Rightarrow> ('w, exc, uws_response) eff" where
  "post_job_phase cfg env urls token user job_id phase =
     (if phase \<notin> {None, Some ''RUN'', Some ''ABORT''} then raise_eff request_validation_error
      else bind_eff (if phase = Some ''ABORT'' then abort cfg env token job_id
                     else if phase = Some ''RUN'' then bind_eff (start cfg env token user job_id) (\<lambda>_. ret_eff ())
                     else ret_eff ())
             (\<lambda>_. ret_eff (Redirect (url_job urls job_id))))"

definition get_job_quote :: "uws_config \<Rightarrow> 'w uws_env \<Rightarrow> string \<Rightarrow> string \<Rightarrow> ('w, exc, uws_response) eff" where
  "get_job_quote cfg env token job_id =
     bind_eff (get cfg env token job_id None None False) (\<lambda>job. case sj_quote job of
       Some q \<Rightarrow> bind_eff (iso_text q) (\<lambda>t. ret_eff (PlainText t))
     | None \<Rightarrow> ret_eff (PlainText []))"

definition get_job_results ::
  "uws_config \<Rightarrow> 'w uws_env \<Rightarrow> 'w signer \<Rightarrow> string \<Rightarrow> string \<Rightarrow> ('w, exc, uws_response) eff" where
  "get_job_results cfg env signed_url token job_id =
     bind_eff (get_summary cfg env token job_id (Some signed_url) None None) (\<lambda>job. case js_results job of
       None \<Rightarrow> raise_eff (data_missing (''Job '' @ job_id @ '' has no results''))
     | Some rs \<Rightarrow> ret_eff (ResultsXml rs))"

definition get_availability :: "('w, exc, uws_response) eff" where
  "get_availability = ret_eff (AvailabilityXml True)"

text \<open>The start phase may come from the form or the query, the form first.\<close>

definition create_phase_dependency :: "string option \<Rightarrow> string option \<Rightarrow> exc + string option" where
  "create_phase_dependency get_phase post_phase =
     (if get_phase \<in> {None, Some ''RUN''} \<and> post_phase \<in> {None, Some ''RUN''}
      then Inr (if truthy post_phase then post_phase else get_phase)
      else Inl request_validation_error)"

definition create_job_handler ::
  "uws_config \<Rightarrow> 'w uws_env \<Rightarrow> route_urls \<Rightarrow> string \<Rightarrow> string \<Rightarrow> params \<Rightarrow> string option
     \<Rightarrow> string option \<Rightarrow> string option \<Rightarrow> ('w, exc, uws_response) eff" where
  "create_job_handler cfg env urls token user parameters runid get_phase post_phase =
     bind_eff (lift_eff (create_phase_dependency get_phase post_phase)) (\<lambda>phase.
     bind_eff (create cfg env token parameters runid) (\<lambda>job.
     bind_eff (if phase = Some ''RUN'' then bind_eff (start cfg env token user (sj_id job)) (\<lambda>_. ret_eff ())
               else ret_eff ())
       (\<lambda>_. ret_eff (Redirect (url_job urls (sj_id job))))))"

definition post_sync ::
  "uws_config \<Rightarrow> 'w uws_env \<Rightarrow> 'w signer \<Rightarrow> string \<Rightarrow> string \<Rightarrow> params \<Rightarrow> string option
     \<Rightarrow> ('w, exc, uws_response) eff" where
  "post_sync cfg env signed_url token user parameters runid =
     bind_eff (run_sync cfg env token user parameters runid) (\<lambda>result.
     bind_eff (sign_url signed_url result) (\<lambda>signed. ret_eff (Redirect (ur_url signed))))"

definition get_sync ::
  "uws_config \<Rightarrow> 'w uws_env \<Rightarrow> 'w signer \<Rightarrow> string \<Rightarrow> string \<Rightarrow> params \<Rightarrow> string option
     \<Rightarrow> ('w, exc, uws_response) eff" where
  "get_sync cfg env signed_url token user parameters runid =
     bind_eff (run_sync cfg env token user parameters runid) (\<lambda>result.
     bind_eff (sign_url signed_url result) (\<lambda>signed. ret_eff (Redirect (ur_url signed))))"

text \<open>
  The error handlers of the application: the status and text a UWS error or a parameter
  validation error is answered with; any other exception is left to the framework.
\<close>

definition error_response :: "exc \<Rightarrow> (int \<times> string) option" where
  "error_response e = (case e of
     ExcUWS e \<Rightarrow> Some (uws_error_response e)
   | ExcOther n t \<Rightarrow>
       if n = ''RequestValidationError'' then Some (422, ''UsageError'' @ [newline, newline] @ t) else None
   | _ \<Rightarrow> None)"

end
