(* ===== verification/UWSWorkers.thy ===== *)
theory UWSWorkers
  imports UWSService
begin

text \<open>
  The arq workers: \<open>safir.uws._workers\<close>, which record the start and the end of a job in the
  job store, and the backend worker that \<open>safir.arq.uws.build_worker\<close> wraps around the
  application's function.
\<close>

subsection \<open>Recording the start and the end of a job\<close>

text \<open>
  An alert while handling an exception \<open>e\<close>: when formatting the alert raises, that exception
  takes the place of \<open>e\<close>.
\<close>

definition slack_exc :: "slack_error \<Rightarrow> exc" where
  "slack_exc err = (case err of
     SlackIndexError \<Rightarrow> ExcOther ''IndexError'' ''pop from empty list''
   | SlackValueError \<Rightarrow> ExcOther ''ValueError'' [])"

definition slack_call :: "('w, slack_error, 'a) eff \<Rightarrow> ('w, exc, 'a) eff" where
  "slack_call m = (\<lambda>w. case m w of (Inl e, w) \<Rightarrow> (Inl (slack_exc e), w) | (Inr a, w) \<Rightarrow> (Inr a, w))"

definition alert_and_raise :: "'w uws_env \<Rightarrow> slack_client option \<Rightarrow> exc \<Rightarrow> ('w, exc, 'a) eff" where
  "alert_and_raise env slack e = (case slack of
     None \<Rightarrow> raise_eff e
   | Some client \<Rightarrow> bind_eff (slack_call (post_exception (en_alert env) client (alert_of e))) (\<lambda>_. raise_eff e))"

definition uws_job_started ::
  "uws_config \<Rightarrow> 'w uws_env \<Rightarrow> slack_client option \<Rightarrow> string \<Rightarrow> string \<Rightarrow> int \<Rightarrow> ('w, exc, unit) eff" where
  "uws_job_started cfg env slack token job_id start_time =
     catch_eff (mark_executing cfg env token job_id start_time)
       (\<lambda>e. if is_unknown_job e then ret_eff () else alert_and_raise env slack e)"

definition set_user :: "string \<Rightarrow> exc \<Rightarrow> exc" where
  "set_user user e = (case e of
     ExcTask t \<Rightarrow> ExcTask (t\<lparr>se_user := Some user\<rparr>)
   | ExcWobbly t \<Rightarrow> ExcWobbly (t\<lparr>se_user := Some user\<rparr>)
   | ExcSlack t \<Rightarrow> ExcSlack (t\<lparr>se_user := Some user\<rparr>)
   | _ \<Rightarrow> e)"

definition annotate_worker_error ::
  "'w uws_env \<Rightarrow> exc \<Rightarrow> uws_job \<Rightarrow> slack_client option \<Rightarrow> ('w, exc, exc) eff" where
  "annotate_worker_error env e job slack = (case e of
     ExcWorker we \<Rightarrow>
       bind_eff (read_eff (en_now env)) (\<lambda>now.
       let error = (task_from_worker_error (utc_datetime now) we)
             \<lparr>te_job_id := Some (sj_id job), te_started_at := Some (sj_creation_time job),
              se_user := Some (sj_owner job)\<rparr>
       in bind_eff (if te_slack_ignore error then ret_eff ()
                    else slack_call (report_exception (en_alert env) slack (alert_of (ExcTask error))))
            (\<lambda>_. ret_eff (ExcTask error)))
   | _ \<Rightarrow>
       (let e = set_user (sj_owner job) e in
        bind_eff (slack_call (report_exception (en_alert env) slack (alert_of e))) (\<lambda>_. ret_eff e)))"

text \<open>
  Polling the queue for the result every half second until five seconds after the start, and
  once more after that.  The clock is read before the loop and never again (\<open>now\<close> is not
  updated), so the loop ends only when a result is available or another exception is raised;
  \<open>fuel\<close> bounds the number of polls, and \<open>None\<close> is a loop that has not ended by then.  The
  cancellation of the message's function by arq after 30 seconds (\<open>UWS_DATABASE_TIMEOUT\<close>) is not modelled.
\<close>

fun poll_result ::
  "nat \<Rightarrow> 'w uws_env \<Rightarrow> string \<Rightarrow> int \<Rightarrow> int \<Rightarrow> 'w \<Rightarrow> ((exc + uws_arq_result) \<times> 'w) option" where
  "poll_result 0 env arq_job_id now end w = None"
| "poll_result (Suc fuel) env arq_job_id now end w =
     (if now < end then
        (let w = en_sleep env 500000000000 w in
         case arq_call (en_result env arq_job_id) w of
           (Inr r, w) \<Rightarrow> Some (Inr r, w)
         | (Inl (ExcArq (JobResultUnavailable _)), w) \<Rightarrow> poll_result fuel env arq_job_id now end w
         | (Inl e, w) \<Rightarrow> Some (Inl e, w))
      else Some (arq_call (en_result env arq_job_id) w))"

definition get_job_result ::
  "nat \<Rightarrow> 'w uws_env \<Rightarrow> string \<Rightarrow> 'w \<Rightarrow> ((exc + uws_arq_result) \<times> 'w) option" where
  "get_job_result fuel env arq_job_id w =
     (let now = en_now env w; end = now + 5000000 in poll_result fuel env arq_job_id now end w)"

definition lost_result :: "exc \<Rightarrow> bool" where
  "lost_result e = (case e of
     ExcArq (JobNotFound _) \<Rightarrow> True | ExcArq (JobResultUnavailable _) \<Rightarrow> True | _ \<Rightarrow> False)"

text \<open>The two ways \<open>uws_job_completed\<close> goes on once polling ended, and its exception handlers.\<close>

definition completed_without_result ::
  "uws_config \<Rightarrow> 'w uws_env \<Rightarrow> slack_client option \<Rightarrow> string \<Rightarrow> string \<Rightarrow> uws_job \<Rightarrow> exc \<Rightarrow> ('w, exc, unit) eff" where
  "completed_without_result cfg env slack token job_id job e =
     (let err = (make_worker_error WorkerTransientError ''Cannot retrieve job result from job queue''
           (Some (exc_name e @ '': '' @ exc_str e)) True)\<lparr>wk_cause := Some (exc_name e, en_traceback env e)\<rparr>
      in bind_eff (annotate_worker_error env (ExcWorker err) job slack) (\<lambda>error.
         mark_failed cfg env token job_id error))"

definition completed_with_result ::
  "uws_config \<Rightarrow> 'w uws_env \<Rightarrow> slack_client option \<Rightarrow> string \<Rightarrow> string \<Rightarrow> uws_job
     \<Rightarrow> (worker_result list, exc) arq_outcome \<Rightarrow> ('w, exc, unit) eff" where
  "completed_with_result cfg env slack token job_id job result =
     bind_eff (case result of
         Failed e \<Rightarrow> bind_eff (annotate_worker_error env e job slack) (\<lambda>error. ret_eff (Failed error))
       | _ \<Rightarrow> ret_eff result)
     (\<lambda>result. mark_completed cfg env token job_id result)"

definition completion_handler ::
  "'w uws_env \<Rightarrow> slack_client option \<Rightarrow> ('w, exc, unit) eff \<Rightarrow> ('w, exc, unit) eff" where
  "completion_handler env slack m =
     catch_eff m (\<lambda>e. if is_unknown_job e then ret_eff () else alert_and_raise env slack e)"

definition uws_job_completed ::
  "nat \<Rightarrow> uws_config \<Rightarrow> 'w uws_env \<Rightarrow> slack_client option \<Rightarrow> string \<Rightarrow> string \<Rightarrow> 'w
     \<Rightarrow> ((exc + unit) \<times> 'w) option" where
  "uws_job_completed fuel cfg env slack token job_id w =
     (case store_get cfg env token job_id w of
        (Inl e, w) \<Rightarrow> Some (completion_handler env slack (raise_eff e) w)
      | (Inr job, w) \<Rightarrow>
          if \<not> truthy (sj_message_id job) then Some (Inr (), w)
          else (case get_job_result fuel env (the (sj_message_id job)) w of
             None \<Rightarrow> None
           | Some (Inl e, w) \<Rightarrow> Some (completion_handler env slack
               (if lost_result e then completed_without_result cfg env slack token job_id job e else raise_eff e) w)
           | Some (Inr result, w) \<Rightarrow> Some (completion_handler env slack
               (completed_with_result cfg env slack token job_id job (jr_result result)) w)))"

text \<open>
  When the queue never has the result, the poll never ends, however long it runs: the loop
  condition compares two values that never change.
\<close>

lemma poll_result_never_ends:
  assumes "\<And>w. \<exists>w'. en_result env i w = (Inl (JobResultUnavailable i), w')" "now < end"
  shows "poll_result fuel env i now end w = None"
proof (induction fuel arbitrary: w)
  case (Suc fuel)
  obtain w' where "en_result env i (en_sleep env 500000000000 w) = (Inl (JobResultUnavailable i), w')"
    using assms(1) by blast
  then show ?case using assms(2) Suc.IH by (simp add: arq_call_def Let_def)
qed simp

text \<open>Once the result is there, one more poll returns it.\<close>

lemma poll_result_available:
  assumes "now < end" "en_result env i (en_sleep env 500000000000 w) = (Inr r, w')"
  shows "poll_result (Suc fuel) env i now end w = Some (Inr r, w')"
  using assms by (simp add: arq_call_def Let_def)

subsection \<open>The backend worker\<close>

text \<open>How the application's function ends under \<open>asyncio.timeout\<close> in the process pool.\<close>

datatype run_end = RunReturned "worker_result list" | RunRaised exc | RunTimedOut | RunCancelled

record 'w worker_env =
  wv_now :: "'w \<Rightarrow> int"
  wv_enqueue :: "string \<Rightarrow> arq_arg list \<Rightarrow> ('w, arq_error, arq_arg job_metadata) eff"
  wv_execute :: "params \<Rightarrow> worker_job_info \<Rightarrow> 'w \<Rightarrow> run_end \<times> 'w"
  wv_restart_pool :: "'w \<Rightarrow> 'w"
  wv_parse :: "params \<Rightarrow> params option"
  wv_seconds_str :: "int \<Rightarrow> string"

text \<open>The built-in class, which the worker function may raise itself, of a socket for instance.\<close>

definition is_timeout_error :: "exc \<Rightarrow> bool" where
  "is_timeout_error e = (case e of ExcOther n _ \<Rightarrow> n = ''TimeoutError'' | _ \<Rightarrow> False)"

text \<open>
  \<open>run\<close> of \<open>build_worker\<close>: the \<open>finally\<close> clause enqueues the completion message on every path
  out of the \<open>try\<close>, and an exception of that replaces the outcome.
\<close>

definition worker_run ::
  "'w worker_env \<Rightarrow> params \<Rightarrow> worker_job_info \<Rightarrow> 'w \<Rightarrow> (worker_result list, exc) arq_outcome \<times> 'w" where
  "worker_run env params_raw info w = (case wv_parse env params_raw of
     None \<Rightarrow> (Failed validation_error, w)
   | Some params \<Rightarrow>
       (let start = wv_now env w in
        case wv_enqueue env ''uws_job_started'' [ArgStr (wj_token info), ArgStr (wj_job_id info), ArgTime start] w of
          (Inl e, w) \<Rightarrow> (Failed (ExcArq e), w)
        | (Inr _, w) \<Rightarrow>
            (let (outcome, w) = (case wv_execute env params info w of
                   (RunReturned rs, w) \<Rightarrow> (Returned rs, w)
                 | (RunCancelled, w) \<Rightarrow> (Cancelled, wv_restart_pool env w)
                 | (RunRaised e, w) \<Rightarrow>
                     if is_timeout_error e
                     then (Failed (ExcWorker (make_worker_timeout_error (wv_seconds_str env) (wv_now env w - start) (wj_timeout info))),
                           wv_restart_pool env w)
                     else (Failed e, w)
                 | (RunTimedOut, w) \<Rightarrow>
                     (Failed (ExcWorker (make_worker_timeout_error (wv_seconds_str env) (wv_now env w - start) (wj_timeout info))),
                      wv_restart_pool env w))
             in case wv_enqueue env ''uws_job_completed'' [ArgStr (wj_token info), ArgStr (wj_job_id info)] w of
                  (Inl e, w) \<Rightarrow> (Failed (ExcArq e), w)
                | (Inr _, w) \<Rightarrow> (outcome, w))))"

text \<open> C10. The backend worker brackets every run: when the parameters of a task are valid, exactly one
  start message and, after the run, exactly one completion message for the job are sent,
  whether the run returned, raised, timed out or was cancelled, and the outcome is that of the
  run, a timeout becoming a worker timeout error, and so does a \<open>TimeoutError\<close> that the worker function raised itself;
  when they are not, no message is sent. \<close>
theorem worker_run_notifies:
  fixes sent :: "'w \<Rightarrow> (string \<times> arq_arg list) list"
  assumes "\<And>task args w. \<exists>m w'. wv_enqueue env task args w = (Inr m, w') \<and> sent w' = sent w @ [(task, args)]"
    and "\<And>p w. sent (snd (wv_execute env p info w)) = sent w" "\<And>w. sent (wv_restart_pool env w) = sent w"
  shows "case wv_parse env raw of
      None \<Rightarrow> worker_run env raw info w = (Failed validation_error, w)
    | Some p \<Rightarrow> \<exists>w0 w' elapsed. sent w' = sent w @
          [(''uws_job_started'', [ArgStr (wj_token info), ArgStr (wj_job_id info), ArgTime (wv_now env w)]),
           (''uws_job_completed'', [ArgStr (wj_token info), ArgStr (wj_job_id info)])] \<and>
        worker_run env raw info w = (case fst (wv_execute env p info w0) of
            RunReturned rs \<Rightarrow> Returned rs
          | RunRaised e \<Rightarrow> (if is_timeout_error e
              then Failed (ExcWorker (make_worker_timeout_error (wv_seconds_str env) elapsed (wj_timeout info)))
              else Failed e)
          | RunCancelled \<Rightarrow> Cancelled
          | RunTimedOut \<Rightarrow> Failed (ExcWorker (make_worker_timeout_error (wv_seconds_str env) elapsed (wj_timeout info))), w')"
proof (cases "wv_parse env raw")
  case None
  then show ?thesis by (simp add: worker_run_def)
next
  case (Some p)
  let ?st = "[ArgStr (wj_token info), ArgStr (wj_job_id info), ArgTime (wv_now env w)]"
  let ?cm = "[ArgStr (wj_token info), ArgStr (wj_job_id info)]"
  obtain m w0 where st: "wv_enqueue env ''uws_job_started'' ?st w = (Inr m, w0)" "sent w0 = sent w @ [(''uws_job_started'', ?st)]"
    using assms(1) by blast
  obtain e w1 where ex: "wv_execute env p info w0 = (e, w1)" by (cases "wv_execute env p info w0")
  have s1: "sent w1 = sent w0" using assms(2) [of p w0] ex by simp
  let ?timeout = "Failed (ExcWorker (make_worker_timeout_error (wv_seconds_str env) (wv_now env w1 - wv_now env w) (wj_timeout info)))"
  let ?w2 = "case e of RunCancelled \<Rightarrow> wv_restart_pool env w1 | RunTimedOut \<Rightarrow> wv_restart_pool env w1
    | RunRaised x \<Rightarrow> if is_timeout_error x then wv_restart_pool env w1 else w1 | _ \<Rightarrow> w1"
  have s2: "sent ?w2 = sent w0" using s1 assms(3) by (cases e) simp_all
  obtain m' w3 where cm: "wv_enqueue env ''uws_job_completed'' ?cm ?w2 = (Inr m', w3)" "sent w3 = sent ?w2 @ [(''uws_job_completed'', ?cm)]"
    using assms(1) by blast
  let ?o = "case e of RunReturned rs \<Rightarrow> Returned rs | RunRaised x \<Rightarrow> (if is_timeout_error x then ?timeout else Failed x)
    | RunCancelled \<Rightarrow> Cancelled | RunTimedOut \<Rightarrow> ?timeout"
  have "worker_run env raw info w = (?o, w3)"
    using Some st(1) ex cm(1) by (cases e) (simp_all add: worker_run_def Let_def split: if_splits)
  moreover have "sent w3 = sent w @ [(''uws_job_started'', ?st), (''uws_job_completed'', ?cm)]" using st(2) s2 cm(2) by simp
  ultimately show ?thesis using Some ex
    by (simp, intro exI [of _ w0] exI [of _ w3] exI [of _ "wv_now env w1 - wv_now env w"]) simp
qed

definition demo_worker_env :: "(string \<times> arq_arg list) list worker_env" where
  "demo_worker_env =
     \<lparr>wv_now = (\<lambda>_. 0),
      wv_enqueue = (\<lambda>task args w. (Inr \<lparr>jm_id = ''1'', jm_name = task, jm_args = args, jm_kwargs = [], jm_enqueue_time = 0,
         jm_status = Queued, jm_queue_name = ''arq:queue''\<rparr>, w @ [(task, args)])),
      wv_execute = (\<lambda>_ _ w. (RunTimedOut, w)), wv_restart_pool = (\<lambda>w. w), wv_parse = Some, wv_seconds_str = int_str\<rparr>"

theorem worker_run_notifies_witness:
  "\<exists>elapsed w'. worker_run demo_worker_env [] \<lparr>wj_job_id = ''1'', wj_user = ''u'', wj_token = ''t'', wj_timeout = 5, wj_run_id = None\<rparr> []
      = (Failed (ExcWorker (make_worker_timeout_error int_str elapsed 5)), w') \<and>
    w' = [(''uws_job_started'', [ArgStr ''t'', ArgStr ''1'', ArgTime 0]), (''uws_job_completed'', [ArgStr ''t'', ArgStr ''1''])]"
  using worker_run_notifies [where env = demo_worker_env and sent = "\<lambda>w. w" and raw = "[]" and w = "[]"
      and info = "\<lparr>wj_job_id = ''1'', wj_user = ''u'', wj_token = ''t'', wj_timeout = 5, wj_run_id = None\<rparr>"]
  by (simp add: demo_worker_env_def)

end
