(* ===== verification/UWSInvariant.thy ===== *)
theory UWSInvariant
  imports UWSHandlers UWSWorkers
begin

text \<open>
  What every operation of the UWS layer keeps.  The interface is the surroundings and a
  predicate of the world: if each single call the components make (a request with the user's
  token and a well-formed update, a call to the queue, a sleep, an alert) keeps the
  predicate, so does every operation of the service, every route handler and both workers,
  whatever happens at the calls and whatever exception ends them.
\<close>

text \<open>The updates the components send: an error update has an error, a queued one a message.\<close>

definition update_ok :: "job_update \<Rightarrow> bool" where
  "update_ok u = (case u of UpdateError es \<Rightarrow> es \<noteq> [] | UpdateQueued m \<Rightarrow> m \<noteq> None | _ \<Rightarrow> True)"

definition sent_by :: "string \<Rightarrow> wob_request \<Rightarrow> bool" where
  "sent_by token rq \<longleftrightarrow> rq_authorization rq = ''bearer '' @ token \<and>
     (case rq_body rq of Some (BodyUpdate u) \<Rightarrow> update_ok u | _ \<Rightarrow> True)"

locale world_invariant =
  fixes env :: "'w uws_env" and I :: "'w \<Rightarrow> bool" and token :: string
  assumes request_keeps: "sent_by token rq \<Longrightarrow> preserves I (en_request env rq)"
    and enqueue_keeps: "preserves I (en_enqueue env task args)"
    and abort_keeps: "preserves I (en_abort env i timeout)"
    and result_keeps: "preserves I (en_result env i)"
    and sleep_keeps: "I w \<Longrightarrow> I (en_sleep env n w)"
    and post_keeps: "preserves I (ae_post (en_alert env) url p)"
    and log_keeps: "I w \<Longrightarrow> I (ae_log_error (en_alert env) msg w)"
    and capture_keeps: "I w \<Longrightarrow> I (ae_capture (en_alert env) x w)"
begin

lemma store_request_keeps [preserve_intros]:
  assumes "sent_by token (make_request cfg meth token job_id body query)"
  shows "preserves I (store_request cfg env meth token job_id body query)"
  unfolding preserves_def
proof (intro allI impI)
  fix w
  assume "I w"
  obtain r w' where r: "en_request env (make_request cfg meth token job_id body query) w = (r, w')"
    by (cases "en_request env (make_request cfg meth token job_id body query) w")
  have "I w'" using request_keeps [OF assms] \<open>I w\<close> r by (rule preservesD)
  then show "I (snd (store_request cfg env meth token job_id body query w))"
    using r by (auto simp: store_request_def wobbly_error_def split: sum.split client_error.split)
qed

lemma sent_by_make [simp]:
  "sent_by token (make_request cfg meth token job_id None query)"
  "sent_by token (make_request cfg meth token job_id (Some (BodyCreate b)) query)"
  "sent_by token (make_request cfg meth token job_id (Some (BodyUpdate u)) query) \<longleftrightarrow> update_ok u"
  by (simp_all add: sent_by_def make_request_def)

lemma arq_call_keeps [preserve_intros]: "preserves I m \<Longrightarrow> preserves I (arq_call m)"
  unfolding preserves_def arq_call_def by (auto split: prod.split sum.split)

lemmas queue_keeps [preserve_intros] = enqueue_keeps abort_keeps result_keeps

lemma response_job_keeps [preserve_intros]: "preserves I (response_job cfg r)"
  unfolding response_job_def by (intro preserve_intros)

lemma store_get_keeps [preserve_intros]: "preserves I (store_get cfg env token job_id)"
  unfolding store_get_def by (intro preserve_intros) simp

lemma store_create_keeps [preserve_intros]: "preserves I (store_create cfg env token run_id p d l)"
  unfolding store_create_def Let_def by (intro preserve_intros) simp

lemma store_delete_keeps [preserve_intros]: "preserves I (store_delete cfg env token job_id)"
  unfolding store_delete_def by (intro preserve_intros) simp

lemma store_list_jobs_keeps [preserve_intros]: "preserves I (store_list_jobs cfg env token phases after count)"
  unfolding store_list_jobs_def by (intro preserve_intros) simp

lemma store_update_keeps: "update_ok u \<Longrightarrow> preserves I (store_update cfg env token job_id u)"
  unfolding store_update_def by (intro preserve_intros) simp

lemma marks_keep [preserve_intros]:
  "preserves I (mark_aborted cfg env token job_id)"
  "preserves I (mark_failed cfg env token job_id e)"
  "preserves I (mark_completed cfg env token job_id r)"
  "preserves I (mark_executing cfg env token job_id t)"
  "preserves I (mark_queued cfg env token job_id m)"
  "preserves I (update_metadata cfg env token job_id dt d)"
  by (auto simp: mark_aborted_def mark_failed_def mark_completed_def mark_executing_def mark_queued_def
      update_metadata_def update_ok_def Let_def
      intro!: store_update_keeps preserves_raise split: arq_outcome.split)

lemma wait_loop_keeps:
  "I w \<Longrightarrow> I (snd (wait_loop cfg env token job_id until_not timeout elapsed n phase w))"
proof (induction "timeout - elapsed" arbitrary: elapsed n phase w rule: less_induct)
  case less
  let ?w = "en_sleep env (poll_delay n) w"
  let ?el = "elapsed + poll_delay n + en_latency env ?w"
  obtain res w' where r: "store_get cfg env token job_id ?w = (res, w')"
    by (cases "store_get cfg env token job_id ?w")
  have w': "I w'" by (rule preservesD [OF store_get_keeps sleep_keeps [OF less.prems] r])
  have IH: "I (snd (wait_loop cfg env token job_id until_not timeout ?el (Suc n) p w'))"
    if "\<not> timeout \<le> ?el" for p
    by (rule less.hyps [OF _ w']) (use that poll_delay_pos [of n] in simp)
  show ?case
    using less.prems sleep_keeps w' IH r
    by (subst wait_loop.simps) (auto simp: Let_def split: sum.split)
qed

lemma wait_for_job_keeps [preserve_intros]: "preserves I (wait_for_job cfg env token job until_not timeout)"
proof -
  have "preserves I (wait_loop cfg env token i until_not n e k p)" for i n e k p
    using wait_loop_keeps by (simp add: preserves_def)
  then show ?thesis unfolding wait_for_job_def by (intro preserve_intros)
qed

lemma service_keeps [preserve_intros]:
  "preserves I (abort cfg env token job_id)"
  "preserves I (create cfg env token p run_id)"
  "preserves I (delete cfg env token job_id)"
  "preserves I (get cfg env token job_id wait wait_phase completion)"
  "preserves I (get_error cfg env token job_id)"
  "preserves I (list_jobs cfg env token url phases after count)"
  "preserves I (start cfg env token user job_id)"
  "preserves I (update_destruction cfg env token job_id dt)"
  "preserves I (update_execution_duration cfg env token job_id d)"
  unfolding abort_def create_def delete_def get_def get_error_def list_jobs_def start_def
    update_destruction_def update_execution_duration_def Let_def
  by (auto intro!: preserve_intros split: option.split)

lemma run_sync_keeps [preserve_intros]: "preserves I (run_sync cfg env token user p runid)"
  unfolding run_sync_def by (auto intro!: preserve_intros split: list.split)

lemma map_eff_keeps: "(\<And>x. preserves I (f x)) \<Longrightarrow> preserves I (map_eff f xs)"
  by (induction xs) (auto intro!: preserve_intros)

text \<open>A signer that keeps the predicate.\<close>

lemma signing_keeps [preserve_intros]:
  assumes "\<And>u m. preserves I (signed_url u m)"
  shows "preserves I (sign_url signed_url r)"
    and "preserves I (get_summary cfg env token job_id (Some signed_url) wait wait_phase)"
proof -
  show s: "preserves I (sign_url signed_url r)" for r
    unfolding sign_url_def using assms by (auto intro!: preserve_intros)
  show "preserves I (get_summary cfg env token job_id (Some signed_url) wait wait_phase)"
    unfolding get_summary_def using s by (auto intro!: preserve_intros map_eff_keeps)
qed

lemma get_summary_unsigned_keeps [preserve_intros]:
  "preserves I (get_summary cfg env token job_id None wait wait_phase)"
  unfolding get_summary_def by (auto intro!: preserve_intros)

text \<open>The route handlers.\<close>

lemma iso_text_keeps [preserve_intros]: "preserves I (iso_text t)"
  unfolding iso_text_def by (auto intro!: preserve_intros split: sum.split)

lemma handlers_keep:
  assumes "\<And>u m. preserves I (signed_url u m)"
  shows "preserves I (get_job_list cfg env urls token phase after count)"
    and "preserves I (get_job_handler cfg env signed_url token job_id wait wait_phase)"
    and "preserves I (delete_job_handler cfg env urls token job_id)"
    and "preserves I (delete_job_via_post cfg env urls token job_id action)"
    and "preserves I (get_job_destruction cfg env token job_id)"
    and "preserves I (post_job_destruction cfg env urls token job_id text)"
    and "preserves I (UWSHandlers.get_job_error cfg env token job_id)"
    and "preserves I (get_job_execution_duration cfg env token job_id)"
    and "preserves I (post_job_execution_duration cfg env urls token job_id secs)"
    and "preserves I (get_job_owner cfg env token job_id)"
    and "preserves I (get_job_parameters cfg env token job_id)"
    and "preserves I (get_job_phase cfg env token job_id)"
    and "preserves I (post_job_phase cfg env urls token user job_id ph)"
    and "preserves I (get_job_quote cfg env token job_id)"
    and "preserves I (get_job_results cfg env signed_url token job_id)"
    and "preserves I (create_job_handler cfg env urls token user p runid gp pp)"
    and "preserves I (post_sync cfg env signed_url token user p runid)"
    and "preserves I (get_sync cfg env signed_url token user p runid)"
  unfolding get_job_list_def get_job_handler_def delete_job_handler_def delete_job_via_post_def
    get_job_destruction_def post_job_destruction_def get_job_error_def get_job_execution_duration_def
    post_job_execution_duration_def get_job_owner_def get_job_parameters_def get_job_phase_def
    post_job_phase_def get_job_quote_def get_job_results_def create_job_handler_def post_sync_def
    get_sync_def Let_def
  using assms by (auto intro!: preserve_intros split: option.split sum.split list.split)

text \<open>The workers, with their alerts.\<close>

lemma slack_call_keeps [preserve_intros]: "preserves I m \<Longrightarrow> preserves I (slack_call m)"
  unfolding preserves_def slack_call_def by (auto split: prod.split sum.split)

lemma slack_post_keeps: "preserves I (slack_post (en_alert env) client m)"
proof -
  have "preserves I (\<lambda>w. case ae_post (en_alert env) u body w of
      (Inr _, w) \<Rightarrow> (Inr (), w)
    | (Inl _, w) \<Rightarrow> (Inr (), ae_log_error (en_alert env) t w))" for u body t
    using post_keeps log_keeps
    by (auto simp: preserves_def split: prod.split sum.split) (metis snd_conv)+
  then show ?thesis unfolding slack_post_def by (intro preserve_intros)
qed

lemma post_exception_keeps [preserve_intros]: "preserves I (post_exception (en_alert env) client e)"
  using slack_post_keeps unfolding post_exception_def preserves_def
  by (auto simp: bind_eff_def lift_eff_def split: sum.split)

lemma report_exception_keeps [preserve_intros]: "preserves I (report_exception (en_alert env) slack e)"
proof -
  have "preserves I (modify_eff (ae_capture (en_alert env) e))"
    using capture_keeps by (simp add: preserves_def modify_eff_def)
  then show ?thesis unfolding report_exception_def
    by (auto intro!: preserve_intros split: alert_exc.split option.split)
qed

lemma alert_and_raise_keeps [preserve_intros]: "preserves I (alert_and_raise env slack e)"
  unfolding alert_and_raise_def by (auto intro!: preserve_intros split: option.split)

lemma annotate_keeps [preserve_intros]: "preserves I (annotate_worker_error env e job slack)"
  unfolding annotate_worker_error_def Let_def by (auto intro!: preserve_intros split: exc.split)

lemma uws_job_started_keeps: "preserves I (uws_job_started cfg env slack token job_id t)"
  unfolding uws_job_started_def by (auto intro!: preserve_intros)

lemma completion_keeps [preserve_intros]:
  "preserves I (completed_without_result cfg env slack token job_id job e)"
  "preserves I (completed_with_result cfg env slack token job_id job r)"
  "preserves I m \<Longrightarrow> preserves I (completion_handler env slack m)"
  unfolding completed_without_result_def completed_with_result_def completion_handler_def Let_def
  by (auto intro!: preserve_intros split: arq_outcome.split)

lemma poll_result_keeps:
  "I w \<Longrightarrow> poll_result fuel env i now end w = Some (r, w') \<Longrightarrow> I w'"
proof (induction fuel arbitrary: w)
  case (Suc fuel)
  obtain res w1 where r: "arq_call (en_result env i) (en_sleep env 500000000000 w) = (res, w1)"
    by (cases "arq_call (en_result env i) (en_sleep env 500000000000 w)")
  have "I w1"
    by (rule preservesD [OF arq_call_keeps [OF result_keeps] sleep_keeps [OF Suc.prems(1)] r])
  moreover have "I (snd (arq_call (en_result env i) w))"
    using arq_call_keeps [OF result_keeps] Suc.prems(1) by (simp add: preserves_def)
  ultimately show ?case using Suc.prems Suc.IH [of w1] r
    by (auto simp: Let_def split: if_splits sum.splits exc.splits arq_error.splits)
qed simp

lemma uws_job_completed_keeps:
  assumes "I w" "uws_job_completed fuel cfg env slack token job_id w = Some (r, w')"
  shows "I w'"
proof -
  obtain res w1 where g: "store_get cfg env token job_id w = (res, w1)" by (cases "store_get cfg env token job_id w")
  have w1: "I w1" by (rule preservesD [OF store_get_keeps assms(1) g])
  have h: "I (snd (completion_handler env slack m w2))" if "preserves I m" "I w2" for m w2
    using completion_keeps(3) [OF that(1)] that(2) by (simp add: preserves_def)
  show ?thesis
  proof (cases res)
    case (Inl e)
    then show ?thesis using assms(2) g h [OF preserves_raise w1]
      by (simp add: uws_job_completed_def) (metis snd_conv)
  next
    case (Inr job)
    show ?thesis
    proof (cases "truthy (sj_message_id job)")
      case False
      then show ?thesis using assms(2) g Inr w1 by (simp add: uws_job_completed_def)
    next
      case True
      then obtain out w2 where p: "get_job_result fuel env (the (sj_message_id job)) w1 = Some (out, w2)"
        using assms(2) g Inr by (auto simp: uws_job_completed_def split: option.splits)
      have "I w2" using poll_result_keeps [OF w1] p by (simp add: get_job_result_def Let_def)
      then have end_I: "I w'" if "(r, w') = completion_handler env slack m w2" "preserves I m" for m
        using h [OF that(2)] that(1) by (metis snd_conv)
      show ?thesis
      proof (cases out)
        case (Inl e)
        then have "(r, w') = completion_handler env slack
            (if lost_result e then completed_without_result cfg env slack token job_id job e else raise_eff e) w2"
          using assms(2) g \<open>res = Inr job\<close> True p by (simp add: uws_job_completed_def)
        then show ?thesis by (rule end_I) (auto intro!: preserve_intros)
      next
        case (Inr result)
        then have "(r, w') = completion_handler env slack
            (completed_with_result cfg env slack token job_id job (jr_result result)) w2"
          using assms(2) g \<open>res = Inr job\<close> True p by (simp add: uws_job_completed_def)
        then show ?thesis by (rule end_I) (rule preserve_intros)
      qed
    qed
  qed
qed

end

end
