(* ===== verification/MockWobbly.thy ===== *)
theory MockWobbly
  imports UWSStorage "HOL-Library.List_Lexorder" "HOL-Library.Char_ord" "HOL-Library.Product_Lexorder"
begin

text \<open>
  The mock of the Wobbly service, \<open>MockWobbly\<close> and \<open>patch_wobbly\<close> of
  \<open>safir.testing.uws._mocks\<close>: the jobs of each service and user, kept in a dictionary by job
  identifier.  It is the backend on which the contract of the job storage is interpreted.
\<close>

record wobbly =
  wb_next_id :: nat
  wb_jobs :: "string \<Rightarrow> string \<Rightarrow> (string \<times> serialized_job) list"

definition wobbly_init :: wobbly where
  "wobbly_init = \<lparr>wb_next_id = 1, wb_jobs = (\<lambda>_ _. [])\<rparr>"

definition make_token :: "string \<Rightarrow> string \<Rightarrow> string" where
  "make_token service username = ''gt-'' @ service @ ''.'' @ username"

text \<open>
  \<open>_get_auth\<close>; the exceptions are those of the tuple assignments and of the assertions.
\<close>

definition get_auth :: "wob_request \<Rightarrow> exc + string \<times> string" where
  "get_auth request = (case py_words (rq_authorization request) of
     [auth_type, token] \<Rightarrow>
       if to_lower auth_type \<noteq> ''bearer'' then Inl (ExcOther ''AssertionError'' [])
       else if \<not> py_startswith token ''gt-'' then Inl (ExcOther ''AssertionError'' [])
       else (case py_split1 (CHR ''.'') (drop 3 token) of
          [service, username] \<Rightarrow> Inr (service, username)
        | _ \<Rightarrow> Inl (ExcOther ''ValueError'' []))
   | _ \<Rightarrow> Inl (ExcOther ''ValueError'' []))"

definition user_jobs :: "wobbly \<Rightarrow> string \<times> string \<Rightarrow> (string \<times> serialized_job) list" where
  "user_jobs wb owner = wb_jobs wb (fst owner) (snd owner)"

definition set_user_jobs :: "string \<times> string \<Rightarrow> (string \<times> serialized_job) list \<Rightarrow> wobbly \<Rightarrow> wobbly" where
  "set_user_jobs owner al wb =
     wb\<lparr>wb_jobs := (wb_jobs wb)(fst owner := (wb_jobs wb (fst owner))(snd owner := al))\<rparr>"

definition respond :: "wob_request \<Rightarrow> int \<Rightarrow> wob_json \<Rightarrow> string \<Rightarrow> client_error + wob_response" where
  "respond request status js body =
     Inr \<lparr>rp_status = status, rp_json = js, rp_text = body, rp_url = rq_url request\<rparr>"

definition no_microseconds :: "int \<Rightarrow> int" where
  "no_microseconds now = now - now mod 1000000"

text \<open>The job \<open>create_job\<close> stores.\<close>

definition new_job :: "int \<Rightarrow> string \<Rightarrow> string \<Rightarrow> string \<Rightarrow> job_base \<Rightarrow> serialized_job" where
  "new_job now service username job_id b =
     \<lparr>jb_parameters = jb_parameters b, jb_run_id = jb_run_id b, jb_destruction_time = jb_destruction_time b,
      jb_execution_duration = jb_execution_duration b, sj_id = job_id, sj_service = service,
      sj_owner = username, sj_phase = PENDING, sj_message_id = None, sj_creation_time = no_microseconds now,
      sj_start_time = None, sj_end_time = None, sj_quote = None, sj_errors = [], sj_results = []\<rparr>"

definition create_job ::
  "int \<Rightarrow> wob_request \<Rightarrow> wobbly \<Rightarrow> (client_error + wob_response) \<times> wobbly" where
  "create_job now request wb = (case get_auth request of
     Inl e \<Rightarrow> (Inl (ClientExc e), wb)
   | Inr (service, username) \<Rightarrow> (case rq_body request of
       Some (BodyCreate job_create) \<Rightarrow>
         (let job_id = nat_str (wb_next_id wb);
              wb = wb\<lparr>wb_next_id := wb_next_id wb + 1\<rparr>;
              job = new_job now service username job_id job_create
          in (respond request 201 (WobJob (wire_job job)) [],
              set_user_jobs (service, username) (AList.update job_id job (user_jobs wb (service, username))) wb))
     | _ \<Rightarrow> (Inl (ClientExc validation_error), wb)))"

definition delete_job ::
  "wob_request \<Rightarrow> string \<Rightarrow> wobbly \<Rightarrow> (client_error + wob_response) \<times> wobbly" where
  "delete_job request job_id wb = (case get_auth request of
     Inl e \<Rightarrow> (Inl (ClientExc e), wb)
   | Inr owner \<Rightarrow>
       if job_id \<notin> fst ` set (user_jobs wb owner) then (respond request 404 WobNone [], wb)
       else (respond request 204 WobNone [], set_user_jobs owner (AList.delete job_id (user_jobs wb owner)) wb))"

definition get_job ::
  "wob_request \<Rightarrow> string \<Rightarrow> wobbly \<Rightarrow> (client_error + wob_response) \<times> wobbly" where
  "get_job request job_id wb = (case get_auth request of
     Inl e \<Rightarrow> (Inl (ClientExc e), wb)
   | Inr owner \<Rightarrow> (case map_of (user_jobs wb owner) job_id of
       None \<Rightarrow> (respond request 404 WobNone [], wb)
     | Some job \<Rightarrow> (respond request 200 (WobJob (wire_job job)) [], wb)))"

definition query_values :: "string \<Rightarrow> (string \<times> string) list \<Rightarrow> string list" where
  "query_values key query = map snd (filter (\<lambda>(k, v). k = key) query)"

definition mock_list_jobs ::
  "wob_request \<Rightarrow> wobbly \<Rightarrow> (client_error + wob_response) \<times> wobbly" where
  "mock_list_jobs request wb = (case get_auth request of
     Inl e \<Rightarrow> (Inl (ClientExc e), wb)
   | Inr owner \<Rightarrow>
       (let phases = query_values ''phase'' (rq_params request) in
        case (case query_values ''since'' (rq_params request) of [] \<Rightarrow> Inr None
              | s # _ \<Rightarrow> (case parse_isodatetime s of Inl e \<Rightarrow> Inl e | Inr t \<Rightarrow> Inr (Some (dt_us t)))) of
          Inl _ \<Rightarrow> (Inl (ClientExc (ExcOther ''ValueError'' [])), wb)
        | Inr since \<Rightarrow>
            (let results = filter (\<lambda>job. (phases = [] \<or> phase_value (sj_phase job) \<in> set phases) \<and>
                   (case since of None \<Rightarrow> True | Some t \<Rightarrow> t < sj_creation_time job))
                   (map snd (user_jobs wb owner));
                 sorted = map wire_job (rev (sort_key (\<lambda>j. (sj_creation_time j, sj_id j)) results))
             in case query_values ''limit'' (rq_params request) of
                  [] \<Rightarrow> (respond request 200 (WobJobs sorted) [], wb)
                | l # _ \<Rightarrow> (case py_int l of
                    None \<Rightarrow> (Inl (ClientExc (ExcOther ''ValueError'' [])), wb)
                  | Some limit \<Rightarrow>
                      (let sorted = (if limit < int (length sorted) then py_slice_to sorted limit else sorted)
                       in (respond request 200 (WobJobs sorted) [], wb))))))"

text \<open>The effect of one update on a job, the body of the \<open>match\<close> of \<open>update_job\<close>.\<close>

fun apply_update :: "int \<Rightarrow> job_update \<Rightarrow> serialized_job \<Rightarrow> serialized_job" where
  "apply_update now (UpdateMetadata destruction duration) job =
     job\<lparr>jb_destruction_time := destruction, jb_execution_duration := duration\<rparr>"
| "apply_update now UpdateAborted job =
     (let job = (case sj_start_time job of None \<Rightarrow> job | Some _ \<Rightarrow> job\<lparr>sj_end_time := Some (no_microseconds now)\<rparr>)
      in job\<lparr>sj_phase := ABORTED\<rparr>)"
| "apply_update now (UpdateCompleted results) job =
     job\<lparr>sj_end_time := Some (no_microseconds now), sj_results := results, sj_phase := COMPLETED\<rparr>"
| "apply_update now (UpdateExecuting start_time) job =
     job\<lparr>sj_start_time := Some (no_microseconds start_time), sj_phase := EXECUTING\<rparr>"
| "apply_update now (UpdateError errors) job =
     job\<lparr>sj_end_time := Some (no_microseconds now), sj_errors := errors, sj_phase := ERROR\<rparr>"
| "apply_update now (UpdateQueued message_id) job =
     job\<lparr>sj_message_id := message_id, sj_phase := QUEUED\<rparr>"

fun update_valid :: "job_update \<Rightarrow> bool" where
  "update_valid (UpdateError errors) = (errors \<noteq> [])"
| "update_valid _ = True"

definition update_job ::
  "int \<Rightarrow> wob_request \<Rightarrow> string \<Rightarrow> wobbly \<Rightarrow> (client_error + wob_response) \<times> wobbly" where
  "update_job now request job_id wb = (case get_auth request of
     Inl e \<Rightarrow> (Inl (ClientExc e), wb)
   | Inr owner \<Rightarrow> (case map_of (user_jobs wb owner) job_id of
       None \<Rightarrow> (respond request 404 WobNone [], wb)
     | Some job \<Rightarrow> (case rq_body request of
         Some (BodyUpdate update) \<Rightarrow>
           if update_valid update
           then (let job = apply_update now update job in
                 (respond request 200 (WobJob (wire_job job)) [],
                  set_user_jobs owner (AList.update job_id job (user_jobs wb owner)) wb))
           else (Inl (ClientExc validation_error), wb)
       | _ \<Rightarrow> (Inl (ClientExc validation_error), wb))))"

text \<open>
  The routes of \<open>patch_wobbly\<close>: the collection, and a job by the first path segment after it;
  a request that matches no route fails.
\<close>

definition wobbly_route ::
  "string \<Rightarrow> int \<Rightarrow> wob_request \<Rightarrow> wobbly \<Rightarrow> (client_error + wob_response) \<times> wobbly" where
  "wobbly_route url now request wb =
     (let jobs_url = py_rstrip_char (CHR ''/'') url @ ''/jobs''; path = py_removeprefix (rq_url request) (jobs_url @ ''/'');
          job_id = takeWhile (\<lambda>c. c \<noteq> CHR ''/'') path in
      if rq_url request = jobs_url then
        (case rq_method request of
           GET \<Rightarrow> mock_list_jobs request wb
         | POST \<Rightarrow> create_job now request wb
         | _ \<Rightarrow> (Inl (ClientExc (ExcOther ''AllMockedAssertionError'' [])), wb))
      else if py_startswith (rq_url request) (jobs_url @ ''/'') \<and> job_id \<noteq> [] then
        (case rq_method request of
           GET \<Rightarrow> get_job request job_id wb
         | DELETE \<Rightarrow> delete_job request job_id wb
         | PATCH \<Rightarrow> update_job now request job_id wb
         | _ \<Rightarrow> (Inl (ClientExc (ExcOther ''AllMockedAssertionError'' [])), wb))
      else (Inl (ClientExc (ExcOther ''AllMockedAssertionError'' [])), wb))"

end
