(* ===== verification/UWSMocks.thy ===== *)
theory UWSMocks
  imports UWSInvariant MockWobbly
begin

text \<open>
  The surroundings of the UWS layer that its test suite runs it on (\<open>MockWobbly\<close> and
  \<open>MockArqQueue\<close>, as \<open>safir.testing.uws._mocks\<close> puts them together): the world, the
  surroundings built from it, the invariant of the stored jobs, and the interpretation of the
  contract of \<open>UWSInvariant\<close> on them.
\<close>
record uws_world =
  uw_wobbly :: wobbly
  uw_arq :: "(arq_arg, worker_result list, exc) mock_arq"
  uw_now :: int
  uw_ids :: nat
  uw_posts :: "slack_payload list"
  uw_reports :: "alert_exc list"

definition world_init :: "int \<Rightarrow> uws_world" where
  "world_init now = \<lparr>uw_wobbly = wobbly_init, uw_arq = mock_init ''arq:queue'', uw_now = now, uw_ids = 0,
     uw_posts = [], uw_reports = []\<rparr>"

text \<open>
  \<open>bg\<close> is what the other tasks of the event loop do at an \<open>await\<close>, before the call proceeds.
\<close>

definition on_arq ::
  "((arq_arg, worker_result list, exc) mock_arq, 'e, 'a) eff \<Rightarrow> (uws_world, 'e, 'a) eff" where
  "on_arq m = (\<lambda>w. case m (uw_arq w) of (r, a) \<Rightarrow> (r, w\<lparr>uw_arq := a\<rparr>))"

definition mock_alert_env :: "uws_world alert_env" where
  "mock_alert_env =
     \<lparr>ae_now = (\<lambda>w. utc_datetime (uw_now w)),
      ae_post = (\<lambda>_ p w. (Inr (), w\<lparr>uw_posts := uw_posts w @ [p]\<rparr>)),
      ae_log_error = (\<lambda>_ w. w),
      ae_capture = (\<lambda>e w. w\<lparr>uw_reports := uw_reports w @ [e]\<rparr>)\<rparr>"

definition mock_env :: "string \<Rightarrow> (uws_world \<Rightarrow> uws_world) \<Rightarrow> uws_world uws_env" where
  "mock_env url bg =
     \<lparr>en_request = (\<lambda>rq w. let w = bg w in
        case wobbly_route url (uw_now w) rq (uw_wobbly w) of (r, wb) \<Rightarrow> (r, w\<lparr>uw_wobbly := wb\<rparr>)),
      en_now = uw_now,
      en_enqueue = (\<lambda>task args w. let w = bg w in
        on_arq (mock_enqueue (nat_str (uw_ids w)) (uw_now w) task args None []) (w\<lparr>uw_ids := uw_ids w + 1\<rparr>)),
      en_abort = (\<lambda>i _ w. let w = bg w in on_arq (mock_abort_job (uw_now w) i None) w),
      en_result = (\<lambda>i w. let w = bg w in on_arq (mock_get_job_result i None) w),
      en_sleep = (\<lambda>n w. let w = bg w in w\<lparr>uw_now := uw_now w + int (n div 1000000)\<rparr>),
      en_latency = (\<lambda>_. 0),
      en_alert = mock_alert_env,
      en_phase_str = phase_value,
      en_seconds_str = (\<lambda>us. int_str (whole_seconds us) @ ''.0''),
      en_traceback = (\<lambda>e. ''Traceback: '' @ exc_name e)\<rparr>"

subsection \<open>The stored jobs\<close>

definition stored_ok :: "wobbly \<Rightarrow> string \<times> string \<Rightarrow> string \<times> serialized_job \<Rightarrow> bool" where
  "stored_ok wb owner e \<longleftrightarrow> sj_id (snd e) = fst e \<and> (sj_service (snd e), sj_owner (snd e)) = owner \<and>
     job_wf (snd e) \<and> (\<exists>n. 0 < n \<and> n < wb_next_id wb \<and> fst e = nat_str n)"

definition wobbly_inv :: "wobbly \<Rightarrow> bool" where
  "wobbly_inv wb \<longleftrightarrow> 0 < wb_next_id wb \<and>
     (\<forall>owner. distinct (map fst (user_jobs wb owner)) \<and> (\<forall>e \<in> set (user_jobs wb owner). stored_ok wb owner e))"

lemma user_jobs_set [simp]:
  "user_jobs (set_user_jobs owner al wb) owner' = (if owner' = owner then al else user_jobs wb owner')"
  by (cases owner; cases owner') (simp add: user_jobs_def set_user_jobs_def)

lemma user_jobs_next [simp]: "user_jobs (wb\<lparr>wb_next_id := n\<rparr>) owner = user_jobs wb owner"
  by (simp add: user_jobs_def)

lemma next_id_set [simp]: "wb_next_id (set_user_jobs owner al wb) = wb_next_id wb"
  by (simp add: set_user_jobs_def)

lemma stored_ok_set [simp]: "stored_ok (set_user_jobs owner al wb) = stored_ok wb"
  by (simp add: fun_eq_iff stored_ok_def)

lemma wobbly_init_inv: "wobbly_inv wobbly_init"
  by (simp add: wobbly_inv_def wobbly_init_def user_jobs_def)

lemma wobbly_inv_set:
  assumes "wobbly_inv wb" "distinct (map fst al)" "\<forall>e \<in> set al. stored_ok wb owner e"
  shows "wobbly_inv (set_user_jobs owner al wb)"
  using assms by (simp add: wobbly_inv_def)

lemma wobbly_inv_get:
  assumes "wobbly_inv wb" "map_of (user_jobs wb owner) i = Some j"
  shows "stored_ok wb owner (i, j)"
  using assms(1) map_of_SomeD [OF assms(2)] unfolding wobbly_inv_def by blast

lemma set_update_subset: "set (AList.update k v al) \<subseteq> insert (k, v) (set al)"
  by (induction al) auto

lemma set_delete_subset: "set (AList.delete k al) \<subseteq> set al"
  by (auto simp: AList.delete_eq)

lemma apply_update_job:
  assumes "update_ok u" "job_wf j"
  shows "job_wf (apply_update now u j) \<and> sj_id (apply_update now u j) = sj_id j \<and>
    sj_service (apply_update now u j) = sj_service j \<and> sj_owner (apply_update now u j) = sj_owner j"
  using assms by (cases u) (auto simp: job_wf_def update_ok_def Let_def split: option.split)

text \<open>How a request changes the stored jobs: those of the owner of its token, or none.\<close>

lemma get_auth_token: "rq_authorization rq = rq_authorization rq' \<Longrightarrow> get_auth rq = get_auth rq'"
  by (simp add: get_auth_def)

lemma mock_list_jobs_same: "mock_list_jobs rq wb = (r, wb') \<Longrightarrow> wb' = wb"
  by (auto simp: mock_list_jobs_def Let_def split: sum.splits prod.splits list.splits option.splits)

lemma get_job_same: "get_job rq i wb = (r, wb') \<Longrightarrow> wb' = wb"
  by (auto simp: get_job_def split: sum.splits option.splits)

lemma create_job_cases:
  assumes "create_job now rq wb = (r, wb')"
  shows "wb' = wb \<or> (\<exists>service username b. get_auth rq = Inr (service, username) \<and> rq_body rq = Some (BodyCreate b) \<and>
    wb' = set_user_jobs (service, username) (AList.update (nat_str (wb_next_id wb))
      (new_job now service username (nat_str (wb_next_id wb)) b)
      (user_jobs wb (service, username))) (wb\<lparr>wb_next_id := wb_next_id wb + 1\<rparr>))"
  using assms by (auto simp: create_job_def Let_def split: sum.splits option.splits wob_body.splits prod.splits)

lemma delete_job_cases:
  assumes "delete_job rq i wb = (r, wb')"
  shows "wb' = wb \<or> (\<exists>owner. get_auth rq = Inr owner \<and>
    wb' = set_user_jobs owner (AList.delete i (user_jobs wb owner)) wb)"
  using assms by (auto simp: delete_job_def split: sum.splits if_splits)

lemma update_job_cases:
  assumes "update_job now rq i wb = (r, wb')"
  shows "wb' = wb \<or> (\<exists>owner j u. get_auth rq = Inr owner \<and> map_of (user_jobs wb owner) i = Some j \<and>
    rq_body rq = Some (BodyUpdate u) \<and> update_valid u \<and>
    wb' = set_user_jobs owner (AList.update i (apply_update now u j) (user_jobs wb owner)) wb)"
  using assms by (auto simp: update_job_def Let_def split: sum.splits option.splits wob_body.splits if_splits)

lemma route_cases:
  assumes "wobbly_route url now rq wb = (r, wb')"
  shows "wb' = wb \<or> create_job now rq wb = (r, wb') \<or>
    (\<exists>i. delete_job rq i wb = (r, wb')) \<or> (\<exists>i. update_job now rq i wb = (r, wb'))"
  using assms
  by (auto simp: wobbly_route_def Let_def split: if_splits http_method.splits
      dest: mock_list_jobs_same get_job_same)

lemma route_isolated:
  assumes "wobbly_route url now rq wb = (r, wb')" "get_auth rq \<noteq> Inr owner"
  shows "user_jobs wb' owner = user_jobs wb owner"
  using route_cases [OF assms(1)] assms(2)
  by (auto dest!: create_job_cases delete_job_cases update_job_cases)

lemma distinct_keys_update:
  "distinct (map fst al) \<Longrightarrow> distinct (map fst (AList.update k v al))"
  by (rule distinct_update)

lemma route_inv:
  assumes "wobbly_route url now rq wb = (r, wb')" "wobbly_inv wb" "sent_by token rq"
  shows "wobbly_inv wb'"
proof -
  have inv: "distinct (map fst (user_jobs wb o'))" "\<forall>e \<in> set (user_jobs wb o'). stored_ok wb o' e" for o'
    using assms(2) unfolding wobbly_inv_def by blast+
  consider "wb' = wb" | "create_job now rq wb = (r, wb')" | i where "delete_job rq i wb = (r, wb')"
    | i where "update_job now rq i wb = (r, wb')"
    using route_cases [OF assms(1)] by blast
  then show ?thesis
  proof cases
    case 1
    then show ?thesis using assms(2) by simp
  next
    case 2
    let ?wb = "wb\<lparr>wb_next_id := wb_next_id wb + 1\<rparr>"
    have mono: "stored_ok wb o' e \<Longrightarrow> stored_ok ?wb o' e" for o' e by (auto simp: stored_ok_def)
    have wb: "wobbly_inv ?wb"
      using assms(2) mono unfolding wobbly_inv_def by auto
    from create_job_cases [OF 2] show ?thesis
    proof (elim disjE exE conjE)
      fix service username and b :: job_base
      let ?j = "new_job now service username (nat_str (wb_next_id wb)) b"
      assume w: "wb' = set_user_jobs (service, username) (AList.update (nat_str (wb_next_id wb)) ?j
        (user_jobs wb (service, username))) ?wb"
      have "stored_ok ?wb (service, username) (nat_str (wb_next_id wb), ?j)"
        using assms(2) by (auto simp: stored_ok_def job_wf_def wobbly_inv_def new_job_def)
      then show ?thesis unfolding w
        using inv mono set_update_subset [of "nat_str (wb_next_id wb)" ?j "user_jobs wb (service, username)"]
        by (intro wobbly_inv_set [OF wb] distinct_update) auto
    qed (use assms(2) in simp)
  next
    case 3
    from delete_job_cases [OF 3] show ?thesis
    proof (elim disjE exE conjE)
      fix owner
      assume w: "wb' = set_user_jobs owner (AList.delete i (user_jobs wb owner)) wb"
      show ?thesis unfolding w
        using inv [of owner] set_delete_subset [of i "user_jobs wb owner"]
        by (intro wobbly_inv_set [OF assms(2)] distinct_delete) auto
    qed (use assms(2) in simp)
  next
    case 4
    from update_job_cases [OF 4] show ?thesis
    proof (elim disjE exE conjE)
      fix owner j u
      assume j: "map_of (user_jobs wb owner) i = Some j" and u: "rq_body rq = Some (BodyUpdate u)"
        and w: "wb' = set_user_jobs owner (AList.update i (apply_update now u j) (user_jobs wb owner)) wb"
      have "update_ok u" using assms(3) u by (simp add: sent_by_def)
      moreover have "stored_ok wb owner (i, j)" by (rule wobbly_inv_get [OF assms(2) j])
      ultimately have "stored_ok wb owner (i, apply_update now u j)"
        using apply_update_job [of u j now] by (auto simp: stored_ok_def)
      then show ?thesis unfolding w
        using inv [of owner] set_update_subset [of i "apply_update now u j" "user_jobs wb owner"]
        by (intro wobbly_inv_set [OF assms(2)] distinct_update) auto
    qed (use assms(2) in simp)
  qed
qed

subsection \<open>What every request keeps\<close>

definition world_inv :: "uws_world \<Rightarrow> bool" where
  "world_inv w \<longleftrightarrow> wobbly_inv (uw_wobbly w)"

lemma on_arq_keeps:
  assumes "\<And>w a. I (w\<lparr>uw_arq := a\<rparr>) = I w"
  shows "I w \<Longrightarrow> I (snd (on_arq m w))"
  using assms by (simp add: on_arq_def split: prod.split)

text \<open>
  Whatever the other tasks do at each \<open>await\<close>, as long as they keep the predicate themselves.
\<close>

lemma mock_world_keeps:
  assumes bg: "\<And>w. I w \<Longrightarrow> I (bg w)"
    and req: "\<And>rq w r wb. sent_by token rq \<Longrightarrow> I w \<Longrightarrow> wobbly_route url (uw_now w) rq (uw_wobbly w) = (r, wb)
        \<Longrightarrow> I (w\<lparr>uw_wobbly := wb\<rparr>)"
    and wob: "\<And>w a n i ps rs. I (w\<lparr>uw_arq := a\<rparr>) = I w \<and> I (w\<lparr>uw_ids := i\<rparr>) = I w \<and> I (w\<lparr>uw_now := n\<rparr>) = I w \<and>
        I (w\<lparr>uw_posts := ps\<rparr>) = I w \<and> I (w\<lparr>uw_reports := rs\<rparr>) = I w"
  shows "world_invariant (mock_env url bg) I token"
proof -
  have f: "\<And>w a. I (w\<lparr>uw_arq := a\<rparr>) = I w" "\<And>w i. I (w\<lparr>uw_ids := i\<rparr>) = I w" "\<And>w n. I (w\<lparr>uw_now := n\<rparr>) = I w"
    "\<And>w ps. I (w\<lparr>uw_posts := ps\<rparr>) = I w" "\<And>w rs. I (w\<lparr>uw_reports := rs\<rparr>) = I w"
    by (simp_all only: wob)
  show ?thesis
proof
  fix rq
  assume rq: "sent_by token rq"
  show "preserves I (en_request (mock_env url bg) rq)"
    unfolding preserves_def
  proof (intro allI impI)
    fix s
    assume "I s"
    obtain r wb where r: "wobbly_route url (uw_now (bg s)) rq (uw_wobbly (bg s)) = (r, wb)"
      by (cases "wobbly_route url (uw_now (bg s)) rq (uw_wobbly (bg s))")
    show "I (snd (en_request (mock_env url bg) rq s))"
      using req [OF rq bg [OF \<open>I s\<close>] r] r by (simp add: mock_env_def Let_def)
  qed
next
  fix w n
  assume "I w"
  then show "I (en_sleep (mock_env url bg) n w)"
    using bg by (simp add: mock_env_def Let_def f)
next
  have arq: "I (snd (on_arq m w))" if "I w" for w and m :: "((arq_arg, worker_result list, exc) mock_arq, arq_error, 'x) eff"
    by (rule on_arq_keeps [where I = I, OF f(1) that])
  fix task args i timeout
  show "preserves I (en_enqueue (mock_env url bg) task args)" "preserves I (en_abort (mock_env url bg) i timeout)"
    "preserves I (en_result (mock_env url bg) i)"
    unfolding preserves_def mock_env_def Let_def uws_env.select_convs
    by (intro allI impI arq, simp only: f bg)+
qed (simp_all add: preserves_def mock_env_def mock_alert_env_def f)
qed

lemma world_inv_fields [simp]:
  "world_inv (w\<lparr>uw_arq := a\<rparr>) = world_inv w" "world_inv (w\<lparr>uw_ids := i\<rparr>) = world_inv w"
  "world_inv (w\<lparr>uw_now := n\<rparr>) = world_inv w" "world_inv (w\<lparr>uw_posts := ps\<rparr>) = world_inv w"
  "world_inv (w\<lparr>uw_reports := rs\<rparr>) = world_inv w"
  by (simp_all add: world_inv_def)

lemma world_inv_keeps:
  assumes "\<And>w. world_inv w \<Longrightarrow> world_inv (bg w)"
  shows "world_invariant (mock_env url bg) world_inv token"
  by (rule mock_world_keeps [where I = world_inv, OF assms]) (auto simp: world_inv_def intro: route_inv)

definition token_owner :: "string \<Rightarrow> exc + string \<times> string" where
  "token_owner token = get_auth \<lparr>rq_method = GET, rq_url = [], rq_authorization = ''bearer '' @ token,
     rq_body = None, rq_params = []\<rparr>"

lemma sent_by_auth: "sent_by token rq \<Longrightarrow> get_auth rq = token_owner token"
  unfolding token_owner_def by (rule get_auth_token) (simp add: sent_by_def)

text \<open>The token of a user names the service and the user, when they are free of white space.\<close>

lemma token_owner_make_token:
  assumes "\<forall>c \<in> set service. c \<noteq> CHR ''.'' \<and> \<not> py_space c" "\<forall>c \<in> set user. \<not> py_space c"
  shows "token_owner (make_token service user) = Inr (service, user)"
proof -
  have t: "\<forall>c \<in> set (make_token service user). \<not> py_space c" "make_token service user \<noteq> []"
    using assms by (auto simp: make_token_def py_space_def)
  have "py_words (''bearer'' @ CHR '' '' # make_token service user) = [''bearer'', make_token service user]"
    by (rule py_words_pair) (use t in \<open>auto simp: py_space_def\<close>)
  then have w: "py_words (''bearer '' @ make_token service user) = [''bearer'', make_token service user]" by simp
  have d: "drop 3 (make_token service user) = service @ CHR ''.'' # user" by (simp add: make_token_def)
  have s: "py_startswith (make_token service user) ''gt-''" by (simp add: make_token_def py_startswith_def)
  have l: "to_lower ''bearer'' = ''bearer''" by code_simp
  have "py_split1 (CHR ''.'') (service @ CHR ''.'' # user) = [service, user]"
    using assms(1) by (intro py_split1_append) auto
  then show ?thesis
    unfolding token_owner_def get_auth_def wob_request.select_convs w by (simp add: d s l)
qed

text \<open>The surroundings in which nothing else happens at an \<open>await\<close>.\<close>

interpretation idle: world_invariant "mock_env url (\<lambda>w. w)" world_inv token for url token
  by (rule world_inv_keeps)

end
