(* ===== verification/UWSBackend.thy ===== *)
theory UWSBackend
  imports UWSMocks
begin

text \<open>
  The contract of the Wobbly service as the components rely on it: what a read, an update, a
  deletion or a creation with a user's token answers and does to that user's jobs, and what it
  leaves alone.  The operations of the job store and of the job service are characterised
  against it once; it is interpreted on the mock service.
\<close>

subsection \<open>The contract\<close>

text \<open>Identifiers that are one segment of a path.\<close>

definition simple_id :: "string \<Rightarrow> bool" where
  "simple_id i \<longleftrightarrow> i \<noteq> [] \<and> CHR ''/'' \<notin> set i"

definition answered :: "'w \<Rightarrow> int \<Rightarrow> wob_json \<Rightarrow> (client_error + wob_response) \<times> 'w \<Rightarrow> bool" where
  "answered w status js out \<longleftrightarrow> (\<exists>r. out = (Inr r, w) \<and> rp_status r = status \<and> rp_json r = js)"

text \<open>A stored job as the store returns it: dumped to the wire, then read with its parameters.\<close>

definition read_job :: "uws_config \<Rightarrow> serialized_job \<Rightarrow> exc + uws_job" where
  "read_job cfg j = from_serialized_job (cfg_parse_parameters cfg) (wire_job j)"

text \<open>The job stored when the service creates one.\<close>

definition stored_on_create ::
  "uws_config \<Rightarrow> int \<Rightarrow> string \<times> string \<Rightarrow> string \<Rightarrow> string option \<Rightarrow> params \<Rightarrow> serialized_job" where
  "stored_on_create cfg now own i run_id p =
     new_job now (fst own) (snd own) i
       (wire_job \<lparr>jb_parameters = p, jb_run_id = run_id,
         jb_destruction_time = no_microseconds now + cfg_lifetime cfg,
         jb_execution_duration = Some (cfg_execution_duration cfg)\<rparr>)"

lemma read_job_fields:
  "read_job cfg j = Inr job \<Longrightarrow> sj_id job = sj_id j \<and> sj_phase job = sj_phase j \<and> sj_message_id job = sj_message_id j \<and>
    jb_destruction_time job = jb_destruction_time j \<and> sj_errors job = sj_errors j \<and> sj_results job = map plain_result (sj_results j) \<and>
    sj_owner job = sj_owner j \<and> jb_execution_duration job = wire_duration (jb_execution_duration j) \<and>
    jb_run_id job = jb_run_id j \<and> cfg_parse_parameters cfg (jb_parameters j) = Some (job_parameters job)"
  by (auto simp: read_job_def from_serialized_job_def wire_job_def split: if_splits option.splits)

locale job_backend =
  fixes cfg :: uws_config and env :: "'w uws_env"
    and owner_of :: "string \<Rightarrow> (string \<times> string) option"
    and jobs :: "string \<times> string \<Rightarrow> 'w \<Rightarrow> string \<Rightarrow> serialized_job option"
    and good :: "'w \<Rightarrow> bool" and queue :: "'w \<Rightarrow> 'q"
  assumes ids: "good w \<Longrightarrow> jobs own w i = Some j \<Longrightarrow> simple_id i \<and> sj_id j = i"
    and get_found: "owner_of t = Some own \<Longrightarrow> good w \<Longrightarrow> jobs own w i = Some j \<Longrightarrow>
      answered w 200 (WobJob (wire_job j)) (en_request env (make_request cfg GET t (Some i) None []) w)"
    and get_missing: "owner_of t = Some own \<Longrightarrow> good w \<Longrightarrow> jobs own w i = None \<Longrightarrow> simple_id i \<Longrightarrow>
      answered w 404 WobNone (en_request env (make_request cfg GET t (Some i) None []) w)"
    and patch_found: "owner_of t = Some own \<Longrightarrow> good w \<Longrightarrow> jobs own w i = Some j \<Longrightarrow> update_valid u \<Longrightarrow> update_ok u \<Longrightarrow>
      \<exists>w' js. answered w' 200 js (en_request env (make_request cfg PATCH t (Some i) (Some (BodyUpdate u)) []) w) \<and>
        good w' \<and> jobs own w' = (jobs own w)(i \<mapsto> apply_update (en_now env w) u j) \<and> queue w' = queue w \<and>
        en_now env w' = en_now env w"
    and patch_missing: "owner_of t = Some own \<Longrightarrow> good w \<Longrightarrow> jobs own w i = None \<Longrightarrow> simple_id i \<Longrightarrow>
      answered w 404 WobNone (en_request env (make_request cfg PATCH t (Some i) (Some (BodyUpdate u)) []) w)"
    and delete_found: "owner_of t = Some own \<Longrightarrow> good w \<Longrightarrow> jobs own w i = Some j \<Longrightarrow>
      \<exists>w'. answered w' 204 WobNone (en_request env (make_request cfg DELETE t (Some i) None []) w) \<and>
        good w' \<and> jobs own w' = (jobs own w)(i := None) \<and> queue w' = queue w \<and> en_now env w' = en_now env w"
    and post_creates: "owner_of t = Some own \<Longrightarrow> good w \<Longrightarrow>
      \<exists>w' i. let j = new_job (en_now env w) (fst own) (snd own) i b in
        answered w' 201 (WobJob (wire_job j)) (en_request env (make_request cfg POST t None (Some (BodyCreate b)) []) w) \<and>
        good w' \<and> simple_id i \<and> jobs own w i = None \<and> jobs own w' = (jobs own w)(i \<mapsto> j) \<and>
        queue w' = queue w \<and> en_now env w' = en_now env w"
begin

lemma simple_truthy: "simple_id i \<Longrightarrow> truthy (Some i)"
  by (simp add: simple_id_def truthy_def)

lemma store_get_found:
  assumes "owner_of t = Some own" "good w" "jobs own w i = Some j"
  shows "store_get cfg env t i w = (read_job cfg j, w)"
proof -
  obtain r where r: "en_request env (make_request cfg GET t (Some i) None []) w = (Inr r, w)"
    "rp_status r = 200" "rp_json r = WobJob (wire_job j)"
    using get_found [OF assms] by (auto simp: answered_def)
  then show ?thesis
    by (simp add: store_get_def store_request_def response_job_def validate_job_def eff_simps read_job_def)
qed

lemma store_get_missing:
  assumes "owner_of t = Some own" "good w" "jobs own w i = None" "simple_id i"
  shows "store_get cfg env t i w = (Inl (ExcUWS (unknown_job_error i)), w)"
proof -
  obtain r where r: "en_request env (make_request cfg GET t (Some i) None []) w = (Inr r, w)" "rp_status r = 404"
    using get_missing [OF assms] by (auto simp: answered_def)
  then show ?thesis
    using simple_truthy [OF assms(4)] by (simp add: store_get_def store_request_def eff_simps)
qed

lemma store_update_found:
  assumes "owner_of t = Some own" "good w" "jobs own w i = Some j" "update_valid u" "update_ok u"
  obtains w' where "store_update cfg env t i u w = (Inr (), w')" "good w'"
    "jobs own w' = (jobs own w)(i \<mapsto> apply_update (en_now env w) u j)" "queue w' = queue w" "en_now env w' = en_now env w"
proof -
  obtain w' js where w': "answered w' 200 js (en_request env (make_request cfg PATCH t (Some i) (Some (BodyUpdate u)) []) w)"
    "good w'" "jobs own w' = (jobs own w)(i \<mapsto> apply_update (en_now env w) u j)" "queue w' = queue w"
    "en_now env w' = en_now env w"
    using patch_found [OF assms] by blast
  then have "store_update cfg env t i u w = (Inr (), w')"
    by (auto simp: answered_def store_update_def store_request_def eff_simps)
  then show ?thesis using that w' by blast
qed

lemma store_update_missing:
  assumes "owner_of t = Some own" "good w" "jobs own w i = None" "simple_id i"
  shows "store_update cfg env t i u w = (Inl (ExcUWS (unknown_job_error i)), w)"
  using patch_missing [OF assms, of u] simple_truthy [OF assms(4)]
  by (auto simp: answered_def store_update_def store_request_def eff_simps)

lemma store_delete_found:
  assumes "owner_of t = Some own" "good w" "jobs own w i = Some j"
  obtains w' where "store_delete cfg env t i w = (Inr (), w')" "good w'"
    "jobs own w' = (jobs own w)(i := None)" "queue w' = queue w" "en_now env w' = en_now env w"
proof -
  obtain w' where w': "answered w' 204 WobNone (en_request env (make_request cfg DELETE t (Some i) None []) w)"
    "good w'" "jobs own w' = (jobs own w)(i := None)" "queue w' = queue w" "en_now env w' = en_now env w"
    using delete_found [OF assms] by blast
  then have "store_delete cfg env t i w = (Inr (), w')"
    by (auto simp: answered_def store_delete_def store_request_def eff_simps)
  then show ?thesis using that w' by blast
qed

lemma store_created:
  assumes "owner_of t = Some own" "good w"
  obtains w' i where "create cfg env t p run_id w = (read_job cfg (stored_on_create cfg (en_now env w) own i run_id p), w')" "good w'"
    "simple_id i" "jobs own w i = None"
    "jobs own w' = (jobs own w)(i \<mapsto> stored_on_create cfg (en_now env w) own i run_id p)" "queue w' = queue w" "en_now env w' = en_now env w"
proof -
  let ?b = "wire_job \<lparr>jb_parameters = p, jb_run_id = run_id,
         jb_destruction_time = no_microseconds (en_now env w) + cfg_lifetime cfg,
         jb_execution_duration = Some (cfg_execution_duration cfg)\<rparr>"
  obtain w' i where w': "answered w' 201 (WobJob (wire_job (stored_on_create cfg (en_now env w) own i run_id p)))
      (en_request env (make_request cfg POST t None (Some (BodyCreate ?b)) []) w)"
    "good w'" "simple_id i" "jobs own w i = None"
    "jobs own w' = (jobs own w)(i \<mapsto> stored_on_create cfg (en_now env w) own i run_id p)" "queue w' = queue w" "en_now env w' = en_now env w"
    using post_creates [OF assms, of ?b] unfolding Let_def stored_on_create_def by blast
  then have "create cfg env t p run_id w = (read_job cfg (stored_on_create cfg (en_now env w) own i run_id p), w')"
    by (auto simp: answered_def create_def store_create_def store_request_def eff_simps response_job_def
        validate_job_def read_job_def no_microseconds_def Let_def)
  then show ?thesis using that w' by blast
qed

end

text \<open>
  With the job queue: what is enqueued waits in the queue under a new identifier, an abort
  takes a waiting job out of it, and the result of a job is there once it is done; none of
  them touches the stored jobs.
\<close>

text \<open>The queue after the abort of a job's task.\<close>

definition after_abort :: "string option \<Rightarrow> (string \<Rightarrow> (worker_result list, exc) job_state option)
    \<Rightarrow> string \<Rightarrow> (worker_result list, exc) job_state option" where
  "after_abort message_id q =
     (if truthy message_id then q(the message_id := Option.bind (q (the message_id)) aborted_state) else q)"

text \<open>The destruction time the service settles on, or the exception of the application's validator.\<close>

definition new_destruction :: "uws_config \<Rightarrow> int \<Rightarrow> uws_job \<Rightarrow> exc + int" where
  "new_destruction cfg destruction job = (case cfg_validate_destruction cfg of
     Some validator \<Rightarrow> validator destruction job | None \<Rightarrow> Inr (min (jb_destruction_time job) destruction))"

definition new_duration :: "uws_config \<Rightarrow> int option \<Rightarrow> uws_job \<Rightarrow> exc + int option" where
  "new_duration cfg duration job = map_sum id (map_option (\<lambda>d. if d = 0 then 0 else min d (cfg_execution_duration cfg)))
     (case cfg_validate_execution_duration cfg of Some validator \<Rightarrow> validator duration job | None \<Rightarrow> Inr duration)"

text \<open>The error a job ends with when its task raised an exception.\<close>

definition failure_error :: "string \<Rightarrow> exc \<Rightarrow> job_error" where
  "failure_error owner e = (case e of
     ExcWorker we \<Rightarrow> task_to_job_error (task_from_worker_error (utc_datetime 0) we)
   | ExcTask t \<Rightarrow> task_to_job_error t
   | _ \<Rightarrow> \<lparr>je_type = FATAL, je_code = ''Error'', je_message = ''Unknown error executing task'',
           je_detail = Some (exc_name e @ '': '' @ exc_str (set_user owner e))\<rparr>)"

text \<open>How the task of a job ended, as an update of the job; a cancelled task gives none.\<close>

definition outcome_update :: "string \<Rightarrow> (worker_result list, exc) arq_outcome \<Rightarrow> job_update option" where
  "outcome_update owner r = (case r of
     Returned rs \<Rightarrow> Some (UpdateCompleted (map from_worker_result rs))
   | Failed e \<Rightarrow> Some (UpdateError [failure_error owner e])
   | Cancelled \<Rightarrow> None)"

definition kept ::
  "'w uws_env \<Rightarrow> ('o \<Rightarrow> 'w \<Rightarrow> 'j) \<Rightarrow> ('w \<Rightarrow> bool) \<Rightarrow> ('w \<Rightarrow> 'q) \<Rightarrow> 'w \<Rightarrow> 'w \<Rightarrow> bool" where
  "kept env jobs good queue w w' \<longleftrightarrow>
     good w' \<and> (\<forall>own. jobs own w' = jobs own w) \<and> queue w' = queue w \<and> en_now env w' = en_now env w"

lemma keptD:
  "kept env jobs good queue w w' \<Longrightarrow> good w'" "kept env jobs good queue w w' \<Longrightarrow> jobs own w' = jobs own w"
  "kept env jobs good queue w w' \<Longrightarrow> queue w' = queue w" "kept env jobs good queue w w' \<Longrightarrow> en_now env w' = en_now env w"
  unfolding kept_def by blast+

locale uws_backend = job_backend cfg env owner_of jobs good queue
  for cfg and env :: "'w uws_env" and owner_of jobs good
    and queue :: "'w \<Rightarrow> string \<Rightarrow> (worker_result list, exc) job_state option" +
  assumes enqueued: "good w \<Longrightarrow> \<exists>m w'. en_enqueue env task args w = (Inr m, w') \<and> jm_id m \<noteq> [] \<and> jm_name m = task \<and>
      jm_args m = args \<and> jm_status m = Queued \<and> queue w (jm_id m) = None \<and> queue w' = (queue w)(jm_id m \<mapsto> Waiting) \<and>
      good w' \<and> jobs own w' = jobs own w \<and> en_now env w' = en_now env w"
    and aborted: "good w \<Longrightarrow> \<exists>w'. en_abort env i timeout w = (Inr (queue w i = Some Waiting \<or> queue w i = Some Running), w') \<and>
      queue w' = (queue w)(i := Option.bind (queue w i) aborted_state) \<and>
      good w' \<and> jobs own w' = jobs own w \<and> en_now env w' = en_now env w"
    and result_ready: "good w \<Longrightarrow> queue w i = Some (Done r) \<Longrightarrow> \<exists>jr. en_result env i w = (Inr jr, w) \<and> jr_result jr = r"
    and slept: "good w \<Longrightarrow> good (en_sleep env n w) \<and> jobs own (en_sleep env n w) = jobs own w \<and>
      queue (en_sleep env n w) = queue w"
    and alert_time: "utcoffset (dt_tz (ae_now (en_alert env) w)) = Some 0"
    and posted: "good w \<Longrightarrow> kept env jobs good queue w (snd (ae_post (en_alert env) url p w))"
    and logged: "good w \<Longrightarrow> kept env jobs good queue w (ae_log_error (en_alert env) msg w)"
    and captured: "good w \<Longrightarrow> kept env jobs good queue w (ae_capture (en_alert env) x w)"
begin

lemma started_outcome:
  assumes "owner_of t = Some own" "good w" "jobs own w i = Some j" "read_job cfg j = Inr job"
    and "sj_phase j = PENDING \<or> sj_phase j = HELD" "cfg_worker_parameters cfg (job_parameters job) = Inr p"
  obtains m w' where "start cfg env t user i w = (Inr m, w')" "good w'"
    "jm_name m = cfg_worker cfg" "jm_id m \<noteq> []" "queue w (jm_id m) = None"
    "jm_args m = [ArgParams p, ArgInfo \<lparr>wj_job_id = i, wj_user = user, wj_token = t,
       wj_timeout = (case jb_execution_duration job of None \<Rightarrow> cfg_lifetime cfg | Some d \<Rightarrow> if d = 0 then cfg_lifetime cfg else d),
       wj_run_id = jb_run_id j\<rparr>]"
    "queue w' = (queue w)(jm_id m \<mapsto> Waiting)"
    "jobs own w' = (jobs own w)(i \<mapsto> j\<lparr>sj_message_id := Some (jm_id m), sj_phase := QUEUED\<rparr>)"
    "en_now env w' = en_now env w"
proof -
  note f = read_job_fields [OF assms(4)] and id = ids [OF assms(2,3)]
  let ?info = "\<lparr>wj_job_id = i, wj_user = user, wj_token = t,
       wj_timeout = (case jb_execution_duration job of None \<Rightarrow> cfg_lifetime cfg | Some d \<Rightarrow> if d = 0 then cfg_lifetime cfg else d),
       wj_run_id = jb_run_id j\<rparr>"
  obtain m w1 where e: "en_enqueue env (cfg_worker cfg) [ArgParams p, ArgInfo ?info] w = (Inr m, w1)"
    "jm_id m \<noteq> []" "jm_name m = cfg_worker cfg" "jm_args m = [ArgParams p, ArgInfo ?info]" "queue w (jm_id m) = None"
    "queue w1 = (queue w)(jm_id m \<mapsto> Waiting)" "good w1" "jobs own w1 = jobs own w" "en_now env w1 = en_now env w"
    using enqueued [OF assms(2)] by blast
  have j: "jobs own w1 i = Some j" using e(8) assms(3) by simp
  have u: "update_valid (UpdateQueued (Some (jm_id m)))" "update_ok (UpdateQueued (Some (jm_id m)))"
    by (simp_all add: update_ok_def)
  obtain w2 where w2: "store_update cfg env t i (UpdateQueued (Some (jm_id m))) w1 = (Inr (), w2)" "good w2"
    "jobs own w2 = (jobs own w1)(i \<mapsto> apply_update (en_now env w1) (UpdateQueued (Some (jm_id m))) j)"
    "queue w2 = queue w1" "en_now env w2 = en_now env w1"
    using store_update_found [OF assms(1) e(7) j u] by blast
  have "start cfg env t user i w = (Inr m, w2)"
    using store_get_found [OF assms(1-3)] assms(4-6) f e(1) w2(1) id
    by (auto simp: start_def eff_simps arq_call_def mark_queued_def Let_def)
  then show ?thesis using that e w2 by simp
qed

lemma start_refused:
  assumes "owner_of t = Some own" "good w" "jobs own w i = Some j" "read_job cfg j = Inr job"
    and "sj_phase j \<noteq> PENDING" "sj_phase j \<noteq> HELD"
  shows "start cfg env t user i w = (Inl (invalid_phase env (sj_phase j)), w)"
  using store_get_found [OF assms(1-3)] assms(4-6) read_job_fields [OF assms(4)]
  by (simp add: start_def eff_simps)

lemma start_bad_parameters:
  assumes "owner_of t = Some own" "good w" "jobs own w i = Some j" "read_job cfg j = Inr job"
    and "sj_phase j = PENDING \<or> sj_phase j = HELD" "cfg_worker_parameters cfg (job_parameters job) = Inl e"
  shows "start cfg env t user i w = (Inl e, w)"
  using store_get_found [OF assms(1-3)] assms(4-6) read_job_fields [OF assms(4)]
  by (auto simp: start_def eff_simps Let_def)

lemma abort_message:
  assumes "good w"
  obtains w' where
    "(if truthy mid then bind_eff (arq_call (en_abort env (the mid) timeout)) (\<lambda>_. ret_eff ()) else ret_eff ()) w = (Inr (), w')"
    "good w'" "jobs own w' = jobs own w" "queue w' = after_abort mid (queue w)" "en_now env w' = en_now env w"
proof (cases "truthy mid")
  case True
  from aborted [OF assms, of "the mid" timeout own] True that show ?thesis
    by (auto simp: eff_simps arq_call_def after_abort_def)
next
  case False
  then show ?thesis using that assms by (simp add: eff_simps after_abort_def)
qed

lemma abort_outcome:
  assumes "owner_of t = Some own" "good w" "jobs own w i = Some j" "read_job cfg j = Inr job"
    and "sj_phase j \<in> set active_phases"
  obtains w' where "abort cfg env t i w = (Inr (), w')" "good w'"
    "jobs own w' = (jobs own w)(i \<mapsto> apply_update (en_now env w) UpdateAborted j)"
    "queue w' = after_abort (sj_message_id j) (queue w)"
proof -
  obtain w1 where w1: "(if truthy (sj_message_id j)
      then bind_eff (arq_call (en_abort env (the (sj_message_id j)) (Some 30000000))) (\<lambda>_. ret_eff ()) else ret_eff ()) w = (Inr (), w1)"
    "good w1" "jobs own w1 = jobs own w" "queue w1 = after_abort (sj_message_id j) (queue w)" "en_now env w1 = en_now env w"
    by (rule abort_message [OF assms(2)])
  have j: "jobs own w1 i = Some j" using w1(3) assms(3) by simp
  have u: "update_valid UpdateAborted" "update_ok UpdateAborted" by (simp_all add: update_ok_def)
  obtain w2 where w2: "store_update cfg env t i UpdateAborted w1 = (Inr (), w2)" "good w2"
    "jobs own w2 = (jobs own w1)(i \<mapsto> apply_update (en_now env w1) UpdateAborted j)" "queue w2 = queue w1"
    using store_update_found [OF assms(1) w1(2) j u] by blast
  have "abort cfg env t i w = (Inr (), w2)"
    using store_get_found [OF assms(1-3)] assms(4,5) read_job_fields [OF assms(4)] w1(1) w2(1)
    by (cases "truthy (sj_message_id j)") (simp_all add: abort_def eff_simps is_active_def mark_aborted_def)
  then show ?thesis using that w1 w2 by simp
qed

lemma abort_inactive:
  assumes "owner_of t = Some own" "good w" "jobs own w i = Some j" "read_job cfg j = Inr job"
    and "sj_phase j \<notin> set active_phases"
  shows "abort cfg env t i w = (Inr (), w)"
  using store_get_found [OF assms(1-3)] assms(4,5) read_job_fields [OF assms(4)]
  by (simp add: abort_def eff_simps is_active_def)

lemma delete_outcome:
  assumes "owner_of t = Some own" "good w" "jobs own w i = Some j" "read_job cfg j = Inr job"
  obtains w' where "delete cfg env t i w = (Inr (), w')" "good w'" "jobs own w' = (jobs own w)(i := None)"
    "queue w' = (if sj_phase j \<in> set active_phases then after_abort (sj_message_id j) (queue w) else queue w)"
proof -
  let ?mid = "if sj_phase j \<in> set active_phases then sj_message_id j else None"
  obtain w1 where w1: "(if truthy ?mid then bind_eff (arq_call (en_abort env (the ?mid) None)) (\<lambda>_. ret_eff ()) else ret_eff ()) w = (Inr (), w1)"
    "good w1" "jobs own w1 = jobs own w" "queue w1 = after_abort ?mid (queue w)"
    by (rule abort_message [OF assms(2)])
  have a: "(if is_active job \<and> truthy (sj_message_id job)
        then catch_eff (bind_eff (arq_call (en_abort env (the (sj_message_id job)) None)) (\<lambda>_. ret_eff ())) (\<lambda>_. ret_eff ())
        else ret_eff ()) w = (Inr (), w1)"
    using w1(1) read_job_fields [OF assms(4)]
    by (cases "sj_phase j \<in> set active_phases") (simp_all add: is_active_def catch_eff_apply truthy_def split: if_splits)
  have j: "jobs own w1 i = Some j" using w1(3) assms(3) by simp
  obtain w2 where w2: "store_delete cfg env t i w1 = (Inr (), w2)" "good w2" "jobs own w2 = (jobs own w1)(i := None)"
    "queue w2 = queue w1"
    using store_delete_found [OF assms(1) w1(2) j] by blast
  have "delete cfg env t i w = (Inr (), w2)"
    unfolding delete_def bind_eff_apply store_get_found [OF assms(1-3)] assms(4) prod.case sum.case a by (rule w2(1))
  then show ?thesis using that w1 w2 by (simp add: after_abort_def truthy_def split: if_splits)
qed

lemma metadata_updated:
  assumes "owner_of t = Some own" "good w" "jobs own w i = Some j"
  obtains w' where "update_metadata cfg env t i destruction duration w = (Inr (), w')" "good w'"
    "jobs own w' = (jobs own w)(i \<mapsto> j\<lparr>jb_destruction_time := destruction,
       jb_execution_duration := wire_update_duration duration\<rparr>)" "queue w' = queue w"
proof -
  let ?u = "UpdateMetadata destruction (wire_update_duration duration)"
  have "update_valid ?u" "update_ok ?u" by (simp_all add: update_ok_def)
  then obtain w' where "store_update cfg env t i ?u w = (Inr (), w')" "good w'"
    "jobs own w' = (jobs own w)(i \<mapsto> apply_update (en_now env w) ?u j)" "queue w' = queue w"
    using store_update_found [OF assms] by blast
  then show ?thesis using that by (simp add: update_metadata_def)
qed

lemma destruction_outcome:
  assumes "owner_of t = Some own" "good w" "jobs own w i = Some j" "read_job cfg j = Inr job"
    and "new_destruction cfg destruction job = Inr d" "d \<noteq> jb_destruction_time j"
  obtains w' where "update_destruction cfg env t i destruction w = (Inr (Some d), w')" "good w'"
    "jobs own w' = (jobs own w)(i \<mapsto> j\<lparr>jb_destruction_time := d,
       jb_execution_duration := wire_update_duration (jb_execution_duration job)\<rparr>)" "queue w' = queue w"
proof -
  obtain w' where w': "update_metadata cfg env t i d (jb_execution_duration job) w = (Inr (), w')" "good w'"
    "jobs own w' = (jobs own w)(i \<mapsto> j\<lparr>jb_destruction_time := d,
       jb_execution_duration := wire_update_duration (jb_execution_duration job)\<rparr>)" "queue w' = queue w"
    by (rule metadata_updated [OF assms(1-3)])
  have "update_destruction cfg env t i destruction w = (Inr (Some d), w')"
    using store_get_found [OF assms(1-3)] assms(4-6) read_job_fields [OF assms(4)] w'(1)
    by (auto simp: update_destruction_def eff_simps new_destruction_def min_def split: option.splits if_splits)
  then show ?thesis using that w' by blast
qed

lemma destruction_kept:
  assumes "owner_of t = Some own" "good w" "jobs own w i = Some j" "read_job cfg j = Inr job"
    and "case new_destruction cfg destruction job of Inl e \<Rightarrow> out = Inl e | Inr d \<Rightarrow> d = jb_destruction_time j \<and> out = Inr None"
  shows "update_destruction cfg env t i destruction w = (out, w)"
  using store_get_found [OF assms(1-3)] assms(4-5) read_job_fields [OF assms(4)]
  by (auto simp: update_destruction_def eff_simps new_destruction_def min_def split: option.splits if_splits sum.splits)

lemma duration_outcome:
  assumes "owner_of t = Some own" "good w" "jobs own w i = Some j" "read_job cfg j = Inr job"
    and "new_duration cfg duration job = Inr d" "d \<noteq> jb_execution_duration job"
  obtains w' where "update_execution_duration cfg env t i duration w = (Inr d, w')" "good w'"
    "jobs own w' = (jobs own w)(i \<mapsto> j\<lparr>jb_execution_duration := wire_update_duration d\<rparr>)" "queue w' = queue w"
proof -
  obtain w' where w': "update_metadata cfg env t i (jb_destruction_time j) d w = (Inr (), w')" "good w'"
    "jobs own w' = (jobs own w)(i \<mapsto> j\<lparr>jb_destruction_time := jb_destruction_time j,
       jb_execution_duration := wire_update_duration d\<rparr>)" "queue w' = queue w"
    by (rule metadata_updated [OF assms(1-3)])
  obtain d0 where d0: "(case cfg_validate_execution_duration cfg of Some validator \<Rightarrow> validator duration job | None \<Rightarrow> Inr duration) = Inr d0"
    "d = map_option (\<lambda>d. if d = 0 then 0 else min d (cfg_execution_duration cfg)) d0"
    using assms(5) unfolding new_duration_def by (auto simp: map_sum_def split: sum.splits)
  have dd: "(case d0 of Some d \<Rightarrow> if d \<noteq> 0 then Some (min d (cfg_execution_duration cfg)) else Some d | None \<Rightarrow> None) = d"
    using d0(2) by (cases d0) auto
  have "update_execution_duration cfg env t i duration w = (Inr d, w')"
    using store_get_found [OF assms(1-3)] assms(4,6) read_job_fields [OF assms(4)] w'(1)
    by (simp add: update_execution_duration_def eff_simps d0(1) dd Let_def)
  then show ?thesis using that w' by simp
qed

lemma duration_kept:
  assumes "owner_of t = Some own" "good w" "jobs own w i = Some j" "read_job cfg j = Inr job"
    and "case new_duration cfg duration job of Inl e \<Rightarrow> out = Inl e | Inr d \<Rightarrow> d = jb_execution_duration job \<and> out = Inr None"
  shows "update_execution_duration cfg env t i duration w = (out, w)"
proof (cases "case cfg_validate_execution_duration cfg of Some validator \<Rightarrow> validator duration job | None \<Rightarrow> Inr duration")
  case (Inl e)
  then show ?thesis using store_get_found [OF assms(1-3)] assms(4-5)
    by (simp add: update_execution_duration_def eff_simps new_duration_def)
next
  case (Inr d0)
  let ?d = "map_option (\<lambda>d. if d = 0 then 0 else min d (cfg_execution_duration cfg)) d0"
  have dd: "(case d0 of Some d \<Rightarrow> if d \<noteq> 0 then Some (min d (cfg_execution_duration cfg)) else Some d | None \<Rightarrow> None) = ?d"
    by (cases d0) auto
  have "?d = jb_execution_duration job" "out = Inr None" using assms(5) Inr by (simp_all add: new_duration_def)
  then show ?thesis using store_get_found [OF assms(1-3)] assms(4) Inr
    by (simp add: update_execution_duration_def eff_simps dd Let_def)
qed

lemma started_recorded:
  assumes "owner_of t = Some own" "good w" "jobs own w i = Some j"
  obtains w' where "uws_job_started cfg env slack t i start_time w = (Inr (), w')" "good w'"
    "jobs own w' = (jobs own w)(i \<mapsto> apply_update (en_now env w) (UpdateExecuting start_time) j)" "queue w' = queue w"
    "en_now env w' = en_now env w"
proof -
  let ?u = "UpdateExecuting start_time"
  have "update_valid ?u" "update_ok ?u" by (simp_all add: update_ok_def)
  then obtain w' where "store_update cfg env t i ?u w = (Inr (), w')" "good w'"
    "jobs own w' = (jobs own w)(i \<mapsto> apply_update (en_now env w) ?u j)" "queue w' = queue w" "en_now env w' = en_now env w"
    using store_update_found [OF assms] by blast
  then show ?thesis using that by (simp add: uws_job_started_def mark_executing_def eff_simps)
qed

lemma started_unknown:
  assumes "owner_of t = Some own" "good w" "jobs own w i = None" "simple_id i"
  shows "uws_job_started cfg env slack t i start_time w = (Inr (), w)"
  using store_update_missing [OF assms]
  by (simp add: uws_job_started_def mark_executing_def eff_simps unknown_job_error_def data_missing_error_def make_uws_error_def)

lemma reported:
  assumes "good w" "alert_formattable e"
  obtains w' where "slack_call (report_exception (en_alert env) slack e) w = (Inr (), w')" "kept env jobs good queue w w'"
proof (cases "(\<exists>n x. e = AlertIgnored n x) \<or> slack = None")
  case True
  then show ?thesis
  proof (cases "\<exists>n x. e = AlertIgnored n x")
    case True
    then show ?thesis using that [of w] assms(1) by (auto simp: report_exception_def slack_call_def eff_simps kept_def)
  next
    case False
    then have "slack_call (report_exception (en_alert env) slack e) w = (Inr (), ae_capture (en_alert env) e w)"
      using True by (cases e) (auto simp: report_exception_def slack_call_def eff_simps)
    then show ?thesis using that captured [OF assms(1)] by blast
  qed
next
  case False
  then obtain client where c: "slack = Some client" "\<nexists>n x. e = AlertIgnored n x" by auto
  let ?w = "ae_capture (en_alert env) e w"
  have k: "kept env jobs good queue w ?w" by (rule captured [OF assms(1)])
  then have g: "good ?w" by (simp add: kept_def)
  obtain p where p: "post_exception (en_alert env) client e ?w =
    (Inr (), case ae_post (en_alert env) (sc_hook_url client) p ?w of
      (Inr _, w1) \<Rightarrow> w1 | (Inl _, w1) \<Rightarrow> ae_log_error (en_alert env) ''Posting Slack message failed'' w1)"
    using post_exception_ok [OF assms(2) alert_time] by blast
  obtain r w1 where r: "ae_post (en_alert env) (sc_hook_url client) p ?w = (r, w1)"
    by (cases "ae_post (en_alert env) (sc_hook_url client) p ?w")
  have k1: "kept env jobs good queue w w1" using posted [OF g, of "sc_hook_url client" p] k r by (simp add: kept_def)
  let ?w2 = "case r of Inr _ \<Rightarrow> w1 | Inl _ \<Rightarrow> ae_log_error (en_alert env) ''Posting Slack message failed'' w1"
  have "kept env jobs good queue w ?w2"
    using k1 logged [of w1 "''Posting Slack message failed''"] by (cases r) (simp_all add: kept_def)
  moreover have "slack_call (report_exception (en_alert env) slack e) w = (Inr (), ?w2)"
    using c p r by (cases e; cases r) (simp_all add: report_exception_def slack_call_def eff_simps)
  ultimately show ?thesis using that by blast
qed

lemma annotated:
  assumes "good w" "exc_utc e"
  obtains e' w' where "annotate_worker_error env e job slack w = (Inr e', w')" "kept env jobs good queue w w'"
    "\<And>t i. mark_failed cfg env t i e' = store_update cfg env t i (UpdateError [failure_error (sj_owner job) e])"
proof (cases "\<exists>we. e = ExcWorker we")
  case True
  then obtain we where we: "e = ExcWorker we" by blast
  let ?te = "(task_from_worker_error (utc_datetime (en_now env w)) we)
     \<lparr>te_job_id := Some (sj_id job), te_started_at := Some (sj_creation_time job), se_user := Some (sj_owner job)\<rparr>"
  have f: "alert_formattable (alert_of (ExcTask ?te))"
    by (rule alert_of_formattable)
      (simp add: exc_utc_def task_from_worker_error_def utc_datetime_def Let_def split: prod.split)
  have m: "task_to_job_error ?te = failure_error (sj_owner job) e"
    by (auto simp: we failure_error_def task_to_job_error_def task_from_worker_error_def Let_def split: prod.split)
  obtain w1 where w1: "slack_call (report_exception (en_alert env) slack (alert_of (ExcTask ?te))) w = (Inr (), w1)"
    "kept env jobs good queue w w1"
    by (rule reported [OF assms(1) f])
  show ?thesis
  proof (rule that [of "ExcTask ?te" "if te_slack_ignore ?te then w else w1"])
    show "annotate_worker_error env e job slack w = (Inr (ExcTask ?te), if te_slack_ignore ?te then w else w1)"
      using w1(1) by (simp add: we annotate_worker_error_def eff_simps Let_def del: alert_of.simps)
    show "kept env jobs good queue w (if te_slack_ignore ?te then w else w1)"
      using w1(2) assms(1) by (simp add: kept_def)
  qed (simp add: mark_failed_def m)
next
  case False
  let ?e = "set_user (sj_owner job) e"
  have f: "alert_formattable (alert_of ?e)"
    by (rule alert_of_formattable) (use assms(2) in \<open>cases e; simp add: exc_utc_def set_user_def\<close>)
  obtain w1 where w1: "slack_call (report_exception (en_alert env) slack (alert_of ?e)) w = (Inr (), w1)"
    "kept env jobs good queue w w1"
    by (rule reported [OF assms(1) f])
  show ?thesis
  proof (rule that [of ?e w1])
    show "annotate_worker_error env e job slack w = (Inr ?e, w1)"
      using w1(1) False by (cases e) (simp_all add: annotate_worker_error_def eff_simps Let_def)
    show "mark_failed cfg env t i ?e = store_update cfg env t i (UpdateError [failure_error (sj_owner job) e])" for t i
      using False by (cases e) (simp_all add: mark_failed_def failure_error_def set_user_def task_to_job_error_def Let_def)
  qed (rule w1(2))
qed

lemma outcome_recorded:
  assumes "owner_of t = Some own" "good w" "jobs own w i = Some j" "read_job cfg j = Inr job"
    and "truthy (sj_message_id j)" "queue w (the (sj_message_id j)) = Some (Done r)"
    and "case r of Failed e \<Rightarrow> exc_utc e | _ \<Rightarrow> True" "outcome_update (sj_owner j) r = Some u"
  obtains w' n where "uws_job_completed (Suc fuel) cfg env slack t i w = (Some (Inr (), w'))" "good w'"
    "jobs own w' = (jobs own w)(i \<mapsto> apply_update n u j)" "queue w' = queue w"
proof -
  note f = read_job_fields [OF assms(4)]
  let ?w = "en_sleep env 500000000000 w"
  have s: "good ?w" "jobs own ?w = jobs own w" "queue ?w = queue w" using slept [OF assms(2)] by simp_all
  have "queue ?w (the (sj_message_id j)) = Some (Done r)" using s(3) assms(6) by simp
  then obtain jr where jr: "en_result env (the (sj_message_id j)) ?w = (Inr jr, ?w)" "jr_result jr = r"
    using result_ready [OF s(1)] by blast
  have p: "get_job_result (Suc fuel) env (the (sj_message_id j)) w = Some (Inr jr, ?w)"
    using jr(1) by (simp add: get_job_result_def arq_call_def Let_def)
  have u: "update_valid u" "update_ok u"
    using assms(8) by (cases r; auto simp: outcome_update_def update_ok_def)+
  have run: "uws_job_completed (Suc fuel) cfg env slack t i w
      = Some (completion_handler env slack (completed_with_result cfg env slack t i job r) ?w)"
    using store_get_found [OF assms(1-3)] assms(4,5) f p jr(2) by (simp add: uws_job_completed_def)
  show ?thesis
  proof (cases "\<exists>e. r = Failed e")
    case True
    then obtain e where e: "r = Failed e" by blast
    then have "exc_utc e" using assms(7) by simp
    then obtain e' w1 where e': "annotate_worker_error env e job slack ?w = (Inr e', w1)" "kept env jobs good queue ?w w1"
      "\<And>t i. mark_failed cfg env t i e' = store_update cfg env t i (UpdateError [failure_error (sj_owner job) e])"
      using annotated [OF s(1), of e job slack] by blast
    have k: "good w1" "jobs own w1 i = Some j" "jobs own w1 = jobs own w" "queue w1 = queue w"
      using keptD [OF e'(2)] s assms(3) by simp_all
    obtain w2 where w2: "store_update cfg env t i u w1 = (Inr (), w2)" "good w2"
      "jobs own w2 = (jobs own w1)(i \<mapsto> apply_update (en_now env w1) u j)" "queue w2 = queue w1"
      using store_update_found [OF assms(1) k(1,2) u] by blast
    have "u = UpdateError [failure_error (sj_owner j) e]" using assms(8) e by (simp add: outcome_update_def)
    then have "completed_with_result cfg env slack t i job r ?w = (Inr (), w2)"
      using e'(1,3) w2(1) f e by (simp add: completed_with_result_def eff_simps mark_completed_def)
    then show ?thesis using that [of w2 "en_now env w1"] w2 k run by (simp add: completion_handler_def eff_simps)
  next
    case False
    then obtain rs where rs: "r = Returned rs" using assms(8) by (cases r) (auto simp: outcome_update_def)
    have "jobs own ?w i = Some j" using s(2) assms(3) by simp
    from store_update_found [OF assms(1) s(1) this u]
    obtain w2 where w2: "store_update cfg env t i u ?w = (Inr (), w2)" "good w2"
      "jobs own w2 = (jobs own ?w)(i \<mapsto> apply_update (en_now env ?w) u j)" "queue w2 = queue ?w"
      by blast
    have "completed_with_result cfg env slack t i job r ?w = (Inr (), w2)"
      using w2(1) rs assms(8) by (simp add: completed_with_result_def eff_simps mark_completed_def outcome_update_def)
    then show ?thesis using that [of w2 "en_now env ?w"] w2 s run by (simp add: completion_handler_def eff_simps)
  qed
qed

text \<open>The task of an aborted job: recording its end raises, after an alert, and changes no job.\<close>

lemma cancelled_not_recorded:
  assumes "owner_of t = Some own" "good w" "jobs own w i = Some j" "read_job cfg j = Inr job"
    and "truthy (sj_message_id j)" "queue w (the (sj_message_id j)) = Some (Done Cancelled)"
  obtains w' where "uws_job_completed (Suc fuel) cfg env None t i w
      = Some (Inl (ExcOther ''TypeError'' ''CancelledError object is not iterable''), w')" "good w'"
    "jobs own w' = jobs own w" "queue w' = queue w"
proof -
  let ?w = "en_sleep env 500000000000 w"
  have s: "good ?w" "jobs own ?w = jobs own w" "queue ?w = queue w" using slept [OF assms(2)] by simp_all
  have "queue ?w (the (sj_message_id j)) = Some (Done Cancelled)" using s(3) assms(6) by simp
  then obtain jr where jr: "en_result env (the (sj_message_id j)) ?w = (Inr jr, ?w)" "jr_result jr = Cancelled"
    using result_ready [OF s(1)] by blast
  have "get_job_result (Suc fuel) env (the (sj_message_id j)) w = Some (Inr jr, ?w)"
    using jr(1) by (simp add: get_job_result_def arq_call_def Let_def)
  then have "uws_job_completed (Suc fuel) cfg env None t i w
      = Some (Inl (ExcOther ''TypeError'' ''CancelledError object is not iterable''), ?w)"
    using store_get_found [OF assms(1-3)] assms(4,5) read_job_fields [OF assms(4)] jr(2)
    by (simp add: uws_job_completed_def completion_handler_def completed_with_result_def eff_simps
        mark_completed_def alert_and_raise_def)
  then show ?thesis using that s by blast
qed

end

subsection \<open>The mock service keeps the contract\<close>

lemma make_request_select [simp]:
  "rq_url (make_request cfg meth token job_id body query) = job_url cfg job_id"
  "rq_method (make_request cfg meth token job_id body query) = meth"
  "rq_authorization (make_request cfg meth token job_id body query) = ''bearer '' @ token"
  "rq_body (make_request cfg meth token job_id body query) = body"
  "rq_params (make_request cfg meth token job_id body query) = query"
  by (simp_all add: make_request_def)

lemma route_collection:
  "wobbly_route (cfg_wobbly_url cfg) now (make_request cfg meth token None body query) wb =
     (case meth of
        GET \<Rightarrow> mock_list_jobs (make_request cfg meth token None body query) wb
      | POST \<Rightarrow> create_job now (make_request cfg meth token None body query) wb
      | _ \<Rightarrow> (Inl (ClientExc (ExcOther ''AllMockedAssertionError'' [])), wb))"
  unfolding wobbly_route_def Let_def make_request_select
  by (simp add: job_url_def base_url_def Let_def truthy_def)

lemma route_job:
  assumes "simple_id i"
  shows "wobbly_route (cfg_wobbly_url cfg) now (make_request cfg meth token (Some i) body query) wb =
     (case meth of
        GET \<Rightarrow> get_job (make_request cfg meth token (Some i) body query) i wb
      | DELETE \<Rightarrow> delete_job (make_request cfg meth token (Some i) body query) i wb
      | PATCH \<Rightarrow> update_job now (make_request cfg meth token (Some i) body query) i wb
      | _ \<Rightarrow> (Inl (ClientExc (ExcOther ''AllMockedAssertionError'' [])), wb))"
proof -
  let ?u = "py_rstrip_char (CHR ''/'') (cfg_wobbly_url cfg) @ ''/jobs''"
  have i: "i \<noteq> []" "takeWhile (\<lambda>c. c \<noteq> CHR ''/'') i = i"
    using assms by (auto simp: simple_id_def)
  have u: "job_url cfg (Some i) = (?u @ ''/'') @ i"
    using i(1) by (simp add: job_url_def base_url_def Let_def truthy_def)
  have n: "(?u @ ''/'') @ i \<noteq> ?u" using i(1) by simp
  have s: "py_startswith ((?u @ ''/'') @ i) (?u @ ''/'')" by (rule py_startswith_append)
  have p: "py_removeprefix ((?u @ ''/'') @ i) (?u @ ''/'') = i" by (rule py_removeprefix_append)
  show ?thesis
    unfolding wobbly_route_def Let_def make_request_select u p i(2) using n s i(1)
    by (simp del: append_assoc append_Cons append_Nil)
qed

lemma get_auth_make:
  "get_auth (make_request cfg meth token job_id body query) = token_owner token"
  unfolding token_owner_def by (rule get_auth_token) simp

definition owner_of_token :: "string \<Rightarrow> (string \<times> string) option" where
  "owner_of_token token = (case token_owner token of Inl _ \<Rightarrow> None | Inr own \<Rightarrow> Some own)"

lemma owner_of_token [simp]: "owner_of_token token = Some own \<longleftrightarrow> token_owner token = Inr own"
  by (auto simp: owner_of_token_def split: sum.split)

definition stored_jobs :: "string \<times> string \<Rightarrow> uws_world \<Rightarrow> string \<Rightarrow> serialized_job option" where
  "stored_jobs own w = map_of (user_jobs (uw_wobbly w) own)"

text \<open>A world the mocks keep: the jobs are well formed, and so is the queue, whose next identifiers are unused.\<close>

definition world_good :: "uws_world \<Rightarrow> bool" where
  "world_good w \<longleftrightarrow> world_inv w \<and> mock_arq_inv (uw_arq w) \<and> (\<forall>n \<ge> uw_ids w. mock_fresh (uw_arq w) (nat_str n))"

lemma nat_str_simple: "simple_id (nat_str n)"
  using nat_str_digits [of n] by (auto simp: simple_id_def list_all_iff is_digit_def)

lemma stored_job_id:
  assumes "world_good w" "stored_jobs own w i = Some j"
  shows "simple_id i \<and> sj_id j = i"
  using wobbly_inv_get [of "uw_wobbly w" own i j] assms nat_str_simple
  by (auto simp: world_good_def world_inv_def stored_jobs_def stored_ok_def)

lemma mock_fresh_init: "mock_fresh (mock_init ''arq:queue'') (nat_str n)"
proof -
  have "CHR ''a'' \<notin> set (nat_str n)" using nat_str_digits [of n] by (auto simp: list_all_iff is_digit_def)
  then have "nat_str n \<noteq> ''arq:queue''" by (metis list.set_intros(1))
  then show ?thesis by (simp add: mock_fresh_def mock_init_def mock_lookup_def mock_result_def)
qed

lemma fresh_set_job:
  assumes "q \<in> dom (ma_metadata s)" "i \<noteq> i'" "mock_fresh s i'"
  shows "mock_fresh (set_job q i m s) i'"
  using assms by (auto simp: mock_fresh_def insert_absorb)

lemma fresh_set_res:
  assumes "q \<in> dom (ma_results s)" "i \<noteq> i'" "mock_fresh s i'"
  shows "mock_fresh (set_res q i r s) i'"
  using assms by (auto simp: mock_fresh_def)

lemma fresh_not_known: "mock_fresh s i' \<Longrightarrow> mock_lookup s q i = Some m \<Longrightarrow> i \<noteq> i'"
  by (auto simp: mock_fresh_def)

definition quiet_env :: "uws_config \<Rightarrow> uws_world uws_env" where
  "quiet_env cfg = mock_env (cfg_wobbly_url cfg) (\<lambda>w. w)"

definition world_queue :: "uws_world \<Rightarrow> string \<Rightarrow> (worker_result list, exc) job_state option" where
  "world_queue w = mock_table (uw_arq w)"

lemma quiet_now [simp]: "en_now (quiet_env cfg) = uw_now"
  by (simp add: quiet_env_def mock_env_def)

lemma quiet_request:
  "en_request (quiet_env cfg) rq w = (case wobbly_route (cfg_wobbly_url cfg) (uw_now w) rq (uw_wobbly w) of
     (r, wb) \<Rightarrow> (r, w\<lparr>uw_wobbly := wb\<rparr>))"
  by (simp add: quiet_env_def mock_env_def Let_def)

lemma world_good_jobs:
  assumes "world_good w" "wobbly_route url (uw_now w) rq (uw_wobbly w) = (r, wb)" "sent_by token rq"
  shows "world_good (w\<lparr>uw_wobbly := wb\<rparr>)"
  using assms route_inv [OF assms(2) _ assms(3)] by (simp add: world_good_def world_inv_def)

lemma same_wobbly: "w\<lparr>uw_wobbly := uw_wobbly w\<rparr> = w"
  by simp

lemma sent_by_plain: "sent_by token (make_request cfg meth token job_id None query)"
  by (simp add: sent_by_def)

lemma fresh_job_id:
  assumes "world_good w"
  shows "stored_jobs own w (nat_str (wb_next_id (uw_wobbly w))) = None"
proof (rule ccontr)
  assume "\<not> ?thesis"
  then obtain j where "map_of (user_jobs (uw_wobbly w) own) (nat_str (wb_next_id (uw_wobbly w))) = Some j"
    by (auto simp: stored_jobs_def)
  from wobbly_inv_get [OF _ this] assms show False
    by (auto simp: world_good_def world_inv_def stored_ok_def nat_str_inj)
qed

lemma stored_jobs_set:
  "stored_jobs own (w\<lparr>uw_wobbly := set_user_jobs own al wb\<rparr>) = map_of al"
  by (simp add: stored_jobs_def)

interpretation quiet: job_backend cfg "quiet_env cfg" owner_of_token stored_jobs world_good world_queue for cfg
proof
  fix w own i j
  assume "world_good w" "stored_jobs own w i = Some j"
  then show "simple_id i \<and> sj_id j = i" by (rule stored_job_id)
next
  fix w t own i and j :: serialized_job
  assume a: "owner_of_token t = Some own" "world_good w" "stored_jobs own w i = Some j"
  note i = stored_job_id [OF a(2,3)] and j = a(3) [unfolded stored_jobs_def]
  show "answered w 200 (WobJob (wire_job j)) (en_request (quiet_env cfg) (make_request cfg GET t (Some i) None []) w)"
    using a(1) i j by (simp add: quiet_request route_job get_job_def get_auth_make respond_def answered_def)
next
  fix w t own i
  assume a: "owner_of_token t = Some own" "world_good w" "stored_jobs own w i = None" "simple_id i"
  note j = a(3) [unfolded stored_jobs_def]
  show "answered w 404 WobNone (en_request (quiet_env cfg) (make_request cfg GET t (Some i) None []) w)"
    using a(1,4) j by (simp add: quiet_request route_job get_job_def get_auth_make respond_def answered_def)
next
  fix w t own i and j :: serialized_job and u
  assume a: "owner_of_token t = Some own" "world_good w" "stored_jobs own w i = Some j" "update_valid u" "update_ok u"
  note i = stored_job_id [OF a(2,3)] and j = a(3) [unfolded stored_jobs_def]
  let ?rq = "make_request cfg PATCH t (Some i) (Some (BodyUpdate u)) []"
  let ?j = "apply_update (uw_now w) u j"
  let ?wb = "set_user_jobs own (AList.update i ?j (user_jobs (uw_wobbly w) own)) (uw_wobbly w)"
  let ?r = "\<lparr>rp_status = 200, rp_json = WobJob (wire_job ?j), rp_text = [], rp_url = job_url cfg (Some i)\<rparr>"
  have r: "wobbly_route (cfg_wobbly_url cfg) (uw_now w) ?rq (uw_wobbly w) = (Inr ?r, ?wb)"
    using a(1,4) i j by (simp add: route_job update_job_def get_auth_make respond_def Let_def)
  have "sent_by t ?rq" using a(5) by (simp add: sent_by_def)
  from world_good_jobs [OF a(2) r this]
  show "\<exists>w' js. answered w' 200 js (en_request (quiet_env cfg) ?rq w) \<and> world_good w' \<and>
      stored_jobs own w' = (stored_jobs own w)(i \<mapsto> apply_update (en_now (quiet_env cfg) w) u j) \<and>
      world_queue w' = world_queue w \<and> en_now (quiet_env cfg) w' = en_now (quiet_env cfg) w"
    using r by (intro exI [of _ "w\<lparr>uw_wobbly := ?wb\<rparr>"] exI [of _ "WobJob (wire_job ?j)"])
      (simp add: quiet_request answered_def stored_jobs_def map_of_update world_queue_def)
next
  fix w t own i u
  assume a: "owner_of_token t = Some own" "world_good w" "stored_jobs own w i = None" "simple_id i"
  note j = a(3) [unfolded stored_jobs_def]
  show "answered w 404 WobNone (en_request (quiet_env cfg) (make_request cfg PATCH t (Some i) (Some (BodyUpdate u)) []) w)"
    using a(1,4) j by (simp add: quiet_request route_job update_job_def get_auth_make respond_def answered_def)
next
  fix w t own i and j :: serialized_job
  assume a: "owner_of_token t = Some own" "world_good w" "stored_jobs own w i = Some j"
  note i = stored_job_id [OF a(2,3)] and j = a(3) [unfolded stored_jobs_def]
  let ?rq = "make_request cfg DELETE t (Some i) None []"
  let ?wb = "set_user_jobs own (AList.delete i (user_jobs (uw_wobbly w) own)) (uw_wobbly w)"
  let ?r = "\<lparr>rp_status = 204, rp_json = WobNone, rp_text = [], rp_url = job_url cfg (Some i)\<rparr>"
  have "i \<in> fst ` set (user_jobs (uw_wobbly w) own)" using map_of_SomeD [OF j] by force
  then have r: "wobbly_route (cfg_wobbly_url cfg) (uw_now w) ?rq (uw_wobbly w) = (Inr ?r, ?wb)"
    using a(1) i by (simp add: route_job delete_job_def get_auth_make respond_def)
  from world_good_jobs [OF a(2) r sent_by_plain]
  show "\<exists>w'. answered w' 204 WobNone (en_request (quiet_env cfg) ?rq w) \<and> world_good w' \<and>
      stored_jobs own w' = (stored_jobs own w)(i := None) \<and>
      world_queue w' = world_queue w \<and> en_now (quiet_env cfg) w' = en_now (quiet_env cfg) w"
    using r by (intro exI [of _ "w\<lparr>uw_wobbly := ?wb\<rparr>"])
      (simp add: quiet_request answered_def stored_jobs_def map_of_delete_eq world_queue_def)
next
  fix w t own b
  assume a: "owner_of_token t = Some own" "world_good w"
  let ?i = "nat_str (wb_next_id (uw_wobbly w))"
  let ?j = "new_job (uw_now w) (fst own) (snd own) ?i b"
  let ?rq = "make_request cfg POST t None (Some (BodyCreate b)) []"
  let ?wb = "set_user_jobs own (AList.update ?i ?j (user_jobs (uw_wobbly w) own))
      ((uw_wobbly w)\<lparr>wb_next_id := wb_next_id (uw_wobbly w) + 1\<rparr>)"
  let ?r = "\<lparr>rp_status = 201, rp_json = WobJob (wire_job ?j), rp_text = [], rp_url = job_url cfg None\<rparr>"
  have r: "wobbly_route (cfg_wobbly_url cfg) (uw_now w) ?rq (uw_wobbly w) = (Inr ?r, ?wb)"
    using a(1) by (cases own) (simp add: route_collection create_job_def get_auth_make respond_def Let_def)
  have "sent_by t ?rq" by (simp add: sent_by_def)
  from world_good_jobs [OF a(2) r this] fresh_job_id [OF a(2)]
  show "\<exists>w' i. let j = new_job (en_now (quiet_env cfg) w) (fst own) (snd own) i b in
      answered w' 201 (WobJob (wire_job j)) (en_request (quiet_env cfg) ?rq w) \<and> world_good w' \<and> simple_id i \<and>
      stored_jobs own w i = None \<and> stored_jobs own w' = (stored_jobs own w)(i \<mapsto> j) \<and>
      world_queue w' = world_queue w \<and> en_now (quiet_env cfg) w' = en_now (quiet_env cfg) w"
    using r nat_str_simple by (intro exI [of _ "w\<lparr>uw_wobbly := ?wb\<rparr>"] exI [of _ ?i])
      (simp add: quiet_request answered_def stored_jobs_def map_of_update world_queue_def Let_def)
qed

lemma world_good_arq:
  assumes "world_good w" "mock_arq_inv a" "\<And>n. uw_ids w \<le> n \<Longrightarrow> mock_fresh a (nat_str n)"
  shows "world_good (w\<lparr>uw_arq := a\<rparr>)"
  using assms by (simp add: world_good_def)

text \<open>The operations on the queue keep the unused identifiers unused.\<close>

lemma enqueue_fresh:
  assumes "mock_arq_inv a" "mock_enqueue i now task args None [] a = (Inr m, a')" "i \<noteq> i'" "mock_fresh a i'"
  shows "mock_fresh a' i'"
proof -
  have "\<exists>m. a' = set_job (ma_default a) i (Some m) a"
    using mock_enqueue_eq [OF mock_arq_invD(1) [OF assms(1)], of i now task args "[]"] assms(2) by auto
  then show ?thesis using fresh_set_job [OF mock_arq_invD(1) [OF assms(1)] assms(3,4)] by auto
qed

lemma abort_fresh:
  assumes "mock_arq_inv a" "mock_abort_job now i None a = (r, a')" "mock_fresh a i'"
  shows "mock_fresh a' i'"
proof (cases "mock_lookup a (ma_default a) i")
  case None
  then show ?thesis using assms(2,3) by (auto simp: mock_abort_job_def Let_def)
next
  case (Some m)
  then have n: "i \<noteq> i'" using fresh_not_known [OF assms(3)] by blast
  note d = mock_arq_invD(1,2) [OF assms(1)]
  have "mock_fresh (set_job (ma_default a) i x a) i'" for x
    by (rule fresh_set_job [OF d(1) n assms(3)])
  moreover have "mock_fresh (set_res (ma_default a) i y (set_job (ma_default a) i x a)) i'" for x y
    by (rule fresh_set_res) (use d n fresh_set_job [OF d(1) n assms(3)] in simp_all)
  ultimately show ?thesis using mock_abort_eq [OF assms(1) Some, of now] assms(2,3)
    by (auto split: job_status.splits)
qed

lemma started_fresh:
  assumes "mock_arq_inv a" "mock_set_in_progress i None a = (r, a')" "mock_fresh a i'"
  shows "mock_fresh a' i'"
proof (cases "mock_lookup a (ma_default a) i")
  case None
  then show ?thesis using assms(2,3) by (auto simp: mock_set_in_progress_def mock_get_job_metadata_def eff_simps)
next
  case (Some m)
  then have n: "i \<noteq> i'" using fresh_not_known [OF assms(3)] by blast
  show ?thesis using mock_started_eq [OF assms(1) Some] assms(2)
    fresh_set_job [OF mock_arq_invD(1) [OF assms(1)] n assms(3)] by auto
qed

lemma completed_fresh:
  assumes "mock_arq_inv a" "mock_set_complete now i res success None a = (r, a')" "mock_fresh a i'"
  shows "mock_fresh a' i'"
proof (cases "mock_lookup a (ma_default a) i")
  case None
  then show ?thesis using assms(2,3) by (auto simp: mock_set_complete_def mock_get_job_metadata_def eff_simps)
next
  case (Some m)
  then have n: "i \<noteq> i'" using fresh_not_known [OF assms(3)] by blast
  note d = mock_arq_invD(1,2) [OF assms(1)]
  have "mock_fresh (set_res (ma_default a) i y (set_job (ma_default a) i x a)) i'" for x y
    by (rule fresh_set_res) (use d n fresh_set_job [OF d(1) n assms(3)] in simp_all)
  then show ?thesis using mock_completed_eq [OF assms(1) Some, of now res success] assms(2) by auto
qed

interpretation quiet: uws_backend cfg "quiet_env cfg" owner_of_token stored_jobs world_good world_queue for cfg
proof
  fix w task and args :: "arq_arg list" and own
  assume g: "world_good w"
  then have a: "mock_arq_inv (uw_arq w)" "mock_fresh (uw_arq w) (nat_str (uw_ids w))" by (simp_all add: world_good_def)
  obtain m a' where m: "mock_enqueue (nat_str (uw_ids w)) (uw_now w) task args None [] (uw_arq w) = (Inr m, a')"
    "jm_id m = nat_str (uw_ids w)" "jm_name m = task" "jm_args m = args" "jm_status m = Queued"
    "mock_arq_inv a'" "mock_table a' = (mock_table (uw_arq w))(nat_str (uw_ids w) \<mapsto> Waiting)"
    using mq.enqueue_law [OF a] by blast
  let ?w = "w\<lparr>uw_ids := uw_ids w + 1, uw_arq := a'\<rparr>"
  have "world_good ?w"
    using g m(6) enqueue_fresh [OF a(1) m(1)] by (auto simp: world_good_def world_inv_def nat_str_inj)
  moreover have "en_enqueue (quiet_env cfg) task args w = (Inr m, ?w)"
    using m(1) by (simp add: quiet_env_def mock_env_def Let_def on_arq_def)
  moreover have "world_queue w (nat_str (uw_ids w)) = None"
    using mq.fresh_table [OF a] by (simp add: world_queue_def)
  ultimately show "\<exists>m w'. en_enqueue (quiet_env cfg) task args w = (Inr m, w') \<and> jm_id m \<noteq> [] \<and> jm_name m = task \<and>
      jm_args m = args \<and> jm_status m = Queued \<and> world_queue w (jm_id m) = None \<and>
      world_queue w' = (world_queue w)(jm_id m \<mapsto> Waiting) \<and> world_good w' \<and> stored_jobs own w' = stored_jobs own w \<and>
      en_now (quiet_env cfg) w' = en_now (quiet_env cfg) w"
    using m by (intro exI [of _ m] exI [of _ ?w]) (simp add: world_queue_def stored_jobs_def)
next
  fix w i timeout own
  assume g: "world_good w"
  then have a: "mock_arq_inv (uw_arq w)" by (simp add: world_good_def)
  obtain b a' where ab: "mock_abort_job (uw_now w) i None (uw_arq w) = (Inr b, a')" "mock_arq_inv a'"
    "b = (world_queue w i = Some Waiting \<or> world_queue w i = Some Running)"
    "mock_table a' = (mock_table (uw_arq w))(i := Option.bind (mock_table (uw_arq w) i) aborted_state)"
  proof (cases "mock_table (uw_arq w) i")
    case None
    then show ?thesis using mq.abort_none [OF a None, of "uw_now w"] that [of False "uw_arq w"] a
      by (simp add: world_queue_def fun_upd_idem)
  next
    case (Some j)
    from mq.abort_some [OF a Some, of "uw_now w"] that Some show ?thesis
      by (cases j) (auto simp: world_queue_def)
  qed
  have "world_good (w\<lparr>uw_arq := a'\<rparr>)"
    by (rule world_good_arq [OF g ab(2)]) (use abort_fresh [OF a ab(1)] g in \<open>simp add: world_good_def\<close>)
  moreover have "en_abort (quiet_env cfg) i timeout w = (Inr b, w\<lparr>uw_arq := a'\<rparr>)"
    using ab(1) by (simp add: quiet_env_def mock_env_def Let_def on_arq_def)
  ultimately show "\<exists>w'. en_abort (quiet_env cfg) i timeout w =
        (Inr (world_queue w i = Some Waiting \<or> world_queue w i = Some Running), w') \<and>
      world_queue w' = (world_queue w)(i := Option.bind (world_queue w i) aborted_state) \<and>
      world_good w' \<and> stored_jobs own w' = stored_jobs own w \<and> en_now (quiet_env cfg) w' = en_now (quiet_env cfg) w"
    using ab(3,4) by (intro exI [of _ "w\<lparr>uw_arq := a'\<rparr>"]) (simp add: world_queue_def stored_jobs_def)
next
  fix w i r
  assume "world_good w" "world_queue w i = Some (Done r)"
  then show "\<exists>jr. en_result (quiet_env cfg) i w = (Inr jr, w) \<and> jr_result jr = r"
    using mq.result_done [of "uw_arq w" i r]
    by (auto simp: quiet_env_def mock_env_def Let_def on_arq_def world_good_def world_queue_def)
qed (auto simp: quiet_env_def mock_env_def mock_alert_env_def kept_def world_good_def world_inv_def world_queue_def
  stored_jobs_def utc_datetime_def Let_def)

end
