(* ===== verification/UWSWorld.thy ===== *)
theory UWSWorld
  imports UWSBackend
begin

text \<open>
  The whole UWS layer on its mocks: the route table as one dispatch function, and the worlds
  reachable by any sequence of requests of any users, worker messages and queue progress.
\<close>

subsection \<open>The routes\<close>

datatype uws_call =
    GetJobList "execution_phase list option" "py_datetime option" "int option"
  | GetJob string "int option" "execution_phase option"
  | DeleteJob string
  | DeleteJobViaPost string "string option"
  | GetDestruction string
  | PostDestruction string string
  | GetError string
  | GetExecutionDuration string
  | PostExecutionDuration string int
  | GetOwner string
  | GetParameters string
  | GetPhase string
  | PostPhase string "string option"
  | GetQuote string
  | GetResults string
  | GetAvailability
  | CreateJob params "string option" "string option" "string option"
  | PostSync params "string option"
  | GetSync params "string option"

fun run_call ::
  "uws_config \<Rightarrow> 'w uws_env \<Rightarrow> route_urls \<Rightarrow> (string \<Rightarrow> string option \<Rightarrow> exc + string) \<Rightarrow> string \<Rightarrow> string
     \<Rightarrow> uws_call \<Rightarrow> ('w, exc, uws_response) eff" where
  "run_call cfg env urls sign token user (GetJobList phase after count) = get_job_list cfg env urls token phase after count"
| "run_call cfg env urls sign token user (GetJob i wait phase) =
     get_job_handler cfg env (\<lambda>u m. lift_eff (sign u m)) token i wait phase"
| "run_call cfg env urls sign token user (DeleteJob i) = delete_job_handler cfg env urls token i"
| "run_call cfg env urls sign token user (DeleteJobViaPost i action) = delete_job_via_post cfg env urls token i action"
| "run_call cfg env urls sign token user (GetDestruction i) = get_job_destruction cfg env token i"
| "run_call cfg env urls sign token user (PostDestruction i t) = post_job_destruction cfg env urls token i t"
| "run_call cfg env urls sign token user (GetError i) = get_job_error cfg env token i"
| "run_call cfg env urls sign token user (GetExecutionDuration i) = get_job_execution_duration cfg env token i"
| "run_call cfg env urls sign token user (PostExecutionDuration i s) = post_job_execution_duration cfg env urls token i s"
| "run_call cfg env urls sign token user (GetOwner i) = get_job_owner cfg env token i"
| "run_call cfg env urls sign token user (GetParameters i) = get_job_parameters cfg env token i"
| "run_call cfg env urls sign token user (GetPhase i) = get_job_phase cfg env token i"
| "run_call cfg env urls sign token user (PostPhase i ph) = post_job_phase cfg env urls token user i ph"
| "run_call cfg env urls sign token user (GetQuote i) = get_job_quote cfg env token i"
| "run_call cfg env urls sign token user (GetResults i) = get_job_results cfg env (\<lambda>u m. lift_eff (sign u m)) token i"
| "run_call cfg env urls sign token user GetAvailability = get_availability"
| "run_call cfg env urls sign token user (CreateJob p runid gp pp) = create_job_handler cfg env urls token user p runid gp pp"
| "run_call cfg env urls sign token user (PostSync p runid) = post_sync cfg env (\<lambda>u m. lift_eff (sign u m)) token user p runid"
| "run_call cfg env urls sign token user (GetSync p runid) = get_sync cfg env (\<lambda>u m. lift_eff (sign u m)) token user p runid"


lemma run_call_keeps:
  assumes "world_invariant env I token"
  shows "preserves I (run_call cfg env urls sign token user call)"
proof -
  have s: "\<And>u m. preserves I (lift_eff (sign u m))" by (rule preserves_lift)
  show ?thesis
    by (cases call)
      (simp_all add: world_invariant.handlers_keep [OF assms s] get_availability_def preserves_ret)
qed

subsection \<open>The reachable worlds\<close>

text \<open>
  One step: a request of any user, a message to the UWS workers, progress of the queue's own
  worker, or time passing.
\<close>

inductive uws_step ::
  "uws_config \<Rightarrow> uws_world uws_env \<Rightarrow> route_urls \<Rightarrow> (string \<Rightarrow> string option \<Rightarrow> exc + string) \<Rightarrow> slack_client option
     \<Rightarrow> uws_world \<Rightarrow> uws_world \<Rightarrow> bool"
  for cfg env urls sign slack where
  request: "run_call cfg env urls sign token user call w = (r, w') \<Longrightarrow> uws_step cfg env urls sign slack w w'"
| started: "uws_job_started cfg env slack token i t w = (r, w') \<Longrightarrow> uws_step cfg env urls sign slack w w'"
| completed: "uws_job_completed fuel cfg env slack token i w = Some (r, w') \<Longrightarrow> uws_step cfg env urls sign slack w w'"
| queue_started: "on_arq (mock_set_in_progress i None) w = (r, w') \<Longrightarrow> uws_step cfg env urls sign slack w w'"
| queue_completed: "on_arq (mock_set_complete (uw_now w) i outcome success None) w = (r, w')
    \<Longrightarrow> uws_step cfg env urls sign slack w w'"
| tick: "0 \<le> d \<Longrightarrow> uws_step cfg env urls sign slack w (w\<lparr>uw_now := uw_now w + d\<rparr>)"

inductive_cases uws_stepE: "uws_step cfg env urls sign slack w w'"

inductive uws_reach ::
  "uws_config \<Rightarrow> uws_world uws_env \<Rightarrow> route_urls \<Rightarrow> (string \<Rightarrow> string option \<Rightarrow> exc + string) \<Rightarrow> slack_client option
     \<Rightarrow> uws_world \<Rightarrow> bool"
  for cfg env urls sign slack where
  init: "uws_reach cfg env urls sign slack (world_init now)"
| step: "uws_reach cfg env urls sign slack w \<Longrightarrow> uws_step cfg env urls sign slack w w' \<Longrightarrow> uws_reach cfg env urls sign slack w'"

lemma uws_step_keeps:
  assumes "\<And>token. world_invariant env I token"
    and "\<And>w i. I w \<Longrightarrow> I (snd (on_arq (mock_set_in_progress i None) w))"
      "\<And>w i r s. I w \<Longrightarrow> I (snd (on_arq (mock_set_complete (uw_now w) i r s None) w))"
      "\<And>w n. I (w\<lparr>uw_now := n\<rparr>) = I w"
    and "uws_step cfg env urls sign slack w w'" "I w"
  shows "I w'"
  using assms(5)
proof (cases rule: uws_step.cases)
  case (request token user call r)
  show ?thesis by (rule preservesD [OF run_call_keeps [OF assms(1)] assms(6) request])
next
  case (started token i t r)
  show ?thesis by (rule preservesD [OF world_invariant.uws_job_started_keeps [OF assms(1)] assms(6) started])
next
  case (completed fuel token i r)
  show ?thesis by (rule world_invariant.uws_job_completed_keeps [OF assms(1) assms(6) completed])
next
  case (queue_started i r)
  then show ?thesis using assms(2) [OF assms(6), of i] by simp
next
  case (queue_completed i outcome success r)
  then show ?thesis using assms(3) [OF assms(6), of i outcome success] by simp
next
  case (tick d)
  then show ?thesis using assms(4,6) by simp
qed

lemma uws_reach_inv:
  assumes bg: "\<And>w. world_inv w \<Longrightarrow> world_inv (bg w)"
    and "uws_reach cfg (mock_env url bg) urls sign slack w"
  shows "world_inv w"
  using assms(2)
proof (induction rule: uws_reach.induct)
  case (init now)
  then show ?case by (simp add: world_inv_def world_init_def wobbly_init_inv)
next
  case (step w w')
  show ?case
    by (rule uws_step_keeps [OF world_inv_keeps [OF bg] _ _ _ step.hyps(2) step.IH])
      (simp_all add: on_arq_keeps)
qed

text \<open> C2. In every world reachable by any sequence of requests of any users, worker messages and
  queue progress, with any well-behaved activity of other tasks at each \<open>await\<close>, each stored
  job is kept under its identifier by its service and owner, and its record fits its phase: an
  executing job has a start time, a completed one an end time, a failed one an end time and an
  error, a queued one a message. \<close>
theorem uws_jobs_wellformed:
  assumes "\<And>w. world_inv w \<Longrightarrow> world_inv (bg w)"
    and "uws_reach cfg (mock_env url bg) urls sign slack w"
    and "map_of (user_jobs (uw_wobbly w) owner) i = Some j"
  shows "job_wf j \<and> sj_id j = i \<and> (sj_service j, sj_owner j) = owner"
  using wobbly_inv_get [of "uw_wobbly w" owner i j] uws_reach_inv [OF assms(1,2)] assms(3)
  by (simp add: world_inv_def stored_ok_def)

text \<open>A configuration for concrete runs: any parameters, passed to the worker as they are.\<close>

definition demo_cfg :: uws_config where
  "demo_cfg =
     \<lparr>cfg_arq_mode = TestMode,
      cfg_arq_redis_settings = \<lparr>rs_host = ''localhost'', rs_port = 6379, rs_database = 0, rs_password = None\<rparr>,
      cfg_async_post_route = \<lparr>rt_summary = ''Create'', rt_description = None\<rparr>,
      cfg_execution_duration = 600000000, cfg_lifetime = 604800000000, cfg_parse_parameters = Some,
      cfg_worker_parameters = Inr, cfg_parameters_xml = (\<lambda>p. p), cfg_signing_service_account = ''sa'',
      cfg_wobbly_url = ''https://wobbly/'', cfg_worker = ''cutout'', cfg_slack_webhook = None,
      cfg_sync_get_route = None, cfg_sync_post_route = None, cfg_sync_timeout = 60000000,
      cfg_url_lifetime = 900000000, cfg_validate_destruction = None,
      cfg_validate_execution_duration = None, cfg_wait_timeout = 60000000\<rparr>"

definition demo_urls :: route_urls where
  "demo_urls = \<lparr>url_job_list = ''https://svc/jobs'', url_job = (\<lambda>i. ''https://svc/jobs/'' @ i)\<rparr>"

definition demo_env :: "uws_world uws_env" where
  "demo_env = mock_env ''https://wobbly/'' (\<lambda>w. w)"

definition demo_call :: "string \<Rightarrow> uws_call \<Rightarrow> uws_world \<Rightarrow> (exc + uws_response) \<times> uws_world" where
  "demo_call user call w =
     run_call demo_cfg demo_env demo_urls (\<lambda>u _. Inr u) (make_token ''svc'' user) user call w"

lemma demo_token: "token_owner (make_token ''svc'' ''ann'') = Inr (''svc'', ''ann'')"
  by (rule token_owner_make_token) (simp_all add: py_space_def)

lemma world_init_good: "world_good (world_init now)"
  by (simp add: world_good_def world_inv_def world_init_def wobbly_init_inv mock_init_inv mock_fresh_init)

text \<open>A user creates a job and has it run: it is stored and queued.\<close>

lemma demo_queued:
  obtains i j w where "demo_call ''ann'' (CreateJob [(''id'', JInt 1)] None (Some ''RUN'') None) (world_init 63897638399500000)
      = (Inr (Redirect (url_job demo_urls i)), w)"
    "stored_jobs (''svc'', ''ann'') w i = Some j" "sj_phase j = QUEUED" "simple_id i"
proof -
  let ?w = "world_init 63897638399500000" and ?own = "(''svc'', ''ann'')" and ?t = "make_token ''svc'' ''ann''"
  have t: "owner_of_token ?t = Some ?own" by (simp add: demo_token)
  note g = world_init_good [of 63897638399500000]
  obtain w1 i where w1: "create demo_cfg (quiet_env demo_cfg) ?t [(''id'', JInt 1)] None ?w
      = (read_job demo_cfg (stored_on_create demo_cfg (uw_now ?w) ?own i None [(''id'', JInt 1)]), w1)"
    "world_good w1" "simple_id i"
    "stored_jobs ?own w1 = (stored_jobs ?own ?w)(i \<mapsto> stored_on_create demo_cfg (uw_now ?w) ?own i None [(''id'', JInt 1)])"
    by (rule quiet.store_created [OF t g, of demo_cfg "[(''id'', JInt 1)]" None]) simp
  let ?j = "stored_on_create demo_cfg (uw_now ?w) ?own i None [(''id'', JInt 1)]"
  obtain job where job: "read_job demo_cfg ?j = Inr job" "sj_id job = i" "job_parameters job = [(''id'', JInt 1)]"
    by (simp add: read_job_def from_serialized_job_def stored_on_create_def new_job_def wire_job_def demo_cfg_def)
  have j: "stored_jobs ?own w1 i = Some ?j" using w1(4) by simp
  have p: "sj_phase ?j = PENDING \<or> sj_phase ?j = HELD" by (simp add: stored_on_create_def new_job_def)
  have wp: "cfg_worker_parameters demo_cfg (job_parameters job) = Inr [(''id'', JInt 1)]"
    using job(3) by (simp add: demo_cfg_def)
  from quiet.started_outcome [OF t w1(2) j job(1) p wp, of "''ann''"]
  obtain m w2 where w2: "start demo_cfg (quiet_env demo_cfg) ?t ''ann'' i w1 = (Inr m, w2)"
    "stored_jobs ?own w2 = (stored_jobs ?own w1)(i \<mapsto> ?j\<lparr>sj_message_id := Some (jm_id m), sj_phase := QUEUED\<rparr>)"
    by blast
  have e: "demo_env = quiet_env demo_cfg" by (simp add: demo_env_def quiet_env_def demo_cfg_def)
  have "demo_call ''ann'' (CreateJob [(''id'', JInt 1)] None (Some ''RUN'') None) ?w = (Inr (Redirect (url_job demo_urls i)), w2)"
    using w1(1) w2(1) job(1,2)
    by (simp add: demo_call_def e create_job_handler_def create_phase_dependency_def truthy_def eff_simps)
  then show ?thesis using that w2(2) w1(3) by simp
qed

theorem uws_jobs_wellformed_witness:
  "\<exists>w i j. uws_reach demo_cfg (mock_env ''https://wobbly/'' (\<lambda>w. w)) demo_urls (\<lambda>u _. Inr u) None w \<and>
     map_of (user_jobs (uw_wobbly w) (''svc'', ''ann'')) i = Some j \<and> job_wf j \<and> sj_phase j = QUEUED"
proof -
  let ?e = "mock_env ''https://wobbly/'' (\<lambda>w. w)"
  obtain i j w where w: "demo_call ''ann'' (CreateJob [(''id'', JInt 1)] None (Some ''RUN'') None) (world_init 63897638399500000)
      = (Inr (Redirect (url_job demo_urls i)), w)"
    "stored_jobs (''svc'', ''ann'') w i = Some j" "sj_phase j = QUEUED" by (rule demo_queued)
  have r: "uws_reach demo_cfg ?e demo_urls (\<lambda>u _. Inr u) None w"
    by (rule uws_reach.step [OF uws_reach.init uws_step.request [OF w(1) [unfolded demo_call_def demo_env_def]]])
  have j: "map_of (user_jobs (uw_wobbly w) (''svc'', ''ann'')) i = Some j" using w(2) by (simp add: stored_jobs_def)
  from uws_jobs_wellformed [OF _ r j] w(3) r j show ?thesis by blast
qed

text \<open> C1. No request touches another user's jobs: whatever route is called with a token, with
  whatever parameters and outcome, the stored jobs of every other owner are what they were,
  provided the other tasks that run at its \<open>await\<close>s leave them alone. \<close>
theorem uws_user_isolation:
  assumes "token_owner token = Inr owner" "owner' \<noteq> owner"
    and "\<And>w. user_jobs (uw_wobbly (bg w)) owner' = user_jobs (uw_wobbly w) owner'"
    and "run_call cfg (mock_env url bg) urls sign token user call w = (r, w')"
  shows "user_jobs (uw_wobbly w') owner' = user_jobs (uw_wobbly w) owner'"
proof -
  let ?I = "\<lambda>w1. user_jobs (uw_wobbly w1) owner' = user_jobs (uw_wobbly w) owner'"
  have "world_invariant (mock_env url bg) ?I token"
  proof (rule mock_world_keeps [where I = ?I])
    fix rq w1 r1 wb
    assume rq: "sent_by token rq" "?I w1" "wobbly_route url (uw_now w1) rq (uw_wobbly w1) = (r1, wb)"
    have "user_jobs wb owner' = user_jobs (uw_wobbly w1) owner'"
      by (rule route_isolated [OF rq(3)]) (use sent_by_auth [OF rq(1)] assms(1,2) in simp)
    then show "?I (w1\<lparr>uw_wobbly := wb\<rparr>)" using rq(2) by simp
  qed (use assms(3) in simp_all)
  from preservesD [OF run_call_keeps [OF this] _ assms(4)] show ?thesis by simp
qed

theorem uws_user_isolation_witness:
  "\<exists>w i j. stored_jobs (''svc'', ''ann'') w i = Some j \<and>
     (\<exists>r w'. demo_call ''bob'' (DeleteJob i) w = (r, w') \<and>
       user_jobs (uw_wobbly w') (''svc'', ''ann'') = user_jobs (uw_wobbly w) (''svc'', ''ann''))"
proof -
  have t: "token_owner (make_token ''svc'' ''bob'') = Inr (''svc'', ''bob'')"
    by (rule token_owner_make_token) (simp_all add: py_space_def)
  obtain i j w where w: "stored_jobs (''svc'', ''ann'') w i = Some j" by (rule demo_queued)
  obtain r w' where r: "demo_call ''bob'' (DeleteJob i) w = (r, w')" by (cases "demo_call ''bob'' (DeleteJob i) w")
  have "user_jobs (uw_wobbly w') (''svc'', ''ann'') = user_jobs (uw_wobbly w) (''svc'', ''ann'')"
    by (rule uws_user_isolation [OF t _ _ r [unfolded demo_call_def demo_env_def]]) simp_all
  then show ?thesis using w r by blast
qed

end
