(* ===== verification/UWSLifecycle.thy ===== *)
theory UWSLifecycle
  imports UWSWorld
begin

text \<open>
  What the operations of the UWS service do to a user's jobs and to the queue, proved against
  the contract of \<open>UWSBackend\<close> and stated here for its interpretation, in which nothing else
  happens at an \<open>await\<close>; and how they compose into the life of a job.
\<close>

subsection \<open>Operations on a job\<close>

text \<open> C4. Starting a job: only a pending or held job can be started, any other one gives an invalid
  phase error and changes nothing; a started one is in the queue exactly once, under a new
  identifier and with the converted parameters and the job's information as arguments, and the
  stored job is queued under that identifier, with everything else of it and every other job
  as it was. \<close>
theorem uws_start_outcome:
  assumes "token_owner token = Inr own" "world_good w"
    and "stored_jobs own w i = Some j" "read_job cfg j = Inr job"
  shows "if sj_phase j \<notin> {PENDING, HELD} then
      start cfg (quiet_env cfg) token user i w = (Inl (invalid_phase (quiet_env cfg) (sj_phase j)), w)
    else case cfg_worker_parameters cfg (job_parameters job) of
      Inl e \<Rightarrow> start cfg (quiet_env cfg) token user i w = (Inl e, w)
    | Inr p \<Rightarrow> \<exists>m w'. start cfg (quiet_env cfg) token user i w = (Inr m, w') \<and> jm_name m = cfg_worker cfg \<and>
        jm_args m = [ArgParams p, ArgInfo \<lparr>wj_job_id = i, wj_user = user, wj_token = token,
          wj_timeout = (case jb_execution_duration job of None \<Rightarrow> cfg_lifetime cfg
            | Some d \<Rightarrow> if d = 0 then cfg_lifetime cfg else d), wj_run_id = jb_run_id j\<rparr>] \<and>
        world_queue w (jm_id m) = None \<and> world_queue w' = (world_queue w)(jm_id m \<mapsto> Waiting) \<and>
        stored_jobs own w' = (stored_jobs own w)(i \<mapsto> j\<lparr>sj_message_id := Some (jm_id m), sj_phase := QUEUED\<rparr>)"
proof -
  have t: "owner_of_token token = Some own" using assms(1) by simp
  show ?thesis
  proof (cases "sj_phase j \<in> {PENDING, HELD}")
    case False
    then show ?thesis using quiet.start_refused [OF t assms(2-4), of user] by simp
  next
    case True
    show ?thesis
    proof (cases "cfg_worker_parameters cfg (job_parameters job)")
      case (Inl e)
      then show ?thesis using quiet.start_bad_parameters [OF t assms(2-4) _ Inl, of user] True by simp
    next
      case (Inr p)
      have "sj_phase j = PENDING \<or> sj_phase j = HELD" using True by simp
      then obtain m w' where m: "start cfg (quiet_env cfg) token user i w = (Inr m, w')" "world_good w'"
        "jm_name m = cfg_worker cfg" "jm_id m \<noteq> []" "world_queue w (jm_id m) = None"
        "jm_args m = [ArgParams p, ArgInfo \<lparr>wj_job_id = i, wj_user = user, wj_token = token,
          wj_timeout = (case jb_execution_duration job of None \<Rightarrow> cfg_lifetime cfg
            | Some d \<Rightarrow> if d = 0 then cfg_lifetime cfg else d), wj_run_id = jb_run_id j\<rparr>]"
        "world_queue w' = (world_queue w)(jm_id m \<mapsto> Waiting)"
        "stored_jobs own w' = (stored_jobs own w)(i \<mapsto> j\<lparr>sj_message_id := Some (jm_id m), sj_phase := QUEUED\<rparr>)"
        "en_now (quiet_env cfg) w' = en_now (quiet_env cfg) w"
        by (rule quiet.started_outcome [OF t assms(2-4) _ Inr])
      show ?thesis using True Inr m by simp
    qed
  qed
qed

text \<open> C5. Aborting a job: an active job is aborted, with an end time if it had started, and its task
  is taken out of the queue if it waits there and cancelled if it runs; any other job is left
  alone. \<close>
theorem uws_abort_outcome:
  assumes "token_owner token = Inr own" "world_good w"
    and "stored_jobs own w i = Some j" "read_job cfg j = Inr job"
  shows "if sj_phase j \<in> {PENDING, QUEUED, EXECUTING} then
      \<exists>w'. abort cfg (quiet_env cfg) token i w = (Inr (), w') \<and>
        stored_jobs own w' = (stored_jobs own w)(i \<mapsto>
          j\<lparr>sj_phase := ABORTED, sj_end_time := (if sj_start_time j = None then sj_end_time j else Some (no_microseconds (uw_now w)))\<rparr>) \<and>
        world_queue w' = (case sj_message_id j of
            Some m \<Rightarrow> if m = [] then world_queue w
              else (world_queue w)(m := Option.bind (world_queue w m) aborted_state)
          | None \<Rightarrow> world_queue w)
    else abort cfg (quiet_env cfg) token i w = (Inr (), w)"
proof -
  have t: "owner_of_token token = Some own" using assms(1) by simp
  show ?thesis
  proof (cases "sj_phase j \<in> set active_phases")
    case True
    from quiet.abort_outcome [OF t assms(2-4) True] obtain w' where
      "abort cfg (quiet_env cfg) token i w = (Inr (), w')"
      "stored_jobs own w' = (stored_jobs own w)(i \<mapsto> apply_update (uw_now w) UpdateAborted j)"
      "world_queue w' = after_abort (sj_message_id j) (world_queue w)" by auto
    then show ?thesis using True
      by (auto simp: active_phases_def after_abort_def truthy_def Let_def split: option.split)
  next
    case False
    then show ?thesis using quiet.abort_inactive [OF t assms(2-4) False] by (auto simp: active_phases_def)
  qed
qed

text \<open> C6. Deleting a job removes that one job of its owner, whatever its phase, and aborts its task if
  the job was active; the job is then unknown. \<close>
theorem uws_delete_outcome:
  assumes "token_owner token = Inr own" "world_good w"
    and "stored_jobs own w i = Some j" "read_job cfg j = Inr job"
  shows "\<exists>w'. delete cfg (quiet_env cfg) token i w = (Inr (), w') \<and>
      stored_jobs own w' = (stored_jobs own w)(i := None) \<and>
      world_queue w' = (if sj_phase j \<in> set active_phases then after_abort (sj_message_id j) (world_queue w) else world_queue w) \<and>
      get cfg (quiet_env cfg) token i wait phase completion w' = (Inl (ExcUWS (unknown_job_error i)), w')"
proof -
  have t: "owner_of_token token = Some own" using assms(1) by simp
  obtain w' where w': "delete cfg (quiet_env cfg) token i w = (Inr (), w')" "world_good w'"
    "stored_jobs own w' = (stored_jobs own w)(i := None)"
    "world_queue w' = (if sj_phase j \<in> set active_phases then after_abort (sj_message_id j) (world_queue w) else world_queue w)"
    by (rule quiet.delete_outcome [OF t assms(2-4)])
  have "stored_jobs own w' i = None" using w'(3) by simp
  from quiet.store_get_missing [OF t w'(2) this] stored_job_id [OF assms(2,3)]
  have "get cfg (quiet_env cfg) token i wait phase completion w' = (Inl (ExcUWS (unknown_job_error i)), w')"
    by (simp add: get_def eff_simps)
  then show ?thesis using w' by blast
qed

text \<open>Changing the destruction time: without a validator of the application the time can only
  move to an earlier one; the operation stores what it returns, and returns no time when
  nothing changes. \<close>
theorem uws_destruction_never_extended:
  assumes "token_owner token = Inr own" "world_good w"
    and "stored_jobs own w i = Some j" "read_job cfg j = Inr job" "cfg_validate_destruction cfg = None"
  shows "\<exists>w'. update_destruction cfg (quiet_env cfg) token i d w
      = (Inr (if d < jb_destruction_time j then Some d else None), w') \<and>
    map_option jb_destruction_time (stored_jobs own w' i) = Some (min d (jb_destruction_time j)) \<and>
    (\<forall>i'. i' \<noteq> i \<longrightarrow> stored_jobs own w' i' = stored_jobs own w i') \<and> world_queue w' = world_queue w"
proof -
  have t: "owner_of_token token = Some own" using assms(1) by simp
  have n: "new_destruction cfg d job = Inr (min (jb_destruction_time j) d)"
    using assms(5) read_job_fields [OF assms(4)] by (simp add: new_destruction_def)
  show ?thesis
  proof (cases "d < jb_destruction_time j")
    case True
    then have ne: "min (jb_destruction_time j) d \<noteq> jb_destruction_time j" by simp
    from quiet.destruction_outcome [OF t assms(2-4) n ne] obtain w' where
      "update_destruction cfg (quiet_env cfg) token i d w = (Inr (Some (min (jb_destruction_time j) d)), w')"
      "stored_jobs own w' = (stored_jobs own w)(i \<mapsto> j\<lparr>jb_destruction_time := min (jb_destruction_time j) d,
         jb_execution_duration := wire_update_duration (jb_execution_duration job)\<rparr>)" "world_queue w' = world_queue w" by blast
    then show ?thesis using True by (intro exI [of _ w']) (simp add: min_def)
  next
    case False
    then show ?thesis using quiet.destruction_kept [OF t assms(2-4), where destruction = d and out = "Inr None"] n assms(3)
      by (intro exI [of _ w]) (simp add: min_def)
  qed
qed

text \<open>Changing the execution duration: without a validator of the application a positive one is
  cut to the configured one, so no limited job gets more than that; the store then holds it in
  whole seconds. \<close>
theorem uws_duration_capped:
  assumes "token_owner token = Inr own" "world_good w"
    and "stored_jobs own w i = Some j" "read_job cfg j = Inr job" "cfg_validate_execution_duration cfg = None"
    and "0 < d"
  shows "let d' = min d (cfg_execution_duration cfg) in
    \<exists>w'. update_execution_duration cfg (quiet_env cfg) token i (Some d) w
      = (Inr (if Some d' = jb_execution_duration job then None else Some d'), w') \<and>
    (Some d' \<noteq> jb_execution_duration job \<longrightarrow>
       map_option jb_execution_duration (stored_jobs own w' i) = Some (wire_update_duration (Some d'))) \<and>
    (\<forall>i'. i' \<noteq> i \<longrightarrow> stored_jobs own w' i' = stored_jobs own w i') \<and> world_queue w' = world_queue w"
proof -
  have t: "owner_of_token token = Some own" using assms(1) by simp
  let ?d = "min d (cfg_execution_duration cfg)"
  have n: "new_duration cfg (Some d) job = Inr (Some ?d)" using assms(5,6) by (simp add: new_duration_def)
  show ?thesis
  proof (cases "Some ?d = jb_execution_duration job")
    case True
    then show ?thesis using quiet.duration_kept [OF t assms(2-4), where duration = "Some d" and out = "Inr None"] n
      unfolding Let_def by (intro exI [of _ w]) auto
  next
    case False
    from quiet.duration_outcome [OF t assms(2-4) n False] obtain w' where
      "update_execution_duration cfg (quiet_env cfg) token i (Some d) w = (Inr (Some ?d), w')"
      "stored_jobs own w' = (stored_jobs own w)(i \<mapsto> j\<lparr>jb_execution_duration := wire_update_duration (Some ?d)\<rparr>)"
      "world_queue w' = world_queue w" by blast
    then show ?thesis using False unfolding Let_def by (intro exI [of _ w']) auto
  qed
qed

subsection \<open>The life of a job\<close>

lemma queue_started:
  assumes "world_good w" "world_queue w m = Some q"
  obtains w' where "on_arq (mock_set_in_progress m None) w = (Inr (), w')" "world_good w'"
    "world_queue w' = (world_queue w)(m \<mapsto> Running)" "stored_jobs own w' = stored_jobs own w"
proof -
  have a: "mock_arq_inv (uw_arq w)" "mock_table (uw_arq w) m = Some q"
    using assms by (simp_all add: world_good_def world_queue_def)
  obtain a' where a': "mock_set_in_progress m None (uw_arq w) = (Inr (), a')" "mock_arq_inv a'"
    "mock_table a' = (mock_table (uw_arq w))(m \<mapsto> Running)" using mq.started_law [OF a] by blast
  have "world_good (w\<lparr>uw_arq := a'\<rparr>)"
    by (rule world_good_arq [OF assms(1) a'(2)])
      (use started_fresh [OF a(1) a'(1)] assms(1) in \<open>simp add: world_good_def\<close>)
  then show ?thesis using that [of "w\<lparr>uw_arq := a'\<rparr>"] a' by (simp add: on_arq_def world_queue_def stored_jobs_def)
qed

lemma queue_completed:
  assumes "world_good w" "world_queue w m = Some q"
  obtains w' where "on_arq (mock_set_complete (uw_now w) m r True None) w = (Inr (), w')" "world_good w'"
    "world_queue w' = (world_queue w)(m \<mapsto> Done r)" "stored_jobs own w' = stored_jobs own w"
proof -
  have a: "mock_arq_inv (uw_arq w)" "mock_table (uw_arq w) m = Some q"
    using assms by (simp_all add: world_good_def world_queue_def)
  obtain a' where a': "mock_set_complete (uw_now w) m r True None (uw_arq w) = (Inr (), a')" "mock_arq_inv a'"
    "mock_table a' = (mock_table (uw_arq w))(m \<mapsto> Done r)" using mq.completed_law [OF a] by blast
  have "world_good (w\<lparr>uw_arq := a'\<rparr>)"
    by (rule world_good_arq [OF assms(1) a'(2)])
      (use completed_fresh [OF a(1) a'(1)] assms(1) in \<open>simp add: world_good_def\<close>)
  then show ?thesis using that [of "w\<lparr>uw_arq := a'\<rparr>"] a' by (simp add: on_arq_def world_queue_def stored_jobs_def)
qed

lemma stored_on_create_fields [simp]:
  "sj_phase (stored_on_create cfg now own i r p) = PENDING" "sj_id (stored_on_create cfg now own i r p) = i"
  "sj_owner (stored_on_create cfg now own i r p) = snd own" "sj_errors (stored_on_create cfg now own i r p) = []"
  "sj_results (stored_on_create cfg now own i r p) = []" "jb_parameters (stored_on_create cfg now own i r p) = p"
  "jb_run_id (stored_on_create cfg now own i r p) = r" "sj_service (stored_on_create cfg now own i r p) = fst own"
  by (simp_all add: stored_on_create_def new_job_def wire_job_def)

lemma read_job_ok:
  assumes "jb_parameters j \<noteq> []" "cfg_parse_parameters cfg (jb_parameters j) = Some params"
  shows "\<exists>job. read_job cfg j = Inr job \<and> job_parameters job = params"
  using assms by (simp add: read_job_def from_serialized_job_def wire_job_def)

text \<open>A job created with the phase \<open>RUN\<close>: stored, queued, its task waiting.\<close>

lemma created_and_started:
  assumes "token_owner token = Inr own" "world_good w" "p \<noteq> []" "cfg_parse_parameters cfg p = Some params"
    and "cfg_worker_parameters cfg params = Inr raw"
  obtains i m w' where
    "create_job_handler cfg (quiet_env cfg) urls token user p run_id None (Some ''RUN'') w = (Inr (Redirect (url_job urls i)), w')"
    "world_good w'" "stored_jobs own w i = None" "m \<noteq> []" "world_queue w' m = Some Waiting"
    "stored_jobs own w' = (stored_jobs own w)(i \<mapsto> (stored_on_create cfg (uw_now w) own i run_id p)
       \<lparr>sj_message_id := Some m, sj_phase := QUEUED\<rparr>)"
proof -
  have t: "owner_of_token token = Some own" using assms(1) by simp
  obtain w1 i where w1: "create cfg (quiet_env cfg) token p run_id w
      = (read_job cfg (stored_on_create cfg (en_now (quiet_env cfg) w) own i run_id p), w1)" "world_good w1"
    "simple_id i" "stored_jobs own w i = None"
    "stored_jobs own w1 = (stored_jobs own w)(i \<mapsto> stored_on_create cfg (en_now (quiet_env cfg) w) own i run_id p)"
    "world_queue w1 = world_queue w" "en_now (quiet_env cfg) w1 = en_now (quiet_env cfg) w"
    by (rule quiet.store_created [OF t assms(2)])
  let ?j = "stored_on_create cfg (uw_now w) own i run_id p"
  obtain job where job: "read_job cfg ?j = Inr job" "job_parameters job = params"
    using read_job_ok [of ?j cfg params] assms(3,4) by auto
  have j: "stored_jobs own w1 i = Some ?j" using w1(5) by simp
  have ph: "sj_phase ?j = PENDING \<or> sj_phase ?j = HELD" by simp
  have wp: "cfg_worker_parameters cfg (job_parameters job) = Inr raw" using assms(5) job(2) by simp
  obtain m w2 where m: "start cfg (quiet_env cfg) token user i w1 = (Inr m, w2)" "world_good w2"
    "jm_name m = cfg_worker cfg" "jm_id m \<noteq> []" "world_queue w1 (jm_id m) = None"
    "jm_args m = [ArgParams raw, ArgInfo \<lparr>wj_job_id = i, wj_user = user, wj_token = token,
       wj_timeout = (case jb_execution_duration job of None \<Rightarrow> cfg_lifetime cfg | Some d \<Rightarrow> if d = 0 then cfg_lifetime cfg else d),
       wj_run_id = jb_run_id ?j\<rparr>]"
    "world_queue w2 = (world_queue w1)(jm_id m \<mapsto> Waiting)"
    "stored_jobs own w2 = (stored_jobs own w1)(i \<mapsto> ?j\<lparr>sj_message_id := Some (jm_id m), sj_phase := QUEUED\<rparr>)"
    "en_now (quiet_env cfg) w2 = en_now (quiet_env cfg) w1"
    by (rule quiet.started_outcome [OF t w1(2) j job(1) ph wp])
  have "create_job_handler cfg (quiet_env cfg) urls token user p run_id None (Some ''RUN'') w = (Inr (Redirect (url_job urls i)), w2)"
    using w1(1) m(1) job(1) read_job_fields [OF job(1)]
    by (simp add: create_job_handler_def create_phase_dependency_def truthy_def eff_simps)
  then show ?thesis using that m w1 by simp
qed

text \<open> C3. The life of a job: created and run by a user, its start and its end reported by the
  backend worker through the queue, it is stored in the end as completed with exactly the
  results the worker returned, or as failed with the one error its exception converts to; it has
  the parameters, the owner and the start time it should, and the owner's other jobs are as
  they were. \<close>
theorem uws_job_lifecycle:
  assumes "token_owner token = Inr own" "world_good w" "p \<noteq> []" "cfg_parse_parameters cfg p = Some params"
    and "cfg_worker_parameters cfg params = Inr raw"
    and "case outcome of Returned _ \<Rightarrow> True | Failed e \<Rightarrow> exc_utc e | Cancelled \<Rightarrow> False"
  shows "\<exists>i m w1 w2 w3 w4 w5 j.
    create_job_handler cfg (quiet_env cfg) urls token user p run_id None (Some ''RUN'') w = (Inr (Redirect (url_job urls i)), w1) \<and>
    stored_jobs own w i = None \<and> map_option sj_message_id (stored_jobs own w1 i) = Some (Some m) \<and>
    on_arq (mock_set_in_progress m None) w1 = (Inr (), w2) \<and>
    uws_job_started cfg (quiet_env cfg) slack token i t w2 = (Inr (), w3) \<and>
    on_arq (mock_set_complete (uw_now w3) m outcome True None) w3 = (Inr (), w4) \<and>
    uws_job_completed (Suc fuel) cfg (quiet_env cfg) slack token i w4 = Some (Inr (), w5) \<and>
    stored_jobs own w5 = (stored_jobs own w)(i \<mapsto> j) \<and> job_wf j \<and>
    jb_parameters j = p \<and> sj_id j = i \<and> (sj_service j, sj_owner j) = own \<and> sj_start_time j = Some (no_microseconds t) \<and>
    (case outcome of
       Returned rs \<Rightarrow> sj_phase j = COMPLETED \<and> sj_results j = map from_worker_result rs \<and> sj_errors j = []
     | Failed e \<Rightarrow> sj_phase j = ERROR \<and> sj_results j = [] \<and> sj_errors j = [failure_error (snd own) e]
     | Cancelled \<Rightarrow> False)"
proof -
  have tk: "owner_of_token token = Some own" using assms(1) by simp
  obtain i m w1 where w1:
    "create_job_handler cfg (quiet_env cfg) urls token user p run_id None (Some ''RUN'') w = (Inr (Redirect (url_job urls i)), w1)"
    "world_good w1" "stored_jobs own w i = None" "m \<noteq> []" "world_queue w1 m = Some Waiting"
    "stored_jobs own w1 = (stored_jobs own w)(i \<mapsto> (stored_on_create cfg (uw_now w) own i run_id p)
       \<lparr>sj_message_id := Some m, sj_phase := QUEUED\<rparr>)"
    by (rule created_and_started [OF assms(1-5)])
  let ?j1 = "(stored_on_create cfg (uw_now w) own i run_id p)\<lparr>sj_message_id := Some m, sj_phase := QUEUED\<rparr>"
  obtain w2 where w2: "on_arq (mock_set_in_progress m None) w1 = (Inr (), w2)" "world_good w2"
    "world_queue w2 = (world_queue w1)(m \<mapsto> Running)" "stored_jobs own w2 = stored_jobs own w1"
    by (rule queue_started [OF w1(2,5)])
  have j2: "stored_jobs own w2 i = Some ?j1" using w2(4) w1(6) by simp
  obtain w3 where w3: "uws_job_started cfg (quiet_env cfg) slack token i t w2 = (Inr (), w3)" "world_good w3"
    "stored_jobs own w3 = (stored_jobs own w2)(i \<mapsto> apply_update (en_now (quiet_env cfg) w2) (UpdateExecuting t) ?j1)"
    "world_queue w3 = world_queue w2" "en_now (quiet_env cfg) w3 = en_now (quiet_env cfg) w2"
    by (rule quiet.started_recorded [OF tk w2(2) j2])
  let ?j3 = "?j1\<lparr>sj_start_time := Some (no_microseconds t), sj_phase := EXECUTING\<rparr>"
  have q3: "world_queue w3 m = Some Running" using w3(4) w2(3) by simp
  obtain w4 where w4: "on_arq (mock_set_complete (uw_now w3) m outcome True None) w3 = (Inr (), w4)" "world_good w4"
    "world_queue w4 = (world_queue w3)(m \<mapsto> Done outcome)" "stored_jobs own w4 = stored_jobs own w3"
    by (rule queue_completed [OF w3(2) q3])
  have j4: "stored_jobs own w4 i = Some ?j3" using w4(4) w3(3) by simp
  obtain job where job: "read_job cfg ?j3 = Inr job" using read_job_ok [of ?j3 cfg params] assms(3,4) by auto
  have q4: "world_queue w4 (the (sj_message_id ?j3)) = Some (Done outcome)" using w4(3) by simp
  obtain u where u: "outcome_update (snd own) outcome = Some u"
    using assms(6) by (cases outcome) (simp_all add: outcome_update_def)
  have e: "case outcome of Failed e \<Rightarrow> exc_utc e | _ \<Rightarrow> True" "truthy (sj_message_id ?j3)"
    "outcome_update (sj_owner ?j3) outcome = Some u"
    using assms(6) w1(4) u by (simp_all add: truthy_def split: arq_outcome.splits)
  obtain w5 n where w5: "uws_job_completed (Suc fuel) cfg (quiet_env cfg) slack token i w4 = Some (Inr (), w5)" "world_good w5"
    "stored_jobs own w5 = (stored_jobs own w4)(i \<mapsto> apply_update n u ?j3)" "world_queue w5 = world_queue w4"
    by (rule quiet.outcome_recorded [OF tk w4(2) j4 job e(2) q4 e(1,3)])
  let ?j = "apply_update n u ?j3"
  have "stored_jobs own w5 = (stored_jobs own w)(i \<mapsto> ?j)"
    using w5(3) w4(4) w3(3) w2(4) w1(6) by simp
  moreover have "job_wf ?j \<and> jb_parameters ?j = p \<and> sj_id ?j = i \<and> (sj_service ?j, sj_owner ?j) = own \<and>
      sj_start_time ?j = Some (no_microseconds t) \<and> (case outcome of
       Returned rs \<Rightarrow> sj_phase ?j = COMPLETED \<and> sj_results ?j = map from_worker_result rs \<and> sj_errors ?j = []
     | Failed e \<Rightarrow> sj_phase ?j = ERROR \<and> sj_results ?j = [] \<and> sj_errors ?j = [failure_error (snd own) e]
     | Cancelled \<Rightarrow> False)"
    using u assms(6) by (cases outcome) (auto simp: outcome_update_def job_wf_def)
  ultimately show ?thesis using w1(1,3,6) w2(1) w3(1) w4(1) w5(1) by (intro exI conjI) (assumption | simp)+
qed

subsection \<open>Waiting for a job\<close>

lemma quiet_sleep: "en_sleep (quiet_env cfg) n w = w\<lparr>uw_now := uw_now w + int (n div 1000000)\<rparr>"
  by (simp add: quiet_env_def mock_env_def Let_def)

text \<open>
  Waiting among other tasks, which act (\<open>bg\<close>) whenever the code sleeps or waits for an answer.  The specification of the
  wait: its \<open>k\<close>-th delay, the world when the answer to its \<open>k\<close>-th poll comes, the phase it goes by then, and the answer of
  the store in a world.
\<close>

definition wait_delay :: "nat \<Rightarrow> nat" where
  "wait_delay k = min (100000000000 * 3 ^ k div 2 ^ k) 5000000000000"

definition world_after :: "(uws_world \<Rightarrow> uws_world) \<Rightarrow> nat \<Rightarrow> uws_world \<Rightarrow> uws_world" where
  "world_after bg d w = (bg w)\<lparr>uw_now := uw_now (bg w) + int (d div 1000000)\<rparr>"

primrec poll_world :: "(uws_world \<Rightarrow> uws_world) \<Rightarrow> uws_world \<Rightarrow> nat \<Rightarrow> uws_world" where
  "poll_world bg w 0 = w"
| "poll_world bg w (Suc k) = bg (world_after bg (wait_delay k) (poll_world bg w k))"

definition stored_answer :: "uws_config \<Rightarrow> string \<times> string \<Rightarrow> string \<Rightarrow> uws_world \<Rightarrow> exc + uws_job" where
  "stored_answer cfg own i w = (case stored_jobs own w i of
     None \<Rightarrow> Inl (ExcUWS (unknown_job_error i)) | Some j \<Rightarrow> read_job cfg j)"

definition phase_seen ::
  "uws_config \<Rightarrow> string \<times> string \<Rightarrow> uws_job \<Rightarrow> (uws_world \<Rightarrow> uws_world) \<Rightarrow> uws_world \<Rightarrow> nat \<Rightarrow> exc + execution_phase" where
  "phase_seen cfg own job bg w k = map_sum id sj_phase
     (if k = 0 then Inr job else stored_answer cfg own (sj_id job) (poll_world bg w k))"

lemma power_3_2: "50 * 2 ^ (10 + m) \<le> (3::nat) ^ (10 + m)"
proof -
  have "50 * 2 ^ 10 * 2 ^ m \<le> 3 ^ 10 * (3::nat) ^ m" by (intro mult_le_mono power_mono) simp_all
  then show ?thesis by (simp only: power_add mult.assoc)
qed

lemma poll_delay_closed: "poll_delay n = wait_delay n"
proof (induction n)
  case (Suc n)
  show ?case
  proof (cases "n < 10")
    case True
    then have "n \<in> {0,1,2,3,4,5,6,7,8,9}" by auto
    then show ?thesis using Suc by (auto simp: wait_delay_def)
  next
    case False
    have "wait_delay (10 + m) = 5000000000000" for m
    proof -
      have "5000000000000 \<le> 100000000000 * 3 ^ (10 + m) div (2::nat) ^ (10 + m)"
        using power_3_2 [of m] by (simp add: less_eq_div_iff_mult_less_eq)
      then show ?thesis by (simp add: wait_delay_def)
    qed
    from this [of "n - 10"] this [of "Suc n - 10"] False have "wait_delay n = 5000000000000" "wait_delay (Suc n) = 5000000000000"
      by simp_all
    then show ?thesis using Suc by simp
  qed
qed (simp add: wait_delay_def)

lemma wait_delay_bounds: "100000000000 \<le> wait_delay k" "wait_delay k \<le> 5000000000000"
  using poll_delay_pos [of k] by (simp_all add: poll_delay_closed wait_delay_def)

lemma world_good_clock: "world_good (w\<lparr>uw_now := t\<rparr>) = world_good w"
  by (simp add: world_good_def)

lemma busy_sleep: "en_sleep (mock_env url bg) d w = world_after bg d w"
  by (simp add: mock_env_def world_after_def Let_def)

lemma busy_store_get:
  assumes "token_owner token = Inr own" "\<And>w. world_good w \<Longrightarrow> world_good (bg w)" "world_good w" "simple_id i"
  shows "store_get cfg (mock_env (cfg_wobbly_url cfg) bg) token i w = (stored_answer cfg own i (bg w), bg w)"
proof -
  have e: "en_request (mock_env (cfg_wobbly_url cfg) bg) rq v = en_request (quiet_env cfg) rq (bg v)"
    "wobbly_error (mock_env (cfg_wobbly_url cfg) bg) = wobbly_error (quiet_env cfg)" for rq v
    by (simp_all add: quiet_env_def mock_env_def Let_def wobbly_error_def fun_eq_iff)
  have "store_get cfg (mock_env (cfg_wobbly_url cfg) bg) token i w = store_get cfg (quiet_env cfg) token i (bg w)"
    by (simp only: store_get_def store_request_def bind_eff_apply e)
  moreover have "owner_of_token token = Some own" "world_good (bg w)" using assms by simp_all
  ultimately show ?thesis
    using quiet.store_get_found [of token own "bg w" i] quiet.store_get_missing [of token own "bg w" i] assms(4)
    by (cases "stored_jobs own (bg w) i") (simp_all add: stored_answer_def)
qed

lemma poll_world_good:
  "(\<And>w. world_good w \<Longrightarrow> world_good (bg w)) \<Longrightarrow> world_good w \<Longrightarrow> world_good (poll_world bg w k)"
  by (induction k) (simp_all add: world_after_def world_good_clock)

lemma wait_loop_runs:
  fixes bg w cfg own job
  defines "seen \<equiv> phase_seen cfg own job bg w" and "slept \<equiv> \<lambda>n. sum wait_delay {..<n}"
  assumes own: "token_owner token = Inr own" and bg: "\<And>w. world_good w \<Longrightarrow> world_good (bg w)"
    and w: "world_good w" "simple_id (sj_id job)" and n: "seen n = Inr p" "n = 0 \<or> slept n < t"
  shows "\<exists>m\<ge>n. (\<forall>k. n \<le> k \<and> k < m \<longrightarrow> seen k \<in> Inr ` set until_not) \<and> (m = 0 \<or> slept m < t) \<and>
    (let r = wait_loop cfg (mock_env (cfg_wobbly_url cfg) bg) token (sj_id job) until_not t (slept n) n p (poll_world bg w n) in
     seen m \<in> Inr ` (- set until_not) \<and> r = (Inr (), poll_world bg w m) \<or>
     (\<exists>e. 0 < m \<and> seen m = Inl e \<and> r = (Inl e, poll_world bg w m)) \<or>
     seen m \<in> Inr ` set until_not \<and> t \<le> slept (Suc m) \<and> r = (Inr (), world_after bg (t - slept m) (poll_world bg w m)))"
  using n
proof (induction "t - slept n" arbitrary: n p rule: less_induct)
  case less
  let ?env = "mock_env (cfg_wobbly_url cfg) bg"
  let ?W = "poll_world bg w"
  let ?loop = "\<lambda>n p. wait_loop cfg ?env token (sj_id job) until_not t (slept n) n p (?W n)"
  have S: "slept (Suc n) = slept n + wait_delay n" by (simp add: slept_def)
  have lat: "en_latency ?env v = 0" for v by (simp add: mock_env_def)
  consider "p \<notin> set until_not" | "p \<in> set until_not" "t \<le> slept (Suc n)" | "p \<in> set until_not" "slept (Suc n) < t"
    by fastforce
  then show ?case
  proof cases
    case 1
    then have "?loop n p = (Inr (), ?W n)" by (simp add: wait_loop.simps [of _ _ _ _ _ _ _ n])
    then show ?thesis using less.prems 1 by (intro exI [of _ n]) (auto simp: Let_def)
  next
    case 2
    then have "?loop n p = (Inr (), world_after bg (t - slept n) (?W n))"
      using S by (simp add: wait_loop.simps [of _ _ _ _ _ _ _ n] poll_delay_closed busy_sleep)
    then show ?thesis using less.prems 2 by (intro exI [of _ n]) (auto simp: Let_def)
  next
    case 3
    let ?a = "stored_answer cfg own (sj_id job) (?W (Suc n))"
    have good: "world_good (world_after bg (wait_delay n) (?W n))"
      using bg poll_world_good [OF bg w(1), where k = n] by (simp add: world_after_def world_good_clock)
    have get: "store_get cfg ?env token (sj_id job) (world_after bg (wait_delay n) (?W n)) = (?a, ?W (Suc n))"
      using busy_store_get [OF own bg good w(2)] by simp
    have step: "?loop n p = (case ?a of Inl e \<Rightarrow> (Inl e, ?W (Suc n)) | Inr job' \<Rightarrow> ?loop (Suc n) (sj_phase job'))"
      using 3 S get lat by (simp add: wait_loop.simps [of _ _ _ _ _ _ _ n] poll_delay_closed busy_sleep Let_def split: sum.split)
    have seen: "seen (Suc n) = map_sum id sj_phase ?a" by (simp add: seen_def phase_seen_def)
    show ?thesis
    proof (cases ?a)
      case (Inl e)
      then show ?thesis using 3 less.prems step seen by (intro exI [of _ "Suc n"]) (auto simp: Let_def le_less_Suc_eq)
    next
      case (Inr job')
      have lt: "t - slept (Suc n) < t - slept n" using 3 S wait_delay_bounds(1) [of n] by linarith
      have sn: "seen (Suc n) = Inr (sj_phase job')" using Inr seen by simp
      have st: "?loop n p = ?loop (Suc n) (sj_phase job')" using step Inr by simp
      obtain m where m: "Suc n \<le> m" "\<forall>k. Suc n \<le> k \<and> k < m \<longrightarrow> seen k \<in> Inr ` set until_not" "m = 0 \<or> slept m < t"
        "let r = ?loop (Suc n) (sj_phase job') in
     seen m \<in> Inr ` (- set until_not) \<and> r = (Inr (), ?W m) \<or>
     (\<exists>e. 0 < m \<and> seen m = Inl e \<and> r = (Inl e, ?W m)) \<or>
     seen m \<in> Inr ` set until_not \<and> t \<le> slept (Suc m) \<and> r = (Inr (), world_after bg (t - slept m) (?W m))"
        using less.hyps [OF lt sn] 3 by blast
      have "\<forall>k. n \<le> k \<and> k < m \<longrightarrow> seen k \<in> Inr ` set until_not"
        using m(2) less.prems(1) 3(1) by (metis Suc_leI image_eqI le_neq_implies_less)
      then show ?thesis unfolding st using m by (intro exI [of _ m]) simp
    qed
  qed
qed

text \<open> C7. Waiting for a job while other tasks act at every sleep and request, with the service answering in no time.  The wait makes
  a number \<open>n\<close> of polls, as long as the job's phase, first that of the job passed in and then the stored one, is one waited on;
  before poll \<open>k + 1\<close> it sleeps a tenth of a second times 1.5 to the power of \<open>k\<close>, at most five seconds.  It ends at the first
  other phase, without any poll when the phase passed in is one; at the first answer that is an exception, which
  it raises; or when the timeout is slept to its end.  At the first and the third end it asks
  once more and what it returns is what is stored then.  The sleeps before the polls are shorter than the timeout together,
  so there are at most ten polls to a second. \<close>
theorem uws_wait_bounded:
  assumes "token_owner token = Inr own" "\<And>w. world_good w \<Longrightarrow> world_good (bg w)" "world_good w" "simple_id (sj_id job)"
  shows "\<exists>n. let seen = phase_seen cfg own job bg w; polled = poll_world bg w n; slept = (\<Sum>k<n. wait_delay k);
      t = nat (timeout * 1000000); run = wait_for_job cfg (mock_env (cfg_wobbly_url cfg) bg) token job until_not timeout w;
      refetched = (\<lambda>w'. (stored_answer cfg own (sj_id job) (bg w'), bg w')) in
    (\<forall>k<n. seen k \<in> Inr ` set until_not) \<and> (n = 0 \<or> slept < t) \<and> n * 100000000000 \<le> t \<and>
    (seen n \<in> Inr ` (- set until_not) \<and> run = refetched polled \<or>
     (\<exists>e. 0 < n \<and> seen n = Inl e \<and> run = (Inl e, polled)) \<or>
     seen n \<in> Inr ` set until_not \<and> t \<le> slept + wait_delay n \<and> run = refetched (world_after bg (t - slept) polled))"
proof -
  let ?env = "mock_env (cfg_wobbly_url cfg) bg"
  let ?t = "nat (timeout * 1000000)"
  let ?seen = "phase_seen cfg own job bg w"
  let ?W = "poll_world bg w"
  let ?r = "wait_loop cfg ?env token (sj_id job) until_not ?t 0 0 (sj_phase job) w"
  have "?seen 0 = Inr (sj_phase job)" by (simp add: phase_seen_def)
  from wait_loop_runs [OF assms this, of ?t until_not]
  obtain n where n: "\<forall>k<n. ?seen k \<in> Inr ` set until_not" "n = 0 \<or> sum wait_delay {..<n} < ?t"
    "?seen n \<in> Inr ` (- set until_not) \<and> ?r = (Inr (), ?W n) \<or>
     (\<exists>e. 0 < n \<and> ?seen n = Inl e \<and> ?r = (Inl e, ?W n)) \<or>
     ?seen n \<in> Inr ` set until_not \<and> ?t \<le> sum wait_delay {..<Suc n} \<and> ?r = (Inr (), world_after bg (?t - sum wait_delay {..<n}) (?W n))"
    by (auto simp: Let_def)
  have "n * 100000000000 \<le> sum wait_delay {..<n}"
    using sum_bounded_below [of "{..<n}" 100000000000 wait_delay] wait_delay_bounds(1) by simp
  then have le: "n * 100000000000 \<le> ?t" using n(2) by auto
  have good: "world_good (?W n)" "world_good (world_after bg d (?W n))" for d
    using assms(2) poll_world_good [OF assms(2,3), where k = n] by (simp_all add: world_after_def world_good_clock)
  have get: "store_get cfg ?env token (sj_id job) v = (stored_answer cfg own (sj_id job) (bg v), bg v)" if "world_good v" for v
    by (rule busy_store_get [OF assms(1,2) that assms(4)])
  have run: "wait_for_job cfg ?env token job until_not timeout w =
      (case ?r of (Inl e, w) \<Rightarrow> (Inl e, w) | (Inr _, w) \<Rightarrow> store_get cfg ?env token (sj_id job) w)"
    by (simp add: wait_for_job_def bind_eff_apply)
  from n(3) show ?thesis unfolding Let_def run
    by (elim disjE conjE exE; intro exI [of _ n] conjI)
      (use n(1,2) le get [OF good(1)] get [OF good(2)] in \<open>simp_all\<close>)
qed

subsection \<open>What the completion message cannot record\<close>

text \<open> C8. The completion of a job whose task never produces a result is never recorded: the poll for
  the result goes on for however many rounds it is given, although the code means to give up
  after five seconds. \<close>
theorem uws_completion_never_ends:
  assumes "token_owner token = Inr own" "world_good w" "stored_jobs own w i = Some j" "read_job cfg j = Inr job"
    and "sj_message_id j = Some m" "m \<noteq> []" "world_queue w m = None \<or> world_queue w m = Some Waiting"
  shows "uws_job_completed fuel cfg (quiet_env cfg) slack token i w = None"
proof -
  have t: "owner_of_token token = Some own" using assms(1) by simp
  have poll: "poll_result fuel (quiet_env cfg) m now end w' = None" if "now < end" "uw_arq w' = uw_arq w" for now "end" w'
    using that(2)
  proof (induction fuel arbitrary: w')
    case (Suc fuel)
    let ?w = "en_sleep (quiet_env cfg) 500000000000 w'"
    have a: "mock_arq_inv (uw_arq ?w)" "mock_table (uw_arq ?w) m = None \<or> mock_table (uw_arq ?w) m = Some Waiting"
      "uw_arq ?w = uw_arq w"
      using assms(2,7) Suc.prems by (simp_all add: quiet_sleep world_good_def world_queue_def)
    have "en_result (quiet_env cfg) m ?w = (Inl (JobResultUnavailable m), ?w)"
      using mq.result_none [OF a(1,2)] by (simp add: quiet_env_def mock_env_def Let_def on_arq_def)
    then show ?case using that(1) Suc.IH [OF a(3)] by (simp add: arq_call_def Let_def)
  qed simp
  show ?thesis
    using quiet.store_get_found [OF t assms(2,3)] assms(4-6) read_job_fields [OF assms(4)]
      poll [of "uw_now w" "uw_now w + 5000000" w]
    by (simp add: uws_job_completed_def get_job_result_def truthy_def Let_def)
qed

text \<open> C9. Aborting an executing job cancels its task, but the end of the cancelled task cannot be
  recorded: the worker raises a type error on it, and leaves the job as the abort left it. \<close>
theorem uws_cancelled_unrecorded:
  assumes "token_owner token = Inr own" "world_good w" "stored_jobs own w i = Some j" "read_job cfg j = Inr job"
    and "sj_phase j = EXECUTING" "sj_message_id j = Some m" "m \<noteq> []" "world_queue w m = Some Running"
  shows "\<exists>w1 w2. abort cfg (quiet_env cfg) token i w = (Inr (), w1) \<and>
    world_queue w1 m = Some (Done Cancelled) \<and>
    uws_job_completed (Suc fuel) cfg (quiet_env cfg) None token i w1
      = Some (Inl (ExcOther ''TypeError'' ''CancelledError object is not iterable''), w2) \<and>
    stored_jobs own w2 = stored_jobs own w1 \<and> map_option sj_phase (stored_jobs own w2 i) = Some ABORTED"
proof -
  have t: "owner_of_token token = Some own" using assms(1) by simp
  have act: "sj_phase j \<in> set active_phases" using assms(5) by (simp add: active_phases_def)
  obtain w1 where w1: "abort cfg (quiet_env cfg) token i w = (Inr (), w1)" "world_good w1"
    "stored_jobs own w1 = (stored_jobs own w)(i \<mapsto> apply_update (en_now (quiet_env cfg) w) UpdateAborted j)"
    "world_queue w1 = after_abort (sj_message_id j) (world_queue w)"
    by (rule quiet.abort_outcome [OF t assms(2-4) act])
  let ?j = "apply_update (uw_now w) UpdateAborted j"
  have j1: "stored_jobs own w1 i = Some ?j" using w1(3) by simp
  have same: "sj_message_id ?j = Some m" "jb_parameters ?j = jb_parameters j" "sj_phase ?j = ABORTED"
    using assms(6) by (simp_all add: Let_def split: option.split)
  have "jb_parameters j \<noteq> []" "cfg_parse_parameters cfg (jb_parameters j) = Some (job_parameters job)"
    using assms(4) read_job_fields [OF assms(4)] by (auto simp: read_job_def from_serialized_job_def wire_job_def split: if_splits)
  then obtain job1 where job1: "read_job cfg ?j = Inr job1" using read_job_ok [of ?j cfg] same(2) by auto
  have q: "world_queue w1 m = Some (Done Cancelled)"
    using w1(4) assms(6-8) by (simp add: after_abort_def truthy_def aborted_state_def)
  have tr: "truthy (sj_message_id ?j)" "world_queue w1 (the (sj_message_id ?j)) = Some (Done Cancelled)"
    using same(1) q assms(7) by (simp_all add: truthy_def)
  obtain w2 where w2: "uws_job_completed (Suc fuel) cfg (quiet_env cfg) None token i w1
      = Some (Inl (ExcOther ''TypeError'' ''CancelledError object is not iterable''), w2)" "world_good w2"
    "stored_jobs own w2 = stored_jobs own w1" "world_queue w2 = world_queue w1"
    by (rule quiet.cancelled_not_recorded [OF t w1(2) j1 job1 tr])
  show ?thesis using w1(1) q w2(1,3) j1 same(3) by (intro exI conjI) (assumption | simp)+
qed

subsection \<open>Concrete runs\<close>

abbreviation demo_token_ann :: string where
  "demo_token_ann \<equiv> make_token ''svc'' ''ann''"

abbreviation demo_owner :: "string \<times> string" where
  "demo_owner \<equiv> (''svc'', ''ann'')"

abbreviation demo_start :: uws_world where
  "demo_start \<equiv> world_init 63897638399500000"

abbreviation demo_params :: params where
  "demo_params \<equiv> [(''id'', JInt 1)]"

lemma demo_parse: "cfg_parse_parameters demo_cfg p = Some p" "cfg_worker_parameters demo_cfg p = Inr p"
  "cfg_validate_destruction demo_cfg = None" "cfg_validate_execution_duration demo_cfg = None"
  by (simp_all add: demo_cfg_def)

lemma demo_params_some: "demo_params \<noteq> []"
  by simp

text \<open>A pending job, a queued one and an executing one.\<close>

lemma demo_pending:
  obtains w i j job where "world_good w" "stored_jobs demo_owner w i = Some j" "read_job demo_cfg j = Inr job"
    "sj_phase j = PENDING" "jb_destruction_time j = 63898243199000000" "jb_execution_duration job = Some 600000000"
proof -
  have t: "owner_of_token demo_token_ann = Some demo_owner" by (simp add: demo_token)
  note g = world_init_good [of 63897638399500000]
  obtain w1 i where w1: "create demo_cfg (quiet_env demo_cfg) demo_token_ann demo_params None demo_start
      = (read_job demo_cfg (stored_on_create demo_cfg (en_now (quiet_env demo_cfg) demo_start) demo_owner i None demo_params), w1)"
    "world_good w1" "simple_id i" "stored_jobs demo_owner demo_start i = None"
    "stored_jobs demo_owner w1 = (stored_jobs demo_owner demo_start)(i \<mapsto>
       stored_on_create demo_cfg (en_now (quiet_env demo_cfg) demo_start) demo_owner i None demo_params)"
    "world_queue w1 = world_queue demo_start" "en_now (quiet_env demo_cfg) w1 = en_now (quiet_env demo_cfg) demo_start"
    by (rule quiet.store_created [OF t g])
  let ?j = "stored_on_create demo_cfg (uw_now demo_start) demo_owner i None demo_params"
  obtain job where "read_job demo_cfg ?j = Inr job" using read_job_ok [of ?j demo_cfg demo_params] demo_parse by auto
  moreover have "jb_execution_duration ?j = Some 600000000"
    by (simp add: stored_on_create_def new_job_def wire_job_def demo_cfg_def wire_duration_def whole_seconds_def)
  moreover have "jb_destruction_time ?j = 63898243199000000"
    by (simp add: stored_on_create_def new_job_def wire_job_def world_init_def no_microseconds_def demo_cfg_def)
  ultimately show ?thesis using that [of w1 i ?j job] w1 read_job_fields [of demo_cfg ?j job]
    by (simp add: wire_duration_def whole_seconds_def)
qed

lemma demo_waiting:
  obtains w i m j job where "world_good w" "stored_jobs demo_owner w i = Some j" "read_job demo_cfg j = Inr job"
    "sj_phase j = QUEUED" "sj_message_id j = Some m" "m \<noteq> []" "world_queue w m = Some Waiting"
proof -
  obtain i m w where w: "create_job_handler demo_cfg (quiet_env demo_cfg) demo_urls demo_token_ann ''ann'' demo_params None None (Some ''RUN'')
      demo_start = (Inr (Redirect (url_job demo_urls i)), w)" "world_good w" "stored_jobs demo_owner demo_start i = None"
    "m \<noteq> []" "world_queue w m = Some Waiting"
    "stored_jobs demo_owner w = (stored_jobs demo_owner demo_start)(i \<mapsto>
       (stored_on_create demo_cfg (uw_now demo_start) demo_owner i None demo_params)\<lparr>sj_message_id := Some m, sj_phase := QUEUED\<rparr>)"
    by (rule created_and_started [OF demo_token world_init_good demo_params_some demo_parse(1,2)])
  let ?j = "(stored_on_create demo_cfg (uw_now demo_start) demo_owner i None demo_params)\<lparr>sj_message_id := Some m, sj_phase := QUEUED\<rparr>"
  obtain job where "read_job demo_cfg ?j = Inr job" using read_job_ok [of ?j demo_cfg demo_params] demo_parse by auto
  then show ?thesis using that [of w i ?j job m] w by simp
qed

lemma demo_executing:
  obtains w i m j job where "world_good w" "stored_jobs demo_owner w i = Some j" "read_job demo_cfg j = Inr job"
    "sj_phase j = EXECUTING" "sj_message_id j = Some m" "m \<noteq> []" "world_queue w m = Some Running"
proof -
  have t: "owner_of_token demo_token_ann = Some demo_owner" by (simp add: demo_token)
  obtain w i m j job where w: "world_good w" "stored_jobs demo_owner w i = Some j" "read_job demo_cfg j = Inr job"
    "sj_phase j = QUEUED" "sj_message_id j = Some m" "m \<noteq> []" "world_queue w m = Some Waiting" by (rule demo_waiting)
  obtain w2 where w2: "on_arq (mock_set_in_progress m None) w = (Inr (), w2)" "world_good w2"
    "world_queue w2 = (world_queue w)(m \<mapsto> Running)" "stored_jobs demo_owner w2 = stored_jobs demo_owner w"
    by (rule queue_started [OF w(1,7)])
  have j2: "stored_jobs demo_owner w2 i = Some j" using w2(4) w(2) by simp
  obtain w3 where w3: "uws_job_started demo_cfg (quiet_env demo_cfg) None demo_token_ann i 0 w2 = (Inr (), w3)" "world_good w3"
    "stored_jobs demo_owner w3 = (stored_jobs demo_owner w2)(i \<mapsto> apply_update (en_now (quiet_env demo_cfg) w2) (UpdateExecuting 0) j)"
    "world_queue w3 = world_queue w2" "en_now (quiet_env demo_cfg) w3 = en_now (quiet_env demo_cfg) w2"
    by (rule quiet.started_recorded [OF t w2(2) j2])
  let ?j = "apply_update (uw_now w2) (UpdateExecuting 0) j"
  have "jb_parameters j \<noteq> []" "cfg_parse_parameters demo_cfg (jb_parameters j) = Some (job_parameters job)"
    using w(3) read_job_fields [OF w(3)] by (auto simp: read_job_def from_serialized_job_def wire_job_def split: if_splits)
  then obtain job' where "read_job demo_cfg ?j = Inr job'" using read_job_ok [of ?j demo_cfg] by auto
  then show ?thesis using that [of w3 i ?j job' m] w3 w2(3) w(5,6) by simp
qed

theorem uws_start_outcome_witness:
  "\<exists>w i m w'. start demo_cfg (quiet_env demo_cfg) demo_token_ann ''ann'' i w = (Inr m, w') \<and>
     world_queue w (jm_id m) = None \<and> world_queue w' (jm_id m) = Some Waiting \<and>
     map_option sj_phase (stored_jobs demo_owner w' i) = Some QUEUED"
proof -
  obtain w i j job where w: "world_good w" "stored_jobs demo_owner w i = Some j" "read_job demo_cfg j = Inr job"
    "sj_phase j = PENDING" by (rule demo_pending)
  obtain m w' where "start demo_cfg (quiet_env demo_cfg) demo_token_ann ''ann'' i w = (Inr m, w')"
    "world_queue w (jm_id m) = None" "world_queue w' (jm_id m) = Some Waiting"
    "map_option sj_phase (stored_jobs demo_owner w' i) = Some QUEUED"
    using uws_start_outcome [OF demo_token w(1-3), of "''ann''"] w(4) by (auto simp: demo_parse)
  then show ?thesis by blast
qed

theorem uws_abort_outcome_witness:
  "\<exists>w i w' m. abort demo_cfg (quiet_env demo_cfg) demo_token_ann i w = (Inr (), w') \<and>
     world_queue w m = Some Waiting \<and> world_queue w' m = None \<and>
     map_option sj_phase (stored_jobs demo_owner w' i) = Some ABORTED"
proof -
  obtain w i m j job where w: "world_good w" "stored_jobs demo_owner w i = Some j" "read_job demo_cfg j = Inr job"
    "sj_phase j = QUEUED" "sj_message_id j = Some m" "m \<noteq> []" "world_queue w m = Some Waiting" by (rule demo_waiting)
  obtain w' where "abort demo_cfg (quiet_env demo_cfg) demo_token_ann i w = (Inr (), w')"
    "map_option sj_phase (stored_jobs demo_owner w' i) = Some ABORTED" "world_queue w' m = None"
    using uws_abort_outcome [OF demo_token w(1-3)] w(4-7) by (auto simp: aborted_state_def)
  then show ?thesis using w(7) by blast
qed

theorem uws_delete_outcome_witness:
  "\<exists>w i w' m. delete demo_cfg (quiet_env demo_cfg) demo_token_ann i w = (Inr (), w') \<and>
     world_queue w m = Some Waiting \<and> world_queue w' m = None \<and> stored_jobs demo_owner w' i = None"
proof -
  obtain w i m j job where w: "world_good w" "stored_jobs demo_owner w i = Some j" "read_job demo_cfg j = Inr job"
    "sj_phase j = QUEUED" "sj_message_id j = Some m" "m \<noteq> []" "world_queue w m = Some Waiting" by (rule demo_waiting)
  obtain w' where "delete demo_cfg (quiet_env demo_cfg) demo_token_ann i w = (Inr (), w')"
    "stored_jobs demo_owner w' i = None" "world_queue w' m = None"
    using uws_delete_outcome [OF demo_token w(1-3), of None None False] w(4-7)
    by (auto simp: aborted_state_def after_abort_def truthy_def active_phases_def)
  then show ?thesis using w(7) by blast
qed

theorem uws_destruction_never_extended_witness:
  "\<exists>w i w'. update_destruction demo_cfg (quiet_env demo_cfg) demo_token_ann i 63897724799000000 w
       = (Inr (Some 63897724799000000), w') \<and>
     map_option jb_destruction_time (stored_jobs demo_owner w' i) = Some 63897724799000000 \<and>
     fst (update_destruction demo_cfg (quiet_env demo_cfg) demo_token_ann i 63899999999000000 w) = Inr None"
proof -
  obtain w i j job where w: "world_good w" "stored_jobs demo_owner w i = Some j" "read_job demo_cfg j = Inr job"
    "sj_phase j = PENDING" "jb_destruction_time j = 63898243199000000" by (rule demo_pending)
  note th = uws_destruction_never_extended [OF demo_token w(1-3) demo_parse(3)]
  have "fst (update_destruction demo_cfg (quiet_env demo_cfg) demo_token_ann i 63899999999000000 w) = Inr None"
    using th [of 63899999999000000] w(5) by auto
  moreover obtain w' where "update_destruction demo_cfg (quiet_env demo_cfg) demo_token_ann i 63897724799000000 w
      = (Inr (Some 63897724799000000), w')"
    "map_option jb_destruction_time (stored_jobs demo_owner w' i) = Some 63897724799000000"
    using th [of 63897724799000000] w(5) by auto
  ultimately show ?thesis by blast
qed

theorem uws_duration_capped_witness:
  "\<exists>w i w' j. stored_jobs demo_owner w i = Some j \<and>
     update_execution_duration demo_cfg (quiet_env demo_cfg) demo_token_ann i (Some 60000000) w = (Inr (Some 60000000), w') \<and>
     map_option jb_execution_duration (stored_jobs demo_owner w' i) = Some (Some 60000000) \<and>
     fst (update_execution_duration demo_cfg (quiet_env demo_cfg) demo_token_ann i (Some 999000000000) w) = Inr None"
proof -
  obtain w i j job where w: "world_good w" "stored_jobs demo_owner w i = Some j" "read_job demo_cfg j = Inr job"
    "jb_execution_duration job = Some 600000000" using demo_pending by metis
  have c: "cfg_execution_duration demo_cfg = 600000000" by (simp add: demo_cfg_def)
  note th = uws_duration_capped [OF demo_token w(1-3) demo_parse(4)]
  have "fst (update_execution_duration demo_cfg (quiet_env demo_cfg) demo_token_ann i (Some 999000000000) w) = Inr None"
    using th [of 999000000000] w(4) c by (auto simp: Let_def)
  moreover obtain w' where "update_execution_duration demo_cfg (quiet_env demo_cfg) demo_token_ann i (Some 60000000) w
      = (Inr (Some 60000000), w')" "map_option jb_execution_duration (stored_jobs demo_owner w' i) = Some (Some 60000000)"
    using th [of 60000000] w(4) c by (auto simp: Let_def wire_update_duration_def whole_seconds_def)
  ultimately show ?thesis using w(2) by blast
qed

theorem uws_job_lifecycle_witness:
  "\<exists>i w j. stored_jobs demo_owner w i = Some j \<and> sj_phase j = COMPLETED \<and> job_wf j \<and>
     sj_results j = [\<lparr>ur_id = ''cutout'', ur_url = ''s3://b/k'', ur_size = None, ur_mime_type = None, ur_signed = False\<rparr>]"
proof -
  let ?r = "\<lparr>wr_result_id = ''cutout'', wr_url = ''s3://b/k'', wr_size = None, wr_mime_type = None\<rparr>"
  obtain i w j where "stored_jobs demo_owner w = (stored_jobs demo_owner demo_start)(i \<mapsto> j)" "job_wf j"
    "sj_phase j = COMPLETED" "sj_results j = map from_worker_result [?r]"
    using uws_job_lifecycle [OF demo_token world_init_good [of 63897638399500000] demo_params_some demo_parse(1,2),
        where outcome = "Returned [?r]" and urls = demo_urls and user = "''ann''" and run_id = None and slack = None
          and t = 63897638399500000 and fuel = 0]
    by auto
  then show ?thesis by (intro exI [of _ i] exI [of _ w] exI [of _ j]) (simp add: from_worker_result_def)
qed

theorem uws_wait_bounded_witness:
  "\<exists>w job. sj_phase job = EXECUTING \<and>
     wait_for_job demo_cfg (mock_env (cfg_wobbly_url demo_cfg) (\<lambda>_. w)) demo_token_ann (job\<lparr>sj_phase := QUEUED\<rparr>) [QUEUED] 60000000 demo_start
       = (Inr job, w)"
proof -
  obtain w i m j job where w: "world_good w" "stored_jobs demo_owner w i = Some j" "read_job demo_cfg j = Inr job"
    "sj_phase j = EXECUTING" by (rule demo_executing)
  let ?job = "job\<lparr>sj_phase := QUEUED\<rparr>"
  note id = stored_job_id [OF w(1,2)] and f = read_job_fields [OF w(3)]
  have i: "sj_id job = i" "simple_id i" using id f by simp_all
  have a: "stored_answer demo_cfg demo_owner i w = Inr job" using w by (simp add: stored_answer_def)
  have W: "poll_world (\<lambda>_. w) demo_start (Suc k) = w" for k by simp
  have seen: "phase_seen demo_cfg demo_owner ?job (\<lambda>_. w) demo_start k = Inr (if k = 0 then QUEUED else EXECUTING)" for k
    using a f w(4) W by (cases k) (simp_all add: phase_seen_def i del: poll_world.simps(2))
  have "wait_for_job demo_cfg (mock_env (cfg_wobbly_url demo_cfg) (\<lambda>_. w)) demo_token_ann ?job [QUEUED] 60000000 demo_start = (Inr job, w)"
    using uws_wait_bounded [where token = demo_token_ann and own = demo_owner and bg = "\<lambda>_. w" and w = demo_start and job = ?job
        and cfg = demo_cfg and timeout = 60000000 and until_not = "[QUEUED]"] demo_token w(1) world_init_good i a
    unfolding seen by (auto simp: Let_def)
  then show ?thesis using f w(4) by (intro exI [of _ w] exI [of _ job]) simp
qed

theorem uws_completion_never_ends_witness:
  "\<exists>w i. map_option sj_phase (stored_jobs demo_owner w i) = Some QUEUED \<and>
     uws_job_completed 1000000 demo_cfg (quiet_env demo_cfg) None demo_token_ann i w = None"
proof -
  obtain w i m j job where w: "world_good w" "stored_jobs demo_owner w i = Some j" "read_job demo_cfg j = Inr job"
    "sj_phase j = QUEUED" "sj_message_id j = Some m" "m \<noteq> []" "world_queue w m = Some Waiting" by (rule demo_waiting)
  show ?thesis using uws_completion_never_ends [OF demo_token w(1-3,5,6), of 1000000 None] w by auto
qed

theorem uws_cancelled_unrecorded_witness:
  "\<exists>w i w1 w2. abort demo_cfg (quiet_env demo_cfg) demo_token_ann i w = (Inr (), w1) \<and>
     uws_job_completed 1 demo_cfg (quiet_env demo_cfg) None demo_token_ann i w1
       = Some (Inl (ExcOther ''TypeError'' ''CancelledError object is not iterable''), w2) \<and>
     map_option sj_phase (stored_jobs demo_owner w2 i) = Some ABORTED"
proof -
  obtain w i m j job where w: "world_good w" "stored_jobs demo_owner w i = Some j" "read_job demo_cfg j = Inr job"
    "sj_phase j = EXECUTING" "sj_message_id j = Some m" "m \<noteq> []" "world_queue w m = Some Running" by (rule demo_executing)
  show ?thesis using uws_cancelled_unrecorded [OF demo_token w, of 0] by (simp add: One_nat_def) blast
qed

end
