(* ===== verification/MultiQueue.thy ===== *)
theory MultiQueue
  imports Prelude "HOL-Library.Sublist"
begin

text \<open>
  \<open>safir.asyncio.AsyncMultiQueue\<close> (src/src/safir/asyncio/_multiqueue.py): an asyncio queue
  with several readers and writers.  The Python objects that matter are the list object behind
  \<open>_contents\<close> (\<open>clear\<close> replaces it while old readers keep their reference), the list of
  registered \<open>asyncio.Event\<close> triggers, and for every reader its generator: the list object it
  iterates over, its trigger, its position and the point where it is suspended.  List objects and
  triggers are addressed by numbers.  A generator switches to other code only at a \<open>yield\<close> or
  an \<open>await\<close>; the step relation interleaves at every step of the generator body, which allows
  all of the real interleavings.  Time is an integer clock, read by the total timeout.
\<close>

subsection \<open>State\<close>

text \<open>An element of the contents: an item, or the placeholder \<open>...\<close> for the end.\<close>

datatype 'a cell = Item (the_item: 'a) | Ellipsis

text \<open>
  Where a reader's generator stands: created but not started, at the head of the \<open>while\<close>
  loop, inside the \<open>for\<close> loop over a slice (the rest of the slice and the value of
  \<open>end\<close>), waiting for its trigger, returned, failed with \<open>TimeoutError\<close>, or closed by
  its consumer.
\<close>

datatype 'a reader_pc =
  Created | Head | Slice "'a cell list" nat | Waiting | Returned | TimedOut | Closed

record 'a reader =
  rd_list :: nat
  rd_start :: nat
  rd_deadline :: "int option"
  rd_pos :: nat
  rd_pc :: "'a reader_pc"
  rd_out :: "'a list"

record 'a mqueue =
  mq_lists :: "nat \<Rightarrow> 'a cell list"
  mq_next_list :: nat
  mq_contents :: nat
  mq_triggers :: "nat list"
  mq_set :: "nat \<Rightarrow> bool"
  mq_readers :: "nat \<rightharpoonup> 'a reader"
  mq_next_reader :: nat
  mq_now :: int

datatype mq_error = AsyncMultiQueueError

subsection \<open>Operations of the queue\<close>

definition mq_init :: "int \<Rightarrow> 'a mqueue" where
  "mq_init t = \<lparr>mq_lists = (\<lambda>_. []), mq_next_list = 1, mq_contents = 0, mq_triggers = [],
     mq_set = (\<lambda>_. False), mq_readers = Map.empty, mq_next_reader = 0, mq_now = t\<rparr>"

definition ends_closed :: "'a cell list \<Rightarrow> bool" where
  "ends_closed xs \<longleftrightarrow> xs \<noteq> [] \<and> last xs = Ellipsis"

abbreviation cur_list :: "'a mqueue \<Rightarrow> 'a cell list" where
  "cur_list q \<equiv> mq_lists q (mq_contents q)"

definition mq_finished :: "'a mqueue \<Rightarrow> bool" where
  "mq_finished q = ends_closed (cur_list q)"

definition set_triggers :: "nat list \<Rightarrow> (nat \<Rightarrow> bool) \<Rightarrow> nat \<Rightarrow> bool" where
  "set_triggers ts f = (\<lambda>t. t \<in> set ts \<or> f t)"

definition append_cell :: "nat \<Rightarrow> 'a cell \<Rightarrow> 'a mqueue \<Rightarrow> 'a mqueue" where
  "append_cell i c q = q\<lparr>mq_lists := (mq_lists q)(i := mq_lists q i @ [c])\<rparr>"

definition mq_put :: "'a \<Rightarrow> ('a mqueue, mq_error, unit) eff" where
  "mq_put x q =
     (if mq_finished q then (Inl AsyncMultiQueueError, q)
      else (Inr (), (append_cell (mq_contents q) (Item x) q)
              \<lparr>mq_set := set_triggers (mq_triggers q) (mq_set q)\<rparr>))"

definition mq_close :: "'a mqueue \<Rightarrow> 'a mqueue" where
  "mq_close q = (append_cell (mq_contents q) Ellipsis q)
     \<lparr>mq_set := set_triggers (mq_triggers q) (mq_set q)\<rparr>"

definition mq_clear :: "'a mqueue \<Rightarrow> 'a mqueue" where
  "mq_clear q =
     (let finished = mq_finished q; contents = mq_contents q; triggers = mq_triggers q;
          q' = q\<lparr>mq_lists := (mq_lists q)(mq_next_list q := []),
                 mq_contents := mq_next_list q, mq_next_list := Suc (mq_next_list q),
                 mq_triggers := []\<rparr>
      in if finished then q'
         else (append_cell contents Ellipsis q')
                \<lparr>mq_set := set_triggers triggers (mq_set q')\<rparr>)"

definition mq_qsize :: "'a mqueue \<Rightarrow> int" where
  "mq_qsize q =
     (let count = int (length (cur_list q)) in if mq_finished q then count - 1 else count)"

text \<open>
  A \<open>timedelta(0)\<close> timeout is false in Python, so it means no deadline, as \<open>None\<close> does.
  The new trigger is not set; the reader is addressed by the number of its trigger.  The start is a position in the
  contents, as it is documented; a negative number, which Python takes from the end of the slice, is left out.
\<close>

definition mq_aiter_from :: "nat \<Rightarrow> int option \<Rightarrow> 'a mqueue \<Rightarrow> nat \<times> 'a mqueue" where
  "mq_aiter_from start timeout q =
     (let end_time = (case timeout of None \<Rightarrow> None
                      | Some d \<Rightarrow> if d = 0 then None else Some (mq_now q + d));
          r = mq_next_reader q;
          rd = \<lparr>rd_list = mq_contents q, rd_start = start, rd_deadline = end_time,
                rd_pos = start, rd_pc = Created, rd_out = []\<rparr>
      in (r, q\<lparr>mq_triggers := mq_triggers q @ [r], mq_set := (mq_set q)(r := False),
               mq_readers := (mq_readers q)(r \<mapsto> rd), mq_next_reader := Suc r\<rparr>))"

definition mq_aiter :: "'a mqueue \<Rightarrow> nat \<times> 'a mqueue" where
  "mq_aiter q = mq_aiter_from 0 None q"

subsection \<open>Steps of a reader's generator\<close>

definition put_reader :: "nat \<Rightarrow> 'a reader \<Rightarrow> 'a mqueue \<Rightarrow> 'a mqueue" where
  "put_reader r rd q = q\<lparr>mq_readers := (mq_readers q)(r \<mapsto> rd)\<rparr>"

text \<open>The \<open>finally\<close> clause: the reader's trigger is dropped from the registered ones.\<close>

definition drop_trigger :: "nat \<Rightarrow> 'a mqueue \<Rightarrow> 'a mqueue" where
  "drop_trigger r q = q\<lparr>mq_triggers := filter (\<lambda>t. t \<noteq> r) (mq_triggers q)\<rparr>"

text \<open>
  One step of the generator of reader \<open>r\<close>; \<open>None\<close> when it cannot move (it waits for a
  trigger that is not set, or it is over).
\<close>

definition reader_step :: "nat \<Rightarrow> 'a mqueue \<Rightarrow> 'a mqueue option" where
  "reader_step r q =
     (case mq_readers q r of None \<Rightarrow> None
      | Some rd \<Rightarrow>
         (case rd_pc rd of
            Created \<Rightarrow> Some (put_reader r (rd\<lparr>rd_pos := rd_start rd, rd_pc := Head\<rparr>) q)
          | Head \<Rightarrow>
              (let q' = q\<lparr>mq_set := (mq_set q)(r := False)\<rparr>;
                   contents = mq_lists q (rd_list rd);
                   end = length contents
               in if rd_pos rd < end
                  then Some (put_reader r (rd\<lparr>rd_pc := Slice (drop (rd_pos rd) (take end contents)) end\<rparr>) q')
                  else if contents \<noteq> [] \<and> last contents = Ellipsis
                  then Some (drop_trigger r (put_reader r (rd\<lparr>rd_pc := Returned\<rparr>) q'))
                  else Some (put_reader r (rd\<lparr>rd_pc := Waiting\<rparr>) q'))
          | Slice [] end \<Rightarrow> Some (put_reader r (rd\<lparr>rd_pos := end, rd_pc := Waiting\<rparr>) q)
          | Slice (Ellipsis # xs) end \<Rightarrow>
              Some (drop_trigger r (put_reader r (rd\<lparr>rd_pc := Returned\<rparr>) q))
          | Slice (Item x # xs) end \<Rightarrow>
              Some (put_reader r (rd\<lparr>rd_out := rd_out rd @ [x], rd_pc := Slice xs end\<rparr>) q)
          | Waiting \<Rightarrow>
              (if mq_set q r then Some (put_reader r (rd\<lparr>rd_pc := Head\<rparr>) q) else None)
          | Returned \<Rightarrow> None | TimedOut \<Rightarrow> None | Closed \<Rightarrow> None))"

definition reader_timeout :: "nat \<Rightarrow> 'a mqueue \<Rightarrow> 'a mqueue option" where
  "reader_timeout r q =
     (case mq_readers q r of None \<Rightarrow> None
      | Some rd \<Rightarrow>
         (case (rd_pc rd, rd_deadline rd) of
            (Waiting, Some d) \<Rightarrow>
              (if d \<le> mq_now q then Some (drop_trigger r (put_reader r (rd\<lparr>rd_pc := TimedOut\<rparr>) q))
               else None)
          | _ \<Rightarrow> None))"

text \<open>
  The consumer gives up on the iterator.  Closing a generator that never started runs none of
  its code, so its trigger stays registered.
\<close>

definition reader_close :: "nat \<Rightarrow> 'a mqueue \<Rightarrow> 'a mqueue option" where
  "reader_close r q =
     (case mq_readers q r of None \<Rightarrow> None
      | Some rd \<Rightarrow>
         (if rd_pc rd = Created then Some (put_reader r (rd\<lparr>rd_pc := Closed\<rparr>) q)
          else if rd_pc rd \<in> {Returned, TimedOut, Closed} then None
          else Some (drop_trigger r (put_reader r (rd\<lparr>rd_pc := Closed\<rparr>) q))))"

inductive mq_step :: "'a mqueue \<Rightarrow> 'a mqueue \<Rightarrow> bool" where
  put: "mq_put x q = (r, q') \<Longrightarrow> mq_step q q'"
| close: "mq_step q (mq_close q)"
| clear: "mq_step q (mq_clear q)"
| aiter: "mq_aiter_from n d q = (r, q') \<Longrightarrow> mq_step q q'"
| read: "reader_step r q = Some q' \<Longrightarrow> mq_step q q'"
| expire: "reader_timeout r q = Some q' \<Longrightarrow> mq_step q q'"
| aclose: "reader_close r q = Some q' \<Longrightarrow> mq_step q q'"
| tick: "0 \<le> d \<Longrightarrow> mq_step q (q\<lparr>mq_now := mq_now q + d\<rparr>)"

inductive mq_reach :: "'a mqueue \<Rightarrow> bool" where
  start: "mq_reach (mq_init t)"
| step: "mq_reach q \<Longrightarrow> mq_step q q' \<Longrightarrow> mq_reach q'"


subsection \<open>What the contents mean\<close>

text \<open>The items a list object offers to a reader: everything before the first placeholder.\<close>

definition items :: "'a cell list \<Rightarrow> 'a list" where
  "items xs = map the_item (takeWhile (\<lambda>c. c \<noteq> Ellipsis) xs)"

definition well_closed :: "'a cell list \<Rightarrow> bool" where
  "well_closed xs \<longleftrightarrow> (\<exists>ys n. xs = map Item ys @ replicate n Ellipsis)"

lemma items_map_Item [simp]: "items (map Item xs) = xs"
  by (induction xs) (auto simp: items_def)

lemma items_Item_append [simp]: "items (map Item xs @ ys) = xs @ items ys"
  by (induction xs) (auto simp: items_def)

lemma items_Ellipsis [simp]: "items (Ellipsis # xs) = []" "items [] = []" "items (Item x # xs) = x # items xs"
  by (simp_all add: items_def)

lemma items_append_prefix: "prefix (items xs) (items (xs @ ys))"
proof (induction xs)
  case Nil
  show ?case by simp
next
  case (Cons c xs)
  then show ?case by (cases c) auto
qed

lemma items_append_Ellipsis [simp]: "items (xs @ [Ellipsis]) = items xs"
proof (induction xs)
  case Nil
  show ?case by simp
next
  case (Cons c xs)
  then show ?case by (cases c) auto
qed

lemma items_drop_Ellipsis [simp]: "items (drop n (xs @ [Ellipsis])) = items (drop n xs)"
proof (cases "n \<le> length xs")
  case True
  then show ?thesis by simp
next
  case False
  then obtain m where "n = length xs + Suc m"
    using less_imp_Suc_add by (metis add_Suc_right linorder_not_le)
  then show ?thesis by simp
qed

lemma items_replicate [simp]: "items (replicate n Ellipsis) = []"
  by (cases n) simp_all

lemma ends_closed_append [simp]: "ends_closed (xs @ [c]) \<longleftrightarrow> c = Ellipsis"
  by (auto simp: ends_closed_def)

lemma ends_closed_Nil [simp]: "\<not> ends_closed []"
  by (simp add: ends_closed_def)

lemma well_closed_Nil [simp]: "well_closed []"
  unfolding well_closed_def by (intro exI [of _ "[]"] exI [of _ 0]) simp

lemma well_closed_open: "well_closed xs \<Longrightarrow> \<not> ends_closed xs \<Longrightarrow> xs = map Item (items xs)"
  by (auto simp: well_closed_def ends_closed_def last_append split: if_splits)

lemma well_closed_append_Ellipsis: "well_closed xs \<Longrightarrow> well_closed (xs @ [Ellipsis])"
  unfolding well_closed_def
  by (metis append.assoc replicate_Suc replicate_append_same)

lemma well_closed_append_Item: "well_closed xs \<Longrightarrow> \<not> ends_closed xs \<Longrightarrow> well_closed (xs @ [Item x])"
  unfolding well_closed_def [of "xs @ [Item x]"]
  by (intro exI [of _ "items xs @ [x]"] exI [of _ 0])
    (simp add: well_closed_open [symmetric])

lemma well_closed_last: "well_closed xs \<Longrightarrow> Ellipsis \<in> set xs \<Longrightarrow> ends_closed xs"
  by (auto simp: well_closed_def ends_closed_def last_append split: if_splits)

subsection \<open>What a reader has seen\<close>

text \<open>
  Between start position \<open>s\<close> and position \<open>k\<close> the reader has yielded exactly the cells of
  the list, all of them items.
\<close>

definition seen :: "nat \<Rightarrow> nat \<Rightarrow> 'a list \<Rightarrow> 'a cell list \<Rightarrow> bool" where
  "seen s k out xs \<longleftrightarrow> s \<le> k \<and> (k = s \<or> k \<le> length xs) \<and> map Item out = drop s (take k xs)"

fun active :: "'a reader_pc \<Rightarrow> bool" where
  "active Returned = False" | "active TimedOut = False" | "active Closed = False" | "active _ = True"

fun pc_ok :: "'a cell list \<Rightarrow> bool \<Rightarrow> nat \<Rightarrow> nat \<Rightarrow> 'a list \<Rightarrow> 'a reader_pc \<Rightarrow> bool" where
  "pc_ok xs b s p out Created = (out = [])"
| "pc_ok xs b s p out Head = seen s p out xs"
| "pc_ok xs b s p out (Slice ys e) =
     (e \<le> length xs \<and> s \<le> p \<and> p < e \<and> (\<exists>k \<le> e. seen s k out xs \<and> p \<le> k \<and> ys = drop k (take e xs)) \<and>
      (\<not> b \<longrightarrow> e = length xs))"
| "pc_ok xs b s p out Waiting =
     (seen s p out xs \<and> (\<not> b \<longrightarrow> length xs \<le> p \<and> \<not> ends_closed xs))"
| "pc_ok xs b s p out Returned = (ends_closed xs \<and> out = items (drop s xs))"
| "pc_ok xs b s p out TimedOut = prefix out (items (drop s xs))"
| "pc_ok xs b s p out Closed = prefix out (items (drop s xs))"

definition rd_ok :: "'a cell list \<Rightarrow> bool \<Rightarrow> 'a reader \<Rightarrow> bool" where
  "rd_ok xs b rd = pc_ok xs b (rd_start rd) (rd_pos rd) (rd_out rd) (rd_pc rd)"

definition mq_inv :: "'a mqueue \<Rightarrow> bool" where
  "mq_inv q \<longleftrightarrow>
     mq_contents q < mq_next_list q \<and>
     (\<forall>i. well_closed (mq_lists q i)) \<and>
     (\<forall>i < mq_next_list q. i \<noteq> mq_contents q \<longrightarrow> ends_closed (mq_lists q i)) \<and>
     (\<forall>r rd. mq_readers q r = Some rd \<longrightarrow>
        r < mq_next_reader q \<and> rd_list rd < mq_next_list q \<and>
        rd_ok (mq_lists q (rd_list rd)) (mq_set q r) rd \<and>
        (rd_list rd = mq_contents q \<and> active (rd_pc rd) \<longrightarrow> r \<in> set (mq_triggers q)))"

lemma seen_append: "seen s k out xs \<Longrightarrow> seen s k out (xs @ ys)"
  by (auto simp: seen_def)

lemma seen_prefix:
  assumes "seen s k out xs"
  shows "prefix out (items (drop s xs))"
proof (cases "k = s")
  case True
  then show ?thesis using assms by (simp add: seen_def)
next
  case False
  then have k: "s \<le> k" "k \<le> length xs" and out: "map Item out = drop s (take k xs)"
    using assms by (auto simp: seen_def)
  have "drop s xs = map Item out @ drop k xs"
    using k out by (metis append_take_drop_id diff_is_0_eq' drop_0 drop_append length_take min.absorb2)
  then show ?thesis by simp
qed

lemma seen_all:
  assumes "seen s k out xs" "length xs \<le> k"
  shows "out = items (drop s xs)"
proof -
  have "map Item out = drop s xs" using assms by (auto simp: seen_def)
  then show ?thesis by (metis items_map_Item)
qed

lemma seen_step:
  assumes "seen s k out xs" "k < length xs" "xs ! k = Item x"
  shows "seen s (Suc k) (out @ [x]) xs"
  using assms by (auto simp: seen_def take_Suc_conv_app_nth)

lemma seen_end:
  assumes "seen s k out xs" "k < length xs" "xs ! k = Ellipsis"
  shows "out = items (drop s xs)"
proof -
  have "drop s xs = map Item out @ drop k xs"
    using assms(1,2) unfolding seen_def
    by (metis append_take_drop_id diff_is_0_eq' drop_0 drop_append length_take less_imp_le min.absorb2)
  also have "drop k xs = Ellipsis # drop (Suc k) xs"
    using assms(2,3) by (metis Cons_nth_drop_Suc)
  finally show ?thesis by simp
qed

lemma seen_open:
  assumes "seen s (length xs) out xs" "s < length xs"
  shows "\<not> ends_closed xs"
proof
  assume "ends_closed xs"
  moreover have out: "map Item out = drop s xs" using assms(1) by (simp add: seen_def)
  moreover have "out \<noteq> []" using out assms(2) by auto
  ultimately show False
    using assms(2) by (metis cell.distinct(1) ends_closed_def last_drop last_map)
qed

lemma rd_ok_prefix: "rd_ok xs b rd \<Longrightarrow> prefix (rd_out rd) (items (drop (rd_start rd) xs))"
  by (cases "rd_pc rd") (auto simp: rd_ok_def intro: seen_prefix)

text \<open>Appending a cell and setting the trigger of every active reader keeps the readers' view.\<close>

lemma rd_ok_append:
  assumes ok: "rd_ok xs b rd" and c: "ends_closed xs \<longrightarrow> c = Ellipsis"
    and b': "active (rd_pc rd) \<longrightarrow> b'"
  shows "rd_ok (xs @ [c]) b' rd"
proof (cases "rd_pc rd")
  case (Slice ys e)
  then obtain k where "k \<le> e" "e \<le> length xs" "rd_start rd \<le> rd_pos rd" "rd_pos rd < e" "seen (rd_start rd) k (rd_out rd) xs"
      "rd_pos rd \<le> k" "ys = drop k (take e xs)"
    using ok by (auto simp: rd_ok_def)
  then show ?thesis using Slice b' by (auto simp: rd_ok_def intro!: exI [of _ k] seen_append)
next
  case TimedOut
  with ok show ?thesis
    by (auto simp: rd_ok_def intro: prefix_order.trans [OF _ items_append_prefix])
next
  case Closed
  with ok show ?thesis
    by (auto simp: rd_ok_def intro: prefix_order.trans [OF _ items_append_prefix])
qed (use ok c b' in \<open>auto simp: rd_ok_def intro: seen_append simp del: drop_append\<close>)


subsection \<open>The invariant and its preservation\<close>

lemma mq_invD:
  assumes "mq_inv q"
  shows "mq_contents q < mq_next_list q" and "well_closed (mq_lists q i)"
    and "i < mq_next_list q \<Longrightarrow> i \<noteq> mq_contents q \<Longrightarrow> ends_closed (mq_lists q i)"
    and "mq_readers q r = Some rd \<Longrightarrow> r < mq_next_reader q"
    and "mq_readers q r = Some rd \<Longrightarrow> rd_list rd < mq_next_list q"
    and "mq_readers q r = Some rd \<Longrightarrow> rd_ok (mq_lists q (rd_list rd)) (mq_set q r) rd"
    and "mq_readers q r = Some rd \<Longrightarrow> rd_list rd = mq_contents q \<Longrightarrow> active (rd_pc rd) \<Longrightarrow>
      r \<in> set (mq_triggers q)"
  using assms by (auto simp: mq_inv_def)

lemma rd_ok_set: "rd_ok xs b rd \<Longrightarrow> rd_ok xs True rd"
  by (cases "rd_pc rd") (auto simp: rd_ok_def)

lemma rd_ok_mono: "rd_ok xs b rd \<Longrightarrow> (b \<longrightarrow> b') \<Longrightarrow> rd_ok xs b' rd"
  by (cases b; cases b') (auto dest: rd_ok_set)

lemma mq_inv_init: "mq_inv (mq_init t)"
  by (simp add: mq_inv_def mq_init_def)

text \<open>Writing a cell to the current list and waking all registered readers.\<close>

lemma mq_inv_append:
  assumes inv: "mq_inv q" and c: "ends_closed (cur_list q) \<longrightarrow> c = Ellipsis"
  shows "mq_inv ((append_cell (mq_contents q) c q)\<lparr>mq_set := set_triggers (mq_triggers q) (mq_set q)\<rparr>)"
    (is "mq_inv ?q'")
proof -
  note D = mq_invD [OF inv]
  have wc: "well_closed (mq_lists ?q' i)" for i
    using D(2) c by (cases c) (auto simp: append_cell_def intro: well_closed_append_Ellipsis well_closed_append_Item)
  have "rd_ok (mq_lists ?q' (rd_list rd)) (mq_set ?q' r) rd" if rd: "mq_readers q r = Some rd" for r rd
  proof (cases "rd_list rd = mq_contents q")
    case True
    then show ?thesis using rd_ok_append [OF D(6) [OF rd], of c] c D(7) [OF rd]
      by (auto simp: append_cell_def set_triggers_def)
  next
    case False
    then show ?thesis using rd_ok_mono [OF D(6) [OF rd]] by (simp add: append_cell_def set_triggers_def)
  qed
  then show ?thesis using wc D by (auto simp: mq_inv_def append_cell_def)
qed

lemma mq_inv_put:
  assumes "mq_put x q = (r, q')" "mq_inv q"
  shows "mq_inv q'"
proof (cases "mq_finished q")
  case True
  then show ?thesis using assms by (simp add: mq_put_def)
next
  case False
  then show ?thesis using assms mq_inv_append [of q "Item x"] by (auto simp: mq_put_def mq_finished_def)
qed

lemma mq_inv_close: "mq_inv q \<Longrightarrow> mq_inv (mq_close q)"
  by (simp add: mq_close_def mq_inv_append)

text \<open>
  Replacing the contents: the new list object is fresh, and the old one ends with the
  placeholder, whether \<open>close\<close> or \<open>clear\<close> put it there.
\<close>

definition swap_list :: "'a mqueue \<Rightarrow> 'a mqueue" where
  "swap_list q = q\<lparr>mq_lists := (mq_lists q)(mq_next_list q := []), mq_contents := mq_next_list q,
     mq_next_list := Suc (mq_next_list q), mq_triggers := []\<rparr>"

lemma mq_inv_swap:
  assumes inv: "mq_inv q" and fin: "ends_closed (cur_list q)"
  shows "mq_inv (swap_list q)"
proof -
  note D = mq_invD [OF inv]
  have "ends_closed (mq_lists q i)" if "i < mq_next_list q" for i
    using that fin D(3) by (cases "i = mq_contents q") auto
  moreover have "rd_list rd \<noteq> mq_next_list q" if "mq_readers q r = Some rd" for r rd
    using D(5) [OF that] by simp
  ultimately show ?thesis using D
    by (fastforce simp: mq_inv_def swap_list_def less_Suc_eq)
qed

lemma mq_clear_eq:
  "mq_clear q = (if mq_finished q then swap_list q else swap_list (mq_close q))"
  if "mq_inv q" for q :: "'a mqueue"
  using mq_invD(1) [OF that]
  by (auto simp: mq_clear_def swap_list_def mq_close_def append_cell_def Let_def fun_upd_twist)

lemma mq_inv_clear: "mq_inv q \<Longrightarrow> mq_inv (mq_clear q)"
  by (auto simp: mq_clear_eq mq_finished_def mq_close_def append_cell_def
      intro: mq_inv_swap mq_inv_append intro!: mq_inv_swap [OF mq_inv_close [unfolded mq_close_def append_cell_def]])

lemma mq_inv_aiter:
  assumes "mq_aiter_from n d q = (r, q')" "mq_inv q"
  shows "mq_inv q'"
proof -
  note D = mq_invD [OF assms(2)]
  have fresh: "mq_readers q (mq_next_reader q) = None"
    using D(4) [of "mq_next_reader q"] by (cases "mq_readers q (mq_next_reader q)") auto
  show ?thesis using assms(1) D fresh
    by (auto simp: mq_inv_def mq_aiter_from_def Let_def rd_ok_def less_Suc_eq split: if_splits)
qed

text \<open>A step that rewrites one reader: enough that its new record is in order.\<close>

lemma mq_inv_put_reader:
  assumes inv: "mq_inv q" and rd: "mq_readers q r = Some rd"
    and same: "rd_list rd' = rd_list rd" and act: "active (rd_pc rd') \<Longrightarrow> active (rd_pc rd)"
    and ok: "rd_ok (mq_lists q (rd_list rd)) b rd'"
  shows "mq_inv (put_reader r rd' (q\<lparr>mq_set := (mq_set q)(r := b)\<rparr>))"
  using mq_invD [OF inv] rd same act ok by (auto simp: mq_inv_def put_reader_def)

lemma mq_inv_drop_trigger:
  assumes "mq_inv q" "\<And>rd. mq_readers q r = Some rd \<Longrightarrow> \<not> active (rd_pc rd)"
  shows "mq_inv (drop_trigger r q)"
  using assms by (auto simp: mq_inv_def drop_trigger_def)

lemma mq_set_idem [simp]: "q\<lparr>mq_set := (mq_set q)(r := mq_set q r)\<rparr> = q"
  by simp

lemma mq_inv_finish:
  assumes inv: "mq_inv q" and rd: "mq_readers q r = Some rd"
    and same: "rd_list rd' = rd_list rd" and stop: "\<not> active (rd_pc rd')"
    and ok: "rd_ok (mq_lists q (rd_list rd)) b rd'"
  shows "mq_inv (drop_trigger r (put_reader r rd' (q\<lparr>mq_set := (mq_set q)(r := b)\<rparr>)))"
  by (rule mq_inv_drop_trigger [OF mq_inv_put_reader [OF inv rd same _ ok]])
    (use stop in \<open>auto simp: put_reader_def\<close>)

lemmas mq_inv_put_reader' = mq_inv_put_reader [where b = "mq_set q r" and q = q and r = r for q r, unfolded mq_set_idem]
lemmas mq_inv_finish' = mq_inv_finish [where b = "mq_set q r" and q = q and r = r for q r, unfolded mq_set_idem]


lemma slice_Cons:
  assumes "k \<le> e" "e \<le> length xs" "c # cs = drop k (take e xs)"
  shows "k < e" and "xs ! k = c" and "cs = drop (Suc k) (take e xs)"
proof -
  have "drop k (take e xs) \<noteq> []" using assms(3) by (metis list.distinct(1))
  then show k: "k < e" using assms(1,2) by (simp add: linorder_not_le [symmetric])
  then have "drop k (take e xs) = xs ! k # drop (Suc k) (take e xs)"
    using assms(2) by (simp add: Cons_nth_drop_Suc [symmetric])
  with assms(3) show "xs ! k = c" "cs = drop (Suc k) (take e xs)" by simp_all
qed

lemma mq_inv_head:
  assumes inv: "mq_inv q" and rd: "mq_readers q r = Some rd" and pc: "rd_pc rd = Head"
    and st: "reader_step r q = Some q'"
  shows "mq_inv q'"
proof -
  note D = mq_invD [OF inv]
  let ?xs = "mq_lists q (rd_list rd)"
  have sn: "seen (rd_start rd) (rd_pos rd) (rd_out rd) ?xs"
    using D(6) [OF rd] pc by (simp add: rd_ok_def)
  consider (more) "rd_pos rd < length ?xs"
    | (fin) "length ?xs \<le> rd_pos rd" "ends_closed ?xs"
    | (wait) "length ?xs \<le> rd_pos rd" "\<not> ends_closed ?xs" by linarith
  then show ?thesis
  proof cases
    case more
    let ?rd = "rd\<lparr>rd_pc := Slice (drop (rd_pos rd) (take (length ?xs) ?xs)) (length ?xs)\<rparr>"
    have "rd_ok ?xs False ?rd"
      using sn more by (auto simp: rd_ok_def seen_def intro!: exI [of _ "rd_pos rd"])
    then show ?thesis using st rd pc more mq_inv_put_reader [OF inv rd, of ?rd False]
      by (simp add: reader_step_def Let_def)
  next
    case fin
    have "rd_ok ?xs False (rd\<lparr>rd_pc := Returned\<rparr>)"
      using seen_all [OF sn fin(1)] fin(2) by (simp add: rd_ok_def)
    then show ?thesis using st rd pc fin mq_inv_finish [OF inv rd, of "rd\<lparr>rd_pc := Returned\<rparr>" False]
      by (simp add: reader_step_def Let_def ends_closed_def)
  next
    case wait
    have "rd_ok ?xs False (rd\<lparr>rd_pc := Waiting\<rparr>)" using sn wait by (simp add: rd_ok_def)
    then show ?thesis using st rd pc wait mq_inv_put_reader [OF inv rd, of "rd\<lparr>rd_pc := Waiting\<rparr>" False]
      by (auto simp: reader_step_def Let_def ends_closed_def)
  qed
qed

lemma mq_inv_slice:
  assumes inv: "mq_inv q" and rd: "mq_readers q r = Some rd" and pc: "rd_pc rd = Slice cs e"
    and st: "reader_step r q = Some q'"
  shows "mq_inv q'"
proof -
  note D = mq_invD [OF inv]
  let ?xs = "mq_lists q (rd_list rd)"
  obtain k where k: "k \<le> e" "e \<le> length ?xs" "rd_pos rd < e" "rd_pos rd \<le> k"
      "cs = drop k (take e ?xs)"
    and sp: "rd_start rd \<le> rd_pos rd"
    and sn: "seen (rd_start rd) k (rd_out rd) ?xs" and b: "\<not> mq_set q r \<longrightarrow> e = length ?xs"
    using D(6) [OF rd] pc by (auto simp: rd_ok_def)
  show ?thesis
  proof (cases cs)
    case Nil
    then have ke: "k = e" using k by simp
    have "\<not> ends_closed ?xs" if "e = length ?xs"
      using seen_open [of "rd_start rd" ?xs "rd_out rd"] sn sp k that ke by simp
    then have "rd_ok ?xs (mq_set q r) (rd\<lparr>rd_pos := e, rd_pc := Waiting\<rparr>)"
      using sn ke b by (auto simp: rd_ok_def)
    then show ?thesis using st rd pc Nil mq_inv_put_reader' [OF inv rd, of "rd\<lparr>rd_pos := e, rd_pc := Waiting\<rparr>"]
      by (simp add: reader_step_def)
  next
    case (Cons c cs')
    note S = slice_Cons [OF k(1,2) k(5) [symmetric, unfolded Cons, symmetric]]
    show ?thesis
    proof (cases c)
      case (Item x)
      let ?rd = "rd\<lparr>rd_out := rd_out rd @ [x], rd_pc := Slice cs' e\<rparr>"
      have "rd_ok ?xs (mq_set q r) ?rd"
        using seen_step [OF sn _ S(2) [unfolded Item]] S k b sp by (auto simp: rd_ok_def intro!: exI [of _ "Suc k"])
      then show ?thesis using st rd pc Cons Item mq_inv_put_reader' [OF inv rd, of ?rd]
        by (simp add: reader_step_def)
    next
      case Ellipsis
      have "?xs ! k = Ellipsis" "k < length ?xs" using S Ellipsis k by auto
      then have "ends_closed ?xs" using well_closed_last [OF D(2)] by (metis nth_mem)
      then have "rd_ok ?xs (mq_set q r) (rd\<lparr>rd_pc := Returned\<rparr>)"
        using seen_end [OF sn] S Ellipsis k by (simp add: rd_ok_def)
      then show ?thesis using st rd pc Cons Ellipsis mq_inv_finish' [OF inv rd, of "rd\<lparr>rd_pc := Returned\<rparr>"]
        by (simp add: reader_step_def)
    qed
  qed
qed


lemma mq_inv_read:
  assumes inv: "mq_inv q" and st: "reader_step r q = Some q'"
  shows "mq_inv q'"
proof -
  obtain rd where rd: "mq_readers q r = Some rd"
    using st by (auto simp: reader_step_def split: option.splits)
  note ok = mq_invD(6) [OF inv rd]
  show ?thesis
  proof (cases "rd_pc rd")
    case Created
    let ?rd = "rd\<lparr>rd_pos := rd_start rd, rd_pc := Head\<rparr>"
    have "rd_ok (mq_lists q (rd_list rd)) (mq_set q r) ?rd"
      using ok Created by (simp add: rd_ok_def seen_def)
    then show ?thesis using st rd Created mq_inv_put_reader' [OF inv rd, of ?rd]
      by (simp add: reader_step_def)
  next
    case Head
    show ?thesis by (rule mq_inv_head [OF inv rd Head st])
  next
    case (Slice cs e)
    show ?thesis by (rule mq_inv_slice [OF inv rd Slice st])
  next
    case Waiting
    have "rd_ok (mq_lists q (rd_list rd)) (mq_set q r) (rd\<lparr>rd_pc := Head\<rparr>)"
      using ok Waiting by (simp add: rd_ok_def)
    then show ?thesis using st rd Waiting mq_inv_put_reader' [OF inv rd, of "rd\<lparr>rd_pc := Head\<rparr>"]
      by (auto simp: reader_step_def split: if_splits)
  qed (use st rd in \<open>simp_all add: reader_step_def\<close>)
qed

lemma rd_ok_stop:
  "rd_ok xs b rd \<Longrightarrow> pc \<in> {TimedOut, Closed} \<Longrightarrow> rd_ok xs b (rd\<lparr>rd_pc := pc\<rparr>)"
  by (drule rd_ok_prefix) (auto simp: rd_ok_def)

lemma mq_inv_timeout:
  assumes inv: "mq_inv q" and st: "reader_timeout r q = Some q'"
  shows "mq_inv q'"
proof -
  obtain rd where rd: "mq_readers q r = Some rd"
    and q': "q' = drop_trigger r (put_reader r (rd\<lparr>rd_pc := TimedOut\<rparr>) q)"
    using st by (auto simp: reader_timeout_def split: option.splits reader_pc.splits if_splits)
  show ?thesis unfolding q'
    by (rule mq_inv_finish' [OF inv rd]) (use rd_ok_stop [OF mq_invD(6) [OF inv rd]] in auto)
qed

lemma mq_inv_aclose:
  assumes inv: "mq_inv q" and st: "reader_close r q = Some q'"
  shows "mq_inv q'"
proof -
  obtain rd where rd: "mq_readers q r = Some rd"
    and q': "q' = put_reader r (rd\<lparr>rd_pc := Closed\<rparr>) q \<or>
      q' = drop_trigger r (put_reader r (rd\<lparr>rd_pc := Closed\<rparr>) q)"
    using st by (auto simp: reader_close_def split: option.splits if_splits)
  have ok: "rd_ok (mq_lists q (rd_list rd)) (mq_set q r) (rd\<lparr>rd_pc := Closed\<rparr>)"
    using rd_ok_stop [OF mq_invD(6) [OF inv rd]] by simp
  show ?thesis using q' mq_inv_put_reader' [OF inv rd _ _ ok] mq_inv_finish' [OF inv rd _ _ ok] by auto
qed

lemma mq_inv_tick: "mq_inv q \<Longrightarrow> mq_inv (q\<lparr>mq_now := t\<rparr>)"
  by (simp add: mq_inv_def)

lemma mq_step_inv: "mq_step q q' \<Longrightarrow> mq_inv q \<Longrightarrow> mq_inv q'"
  by (induction rule: mq_step.induct)
    (auto intro: mq_inv_put mq_inv_close mq_inv_clear mq_inv_aiter mq_inv_read mq_inv_timeout
      mq_inv_aclose mq_inv_tick)

lemma mq_reach_inv: "mq_reach q \<Longrightarrow> mq_inv q"
  by (induction rule: mq_reach.induct) (auto intro: mq_inv_init mq_step_inv)


subsection \<open>Running one reader until it blocks\<close>

fun run_reader :: "nat \<Rightarrow> nat \<Rightarrow> 'a mqueue \<Rightarrow> 'a mqueue" where
  "run_reader 0 r q = q"
| "run_reader (Suc n) r q = (case reader_step r q of None \<Rightarrow> q | Some q' \<Rightarrow> run_reader n r q')"

text \<open>How many steps a reader has left while nobody writes.\<close>

fun pc_rank :: "nat \<Rightarrow> bool \<Rightarrow> nat \<Rightarrow> nat \<Rightarrow> 'a reader_pc \<Rightarrow> nat" where
  "pc_rank n b s p Created = (n - s) + 4"
| "pc_rank n b s p Head = (n - p) + 3"
| "pc_rank n b s p (Slice xs e) = length xs + 1 + (if b then (n - e) + 4 else 0)"
| "pc_rank n b s p Waiting = (if b then (n - p) + 4 else 0)"
| "pc_rank n b s p _ = 0"

definition rank :: "nat \<Rightarrow> 'a mqueue \<Rightarrow> nat" where
  "rank r q = (case mq_readers q r of None \<Rightarrow> 0
     | Some rd \<Rightarrow> pc_rank (length (mq_lists q (rd_list rd))) (mq_set q r) (rd_start rd) (rd_pos rd) (rd_pc rd))"

lemma reader_step_lists: "reader_step r q = Some q' \<Longrightarrow> mq_lists q' = mq_lists q"
  by (auto simp: reader_step_def put_reader_def drop_trigger_def Let_def
      split: option.splits reader_pc.splits list.splits cell.splits if_splits)

lemma reader_step_same:
  "reader_step r q = Some q' \<Longrightarrow> mq_readers q r = Some rd \<Longrightarrow>
    \<exists>rd'. mq_readers q' r = Some rd' \<and> rd_list rd' = rd_list rd \<and> rd_start rd' = rd_start rd"
  by (auto simp: reader_step_def put_reader_def drop_trigger_def Let_def
      split: reader_pc.splits list.splits cell.splits if_splits)

lemma reader_step_rank: "reader_step r q = Some q' \<Longrightarrow> rank r q' < rank r q"
  by (auto simp: rank_def reader_step_def put_reader_def drop_trigger_def Let_def
      split: option.splits reader_pc.splits list.splits cell.splits if_splits)

lemma run_reader_stops: "rank r q \<le> n \<Longrightarrow> reader_step r (run_reader n r q) = None"
proof (induction n arbitrary: q)
  case 0
  then show ?case by (cases "reader_step r q") (auto dest: reader_step_rank)
next
  case (Suc n)
  then show ?case by (cases "reader_step r q") (auto dest: reader_step_rank)
qed

lemma run_reader_inv: "mq_inv q \<Longrightarrow> mq_inv (run_reader n r q)"
  by (induction n arbitrary: q) (auto split: option.splits intro: mq_inv_read)

lemma run_reader_frame:
  "mq_readers q r = Some rd \<Longrightarrow> mq_lists (run_reader n r q) = mq_lists q \<and>
     (\<exists>rd'. mq_readers (run_reader n r q) r = Some rd' \<and> rd_list rd' = rd_list rd \<and> rd_start rd' = rd_start rd)"
proof (induction n arbitrary: q rd)
  case 0
  then show ?case by simp
next
  case (Suc n)
  show ?case
  proof (cases "reader_step r q")
    case None
    with Suc.prems show ?thesis by simp
  next
    case (Some q')
    obtain rd' where "mq_readers q' r = Some rd'" "rd_list rd' = rd_list rd" "rd_start rd' = rd_start rd"
      using reader_step_same [OF Some Suc.prems] by blast
    with Suc.IH [of q' rd'] reader_step_lists [OF Some] Some show ?thesis by simp
  qed
qed

lemma rank_bound:
  assumes "mq_inv q" "mq_readers q r = Some rd"
  shows "rank r q \<le> length (mq_lists q (rd_list rd)) + 5"
  using mq_invD(6) [OF assms] assms(2) by (cases "rd_pc rd") (auto simp: rank_def rd_ok_def)

text \<open>A reader that cannot move and has not been stopped from outside has yielded everything.\<close>

lemma stuck_reader:
  assumes inv: "mq_inv q" and rd: "mq_readers q r = Some rd" and st: "reader_step r q = None"
    and pc: "rd_pc rd \<notin> {TimedOut, Closed}"
  shows "rd_out rd = items (drop (rd_start rd) (mq_lists q (rd_list rd)))"
proof -
  consider "rd_pc rd = Returned" | "rd_pc rd = Waiting" "\<not> mq_set q r"
    using st rd pc
    by (auto simp: reader_step_def Let_def split: reader_pc.splits list.splits cell.splits if_splits)
  then show ?thesis
    using mq_invD(6) [OF inv rd] seen_all by cases (auto simp: rd_ok_def)
qed

lemma stuck_reader_end:
  assumes inv: "mq_inv q" and rd: "mq_readers q r = Some rd" and st: "reader_step r q = None"
    and pc: "rd_pc rd \<notin> {TimedOut, Closed}"
  shows "if ends_closed (mq_lists q (rd_list rd)) then rd_pc rd = Returned else rd_pc rd = Waiting \<and> \<not> mq_set q r"
proof -
  consider "rd_pc rd = Returned" | "rd_pc rd = Waiting" "\<not> mq_set q r"
    using st rd pc
    by (auto simp: reader_step_def Let_def split: reader_pc.splits list.splits cell.splits if_splits)
  then show ?thesis
    using mq_invD(6) [OF inv rd] by cases (auto simp: rd_ok_def)
qed

text \<open>A reader that returns drops its trigger.\<close>

lemma reader_step_returned:
  "reader_step r q = Some q' \<Longrightarrow> mq_readers q' r = Some rd' \<Longrightarrow> rd_pc rd' = Returned \<Longrightarrow> r \<notin> set (mq_triggers q')"
  by (auto simp: reader_step_def put_reader_def drop_trigger_def Let_def
      split: option.splits reader_pc.splits list.splits cell.splits if_splits)

lemma run_reader_returned:
  "mq_readers q r = Some rd \<Longrightarrow> rd_pc rd \<noteq> Returned \<or> r \<notin> set (mq_triggers q) \<Longrightarrow>
    mq_readers (run_reader n r q) r = Some rd' \<Longrightarrow> rd_pc rd' = Returned \<Longrightarrow> r \<notin> set (mq_triggers (run_reader n r q))"
proof (induction n arbitrary: q rd)
  case 0
  then show ?case by auto
next
  case (Suc n)
  show ?case
  proof (cases "reader_step r q")
    case None
    with Suc.prems show ?thesis by auto
  next
    case (Some q1)
    obtain rd1 where rd1: "mq_readers q1 r = Some rd1"
      using reader_step_same [OF Some Suc.prems(1)] by blast
    show ?thesis
      using Suc.IH [OF rd1 _ _ Suc.prems(4)] reader_step_returned [OF Some rd1] Suc.prems(3) Some by auto
  qed
qed

lemma reader_step_stop:
  "reader_step r q = Some q' \<Longrightarrow> mq_readers q' r = Some rd' \<Longrightarrow> rd_pc rd' \<notin> {TimedOut, Closed}"
  by (auto simp: reader_step_def put_reader_def drop_trigger_def Let_def
      split: option.splits reader_pc.splits list.splits cell.splits if_splits)

lemma run_reader_stop:
  "mq_readers q r = Some rd \<Longrightarrow> rd_pc rd \<notin> {TimedOut, Closed} \<Longrightarrow>
    mq_readers (run_reader n r q) r = Some rd' \<Longrightarrow> rd_pc rd' \<notin> {TimedOut, Closed}"
proof (induction n arbitrary: q rd)
  case 0
  then show ?case by simp
next
  case (Suc n)
  show ?case
  proof (cases "reader_step r q")
    case None
    with Suc.prems show ?thesis by simp
  next
    case (Some q1)
    obtain rd1 where rd1: "mq_readers q1 r = Some rd1"
      using reader_step_same [OF Some Suc.prems(1)] by blast
    show ?thesis
      by (rule Suc.IH [OF rd1 reader_step_stop [OF Some rd1]]) (use Suc.prems Some in simp)
  qed
qed

subsection \<open>The writers' view: a log that can be closed and cleared\<close>

datatype 'a writer_op = Put 'a | Close | Clear

fun run_writers ::
  "('a \<Rightarrow> 's \<Rightarrow> ('e + unit) \<times> 's) \<Rightarrow> ('s \<Rightarrow> 's) \<Rightarrow> ('s \<Rightarrow> 's) \<Rightarrow> 'a writer_op list \<Rightarrow> 's \<Rightarrow> 's" where
  "run_writers p c l [] s = s"
| "run_writers p c l (Put x # ops) s = run_writers p c l ops (snd (p x s))"
| "run_writers p c l (Close # ops) s = run_writers p c l ops (c s)"
| "run_writers p c l (Clear # ops) s = run_writers p c l ops (l s)"

text \<open>The promise, as a machine on the logged items and a flag.\<close>

fun log_run :: "'a writer_op list \<Rightarrow> 'a list \<times> bool \<Rightarrow> 'a list \<times> bool" where
  "log_run [] s = s"
| "log_run (Put x # ops) (xs, b) = log_run ops (if b then (xs, b) else (xs @ [x], b))"
| "log_run (Close # ops) (xs, b) = log_run ops (xs, True)"
| "log_run (Clear # ops) (xs, b) = log_run ops ([], False)"

locale closable_log =
  fixes put :: "'a \<Rightarrow> 's \<Rightarrow> ('e + unit) \<times> 's"
    and close :: "'s \<Rightarrow> 's" and clear :: "'s \<Rightarrow> 's"
    and log :: "'s \<Rightarrow> 'a list" and fin :: "'s \<Rightarrow> bool" and inv :: "'s \<Rightarrow> bool"
  assumes put_open: "inv s \<Longrightarrow> \<not> fin s \<Longrightarrow>
      inv (snd (put x s)) \<and> log (snd (put x s)) = log s @ [x] \<and> \<not> fin (snd (put x s))"
    and put_closed: "inv s \<Longrightarrow> fin s \<Longrightarrow> snd (put x s) = s"
    and close_log: "inv s \<Longrightarrow> inv (close s) \<and> log (close s) = log s \<and> fin (close s)"
    and clear_log: "inv s \<Longrightarrow> inv (clear s) \<and> log (clear s) = [] \<and> \<not> fin (clear s)"
begin

lemma run_writers_log:
  "inv s \<Longrightarrow> inv (run_writers put close clear ops s) \<and>
     (log (run_writers put close clear ops s), fin (run_writers put close clear ops s)) =
        log_run ops (log s, fin s)"
proof (induction ops arbitrary: s)
  case Nil
  then show ?case by simp
next
  case (Cons a ops)
  show ?case
  proof (cases a)
    case (Put x)
    then show ?thesis
      using Cons.IH [of "snd (put x s)"] put_open [OF Cons.prems, of x] put_closed [OF Cons.prems, of x] Cons.prems
      by (cases "fin s") auto
  qed (use Cons close_log clear_log in auto)
qed

end

lemma mq_put_log:
  assumes "mq_inv q" "\<not> mq_finished q"
  shows "cur_list (snd (mq_put x q)) = map Item (items (cur_list q)) @ [Item x]"
  using assms well_closed_open [OF mq_invD(2) [OF assms(1)], of "mq_contents q"]
  by (simp add: mq_put_def append_cell_def mq_finished_def)

lemma mq_clear_log: "mq_inv q \<Longrightarrow> cur_list (mq_clear q) = []"
  by (simp add: mq_clear_eq swap_list_def)

interpretation mql: closable_log mq_put mq_close mq_clear "\<lambda>q. items (cur_list q)" mq_finished mq_inv
proof unfold_locales
  fix q :: "'a mqueue" and x
  assume inv: "mq_inv q"
  show "mq_inv (mq_close q) \<and> items (cur_list (mq_close q)) = items (cur_list q) \<and> mq_finished (mq_close q)"
    using mq_inv_close [OF inv] by (simp add: mq_close_def append_cell_def mq_finished_def)
  show "mq_inv (mq_clear q) \<and> items (cur_list (mq_clear q)) = [] \<and> \<not> mq_finished (mq_clear q)"
    using mq_inv_clear [OF inv] by (simp add: mq_clear_log [OF inv] mq_finished_def)
  show "snd (mq_put x q) = q" if "mq_finished q" using that by (simp add: mq_put_def)
  show "mq_inv (snd (mq_put x q)) \<and> items (cur_list (snd (mq_put x q))) = items (cur_list q) @ [x] \<and>
      \<not> mq_finished (snd (mq_put x q))" if "\<not> mq_finished q"
    using mq_inv_put [of x q _ "snd (mq_put x q)", OF surjective_pairing inv]
    by (simp add: mq_put_log [OF inv that] mq_finished_def)
qed


subsection \<open>Closed lists are final\<close>

lemma mq_step_frame:
  assumes "mq_step q q'" "mq_inv q" "i < mq_next_list q"
  shows "i < mq_next_list q' \<and> (i \<noteq> mq_contents q \<longrightarrow> i \<noteq> mq_contents q' \<and> mq_lists q' i = mq_lists q i)"
  using assms
proof (induction rule: mq_step.induct)
  case (put x q r q')
  then show ?case by (auto simp: mq_put_def append_cell_def split: if_splits)
next
  case (aiter n d q r q')
  then show ?case by (auto simp: mq_aiter_from_def Let_def)
next
  case (read r q q')
  then show ?case
    by (auto simp: reader_step_def put_reader_def drop_trigger_def Let_def
        split: option.splits reader_pc.splits list.splits cell.splits if_splits)
next
  case (expire r q q')
  then show ?case
    by (auto simp: reader_timeout_def put_reader_def drop_trigger_def
        split: option.splits reader_pc.splits if_splits)
next
  case (aclose r q q')
  then show ?case
    by (auto simp: reader_close_def put_reader_def drop_trigger_def split: option.splits if_splits)
qed (auto simp: mq_close_def append_cell_def mq_clear_eq swap_list_def)

lemma mq_step_closed_final:
  assumes "mq_step q q'" "mq_inv q" "i < mq_next_list q" "ends_closed (mq_lists q i)"
  shows "ends_closed (mq_lists q' i) \<and> items (drop s (mq_lists q' i)) = items (drop s (mq_lists q i))"
proof (cases "i = mq_contents q")
  case False
  then show ?thesis using mq_step_frame [OF assms(1-3)] assms(4) by simp
next
  case True
  from assms(1) have "mq_lists q' i = mq_lists q i \<or> mq_lists q' i = mq_lists q i @ [Ellipsis]"
  proof cases
    case (put x r)
    then show ?thesis using True assms(4) by (simp add: mq_put_def mq_finished_def)
  next
    case clear
    then show ?thesis using True assms(2,4) mq_invD(1) [OF assms(2)]
      by (simp add: mq_clear_eq mq_finished_def swap_list_def)
  next
    case (read r)
    then show ?thesis by (simp add: reader_step_lists)
  next
    case (expire r)
    then show ?thesis
      by (auto simp: reader_timeout_def put_reader_def drop_trigger_def
          split: option.splits reader_pc.splits if_splits)
  next
    case (aclose r)
    then show ?thesis
      by (auto simp: reader_close_def put_reader_def drop_trigger_def split: option.splits if_splits)
  qed (use True in \<open>auto simp: mq_close_def append_cell_def mq_aiter_from_def Let_def\<close>)
  then show ?thesis using assms(4) by (auto simp del: drop_append)
qed

lemma mq_steps_closed_final:
  assumes "mq_step\<^sup>*\<^sup>* q q'" "mq_inv q" "i < mq_next_list q" "ends_closed (mq_lists q i)"
  shows "mq_inv q' \<and> i < mq_next_list q' \<and> ends_closed (mq_lists q' i) \<and>
     items (drop s (mq_lists q' i)) = items (drop s (mq_lists q i))"
  using assms
proof (induction rule: rtranclp_induct)
  case base
  then show ?case by simp
next
  case (step q1 q2)
  then show ?case
    using mq_step_closed_final [of q1 q2 i s] mq_step_frame [of q1 q2 i] mq_step_inv [of q1 q2] by auto
qed

lemma mq_reach_writers: "mq_reach q \<Longrightarrow> mq_reach (run_writers mq_put mq_close mq_clear ops q)"
proof (induction ops arbitrary: q)
  case Nil
  then show ?case by simp
next
  case (Cons a ops)
  then show ?case
    by (cases a) (auto intro: mq_reach.step mq_step.put [OF surjective_pairing] mq_step.close mq_step.clear)
qed

lemma mq_reach_aiter: "mq_reach q \<Longrightarrow> mq_reach (snd (mq_aiter_from n d q))"
  by (rule mq_reach.step [OF _ mq_step.aiter [OF surjective_pairing]])

lemma mq_reach_run_reader: "mq_reach q \<Longrightarrow> mq_reach (run_reader n r q)"
  by (induction n arbitrary: q) (auto split: option.splits dest: mq_reach.step [OF _ mq_step.read])

subsection \<open>Properties\<close>

text \<open>
  A queue for the witnesses: an item is put, a reader starts at the front and has read as
  far as it can.
\<close>

definition demo_queue :: "nat \<Rightarrow> nat mqueue" where
  "demo_queue n = run_reader n 0 (snd (mq_aiter (run_writers mq_put mq_close mq_clear [Put 7] (mq_init 0))))"

definition demo_closed_queue :: "nat mqueue" where
  "demo_closed_queue = run_reader 9 0 (snd (mq_aiter (run_writers mq_put mq_close mq_clear [Put 7, Close] (mq_init 0))))"

lemma demo_reach: "mq_reach (demo_queue n)" "mq_reach demo_closed_queue"
  unfolding demo_queue_def demo_closed_queue_def mq_aiter_def
  by (intro mq_reach_run_reader mq_reach_aiter mq_reach_writers mq_reach.start)+

lemmas demo_simps = demo_queue_def demo_closed_queue_def mq_aiter_def mq_aiter_from_def mq_init_def
  mq_put_def mq_close_def append_cell_def mq_finished_def ends_closed_def set_triggers_def
  reader_step_def put_reader_def drop_trigger_def eval_nat_numeral

lemma demo_reader:
  "mq_readers (demo_queue 5) 0 = Some \<lparr>rd_list = 0, rd_start = 0, rd_deadline = None, rd_pos = 1,
     rd_pc = Waiting, rd_out = [7]\<rparr>"
  "\<not> mq_set (demo_queue 5) 0" "mq_lists (demo_queue 5) 0 = [Item 7]"
  by (simp_all add: demo_simps)

lemma demo_closed_reader:
  "mq_readers demo_closed_queue 0 = Some \<lparr>rd_list = 0, rd_start = 0, rd_deadline = None, rd_pos = 0,
     rd_pc = Returned, rd_out = [7]\<rparr>"
  "mq_lists demo_closed_queue 0 = [Item 7, Ellipsis]"
  by (simp_all add: demo_simps)

text \<open> C12. Whatever the interleaving of writers, readers, clears, timeouts and closed iterators, what
  a reader has yielded is a prefix of the items of its list object from its start position: no
  item is skipped, duplicated or reordered, and no item after the end placeholder is delivered.
\<close>

theorem mq_reader_order:
  assumes "mq_reach q" and "mq_readers q r = Some rd"
  shows "prefix (rd_out rd) (items (drop (rd_start rd) (mq_lists q (rd_list rd))))"
  by (rule rd_ok_prefix [OF mq_invD(6) [OF mq_reach_inv [OF assms(1)] assms(2)]])

theorem mq_reader_order_witness: "prefix [7] (items (drop 0 [Item (7::nat)]))"
  using mq_reader_order [OF demo_reach(1) demo_reader(1)] by (simp add: demo_reader)

text \<open> C11. No wake-up is lost: a reader suspended on a trigger that is not set has yielded every item
  its list object holds from its start position on, and the list has not ended.
\<close>

theorem mq_no_lost_wakeup:
  assumes "mq_reach q" and "mq_readers q r = Some rd" and "rd_pc rd = Waiting" and "\<not> mq_set q r"
  shows "rd_out rd = items (drop (rd_start rd) (mq_lists q (rd_list rd))) \<and>
    \<not> ends_closed (mq_lists q (rd_list rd))"
  using mq_invD(6) [OF mq_reach_inv [OF assms(1)] assms(2)] assms(3,4) seen_all
  by (auto simp: rd_ok_def)

theorem mq_no_lost_wakeup_witness: "\<not> ends_closed [Item (7::nat)]"
  using mq_no_lost_wakeup [OF demo_reach(1) demo_reader(1) _ demo_reader(2)] by (simp add: demo_reader)

text \<open>
  A reader whose generator returned has yielded all items from its start position, and
  nothing that happens later can add one: its list object is closed for good.
\<close>

theorem mq_returned_final:
  assumes "mq_reach q" and "mq_readers q r = Some rd" and "rd_pc rd = Returned"
    and "mq_step\<^sup>*\<^sup>* q q'"
  shows "ends_closed (mq_lists q' (rd_list rd)) \<and>
    rd_out rd = items (drop (rd_start rd) (mq_lists q' (rd_list rd)))"
proof -
  note D = mq_invD [OF mq_reach_inv [OF assms(1)]]
  have "ends_closed (mq_lists q (rd_list rd))"
      "rd_out rd = items (drop (rd_start rd) (mq_lists q (rd_list rd)))"
    using D(6) [OF assms(2)] assms(3) by (auto simp: rd_ok_def)
  then show ?thesis
    using mq_steps_closed_final [OF assms(4) mq_reach_inv [OF assms(1)] D(5) [OF assms(2)]] by auto
qed

theorem mq_returned_final_witness: "ends_closed (mq_lists (mq_close demo_closed_queue) 0)"
  using mq_returned_final [OF demo_reach(2) demo_closed_reader(1) _
      r_into_rtranclp [of mq_step, OF mq_step.close]]
  by simp

text \<open> C13. A reader always gets to the end: from any reachable state, an active reader that is
  scheduled on its own stops after at most as many steps as its list is long plus five, and it
  has then yielded every item from its start position.  If its list was closed or cleared its iteration is over and its
  trigger is gone; if not, it waits for its trigger, which is registered as long as the list is the current one.
\<close>

theorem mq_reader_drains:
  assumes "mq_reach q" and "mq_readers q r = Some rd" and "rd_pc rd \<notin> {TimedOut, Closed}"
    and "n = length (mq_lists q (rd_list rd)) + 5"
  shows "reader_step r (run_reader n r q) = None \<and>
    (\<exists>rd'. mq_readers (run_reader n r q) r = Some rd' \<and>
       rd_out rd' = items (drop (rd_start rd) (mq_lists q (rd_list rd))) \<and>
       (if ends_closed (mq_lists q (rd_list rd)) then rd_pc rd' = Returned
        else rd_pc rd' = Waiting \<and> \<not> mq_set (run_reader n r q) r \<and>
          (rd_list rd = mq_contents (run_reader n r q) \<longrightarrow> r \<in> set (mq_triggers (run_reader n r q)))) \<and>
       (rd_pc rd \<noteq> Returned \<and> rd_pc rd' = Returned \<longrightarrow> r \<notin> set (mq_triggers (run_reader n r q))))"
proof -
  let ?q = "run_reader n r q"
  have inv: "mq_inv q" by (rule mq_reach_inv [OF assms(1)])
  have stop: "reader_step r ?q = None"
    by (rule run_reader_stops) (use rank_bound [OF inv assms(2)] assms(4) in simp)
  obtain rd' where rd': "mq_readers ?q r = Some rd'" "rd_list rd' = rd_list rd"
      "rd_start rd' = rd_start rd" and ls: "mq_lists ?q = mq_lists q"
    using run_reader_frame [OF assms(2)] by blast
  note inv' = run_reader_inv [OF inv, of n r]
  note pc = run_reader_stop [OF assms(2,3) rd'(1)]
  note ended = stuck_reader [OF inv' rd'(1) stop pc] stuck_reader_end [OF inv' rd'(1) stop pc]
  have "rd_list rd = mq_contents ?q \<longrightarrow> active (rd_pc rd') \<longrightarrow> r \<in> set (mq_triggers ?q)"
    using mq_invD(7) [OF inv' rd'(1)] rd'(2) by auto
  moreover have "rd_pc rd \<noteq> Returned \<and> rd_pc rd' = Returned \<longrightarrow> r \<notin> set (mq_triggers ?q)"
    using run_reader_returned [OF assms(2) _ rd'(1)] by blast
  ultimately show ?thesis using stop rd' ls ended by (auto split: if_splits)
qed

theorem mq_reader_drains_witness:
  "reader_step 0 (run_reader 6 0 (demo_queue 5)) = None \<and>
   (\<exists>rd'. mq_readers (run_reader 7 0 (mq_close (demo_queue 5))) 0 = Some rd' \<and> rd_pc rd' = Returned \<and> rd_out rd' = [7] \<and>
      0 \<notin> set (mq_triggers (run_reader 7 0 (mq_close (demo_queue 5)))))"
proof -
  have c: "mq_reach (mq_close (demo_queue 5))" by (rule mq_reach.step [OF demo_reach(1) mq_step.close])
  have r: "mq_readers (mq_close (demo_queue 5)) 0 = mq_readers (demo_queue 5) 0"
    and l: "mq_lists (mq_close (demo_queue 5)) 0 = [Item 7, Ellipsis]"
    by (simp_all add: demo_simps)
  have "reader_step 0 (run_reader 6 0 (demo_queue 5)) = None"
    using mq_reader_drains [OF demo_reach(1) demo_reader(1), of 6] by (simp add: demo_reader)
  moreover have "\<exists>rd'. mq_readers (run_reader 7 0 (mq_close (demo_queue 5))) 0 = Some rd' \<and> rd_pc rd' = Returned \<and> rd_out rd' = [7] \<and>
      0 \<notin> set (mq_triggers (run_reader 7 0 (mq_close (demo_queue 5))))"
    using mq_reader_drains [OF c r [THEN trans, OF demo_reader(1)], of 7] by (auto simp: l ends_closed_def)
  ultimately show ?thesis by blast
qed

text \<open> C14. Seen from the writers, the queue is a log that can be closed and cleared: after any
  sequence of \<open>put\<close>, \<open>close\<close> and \<open>clear\<close> calls on a reachable queue, its items and its
  \<open>finished\<close> property are those of the abstract machine, in which \<open>put\<close> after \<open>close\<close>
  changes nothing and \<open>clear\<close> reopens an empty log.
\<close>

theorem mq_writers_refine_log:
  assumes "mq_reach q"
  shows "(items (cur_list (run_writers mq_put mq_close mq_clear ops q)),
      mq_finished (run_writers mq_put mq_close mq_clear ops q)) = log_run ops (items (cur_list q), mq_finished q)"
  using mql.run_writers_log [OF mq_reach_inv [OF assms]] by blast

theorem mq_writers_refine_log_witness:
  "mq_finished (run_writers mq_put mq_close mq_clear [Put (8::nat), Close, Put 9] (demo_queue 5))"
  using mq_writers_refine_log [OF demo_reach(1) [of 5], of "[Put 8, Close, Put 9]"] by (auto split: if_splits)

text \<open>\<open>qsize\<close> is the number of items of an open queue and of a queue closed once; every
  further \<open>close\<close> adds one to it although no item is added, because the property discounts a
  single placeholder.
\<close>

theorem mq_qsize_closes:
  assumes "mq_reach q" and "\<not> mq_finished q"
  shows "mq_qsize q = int (length (items (cur_list q))) \<and>
    mq_qsize ((mq_close ^^ Suc n) q) = int (length (items (cur_list q))) + int n"
proof -
  have eq: "cur_list q = map Item (items (cur_list q))"
    using well_closed_open [OF mq_invD(2) [OF mq_reach_inv [OF assms(1)]]] assms(2)
    by (simp add: mq_finished_def)
  have len: "length (cur_list q) = length (items (cur_list q))"
    using arg_cong [OF eq, of length] by simp
  have "cur_list ((mq_close ^^ n) q) = cur_list q @ replicate n Ellipsis" for n
    by (induction n) (simp_all add: mq_close_def append_cell_def replicate_append_same)
  then have "cur_list ((mq_close ^^ Suc n) q) = (cur_list q @ replicate n Ellipsis) @ [Ellipsis]"
    by (simp add: mq_close_def append_cell_def)
  then show ?thesis
    using assms(2) len by (simp only: mq_qsize_def mq_finished_def ends_closed_append) simp
qed

theorem mq_qsize_closes_witness: "mq_qsize (mq_close (mq_close (demo_queue 5))) = 2"
proof -
  have "\<not> mq_finished (demo_queue 5)" "items (cur_list (demo_queue 5)) = [7]"
    by (simp_all add: demo_simps)
  then show ?thesis using mq_qsize_closes [OF demo_reach(1), of 5 1] by simp
qed

end
