(* ===== verification/EventTesting.thy ===== *)
theory EventTesting
  imports Prelude "HOL-Library.Multiset" "HOL-Library.Sublist"
begin

text \<open>
  The list of published events that a mock publisher keeps, with its assertions for tests
  (\<open>safir.metrics._testing\<close>).  Events are compared as their dumps; \<open>matches\<close> is that comparison,
  the equality of dictionaries, in which an expected value may be one that is equal to anything.
\<close>

datatype 'd published_error =
    PublishedTooFewError
  | PublishedCountError
  | NotPublishedConsecutivelyError
  | NotPublishedError "'d list"

text \<open>\<open>list.remove\<close>: without the first element equal to the item.\<close>

fun remove_item :: "('d \<Rightarrow> 'd \<Rightarrow> bool) \<Rightarrow> 'd \<Rightarrow> 'd list \<Rightarrow> 'd list option" where
  "remove_item matches item [] = None"
| "remove_item matches item (x # xs) =
     (if matches item x then Some xs else map_option (Cons x) (remove_item matches item xs))"

text \<open>The loop of \<open>_check_unordered\<close>: the expected events that are not found.\<close>

fun not_found :: "('d \<Rightarrow> 'd \<Rightarrow> bool) \<Rightarrow> 'd list \<Rightarrow> 'd list \<Rightarrow> 'd list" where
  "not_found matches [] tmp_actual = []"
| "not_found matches (item # expected) tmp_actual = (case remove_item matches item tmp_actual of
     Some tmp_actual \<Rightarrow> not_found matches expected tmp_actual
   | None \<Rightarrow> item # not_found matches expected tmp_actual)"

definition check_unordered :: "('d \<Rightarrow> 'd \<Rightarrow> bool) \<Rightarrow> 'd list \<Rightarrow> 'd list \<Rightarrow> 'd published_error + unit" where
  "check_unordered matches expected actual =
     (let missing = not_found matches expected actual in
      if missing \<noteq> [] then Inl (NotPublishedError missing) else Inr ())"

definition check_ordered :: "('d \<Rightarrow> 'd \<Rightarrow> bool) \<Rightarrow> 'd list \<Rightarrow> 'd list \<Rightarrow> 'd published_error + unit" where
  "check_ordered matches expected actual =
     (if list_ex (\<lambda>i. list_all2 matches expected (take (length expected) (drop i actual)))
           [0 ..< length actual - length expected + 1]
      then Inr () else Inl NotPublishedConsecutivelyError)"

definition assert_published ::
  "('d \<Rightarrow> 'd \<Rightarrow> bool) \<Rightarrow> 'd list \<Rightarrow> bool \<Rightarrow> 'd list \<Rightarrow> 'd published_error + unit" where
  "assert_published matches expected any_order actual =
     (if length actual < length expected then Inl PublishedTooFewError
      else (case check_unordered matches expected actual of
        Inl e \<Rightarrow> Inl e
      | Inr _ \<Rightarrow> if any_order then Inr () else check_ordered matches expected actual))"

definition assert_published_all ::
  "('d \<Rightarrow> 'd \<Rightarrow> bool) \<Rightarrow> 'd list \<Rightarrow> bool \<Rightarrow> 'd list \<Rightarrow> 'd published_error + unit" where
  "assert_published_all matches expected any_order actual =
     (if length expected \<noteq> length actual then Inl PublishedCountError
      else assert_published matches expected any_order actual)"

subsection \<open>What the assertions assert\<close>

lemma remove_item_eq:
  "remove_item (=) item xs = (if item \<in> set xs then Some (remove1 item xs) else None)"
  by (induction xs) auto

lemma not_found_eq: "mset (not_found (=) expected actual) = mset expected - mset actual"
proof (induction expected arbitrary: actual)
  case (Cons item expected)
  show ?case
  proof (cases "item \<in> set actual")
    case True
    then have "mset (item # expected) - mset actual = mset expected - (mset actual - {#item#})"
      by (metis add_mset_add_single insert_DiffM2 mset.simps(2) add_diff_cancel_right set_mset_mset)
    then show ?thesis using True Cons.IH [of "remove1 item actual"] by (simp add: remove_item_eq)
  next
    case False
    then have "mset (item # expected) - mset actual = add_mset item (mset expected - mset actual)" by simp
    then show ?thesis using False Cons.IH by (simp add: remove_item_eq)
  qed
qed simp

lemma check_ordered_eq:
  assumes "length expected \<le> length actual"
  shows "check_ordered (=) expected actual = (if sublist expected actual then Inr () else Inl NotPublishedConsecutivelyError)"
proof -
  have "(\<exists>i \<le> length actual - length expected. expected = take (length expected) (drop i actual)) \<longleftrightarrow> sublist expected actual"
  proof
    assume "sublist expected actual"
    then obtain ps ss where "actual = ps @ expected @ ss" unfolding sublist_def by blast
    then show "\<exists>i \<le> length actual - length expected. expected = take (length expected) (drop i actual)"
      by (intro exI [of _ "length ps"]) simp
  next
    assume "\<exists>i \<le> length actual - length expected. expected = take (length expected) (drop i actual)"
    then obtain i where e: "expected = take (length expected) (drop i actual)" by blast
    have "actual = take i actual @ take (length expected) (drop i actual) @ drop (length expected) (drop i actual)"
      by (simp only: append_take_drop_id)
    then show "sublist expected actual" unfolding sublist_def using e by metis
  qed
  then show ?thesis by (auto simp: check_ordered_def list_ex_iff list_all2_eq [symmetric] less_Suc_eq_le)
qed

text \<open> C26. The assertions on published events are exact, for events compared by plain equality: in any
  order they hold when every expected event was published, as often as expected; in order, when
  the expected events were published one directly after the other; for all of them, when nothing else
  was published.  What is reported as missing is what was expected and not published. \<close>
theorem published_assertions_exact:
  "(assert_published (=) expected any_order actual = Inr () \<longleftrightarrow>
     (if any_order then mset expected \<subseteq># mset actual else sublist expected actual)) \<and>
   (assert_published_all (=) expected any_order actual = Inr () \<longleftrightarrow>
     (if any_order then mset expected = mset actual else expected = actual)) \<and>
   (case assert_published (=) expected any_order actual of
      Inl (NotPublishedError missing) \<Rightarrow> mset missing = mset expected - mset actual \<and> missing \<noteq> []
    | Inl PublishedTooFewError \<Rightarrow> length actual < length expected
    | Inl NotPublishedConsecutivelyError \<Rightarrow> mset expected \<subseteq># mset actual \<and> \<not> sublist expected actual
    | Inl PublishedCountError \<Rightarrow> False
    | Inr _ \<Rightarrow> True)"
proof -
  let ?missing = "not_found (=) expected actual"
  have missing: "?missing = [] \<longleftrightarrow> mset expected \<subseteq># mset actual"
    using not_found_eq [of expected actual] by (metis Diff_eq_empty_iff_mset mset_zero_iff)
  have sub: "mset expected \<subseteq># mset actual" if "sublist expected actual"
    using that by (auto simp: sublist_def)
  have len: "length expected \<le> length actual" if "mset expected \<subseteq># mset actual"
    using size_mset_mono [OF that] by simp
  have a: "assert_published (=) expected any_order actual =
    (if length actual < length expected then Inl PublishedTooFewError
     else if ?missing \<noteq> [] then Inl (NotPublishedError ?missing)
     else if any_order \<or> sublist expected actual then Inr () else Inl NotPublishedConsecutivelyError)"
    by (simp add: assert_published_def check_unordered_def check_ordered_eq Let_def)
  have same: "mset expected \<subseteq># mset actual \<longleftrightarrow> mset expected = mset actual" "sublist expected actual \<longleftrightarrow> expected = actual"
    if "length expected = length actual"
  proof -
    show "mset expected \<subseteq># mset actual \<longleftrightarrow> mset expected = mset actual"
      using that mset_subset_size [of "mset expected" "mset actual"] by (auto simp: subset_mset.le_less)
    show "sublist expected actual \<longleftrightarrow> expected = actual" using that by (auto simp: sublist_def intro: exI [of _ "[]"])
  qed
  have p: "assert_published (=) expected any_order actual = Inr () \<longleftrightarrow>
      (if any_order then mset expected \<subseteq># mset actual else sublist expected actual)"
    using len sub missing by (auto simp: a)
  have "assert_published_all (=) expected any_order actual = Inr () \<longleftrightarrow>
      (if any_order then mset expected = mset actual else expected = actual)"
  proof (cases "length expected = length actual")
    case True
    then show ?thesis using p same by (simp add: assert_published_all_def)
  next
    case False
    then show ?thesis by (auto simp: assert_published_all_def dest: mset_eq_length)
  qed
  moreover have "case assert_published (=) expected any_order actual of
        Inl (NotPublishedError missing) \<Rightarrow> mset missing = mset expected - mset actual \<and> missing \<noteq> []
      | Inl PublishedTooFewError \<Rightarrow> length actual < length expected
      | Inl NotPublishedConsecutivelyError \<Rightarrow> mset expected \<subseteq># mset actual \<and> \<not> sublist expected actual
      | Inl PublishedCountError \<Rightarrow> False
      | Inr _ \<Rightarrow> True"
    using missing not_found_eq [of expected actual] by (auto simp: a)
  ultimately show ?thesis using p by blast
qed

end
