(* ===== verification/Kafka.thy ===== *)
theory Kafka
  imports Prelude PyText
begin

text \<open>
  The Kafka support of \<open>safir.kafka\<close>: the manager of Avro schemas (\<open>_manager.py\<close>) and the
  connection settings (\<open>_kafka_config.py\<close>).  The schema registry, the serializer and the making of
  TLS contexts are parameters.
\<close>

subsection \<open>Schemas of Pydantic models\<close>

text \<open>
  The type of a field in an Avro schema: a name, a complex type with the type in its \<open>type\<close> key,
  or a union.
\<close>

datatype avro_type = AvroName string | AvroComplex avro_type | AvroUnion "avro_type list"

text \<open>A model class, with the parts of its inner \<open>Meta\<close> class that it has and the fields of its schema.\<close>

record avro_model =
  am_class :: string
  am_schema_name :: "string option"
  am_namespace :: "string option"
  am_fields :: "(string \<times> avro_type) list"

text \<open>The exceptions of the Kafka and metrics packages, and of the libraries they call.\<close>

datatype kafka_exc =
    InvalidAvroNameError string "string list"
  | UnknownSchemaError string string
  | IncompatibleSchemaError string
  | RegistryClientError string
  | InfrastructureError string
  | KafkaTypeError
  | KafkaValueError
  | EventManagerUninitializedError
  | DuplicateEventError string
  | KafkaTopicError string
  | UnsupportedAvroSchemaError "string list"

subsection \<open>The schema manager\<close>

datatype compatibility =
  BACKWARD | BACKWARD_TRANSITIVE | FORWARD | FORWARD_TRANSITIVE | FULL | FULL_TRANSITIVE | COMPATIBILITY_NONE

text \<open>An answer of the registry: a bool, or a dictionary that may lack the key \<open>is_compatible\<close>.\<close>

datatype compat_answer = CompatBool bool | CompatDict "bool option" string

record ('w, 'd) schema_registry =
  rg_update_compatibility :: "string \<Rightarrow> compatibility \<Rightarrow> ('w, kafka_exc, unit) eff"
  rg_test_compatibility :: "string \<Rightarrow> avro_model \<Rightarrow> ('w, kafka_exc, compat_answer) eff"
  rg_register :: "string \<Rightarrow> avro_model \<Rightarrow> ('w, kafka_exc, int) eff"
  rg_encode :: "int \<Rightarrow> 'd \<Rightarrow> ('w, kafka_exc, string) eff"

text \<open>The state: the identifiers of the registered subjects, and the world outside.\<close>

record 'w kafka_state =
  ks_ids :: "string \<rightharpoonup> int"
  ks_world :: 'w

definition outside :: "('w, 'e, 'a) eff \<Rightarrow> (('w, 'z) kafka_state_scheme, 'e, 'a) eff" where
  "outside m = (\<lambda>s. case m (ks_world s) of (r, w) \<Rightarrow> (r, s\<lparr>ks_world := w\<rparr>))"

record schema_info =
  si_schema :: avro_model
  si_schema_id :: int
  si_subject :: string

text \<open>
  A part of a name: a letter or underscore, then letters, digits and underscores; the \<open>$\<close> of the
  pattern also matches before a newline at the end.
\<close>

definition name_start :: "char \<Rightarrow> bool" where
  "name_start c = (let n = of_char c :: nat in 65 \<le> n \<and> n \<le> 90 \<or> 97 \<le> n \<and> n \<le> 122 \<or> n = 95)"

definition name_char :: "char \<Rightarrow> bool" where
  "name_char c = (let n = of_char c :: nat in name_start c \<or> 48 \<le> n \<and> n \<le> 57)"

definition avro_part :: "string \<Rightarrow> bool" where
  "avro_part part = (case part of
     [] \<Rightarrow> False
   | c # r \<Rightarrow> name_start c \<and> (let rest = dropWhile name_char r in rest = [] \<or> rest = [CHR 10]))"

definition validate_avro_name :: "string \<Rightarrow> kafka_exc + unit" where
  "validate_avro_name name =
     (let bad = filter (\<lambda>part. \<not> avro_part part) (py_split (CHR ''.'') name)
      in if bad \<noteq> [] then Inl (InvalidAvroNameError name bad) else Inr ())"

definition get_subject :: "string \<Rightarrow> avro_model \<Rightarrow> kafka_exc + string" where
  "get_subject suffix model =
     (let name = (case am_schema_name model of Some n \<Rightarrow> n | None \<Rightarrow> am_class model);
          name = (case am_namespace model of
              None \<Rightarrow> name
            | Some namespace \<Rightarrow> if namespace = [] then name else namespace @ ''.'' @ name);
          name = (if suffix = [] then name else name @ suffix)
      in case validate_avro_name name of Inl e \<Rightarrow> Inl e | Inr _ \<Rightarrow> Inr name)"

definition register_model ::
  "('w, 'd) schema_registry \<Rightarrow> string \<Rightarrow> avro_model \<Rightarrow> compatibility option
     \<Rightarrow> (('w, 'z) kafka_state_scheme, kafka_exc, schema_info) eff" where
  "register_model registry suffix model compatibility =
     bind_eff (lift_eff (get_subject suffix model)) (\<lambda>subject.
     bind_eff (case compatibility of
         None \<Rightarrow> ret_eff ()
       | Some level \<Rightarrow> outside (rg_update_compatibility registry subject level)) (\<lambda>_.
     bind_eff (outside (rg_test_compatibility registry subject model)) (\<lambda>result.
     case result of
       CompatBool _ \<Rightarrow> raise_eff KafkaTypeError
     | CompatDict None _ \<Rightarrow> raise_eff KafkaValueError
     | CompatDict (Some is_compatible) messages \<Rightarrow>
         if \<not> is_compatible then raise_eff (IncompatibleSchemaError messages)
         else bind_eff (outside (rg_register registry subject model)) (\<lambda>schema_id.
              bind_eff (modify_eff (\<lambda>s. s\<lparr>ks_ids := (ks_ids s)(subject \<mapsto> schema_id)\<rparr>)) (\<lambda>_.
              ret_eff \<lparr>si_schema = model, si_schema_id = schema_id, si_subject = subject\<rparr>)))))"

definition serialize ::
  "('w, 'd) schema_registry \<Rightarrow> string \<Rightarrow> avro_model \<Rightarrow> 'd \<Rightarrow> (('w, 'z) kafka_state_scheme, kafka_exc, string) eff" where
  "serialize registry suffix model data =
     bind_eff (lift_eff (get_subject suffix model)) (\<lambda>subject.
     bind_eff (read_eff (\<lambda>s. ks_ids s subject)) (\<lambda>known. case known of
       None \<Rightarrow> raise_eff (UnknownSchemaError (am_class model) subject)
     | Some schema_id \<Rightarrow> outside (rg_encode registry schema_id data)))"

subsection \<open>What the manager knows\<close>

lemma outside_apply: "outside m s = (case m (ks_world s) of (r, w) \<Rightarrow> (r, s\<lparr>ks_world := w\<rparr>))"
  by (simp add: outside_def)

lemma outside_ids: "outside m s = (r, t) \<Longrightarrow> ks_ids t = ks_ids s"
  by (auto simp: outside_def split: prod.splits)

text \<open>A use of the manager, and the manager after a sequence of them.\<close>

datatype 'd schema_use = Register avro_model "compatibility option" | Serialize avro_model 'd

definition use_schema ::
  "('w, 'd) schema_registry \<Rightarrow> string \<Rightarrow> 'd schema_use \<Rightarrow> 'w kafka_state \<Rightarrow> 'w kafka_state" where
  "use_schema registry suffix u s = (case u of
     Register model c \<Rightarrow> snd (register_model registry suffix model c s)
   | Serialize model data \<Rightarrow> snd (serialize registry suffix model data s))"

text \<open>The registrations a sequence of uses makes, as subject and identifier, the latest one first.\<close>

fun registered ::
  "('w, 'd) schema_registry \<Rightarrow> string \<Rightarrow> 'd schema_use list \<Rightarrow> 'w kafka_state \<Rightarrow> (string \<times> int) list" where
  "registered registry suffix [] s = []"
| "registered registry suffix (u # us) s =
     registered registry suffix us (use_schema registry suffix u s) @
     (case u of
        Serialize _ _ \<Rightarrow> []
      | Register model c \<Rightarrow> (case fst (register_model registry suffix model c s) of
          Inl _ \<Rightarrow> []
        | Inr info \<Rightarrow> [(si_subject info, si_schema_id info)]))"

lemma register_model_ids:
  assumes "register_model registry suffix model c s = (r, t)"
  shows "ks_ids t = (case r of Inl _ \<Rightarrow> ks_ids s | Inr info \<Rightarrow> (ks_ids s)(si_subject info \<mapsto> si_schema_id info))"
    "r = Inr info \<Longrightarrow> get_subject suffix model = Inr (si_subject info) \<and> si_schema info = model"
  using assms by (auto simp: register_model_def eff_simps outside_apply
      split: sum.splits option.splits prod.splits compat_answer.splits if_splits)

lemma serialize_ids: "serialize registry suffix model data s = (r, t) \<Longrightarrow> ks_ids t = ks_ids s"
  by (auto simp: serialize_def eff_simps dest: outside_ids split: sum.splits option.splits)

lemma registered_ids:
  "ks_ids (fold (use_schema registry suffix) us s) = ks_ids s ++ map_of (registered registry suffix us s)"
proof (induction us arbitrary: s)
  case (Cons u us)
  have "ks_ids (use_schema registry suffix u s) = ks_ids s ++ map_of (case u of
        Serialize _ _ \<Rightarrow> []
      | Register model c \<Rightarrow> (case fst (register_model registry suffix model c s) of
          Inl _ \<Rightarrow> [] | Inr info \<Rightarrow> [(si_subject info, si_schema_id info)]))"
  proof (cases u)
    case (Register model c)
    obtain r t where "register_model registry suffix model c s = (r, t)" by fastforce
    from register_model_ids(1) [OF this] show ?thesis
      using Register \<open>register_model registry suffix model c s = (r, t)\<close>
      by (simp add: use_schema_def split: sum.splits)
  next
    case (Serialize model data)
    then show ?thesis by (simp add: use_schema_def serialize_ids [OF prod.collapse [symmetric]])
  qed
  then show ?case using Cons.IH by simp
qed simp

text \<open>The state of a new manager after a sequence of uses, in the world \<open>w\<close>.\<close>

definition new_schema_manager :: "'w \<Rightarrow> 'w kafka_state" where
  "new_schema_manager w = \<lparr>ks_ids = Map.empty, ks_world = w\<rparr>"

definition schema_manager_after ::
  "('w, 'd) schema_registry \<Rightarrow> string \<Rightarrow> 'd schema_use list \<Rightarrow> 'w \<Rightarrow> 'w kafka_state" where
  "schema_manager_after registry suffix us w = fold (use_schema registry suffix) us (new_schema_manager w)"

text \<open>Whatever was registered and serialized before, a model is serialized with the identifier that
  the latest successful registration of its subject got from the registry; a model whose subject
  was never registered successfully raises \<open>UnknownSchemaError\<close> and the registry is left alone, as
  it is when the name is not one of Avro. \<close>
theorem serialize_latest_registration:
  "serialize registry suffix model data (schema_manager_after registry suffix us w) = (case get_subject suffix model of
      Inl e \<Rightarrow> (Inl e, schema_manager_after registry suffix us w)
    | Inr subject \<Rightarrow>
        (case map_of (registered registry suffix us (new_schema_manager w)) subject of
           None \<Rightarrow> (Inl (UnknownSchemaError (am_class model) subject), schema_manager_after registry suffix us w)
         | Some schema_id \<Rightarrow> outside (rg_encode registry schema_id data) (schema_manager_after registry suffix us w)))"
  by (simp add: serialize_def eff_simps registered_ids schema_manager_after_def new_schema_manager_def
      split: sum.splits option.splits)

subsection \<open>Connection settings\<close>

datatype security_protocol = SASL_PLAINTEXT | SASL_SSL | PROTOCOL_PLAINTEXT | PROTOCOL_SSL

datatype sasl_mechanism = SASL_PLAIN | SCRAM_SHA_256 | SCRAM_SHA_512

record kafka_settings =
  kc_bootstrap_servers :: string
  kc_security_protocol :: security_protocol
  kc_cluster_ca_path :: "string option"
  kc_client_cert_path :: "string option"
  kc_client_key_path :: "string option"
  kc_sasl_mechanism :: "sasl_mechanism option"
  kc_sasl_username :: "string option"
  kc_sasl_password :: "string option"

text \<open>The four models \<open>SslSettings\<close>, \<open>SaslSslSettings\<close>, \<open>SaslPlaintextSettings\<close> and \<open>PlaintextSettings\<close>.\<close>

datatype validated_settings =
    SslSettings string string string string
  | SaslSslSettings string sasl_mechanism string string "string option"
  | SaslPlaintextSettings string sasl_mechanism string string
  | PlaintextSettings string

text \<open>
  \<open>validated\<close>: the model is made of every field, an unset one included as null, so a default of the
  model never applies.  A path must be that of a file; \<open>None\<close> is a validation error.
\<close>

definition validate_ssl :: "(string \<Rightarrow> bool) \<Rightarrow> kafka_settings \<Rightarrow> validated_settings option" where
  "validate_ssl is_file c = (case (kc_cluster_ca_path c, kc_client_cert_path c, kc_client_key_path c) of
     (Some ca, Some cert, Some key) \<Rightarrow>
       if is_file ca \<and> is_file cert \<and> is_file key then Some (SslSettings (kc_bootstrap_servers c) ca cert key) else None
   | _ \<Rightarrow> None)"

definition validate_sasl_plaintext :: "kafka_settings \<Rightarrow> validated_settings option" where
  "validate_sasl_plaintext c = (case (kc_sasl_mechanism c, kc_sasl_username c, kc_sasl_password c) of
     (Some m, Some user, Some password) \<Rightarrow> Some (SaslPlaintextSettings (kc_bootstrap_servers c) m user password)
   | _ \<Rightarrow> None)"

definition validate_sasl_ssl :: "(string \<Rightarrow> bool) \<Rightarrow> kafka_settings \<Rightarrow> validated_settings option" where
  "validate_sasl_ssl is_file c = (case (kc_sasl_mechanism c, kc_sasl_username c, kc_sasl_password c) of
     (Some m, Some user, Some password) \<Rightarrow>
       (case kc_cluster_ca_path c of
          Some ca \<Rightarrow> if is_file ca then Some (SaslSslSettings (kc_bootstrap_servers c) m user password (Some ca)) else None
        | None \<Rightarrow> Some (SaslSslSettings (kc_bootstrap_servers c) m user password None))
   | _ \<Rightarrow> None)"

definition validate_plaintext :: "kafka_settings \<Rightarrow> validated_settings option" where
  "validate_plaintext c = Some (PlaintextSettings (kc_bootstrap_servers c))"

definition validated :: "(string \<Rightarrow> bool) \<Rightarrow> kafka_settings \<Rightarrow> validated_settings option" where
  "validated is_file c = (case kc_security_protocol c of
     PROTOCOL_PLAINTEXT \<Rightarrow> validate_plaintext c
   | SASL_SSL \<Rightarrow> validate_sasl_ssl is_file c
   | SASL_PLAINTEXT \<Rightarrow> validate_sasl_plaintext c
   | PROTOCOL_SSL \<Rightarrow> validate_ssl is_file c)"

lemmas validators = validated_def validate_ssl_def validate_sasl_ssl_def validate_sasl_plaintext_def validate_plaintext_def

text \<open>The settings are accepted: every given path is that of a file, and \<open>validate_auth_settings\<close> does not raise.\<close>

definition validate_auth_settings :: "(string \<Rightarrow> bool) \<Rightarrow> kafka_settings \<Rightarrow> kafka_settings option" where
  "validate_auth_settings is_file c =
     (if list_all (\<lambda>p. case p of None \<Rightarrow> True | Some p \<Rightarrow> is_file p) [kc_cluster_ca_path c, kc_client_cert_path c, kc_client_key_path c]
      then (case validated is_file c of None \<Rightarrow> None | Some _ \<Rightarrow> Some c) else None)"

text \<open>
  A TLS context: the files it was made with and its verification flags.  \<open>default_flags\<close> are those of
  a new context, a parameter; the flag \<open>VERIFY_X509_STRICT\<close> is \<open>0x20\<close>.
\<close>

record ssl_context =
  tls_cafile :: "string option"
  tls_certfile :: "string option"
  tls_keyfile :: "string option"
  tls_verify_flags :: int

definition ssl_context_of :: "int \<Rightarrow> string option \<Rightarrow> string option \<Rightarrow> string option \<Rightarrow> ssl_context" where
  "ssl_context_of default_flags cafile certfile keyfile =
     (let context = \<lparr>tls_cafile = cafile, tls_certfile = certfile, tls_keyfile = keyfile, tls_verify_flags = default_flags\<rparr>
      in context\<lparr>tls_verify_flags := and (tls_verify_flags context) (not 32)\<rparr>)"

datatype faststream_security =
    BaseSecurity "ssl_context option"
  | SASLScram512 string string "ssl_context option"
  | SASLScram256 string string "ssl_context option"
  | SASLPlaintext string string "ssl_context option"

record faststream_params =
  fs_bootstrap_servers :: string
  fs_security :: faststream_security

record aiokafka_params =
  ak_bootstrap_servers :: string
  ak_security_protocol :: security_protocol
  ak_sasl_mechanism :: "sasl_mechanism option"
  ak_sasl_plain_username :: "string option"
  ak_sasl_plain_password :: "string option"
  ak_ssl_context :: "ssl_context option"

fun sasl_class :: "sasl_mechanism \<Rightarrow> string \<Rightarrow> string \<Rightarrow> ssl_context option \<Rightarrow> faststream_security" where
  "sasl_class SCRAM_SHA_512 = SASLScram512"
| "sasl_class SCRAM_SHA_256 = SASLScram256"
| "sasl_class SASL_PLAIN = SASLPlaintext"

definition ssl_to_faststream :: "int \<Rightarrow> string \<Rightarrow> string \<Rightarrow> string \<Rightarrow> string \<Rightarrow> faststream_params" where
  "ssl_to_faststream flags servers ca cert key =
     \<lparr>fs_bootstrap_servers = servers, fs_security = BaseSecurity (Some (ssl_context_of flags (Some ca) (Some cert) (Some key)))\<rparr>"

definition ssl_to_aiokafka :: "int \<Rightarrow> string \<Rightarrow> string \<Rightarrow> string \<Rightarrow> string \<Rightarrow> aiokafka_params" where
  "ssl_to_aiokafka flags servers ca cert key =
     \<lparr>ak_bootstrap_servers = servers, ak_security_protocol = PROTOCOL_SSL, ak_sasl_mechanism = None,
      ak_sasl_plain_username = None, ak_sasl_plain_password = None,
      ak_ssl_context = Some (ssl_context_of flags (Some ca) (Some cert) (Some key))\<rparr>"

definition sasl_plaintext_to_faststream :: "string \<Rightarrow> sasl_mechanism \<Rightarrow> string \<Rightarrow> string \<Rightarrow> faststream_params" where
  "sasl_plaintext_to_faststream servers m user password =
     \<lparr>fs_bootstrap_servers = servers, fs_security = sasl_class m user password None\<rparr>"

definition sasl_plaintext_to_aiokafka :: "string \<Rightarrow> sasl_mechanism \<Rightarrow> string \<Rightarrow> string \<Rightarrow> aiokafka_params" where
  "sasl_plaintext_to_aiokafka servers m user password =
     \<lparr>ak_bootstrap_servers = servers, ak_security_protocol = SASL_PLAINTEXT, ak_sasl_mechanism = Some m,
      ak_sasl_plain_username = Some user, ak_sasl_plain_password = Some password, ak_ssl_context = None\<rparr>"

definition sasl_ssl_to_faststream ::
  "int \<Rightarrow> string \<Rightarrow> sasl_mechanism \<Rightarrow> string \<Rightarrow> string \<Rightarrow> string option \<Rightarrow> faststream_params" where
  "sasl_ssl_to_faststream flags servers m user password ca =
     \<lparr>fs_bootstrap_servers = servers, fs_security = sasl_class m user password (Some (ssl_context_of flags ca None None))\<rparr>"

definition sasl_ssl_to_aiokafka ::
  "int \<Rightarrow> string \<Rightarrow> sasl_mechanism \<Rightarrow> string \<Rightarrow> string \<Rightarrow> string option \<Rightarrow> aiokafka_params" where
  "sasl_ssl_to_aiokafka flags servers m user password ca =
     \<lparr>ak_bootstrap_servers = servers, ak_security_protocol = SASL_SSL, ak_sasl_mechanism = Some m,
      ak_sasl_plain_username = Some user, ak_sasl_plain_password = Some password,
      ak_ssl_context = Some (ssl_context_of flags ca None None)\<rparr>"

definition plaintext_to_faststream :: "string \<Rightarrow> faststream_params" where
  "plaintext_to_faststream servers = \<lparr>fs_bootstrap_servers = servers, fs_security = BaseSecurity None\<rparr>"

definition plaintext_to_aiokafka :: "string \<Rightarrow> aiokafka_params" where
  "plaintext_to_aiokafka servers =
     \<lparr>ak_bootstrap_servers = servers, ak_security_protocol = PROTOCOL_PLAINTEXT, ak_sasl_mechanism = None,
      ak_sasl_plain_username = None, ak_sasl_plain_password = None, ak_ssl_context = None\<rparr>"

fun settings_to_faststream :: "int \<Rightarrow> validated_settings \<Rightarrow> faststream_params" where
  "settings_to_faststream flags (SslSettings servers ca cert key) = ssl_to_faststream flags servers ca cert key"
| "settings_to_faststream flags (SaslSslSettings servers m user password ca) = sasl_ssl_to_faststream flags servers m user password ca"
| "settings_to_faststream flags (SaslPlaintextSettings servers m user password) = sasl_plaintext_to_faststream servers m user password"
| "settings_to_faststream flags (PlaintextSettings servers) = plaintext_to_faststream servers"

fun settings_to_aiokafka :: "int \<Rightarrow> validated_settings \<Rightarrow> aiokafka_params" where
  "settings_to_aiokafka flags (SslSettings servers ca cert key) = ssl_to_aiokafka flags servers ca cert key"
| "settings_to_aiokafka flags (SaslSslSettings servers m user password ca) = sasl_ssl_to_aiokafka flags servers m user password ca"
| "settings_to_aiokafka flags (SaslPlaintextSettings servers m user password) = sasl_plaintext_to_aiokafka servers m user password"
| "settings_to_aiokafka flags (PlaintextSettings servers) = plaintext_to_aiokafka servers"

lemmas client_params = ssl_to_faststream_def ssl_to_aiokafka_def sasl_plaintext_to_faststream_def sasl_plaintext_to_aiokafka_def
  sasl_ssl_to_faststream_def sasl_ssl_to_aiokafka_def plaintext_to_faststream_def plaintext_to_aiokafka_def

definition to_faststream_params :: "(string \<Rightarrow> bool) \<Rightarrow> int \<Rightarrow> kafka_settings \<Rightarrow> faststream_params option" where
  "to_faststream_params is_file flags c = map_option (settings_to_faststream flags) (validated is_file c)"

definition to_aiokafka_params :: "(string \<Rightarrow> bool) \<Rightarrow> int \<Rightarrow> kafka_settings \<Rightarrow> aiokafka_params option" where
  "to_aiokafka_params is_file flags c = map_option (settings_to_aiokafka flags) (validated is_file c)"

text \<open>What each protocol asks for.\<close>

definition settings_complete :: "kafka_settings \<Rightarrow> bool" where
  "settings_complete c \<longleftrightarrow> (case kc_security_protocol c of
     PROTOCOL_PLAINTEXT \<Rightarrow> True
   | PROTOCOL_SSL \<Rightarrow> kc_cluster_ca_path c \<noteq> None \<and> kc_client_cert_path c \<noteq> None \<and> kc_client_key_path c \<noteq> None
   | _ \<Rightarrow> kc_sasl_mechanism c \<noteq> None \<and> kc_sasl_username c \<noteq> None \<and> kc_sasl_password c \<noteq> None)"

text \<open>The credentials and the TLS context in the parameters of either client.\<close>

fun security_login :: "faststream_security \<Rightarrow> (sasl_mechanism \<times> string \<times> string) option \<times> ssl_context option" where
  "security_login (BaseSecurity ctx) = (None, ctx)"
| "security_login (SASLScram512 user password ctx) = (Some (SCRAM_SHA_512, user, password), ctx)"
| "security_login (SASLScram256 user password ctx) = (Some (SCRAM_SHA_256, user, password), ctx)"
| "security_login (SASLPlaintext user password ctx) = (Some (SASL_PLAIN, user, password), ctx)"

definition aiokafka_login :: "aiokafka_params \<Rightarrow> (sasl_mechanism \<times> string \<times> string) option \<times> ssl_context option" where
  "aiokafka_login k =
     ((case (ak_sasl_mechanism k, ak_sasl_plain_username k, ak_sasl_plain_password k) of
         (Some m, Some user, Some password) \<Rightarrow> Some (m, user, password) | _ \<Rightarrow> None), ak_ssl_context k)"

lemma sasl_class_login: "security_login (sasl_class m user password ctx) = (Some (m, user, password), ctx)"
  by (cases m) simp_all

lemma ssl_context_flags: "bit (tls_verify_flags (ssl_context_of flags ca cert key)) n = (bit flags n \<and> n \<noteq> 5)"
proof -
  have "(32 :: int) = push_bit 5 1" by simp
  then have "bit (32 :: int) n \<longleftrightarrow> n = 5" by (simp only: bit_push_bit_iff bit_1_iff) auto
  moreover have "(- 33 :: int) = not 32" by simp
  ultimately have "bit (- 33 :: int) n \<longleftrightarrow> n \<noteq> 5" by (simp only: bit_not_iff) simp
  then show ?thesis by (simp add: ssl_context_of_def bit_and_iff)
qed

lemma validated_complete:
  assumes "\<forall>p \<in> {kc_cluster_ca_path c, kc_client_cert_path c, kc_client_key_path c}. \<forall>f. p = Some f \<longrightarrow> is_file f"
  shows "validated is_file c = None \<longleftrightarrow> \<not> settings_complete c"
  using assms by (cases "kc_security_protocol c") (auto simp: validators settings_complete_def split: option.splits)

text \<open>Settings whose paths are files are accepted exactly when they have all that their protocol asks
  for, which for SASL includes the mechanism; then both kinds of client connect to the same
  servers, by the protocol of the settings, with the same credentials and the same TLS context,
  which exists exactly for the two protocols over TLS and never has the strict flag. \<close>
theorem kafka_settings_clients:
  assumes "\<forall>p \<in> {kc_cluster_ca_path c, kc_client_cert_path c, kc_client_key_path c}. \<forall>f. p = Some f \<longrightarrow> is_file f"
  shows "validate_auth_settings is_file c = (if settings_complete c then Some c else None) \<and>
    (case (to_faststream_params is_file flags c, to_aiokafka_params is_file flags c) of
       (Some fs, Some ak) \<Rightarrow> settings_complete c \<and>
         fs_bootstrap_servers fs = kc_bootstrap_servers c \<and> ak_bootstrap_servers ak = kc_bootstrap_servers c \<and>
         ak_security_protocol ak = kc_security_protocol c \<and> security_login (fs_security fs) = aiokafka_login ak \<and>
         (ak_ssl_context ak \<noteq> None \<longleftrightarrow> kc_security_protocol c \<in> {SASL_SSL, PROTOCOL_SSL}) \<and>
         (case ak_ssl_context ak of None \<Rightarrow> True | Some ctx \<Rightarrow>
            tls_cafile ctx = kc_cluster_ca_path c \<and> \<not> bit (tls_verify_flags ctx) 5)
     | (None, None) \<Rightarrow> \<not> settings_complete c
     | _ \<Rightarrow> False)"
proof
  show "validate_auth_settings is_file c = (if settings_complete c then Some c else None)"
    using assms validated_complete [OF assms]
    by (auto simp: validate_auth_settings_def split: option.splits)
  have path: "tls_cafile (ssl_context_of flags ca cert key) = ca" for ca cert key by (simp add: ssl_context_of_def)
  have out: "security_login (fs_security (settings_to_faststream flags v)) = aiokafka_login (settings_to_aiokafka flags v)" for v
    by (cases v) (simp_all add: sasl_class_login aiokafka_login_def client_params)
  show "case (to_faststream_params is_file flags c, to_aiokafka_params is_file flags c) of
       (Some fs, Some ak) \<Rightarrow> settings_complete c \<and>
         fs_bootstrap_servers fs = kc_bootstrap_servers c \<and> ak_bootstrap_servers ak = kc_bootstrap_servers c \<and>
         ak_security_protocol ak = kc_security_protocol c \<and> security_login (fs_security fs) = aiokafka_login ak \<and>
         (ak_ssl_context ak \<noteq> None \<longleftrightarrow> kc_security_protocol c \<in> {SASL_SSL, PROTOCOL_SSL}) \<and>
         (case ak_ssl_context ak of None \<Rightarrow> True | Some ctx \<Rightarrow>
            tls_cafile ctx = kc_cluster_ca_path c \<and> \<not> bit (tls_verify_flags ctx) 5)
     | (None, None) \<Rightarrow> \<not> settings_complete c
     | _ \<Rightarrow> False"
  proof (cases "validated is_file c")
    case None
    then show ?thesis using validated_complete [OF assms] by (simp add: to_faststream_params_def to_aiokafka_params_def)
  next
    case (Some v)
    then have "settings_complete c" using validated_complete [OF assms] by simp
    then show ?thesis using Some
      by (auto simp: to_faststream_params_def to_aiokafka_params_def validators client_params ssl_context_flags path sasl_class_login aiokafka_login_def
          split: security_protocol.splits option.splits if_splits)
  qed
qed

definition demo_kafka_settings :: kafka_settings where
  "demo_kafka_settings = \<lparr>kc_bootstrap_servers = ''kafka:9092'', kc_security_protocol = SASL_SSL,
     kc_cluster_ca_path = Some ''/ca.crt'', kc_client_cert_path = None, kc_client_key_path = None,
     kc_sasl_mechanism = None, kc_sasl_username = Some ''user'', kc_sasl_password = Some ''secret''\<rparr>"

text \<open>Without a mechanism SASL settings are refused, with one they are accepted.\<close>

lemma kafka_settings_clients_witness:
  "validate_auth_settings (\<lambda>p. p = ''/ca.crt'') demo_kafka_settings = None \<and>
   validate_auth_settings (\<lambda>p. p = ''/ca.crt'') (demo_kafka_settings\<lparr>kc_sasl_mechanism := Some SASL_PLAIN\<rparr>)
     = Some (demo_kafka_settings\<lparr>kc_sasl_mechanism := Some SASL_PLAIN\<rparr>)"
  using kafka_settings_clients [of demo_kafka_settings "\<lambda>p. p = ''/ca.crt''" 0]
    kafka_settings_clients [of "demo_kafka_settings\<lparr>kc_sasl_mechanism := Some SASL_PLAIN\<rparr>" "\<lambda>p. p = ''/ca.crt''" 0]
  by (simp add: demo_kafka_settings_def settings_complete_def)

end
