(* ===== verification/EventManager.thy ===== *)
theory EventManager
  imports Kafka
begin

text \<open>
  The application metrics of \<open>safir.metrics\<close>: events and their publishers, the event managers
  (\<open>_event_manager.py\<close>) and the check of event models (\<open>_models.py\<close>).  A Kafka event manager
  has a state that keeps failures of the infrastructure away from the application; it is
  modelled operation by operation, and once more with the operations of several tasks
  interleaved at their awaits.
\<close>

subsection \<open>Event models\<close>

definition valid_avro_types :: "string list" where
  "valid_avro_types = [''boolean'', ''double'', ''enum'', ''float'', ''int'', ''long'', ''null'', ''string'']"

definition avro_base_type :: "avro_type \<Rightarrow> kafka_exc + string" where
  "avro_base_type spec =
     (let avro_type = (case spec of AvroComplex t \<Rightarrow> t | _ \<Rightarrow> spec) in
      case avro_type of AvroName n \<Rightarrow> Inr n | _ \<Rightarrow> Inl KafkaValueError)"

text \<open>\<open>all(...)\<close>, which stops at the first unsupported type and raises what \<open>_extract_type\<close> raises.\<close>

fun all_valid :: "avro_type list \<Rightarrow> kafka_exc + bool" where
  "all_valid [] = Inr True"
| "all_valid (t # ts) = (case avro_base_type t of
     Inl e \<Rightarrow> Inl e
   | Inr n \<Rightarrow> if n \<in> set valid_avro_types then all_valid ts else Inr False)"

text \<open>The names of the fields that cannot be stored, in order.\<close>

fun field_errors :: "(string \<times> avro_type) list \<Rightarrow> kafka_exc + string list" where
  "field_errors [] = Inr []"
| "field_errors ((name, field_type) # fts) =
     (case (case field_type of
              AvroUnion subtypes \<Rightarrow> all_valid subtypes
            | _ \<Rightarrow> (case avro_base_type field_type of Inl e \<Rightarrow> Inl e | Inr n \<Rightarrow> Inr (n \<in> set valid_avro_types))) of
        Inl e \<Rightarrow> Inl e
      | Inr ok \<Rightarrow> (case field_errors fts of
          Inl e \<Rightarrow> Inl e
        | Inr errors \<Rightarrow> Inr (if ok then errors else name # errors)))"

definition validate_structure :: "avro_model \<Rightarrow> kafka_exc + unit" where
  "validate_structure model = (case field_errors (am_fields model) of
     Inl e \<Rightarrow> Inl e
   | Inr errors \<Rightarrow> if errors \<noteq> [] then Inl (UnsupportedAvroSchemaError errors) else Inr ())"

text \<open>The model of an event: the payload's fields, the metadata's, and the name and namespace of its schema.\<close>

definition event_model :: "string \<Rightarrow> string \<Rightarrow> (string \<times> avro_type) list \<Rightarrow> avro_model \<Rightarrow> avro_model" where
  "event_model name topic metadata_fields payload_model =
     \<lparr>am_class = ''EventModel'', am_schema_name = Some name, am_namespace = Some topic,
      am_fields = filter (\<lambda>f. fst f \<notin> fst ` set (am_fields payload_model)) metadata_fields @ am_fields payload_model\<rparr>"

subsection \<open>Events\<close>

datatype 'v event_value = EvStr string | EvTime int | EvInt int | EvPayload 'v

type_synonym 'v event = "(string \<times> 'v event_value) list"

text \<open>
  What an event manager uses: the clock, in microseconds and in nanoseconds, fresh identifiers, the time a
  number of nanoseconds becomes when it is divided as a float, the validation of a model, and the
  clients of Kafka and of the schema registry.  Time passes outside of the operations modelled here,
  so the clock is read from the world.
\<close>

record ('w, 'v) metrics_env =
  me_now :: "'w \<Rightarrow> int"
  me_time_ns :: "'w \<Rightarrow> int"
  me_uuid :: "'w \<Rightarrow> string \<times> 'w"
  me_ns_to_datetime :: "int \<Rightarrow> int"
  me_validate :: "avro_model \<Rightarrow> 'v event \<Rightarrow> kafka_exc + 'v event"
  me_metadata_fields :: "(string \<times> avro_type) list"
  me_registry :: "('w, 'v event) schema_registry"
  me_broker_start :: "('w, kafka_exc, unit) eff"
  me_broker_stop :: "('w, kafka_exc, unit) eff"
  me_broker_publisher :: "string \<Rightarrow> avro_model \<Rightarrow> ('w, kafka_exc, unit) eff"
  me_admin_start :: "('w, kafka_exc, unit) eff"
  me_admin_close :: "('w, kafka_exc, unit) eff"
  me_describe_topics :: "string \<Rightarrow> ('w, kafka_exc, int option list) eff"
  me_publish :: "string \<Rightarrow> string \<Rightarrow> ('w, kafka_exc, unit) eff"

text \<open>The settings of a manager, the same for its whole life.\<close>

record manager_settings =
  mg_application :: string
  mg_topic :: string
  mg_backoff :: int
  mg_manage_kafka_broker :: bool
  mg_raise_on_error :: bool
  mg_suffix :: string

definition manager_topic :: "string \<Rightarrow> string \<Rightarrow> string" where
  "manager_topic topic_prefix application = topic_prefix @ ''.'' @ application"

datatype manager_phase = ErrorRecoverable | ErrorUnrecoverable | ReadyToPublish | Uninitialized

definition error_states :: "manager_phase set" where
  "error_states = {ErrorRecoverable, ErrorUnrecoverable}"

datatype manager_log = LogRetry | LogFailed | LogUnrecoverable | LogShutdownError

datatype 'v publisher =
    KafkaPublisher avro_model schema_info
  | FailedPublisher avro_model int
  | NoopPublisher avro_model
  | MockPublisher avro_model "(string \<times> 'v) list list"

record ('w, 'v) event_manager = "'w kafka_state" +
  em_phase :: manager_phase
  em_failed_at :: int
  em_publishers :: "(string \<times> 'v publisher) list"
  em_log :: "manager_log list"

type_synonym ('w, 'v, 'a) manager_eff = "(('w, 'v) event_manager, kafka_exc, 'a) eff"

text \<open>The first instant of 1900, in microseconds since the start of the calendar.\<close>

definition year_1900 :: int where
  "year_1900 = 59926608000000000"

definition log_event :: "manager_log \<Rightarrow> ('w, 'v) event_manager \<Rightarrow> ('w, 'v) event_manager" where
  "log_event l s = s\<lparr>em_log := em_log s @ [l]\<rparr>"

definition new_manager :: "'w \<Rightarrow> ('w, 'v) event_manager" where
  "new_manager w = \<lparr>ks_ids = Map.empty, ks_world = w, em_phase = Uninitialized, em_failed_at = year_1900,
     em_publishers = [], em_log = []\<rparr>"

text \<open>
  \<open>construct_event\<close>: the keyword arguments are those of the metadata and of the payload, and a name in
  both is a type error.
\<close>

definition construct_event ::
  "('w, 'v) metrics_env \<Rightarrow> string \<Rightarrow> avro_model \<Rightarrow> (string \<times> 'v) list \<Rightarrow> ('w, 'v, 'v event) manager_eff" where
  "construct_event env application event_class payload = (\<lambda>s.
     let time_ns = me_time_ns env (ks_world s);
         (uuid, w) = me_uuid env (ks_world s);
         metadata = [(''id'', EvStr uuid), (''application'', EvStr application),
           (''timestamp'', EvTime (me_ns_to_datetime env time_ns)), (''timestamp_ns'', EvInt time_ns)];
         s = s\<lparr>ks_world := w\<rparr>
     in if fst ` set metadata \<inter> fst ` set payload \<noteq> {} then (Inl KafkaTypeError, s)
        else (me_validate env event_class (metadata @ map (\<lambda>(n, v). (n, EvPayload v)) payload), s))"

subsection \<open>Abandonable operations\<close>

text \<open>The exceptions that derive from \<open>EventManagerUsageError\<close>.\<close>

fun is_usage_error :: "kafka_exc \<Rightarrow> bool" where
  "is_usage_error EventManagerUninitializedError = True"
| "is_usage_error (DuplicateEventError _) = True"
| "is_usage_error (KafkaTopicError _) = True"
| "is_usage_error (UnsupportedAvroSchemaError _) = True"
| "is_usage_error _ = False"

text \<open>
  The decorator \<open>abandonable\<close>: what it does before the operation, at the time \<open>now\<close> (the flag says
  whether the operation is attempted), and when the operation fails.
\<close>

definition abandon_enter ::
  "manager_settings \<Rightarrow> int \<Rightarrow> ('w, 'v) event_manager \<Rightarrow> bool \<times> ('w, 'v) event_manager" where
  "abandon_enter cfg now s =
     (let elapsed = now - em_failed_at s in
      if em_phase s \<in> error_states \<and> elapsed \<le> mg_backoff cfg then (False, s)
      else if em_phase s = ErrorUnrecoverable then (False, log_event LogUnrecoverable s)
      else if em_phase s = ErrorRecoverable then (True, log_event LogRetry (s\<lparr>em_phase := ReadyToPublish\<rparr>))
      else (True, s))"

definition abandon_fail ::
  "bool \<Rightarrow> int \<Rightarrow> ('w, 'v) event_manager \<Rightarrow> ('w, 'v) event_manager" where
  "abandon_fail recoverable now s =
     (let s = s\<lparr>em_failed_at := now\<rparr> in
      if recoverable then log_event LogFailed (s\<lparr>em_phase := ErrorRecoverable\<rparr>)
      else log_event LogUnrecoverable (s\<lparr>em_phase := ErrorUnrecoverable\<rparr>))"

definition abandonable ::
  "manager_settings \<Rightarrow> ('w, 'v) metrics_env \<Rightarrow> bool \<Rightarrow> ('w, 'v, 'a) manager_eff \<Rightarrow> ('w, 'v, 'a option) manager_eff" where
  "abandonable cfg env recoverable func = (\<lambda>s.
     let now = me_now env (ks_world s) in
     case abandon_enter cfg now s of
       (False, s) \<Rightarrow> (Inr None, s)
     | (True, s) \<Rightarrow> (case func s of
         (Inr a, s) \<Rightarrow> (Inr (Some a), s)
       | (Inl e, s) \<Rightarrow>
           if is_usage_error e \<or> mg_raise_on_error cfg then (Inl e, s)
           else (Inr None, abandon_fail recoverable now s)))"

subsection \<open>The Kafka event manager\<close>

definition initialize_steps :: "manager_settings \<Rightarrow> ('w, 'v) metrics_env \<Rightarrow> ('w, 'v, unit) manager_eff" where
  "initialize_steps cfg env =
     bind_eff (if mg_manage_kafka_broker cfg then outside (me_broker_start env) else ret_eff ()) (\<lambda>_.
     bind_eff (outside (me_admin_start env)) (\<lambda>_.
     modify_eff (\<lambda>s. s\<lparr>em_phase := ReadyToPublish\<rparr>)))"

definition initialize :: "manager_settings \<Rightarrow> ('w, 'v) metrics_env \<Rightarrow> ('w, 'v, unit option) manager_eff" where
  "initialize cfg env = abandonable cfg env False (initialize_steps cfg env)"

text \<open>\<open>EventManager.aclose\<close> and the one of the Kafka manager.\<close>

definition base_aclose :: "('w, 'v) event_manager \<Rightarrow> ('w, 'v) event_manager" where
  "base_aclose s = s\<lparr>em_publishers := [], em_phase := Uninitialized\<rparr>"

definition aclose :: "manager_settings \<Rightarrow> ('w, 'v) metrics_env \<Rightarrow> ('w, 'v, unit) manager_eff" where
  "aclose cfg env =
     catch_eff
       (bind_eff (if mg_manage_kafka_broker cfg then outside (me_broker_stop env) else ret_eff ()) (\<lambda>_.
        bind_eff (outside (me_admin_close env)) (\<lambda>_. modify_eff base_aclose)))
       (\<lambda>_. modify_eff (log_event LogShutdownError))"

definition is_topic_ok :: "('w, 'v) metrics_env \<Rightarrow> string \<Rightarrow> ('w, 'v, bool) manager_eff" where
  "is_topic_ok env topic =
     bind_eff (outside (me_describe_topics env topic)) (\<lambda>info.
     ret_eff (case info of [] \<Rightarrow> False | error_code # _ \<Rightarrow> error_code = Some 0))"

definition build_steps ::
  "manager_settings \<Rightarrow> ('w, 'v) metrics_env \<Rightarrow> avro_model \<Rightarrow> ('w, 'v, 'v publisher) manager_eff" where
  "build_steps cfg env model =
     bind_eff (outside (me_broker_publisher env (mg_topic cfg) model)) (\<lambda>_.
     bind_eff (is_topic_ok env (mg_topic cfg)) (\<lambda>ok.
     if \<not> ok then raise_eff (KafkaTopicError (mg_topic cfg))
     else bind_eff (register_model (me_registry env) (mg_suffix cfg) model (Some COMPATIBILITY_NONE)) (\<lambda>schema_info.
          ret_eff (KafkaPublisher model schema_info))))"

definition try_build_publisher ::
  "manager_settings \<Rightarrow> ('w, 'v) metrics_env \<Rightarrow> avro_model \<Rightarrow> ('w, 'v, 'v publisher option) manager_eff" where
  "try_build_publisher cfg env model = abandonable cfg env False (build_steps cfg env model)"

definition build_kafka_publisher ::
  "manager_settings \<Rightarrow> ('w, 'v) metrics_env \<Rightarrow> avro_model \<Rightarrow> ('w, 'v, 'v publisher) manager_eff" where
  "build_kafka_publisher cfg env model =
     bind_eff (try_build_publisher cfg env model) (\<lambda>publisher. ret_eff (case publisher of
       None \<Rightarrow> FailedPublisher model year_1900
     | Some p \<Rightarrow> p))"

definition publish_steps ::
  "manager_settings \<Rightarrow> ('w, 'v) metrics_env \<Rightarrow> avro_model \<Rightarrow> 'v event \<Rightarrow> ('w, 'v, unit) manager_eff" where
  "publish_steps cfg env model event =
     bind_eff (read_eff em_phase) (\<lambda>phase.
     if phase = Uninitialized then raise_eff EventManagerUninitializedError
     else bind_eff (serialize (me_registry env) (mg_suffix cfg) model event) (\<lambda>encoded.
          outside (me_publish env (mg_topic cfg) encoded)))"

definition manager_publish ::
  "manager_settings \<Rightarrow> ('w, 'v) metrics_env \<Rightarrow> avro_model \<Rightarrow> 'v event \<Rightarrow> ('w, 'v, unit option) manager_eff" where
  "manager_publish cfg env model event = abandonable cfg env True (publish_steps cfg env model event)"

subsection \<open>Every event manager\<close>

text \<open>The managers that publish nothing, and the one that only records.\<close>

definition base_initialize :: "('w, 'v, unit) manager_eff" where
  "base_initialize = modify_eff (\<lambda>s. s\<lparr>em_phase := ReadyToPublish\<rparr>)"

definition build_noop_publisher :: "avro_model \<Rightarrow> ('w, 'v, 'v publisher) manager_eff" where
  "build_noop_publisher model = ret_eff (NoopPublisher model)"

definition build_mock_publisher :: "avro_model \<Rightarrow> ('w, 'v, 'v publisher) manager_eff" where
  "build_mock_publisher model = ret_eff (MockPublisher model [])"

text \<open>\<open>create_publisher\<close>, over the manager's own \<open>build_publisher_for_model\<close>.\<close>

definition create_publisher ::
  "(avro_model \<Rightarrow> ('w, 'v, 'v publisher) manager_eff) \<Rightarrow> manager_settings \<Rightarrow> ('w, 'v) metrics_env
     \<Rightarrow> string \<Rightarrow> avro_model \<Rightarrow> ('w, 'v, 'v publisher) manager_eff" where
  "create_publisher build_publisher_for_model cfg env name payload_model =
     bind_eff (read_eff em_phase) (\<lambda>phase.
     if phase = Uninitialized then raise_eff EventManagerUninitializedError
     else bind_eff (read_eff em_publishers) (\<lambda>publishers.
     if name \<in> fst ` set publishers then raise_eff (DuplicateEventError name)
     else let model = event_model name (mg_topic cfg) (me_metadata_fields env) payload_model in
     bind_eff (lift_eff (validate_structure model)) (\<lambda>_.
     bind_eff (build_publisher_for_model model) (\<lambda>publisher.
     bind_eff (modify_eff (\<lambda>s. s\<lparr>em_publishers := AList.update name publisher (em_publishers s)\<rparr>)) (\<lambda>_.
     ret_eff publisher)))))"

text \<open>
  \<open>publish\<close> of each class of publisher, which is part of the state: a failed one notes when it last
  logged, a mock one records the payloads.
\<close>

type_synonym ('w, 'v, 'a) publisher_eff = "('v publisher \<times> ('w, 'v) event_manager, kafka_exc, 'a) eff"

definition with_manager :: "('w, 'v, 'a) manager_eff \<Rightarrow> ('w, 'v, 'a) publisher_eff" where
  "with_manager m = (\<lambda>(p, s). case m s of (r, s) \<Rightarrow> (r, (p, s)))"

definition set_publisher :: "'v publisher \<Rightarrow> ('w, 'v, unit) publisher_eff" where
  "set_publisher p = modify_eff (\<lambda>(_, s). (p, s))"

definition publish_kafka ::
  "manager_settings \<Rightarrow> ('w, 'v) metrics_env \<Rightarrow> avro_model \<Rightarrow> (string \<times> 'v) list \<Rightarrow> ('w, 'v, 'v event) publisher_eff" where
  "publish_kafka cfg env model payload =
     bind_eff (with_manager (construct_event env (mg_application cfg) model payload)) (\<lambda>event.
     bind_eff (with_manager (manager_publish cfg env model event)) (\<lambda>_. ret_eff event))"

definition publish_noop ::
  "manager_settings \<Rightarrow> ('w, 'v) metrics_env \<Rightarrow> avro_model \<Rightarrow> (string \<times> 'v) list \<Rightarrow> ('w, 'v, 'v event) publisher_eff" where
  "publish_noop cfg env model payload = with_manager (construct_event env (mg_application cfg) model payload)"

definition publish_failed ::
  "manager_settings \<Rightarrow> ('w, 'v) metrics_env \<Rightarrow> avro_model \<Rightarrow> int \<Rightarrow> (string \<times> 'v) list \<Rightarrow> ('w, 'v, 'v event) publisher_eff" where
  "publish_failed cfg env model called_at payload =
     bind_eff (with_manager (read_eff (\<lambda>s. me_now env (ks_world s)))) (\<lambda>now.
     let elapsed = now - called_at in
     bind_eff (if mg_backoff cfg < elapsed
               then bind_eff (set_publisher (FailedPublisher model now)) (\<lambda>_. with_manager (modify_eff (log_event LogUnrecoverable)))
               else ret_eff ()) (\<lambda>_.
     with_manager (construct_event env (mg_application cfg) model payload)))"

definition publish_mock ::
  "manager_settings \<Rightarrow> ('w, 'v) metrics_env \<Rightarrow> avro_model \<Rightarrow> (string \<times> 'v) list list \<Rightarrow> (string \<times> 'v) list
     \<Rightarrow> ('w, 'v, 'v event) publisher_eff" where
  "publish_mock cfg env model published payload =
     bind_eff (publish_noop cfg env model payload) (\<lambda>event.
     bind_eff (set_publisher (MockPublisher model (published @ [payload]))) (\<lambda>_. ret_eff event))"

definition publish ::
  "manager_settings \<Rightarrow> ('w, 'v) metrics_env \<Rightarrow> (string \<times> 'v) list \<Rightarrow> ('w, 'v, 'v event) publisher_eff" where
  "publish cfg env payload = (\<lambda>(p, s). (case p of
     KafkaPublisher model _ \<Rightarrow> publish_kafka cfg env model payload
   | FailedPublisher model called_at \<Rightarrow> publish_failed cfg env model called_at payload
   | NoopPublisher model \<Rightarrow> publish_noop cfg env model payload
   | MockPublisher model published \<Rightarrow> publish_mock cfg env model published payload) (p, s))"

subsection \<open>Errors of the infrastructure\<close>

lemma log_event_fields [simp]:
  "ks_world (log_event l s) = ks_world s" "ks_ids (log_event l s) = ks_ids s" "em_phase (log_event l s) = em_phase s"
  "em_failed_at (log_event l s) = em_failed_at s" "em_publishers (log_event l s) = em_publishers s"
  by (simp_all add: log_event_def)

text \<open>The libraries raise exceptions of their own, never those of wrong use.\<close>

definition never_usage_error :: "('w, kafka_exc, 'a) eff \<Rightarrow> bool" where
  "never_usage_error m \<longleftrightarrow> (\<forall>w e. fst (m w) = Inl e \<longrightarrow> \<not> is_usage_error e)"

definition infrastructure_errors :: "('w, 'v) metrics_env \<Rightarrow> bool" where
  "infrastructure_errors env \<longleftrightarrow>
     never_usage_error (me_broker_start env) \<and> never_usage_error (me_admin_start env) \<and>
     (\<forall>topic model. never_usage_error (me_broker_publisher env topic model)) \<and>
     (\<forall>topic. never_usage_error (me_describe_topics env topic)) \<and>
     (\<forall>topic x. never_usage_error (me_publish env topic x)) \<and>
     (\<forall>subject level. never_usage_error (rg_update_compatibility (me_registry env) subject level)) \<and>
     (\<forall>subject model. never_usage_error (rg_test_compatibility (me_registry env) subject model)) \<and>
     (\<forall>subject model. never_usage_error (rg_register (me_registry env) subject model)) \<and>
     (\<forall>i x. never_usage_error (rg_encode (me_registry env) i x))"

lemma never_usage_outside [simp]: "never_usage_error m \<Longrightarrow> never_usage_error (outside m)"
  by (auto simp: never_usage_error_def outside_def split: prod.splits) (metis fst_conv)

lemma never_usage_bind [intro]:
  "never_usage_error m \<Longrightarrow> (\<And>a. never_usage_error (k a)) \<Longrightarrow> never_usage_error (bind_eff m k)"
  unfolding never_usage_error_def bind_eff_def by (auto split: prod.splits sum.splits) (metis fst_conv)+

lemma never_usage_simple [simp]:
  "never_usage_error (ret_eff a)" "never_usage_error (modify_eff f)" "never_usage_error (read_eff g)"
  "never_usage_error (raise_eff e) = (\<not> is_usage_error e)"
  "never_usage_error (lift_eff r) = (\<forall>e. r = Inl e \<longrightarrow> \<not> is_usage_error e)"
  by (simp_all add: never_usage_error_def eff_simps)

lemma get_subject_error: "get_subject suffix model = Inl e \<Longrightarrow> \<not> is_usage_error e"
  by (auto simp: get_subject_def validate_avro_name_def Let_def split: sum.splits if_splits)

lemma never_usage_serialize: "infrastructure_errors env \<Longrightarrow> never_usage_error (serialize (me_registry env) suffix model x)"
  unfolding serialize_def infrastructure_errors_def
  by (intro never_usage_bind) (auto dest: get_subject_error split: option.splits)

lemma never_usage_register: "infrastructure_errors env \<Longrightarrow> never_usage_error (register_model (me_registry env) suffix model c)"
  unfolding register_model_def infrastructure_errors_def
  by (intro never_usage_bind) (auto intro!: never_usage_bind dest: get_subject_error split: option.splits compat_answer.splits)

text \<open>What an abandonable operation of a manager that does not raise can end in.\<close>

lemma abandonable_error:
  assumes "abandonable cfg env recoverable func s = (Inl e, t)" "\<not> mg_raise_on_error cfg"
  obtains s' where "abandon_enter cfg (me_now env (ks_world s)) s = (True, s')" "func s' = (Inl e, t)" "is_usage_error e"
  using assms by (auto simp: abandonable_def Let_def split: prod.splits bool.splits sum.splits if_splits)

lemma abandonable_no_error:
  assumes "\<not> mg_raise_on_error cfg" "never_usage_error func"
  shows "\<exists>a. fst (abandonable cfg env recoverable func s) = Inr a"
proof (cases "abandonable cfg env recoverable func s")
  case (Pair r t)
  show ?thesis
  proof (cases r)
    case (Inl e)
    then have "abandonable cfg env recoverable func s = (Inl e, t)" using Pair by simp
    then obtain s' where "func s' = (Inl e, t)" "is_usage_error e" by (rule abandonable_error [OF _ assms(1)])
    then show ?thesis using assms(2) by (auto simp: never_usage_error_def) (metis fst_conv)
  qed (simp add: Pair)
qed

lemma abandon_enter_phase:
  "abandon_enter cfg now s = (True, s') \<Longrightarrow>
    em_phase s' = (if em_phase s = ErrorRecoverable then ReadyToPublish else em_phase s)"
  by (auto simp: abandon_enter_def log_event_def Let_def split: if_splits)

lemma manager_publish_no_error:
  assumes "\<not> mg_raise_on_error cfg" "infrastructure_errors env" "em_phase s \<noteq> Uninitialized"
  shows "\<exists>a. fst (manager_publish cfg env model event s) = Inr a"
proof (cases "manager_publish cfg env model event s")
  case (Pair r t)
  show ?thesis
  proof (cases r)
    case (Inl e)
    let ?send = "bind_eff (serialize (me_registry env) (mg_suffix cfg) model event)
      (\<lambda>encoded. outside (me_publish env (mg_topic cfg) encoded))"
    have "manager_publish cfg env model event s = (Inl e, t)" using Pair Inl by simp
    then obtain s' where s': "abandon_enter cfg (me_now env (ks_world s)) s = (True, s')"
      and f: "publish_steps cfg env model event s' = (Inl e, t)" and usage: "is_usage_error e"
      unfolding manager_publish_def by (rule abandonable_error [OF _ assms(1)])
    have "?send s' = (Inl e, t)"
      using f abandon_enter_phase [OF s'] assms(3) by (simp add: publish_steps_def eff_simps split: if_splits)
    moreover have "never_usage_error ?send"
      using assms(2) never_usage_serialize [OF assms(2)] by (intro never_usage_bind) (simp_all add: infrastructure_errors_def)
    ultimately show ?thesis using usage unfolding never_usage_error_def by (metis fst_conv)
  qed (simp add: Pair)
qed

lemma build_publisher_outcome:
  fixes env :: "('w, 'v) metrics_env"
  assumes "\<not> mg_raise_on_error cfg" "infrastructure_errors env"
  shows "case fst (build_kafka_publisher cfg env model s) of
       Inl e \<Rightarrow> e = KafkaTopicError (mg_topic cfg)
     | Inr p \<Rightarrow> p = FailedPublisher model year_1900 \<or> (\<exists>info. p = KafkaPublisher model info \<and> si_schema info = model)"
proof (cases "try_build_publisher cfg env model s")
  case (Pair r t)
  have register: "si_schema info = model" if "register_model (me_registry env) (mg_suffix cfg) model c u = (Inr info, v)"
    for c info and u v :: "('w, 'v) event_manager"
    using register_model_ids(2) [OF that] by simp
  show ?thesis
  proof (cases r)
    case (Inl e)
    then have "try_build_publisher cfg env model s = (Inl e, t)" using Pair by simp
    then obtain s' where "abandon_enter cfg (me_now env (ks_world s)) s = (True, s')"
      and f: "build_steps cfg env model s' = (Inl e, t)" and "is_usage_error e"
      unfolding try_build_publisher_def by (rule abandonable_error [OF _ assms(1)])
    have reg: "\<not> is_usage_error e" if "register_model (me_registry env) (mg_suffix cfg) model c u = (Inl e, v)"
      for c and u v :: "('w, 'v) event_manager"
      using never_usage_register [OF assms(2)] that unfolding never_usage_error_def by (metis fst_conv)
    have pub: "\<not> is_usage_error e" if "outside (me_broker_publisher env (mg_topic cfg) model) u = (Inl e, v)"
      for u v :: "('w, 'v) event_manager"
      using assms(2) that never_usage_outside [of "me_broker_publisher env (mg_topic cfg) model"]
      unfolding infrastructure_errors_def never_usage_error_def by (metis fst_conv)
    have top: "\<not> is_usage_error e" if "is_topic_ok env (mg_topic cfg) u = (Inl e, v)" for u v :: "('w, 'v) event_manager"
    proof -
      have "never_usage_error (is_topic_ok env (mg_topic cfg) :: ('w, 'v, bool) manager_eff)"
        unfolding is_topic_ok_def using assms(2) by (intro never_usage_bind) (simp_all add: infrastructure_errors_def)
      then show ?thesis using that unfolding never_usage_error_def by (metis fst_conv)
    qed
    have "e = KafkaTopicError (mg_topic cfg)"
      using f \<open>is_usage_error e\<close> unfolding build_steps_def
      by (auto simp: bind_eff_Inl raise_eff_apply ret_eff_apply split: if_splits dest: reg pub top)
    then show ?thesis using Pair Inl by (simp add: build_kafka_publisher_def eff_simps)
  next
    case (Inr q)
    then show ?thesis using Pair
      by (auto simp: build_kafka_publisher_def try_build_publisher_def build_steps_def abandonable_def eff_simps bind_eff_Inr Let_def
          split: option.splits prod.splits bool.splits sum.splits if_splits dest: register)
  qed
qed

lemma initialize_no_error:
  assumes "\<not> mg_raise_on_error cfg" "infrastructure_errors env"
  shows "\<exists>a. fst (initialize cfg env s) = Inr a"
  unfolding initialize_def initialize_steps_def
  using assms(2) by (intro abandonable_no_error [OF assms(1)] never_usage_bind) (simp_all add: infrastructure_errors_def)

lemma construct_event_phase: "construct_event env application model payload s = (r, t) \<Longrightarrow> em_phase t = em_phase s"
  by (auto simp: construct_event_def Let_def split: prod.splits if_splits)

lemma publish_kafka_result:
  assumes "\<not> mg_raise_on_error cfg" "infrastructure_errors env" "em_phase s \<noteq> Uninitialized"
  shows "fst (publish_kafka cfg env model payload (p, s)) = fst (construct_event env (mg_application cfg) model payload s)"
proof (cases "construct_event env (mg_application cfg) model payload s")
  case (Pair r t)
  have "\<exists>a. fst (manager_publish cfg env model event t) = Inr a" for event
    using construct_event_phase [OF Pair] assms by (intro manager_publish_no_error) simp_all
  then have "\<exists>a u. manager_publish cfg env model event t = (Inr a, u)" for event by (metis prod.collapse)
  then obtain a u where "\<And>event. manager_publish cfg env model event t = (Inr (a event), u event)" by metis
  then show ?thesis using Pair by (cases r) (simp_all add: publish_kafka_def with_manager_def eff_simps)
qed

text \<open> C23. The metrics system never breaks the application: with \<open>raise_on_error\<close> off and an
  infrastructure that fails in any way of its own, initialization never raises; building a publisher
  raises at most for a topic that does not exist, and otherwise gives one; and publishing an event of
  an initialized manager, through any publisher and in any state, returns the event, unless the
  payload itself cannot be made into an event. \<close>
theorem event_failures_contained:
  assumes "\<not> mg_raise_on_error cfg" "infrastructure_errors env"
  shows "(\<exists>a. fst (initialize cfg env s) = Inr a) \<and>
    (case fst (build_kafka_publisher cfg env model s) of
       Inl e \<Rightarrow> e = KafkaTopicError (mg_topic cfg)
     | Inr p \<Rightarrow> p = FailedPublisher model year_1900 \<or> (\<exists>info. p = KafkaPublisher model info \<and> si_schema info = model)) \<and>
    (em_phase s \<noteq> Uninitialized \<longrightarrow>
      fst (publish cfg env payload (p, s)) = fst (construct_event env (mg_application cfg)
        (case p of KafkaPublisher m _ \<Rightarrow> m | FailedPublisher m _ \<Rightarrow> m | NoopPublisher m \<Rightarrow> m | MockPublisher m _ \<Rightarrow> m) payload s))"
proof (intro conjI impI)
  assume ready: "em_phase s \<noteq> Uninitialized"
  show "fst (publish cfg env payload (p, s)) = fst (construct_event env (mg_application cfg)
        (case p of KafkaPublisher m _ \<Rightarrow> m | FailedPublisher m _ \<Rightarrow> m | NoopPublisher m \<Rightarrow> m | MockPublisher m _ \<Rightarrow> m) payload s)"
  proof (cases p)
    case (KafkaPublisher m info)
    then show ?thesis using publish_kafka_result [OF assms ready] by (simp add: publish_def)
  next
    case (FailedPublisher m called_at)
    let ?event = "construct_event env (mg_application cfg) m payload"
    have "fst (?event (log_event LogUnrecoverable s)) = fst (?event s)"
      by (simp add: construct_event_def Let_def split: prod.splits)
    then obtain r t t' where "?event (log_event LogUnrecoverable s) = (r, t)" "?event s = (r, t')" by (metis prod.collapse)
    then show ?thesis using FailedPublisher
      by (simp add: publish_def publish_failed_def with_manager_def set_publisher_def eff_simps Let_def)
  qed (auto simp: publish_def publish_noop_def publish_mock_def with_manager_def set_publisher_def eff_simps
      split: prod.splits sum.splits)
qed (rule initialize_no_error [OF assms], rule build_publisher_outcome [OF assms])

text \<open>An infrastructure that cannot be started, with a clock as its world.\<close>

definition demo_registry :: "(int, unit event) schema_registry" where
  "demo_registry = \<lparr>rg_update_compatibility = (\<lambda>_ _. ret_eff ()), rg_test_compatibility = (\<lambda>_ _. ret_eff (CompatDict (Some True) [])),
     rg_register = (\<lambda>_ _. ret_eff 7), rg_encode = (\<lambda>_ _. ret_eff ''x'')\<rparr>"

definition demo_metrics_env :: "(int, unit) metrics_env" where
  "demo_metrics_env = \<lparr>me_now = (\<lambda>w. w), me_time_ns = (\<lambda>w. 1000 * w), me_uuid = (\<lambda>w. (''u'', w)), me_ns_to_datetime = (\<lambda>n. n div 1000),
     me_validate = (\<lambda>_ e. Inr e), me_metadata_fields = [], me_registry = demo_registry,
     me_broker_start = raise_eff (InfrastructureError ''no broker''), me_broker_stop = ret_eff (), me_broker_publisher = (\<lambda>_ _. ret_eff ()),
     me_admin_start = ret_eff (), me_admin_close = ret_eff (), me_describe_topics = (\<lambda>_. ret_eff [Some 0]),
     me_publish = (\<lambda>_ _. ret_eff ())\<rparr>"

definition demo_manager_settings :: manager_settings where
  "demo_manager_settings = \<lparr>mg_application = ''app'', mg_topic = ''t'', mg_backoff = 300, mg_manage_kafka_broker = True,
     mg_raise_on_error = False, mg_suffix = []\<rparr>"

definition demo_event_model :: avro_model where
  "demo_event_model = \<lparr>am_class = ''EventModel'', am_schema_name = Some ''e'', am_namespace = Some ''t'', am_fields = []\<rparr>"

lemma demo_infrastructure: "infrastructure_errors demo_metrics_env"
  by (simp add: infrastructure_errors_def demo_metrics_env_def demo_registry_def)

lemma event_failures_contained_witness:
  "\<not> mg_raise_on_error demo_manager_settings \<and> infrastructure_errors demo_metrics_env \<and>
   (\<exists>a. fst (initialize demo_manager_settings demo_metrics_env (new_manager 0)) = Inr a)"
  using event_failures_contained [of demo_manager_settings demo_metrics_env "new_manager 0"] demo_infrastructure
  by (simp add: demo_manager_settings_def)

end
