(* ===== verification/EventRuns.thy ===== *)
theory EventRuns
  imports EventManager
begin

text \<open>
  An event manager over time: sequences of its operations while the clock runs, and the operations of
  several tasks interleaved at their awaits.
\<close>

subsection \<open>Sequences of operations\<close>

text \<open>An operation of a manager, or a change of the world outside of it, such as time that passes.\<close>

datatype ('w, 'v) manager_call =
    CallInitialize
  | CallBuild avro_model
  | CallPublish avro_model "'v event"
  | Elapse "'w \<Rightarrow> 'w"

text \<open>The flag says that the operation was given up: it returned \<open>None\<close>.\<close>

definition manager_call ::
  "manager_settings \<Rightarrow> ('w, 'v) metrics_env \<Rightarrow> ('w, 'v) manager_call \<Rightarrow> ('w, 'v) event_manager
     \<Rightarrow> bool \<times> ('w, 'v) event_manager" where
  "manager_call cfg env c s = (case c of
     CallInitialize \<Rightarrow> (case initialize cfg env s of (r, s) \<Rightarrow> (r = Inr None, s))
   | CallBuild model \<Rightarrow> (case try_build_publisher cfg env model s of (r, s) \<Rightarrow> (r = Inr None, s))
   | CallPublish model event \<Rightarrow> (case manager_publish cfg env model event s of (r, s) \<Rightarrow> (r = Inr None, s))
   | Elapse f \<Rightarrow> (True, s\<lparr>ks_world := f (ks_world s)\<rparr>))"

fun run_calls ::
  "manager_settings \<Rightarrow> ('w, 'v) metrics_env \<Rightarrow> ('w, 'v) manager_call list \<Rightarrow> ('w, 'v) event_manager
     \<Rightarrow> bool list \<times> ('w, 'v) event_manager" where
  "run_calls cfg env [] s = ([], s)"
| "run_calls cfg env (c # cs) s =
     (let (given_up, s) = manager_call cfg env c s; (rest, s) = run_calls cfg env cs s in (given_up # rest, s))"

lemma run_calls_append:
  "run_calls cfg env (cs @ ds) s =
    (fst (run_calls cfg env cs s) @ fst (run_calls cfg env ds (snd (run_calls cfg env cs s))),
     snd (run_calls cfg env ds (snd (run_calls cfg env cs s))))"
  by (induction cs arbitrary: s) (simp_all add: Let_def split: prod.splits)

text \<open>The world when nothing touches it but the outside.\<close>

fun world_left_alone :: "('w, 'v) manager_call list \<Rightarrow> 'w \<Rightarrow> 'w" where
  "world_left_alone [] w = w"
| "world_left_alone (Elapse f # cs) w = world_left_alone cs (f w)"
| "world_left_alone (_ # cs) w = world_left_alone cs w"

text \<open>A manager that waits: for good, or until the backoff interval is over.\<close>

definition waiting :: "manager_settings \<Rightarrow> ('w, 'v) metrics_env \<Rightarrow> ('w, 'v) manager_call list \<Rightarrow> ('w, 'v) event_manager \<Rightarrow> bool" where
  "waiting cfg env cs s \<longleftrightarrow>
     em_phase s = ErrorUnrecoverable \<or>
     em_phase s = ErrorRecoverable \<and>
       (\<forall>n \<le> length cs. me_now env (world_left_alone (take n cs) (ks_world s)) - em_failed_at s \<le> mg_backoff cfg)"

lemma same_log [simp]:
  "\<exists>l. s = s\<lparr>em_log := em_log s @ l\<rparr>" "\<exists>l. s\<lparr>ks_world := w\<rparr> = s\<lparr>ks_world := w, em_log := em_log s @ l\<rparr>"
  by (rule exI [of _ "[]"], simp)+

lemma waiting_enter:
  assumes "waiting cfg env cs s"
  shows "\<exists>l. abandon_enter cfg (me_now env (ks_world s)) s = (False, s\<lparr>em_log := em_log s @ l\<rparr>)"
proof -
  have "em_phase s = ErrorRecoverable \<Longrightarrow> me_now env (ks_world s) - em_failed_at s \<le> mg_backoff cfg"
    using assms unfolding waiting_def by (metis le0 manager_phase.distinct(1) take_0 world_left_alone.simps(1))
  then show ?thesis using assms
    by (auto simp: waiting_def abandon_enter_def error_states_def log_event_def Let_def)
qed

lemma waiting_abandons:
  assumes "waiting cfg env cs s"
  shows "\<exists>l. abandonable cfg env recoverable func s = (Inr None, s\<lparr>em_log := em_log s @ l\<rparr>)"
  using waiting_enter [OF assms] by (auto simp: abandonable_def Let_def)

lemma waiting_operations:
  assumes "waiting cfg env cs s"
  shows "\<exists>l. initialize cfg env s = (Inr None, s\<lparr>em_log := em_log s @ l\<rparr>)"
    "\<exists>l. try_build_publisher cfg env model s = (Inr None, s\<lparr>em_log := em_log s @ l\<rparr>)"
    "\<exists>l. manager_publish cfg env model event s = (Inr None, s\<lparr>em_log := em_log s @ l\<rparr>)"
  unfolding initialize_def try_build_publisher_def manager_publish_def by (rule waiting_abandons [OF assms])+

lemma waiting_log [simp]: "waiting cfg env cs (s\<lparr>em_log := l\<rparr>) = waiting cfg env cs s"
  by (simp add: waiting_def)

lemma waiting_tl: "waiting cfg env (c # cs) s \<Longrightarrow> (\<And>f. c \<noteq> Elapse f) \<Longrightarrow> waiting cfg env cs s"
  unfolding waiting_def
  by (cases c) (fastforce dest: spec [of _ "Suc _"])+

lemma waiting_elapse:
  "waiting cfg env (Elapse f # cs) s \<Longrightarrow> waiting cfg env cs (s\<lparr>ks_world := f (ks_world s)\<rparr>)"
  unfolding waiting_def by (fastforce dest: spec [of _ "Suc _"])

lemma waiting_call:
  assumes "waiting cfg env (c # cs) s"
  shows "\<exists>l. manager_call cfg env c s = (True, s\<lparr>ks_world := world_left_alone [c] (ks_world s), em_log := em_log s @ l\<rparr>)"
proof (cases c)
  case (Elapse f)
  then show ?thesis by (auto simp: manager_call_def)
next
  case (CallBuild model)
  then show ?thesis using waiting_operations(2) [OF assms, of model] by (auto simp: manager_call_def)
next
  case (CallPublish model event)
  then show ?thesis using waiting_operations(3) [OF assms, of model event] by (auto simp: manager_call_def)
qed (use waiting_operations(1) [OF assms] in \<open>auto simp: manager_call_def\<close>)

lemma world_left_alone_Cons: "world_left_alone (c # cs) w = world_left_alone cs (world_left_alone [c] w)"
  by (cases c) simp_all

lemma waiting_run:
  assumes "waiting cfg env cs s"
  shows "\<exists>l. run_calls cfg env cs s =
    (replicate (length cs) True, s\<lparr>ks_world := world_left_alone cs (ks_world s), em_log := em_log s @ l\<rparr>)"
  using assms
proof (induction cs arbitrary: s)
  case Nil
  then show ?case by simp
next
  case (Cons c cs)
  obtain l where c: "manager_call cfg env c s = (True, s\<lparr>ks_world := world_left_alone [c] (ks_world s), em_log := em_log s @ l\<rparr>)"
    using waiting_call [OF Cons.prems] by blast
  have "waiting cfg env cs (s\<lparr>ks_world := world_left_alone [c] (ks_world s)\<rparr>)"
    using waiting_tl [OF Cons.prems] waiting_elapse [of cfg env _ cs s] Cons.prems by (cases c) simp_all
  then have "waiting cfg env cs (s\<lparr>ks_world := world_left_alone [c] (ks_world s), em_log := em_log s @ l\<rparr>)" by simp
  from Cons.IH [OF this] c show ?case by (auto simp: world_left_alone_Cons [of c cs])
qed

text \<open> C24. While a manager waits after a failure, which is until the backoff interval is over or, after a
  failure it cannot recover from, for ever, every operation is given up at once: nothing is asked of
  the infrastructure, nothing is registered, and the manager keeps waiting for the same time. \<close>
theorem event_backoff_respected:
  assumes "waiting cfg env cs s"
  shows "\<exists>l. run_calls cfg env cs s =
    (replicate (length cs) True, s\<lparr>ks_world := world_left_alone cs (ks_world s), em_log := em_log s @ l\<rparr>)"
  by (rule waiting_run [OF assms])

text \<open> C25. Publishing recovers: once the backoff interval after a recoverable failure is over, and the
  registry, the serializer and the broker work again, the next event reaches the broker and the
  manager is ready as before. \<close>
theorem event_publishing_recovers:
  assumes "waiting cfg env cs s" "em_phase s = ErrorRecoverable"
    and "mg_backoff cfg < me_now env w - em_failed_at s"
    and "get_subject (mg_suffix cfg) model = Inr subject" "ks_ids s subject = Some schema_id"
    and "rg_encode (me_registry env) schema_id event w = (Inr encoded, w')"
    and "me_publish env (mg_topic cfg) encoded w' = (Inr (), w'')"
  shows "\<exists>l. run_calls cfg env (cs @ [Elapse (\<lambda>_. w), CallPublish model event]) s =
    (replicate (length cs + 1) True @ [False], s\<lparr>ks_world := w'', em_phase := ReadyToPublish, em_log := em_log s @ l\<rparr>)"
proof -
  obtain l where cs: "run_calls cfg env cs s =
    (replicate (length cs) True, s\<lparr>ks_world := world_left_alone cs (ks_world s), em_log := em_log s @ l\<rparr>)"
    using waiting_run [OF assms(1)] by blast
  let ?s = "s\<lparr>em_log := em_log s @ l, ks_world := w\<rparr>"
  let ?t = "s\<lparr>ks_world := w, em_phase := ReadyToPublish, em_log := em_log s @ l @ [LogRetry]\<rparr>"
  have "abandon_enter cfg (me_now env w) ?s = (True, ?t)"
    using assms(2,3) by (simp add: abandon_enter_def log_event_def Let_def)
  moreover have "serialize (me_registry env) (mg_suffix cfg) model event ?t = (Inr encoded, ?t\<lparr>ks_world := w'\<rparr>)"
    using assms(4-6) by (simp add: serialize_def eff_simps outside_apply)
  ultimately have "manager_publish cfg env model event ?s = (Inr (Some ()), ?t\<lparr>ks_world := w''\<rparr>)"
    using assms(7) by (simp add: manager_publish_def publish_steps_def abandonable_def eff_simps outside_apply)
  then have "run_calls cfg env [Elapse (\<lambda>_. w), CallPublish model event] (snd (run_calls cfg env cs s)) =
    ([True, False], ?t\<lparr>ks_world := w''\<rparr>)"
    by (simp add: cs manager_call_def)
  then show ?thesis using cs
    by (intro exI [of _ "l @ [LogRetry]"]) (simp add: run_calls_append replicate_append_same)
qed

subsection \<open>Interleaved operations\<close>

text \<open>
  Several tasks use one manager.  An abandonable operation that is let in notes the time and is in
  flight, over its awaits, until it is done, fails, or raises an exception the decorator lets through, whichever the
  machine chooses; meanwhile the others run.  \<open>publish\<close> of an uninitialized manager raises before its first await.
\<close>

datatype op_kind = InitializeOp | BuildOp | PublishOp

type_synonym ('w, 'v) task_state = "int \<times> ('w, 'v) event_manager \<times> (op_kind \<times> int) list"

inductive task_step :: "manager_settings \<Rightarrow> ('w, 'v) task_state \<Rightarrow> ('w, 'v) task_state \<Rightarrow> bool" for cfg where
  tick: "now \<le> later \<Longrightarrow> task_step cfg (now, s, ops) (later, s, ops)"
| enter: "abandon_enter cfg now s = (True, s') \<Longrightarrow> k = PublishOp \<longrightarrow> em_phase s' \<noteq> Uninitialized \<Longrightarrow>
    task_step cfg (now, s, ops) (now, s', ops @ [(k, now)])"
| skip: "abandon_enter cfg now s = (False, s') \<Longrightarrow> task_step cfg (now, s, ops) (now, s', ops)"
| await: "task_step cfg (now, s, ops) (now, s\<lparr>ks_ids := ids, ks_world := w\<rparr>, ops)"
| done_op: "task_step cfg (now, s, ops @ (k, t) # ops')
    (now, if k = InitializeOp then s\<lparr>em_phase := ReadyToPublish\<rparr> else s, ops @ ops')"
| fail_op: "\<not> mg_raise_on_error cfg \<Longrightarrow>
    task_step cfg (now, s, ops @ (k, t) # ops') (now, abandon_fail (k = PublishOp) t s, ops @ ops')"
| raise_op: "task_step cfg (now, s, ops @ (k, t) # ops') (now, s, ops @ ops')"
| close: "task_step cfg (now, s, ops) (now, base_aclose s, ops)"

inductive_cases task_stepE: "task_step cfg c d"

abbreviation task_steps :: "manager_settings \<Rightarrow> ('w, 'v) task_state \<Rightarrow> ('w, 'v) task_state \<Rightarrow> bool" where
  "task_steps cfg \<equiv> (task_step cfg)\<^sup>*\<^sup>*"

text \<open>What an operation does to the state before it ends.\<close>

definition only_outside :: "('w, 'v, 'a) manager_eff \<Rightarrow> bool" where
  "only_outside m \<longleftrightarrow> (\<forall>s. \<exists>ids w. snd (m s) = s\<lparr>ks_ids := ids, ks_world := w\<rparr>)"

lemma only_outside_simple [simp]:
  "only_outside (ret_eff a)" "only_outside (raise_eff e)" "only_outside (lift_eff r)" "only_outside (read_eff f)"
  "only_outside (outside m)" "only_outside (modify_eff (\<lambda>s. s\<lparr>ks_ids := (ks_ids s)(x \<mapsto> i)\<rparr>))"
proof -
  have same: "\<exists>ids w. s = s\<lparr>ks_ids := ids, ks_world := w\<rparr>" for s :: "('w, 'v) event_manager"
    by (intro exI [of _ "ks_ids s"] exI [of _ "ks_world s"]) simp
  show "only_outside (ret_eff a)" "only_outside (raise_eff e)" "only_outside (lift_eff r)" "only_outside (read_eff f)"
    by (simp_all add: only_outside_def eff_simps same)
  show "only_outside (outside m)"
  proof (unfold only_outside_def, rule allI)
    fix s
    show "\<exists>ids w. snd (outside m s) = s\<lparr>ks_ids := ids, ks_world := w\<rparr>"
      by (intro exI [of _ "ks_ids s"] exI [of _ "snd (m (ks_world s))"]) (simp add: outside_apply split: prod.splits)
  qed
  show "only_outside (modify_eff (\<lambda>s. s\<lparr>ks_ids := (ks_ids s)(x \<mapsto> i)\<rparr>))"
  proof (unfold only_outside_def, rule allI)
    fix s
    show "\<exists>ids w. snd (modify_eff (\<lambda>s. s\<lparr>ks_ids := (ks_ids s)(x \<mapsto> i)\<rparr>) s) = s\<lparr>ks_ids := ids, ks_world := w\<rparr>"
      by (intro exI [of _ "(ks_ids s)(x \<mapsto> i)"] exI [of _ "ks_world s"]) (simp add: eff_simps)
  qed
qed

lemma only_outside_bind:
  assumes "only_outside m" "\<And>a. only_outside (k a)"
  shows "only_outside (bind_eff m k)"
  unfolding only_outside_def
proof
  fix s
  obtain r ids w where m: "m s = (r, s\<lparr>ks_ids := ids, ks_world := w\<rparr>)"
    using assms(1) unfolding only_outside_def by (metis prod.collapse)
  show "\<exists>ids w. snd (bind_eff m k s) = s\<lparr>ks_ids := ids, ks_world := w\<rparr>"
  proof (cases r)
    case (Inr a)
    obtain ids' w' where "snd (k a (s\<lparr>ks_ids := ids, ks_world := w\<rparr>)) = s\<lparr>ks_ids := ids, ks_world := w\<rparr>\<lparr>ks_ids := ids', ks_world := w'\<rparr>"
      using assms(2) unfolding only_outside_def by blast
    then show ?thesis using m Inr by (auto simp: eff_simps)
  qed (auto simp: eff_simps m)
qed

lemma only_outside_build: "only_outside (build_steps cfg env model)"
  unfolding build_steps_def is_topic_ok_def register_model_def
  by (auto intro!: only_outside_bind split: compat_answer.splits option.splits)

lemma abandonable_steps:
  assumes run: "abandonable cfg env (k = PublishOp) func s = (r, t)"
    and out: "\<And>s'. \<exists>ids w. snd (func s') =
      (if k = InitializeOp \<and> (\<exists>a. fst (func s') = Inr a) then s'\<lparr>ks_ids := ids, ks_world := w, em_phase := ReadyToPublish\<rparr>
       else s'\<lparr>ks_ids := ids, ks_world := w\<rparr>)"
    and ready: "k = PublishOp \<longrightarrow> em_phase s \<noteq> Uninitialized"
  shows "task_steps cfg (me_now env (ks_world s), s, ops) (me_now env (ks_world s), t, ops)"
proof (cases "abandon_enter cfg (me_now env (ks_world s)) s")
  case (Pair go s')
  let ?now = "me_now env (ks_world s)"
  show ?thesis
  proof (cases go)
    case False
    then have "t = s'" using run Pair by (simp add: abandonable_def)
    then show ?thesis using skip [of cfg ?now s s' ops] Pair False by simp
  next
    case True
    have "task_step cfg (?now, s, ops) (?now, s', ops @ [(k, ?now)])"
      using enter [of cfg ?now s s' k ops] Pair True ready abandon_enter_phase [of cfg ?now s s'] by simp
    moreover obtain q u where f: "func s' = (q, u)" by fastforce
    obtain ids w where u: "u = (if k = InitializeOp \<and> (\<exists>a. q = Inr a)
        then s'\<lparr>ks_ids := ids, ks_world := w, em_phase := ReadyToPublish\<rparr> else s'\<lparr>ks_ids := ids, ks_world := w\<rparr>)"
      using out [of s'] unfolding f by auto
    let ?m = "s'\<lparr>ks_ids := ids, ks_world := w\<rparr>"
    have "task_step cfg (?now, s', ops @ [(k, ?now)]) (?now, ?m, ops @ [(k, ?now)])" by (rule await)
    moreover have "task_step cfg (?now, ?m, ops @ [(k, ?now)]) (?now, t, ops)"
    proof (cases q)
      case (Inr a)
      then have "t = (if k = InitializeOp then ?m\<lparr>em_phase := ReadyToPublish\<rparr> else ?m)"
        using run Pair True f u by (simp add: abandonable_def)
      then show ?thesis using done_op [of cfg ?now ?m ops k ?now "[]"] by simp
    next
      case (Inl e)
      then have t: "t = (if is_usage_error e \<or> mg_raise_on_error cfg then ?m else abandon_fail (k = PublishOp) ?now ?m)"
        using run Pair True f u by (cases "is_usage_error e \<or> mg_raise_on_error cfg") (simp_all add: abandonable_def)
      show ?thesis
      proof (cases "is_usage_error e \<or> mg_raise_on_error cfg")
        case True
        then show ?thesis using t raise_op [of cfg ?now ?m ops k ?now "[]"] by simp
      next
        case False
        then show ?thesis using t fail_op [of cfg ?now ?m ops k ?now "[]"] by simp
      qed
    qed
    ultimately show ?thesis by (meson converse_rtranclp_into_rtranclp r_into_rtranclp)
  qed
qed

lemma initialize_effect:
  fixes s' :: "('w, 'v) event_manager"
  shows "\<exists>ids w. snd (initialize_steps cfg env s') = (if \<exists>a. fst (initialize_steps cfg env s') = Inr a
    then s'\<lparr>ks_ids := ids, ks_world := w, em_phase := ReadyToPublish\<rparr> else s'\<lparr>ks_ids := ids, ks_world := w\<rparr>)"
proof -
  let ?start = "bind_eff (if mg_manage_kafka_broker cfg then outside (me_broker_start env) else ret_eff ())
    (\<lambda>_. outside (me_admin_start env)) :: ('w, 'v, unit) manager_eff"
  have "only_outside ?start" by (intro only_outside_bind) simp_all
  then obtain r ids w where "?start s' = (r, s'\<lparr>ks_ids := ids, ks_world := w\<rparr>)"
    unfolding only_outside_def by (metis prod.collapse)
  moreover have "initialize_steps cfg env = bind_eff ?start (\<lambda>_. modify_eff (\<lambda>s. s\<lparr>em_phase := ReadyToPublish\<rparr>))"
    unfolding initialize_steps_def by (simp add: bind_eff_assoc)
  ultimately have "initialize_steps cfg env s' = (case r of Inl e \<Rightarrow> (Inl e, s'\<lparr>ks_ids := ids, ks_world := w\<rparr>)
    | Inr _ \<Rightarrow> (Inr (), s'\<lparr>ks_ids := ids, ks_world := w, em_phase := ReadyToPublish\<rparr>))"
    by (simp add: eff_simps split: sum.splits)
  then show ?thesis by (cases r) auto
qed

lemma publish_effect: "only_outside (publish_steps cfg env model event)"
  unfolding publish_steps_def serialize_def by (auto intro!: only_outside_bind split: option.splits)

text \<open>
  The operations of one task are runs of the machine, while any other operations are in flight.  The machine allows more
  than they do: an operation in flight may end in any way.
\<close>

lemma manager_calls_interleave:
  assumes "manager_call cfg env c s = (given_up, t)" "\<And>f. c \<noteq> Elapse f"
  shows "task_steps cfg (me_now env (ks_world s), s, ops) (me_now env (ks_world s), t, ops)"
proof (cases c)
  case CallInitialize
  then obtain r where r: "abandonable cfg env (InitializeOp = PublishOp) (initialize_steps cfg env) s = (r, t)"
    using assms(1) by (auto simp: manager_call_def initialize_def split: prod.splits)
  show ?thesis by (rule abandonable_steps [OF r]) (use initialize_effect [of cfg env] in simp_all)
next
  case (CallBuild model)
  then obtain r where r: "abandonable cfg env (BuildOp = PublishOp) (build_steps cfg env model) s = (r, t)"
    using assms(1) by (auto simp: manager_call_def try_build_publisher_def split: prod.splits)
  show ?thesis by (rule abandonable_steps [OF r]) (use only_outside_build [of cfg env model] in \<open>simp_all add: only_outside_def\<close>)
next
  case (CallPublish model event)
  obtain r where r: "abandonable cfg env (PublishOp = PublishOp) (publish_steps cfg env model event) s = (r, t)"
    using assms(1) CallPublish by (auto simp: manager_call_def manager_publish_def split: prod.splits)
  show ?thesis
  proof (cases "em_phase s = Uninitialized")
    case True
    then have "t = s" using r by (simp add: abandonable_def abandon_enter_def error_states_def publish_steps_def eff_simps)
    then show ?thesis by simp
  next
    case False
    show ?thesis by (rule abandonable_steps [OF r])
      (use publish_effect [of cfg env model event] False in \<open>simp_all add: only_outside_def\<close>)
  qed
qed (use assms(2) in simp)

text \<open>Steps on which the manager is not closed.\<close>

definition open_step :: "manager_settings \<Rightarrow> ('w, 'v) task_state \<Rightarrow> ('w, 'v) task_state \<Rightarrow> bool" where
  "open_step cfg c d \<longleftrightarrow> task_step cfg c d \<and> em_phase (fst (snd d)) \<noteq> Uninitialized"

abbreviation open_steps :: "manager_settings \<Rightarrow> ('w, 'v) task_state \<Rightarrow> ('w, 'v) task_state \<Rightarrow> bool" where
  "open_steps cfg \<equiv> (open_step cfg)\<^sup>*\<^sup>*"

lemma stuck_step:
  assumes "open_step cfg (now, s, ops) d" "em_phase s = ErrorUnrecoverable" "fst ` set ops \<subseteq> {BuildOp}"
  obtains now' s' ops' where "d = (now', s', ops')" "em_phase s' = ErrorUnrecoverable" "set ops' \<subseteq> set ops"
proof -
  have "task_step cfg (now, s, ops) d" using assms(1) by (simp add: open_step_def)
  then show thesis
  proof (cases rule: task_step.cases)
    case (enter s' k)
    then show ?thesis using assms(2) by (auto simp: abandon_enter_def Let_def split: if_splits)
  next
    case (skip s')
    then show ?thesis using that assms(2) by (auto simp: abandon_enter_def log_event_def Let_def split: if_splits)
  next
    case (fail_op os k t os')
    then show ?thesis using that assms(3) by (auto simp: abandon_fail_def)
  next
    case close
    then show ?thesis using assms(1) by (simp add: open_step_def base_aclose_def)
  qed (use that assms(2,3) in auto)
qed

text \<open>A manager in the unrecoverable state stays in it, and no operation is let in any more, until it is
  closed, provided that nothing but the building of publishers is in flight. \<close>
theorem event_unrecoverable_final:
  assumes "open_steps cfg (now, s, ops) (now', s', ops')"
    and "em_phase s = ErrorUnrecoverable" "fst ` set ops \<subseteq> {BuildOp}"
  shows "em_phase s' = ErrorUnrecoverable \<and> set ops' \<subseteq> set ops"
proof -
  have "case d of (_, s', ops') \<Rightarrow> em_phase s' = ErrorUnrecoverable \<and> set ops' \<subseteq> set ops"
    if "open_steps cfg (now, s, ops) d" for d
    using that
  proof (induction rule: rtranclp_induct)
    case (step d d')
    obtain now1 s1 ops1 where d: "d = (now1, s1, ops1)" by (cases d)
    have "open_step cfg (now1, s1, ops1) d'" "em_phase s1 = ErrorUnrecoverable" "fst ` set ops1 \<subseteq> {BuildOp}"
      using step d assms(3) by auto
    then obtain now' s' ops' where "d' = (now', s', ops')" "em_phase s' = ErrorUnrecoverable" "set ops' \<subseteq> set ops1"
      by (rule stuck_step)
    then show ?case using step.IH d by auto
  qed (simp add: assms(2))
  from this [OF assms(1)] show ?thesis by simp
qed

text \<open>A publish in flight undoes an unrecoverable failure: when the building of a publisher fails
  while an event is being published, and then that fails too, the manager ends in the recoverable
  state, and lets in the next operation after the backoff interval, although it was never closed
  or started again. \<close>
theorem event_unrecoverable_lost:
  assumes "\<not> mg_raise_on_error cfg" "em_phase s = ReadyToPublish" "now + mg_backoff cfg < later" "0 \<le> mg_backoff cfg"
  shows "\<exists>s1 s2. open_steps cfg (now, s, []) (now, s1, [(PublishOp, now)]) \<and> em_phase s1 = ErrorUnrecoverable \<and>
    open_steps cfg (now, s1, [(PublishOp, now)]) (later, s2, [(PublishOp, later)]) \<and> em_phase s2 = ReadyToPublish"
proof -
  let ?s1 = "abandon_fail False now s" and ?f = "abandon_fail True now (abandon_fail False now s)"
  let ?s2 = "log_event LogRetry (?f\<lparr>em_phase := ReadyToPublish\<rparr>)"
  have go: "abandon_enter cfg now s = (True, s)" using assms(2) by (simp add: abandon_enter_def error_states_def)
  have again: "abandon_enter cfg later ?f = (True, ?s2)"
    using assms(3) by (simp add: abandon_enter_def abandon_fail_def Let_def)
  have "task_step cfg (now, s, []) (now, s, [(PublishOp, now)])" using enter [OF go, of PublishOp "[]"] assms(2) by simp
  moreover have "task_step cfg (now, s, [(PublishOp, now)]) (now, s, [(PublishOp, now), (BuildOp, now)])"
    using enter [OF go, of BuildOp "[(PublishOp, now)]"] by simp
  moreover have "task_step cfg (now, s, [(PublishOp, now), (BuildOp, now)]) (now, ?s1, [(PublishOp, now)])"
    using fail_op [OF assms(1), of now s "[(PublishOp, now)]" BuildOp now "[]"] by simp
  ultimately have "open_steps cfg (now, s, []) (now, ?s1, [(PublishOp, now)])"
    using assms(2) by (intro rtranclp_trans [OF r_into_rtranclp rtranclp_trans [OF r_into_rtranclp r_into_rtranclp]])
      (auto simp: open_step_def abandon_fail_def)
  moreover have "task_step cfg (now, ?s1, [(PublishOp, now)]) (now, ?f, [])"
    using fail_op [OF assms(1), of now ?s1 "[]" PublishOp now "[]"] by simp
  moreover have "task_step cfg (now, ?f, []) (later, ?f, [])" using assms(3,4) by (intro tick) simp
  moreover have "task_step cfg (later, ?f, []) (later, ?s2, [(PublishOp, later)])"
    using enter [OF again, of PublishOp "[]"] by simp
  ultimately have "open_steps cfg (now, s, []) (now, ?s1, [(PublishOp, now)])"
    "open_steps cfg (now, ?s1, [(PublishOp, now)]) (later, ?s2, [(PublishOp, later)])"
    by (auto intro!: rtranclp_trans [OF r_into_rtranclp rtranclp_trans [OF r_into_rtranclp r_into_rtranclp]]
        simp: open_step_def abandon_fail_def)
  moreover have "em_phase ?s1 = ErrorUnrecoverable" "em_phase ?s2 = ReadyToPublish" by (simp_all add: abandon_fail_def)
  ultimately show ?thesis by blast
qed

subsection \<open>An example\<close>

text \<open>A manager whose initialization failed, and one whose last publish failed, both at the time 0.\<close>

definition demo_manager :: "manager_phase \<Rightarrow> (int, unit) event_manager" where
  "demo_manager phase = \<lparr>ks_ids = [''t.e'' \<mapsto> 7], ks_world = 0, em_phase = phase, em_failed_at = 0, em_publishers = [], em_log = []\<rparr>"

definition demo_calls :: "(int, unit) manager_call list" where
  "demo_calls = [CallInitialize, Elapse (\<lambda>_. 300), CallPublish demo_event_model []]"

lemma demo_manager_waiting:
  "waiting demo_manager_settings demo_metrics_env demo_calls (demo_manager ErrorUnrecoverable)"
  "waiting demo_manager_settings demo_metrics_env [] (demo_manager ErrorRecoverable)"
  by (simp_all add: waiting_def demo_manager_def demo_manager_settings_def demo_metrics_env_def)

lemma event_backoff_respected_witness:
  "waiting demo_manager_settings demo_metrics_env demo_calls (demo_manager ErrorUnrecoverable) \<and>
   fst (run_calls demo_manager_settings demo_metrics_env demo_calls (demo_manager ErrorUnrecoverable)) = [True, True, True]"
  using event_backoff_respected [OF demo_manager_waiting(1)] demo_manager_waiting(1) by (auto simp: demo_calls_def)

lemma demo_subject: "get_subject [] demo_event_model = Inr ''t.e''"
  by code_simp

lemma event_publishing_recovers_witness:
  "fst (run_calls demo_manager_settings demo_metrics_env [Elapse (\<lambda>_. 301), CallPublish demo_event_model []]
     (demo_manager ErrorRecoverable)) = [True, False]"
proof -
  have "\<exists>l. run_calls demo_manager_settings demo_metrics_env ([] @ [Elapse (\<lambda>_. 301), CallPublish demo_event_model []])
      (demo_manager ErrorRecoverable) = (replicate (length ([] :: (int, unit) manager_call list) + 1) True @ [False],
      (demo_manager ErrorRecoverable)\<lparr>ks_world := 301, em_phase := ReadyToPublish, em_log := em_log (demo_manager ErrorRecoverable) @ l\<rparr>)"
    by (rule event_publishing_recovers [OF demo_manager_waiting(2), where w' = 301 and subject = "''t.e''" and schema_id = 7 and encoded = "''x''"])
      (simp_all add: demo_manager_def demo_metrics_env_def demo_registry_def demo_manager_settings_def demo_subject eff_simps)
  then show ?thesis by auto
qed

lemma event_unrecoverable_final_witness:
  "open_steps demo_manager_settings (0, demo_manager ErrorUnrecoverable, [(BuildOp, 0)]) (5, demo_manager ErrorUnrecoverable, [(BuildOp, 0)]) \<and>
   em_phase (demo_manager ErrorUnrecoverable) = ErrorUnrecoverable"
proof -
  have "open_steps demo_manager_settings (0, demo_manager ErrorUnrecoverable, [(BuildOp, 0)]) (5, demo_manager ErrorUnrecoverable, [(BuildOp, 0)])"
    by (rule r_into_rtranclp) (auto simp: open_step_def demo_manager_def intro: tick)
  with event_unrecoverable_final [OF this] show ?thesis by (simp add: demo_manager_def)
qed

lemma event_unrecoverable_lost_witness:
  "\<exists>s1 s2. open_steps demo_manager_settings (0, demo_manager ReadyToPublish, []) (0, s1, [(PublishOp, 0)]) \<and>
    em_phase s1 = ErrorUnrecoverable \<and>
    open_steps demo_manager_settings (0, s1, [(PublishOp, 0)]) (301, s2, [(PublishOp, 301)]) \<and> em_phase s2 = ReadyToPublish"
  by (rule event_unrecoverable_lost) (simp_all add: demo_manager_settings_def demo_manager_def)

end
