(* ===== verification/EventNames.thy ===== *)
theory EventNames
  imports EventRuns
begin

text \<open>
  The register of publishers that every event manager keeps (\<open>EventManager.create_publisher\<close>): the
  contract between it and the way a manager builds a publisher, on which the three managers of
  \<open>safir.metrics\<close> are interpreted.
\<close>

subsection \<open>Building a publisher\<close>

text \<open>
  What \<open>create_publisher\<close> asks of a manager's own way to build a publisher: it leaves the register of
  publishers alone, and an open manager open.
\<close>

locale publisher_builder =
  fixes build :: "avro_model \<Rightarrow> ('w, 'v, 'v publisher) manager_eff"
  assumes build_publishers: "keeps em_publishers (build model)"
    and build_open: "preserves (\<lambda>s. em_phase s \<noteq> Uninitialized) (build model)"
begin

lemma create_registers:
  assumes "create_publisher build cfg env name payload_model s = (Inr p, t)"
  shows "em_publishers t = AList.update name p (em_publishers s)" "em_phase t \<noteq> Uninitialized"
    "name \<notin> fst ` set (em_publishers s)"
proof -
  let ?m = "event_model name (mg_topic cfg) (me_metadata_fields env) payload_model"
  have open_s: "em_phase s \<noteq> Uninitialized" and new: "name \<notin> fst ` set (em_publishers s)"
    using assms by (auto simp: create_publisher_def eff_simps split: if_splits)
  obtain u where b: "build ?m s = (Inr p, u)" and t: "t = u\<lparr>em_publishers := AList.update name p (em_publishers u)\<rparr>"
    using assms open_s new by (auto simp: create_publisher_def eff_simps Let_def split: sum.splits prod.splits)
  show "em_publishers t = AList.update name p (em_publishers s)" "em_phase t \<noteq> Uninitialized"
    using t keepsD [OF build_publishers b] preservesD [OF build_open open_s b] by simp_all
  show "name \<notin> fst ` set (em_publishers s)" by (rule new)
qed

lemma create_fails:
  assumes "create_publisher build cfg env name payload_model s = (Inl e, t)"
  shows "em_publishers t = em_publishers s"
  using assms keepsD [OF build_publishers]
  by (auto simp: create_publisher_def eff_simps Let_def split: sum.splits prod.splits if_splits)

end

lemma create_duplicate:
  assumes "em_phase s \<noteq> Uninitialized" "name \<in> fst ` set (em_publishers s)"
  shows "create_publisher build cfg env name payload_model s = (Inl (DuplicateEventError name), s)"
  using assms by (simp add: create_publisher_def eff_simps)

subsection \<open>The three managers\<close>

lemma only_outside_keeps:
  assumes "only_outside m"
  shows "keeps em_publishers m" "preserves (\<lambda>s. em_phase s \<noteq> Uninitialized) m"
proof -
  have "em_publishers (snd (m s)) = em_publishers s \<and> em_phase (snd (m s)) = em_phase s" for s
  proof -
    obtain ids w where "snd (m s) = s\<lparr>ks_ids := ids, ks_world := w\<rparr>" using assms unfolding only_outside_def by blast
    then show ?thesis by simp
  qed
  then show "keeps em_publishers m" "preserves (\<lambda>s. em_phase s \<noteq> Uninitialized) m"
    by (simp_all add: keeps_def preserves_def)
qed

lemma abandonable_keeps:
  fixes func :: "('w, 'v, 'a) manager_eff"
  assumes "keeps em_publishers func"
  shows "keeps em_publishers (abandonable cfg env recoverable func)"
  unfolding keeps_def
proof
  fix s :: "('w, 'v) event_manager"
  have enter: "em_publishers s' = em_publishers s" if "abandon_enter cfg now s = (b, s')" for now b and s' :: "('w, 'v) event_manager"
    using that by (auto simp: abandon_enter_def Let_def split: if_splits)
  show "em_publishers (snd (abandonable cfg env recoverable func s)) = em_publishers s"
    using keepsD [OF assms] enter
    by (auto simp: abandonable_def abandon_fail_def Let_def split: prod.splits bool.splits sum.splits)
qed

lemma abandonable_open:
  fixes func :: "('w, 'v, 'a) manager_eff"
  assumes "preserves (\<lambda>s. em_phase s \<noteq> Uninitialized) func"
  shows "preserves (\<lambda>s. em_phase s \<noteq> Uninitialized) (abandonable cfg env recoverable func)"
  unfolding preserves_def
proof (intro allI impI)
  fix s :: "('w, 'v) event_manager" assume s: "em_phase s \<noteq> Uninitialized"
  have enter: "em_phase s' \<noteq> Uninitialized" if "abandon_enter cfg now s = (b, s')" for now b and s' :: "('w, 'v) event_manager"
    using that s by (auto simp: abandon_enter_def Let_def split: if_splits)
  have func: "em_phase v \<noteq> Uninitialized" if "func u = (r, v)" "em_phase u \<noteq> Uninitialized" for u r v
    using preservesD [OF assms that(2,1)] .
  show "em_phase (snd (abandonable cfg env recoverable func s)) \<noteq> Uninitialized"
    using enter
    by (auto dest!: func simp: abandonable_def abandon_fail_def Let_def split: prod.splits bool.splits sum.splits)
qed

lemma initialize_steps_keeps:
  "keeps em_publishers (initialize_steps cfg env)"
  "preserves (\<lambda>s. em_phase s \<noteq> Uninitialized) (initialize_steps cfg env)"
proof -
  have i: "em_publishers (snd (initialize_steps cfg env u)) = em_publishers u \<and>
      (em_phase u \<noteq> Uninitialized \<longrightarrow> em_phase (snd (initialize_steps cfg env u)) \<noteq> Uninitialized)" for u
    using initialize_effect [of cfg env u] by (auto split: if_splits)
  show "keeps em_publishers (initialize_steps cfg env)" using i by (simp add: keeps_def)
  show "preserves (\<lambda>s. em_phase s \<noteq> Uninitialized) (initialize_steps cfg env)" using i by (simp add: preserves_def)
qed

lemma operations_keep:
  "keeps em_publishers (initialize cfg env)" "keeps em_publishers (try_build_publisher cfg env model)"
  "keeps em_publishers (manager_publish cfg env model event)"
  unfolding initialize_def try_build_publisher_def manager_publish_def
  by (intro abandonable_keeps initialize_steps_keeps only_outside_keeps publish_effect only_outside_build)+

lemma operations_stay_open:
  "preserves (\<lambda>s. em_phase s \<noteq> Uninitialized) (initialize cfg env)"
  "preserves (\<lambda>s. em_phase s \<noteq> Uninitialized) (try_build_publisher cfg env model)"
  "preserves (\<lambda>s. em_phase s \<noteq> Uninitialized) (manager_publish cfg env model event)"
  unfolding initialize_def try_build_publisher_def manager_publish_def
  by (intro abandonable_open initialize_steps_keeps only_outside_keeps publish_effect only_outside_build)+

lemma manager_call_register:
  assumes "manager_call cfg env c s = (b, t)"
  shows "em_publishers t = em_publishers s" "em_phase s \<noteq> Uninitialized \<Longrightarrow> em_phase t \<noteq> Uninitialized"
proof -
  have "em_publishers t = em_publishers s \<and> (em_phase s \<noteq> Uninitialized \<longrightarrow> em_phase t \<noteq> Uninitialized)"
  proof (cases c)
    case CallInitialize
    then obtain r where "initialize cfg env s = (r, t)" using assms by (auto simp: manager_call_def split: prod.splits)
    from keepsD [OF operations_keep(1) this] preservesD [OF operations_stay_open(1) _ this] show ?thesis by simp
  next
    case (CallBuild model)
    then obtain r where "try_build_publisher cfg env model s = (r, t)" using assms by (auto simp: manager_call_def split: prod.splits)
    from keepsD [OF operations_keep(2) this] preservesD [OF operations_stay_open(2) _ this] show ?thesis by simp
  next
    case (CallPublish model event)
    then obtain r where "manager_publish cfg env model event s = (r, t)" using assms by (auto simp: manager_call_def split: prod.splits)
    from keepsD [OF operations_keep(3) this] preservesD [OF operations_stay_open(3) _ this] show ?thesis by simp
  qed (use assms in \<open>auto simp: manager_call_def\<close>)
  then show "em_publishers t = em_publishers s" "em_phase s \<noteq> Uninitialized \<Longrightarrow> em_phase t \<noteq> Uninitialized" by simp_all
qed

lemma run_calls_register:
  "em_publishers (snd (run_calls cfg env cs s)) = em_publishers s \<and>
    (em_phase s \<noteq> Uninitialized \<longrightarrow> em_phase (snd (run_calls cfg env cs s)) \<noteq> Uninitialized)"
proof (induction cs arbitrary: s)
  case (Cons c cs)
  obtain b t where c: "manager_call cfg env c s = (b, t)" by fastforce
  show ?case using Cons.IH [of t] manager_call_register [OF c] c by (cases "run_calls cfg env cs t") simp
qed simp

interpretation kafka: publisher_builder "build_kafka_publisher cfg env" for cfg env
proof
  fix model
  show "keeps em_publishers (build_kafka_publisher cfg env model)"
    unfolding build_kafka_publisher_def try_build_publisher_def
    by (intro keeps_bind abandonable_keeps only_outside_keeps only_outside_build) simp
  show "preserves (\<lambda>s. em_phase s \<noteq> Uninitialized) (build_kafka_publisher cfg env model)"
    unfolding build_kafka_publisher_def try_build_publisher_def
    by (intro preserve_intros abandonable_open only_outside_keeps only_outside_build)
qed

interpretation noop: publisher_builder build_noop_publisher
  by unfold_locales (simp_all add: build_noop_publisher_def preserves_ret)

interpretation mock: publisher_builder build_mock_publisher
  by unfold_locales (simp_all add: build_mock_publisher_def preserves_ret)

lemma builder_kinds:
  assumes "build \<in> {build_kafka_publisher cfg env, build_noop_publisher, build_mock_publisher}"
  shows "publisher_builder build"
  using assms kafka.publisher_builder_axioms noop.publisher_builder_axioms mock.publisher_builder_axioms by auto

text \<open>Events have unique names: a publisher made by any of the three managers is registered under its
  name and no other name is touched, and whatever the manager does afterwards, short of being
  closed, a second publisher of that name is refused. \<close>
theorem event_names_unique:
  assumes "build \<in> {build_kafka_publisher cfg env, build_noop_publisher, build_mock_publisher}"
    and "create_publisher build cfg env name model s = (Inr p, t)"
  shows "map_of (em_publishers t) = (map_of (em_publishers s))(name \<mapsto> p) \<and> map_of (em_publishers s) name = None \<and>
    fst (create_publisher build cfg env name model' (snd (run_calls cfg env cs t))) = Inl (DuplicateEventError name)"
proof -
  note b = builder_kinds [OF assms(1)]
  note t = publisher_builder.create_registers [OF b assms(2)]
  have "name \<in> fst ` set (em_publishers t)" by (simp add: t(1) dom_update)
  then have "create_publisher build cfg env name model' (snd (run_calls cfg env cs t))
      = (Inl (DuplicateEventError name), snd (run_calls cfg env cs t))"
    by (intro create_duplicate) (simp_all add: run_calls_register t(2))
  then show ?thesis using t(1,3) by (simp add: update_conv' map_of_eq_None_iff)
qed

lemma demo_model_again: "event_model ''e'' ''t'' [] demo_event_model = demo_event_model"
  by (simp add: event_model_def demo_event_model_def)

lemma demo_model_valid: "validate_structure demo_event_model = Inr ()"
  by (simp add: validate_structure_def demo_event_model_def)

lemma event_names_unique_witness:
  "\<exists>p t. create_publisher (build_kafka_publisher demo_manager_settings demo_metrics_env) demo_manager_settings demo_metrics_env
      ''e'' demo_event_model (demo_manager ReadyToPublish) = (Inr p, t) \<and>
    fst (create_publisher (build_kafka_publisher demo_manager_settings demo_metrics_env) demo_manager_settings demo_metrics_env
      ''e'' demo_event_model t) = Inl (DuplicateEventError ''e'')"
proof -
  let ?create = "create_publisher (build_kafka_publisher demo_manager_settings demo_metrics_env) demo_manager_settings demo_metrics_env
      ''e'' demo_event_model"
  have "\<exists>p t. ?create (demo_manager ReadyToPublish) = (Inr p, t)"
    by (simp add: create_publisher_def build_kafka_publisher_def try_build_publisher_def abandonable_def abandon_enter_def
        build_steps_def is_topic_ok_def register_model_def outside_apply eff_simps demo_model_again demo_subject Let_def
        demo_metrics_env_def demo_registry_def demo_manager_settings_def demo_manager_def error_states_def
        demo_model_valid)
  then obtain p t where c: "?create (demo_manager ReadyToPublish) = (Inr p, t)" by blast
  show ?thesis using event_names_unique [OF _ c, where cs = "[]"] c by auto
qed

end
