(* ===== verification/MetricsConfig.thy ===== *)
theory MetricsConfig
  imports EventNames
begin

text \<open>
  The configuration of the metrics (\<open>safir.metrics._config\<close>), with the settings of the schema manager
  (\<open>safir.kafka._schema_registry_config\<close>), and the metrics of arq workers and queues (\<open>safir.metrics.arq\<close>).
\<close>

subsection \<open>Settings from the environment\<close>

text \<open>
  The environment has its names in upper case, as settings are read without regard to case.  A setting is read from the
  first of its aliases that is set; a variable with the name of the field itself, which would be accepted too,
  is taken to be unset.  \<open>parse\<close> is the validation of a type, a parameter.
\<close>

type_synonym environment = "string \<rightharpoonup> string"

definition env_setting :: "environment \<Rightarrow> string list \<Rightarrow> string option" where
  "env_setting environ names = (case List.map_filter environ names of [] \<Rightarrow> None | v # _ \<Rightarrow> Some v)"

definition required_setting :: "environment \<Rightarrow> string list \<Rightarrow> (string \<Rightarrow> 'a option) \<Rightarrow> 'a option" where
  "required_setting environ names parse = Option.bind (env_setting environ names) parse"

definition default_setting :: "environment \<Rightarrow> string list \<Rightarrow> (string \<Rightarrow> 'a option) \<Rightarrow> 'a \<Rightarrow> 'a option" where
  "default_setting environ names parse unset =
     (case env_setting environ names of None \<Rightarrow> Some unset | Some v \<Rightarrow> parse v)"

text \<open>The types of pydantic: booleans, the protocols and mechanisms, files, durations and URLs as text.\<close>

record setting_types =
  ty_bool :: "string \<Rightarrow> bool option"
  ty_protocol :: "string \<Rightarrow> security_protocol option"
  ty_mechanism :: "string \<Rightarrow> sasl_mechanism option"
  ty_is_file :: "string \<Rightarrow> bool"
  ty_timedelta :: "string \<Rightarrow> int option"
  ty_url :: "string \<Rightarrow> string option"

definition optional_setting :: "environment \<Rightarrow> string list \<Rightarrow> (string \<Rightarrow> 'a option) \<Rightarrow> 'a option option" where
  "optional_setting environ names parse = default_setting environ names (\<lambda>v. map_option Some (parse v)) None"

definition kafka_settings_from_env :: "setting_types \<Rightarrow> environment \<Rightarrow> kafka_settings option" where
  "kafka_settings_from_env ty environ =
     (let path = (\<lambda>p. if ty_is_file ty p then Some p else None) in
      case (required_setting environ [''BOOTSTRAPSERVERS'', ''KAFKA_BOOTSTRAP_SERVERS''] Some,
            required_setting environ [''SECURITYPROTOCOL'', ''KAFKA_SECURITY_PROTOCOL''] (ty_protocol ty),
            optional_setting environ [''CLUSTERCAPATH'', ''KAFKA_CLUSTER_CA_PATH''] path,
            optional_setting environ [''CLIENTCERTPATH'', ''KAFKA_CLIENT_CERT_PATH''] path,
            optional_setting environ [''CLIENTKEYPATH'', ''KAFKA_CLIENT_KEY_PATH''] path,
            optional_setting environ [''SASLMECHANISM'', ''KAFKA_SASL_MECHANISM''] (ty_mechanism ty),
            optional_setting environ [''SASLUSERNAME'', ''KAFKA_SASL_USERNAME''] Some,
            optional_setting environ [''SASLPASSWORD'', ''KAFKA_SASL_PASSWORD''] Some) of
        (Some servers, Some protocol, Some ca, Some cert, Some key, Some mechanism, Some user, Some password) \<Rightarrow>
          validate_auth_settings (ty_is_file ty)
            \<lparr>kc_bootstrap_servers = servers, kc_security_protocol = protocol, kc_cluster_ca_path = ca,
             kc_client_cert_path = cert, kc_client_key_path = key, kc_sasl_mechanism = mechanism,
             kc_sasl_username = user, kc_sasl_password = password\<rparr>
      | _ \<Rightarrow> None)"

record schema_settings =
  ss_registry_url :: string
  ss_suffix :: string

definition schema_settings_from_env :: "setting_types \<Rightarrow> environment \<Rightarrow> schema_settings option" where
  "schema_settings_from_env ty environ =
     (case (required_setting environ [''REGISTRYURL'', ''SCHEMA_MANAGER_REGISTRY_URL''] (ty_url ty),
            default_setting environ [''SCHEMA_MANAGER_SUFFIX''] Some []) of
        (Some url, Some suffix) \<Rightarrow> Some \<lparr>ss_registry_url = url, ss_suffix = suffix\<rparr>
      | _ \<Rightarrow> None)"

text \<open>The arguments of the registry's client, and the suffix of the schema manager.\<close>

definition to_registry_params :: "schema_settings \<Rightarrow> (string \<times> string) list" where
  "to_registry_params c = [(''url'', ss_registry_url c)]"

definition make_schema_manager :: "schema_settings \<Rightarrow> (string \<times> string) list \<times> string" where
  "make_schema_manager c = (to_registry_params c, ss_suffix c)"

subsection \<open>The configurations of the metrics\<close>

record base_metrics_config =
  bm_application :: string
  bm_topic_prefix :: string

record kafka_metrics_config = base_metrics_config +
  km_kafka :: kafka_settings
  km_schema_manager :: schema_settings
  km_raise_on_error :: bool
  km_backoff_interval :: int

datatype metrics_config =
    MockMetrics base_metrics_config
  | DisabledMetrics base_metrics_config
  | KafkaMetrics kafka_metrics_config

definition require_bool :: "bool \<Rightarrow> bool \<Rightarrow> bool option" where
  "require_bool wanted v = (if v \<noteq> wanted then None else Some v)"

definition events_topic_prefix :: "environment \<Rightarrow> string option" where
  "events_topic_prefix environ =
     default_setting environ [''TOPICPREFIX'', ''METRICS_EVENTS_TOPIC_PREFIX''] Some ''lsst.square.metrics.events''"

definition base_metrics_from_env :: "environment \<Rightarrow> base_metrics_config option" where
  "base_metrics_from_env environ =
     (case (required_setting environ [''APPNAME'', ''METRICS_APPLICATION''] Some, events_topic_prefix environ) of
        (Some app, Some prefix) \<Rightarrow> Some \<lparr>bm_application = app, bm_topic_prefix = prefix\<rparr>
      | _ \<Rightarrow> None)"

definition disabled_from_env :: "setting_types \<Rightarrow> environment \<Rightarrow> base_metrics_config option" where
  "disabled_from_env ty environ =
     Option.bind (required_setting environ [''ENABLED'', ''METRICS_ENABLED''] (\<lambda>v. Option.bind (ty_bool ty v) (require_bool False)))
       (\<lambda>_. base_metrics_from_env environ)"

definition mock_from_env :: "setting_types \<Rightarrow> environment \<Rightarrow> base_metrics_config option" where
  "mock_from_env ty environ =
     Option.bind (required_setting environ [''ENABLED'', ''METRICS_ENABLED''] (\<lambda>v. Option.bind (ty_bool ty v) (require_bool False)))
       (\<lambda>_. Option.bind (required_setting environ [''MOCK'', ''METRICS_MOCK''] (\<lambda>v. Option.bind (ty_bool ty v) (require_bool True)))
       (\<lambda>_. base_metrics_from_env environ))"

text \<open>Five minutes, in microseconds.\<close>

definition default_backoff_interval :: int where
  "default_backoff_interval = 300000000"

text \<open>The fields without an alias have one in camel case, and no prefix.\<close>

definition kafka_metrics_from_env :: "setting_types \<Rightarrow> environment \<Rightarrow> kafka_metrics_config option" where
  "kafka_metrics_from_env ty environ =
     (case (base_metrics_from_env environ,
            default_setting environ [''ENABLED'', ''METRICS_ENABLED''] (\<lambda>v. Option.bind (ty_bool ty v) (require_bool True)) True,
            kafka_settings_from_env ty environ, schema_settings_from_env ty environ,
            default_setting environ [''RAISEONERROR''] (ty_bool ty) False,
            default_setting environ [''BACKOFFINTERVAL''] (ty_timedelta ty) default_backoff_interval) of
        (Some b, Some _, Some kafka, Some schema, Some raise_on_error, Some backoff) \<Rightarrow>
          Some \<lparr>bm_application = bm_application b, bm_topic_prefix = bm_topic_prefix b, km_kafka = kafka, km_schema_manager = schema,
            km_raise_on_error = raise_on_error, km_backoff_interval = backoff\<rparr>
      | _ \<Rightarrow> None)"

definition metrics_configuration_factory :: "setting_types \<Rightarrow> environment \<Rightarrow> metrics_config option" where
  "metrics_configuration_factory ty environ = (case mock_from_env ty environ of
     Some c \<Rightarrow> Some (MockMetrics c)
   | None \<Rightarrow> (case disabled_from_env ty environ of
       Some c \<Rightarrow> Some (DisabledMetrics c)
     | None \<Rightarrow> map_option KafkaMetrics (kafka_metrics_from_env ty environ)))"

subsection \<open>Making the manager\<close>

text \<open>The constructor calls of the Kafka clients: a name, a timeout, the connection and the further arguments.\<close>

record ('c, 'k) client_args =
  ca_client_id :: string
  ca_request_timeout_ms :: int
  ca_connection :: 'c
  ca_extra :: "(string \<times> 'k) list"

datatype ('b, 'k) broker_used = GivenBroker 'b | NewBroker "(faststream_params, 'k) client_args"

record ('b, 'k) kafka_manager_args =
  ka_settings :: manager_settings
  ka_broker :: "('b, 'k) broker_used"
  ka_admin :: "(aiokafka_params, 'k) client_args"
  ka_schema_client :: "(string \<times> string) list"

text \<open>The managers, the first two with their application and their topic.\<close>

datatype ('b, 'k) made_manager =
    MadeNoop string string
  | MadeMock string string
  | MadeKafka "('b, 'k) kafka_manager_args"

datatype make_error = MakeValidationError | MakeTypeError

definition default_kafka_timeout_ms :: int where
  "default_kafka_timeout_ms = 1000"

definition admin_client_prefix :: string where
  "admin_client_prefix = ''safir-metrics-admin-client''"

definition broker_prefix :: string where
  "broker_prefix = ''safir-metrics-faststream-broker''"

text \<open>\<open>make_manager\<close> of the disabled and of the mock configuration.\<close>

definition disabled_make_manager :: "base_metrics_config \<Rightarrow> ('b, 'k) made_manager" where
  "disabled_make_manager c = MadeNoop (bm_application c) (manager_topic (bm_topic_prefix c) (bm_application c))"

definition mock_make_manager :: "base_metrics_config \<Rightarrow> ('b, 'k) made_manager" where
  "mock_make_manager c = MadeMock (bm_application c) (manager_topic (bm_topic_prefix c) (bm_application c))"

text \<open>
  An argument given twice is a \<open>TypeError\<close>, in the order the clients are made.  The names of the arguments that are
  always given, and those of the connection (of SASL over aiokafka only where there are any):
\<close>

definition broker_keywords :: "string set" where
  "broker_keywords = {''client_id'', ''request_timeout_ms'', ''bootstrap_servers'', ''security''}"

definition admin_keywords :: "aiokafka_params \<Rightarrow> string set" where
  "admin_keywords k = {''client_id'', ''request_timeout_ms'', ''bootstrap_servers'', ''security_protocol''}
     \<union> (if ak_sasl_mechanism k = None then {} else {''sasl_mechanism'', ''sasl_plain_username'', ''sasl_plain_password''})
     \<union> (if ak_ssl_context k = None then {} else {''ssl_context''})"

definition kafka_make_manager ::
  "(string \<Rightarrow> bool) \<Rightarrow> int \<Rightarrow> kafka_metrics_config \<Rightarrow> 'b option \<Rightarrow> int \<Rightarrow> (string \<times> 'k) list option \<Rightarrow> (string \<times> 'k) list option
     \<Rightarrow> make_error + ('b, 'k) made_manager" where
  "kafka_make_manager is_file flags c kafka_broker request_timeout_ms extra_broker extra_admin =
     (let extra_broker = or_empty extra_broker; extra_admin = or_empty extra_admin;
          manage_kafka_broker = (kafka_broker = None) in
      case (case kafka_broker of
              Some b \<Rightarrow> Inr (GivenBroker b)
            | None \<Rightarrow> (case to_faststream_params is_file flags (km_kafka c) of
                None \<Rightarrow> Inl MakeValidationError
              | Some params \<Rightarrow> if fst ` set extra_broker \<inter> broker_keywords \<noteq> {} then Inl MakeTypeError
                  else Inr (NewBroker \<lparr>ca_client_id = broker_prefix @ ''-'' @ bm_application c,
                    ca_request_timeout_ms = request_timeout_ms, ca_connection = params, ca_extra = extra_broker\<rparr>))) of
        Inl e \<Rightarrow> Inl e
      | Inr broker \<Rightarrow> (case to_aiokafka_params is_file flags (km_kafka c) of
          None \<Rightarrow> Inl MakeValidationError
        | Some params \<Rightarrow> if fst ` set extra_admin \<inter> admin_keywords params \<noteq> {} then Inl MakeTypeError
            else (case make_schema_manager (km_schema_manager c) of (registry, suffix) \<Rightarrow>
              Inr (MadeKafka \<lparr>ka_settings = \<lparr>mg_application = bm_application c,
                    mg_topic = manager_topic (bm_topic_prefix c) (bm_application c), mg_backoff = km_backoff_interval c,
                    mg_manage_kafka_broker = manage_kafka_broker, mg_raise_on_error = km_raise_on_error c, mg_suffix = suffix\<rparr>,
                  ka_broker = broker,
                  ka_admin = \<lparr>ca_client_id = admin_client_prefix @ ''-'' @ bm_application c,
                    ca_request_timeout_ms = request_timeout_ms, ca_connection = params, ca_extra = extra_admin\<rparr>,
                  ka_schema_client = registry\<rparr>))))"

definition enabled_setting :: "setting_types \<Rightarrow> environment \<Rightarrow> bool option" where
  "enabled_setting ty environ = Option.bind (env_setting environ [''ENABLED'', ''METRICS_ENABLED'']) (ty_bool ty)"

definition mock_setting :: "setting_types \<Rightarrow> environment \<Rightarrow> bool option" where
  "mock_setting ty environ = Option.bind (env_setting environ [''MOCK'', ''METRICS_MOCK'']) (ty_bool ty)"

lemma required_bool:
  "required_setting environ names (\<lambda>v. Option.bind (f v) (require_bool w)) = Some b \<longleftrightarrow>
     b = w \<and> Option.bind (env_setting environ names) f = Some w"
  by (auto simp: required_setting_def require_bool_def bind_eq_Some_conv split: if_splits)

lemma mock_from_env_some:
  "mock_from_env ty environ = Some c \<longleftrightarrow>
     enabled_setting ty environ = Some False \<and> mock_setting ty environ = Some True \<and> base_metrics_from_env environ = Some c"
  by (auto simp: mock_from_env_def bind_eq_Some_conv required_bool enabled_setting_def mock_setting_def)

lemma disabled_from_env_some:
  "disabled_from_env ty environ = Some c \<longleftrightarrow>
     enabled_setting ty environ = Some False \<and> base_metrics_from_env environ = Some c"
  by (auto simp: disabled_from_env_def bind_eq_Some_conv required_bool enabled_setting_def)

lemma validate_auth_validated: "validate_auth_settings is_file c = Some d \<Longrightarrow> validated is_file d \<noteq> None"
  by (auto simp: validate_auth_settings_def split: if_splits option.splits)

lemma kafka_settings_validated:
  "kafka_settings_from_env ty environ = Some c \<Longrightarrow> validated (ty_is_file ty) c \<noteq> None"
  unfolding kafka_settings_from_env_def Let_def
  by (simp split: option.split_asm del: not_None_eq) (drule validate_auth_validated, assumption)

lemma kafka_metrics_some:
  assumes "kafka_metrics_from_env ty environ = Some k"
  shows "enabled_setting ty environ \<noteq> Some False" "base_metrics_from_env environ = Some (base_metrics_config.truncate k)"
    "validated (ty_is_file ty) (km_kafka k) \<noteq> None"
proof -
  let ?enabled = "default_setting environ [''ENABLED'', ''METRICS_ENABLED''] (\<lambda>v. Option.bind (ty_bool ty v) (require_bool True)) True"
  obtain b e kafka schema r t where p: "base_metrics_from_env environ = Some b" "?enabled = Some e"
      "kafka_settings_from_env ty environ = Some kafka"
    and k: "k = \<lparr>bm_application = bm_application b, bm_topic_prefix = bm_topic_prefix b, km_kafka = kafka, km_schema_manager = schema,
            km_raise_on_error = r, km_backoff_interval = t\<rparr>"
    using assms unfolding kafka_metrics_from_env_def by (auto split: option.split_asm)
  show "enabled_setting ty environ \<noteq> Some False"
    using p(2) by (auto simp: default_setting_def require_bool_def enabled_setting_def bind_eq_Some_conv split: option.splits if_splits)
  show "base_metrics_from_env environ = Some (base_metrics_config.truncate k)"
    using p(1) k by (simp add: base_metrics_config.truncate_def)
  show "validated (ty_is_file ty) (km_kafka k) \<noteq> None" using kafka_settings_validated [OF p(3)] k by simp
qed

text \<open>A manager that does not manage its broker never stops it.\<close>

lemma aclose_keeps_broker:
  "\<not> mg_manage_kafka_broker cfg \<Longrightarrow> aclose cfg env = aclose cfg (env\<lparr>me_broker_stop := stop\<rparr>)"
  by (simp add: aclose_def)

lemma params_made:
  assumes "validated is_file c = Some v"
  shows "to_faststream_params is_file flags c = Some (settings_to_faststream flags v)"
    "to_aiokafka_params is_file flags c = Some (settings_to_aiokafka flags v)"
    "fs_bootstrap_servers (settings_to_faststream flags v) = ak_bootstrap_servers (settings_to_aiokafka flags v)"
    "ak_bootstrap_servers (settings_to_aiokafka flags v) = kc_bootstrap_servers c"
  using assms by (cases v; auto simp: to_faststream_params_def to_aiokafka_params_def client_params validators
      split: security_protocol.splits option.splits if_splits)+

lemma kafka_manager_made:
  assumes "kafka_metrics_from_env ty environ = Some k"
  shows "\<exists>a. kafka_make_manager (ty_is_file ty) flags k broker t None None = Inr (MadeKafka a) \<and>
      mg_topic (ka_settings a) = manager_topic (bm_topic_prefix k) (bm_application k) \<and>
      (case broker of
        Some b \<Rightarrow> ka_broker a = GivenBroker b \<and>
          (\<forall>env stop. aclose (ka_settings a) env = aclose (ka_settings a) (env\<lparr>me_broker_stop := stop\<rparr>))
      | None \<Rightarrow> mg_manage_kafka_broker (ka_settings a) \<and> (\<exists>n. ka_broker a = NewBroker n \<and>
          fs_bootstrap_servers (ca_connection n) = kc_bootstrap_servers (km_kafka k) \<and>
          ak_bootstrap_servers (ca_connection (ka_admin a)) = kc_bootstrap_servers (km_kafka k)))"
proof -
  obtain v where v: "validated (ty_is_file ty) (km_kafka k) = Some v" using kafka_metrics_some(3) [OF assms] by blast
  note p = params_made [OF v, where flags = flags]
  show ?thesis
    by (cases broker) (simp_all add: kafka_make_manager_def Let_def or_empty_def p make_schema_manager_def aclose_keeps_broker [symmetric])
qed

text \<open>The environment chooses the metrics: a mock manager exactly when they are disabled and mocked, one that does
  nothing when they are disabled otherwise, and a Kafka manager only when they are not disabled.  A Kafka configuration
  that was accepted always makes a manager, of the topic of its prefix and application: without a broker it gets a
  new one, of the same servers as its admin client, which it manages; a given broker is the one it uses, and
  closing the manager never stops that. \<close>
theorem metrics_configuration_chosen:
  assumes "metrics_configuration_factory ty environ = Some c"
  shows "(enabled_setting ty environ = Some False \<and> mock_setting ty environ = Some True \<longleftrightarrow> (\<exists>b. c = MockMetrics b)) \<and>
    (enabled_setting ty environ = Some False \<and> mock_setting ty environ \<noteq> Some True \<longleftrightarrow> (\<exists>b. c = DisabledMetrics b)) \<and>
    (\<forall>k broker t. c = KafkaMetrics k \<longrightarrow> (\<exists>a. kafka_make_manager (ty_is_file ty) flags k broker t None None = Inr (MadeKafka a) \<and>
      mg_topic (ka_settings a) = manager_topic (bm_topic_prefix k) (bm_application k) \<and>
      (case broker of
        Some b \<Rightarrow> ka_broker a = GivenBroker b \<and>
          (\<forall>env stop. aclose (ka_settings a) env = aclose (ka_settings a) (env\<lparr>me_broker_stop := stop\<rparr>))
      | None \<Rightarrow> mg_manage_kafka_broker (ka_settings a) \<and> (\<exists>n. ka_broker a = NewBroker n \<and>
          fs_bootstrap_servers (ca_connection n) = kc_bootstrap_servers (km_kafka k) \<and>
          ak_bootstrap_servers (ca_connection (ka_admin a)) = kc_bootstrap_servers (km_kafka k)))))"
    (is "?mock \<and> ?disabled \<and> ?kafka")
proof (intro conjI)
  note f = assms [unfolded metrics_configuration_factory_def]
  have base: "base_metrics_from_env environ \<noteq> None"
    using f kafka_metrics_some(2) by (auto simp: mock_from_env_some disabled_from_env_some split: option.splits)
  have some: "mock_from_env ty environ \<noteq> None \<longleftrightarrow> enabled_setting ty environ = Some False \<and> mock_setting ty environ = Some True"
    "disabled_from_env ty environ \<noteq> None \<longleftrightarrow> enabled_setting ty environ = Some False"
    using base mock_from_env_some disabled_from_env_some by (metis not_None_eq)+
  show ?mock using f some by (auto split: option.splits)
  show ?disabled using f some by (auto split: option.splits)
  show ?kafka
  proof (intro allI impI, goal_cases)
    case (1 k broker t)
    then have "kafka_metrics_from_env ty environ = Some k" using f by (auto split: option.splits)
    then show ?case by (rule kafka_manager_made)
  qed
qed

definition demo_types :: setting_types where
  "demo_types = \<lparr>ty_bool = map_of [(''true'', True), (''false'', False)], ty_protocol = map_of [(''PLAINTEXT'', PROTOCOL_PLAINTEXT)],
     ty_mechanism = Map.empty, ty_is_file = (\<lambda>_. False), ty_timedelta = Map.empty, ty_url = Some\<rparr>"

definition demo_environ :: environment where
  "demo_environ = map_of [(''METRICS_APPLICATION'', ''app''), (''KAFKA_BOOTSTRAP_SERVERS'', ''kafka:9092''),
     (''KAFKA_SECURITY_PROTOCOL'', ''PLAINTEXT''), (''SCHEMA_MANAGER_REGISTRY_URL'', ''https://registry'')]"

lemma metrics_configuration_chosen_witness:
  "\<exists>k a. metrics_configuration_factory demo_types demo_environ = Some (KafkaMetrics k) \<and>
     kafka_make_manager (\<lambda>_. False) 0 k (Some (7 :: nat)) 1000 None (None :: (string \<times> unit) list option) = Inr (MadeKafka a) \<and>
     mg_topic (ka_settings a) = ''lsst.square.metrics.events.app'' \<and> ka_broker a = GivenBroker 7"
proof -
  let ?k = "\<lparr>bm_application = ''app'', bm_topic_prefix = ''lsst.square.metrics.events'',
      km_kafka = \<lparr>kc_bootstrap_servers = ''kafka:9092'', kc_security_protocol = PROTOCOL_PLAINTEXT, kc_cluster_ca_path = None,
        kc_client_cert_path = None, kc_client_key_path = None, kc_sasl_mechanism = None, kc_sasl_username = None, kc_sasl_password = None\<rparr>,
      km_schema_manager = \<lparr>ss_registry_url = ''https://registry'', ss_suffix = []\<rparr>, km_raise_on_error = False,
      km_backoff_interval = 300000000\<rparr> :: kafka_metrics_config"
  have k: "metrics_configuration_factory demo_types demo_environ = Some (KafkaMetrics ?k)"
    by code_simp
  from metrics_configuration_chosen [OF this, of 0]
  obtain a where "kafka_make_manager (ty_is_file demo_types) 0 ?k (Some (7 :: nat)) 1000 None (None :: (string \<times> unit) list option)
      = Inr (MadeKafka a)" "mg_topic (ka_settings a) = ''lsst.square.metrics.events.app''" "ka_broker a = GivenBroker 7"
    by (fastforce simp: manager_topic_def)
  then show ?thesis using k by (auto simp: demo_types_def)
qed

end
