(* ===== verification/ArqMetrics.thy ===== *)
theory ArqMetrics
  imports EventNames
begin

text \<open>
  The metrics of arq workers and queues (\<open>safir.metrics.arq\<close>): a worker publishes how long each of its jobs waited,
  and a task outside of the workers how many jobs a queue holds.
\<close>

subsection \<open>Events\<close>

datatype arq_value = ArqDuration int | ArqText string | ArqInt int

text \<open>The fields of the two payloads; the Avro type of a duration is a parameter.\<close>

definition arq_queue_job_event :: "avro_type \<Rightarrow> avro_model" where
  "arq_queue_job_event timedelta_type = \<lparr>am_class = ''ArqQueueJobEvent'', am_schema_name = None, am_namespace = None,
     am_fields = [(''time_in_queue'', timedelta_type), (''queue'', AvroName ''string'')]\<rparr>"

definition arq_queue_stats_event :: avro_model where
  "arq_queue_stats_event = \<lparr>am_class = ''ArqQueueStatsEvent'', am_schema_name = None, am_namespace = None,
     am_fields = [(''num_queued'', AvroName ''long''), (''queue'', AvroName ''string'')]\<rparr>"

definition job_event_payload :: "int \<Rightarrow> string \<Rightarrow> (string \<times> arq_value) list" where
  "job_event_payload time_in_queue queue = [(''time_in_queue'', ArqDuration time_in_queue), (''queue'', ArqText queue)]"

definition stats_event_payload :: "int \<Rightarrow> string \<Rightarrow> (string \<times> arq_value) list" where
  "stats_event_payload num_queued queue = [(''num_queued'', ArqInt num_queued), (''queue'', ArqText queue)]"

text \<open>The container of the two publishers.\<close>

record arq_events =
  aq_queue_job_event :: "arq_value publisher"
  aq_queue_stats :: "arq_value publisher"

definition arq_events_initialize ::
  "(avro_model \<Rightarrow> ('w, arq_value, arq_value publisher) manager_eff) \<Rightarrow> manager_settings \<Rightarrow> ('w, arq_value) metrics_env
     \<Rightarrow> avro_type \<Rightarrow> ('w, arq_value, arq_events) manager_eff" where
  "arq_events_initialize build cfg env timedelta_type =
     bind_eff (create_publisher build cfg env ''arq_job_run'' (arq_queue_job_event timedelta_type)) (\<lambda>job_event.
     bind_eff (create_publisher build cfg env ''arq_queue_stats'' arq_queue_stats_event) (\<lambda>stats.
     ret_eff \<lparr>aq_queue_job_event = job_event, aq_queue_stats = stats\<rparr>))"

subsection \<open>Workers\<close>

text \<open>
  The context of a worker, as far as it is read here: the events under \<open>ARQ_EVENTS_CONTEXT_KEY\<close> and, for a job, its
  score.  The state of an operation is the context with the event manager.
\<close>

record worker_context =
  wx_arq_events :: "arq_events option"
  wx_score :: "int option"

type_synonym 'w arq_state = "worker_context \<times> ('w, arq_value) event_manager"

datatype arq_metrics_exc = ArqMetricsError | ArqMetricsKafka kafka_exc

definition initialize_arq_metrics ::
  "(avro_model \<Rightarrow> ('w, arq_value, arq_value publisher) manager_eff) \<Rightarrow> manager_settings \<Rightarrow> ('w, arq_value) metrics_env
     \<Rightarrow> avro_type \<Rightarrow> ('w arq_state, arq_metrics_exc, unit) eff" where
  "initialize_arq_metrics build cfg env timedelta_type = (\<lambda>(ctx, s).
     case arq_events_initialize build cfg env timedelta_type s of
       (Inl e, s) \<Rightarrow> (Inl (ArqMetricsKafka e), (ctx, s))
     | (Inr events, s) \<Rightarrow> (Inr (), (ctx\<lparr>wx_arq_events := Some events\<rparr>, s)))"

text \<open>\<open>publish\<close> of a publisher that is kept in the container.\<close>

definition publish_from ::
  "manager_settings \<Rightarrow> ('w, arq_value) metrics_env \<Rightarrow> (string \<times> arq_value) list \<Rightarrow> arq_value publisher
     \<Rightarrow> ('w, arq_value) event_manager \<Rightarrow> (arq_metrics_exc + unit) \<times> arq_value publisher \<times> ('w, arq_value) event_manager" where
  "publish_from cfg env payload p s = (case publish cfg env payload (p, s) of
     (Inl e, ps) \<Rightarrow> (Inl (ArqMetricsKafka e), ps)
   | (Inr _, ps) \<Rightarrow> (Inr (), ps))"

text \<open>\<open>ArqMetricsContext\<close>: \<open>to_datetime\<close> is the conversion of a number to a time, in microseconds.\<close>

definition arq_metrics_context :: "(int \<Rightarrow> int option) \<Rightarrow> worker_context \<Rightarrow> (arq_events \<times> int) option" where
  "arq_metrics_context to_datetime ctx = (case (wx_arq_events ctx, Option.bind (wx_score ctx) to_datetime) of
     (Some events, Some ideal_start_time) \<Rightarrow> Some (events, ideal_start_time)
   | _ \<Rightarrow> None)"

definition on_job_start ::
  "(int \<Rightarrow> int option) \<Rightarrow> manager_settings \<Rightarrow> ('w, arq_value) metrics_env \<Rightarrow> string
     \<Rightarrow> ('w arq_state, arq_metrics_exc, unit) eff" where
  "on_job_start to_datetime cfg env queue_name = (\<lambda>(ctx, s). case arq_metrics_context to_datetime ctx of
     None \<Rightarrow> (Inl ArqMetricsError, (ctx, s))
   | Some (events, ideal_start_time) \<Rightarrow>
       let time_in_queue = me_now env (ks_world s) - ideal_start_time in
       (case publish_from cfg env (job_event_payload time_in_queue queue_name) (aq_queue_job_event events) s of
          (r, p, s) \<Rightarrow> (r, (ctx\<lparr>wx_arq_events := Some (events\<lparr>aq_queue_job_event := p\<rparr>)\<rparr>, s))))"

subsection \<open>Queues\<close>

text \<open>The connection to Redis: \<open>create_pool\<close> and \<open>zcard\<close> of the arq library.\<close>

definition publish_queue_stats ::
  "('w, kafka_exc, 'p) eff \<Rightarrow> ('p \<Rightarrow> string \<Rightarrow> ('w, kafka_exc, int) eff) \<Rightarrow> manager_settings \<Rightarrow> ('w, arq_value) metrics_env
     \<Rightarrow> string \<Rightarrow> (arq_events \<times> ('w, arq_value) event_manager, arq_metrics_exc, unit) eff" where
  "publish_queue_stats create_pool zcard cfg env queue = (\<lambda>(events, s).
     case outside (bind_eff create_pool (\<lambda>redis. zcard redis queue)) s of
       (Inl e, s) \<Rightarrow> (Inl (ArqMetricsKafka e), (events, s))
     | (Inr num_queued, s) \<Rightarrow> (case publish_from cfg env (stats_event_payload num_queued queue) (aq_queue_stats events) s of
         (r, p, s) \<Rightarrow> (r, (events\<lparr>aq_queue_stats := p\<rparr>, s))))"

subsection \<open>Properties\<close>

lemma publish_from_mock:
  assumes "\<forall>e. \<exists>e'. me_validate env model e = Inr e'" "\<forall>(n, v) \<in> set payload. n \<notin> {''id'', ''application'', ''timestamp'', ''timestamp_ns''}"
  shows "\<exists>w. publish_from cfg env payload (MockPublisher model published) s =
    (Inr (), MockPublisher model (published @ [payload]), s\<lparr>ks_world := w\<rparr>)"
proof -
  obtain u w where uw: "me_uuid env (ks_world s) = (u, w)" by fastforce
  have "fst ` set payload \<inter> {''id'', ''application'', ''timestamp'', ''timestamp_ns''} = {}" using assms(2) by auto
  then have "\<exists>e. construct_event env (mg_application cfg) model payload s = (Inr e, s\<lparr>ks_world := w\<rparr>)"
    using assms(1) uw by (auto simp: construct_event_def Let_def Int_commute)
  then show ?thesis
    by (auto simp: publish_from_def publish_def publish_mock_def publish_noop_def with_manager_def set_publisher_def eff_simps)
qed

text \<open>A worker that was not initialized, or whose job has no score, raises the error of the metrics.\<close>

lemma on_job_start_unset:
  "wx_arq_events ctx = None \<or> wx_score ctx = None \<Longrightarrow>
   on_job_start to_datetime cfg env queue (ctx, s) = (Inl ArqMetricsError, (ctx, s))"
  by (auto simp: on_job_start_def arq_metrics_context_def split: option.split)

text \<open>Initializing creates both publishers or leaves the context alone, and a second time fails.\<close>

lemma initialize_arq_metrics_registers:
  assumes "build \<in> {build_kafka_publisher cfg env, build_noop_publisher, build_mock_publisher}"
    and "initialize_arq_metrics build cfg env td (ctx, s) = (Inr (), (ctx', s'))"
  shows "\<exists>events. ctx' = ctx\<lparr>wx_arq_events := Some events\<rparr> \<and>
      map_of (em_publishers s') = (map_of (em_publishers s))(''arq_job_run'' \<mapsto> aq_queue_job_event events,
        ''arq_queue_stats'' \<mapsto> aq_queue_stats events)"
    and "initialize_arq_metrics build cfg env td (ctx', s') = (Inl (ArqMetricsKafka (DuplicateEventError ''arq_job_run'')), (ctx', s'))"
proof -
  note b = builder_kinds [OF assms(1)]
  obtain events where e: "arq_events_initialize build cfg env td s = (Inr events, s')" and c: "ctx' = ctx\<lparr>wx_arq_events := Some events\<rparr>"
    using assms(2) by (auto simp: initialize_arq_metrics_def split: prod.splits sum.splits)
  then obtain s1 where s1: "create_publisher build cfg env ''arq_job_run'' (arq_queue_job_event td) s = (Inr (aq_queue_job_event events), s1)"
      "create_publisher build cfg env ''arq_queue_stats'' arq_queue_stats_event s1 = (Inr (aq_queue_stats events), s')"
    by (auto simp: arq_events_initialize_def eff_simps split: prod.splits sum.splits)
  note r1 = publisher_builder.create_registers [OF b s1(1)] and r2 = publisher_builder.create_registers [OF b s1(2)]
  show "\<exists>events. ctx' = ctx\<lparr>wx_arq_events := Some events\<rparr> \<and>
      map_of (em_publishers s') = (map_of (em_publishers s))(''arq_job_run'' \<mapsto> aq_queue_job_event events,
        ''arq_queue_stats'' \<mapsto> aq_queue_stats events)"
    using c r1(1) r2(1) by (auto simp: map_of_update)
  have "''arq_job_run'' \<in> fst ` set (em_publishers s')" using r1(1) r2(1) by (simp add: dom_update)
  from create_duplicate [OF r2(2) this]
  show "initialize_arq_metrics build cfg env td (ctx', s') = (Inl (ArqMetricsKafka (DuplicateEventError ''arq_job_run'')), (ctx', s'))"
    by (simp add: initialize_arq_metrics_def arq_events_initialize_def eff_simps)
qed

text \<open>
  What a job's start records on a mock manager: one more payload, with the queue and the time since the job was due, which
  is negative when the clock is behind; the other publisher and the state of the manager are left alone.
\<close>

lemma on_job_start_recorded:
  assumes "wx_arq_events ctx = Some events" "aq_queue_job_event events = MockPublisher model published"
    and "wx_score ctx = Some score" "to_datetime score = Some due" "\<forall>e. \<exists>e'. me_validate env model e = Inr e'"
  shows "\<exists>w. on_job_start to_datetime cfg env queue (ctx, s) =
    (Inr (), (ctx\<lparr>wx_arq_events := Some (events\<lparr>aq_queue_job_event := MockPublisher model
        (published @ [job_event_payload (me_now env (ks_world s) - due) queue])\<rparr>)\<rparr>, s\<lparr>ks_world := w\<rparr>))"
proof -
  let ?payload = "job_event_payload (me_now env (ks_world s) - due) queue"
  have "\<forall>(n, v) \<in> set ?payload. n \<notin> {''id'', ''application'', ''timestamp'', ''timestamp_ns''}"
    by (simp add: job_event_payload_def)
  then obtain w where "publish_from cfg env ?payload (MockPublisher model published) s =
      (Inr (), MockPublisher model (published @ [?payload]), s\<lparr>ks_world := w\<rparr>)"
    using publish_from_mock [OF assms(5)] by blast
  then show ?thesis using assms by (auto simp: on_job_start_def arq_metrics_context_def Let_def)
qed

text \<open>
  The statistics of a queue: one event with the number of its jobs, and the pool that was made for it is
  still open, as the world is the one after \<open>create_pool\<close> and \<open>zcard\<close>.
\<close>

lemma publish_queue_stats_recorded:
  assumes "aq_queue_stats events = MockPublisher model published" "\<forall>e. \<exists>e'. me_validate env model e = Inr e'"
    and "create_pool (ks_world s) = (Inr redis, w1)" "zcard redis queue w1 = (Inr n, w2)" "me_uuid env w2 = (uuid, w3)"
  shows "publish_queue_stats create_pool zcard cfg env queue (events, s) =
    (Inr (), (events\<lparr>aq_queue_stats := MockPublisher model (published @ [stats_event_payload n queue])\<rparr>, s\<lparr>ks_world := w3\<rparr>))"
proof -
  let ?payload = "stats_event_payload n queue"
  have "\<exists>e. construct_event env (mg_application cfg) model ?payload (s\<lparr>ks_world := w2\<rparr>) = (Inr e, s\<lparr>ks_world := w3\<rparr>)"
    using assms(2,5) by (auto simp: construct_event_def Let_def stats_event_payload_def)
  then show ?thesis using assms
    by (auto simp: publish_queue_stats_def outside_def eff_simps publish_from_def publish_def publish_mock_def publish_noop_def
        with_manager_def set_publisher_def)
qed

end
