(* ===== verification/Pagination.thy ===== *)
theory Pagination
  imports Prelude TimeText "HOL-Library.Multiset"
begin

text \<open>
  Keyset pagination of database queries, \<open>safir.database._pagination\<close>: cursors, pages and the
  query runner.  A select statement is what this code puts into one (conditions, ordering and
  limit); what the database answers is a parameter, whose documented behaviour is
  \<open>select_result\<close>.  The query runner is generic in the class of the cursor, so that class is a
  record of its methods, and what its documentation demands of it is the locale
  \<open>keyset_cursor\<close>, interpreted on the cursor by a datetime and an identifier.
\<close>

subsection \<open>Statements and their results\<close>

datatype page_error =
    PageTimeError time_error
  | PageValidationError
  | PageIndexError
  | PageDatabaseError
  | InvalidCursorError

text \<open>A column is what it reads from a row; an ordering lists columns, each ascending or descending.\<close>

record 'r select =
  sl_where :: "('r \<Rightarrow> bool) list"
  sl_order :: "(('r \<Rightarrow> int) \<times> bool) list"
  sl_limit :: "int option"

definition add_where :: "('r \<Rightarrow> bool) \<Rightarrow> 'r select \<Rightarrow> 'r select" where
  "add_where p stmt = stmt\<lparr>sl_where := sl_where stmt @ [p]\<rparr>"

definition add_order :: "(('r \<Rightarrow> int) \<times> bool) list \<Rightarrow> 'r select \<Rightarrow> 'r select" where
  "add_order keys stmt = stmt\<lparr>sl_order := sl_order stmt @ keys\<rparr>"

definition set_limit :: "int \<Rightarrow> 'r select \<Rightarrow> 'r select" where
  "set_limit n stmt = stmt\<lparr>sl_limit := Some n\<rparr>"

definition matches :: "'r select \<Rightarrow> 'r \<Rightarrow> bool" where
  "matches stmt r \<longleftrightarrow> (\<forall>p \<in> set (sl_where stmt). p r)"

text \<open>A row may stand before another one: the first column that differs, if any, is in order.\<close>

fun row_le :: "(('r \<Rightarrow> int) \<times> bool) list \<Rightarrow> 'r \<Rightarrow> 'r \<Rightarrow> bool" where
  "row_le [] a b = True"
| "row_le ((k, desc) # keys) a b =
     (if k a = k b then row_le keys a b else if desc then k b < k a else k a < k b)"

text \<open>
  What SQL promises of a result: the matching rows, in some order allowed by \<open>ORDER BY\<close>, up to
  the limit.
\<close>

definition select_result :: "'r list \<Rightarrow> 'r select \<Rightarrow> 'r list \<Rightarrow> bool" where
  "select_result rows stmt xs \<longleftrightarrow>
     (\<exists>ys. mset ys = mset (filter (matches stmt) rows) \<and> sorted_wrt (row_le (sl_order stmt)) ys \<and>
        xs = (case sl_limit stmt of None \<Rightarrow> ys | Some n \<Rightarrow> take (nat n) ys))"

subsection \<open>Cursors\<close>

text \<open>The methods of a cursor class, \<open>PaginationCursor\<close>.\<close>

record ('r, 'e, 'c) cursor_class =
  cc_from_entry :: "'e \<Rightarrow> bool \<Rightarrow> 'c"
  cc_apply_order :: "bool \<Rightarrow> 'r select \<Rightarrow> 'r select"
  cc_apply_cursor :: "'c \<Rightarrow> 'r select \<Rightarrow> page_error + 'r select"
  cc_invert :: "'c \<Rightarrow> 'c"
  cc_previous :: "'c \<Rightarrow> bool"

record datetime_cursor =
  dc_previous :: bool
  dc_time :: py_datetime
  dc_id :: int

definition dc_apply_order :: "('r \<Rightarrow> int) \<Rightarrow> ('r \<Rightarrow> int) \<Rightarrow> bool \<Rightarrow> 'r select \<Rightarrow> 'r select" where
  "dc_apply_order time_column id_column backwards stmt =
     (if backwards then add_order [(time_column, False), (id_column, False)] stmt
      else add_order [(time_column, True), (id_column, True)] stmt)"

definition dc_apply_cursor ::
  "('r \<Rightarrow> int) \<Rightarrow> ('r \<Rightarrow> int) \<Rightarrow> datetime_cursor \<Rightarrow> 'r select \<Rightarrow> page_error + 'r select" where
  "dc_apply_cursor time_column id_column cursor stmt = (case datetime_to_db (Some (dc_time cursor)) of
     Inl e \<Rightarrow> Inl (PageTimeError e)
   | Inr db_time \<Rightarrow>
       (let time = dt_us (the db_time) in
        Inr (if dc_previous cursor
          then add_where (\<lambda>r. time < time_column r \<or> time_column r = time \<and> dc_id cursor < id_column r) stmt
          else add_where (\<lambda>r. time_column r < time \<or> time_column r = time \<and> id_column r \<le> dc_id cursor) stmt)))"

definition dc_invert :: "datetime_cursor \<Rightarrow> datetime_cursor" where
  "dc_invert cursor = cursor\<lparr>dc_previous := \<not> dc_previous cursor\<rparr>"

text \<open>The class for one table; \<open>from_entry\<close> is left to the application.\<close>

definition datetime_id_cursor ::
  "('r \<Rightarrow> int) \<Rightarrow> ('r \<Rightarrow> int) \<Rightarrow> ('e \<Rightarrow> bool \<Rightarrow> datetime_cursor) \<Rightarrow> ('r, 'e, datetime_cursor) cursor_class" where
  "datetime_id_cursor time_column id_column from_entry =
     \<lparr>cc_from_entry = from_entry, cc_apply_order = dc_apply_order time_column id_column,
      cc_apply_cursor = dc_apply_cursor time_column id_column, cc_invert = dc_invert, cc_previous = dc_previous\<rparr>"

text \<open>
  The text of a cursor.  A time is written as a number of seconds since 1970; a whole number is
  an integer, any other one is the text of a float.  \<open>float_text\<close> gives that text and
  \<open>float_us\<close> reads the text of any float (\<open>None\<close> when it is none, or when its time is out of
  range), both in microseconds; a naive time is in the zone of the host, \<open>local_offset\<close>.
\<close>

definition epoch_us :: int where
  "epoch_us = 62135596800000000"

definition timestamp_us :: "int \<Rightarrow> py_datetime \<Rightarrow> int" where
  "timestamp_us local_offset t =
     dt_us t - (case utcoffset (dt_tz t) of None \<Rightarrow> local_offset | Some z \<Rightarrow> z) - epoch_us"

definition dc_str :: "(int \<Rightarrow> string) \<Rightarrow> int \<Rightarrow> datetime_cursor \<Rightarrow> string" where
  "dc_str float_text local_offset cursor =
     (let previous = (if dc_previous cursor then ''p'' else []);
          timestamp = timestamp_us local_offset (dc_time cursor)
      in previous @ (if timestamp mod 1000000 = 0 then int_str (timestamp div 1000000) else float_text timestamp)
           @ ''_'' @ int_str (dc_id cursor))"

definition dc_from_str :: "(string \<Rightarrow> int option) \<Rightarrow> string \<Rightarrow> page_error + datetime_cursor" where
  "dc_from_str float_us cursor =
     (let previous = py_startswith cursor ''p'';
          cursor = (if previous then drop 1 cursor else cursor)
      in case py_split (CHR ''_'') cursor of
           [a, b] \<Rightarrow> (case float_us a of
             None \<Rightarrow> Inl InvalidCursorError
           | Some us \<Rightarrow> (case py_int b of
               None \<Rightarrow> Inl InvalidCursorError
             | Some n \<Rightarrow> Inr \<lparr>dc_previous = previous, dc_time = \<lparr>dt_us = us + epoch_us, dt_tz = FixedTz 0\<rparr>, dc_id = n\<rparr>))
         | _ \<Rightarrow> Inl InvalidCursorError)"

subsection \<open>Pages and the query runner\<close>

record ('e, 'c) page =
  pg_entries :: "'e list"
  pg_next_cursor :: "'c option"
  pg_prev_cursor :: "'c option"

definition page_from_transform :: "('f \<Rightarrow> 'x + 'e) \<Rightarrow> ('f, 'c) page \<Rightarrow> 'x + ('e, 'c) page" where
  "page_from_transform transform other = (case traverse transform (pg_entries other) of
     Inl e \<Rightarrow> Inl e
   | Inr entries \<Rightarrow> Inr \<lparr>pg_entries = entries, pg_next_cursor = pg_next_cursor other, pg_prev_cursor = pg_prev_cursor other\<rparr>)"

text \<open>
  The session: \<open>db_rows\<close> runs a select (with \<open>scalars\<close> when the flag is set, with \<open>execute\<close>
  otherwise) and \<open>db_count\<close> counts the rows of one (\<open>None\<close> for a null count).
\<close>

record ('w, 'r) db_session =
  db_rows :: "bool \<Rightarrow> 'r select \<Rightarrow> ('w, page_error, 'r list) eff"
  db_count :: "'r select \<Rightarrow> ('w, page_error, int option) eff"

record ('r, 'e, 'c) query_runner =
  qr_validate :: "'r \<Rightarrow> page_error + 'e"
  qr_cursor_type :: "('r, 'e, 'c) cursor_class"

definition query_count :: "('w, 'r) db_session \<Rightarrow> 'r select \<Rightarrow> ('w, page_error, int) eff" where
  "query_count session stmt = bind_eff (db_count session stmt) (\<lambda>n.
     ret_eff (case n of None \<Rightarrow> 0 | Some n \<Rightarrow> n))"

definition run_select ::
  "('r, 'e, 'c) query_runner \<Rightarrow> ('w, 'r) db_session \<Rightarrow> bool \<Rightarrow> 'r select \<Rightarrow> ('w, page_error, 'e list) eff" where
  "run_select qr session scalar stmt =
     bind_eff (db_rows session scalar stmt) (\<lambda>rows. lift_eff (traverse (qr_validate qr) rows))"

definition full_query ::
  "('r, 'e, 'c) query_runner \<Rightarrow> ('w, 'r) db_session \<Rightarrow> bool \<Rightarrow> 'r select \<Rightarrow> ('w, page_error, ('e, 'c) page) eff" where
  "full_query qr session scalar stmt =
     bind_eff (run_select qr session scalar (cc_apply_order (qr_cursor_type qr) False stmt)) (\<lambda>entries.
     ret_eff \<lparr>pg_entries = entries, pg_next_cursor = None, pg_prev_cursor = None\<rparr>)"

text \<open>\<open>entries[i]\<close> with an index that may be negative.\<close>

definition py_index :: "'a list \<Rightarrow> int \<Rightarrow> page_error + 'a" where
  "py_index xs i =
     (if 0 \<le> i \<and> i < int (length xs) then Inr (xs ! nat i)
      else if i < 0 \<and> 0 \<le> int (length xs) + i then Inr (xs ! nat (int (length xs) + i))
      else Inl PageIndexError)"

text \<open>The statement of a paginated query, and the page made of the entries it gave.\<close>

definition limited_select ::
  "('r, 'e, 'c) cursor_class \<Rightarrow> 'r select \<Rightarrow> 'c option \<Rightarrow> int option \<Rightarrow> page_error + 'r select" where
  "limited_select cc stmt cursor limit =
     (case (case cursor of None \<Rightarrow> Inr stmt | Some c \<Rightarrow> cc_apply_cursor cc c stmt) of
        Inl e \<Rightarrow> Inl e
      | Inr stmt \<Rightarrow>
          (let stmt = (case cursor of
                 Some c \<Rightarrow> if cc_previous cc c then cc_apply_order cc True stmt else cc_apply_order cc False stmt
               | None \<Rightarrow> cc_apply_order cc False stmt)
           in Inr (case limit of None \<Rightarrow> stmt | Some n \<Rightarrow> if n \<noteq> 0 then set_limit (n + 1) stmt else stmt)))"

definition over_limit :: "int option \<Rightarrow> 'e list \<Rightarrow> bool" where
  "over_limit limit entries \<longleftrightarrow> (case limit of None \<Rightarrow> False | Some n \<Rightarrow> n \<noteq> 0 \<and> n < int (length entries))"

definition make_page ::
  "('r, 'e, 'c) cursor_class \<Rightarrow> 'c option \<Rightarrow> int option \<Rightarrow> 'e list \<Rightarrow> page_error + ('e, 'c) page" where
  "make_page cc cursor limit entries = (case cursor of
     Some c \<Rightarrow>
       if cc_previous cc c then
         (if over_limit limit entries then
            (case py_index entries (the limit - 1) of
               Inl e \<Rightarrow> Inl e
             | Inr prev \<Rightarrow> Inr \<lparr>pg_entries = rev (py_slice_to entries (the limit)),
                 pg_next_cursor = Some (cc_invert cc c), pg_prev_cursor = Some (cc_from_entry cc prev True)\<rparr>)
          else Inr \<lparr>pg_entries = rev entries, pg_next_cursor = Some (cc_invert cc c), pg_prev_cursor = None\<rparr>)
       else if over_limit limit entries then
         (case py_index entries (the limit) of
            Inl e \<Rightarrow> Inl e
          | Inr entry \<Rightarrow> Inr \<lparr>pg_entries = py_slice_to entries (the limit),
              pg_next_cursor = Some (cc_from_entry cc entry False), pg_prev_cursor = Some (cc_invert cc c)\<rparr>)
       else Inr \<lparr>pg_entries = entries, pg_next_cursor = None, pg_prev_cursor = Some (cc_invert cc c)\<rparr>
   | None \<Rightarrow>
       if over_limit limit entries then
         (case py_index entries (the limit) of
            Inl e \<Rightarrow> Inl e
          | Inr entry \<Rightarrow> Inr \<lparr>pg_entries = py_slice_to entries (the limit),
              pg_next_cursor = Some (cc_from_entry cc entry False), pg_prev_cursor = None\<rparr>)
       else Inr \<lparr>pg_entries = entries, pg_next_cursor = None, pg_prev_cursor = None\<rparr>)"

definition paginated_query ::
  "('r, 'e, 'c) query_runner \<Rightarrow> ('w, 'r) db_session \<Rightarrow> bool \<Rightarrow> 'r select \<Rightarrow> 'c option \<Rightarrow> int option
     \<Rightarrow> ('w, page_error, ('e, 'c) page) eff" where
  "paginated_query qr session scalar stmt cursor limit =
     bind_eff (lift_eff (limited_select (qr_cursor_type qr) stmt cursor limit)) (\<lambda>limited_stmt.
     bind_eff (run_select qr session scalar limited_stmt) (\<lambda>entries.
     lift_eff (make_page (qr_cursor_type qr) cursor limit entries)))"

text \<open>\<open>query_object\<close> and \<open>query_row\<close>, which differ in the flag; a cursor is always true as a condition.\<close>

definition paged :: "'c option \<Rightarrow> int option \<Rightarrow> bool" where
  "paged cursor limit \<longleftrightarrow> cursor \<noteq> None \<or> (case limit of None \<Rightarrow> False | Some n \<Rightarrow> n \<noteq> 0)"

definition query_object ::
  "('r, 'e, 'c) query_runner \<Rightarrow> ('w, 'r) db_session \<Rightarrow> 'r select \<Rightarrow> 'c option \<Rightarrow> int option
     \<Rightarrow> ('w, page_error, ('e, 'c) page) eff" where
  "query_object qr session stmt cursor limit =
     (if paged cursor limit then paginated_query qr session True stmt cursor limit else full_query qr session True stmt)"

definition query_row ::
  "('r, 'e, 'c) query_runner \<Rightarrow> ('w, 'r) db_session \<Rightarrow> 'r select \<Rightarrow> 'c option \<Rightarrow> int option
     \<Rightarrow> ('w, page_error, ('e, 'c) page) eff" where
  "query_row qr session stmt cursor limit =
     (if paged cursor limit then paginated_query qr session False stmt cursor limit else full_query qr session False stmt)"

text \<open>The variants that also count.\<close>

record ('e, 'c) counted_page = "('e, 'c) page" +
  pg_count :: int

definition counted :: "('e, 'c) page \<Rightarrow> int \<Rightarrow> ('e, 'c) counted_page" where
  "counted result number =
     \<lparr>pg_entries = pg_entries result, pg_next_cursor = pg_next_cursor result,
      pg_prev_cursor = pg_prev_cursor result, pg_count = number\<rparr>"

definition counted_query_object ::
  "('r, 'e, 'c) query_runner \<Rightarrow> ('w, 'r) db_session \<Rightarrow> 'r select \<Rightarrow> 'c option \<Rightarrow> int option
     \<Rightarrow> ('w, page_error, ('e, 'c) counted_page) eff" where
  "counted_query_object qr session stmt cursor limit =
     bind_eff (query_object qr session stmt cursor limit) (\<lambda>result.
     bind_eff (query_count session stmt) (\<lambda>number. ret_eff (counted result number)))"

definition counted_query_row ::
  "('r, 'e, 'c) query_runner \<Rightarrow> ('w, 'r) db_session \<Rightarrow> 'r select \<Rightarrow> 'c option \<Rightarrow> int option
     \<Rightarrow> ('w, page_error, ('e, 'c) counted_page) eff" where
  "counted_query_row qr session stmt cursor limit =
     bind_eff (query_row qr session stmt cursor limit) (\<lambda>result.
     bind_eff (query_count session stmt) (\<lambda>number. ret_eff (counted result number)))"

text \<open>A counted list made of an uncounted one (\<open>None\<close>) has the number of its own entries as its count.\<close>

definition counted_from_transform ::
  "('f \<Rightarrow> 'x + 'e) \<Rightarrow> ('f, 'c) page \<Rightarrow> int option \<Rightarrow> 'x + ('e, 'c) counted_page" where
  "counted_from_transform transform other number = (case page_from_transform transform other of
     Inl e \<Rightarrow> Inl e
   | Inr page \<Rightarrow> Inr (counted page (case number of None \<Rightarrow> int (length (pg_entries page)) | Some n \<Rightarrow> n)))"

subsection \<open>What a cursor class promises\<close>

text \<open>A session over a table whose rows do not change, and the listing of the rows a statement matches.\<close>

definition session_ok :: "('w, 'r) db_session \<Rightarrow> 'r list \<Rightarrow> 'w \<Rightarrow> bool" where
  "session_ok session rows w \<longleftrightarrow>
     (\<forall>scalar stmt. (case sl_limit stmt of None \<Rightarrow> True | Some n \<Rightarrow> 0 \<le> n) \<longrightarrow>
        (\<exists>xs. db_rows session scalar stmt w = (Inr xs, w) \<and> select_result rows stmt xs)) \<and>
     (\<forall>stmt. db_count session stmt w = (Inr (Some (int (length (filter (matches stmt) rows)))), w))"

definition listing :: "('r \<Rightarrow> 'r \<Rightarrow> bool) \<Rightarrow> 'r list \<Rightarrow> 'r select \<Rightarrow> 'r list \<Rightarrow> bool" where
  "listing ahead rows stmt L \<longleftrightarrow> mset L = mset (filter (matches stmt) rows) \<and> sorted_wrt ahead L \<and>
     sl_order stmt = [] \<and> sl_limit stmt = None"

text \<open>
  The cursors and pages of a listing: the cursor at position \<open>k\<close>, the page of \<open>n\<close> entries from
  there on and the one of \<open>n\<close> entries before it.
\<close>

definition cursor_at :: "('r, 'e, 'c) cursor_class \<Rightarrow> ('r \<Rightarrow> 'e) \<Rightarrow> 'r list \<Rightarrow> nat \<Rightarrow> bool \<Rightarrow> 'c" where
  "cursor_at cc validate L k backwards = cc_from_entry cc (validate (L ! k)) backwards"

definition forward_page ::
  "('r, 'e, 'c) cursor_class \<Rightarrow> ('r \<Rightarrow> 'e) \<Rightarrow> 'r list \<Rightarrow> nat \<Rightarrow> nat \<Rightarrow> bool \<Rightarrow> ('e, 'c) page" where
  "forward_page cc validate L n k has_prev =
     \<lparr>pg_entries = map validate (take n (drop k L)),
      pg_next_cursor = (if k + n < length L then Some (cursor_at cc validate L (k + n) False) else None),
      pg_prev_cursor = (if has_prev then Some (cursor_at cc validate L k True) else None)\<rparr>"

definition backward_page ::
  "('r, 'e, 'c) cursor_class \<Rightarrow> ('r \<Rightarrow> 'e) \<Rightarrow> 'r list \<Rightarrow> nat \<Rightarrow> nat \<Rightarrow> ('e, 'c) page" where
  "backward_page cc validate L n k =
     \<lparr>pg_entries = map validate (drop (k - n) (take k L)),
      pg_next_cursor = Some (cursor_at cc validate L k False),
      pg_prev_cursor = (if n < k then Some (cursor_at cc validate L (k - n) True) else None)\<rparr>"

text \<open>A client that follows the next cursors, for at most \<open>fuel\<close> pages.\<close>

fun follow_next ::
  "nat \<Rightarrow> ('c option \<Rightarrow> ('w, page_error, ('e, 'c) page) eff) \<Rightarrow> 'c option \<Rightarrow> 'w \<Rightarrow> 'e list list option" where
  "follow_next 0 query cursor w = None"
| "follow_next (Suc fuel) query cursor w = (case query cursor w of
     (Inl _, w) \<Rightarrow> None
   | (Inr page, w) \<Rightarrow> (case pg_next_cursor page of
       None \<Rightarrow> Some [pg_entries page]
     | Some c \<Rightarrow> map_option (Cons (pg_entries page)) (follow_next fuel query (Some c) w)))"

text \<open>
  \<open>ahead a b\<close>: row \<open>a\<close> is listed before row \<open>b\<close>.  The ordering lists the rows that way, or the
  other way round; a cursor made from an entry selects that entry and those after it, an
  inverted one those before it.
\<close>

locale keyset_cursor =
  fixes cc :: "('r, 'e, 'c) cursor_class" and validate :: "'r \<Rightarrow> 'e" and ahead :: "'r \<Rightarrow> 'r \<Rightarrow> bool"
  assumes ahead_trans: "ahead a b \<Longrightarrow> ahead b c \<Longrightarrow> ahead a c"
    and ahead_irrefl: "\<not> ahead a a"
    and order_select: "\<exists>keys. (\<forall>stmt. cc_apply_order cc backwards stmt = add_order keys stmt) \<and>
      (\<forall>a b. row_le keys a b = (if backwards then \<not> ahead a b else \<not> ahead b a))"
    and cursor_select: "\<exists>p. cc_apply_cursor cc (cc_from_entry cc (validate r) backwards) stmt = Inr (add_where p stmt) \<and>
      (\<forall>x. p x = (if backwards then ahead x r else \<not> ahead x r))"
    and invert_entry: "cc_invert cc (cc_from_entry cc (validate r) backwards) = cc_from_entry cc (validate r) (\<not> backwards)"
    and previous_entry: "cc_previous cc (cc_from_entry cc (validate r) backwards) = backwards"
begin

lemma ahead_asym: "ahead a b \<Longrightarrow> \<not> ahead b a"
  using ahead_trans ahead_irrefl by blast

lemma sorted_unique:
  assumes "mset ys = mset L" "sorted_wrt (\<lambda>a b. \<not> ahead b a) ys" "sorted_wrt ahead L"
  shows "ys = L"
  using assms
proof (induction L arbitrary: ys)
  case (Cons x L)
  obtain y ys' where y: "ys = y # ys'" using Cons.prems(1) by (cases ys) auto
  have "y = x"
  proof (rule ccontr)
    assume n: "y \<noteq> x"
    have "y \<in> set (x # L)" "x \<in> set ys"
      using Cons.prems(1) y by (metis list.set_intros(1) set_mset_mset)+
    then have "ahead x y" "\<not> ahead x y" using n y Cons.prems(2,3) by auto
    then show False by blast
  qed
  then show ?case using y Cons.prems Cons.IH [of ys'] by simp
qed simp

lemma sorted_unique_rev:
  assumes "mset ys = mset L" "sorted_wrt (\<lambda>a b. \<not> ahead a b) ys" "sorted_wrt ahead L"
  shows "ys = rev L"
proof -
  have "rev ys = L"
    by (rule sorted_unique) (use assms in \<open>simp_all add: sorted_wrt_rev\<close>)
  then show ?thesis by (metis rev_rev_ident)
qed

lemma sorted_filter_ahead:
  assumes "sorted_wrt ahead L" "k < length L"
  shows "filter (\<lambda>x. ahead x (L ! k)) L = take k L" "filter (\<lambda>x. \<not> ahead x (L ! k)) L = drop k L"
proof -
  have t: "\<forall>x \<in> set (take k L). ahead x (L ! k)"
    using assms by (auto simp: in_set_conv_nth sorted_wrt_nth_less)
  have d: "\<forall>x \<in> set (drop k L). \<not> ahead x (L ! k)"
  proof
    fix x
    assume "x \<in> set (drop k L)"
    then obtain i where i: "x = L ! (k + i)" "k + i < length L" by (auto simp: in_set_conv_nth)
    show "\<not> ahead x (L ! k)"
    proof (cases i)
      case 0
      then show ?thesis using i ahead_irrefl by simp
    next
      case (Suc n)
      then have "ahead (L ! k) x" using i assms(1) by (simp add: sorted_wrt_nth_less)
      then show ?thesis by (rule ahead_asym)
    qed
  qed
  have e: "filter P L = filter P (take k L) @ filter P (drop k L)" for P
    by (metis append_take_drop_id filter_append)
  show "filter (\<lambda>x. ahead x (L ! k)) L = take k L" "filter (\<lambda>x. \<not> ahead x (L ! k)) L = drop k L"
    unfolding e [of "\<lambda>x. ahead x (L ! k)"] e [of "\<lambda>x. \<not> ahead x (L ! k)"]
    using t d by (simp_all add: filter_empty_conv)
qed

text \<open>The entries of a statement ordered one way or the other, further restricted and limited.\<close>

lemma run_select_eq:
  assumes "session_ok session rows w" "listing ahead rows stmt L" "\<And>r. qr_validate qr r = Inr (validate r)"
    and "\<And>r. matches stmt' r \<longleftrightarrow> matches stmt r \<and> p r" "sl_order stmt' = keys" "sl_limit stmt' = limit"
    and "\<And>a b. row_le keys a b = (if backwards then \<not> ahead a b else \<not> ahead b a)"
    and "case limit of None \<Rightarrow> True | Some n \<Rightarrow> 0 \<le> n"
  shows "run_select qr session scalar stmt' w = (Inr (map validate
    (let L' = (if backwards then rev (filter p L) else filter p L) in
     case limit of None \<Rightarrow> L' | Some n \<Rightarrow> take (nat n) L')), w)"
proof -
  obtain xs where xs: "db_rows session scalar stmt' w = (Inr xs, w)" "select_result rows stmt' xs"
    using assms(1,6,8) unfolding session_ok_def by blast
  obtain ys where ys: "mset ys = mset (filter (matches stmt') rows)" "sorted_wrt (row_le keys) ys"
    "xs = (case limit of None \<Rightarrow> ys | Some n \<Rightarrow> take (nat n) ys)"
    using xs(2) assms(5,6) unfolding select_result_def by blast
  have L: "mset L = mset (filter (matches stmt) rows)" "sorted_wrt ahead L"
    using assms(2) by (simp_all add: listing_def)
  have "filter (matches stmt') rows = filter p (filter (matches stmt) rows)"
    unfolding filter_filter by (rule filter_cong) (auto simp: assms(4))
  then have m: "mset ys = mset (filter p L)" using ys(1) L(1) by (metis mset_filter)
  have srt: "sorted_wrt ahead (filter p L)" using L(2) by (rule sorted_wrt_filter)
  have "ys = (if backwards then rev (filter p L) else filter p L)"
  proof (cases backwards)
    case True
    then have "row_le keys = (\<lambda>a b. \<not> ahead a b)" using assms(7) by (intro ext) simp
    then show ?thesis using sorted_unique_rev [OF m _ srt] ys(2) True by simp
  next
    case False
    then have "row_le keys = (\<lambda>a b. \<not> ahead b a)" using assms(7) by (intro ext) simp
    then show ?thesis using sorted_unique [OF m _ srt] ys(2) False by simp
  qed
  moreover have "traverse (qr_validate qr) xs = Inr (map validate xs)" by (rule traverse_total) (rule assms(3))
  ultimately show ?thesis using xs(1) ys(3)
    by (cases backwards; cases limit) (simp_all add: run_select_def eff_simps Let_def)
qed

lemma cursor_at_simps [simp]:
  "cc_invert cc (cursor_at cc validate L k b) = cursor_at cc validate L k (\<not> b)"
  "cc_previous cc (cursor_at cc validate L k b) = b"
  by (simp_all add: cursor_at_def invert_entry previous_entry)

lemma add_simps [simp]:
  "matches (add_where p stmt) r \<longleftrightarrow> matches stmt r \<and> p r" "matches (add_order ks stmt) r \<longleftrightarrow> matches stmt r"
  "matches (set_limit n stmt) r \<longleftrightarrow> matches stmt r"
  "sl_order (add_where p stmt) = sl_order stmt" "sl_order (set_limit n stmt) = sl_order stmt"
  "sl_order (add_order ks stmt) = sl_order stmt @ ks"
  "sl_limit (add_where p stmt) = sl_limit stmt" "sl_limit (add_order ks stmt) = sl_limit stmt"
  "sl_limit (set_limit n stmt) = Some n"
  by (auto simp: matches_def add_where_def add_order_def set_limit_def)

lemma full_listing:
  assumes "session_ok session rows w" "listing ahead rows stmt L" "\<And>r. qr_validate qr r = Inr (validate r)"
    and "qr_cursor_type qr = cc"
  shows "full_query qr session scalar stmt w
    = (Inr \<lparr>pg_entries = map validate L, pg_next_cursor = None, pg_prev_cursor = None\<rparr>, w)"
proof -
  obtain keys where keys: "\<And>stmt. cc_apply_order cc False stmt = add_order keys stmt"
    "\<And>a b. row_le keys a b = (if False then \<not> ahead a b else \<not> ahead b a)"
    using order_select [of False] by auto
  have st: "sl_order stmt = []" "sl_limit stmt = None" using assms(2) by (simp_all add: listing_def)
  have "run_select qr session scalar (add_order keys stmt) w = (Inr (map validate
      (let L' = (if False then rev (filter (\<lambda>_. True) L) else filter (\<lambda>_. True) L) in
       case None of None \<Rightarrow> L' | Some n \<Rightarrow> take (nat n) L')), w)"
    by (rule run_select_eq [OF assms(1-3) _ _ _ keys(2)]) (simp_all add: st)
  then show ?thesis by (simp add: full_query_def assms(4) keys(1) eff_simps)
qed

lemma forward_query:
  assumes "session_ok session rows w" "listing ahead rows stmt L" "\<And>r. qr_validate qr r = Inr (validate r)"
    and "qr_cursor_type qr = cc" "0 < n" and "case cursor of None \<Rightarrow> k = 0 | Some c \<Rightarrow> k < length L \<and> c = cursor_at cc validate L k False"
  shows "paginated_query qr session scalar stmt cursor (Some (int n)) w
    = (Inr (forward_page cc validate L n k (cursor \<noteq> None)), w)"
proof -
  obtain keys where keys: "\<And>stmt. cc_apply_order cc False stmt = add_order keys stmt"
    "\<And>a b. row_le keys a b = (if False then \<not> ahead a b else \<not> ahead b a)"
    using order_select [of False] by auto
  have st: "sl_order stmt = []" "sl_limit stmt = None" and srt: "sorted_wrt ahead L"
    using assms(2) by (simp_all add: listing_def)
  obtain p stmt1 where p: "(case cursor of None \<Rightarrow> Inr stmt | Some c \<Rightarrow> cc_apply_cursor cc c stmt) = Inr stmt1"
    "\<And>r. matches stmt1 r \<longleftrightarrow> matches stmt r \<and> p r" "filter p L = drop k L" "sl_order stmt1 = []"
  proof (cases cursor)
    case None
    then show ?thesis using that [of stmt "\<lambda>_. True"] assms(6) st by simp
  next
    case (Some c)
    then have k: "k < length L" "c = cc_from_entry cc (validate (L ! k)) False"
      using assms(6) by (simp_all add: cursor_at_def)
    obtain q where q: "cc_apply_cursor cc c stmt = Inr (add_where q stmt)" "\<And>x. q x = (\<not> ahead x (L ! k))"
      using cursor_select [of "L ! k" False stmt] k(2) by auto
    have "filter q L = drop k L" using sorted_filter_ahead(2) [OF srt k(1)] q(2) by (simp add: fun_eq_iff cong: filter_cong)
    then show ?thesis using that [of "add_where q stmt" q] Some q(1) st by simp
  qed
  let ?stmt = "set_limit (int n + 1) (add_order keys stmt1)"
  have lim: "limited_select cc stmt cursor (Some (int n)) = Inr ?stmt"
    using p(1) assms(5,6) by (cases cursor) (simp_all add: limited_select_def keys(1) Let_def)
  define es where "es = map validate (take (Suc n) (drop k L))"
  have "run_select qr session scalar ?stmt w = (Inr (map validate
      (let L' = (if False then rev (filter p L) else filter p L) in
       case Some (int n + 1) of None \<Rightarrow> L' | Some n \<Rightarrow> take (nat n) L')), w)"
    by (rule run_select_eq [OF assms(1-3) _ _ _ keys(2)]) (simp_all add: p(2,4))
  then have run: "run_select qr session scalar ?stmt w = (Inr es, w)"
    by (simp add: p(3) Let_def nat_add_distrib es_def)
  have over: "over_limit (Some (int n)) es \<longleftrightarrow> k + n < length L"
    using assms(5) by (auto simp: over_limit_def es_def min_def)
  have idx: "k + n < length L \<Longrightarrow> py_index es (int n) = Inr (validate (L ! (k + n)))"
    by (auto simp: py_index_def es_def min_def)
  have sl: "py_slice_to es (int n) = map validate (take n (drop k L))"
    by (simp add: py_slice_to_def take_map es_def min_def)
  have short: "\<not> k + n < length L \<Longrightarrow> es = map validate (take n (drop k L))" by (simp add: es_def)
  have "make_page cc cursor (Some (int n)) es = Inr (forward_page cc validate L n k (cursor \<noteq> None))"
  proof (cases "k + n < length L")
    case True
    then show ?thesis using assms(6)
      by (cases cursor) (simp_all add: make_page_def over idx sl forward_page_def cursor_at_def [of cc validate, symmetric])
  next
    case False
    then have "\<not> over_limit (Some (int n)) es" using over by simp
    then show ?thesis using assms(6) False
      unfolding forward_page_def short [OF False, symmetric] by (cases cursor) (simp_all add: make_page_def)
  qed
  then show ?thesis using lim run by (simp add: paginated_query_def assms(4) eff_simps)
qed

lemma backward_query:
  assumes "session_ok session rows w" "listing ahead rows stmt L" "\<And>r. qr_validate qr r = Inr (validate r)"
    and "qr_cursor_type qr = cc" "0 < n" "k < length L"
  shows "paginated_query qr session scalar stmt (Some (cursor_at cc validate L k True)) (Some (int n)) w
    = (Inr (backward_page cc validate L n k), w)"
proof -
  let ?c = "cursor_at cc validate L k True"
  obtain keys where keys: "\<And>stmt. cc_apply_order cc True stmt = add_order keys stmt"
    "\<And>a b. row_le keys a b = (if True then \<not> ahead a b else \<not> ahead b a)"
    using order_select [of True] by auto
  have st: "sl_order stmt = []" "sl_limit stmt = None" and srt: "sorted_wrt ahead L"
    using assms(2) by (simp_all add: listing_def)
  obtain q where q: "cc_apply_cursor cc ?c stmt = Inr (add_where q stmt)" "\<And>x. q x = ahead x (L ! k)"
    using cursor_select [of "L ! k" True stmt] by (auto simp: cursor_at_def)
  have f: "filter q L = take k L" using sorted_filter_ahead(1) [OF srt assms(6)] q(2) by (simp add: fun_eq_iff cong: filter_cong)
  let ?stmt = "set_limit (int n + 1) (add_order keys (add_where q stmt))"
  have lim: "limited_select cc stmt (Some ?c) (Some (int n)) = Inr ?stmt"
    using q(1) assms(5) by (simp add: limited_select_def keys(1) Let_def)
  define R where "R = take k L"
  have R: "length R = k" using assms(6) by (simp add: R_def)
  define es where "es = map validate (take (Suc n) (rev R))"
  have "run_select qr session scalar ?stmt w = (Inr (map validate
      (let L' = (if True then rev (filter q L) else filter q L) in
       case Some (int n + 1) of None \<Rightarrow> L' | Some n \<Rightarrow> take (nat n) L')), w)"
    by (rule run_select_eq [OF assms(1-3) _ _ _ keys(2)]) (simp_all add: st)
  then have run: "run_select qr session scalar ?stmt w = (Inr es, w)"
    by (simp add: f Let_def nat_add_distrib es_def R_def)
  have len: "length es = min (Suc n) k" by (simp add: es_def R)
  have over: "over_limit (Some (int n)) es \<longleftrightarrow> n < k"
    unfolding over_limit_def len using assms(5) by auto
  have idx: "n < k \<Longrightarrow> py_index es (int n - 1) = Inr (validate (L ! (k - n)))"
  proof -
    assume "n < k"
    then have "es ! (n - 1) = validate (L ! (k - n))"
      using assms(5) R by (simp add: es_def rev_nth) (simp add: R_def)
    then show ?thesis using assms(5) len \<open>n < k\<close> by (simp add: py_index_def nat_diff_distrib)
  qed
  have "py_slice_to es (int n) = map validate (take n (rev R))"
    by (simp add: py_slice_to_def take_map es_def min_def)
  then have sl: "rev (py_slice_to es (int n)) = map validate (drop (k - n) R)"
    by (simp add: rev_map rev_take R)
  have short: "\<not> n < k \<Longrightarrow> rev es = map validate (drop (k - n) R)"
    by (simp add: es_def rev_map R)
  have "make_page cc (Some ?c) (Some (int n)) es = Inr (backward_page cc validate L n k)"
    by (cases "n < k")
      (simp_all add: make_page_def over idx sl short backward_page_def cursor_at_def [of cc validate L "k - n"] R_def)
  then show ?thesis using lim run by (simp add: paginated_query_def assms(4) eff_simps)
qed

lemma follow_pages:
  assumes "session_ok session rows w" "listing ahead rows stmt L" "\<And>r. qr_validate qr r = Inr (validate r)"
    and "qr_cursor_type qr = cc" "0 < n" and "case cursor of None \<Rightarrow> k = 0 | Some c \<Rightarrow> k < length L \<and> c = cursor_at cc validate L k False"
    and "length L - k < fuel"
  shows "\<exists>pages. follow_next fuel (\<lambda>c. paginated_query qr session scalar stmt c (Some (int n))) cursor w = Some pages \<and>
    concat pages = map validate (drop k L) \<and> pages \<noteq> [] \<and> (\<forall>p \<in> set (butlast pages). length p = n) \<and> length (last pages) \<le> n"
  using assms(6,7)
proof (induction fuel arbitrary: k cursor)
  case (Suc fuel)
  let ?q = "\<lambda>c. paginated_query qr session scalar stmt c (Some (int n))"
  have page: "?q cursor w = (Inr (forward_page cc validate L n k (cursor \<noteq> None)), w)"
    by (rule forward_query [OF assms(1-5) Suc.prems(1)])
  show ?case
  proof (cases "k + n < length L")
    case True
    have k: "case Some (cursor_at cc validate L (k + n) False) of None \<Rightarrow> k + n = 0
        | Some c \<Rightarrow> k + n < length L \<and> c = cursor_at cc validate L (k + n) False" "length L - (k + n) < fuel"
      using True Suc.prems(2) assms(5) by simp_all
    obtain pages where pages: "follow_next fuel ?q (Some (cursor_at cc validate L (k + n) False)) w = Some pages"
      "concat pages = map validate (drop (k + n) L)" "pages \<noteq> []" "\<forall>p \<in> set (butlast pages). length p = n"
      "length (last pages) \<le> n"
      using Suc.IH [OF k] by blast
    have "drop k L = take n (drop k L) @ drop (k + n) L" by (metis add.commute append_take_drop_id drop_drop)
    then have "map validate (drop k L) = map validate (take n (drop k L)) @ map validate (drop (k + n) L)"
      by (metis map_append)
    then show ?thesis using page pages True
      by (intro exI [of _ "map validate (take n (drop k L)) # pages"]) (simp add: forward_page_def)
  next
    case False
    then show ?thesis using page
      by (intro exI [of _ "[map validate (drop k L)]"]) (simp add: forward_page_def)
  qed
qed simp

end

subsection \<open>The cursor by datetime and identifier keeps the promise\<close>

text \<open>A row is listed before another one when it is later, or as late and its identifier is larger.\<close>

definition listed_before :: "('r \<Rightarrow> int) \<Rightarrow> ('r \<Rightarrow> int) \<Rightarrow> 'r \<Rightarrow> 'r \<Rightarrow> bool" where
  "listed_before tm i a b \<longleftrightarrow> tm b < tm a \<or> tm a = tm b \<and> i b < i a"

text \<open>The \<open>from_entry\<close> its documentation asks for, with the time and the identifier of the entry.\<close>

definition entry_cursor :: "('e \<Rightarrow> int) \<Rightarrow> ('e \<Rightarrow> int) \<Rightarrow> 'e \<Rightarrow> bool \<Rightarrow> datetime_cursor" where
  "entry_cursor tm i entry backwards =
     \<lparr>dc_previous = backwards, dc_time = \<lparr>dt_us = tm entry, dt_tz = FixedTz 0\<rparr>, dc_id = i entry\<rparr>"

definition entry_class ::
  "('e \<Rightarrow> int) \<Rightarrow> ('e \<Rightarrow> int) \<Rightarrow> ('r \<Rightarrow> 'e) \<Rightarrow> ('r, 'e, datetime_cursor) cursor_class" where
  "entry_class tm i validate = datetime_id_cursor (tm \<circ> validate) (i \<circ> validate) (entry_cursor tm i)"

interpretation dc: keyset_cursor "entry_class tm i validate" validate "listed_before (tm \<circ> validate) (i \<circ> validate)"
  for tm i and validate :: "'r \<Rightarrow> 'e"
proof
  fix backwards and stmt :: "'r select"
  show "\<exists>keys. (\<forall>stmt. cc_apply_order (entry_class tm i validate) backwards stmt = add_order keys stmt) \<and>
      (\<forall>a b. row_le keys a b = (if backwards then \<not> listed_before (tm \<circ> validate) (i \<circ> validate) a b
         else \<not> listed_before (tm \<circ> validate) (i \<circ> validate) b a))"
    by (intro exI [of _ "[(tm \<circ> validate, \<not> backwards), (i \<circ> validate, \<not> backwards)]"])
      (auto simp: entry_class_def datetime_id_cursor_def dc_apply_order_def listed_before_def)
next
  fix r backwards and stmt :: "'r select"
  show "\<exists>p. cc_apply_cursor (entry_class tm i validate) (cc_from_entry (entry_class tm i validate) (validate r) backwards) stmt
        = Inr (add_where p stmt) \<and>
      (\<forall>x. p x = (if backwards then listed_before (tm \<circ> validate) (i \<circ> validate) x r
         else \<not> listed_before (tm \<circ> validate) (i \<circ> validate) x r))"
    by (cases backwards)
      (auto simp: entry_class_def datetime_id_cursor_def dc_apply_cursor_def entry_cursor_def datetime_to_db_def
        listed_before_def Let_def)
qed (auto simp: listed_before_def entry_class_def datetime_id_cursor_def entry_cursor_def dc_invert_def)

text \<open>A table in memory keeps what is asked of a session.\<close>

fun place :: "('r \<Rightarrow> 'r \<Rightarrow> bool) \<Rightarrow> 'r \<Rightarrow> 'r list \<Rightarrow> 'r list" where
  "place le x [] = [x]"
| "place le x (y # ys) = (if le x y then x # y # ys else y # place le x ys)"

definition table_session :: "'r list \<Rightarrow> (unit, 'r) db_session" where
  "table_session rows =
     \<lparr>db_rows = (\<lambda>_ stmt w. (Inr
        (let ys = foldr (place (row_le (sl_order stmt))) (filter (matches stmt) rows) [] in
         case sl_limit stmt of None \<Rightarrow> ys | Some n \<Rightarrow> take (nat n) ys), w)),
      db_count = (\<lambda>stmt w. (Inr (Some (int (length (filter (matches stmt) rows)))), w))\<rparr>"

lemma row_le_total: "row_le keys a b \<or> row_le keys b a"
  by (induction keys) auto

lemma row_le_trans: "row_le keys a b \<Longrightarrow> row_le keys b c \<Longrightarrow> row_le keys a c"
proof (induction keys)
  case (Cons key keys)
  obtain k desc where key: "key = (k, desc)" by (cases key)
  show ?case using Cons unfolding key by (auto split: if_splits)
qed simp

lemma set_place: "set (place le x ys) = insert x (set ys)"
  by (induction ys) auto

lemma mset_place: "mset (place le x ys) = add_mset x (mset ys)"
  by (induction ys) auto

lemma sorted_place:
  "sorted_wrt (row_le keys) ys \<Longrightarrow> sorted_wrt (row_le keys) (place (row_le keys) x ys)"
proof (induction ys)
  case (Cons y ys)
  show ?case
  proof (cases "row_le keys x y")
    case True
    then show ?thesis using Cons.prems row_le_trans [OF True] by auto
  next
    case False
    then have "row_le keys y x" using row_le_total [of keys x y] by blast
    then show ?thesis using False Cons by (auto simp: set_place)
  qed
qed simp

lemma table_session_ok: "session_ok (table_session rows) rows w"
proof -
  have s: "sorted_wrt (row_le keys) (foldr (place (row_le keys)) xs [])" for keys and xs :: "'r list"
    by (induction xs) (simp_all add: sorted_place)
  have m: "mset (foldr (place le) xs []) = mset xs" for le and xs :: "'r list"
    by (induction xs) (simp_all add: mset_place)
  show ?thesis unfolding session_ok_def select_result_def table_session_def
    by (auto simp: Let_def m intro!: s exI [of _ "foldr _ _ []"] split: option.split)
qed

subsection \<open>What a client sees\<close>

text \<open> C21. Pages cover the query: a client that follows the next cursors from the first page of \<open>n\<close>
  entries on reaches a last page, after at most as many pages as there are entries and one;
  every page but the last has exactly \<open>n\<close> entries, and together they are the entries the
  query gives without pagination, in the same order, each once. \<close>
theorem pagination_pages_cover:
  fixes validate :: "'r \<Rightarrow> 'e"
  assumes "session_ok session rows w" "listing (listed_before (tm \<circ> validate) (i \<circ> validate)) rows stmt L" "0 < n"
  defines "qr \<equiv> \<lparr>qr_validate = (\<lambda>r. Inr (validate r)), qr_cursor_type = entry_class tm i validate\<rparr>"
  shows "query_object qr session stmt None None w
      = (Inr \<lparr>pg_entries = map validate L, pg_next_cursor = None, pg_prev_cursor = None\<rparr>, w) \<and>
    (\<exists>pages. follow_next (length L + 1) (\<lambda>c. query_object qr session stmt c (Some (int n))) None w = Some pages \<and>
       concat pages = map validate L \<and> (\<forall>p \<in> set (butlast pages). length p = n) \<and> length (last pages) \<le> n)"
proof
  have qr: "qr_validate qr r = Inr (validate r)" "qr_cursor_type qr = entry_class tm i validate" for r
    by (simp_all add: qr_def)
  show "query_object qr session stmt None None w
      = (Inr \<lparr>pg_entries = map validate L, pg_next_cursor = None, pg_prev_cursor = None\<rparr>, w)"
    using dc.full_listing [OF assms(1,2) qr] by (simp add: query_object_def paged_def)
  have q: "(\<lambda>c. query_object qr session stmt c (Some (int n))) = (\<lambda>c. paginated_query qr session True stmt c (Some (int n)))"
    using assms(3) by (intro ext) (simp add: query_object_def paged_def)
  show "\<exists>pages. follow_next (length L + 1) (\<lambda>c. query_object qr session stmt c (Some (int n))) None w = Some pages \<and>
       concat pages = map validate L \<and> (\<forall>p \<in> set (butlast pages). length p = n) \<and> length (last pages) \<le> n"
    unfolding q using dc.follow_pages [OF assms(1,2) qr assms(3), where cursor = None and k = 0 and fuel = "length L + 1"
        and scalar = True] by auto
qed

text \<open> C22. Going back returns: from any page of a forward traversal that has a next cursor, the previous
  cursor of the page that cursor leads to gives the page one came from, with the same entries
  and the same cursors. \<close>
theorem pagination_prev_returns:
  fixes validate :: "'r \<Rightarrow> 'e"
  assumes "session_ok session rows w" "listing (listed_before (tm \<circ> validate) (i \<circ> validate)) rows stmt L" "0 < n"
    and "k + n < length L" "cursor = None \<and> k = 0 \<or> cursor = Some (cursor_at (entry_class tm i validate) validate L k False) \<and> 0 < k"
  defines "qr \<equiv> \<lparr>qr_validate = (\<lambda>r. Inr (validate r)), qr_cursor_type = entry_class tm i validate\<rparr>"
  shows "\<exists>page next_page c p. query_row qr session stmt cursor (Some (int n)) w = (Inr page, w) \<and> pg_next_cursor page = Some c \<and>
    query_row qr session stmt (Some c) (Some (int n)) w = (Inr next_page, w) \<and> pg_prev_cursor next_page = Some p \<and>
    query_row qr session stmt (Some p) (Some (int n)) w = (Inr page, w)"
proof -
  let ?cc = "entry_class tm i validate"
  have qr: "qr_validate qr r = Inr (validate r)" "qr_cursor_type qr = ?cc" for r
    by (simp_all add: qr_def)
  have paged: "query_row qr session stmt c (Some (int n)) = paginated_query qr session False stmt c (Some (int n))" for c
    using assms(3) by (simp add: query_row_def paged_def)
  have k: "case cursor of None \<Rightarrow> k = 0 | Some c \<Rightarrow> k < length L \<and> c = cursor_at ?cc validate L k False"
    using assms(4,5) by auto
  let ?c = "cursor_at ?cc validate L (k + n) False" and ?p = "cursor_at ?cc validate L (k + n) True"
  let ?page = "forward_page ?cc validate L n k (cursor \<noteq> None)" and ?next = "forward_page ?cc validate L n (k + n) True"
  have 1: "query_row qr session stmt cursor (Some (int n)) w = (Inr ?page, w)"
    unfolding paged by (rule dc.forward_query [OF assms(1,2) qr assms(3) k])
  have c: "pg_next_cursor ?page = Some ?c" using assms(4) by (simp add: forward_page_def)
  have 2: "query_row qr session stmt (Some ?c) (Some (int n)) w = (Inr ?next, w)"
    unfolding paged using dc.forward_query [OF assms(1,2) qr assms(3), where cursor = "Some ?c" and k = "k + n"] assms(4) by simp
  have p: "pg_prev_cursor ?next = Some ?p" by (simp add: forward_page_def)
  have "drop k (take (k + n) L) = take n (drop k L)" by (simp add: drop_take)
  then have "backward_page ?cc validate L n (k + n) = ?page"
    using assms(3-5) by (auto simp: backward_page_def forward_page_def)
  then have 3: "query_row qr session stmt (Some ?p) (Some (int n)) w = (Inr ?page, w)"
    unfolding paged using dc.backward_query [OF assms(1,2) qr assms(3,4)] by simp
  show ?thesis using 1 2 3 c p by blast
qed

text \<open>The text of a cursor whose time is in UTC reads back as the same cursor, provided the text of a
  float reads back as that float and has neither an underscore nor a leading \<open>p\<close>. \<close>
theorem cursor_text_roundtrip:
  assumes "dt_tz (dc_time c) = FixedTz 0" "\<And>n. float_us (int_str n) = Some (n * 1000000)"
    and "\<And>us. us mod 1000000 \<noteq> 0 \<Longrightarrow> float_us (float_text us) = Some us \<and> CHR ''_'' \<notin> set (float_text us) \<and>
      \<not> py_startswith (float_text us) ''p''"
  shows "dc_from_str float_us (dc_str float_text local_offset c) = Inr c"
proof -
  let ?t = "timestamp_us local_offset (dc_time c)"
  let ?s = "if ?t mod 1000000 = 0 then int_str (?t div 1000000) else float_text ?t"
  have s: "float_us ?s = Some ?t" "CHR ''_'' \<notin> set ?s" "\<not> py_startswith ?s ''p''"
    using assms(2) assms(3) [of ?t] int_str_no_underscore [of "?t div 1000000"] int_str_no_p [of "?t div 1000000"]
    by (auto simp: py_startswith_iff)
  have e: "?t + epoch_us = dt_us (dc_time c)" using assms(1) by (simp add: timestamp_us_def)
  have "dc_str float_text local_offset c = (if dc_previous c then ''p'' else []) @ ?s @ CHR ''_'' # int_str (dc_id c)"
    by (simp add: dc_str_def Let_def)
  moreover have "\<not> py_startswith (?s @ CHR ''_'' # u) ''p''" for u
    using s(3) by (cases ?s) (auto simp: py_startswith_def)
  moreover have "py_split (CHR ''_'') (?s @ CHR ''_'' # int_str (dc_id c)) = [?s, int_str (dc_id c)]"
    using py_split_append [OF s(2)] int_str_no_underscore by simp
  moreover have "\<lparr>dc_previous = dc_previous c, dc_time = \<lparr>dt_us = dt_us (dc_time c), dt_tz = FixedTz 0\<rparr>, dc_id = dc_id c\<rparr> = c"
    using assms(1) by (cases c; cases "dc_time c") simp
  ultimately show ?thesis
    using s(1) e by (cases "dc_previous c") (simp_all add: dc_from_str_def Let_def py_startswith_def)
qed

subsection \<open>Concrete runs\<close>

definition demo_rows :: "(int \<times> int) list" where
  "demo_rows = [(5, 1), (7, 2), (5, 3)]"

definition demo_stmt :: "(int \<times> int) select" where
  "demo_stmt = \<lparr>sl_where = [], sl_order = [], sl_limit = None\<rparr>"

definition demo_runner :: "(int \<times> int, int \<times> int, datetime_cursor) query_runner" where
  "demo_runner = \<lparr>qr_validate = (\<lambda>r. Inr (id r)), qr_cursor_type = entry_class fst snd id\<rparr>"

lemma demo_listing: "listing (listed_before (fst \<circ> id) (snd \<circ> id)) demo_rows demo_stmt [(7, 2), (5, 3), (5, 1)]"
  by (simp add: listing_def matches_def listed_before_def demo_rows_def demo_stmt_def)

theorem pagination_pages_cover_witness:
  "\<exists>pages. follow_next 4 (\<lambda>c. query_object demo_runner (table_session demo_rows) demo_stmt c (Some 2)) None () = Some pages \<and>
     concat pages = [(7, 2), (5, 3), (5, 1)] \<and> length (last pages) \<le> 2"
  using pagination_pages_cover [OF table_session_ok demo_listing, of 2 "()"]
  by (auto simp: demo_runner_def numeral_eq_Suc)

theorem pagination_prev_returns_witness:
  "\<exists>page next_page c p. query_row demo_runner (table_session demo_rows) demo_stmt None (Some 2) () = (Inr page, ()) \<and>
     pg_next_cursor page = Some c \<and>
     query_row demo_runner (table_session demo_rows) demo_stmt (Some c) (Some 2) () = (Inr next_page, ()) \<and>
     pg_prev_cursor next_page = Some p \<and>
     query_row demo_runner (table_session demo_rows) demo_stmt (Some p) (Some 2) () = (Inr page, ())"
  using pagination_prev_returns [OF table_session_ok demo_listing, of 2 0 None "()"]
  unfolding demo_runner_def by simp

text \<open>One way of writing floats: the number of microseconds with an exponent.\<close>

definition demo_float_text :: "int \<Rightarrow> string" where
  "demo_float_text us = int_str us @ ''e-6''"

definition demo_float_us :: "string \<Rightarrow> int option" where
  "demo_float_us s = (if CHR ''e'' \<in> set s then py_int (take (length s - 3) s) else map_option (\<lambda>n. n * 1000000) (py_int s))"

lemma int_str_no_e: "CHR ''e'' \<notin> set (int_str i)"
  using set_int_str [of "CHR ''e''" i] by (auto simp: is_digit_def)

theorem cursor_text_roundtrip_witness:
  "dc_from_str demo_float_us (dc_str demo_float_text 0
      \<lparr>dc_previous = True, dc_time = \<lparr>dt_us = 63897638399500000, dt_tz = FixedTz 0\<rparr>, dc_id = 7\<rparr>)
    = Inr \<lparr>dc_previous = True, dc_time = \<lparr>dt_us = 63897638399500000, dt_tz = FixedTz 0\<rparr>, dc_id = 7\<rparr>"
proof (rule cursor_text_roundtrip)
  show "demo_float_us (int_str n) = Some (n * 1000000)" for n
    by (simp add: demo_float_us_def int_str_no_e)
  show "demo_float_us (demo_float_text us) = Some us \<and> CHR ''_'' \<notin> set (demo_float_text us) \<and>
      \<not> py_startswith (demo_float_text us) ''p''" for us
    using int_str_no_p [of us] int_str_no_underscore [of us] py_int_str [of us]
    by (cases "int_str us") (auto simp: demo_float_us_def demo_float_text_def py_startswith_def)
qed simp

end
