(* ===== verification/HttpLink.thy ===== *)
theory HttpLink
  imports Pagination
begin

text \<open>
  The links of a paginated answer: the URLs and the \<open>Link\<close> header that \<open>PaginatedList\<close> of
  \<open>safir.database._pagination\<close> makes, with the query strings of the standard library, and
  \<open>safir.http._link\<close>, which reads such a header back.  Texts are ASCII.
\<close>

subsection \<open>Query strings\<close>

text \<open>\<open>urllib.parse.quote_plus\<close> and \<open>unquote_plus\<close>.\<close>

definition url_safe :: "char \<Rightarrow> bool" where
  "url_safe c = (let n = of_char c :: nat in
     65 \<le> n \<and> n \<le> 90 \<or> 97 \<le> n \<and> n \<le> 122 \<or> 48 \<le> n \<and> n \<le> 57 \<or> n \<in> {45, 46, 95, 126})"

definition hex_char :: "nat \<Rightarrow> char" where
  "hex_char d = (if d < 10 then char_of (48 + d) else char_of (55 + d))"

definition hex_val :: "char \<Rightarrow> nat option" where
  "hex_val c = (let n = of_char c :: nat in
     if 48 \<le> n \<and> n \<le> 57 then Some (n - 48)
     else if 65 \<le> n \<and> n \<le> 70 then Some (n - 55)
     else if 97 \<le> n \<and> n \<le> 102 then Some (n - 87) else None)"

definition quote_char :: "char \<Rightarrow> string" where
  "quote_char c =
     (if url_safe c then [c] else if c = CHR '' '' then ''+''
      else [CHR ''%'', hex_char (of_char c div 16), hex_char (of_char c mod 16)])"

definition quote_plus :: "string \<Rightarrow> string" where
  "quote_plus s = concat (map quote_char s)"

fun unquote_plus :: "string \<Rightarrow> string" where
  "unquote_plus [] = []"
| "unquote_plus (c # s) =
     (if c = CHR ''+'' then CHR '' '' # unquote_plus s
      else if c = CHR ''%'' then
        (case s of
           a # b # r \<Rightarrow> (case (hex_val a, hex_val b) of
             (Some x, Some y) \<Rightarrow> char_of (16 * x + y) # unquote_plus r
           | _ \<Rightarrow> c # unquote_plus s)
         | _ \<Rightarrow> c # unquote_plus s)
      else c # unquote_plus s)"

text \<open>\<open>parse_qs\<close>: the values of each name, in the order of the names' first occurrence; blank ones are dropped.\<close>

definition parse_pair :: "string \<Rightarrow> (string \<times> string) option" where
  "parse_pair p = (case py_split1 (CHR ''='') p of
     [name, val] \<Rightarrow> if val = [] then None else Some (unquote_plus name, unquote_plus val)
   | _ \<Rightarrow> None)"

definition add_value :: "string \<times> string \<Rightarrow> (string \<times> string list) list \<Rightarrow> (string \<times> string list) list" where
  "add_value nv params = AList.update (fst nv)
     ((case map_of params (fst nv) of None \<Rightarrow> [] | Some vs \<Rightarrow> vs) @ [snd nv]) params"

definition parse_qs :: "string \<Rightarrow> (string \<times> string list) list" where
  "parse_qs qs = fold add_value (List.map_filter parse_pair (py_split (CHR ''&'') qs)) []"

text \<open>\<open>urlencode(params, doseq=True)\<close>.\<close>

definition urlencode :: "(string \<times> string list) list \<Rightarrow> string" where
  "urlencode params = py_join ''&''
     (concat (map (\<lambda>(k, vs). map (\<lambda>v. quote_plus k @ ''='' @ quote_plus v) vs) params))"

subsection \<open>The URLs of a page\<close>

text \<open>A URL: everything before the query, the query and the fragment.\<close>

record url =
  u_prefix :: string
  u_query :: string
  u_fragment :: string

definition url_str :: "url \<Rightarrow> string" where
  "url_str u = u_prefix u @ (if u_query u = [] then [] else CHR ''?'' # u_query u)
     @ (if u_fragment u = [] then [] else CHR ''#'' # u_fragment u)"

text \<open>
  \<open>remove_cursor\<close> stands for the framework's \<open>remove_query_params("cursor")\<close>, and \<open>text_of\<close> for
  the text of a cursor.
\<close>

definition first_url :: "(url \<Rightarrow> url) \<Rightarrow> url \<Rightarrow> string" where
  "first_url remove_cursor current_url = url_str (remove_cursor current_url)"

definition with_cursor :: "(url \<Rightarrow> url) \<Rightarrow> url \<Rightarrow> string \<Rightarrow> url" where
  "with_cursor remove_cursor current_url cursor_text =
     (let first_url = remove_cursor current_url;
          params = AList.update ''cursor'' [cursor_text] (parse_qs (u_query first_url))
      in first_url\<lparr>u_query := urlencode params\<rparr>)"

definition next_url :: "(url \<Rightarrow> url) \<Rightarrow> ('c \<Rightarrow> string) \<Rightarrow> ('e, 'c) page \<Rightarrow> url \<Rightarrow> string option" where
  "next_url remove_cursor text_of page current_url = (case pg_next_cursor page of
     None \<Rightarrow> None | Some c \<Rightarrow> Some (url_str (with_cursor remove_cursor current_url (text_of c))))"

definition prev_url :: "(url \<Rightarrow> url) \<Rightarrow> ('c \<Rightarrow> string) \<Rightarrow> ('e, 'c) page \<Rightarrow> url \<Rightarrow> string option" where
  "prev_url remove_cursor text_of page current_url = (case pg_prev_cursor page of
     None \<Rightarrow> None | Some c \<Rightarrow> Some (url_str (with_cursor remove_cursor current_url (text_of c))))"

definition link_entry :: "string \<Rightarrow> string \<Rightarrow> string" where
  "link_entry target rel = ''<'' @ target @ ''>; rel='' @ [CHR 34] @ rel @ [CHR 34]"

definition link_header :: "(url \<Rightarrow> url) \<Rightarrow> ('c \<Rightarrow> string) \<Rightarrow> ('e, 'c) page \<Rightarrow> url \<Rightarrow> string" where
  "link_header remove_cursor text_of page current_url =
     (let header = link_entry (first_url remove_cursor current_url) ''first'';
          next_url = next_url remove_cursor text_of page current_url;
          prev_url = prev_url remove_cursor text_of page current_url;
          header = (case next_url of None \<Rightarrow> header
            | Some u \<Rightarrow> if u = [] then header else header @ '', '' @ link_entry u ''next'')
      in (case prev_url of None \<Rightarrow> header
            | Some u \<Rightarrow> if u = [] then header else header @ '', '' @ link_entry u ''prev''))"

subsection \<open>Reading a header\<close>

record link_data =
  ld_prev_url :: "string option"
  ld_next_url :: "string option"
  ld_first_url :: "string option"

text \<open>The target of an element and what follows the semicolon and white space after it.\<close>

definition link_target :: "string \<Rightarrow> (string \<times> string) option" where
  "link_target s = (case dropWhile py_space s of
     [] \<Rightarrow> None
   | c # t \<Rightarrow>
       if c \<noteq> CHR ''<'' then None
       else (let target = takeWhile (\<lambda>x. x \<noteq> CHR ''>'') t; r = drop (length target) t in
             if target = [] \<or> \<not> py_startswith r ''>;'' then None
             else Some (target, dropWhile py_space (drop 2 r))))"

definition token_char :: "char \<Rightarrow> bool" where
  "token_char c = (let n = of_char c :: nat in
     65 \<le> n \<and> n \<le> 90 \<or> 97 \<le> n \<and> n \<le> 122 \<or> 48 \<le> n \<and> n \<le> 57 \<or>
     n \<in> {33, 35, 36, 37, 38, 39, 42, 43, 46, 94, 95, 96, 124, 126, 45})"

definition link_regex :: "string \<Rightarrow> (string \<times> string) option" where
  "link_regex s = (case link_target s of
     None \<Rightarrow> None
   | Some (target, r) \<Rightarrow>
       if \<not> py_startswith r (''rel='' @ [CHR 34]) then None
       else (let r = drop 5 r; rel = takeWhile (\<lambda>x. x \<noteq> CHR 34) r in
             if rel = [] \<or> length rel = length r then None else Some (target, rel)))"

definition link_token_regex :: "string \<Rightarrow> (string \<times> string) option" where
  "link_token_regex s = (case link_target s of
     None \<Rightarrow> None
   | Some (target, r) \<Rightarrow>
       if \<not> py_startswith r ''rel='' then None
       else (let rel = takeWhile token_char (drop 4 r) in if rel = [] then None else Some (target, rel)))"

definition add_link :: "string \<Rightarrow> link_data \<Rightarrow> link_data" where
  "add_link element links =
     (case (case link_regex element of None \<Rightarrow> link_token_regex element | Some m \<Rightarrow> Some m) of
        None \<Rightarrow> links
      | Some (target, rel) \<Rightarrow>
          if rel = ''prev'' \<or> rel = ''previous'' then links\<lparr>ld_prev_url := Some target\<rparr>
          else if rel = ''next'' then links\<lparr>ld_next_url := Some target\<rparr>
          else if rel = ''first'' then links\<lparr>ld_first_url := Some target\<rparr>
          else links)"

definition from_header :: "string option \<Rightarrow> link_data" where
  "from_header header =
     (let empty = \<lparr>ld_prev_url = None, ld_next_url = None, ld_first_url = None\<rparr> in
      case header of None \<Rightarrow> empty
      | Some h \<Rightarrow> if h = [] then empty else fold add_link (py_split (CHR '','') h) empty)"

subsection \<open>A page's links can be followed\<close>

definition link_text :: "string \<Rightarrow> bool" where
  "link_text u \<longleftrightarrow> u \<noteq> [] \<and> CHR ''>'' \<notin> set u \<and> CHR '','' \<notin> set u"

lemma py_space_simps [simp]: "\<not> py_space (CHR ''<'')" "\<not> py_space (CHR ''r'')" "py_space (CHR '' '')"
  by (simp_all add: py_space_def)

lemma link_regex_entry:
  assumes "link_text u" "rel \<noteq> []" "CHR 34 \<notin> set rel" "\<forall>c \<in> set pre. py_space c"
  shows "link_regex (pre @ link_entry u rel) = Some (u, rel)"
proof -
  have d: "dropWhile py_space (pre @ link_entry u rel) = link_entry u rel"
    using assms(4) by (simp add: link_entry_def dropWhile_append1 dropWhile_append2)
  have t: "takeWhile (\<lambda>x. x \<noteq> CHR ''>'') (u @ CHR ''>'' # r) = u" for r
    using assms(1) by (subst takeWhile_append2) (auto simp: link_text_def)
  have q: "takeWhile (\<lambda>x. x \<noteq> CHR 34) (rel @ [CHR 34]) = rel"
    using assms(3) by (subst takeWhile_append2) auto
  have "link_target (pre @ link_entry u rel) = Some (u, ''rel='' @ CHR 34 # rel @ [CHR 34])"
    unfolding link_target_def d using assms(1) t
    by (simp add: link_entry_def link_text_def py_startswith_def Let_def)
  then show ?thesis using assms(2) q by (simp add: link_regex_def py_startswith_def Let_def)
qed

lemma link_entry_no_comma: "link_text u \<Longrightarrow> CHR '','' \<notin> set rel \<Longrightarrow> CHR '','' \<notin> set (link_entry u rel)"
  by (simp add: link_entry_def link_text_def)

lemma link_entry_not_Nil: "link_entry u rel \<noteq> []"
  by (simp add: link_entry_def)

text \<open>Quoting loses nothing, and leaves only characters without a meaning in a query or a header.\<close>

definition quoted_char :: "char \<Rightarrow> bool" where
  "quoted_char c \<longleftrightarrow> url_safe c \<or> c = CHR ''+'' \<or> c = CHR ''%''"

lemma hex_val_char: "d < 16 \<Longrightarrow> hex_val (hex_char d) = Some d"
  by (auto simp: hex_val_def hex_char_def Let_def)

lemma hex_char_safe: "d < 16 \<Longrightarrow> url_safe (hex_char d)"
  by (auto simp: hex_char_def url_safe_def Let_def)

lemma quote_char_chars: "c' \<in> set (quote_char c) \<Longrightarrow> quoted_char c'"
proof -
  have "(of_char c :: nat) div 16 < 16" "(of_char c :: nat) mod 16 < 16" using of_char_bound [of c] by linarith simp
  then show "c' \<in> set (quote_char c) \<Longrightarrow> quoted_char c'"
    using hex_char_safe by (auto simp: quote_char_def quoted_char_def split: if_splits)
qed

lemma quote_plus_chars: "c \<in> set (quote_plus s) \<Longrightarrow> quoted_char c"
  using quote_char_chars by (auto simp: quote_plus_def)

lemma not_quoted: "quoted_char c \<Longrightarrow> c \<notin> {CHR ''&'', CHR ''='', CHR '','', CHR ''>'', CHR ''#''}"
  by (auto simp: quoted_char_def url_safe_def Let_def)

lemma unquote_quote_char: "unquote_plus (quote_char c @ s) = c # unquote_plus s"
proof -
  have b: "(of_char c :: nat) div 16 < 16" "(of_char c :: nat) mod 16 < 16" using of_char_bound [of c] by linarith simp
  have "url_safe c \<Longrightarrow> c \<noteq> CHR ''+'' \<and> c \<noteq> CHR ''%''" by (auto simp: url_safe_def Let_def)
  then show ?thesis using hex_val_char [OF b(1)] hex_val_char [OF b(2)]
    by (auto simp: quote_char_def)
qed

lemma unquote_quote [simp]: "unquote_plus (quote_plus s) = s"
  by (induction s) (simp_all add: quote_plus_def unquote_quote_char)

lemma quote_plus_Nil [simp]: "quote_plus s = [] \<longleftrightarrow> s = []"
  by (cases s) (auto simp: quote_plus_def quote_char_def)

lemma unquote_Nil [simp]: "unquote_plus s = [] \<longleftrightarrow> s = []"
  by (cases s rule: unquote_plus.cases) (auto split: list.splits option.splits)

text \<open>The parameters a query string is made of: each name once, with values, none of them blank.\<close>

definition params_ok :: "(string \<times> string list) list \<Rightarrow> bool" where
  "params_ok params \<longleftrightarrow> distinct (map fst params) \<and> (\<forall>(k, vs) \<in> set params. vs \<noteq> [] \<and> [] \<notin> set vs)"

lemma add_values:
  "k \<notin> fst ` set acc \<Longrightarrow> fold add_value (map (Pair k) vs) (acc @ [(k, us)]) = acc @ [(k, us @ vs)]"
proof (induction vs arbitrary: us)
  case (Cons v vs)
  have "AList.update k x (acc @ [(k, us)]) = acc @ [(k, x)]" for x
    using Cons.prems by (induction acc) auto
  moreover have "map_of (acc @ [(k, us)]) k = Some us"
    using Cons.prems by (simp add: map_add_Some_iff map_of_eq_None_iff)
  ultimately have "add_value (k, v) (acc @ [(k, us)]) = acc @ [(k, us @ [v])]" by (simp add: add_value_def)
  then show ?case using Cons.IH [OF Cons.prems, of "us @ [v]"] by simp
qed simp

lemma add_new_values:
  assumes "k \<notin> fst ` set acc" "vs \<noteq> []"
  shows "fold add_value (map (Pair k) vs) acc = acc @ [(k, vs)]"
proof -
  obtain v vs' where vs: "vs = v # vs'" using assms(2) by (cases vs) auto
  have "map_of acc k = None" using assms(1) by (simp add: map_of_eq_None_iff)
  then have "add_value (k, v) acc = acc @ [(k, [v])]"
    using assms(1) by (simp add: add_value_def update_conv' [symmetric]) (induction acc; auto)
  then show ?thesis using add_values [OF assms(1), of vs' "[v]"] vs by simp
qed

lemma fold_add_values:
  "distinct (map fst params) \<Longrightarrow> \<forall>(k, vs) \<in> set params. vs \<noteq> [] \<Longrightarrow> fst ` set params \<inter> fst ` set acc = {} \<Longrightarrow>
    fold add_value (concat (map (\<lambda>(k, vs). map (Pair k) vs) params)) acc = acc @ params"
proof (induction params arbitrary: acc)
  case (Cons p params)
  obtain k vs where p: "p = (k, vs)" by (cases p)
  have "fold add_value (map (Pair k) vs) acc = acc @ [(k, vs)]"
    using Cons.prems p by (intro add_new_values) auto
  then show ?case using Cons.prems Cons.IH [of "acc @ [(k, vs)]"] p by auto
qed simp

lemma parse_urlencode:
  assumes "params_ok params"
  shows "parse_qs (urlencode params) = params"
proof -
  let ?pairs = "concat (map (\<lambda>(k, vs). map (Pair k) vs) params)"
  let ?enc = "\<lambda>(k, v). quote_plus k @ ''='' @ quote_plus v"
  have parts: "concat (map (\<lambda>(k, vs). map (\<lambda>v. quote_plus k @ ''='' @ quote_plus v) vs) params) = map ?enc ?pairs"
    by (induction params) auto
  have nb: "\<forall>(k, v) \<in> set ?pairs. v \<noteq> []" using assms by (fastforce simp: params_ok_def)
  have e: "parse_pair (?enc (k, v)) = Some (k, v)" if "v \<noteq> []" for k v
  proof -
    have "CHR ''='' \<notin> set (quote_plus k)" using quote_plus_chars not_quoted by blast
    then show ?thesis using that by (simp add: parse_pair_def)
  qed
  have mf: "List.map_filter parse_pair (map ?enc ps) = ps" if "\<forall>(k, v) \<in> set ps. v \<noteq> []" for ps
    using that by (induction ps) (auto simp: List.map_filter_simps e [simplified])
  have split: "List.map_filter parse_pair (py_split (CHR ''&'') (py_join ''&'' (map ?enc ps))) = ps"
    if "\<forall>(k, v) \<in> set ps. v \<noteq> []" for ps
  proof (cases ps)
    case Nil
    then show ?thesis by (simp add: List.map_filter_simps parse_pair_def py_split1_def)
  next
    case (Cons p ps')
    have "\<forall>w \<in> set (map ?enc ps). CHR ''&'' \<notin> set w" using quote_plus_chars not_quoted by fastforce
    then show ?thesis using py_split_join [of "map ?enc ps" "CHR ''&''"] mf [OF that] Cons by simp
  qed
  have "fold add_value ?pairs [] = params"
    using fold_add_values [of params "[]"] assms by (auto simp: params_ok_def)
  then show ?thesis unfolding parse_qs_def urlencode_def parts split [OF nb] .
qed

lemma params_ok_update:
  assumes "params_ok params" "vs \<noteq> []" "[] \<notin> set vs"
  shows "params_ok (AList.update k vs params)"
proof -
  have "set (AList.update k vs params) \<subseteq> insert (k, vs) (set params)" by (induction params) auto
  then show ?thesis using assms unfolding params_ok_def by (intro conjI distinct_update) auto
qed

lemma parse_qs_ok: "params_ok (parse_qs q)"
proof -
  have step: "params_ok (add_value nv params)" if "params_ok params" "snd nv \<noteq> []" for nv params
    unfolding add_value_def
  proof (rule params_ok_update [OF that(1)])
    show "[] \<notin> set ((case map_of params (fst nv) of None \<Rightarrow> [] | Some vs \<Rightarrow> vs) @ [snd nv])"
      using that map_of_SomeD [of params "fst nv"] by (fastforce simp: params_ok_def split: option.split)
  qed simp
  have "params_ok (fold add_value nvs params)" if "params_ok params" "\<forall>nv \<in> set nvs. snd nv \<noteq> []" for nvs params
    using that by (induction nvs arbitrary: params) (auto simp: step)
  moreover have "\<forall>nv \<in> set (List.map_filter parse_pair ps). snd nv \<noteq> []" for ps
    by (auto simp: List.map_filter_def parse_pair_def split: list.splits if_splits)
  moreover have "params_ok []" by (simp add: params_ok_def)
  ultimately show ?thesis unfolding parse_qs_def by blast
qed

lemma with_cursor_select [simp]:
  "u_prefix (with_cursor rc u t) = u_prefix (rc u)" "u_fragment (with_cursor rc u t) = u_fragment (rc u)"
  by (simp_all add: with_cursor_def Let_def)

lemma set_py_join: "set (py_join sep ws) \<subseteq> set sep \<union> \<Union> (set (map set ws))"
  by (induction sep ws rule: py_join.induct) auto

lemma urlencode_chars: "c \<in> set (urlencode params) \<Longrightarrow> quoted_char c \<or> c = CHR ''&'' \<or> c = CHR ''=''"
  using set_py_join [of "''&''"] quote_plus_chars unfolding urlencode_def by fastforce

lemma with_cursor_link_text:
  assumes "link_text (first_url rc u)" "u_prefix (rc u) \<noteq> []"
  shows "link_text (url_str (with_cursor rc u t))"
proof -
  have "CHR ''>'' \<notin> set (u_query (with_cursor rc u t))" "CHR '','' \<notin> set (u_query (with_cursor rc u t))"
    using urlencode_chars not_quoted unfolding with_cursor_def Let_def by fastforce+
  then show ?thesis using assms by (auto simp: link_text_def first_url_def url_str_def)
qed

text \<open>The links of a page survive the header: what \<open>from_header\<close> reads from the header made for a
  page is its first URL and its next and previous ones, each exactly when the page has that
  cursor, provided the URL itself has neither a comma nor a closing angle bracket. \<close>
theorem link_header_roundtrip:
  assumes "link_text (first_url rc u)" "u_prefix (rc u) \<noteq> []"
  shows "from_header (Some (link_header rc text_of page u)) =
    \<lparr>ld_prev_url = prev_url rc text_of page u, ld_next_url = next_url rc text_of page u,
     ld_first_url = Some (first_url rc u)\<rparr>"
proof -
  have t: "link_text (url_str (with_cursor rc u c))" for c by (rule with_cursor_link_text [OF assms])
  have ne: "link_text v \<Longrightarrow> v \<noteq> []" for v by (simp add: link_text_def)
  have nc: "CHR '','' \<notin> set (link_entry v ''first'')" "CHR '','' \<notin> set (link_entry v ''next'')"
    "CHR '','' \<notin> set (link_entry v ''prev'')" if "link_text v" for v
    using link_entry_no_comma [OF that] by simp_all
  have add: "add_link (link_entry v ''first'') l = l\<lparr>ld_first_url := Some v\<rparr>"
    "add_link (CHR '' '' # link_entry v ''next'') l = l\<lparr>ld_next_url := Some v\<rparr>"
    "add_link (CHR '' '' # link_entry v ''prev'') l = l\<lparr>ld_prev_url := Some v\<rparr>" if "link_text v" for v l
    using link_regex_entry [OF that, of "''first''" "[]"] link_regex_entry [OF that, of "''next''" "'' ''"]
      link_regex_entry [OF that, of "''prev''" "'' ''"] by (simp_all add: add_link_def)
  show ?thesis
    by (cases "pg_next_cursor page"; cases "pg_prev_cursor page")
      (simp_all add: from_header_def link_header_def next_url_def prev_url_def Let_def ne [OF t] ne [OF assms(1)]
        py_split_append nc [OF assms(1)] nc [OF t] add [OF assms(1)] add [OF t] link_entry_not_Nil)
qed

text \<open>A next or previous link asks for the same query from its cursor on: the parameters of the URL
  are those of the current one without its cursor, and the text of the new cursor; parameters
  with blank values are dropped. \<close>
theorem cursor_link_params:
  assumes "cursor_text \<noteq> []"
  shows "parse_qs (u_query (with_cursor rc u cursor_text))
      = AList.update ''cursor'' [cursor_text] (parse_qs (u_query (rc u))) \<and>
    map_of (parse_qs (u_query (with_cursor rc u cursor_text))) ''cursor'' = Some [cursor_text] \<and>
    (\<forall>k. k \<noteq> ''cursor'' \<longrightarrow> map_of (parse_qs (u_query (with_cursor rc u cursor_text))) k = map_of (parse_qs (u_query (rc u))) k)"
proof -
  let ?ps = "AList.update ''cursor'' [cursor_text] (parse_qs (u_query (rc u)))"
  have "parse_qs (u_query (with_cursor rc u cursor_text)) = ?ps"
    using assms by (simp add: with_cursor_def Let_def parse_urlencode params_ok_update [OF parse_qs_ok])
  then show ?thesis by (simp add: update_conv')
qed

definition demo_url :: url where
  "demo_url = \<lparr>u_prefix = ''https://example.com/jobs'', u_query = ''phase=RUN&since='', u_fragment = []\<rparr>"

definition demo_page :: "(nat, string) page" where
  "demo_page = \<lparr>pg_entries = [1, 2], pg_next_cursor = Some ''17_4'', pg_prev_cursor = None\<rparr>"

lemma link_header_roundtrip_witness:
  "link_text (first_url (\<lambda>u. u) demo_url) \<and> u_prefix demo_url \<noteq> [] \<and>
   from_header (Some (link_header (\<lambda>u. u) (\<lambda>t. t) demo_page demo_url)) =
    \<lparr>ld_prev_url = None, ld_next_url = Some ''https://example.com/jobs?phase=RUN&cursor=17_4'',
     ld_first_url = Some ''https://example.com/jobs?phase=RUN&since=''\<rparr>"
proof -
  have h: "link_text (first_url (\<lambda>u. u) demo_url)" "u_prefix ((\<lambda>u. u) demo_url) \<noteq> []" by code_simp+
  have "prev_url (\<lambda>u. u) (\<lambda>t. t) demo_page demo_url = None"
    "next_url (\<lambda>u. u) (\<lambda>t. t) demo_page demo_url = Some ''https://example.com/jobs?phase=RUN&cursor=17_4''"
    "first_url (\<lambda>u. u) demo_url = ''https://example.com/jobs?phase=RUN&since=''" by code_simp+
  then show ?thesis using link_header_roundtrip [OF h, of "\<lambda>t. t" demo_page] h by simp
qed

lemma cursor_link_params_witness:
  "''17_4'' \<noteq> [] \<and>
   map_of (parse_qs (u_query (with_cursor (\<lambda>u. u) demo_url ''17_4''))) ''phase'' = Some [''RUN''] \<and>
   map_of (parse_qs (u_query (with_cursor (\<lambda>u. u) demo_url ''17_4''))) ''cursor'' = Some [''17_4'']"
proof -
  have "map_of (parse_qs (u_query demo_url)) ''phase'' = Some [''RUN'']" by code_simp
  then show ?thesis using cursor_link_params [of "''17_4''" "\<lambda>u. u" demo_url] by (simp add: update_conv')
qed

end
