(* ===== verification/Middleware.thy ===== *)
theory Middleware
  imports HttpLink
begin

text \<open>
  ASGI middleware: \<open>safir.middleware.ivoa\<close>, which makes the names of parameters lowercase, and
  \<open>safir.middleware.x_forwarded\<close>, which finds the client behind proxies.  A middleware that only
  changes the request is the function from the scope it is called with to the scope it calls the
  application with; the one for forms also wraps the function that receives the body.  Texts are
  lists of bytes; the names of a form, which are decoded from UTF-8, are exact for ASCII.
\<close>

text \<open>
  The request: of its state only \<open>forwarded_host\<close>, \<open>None\<close> when the key is not there.  The names of
  the headers are lowercase, as ASGI has them.
\<close>

record asgi_scope =
  as_type :: string
  as_method :: string
  as_client :: "(string \<times> int option) option"
  as_scheme :: string
  as_query_string :: "string option"
  as_headers :: "(string \<times> string) list"
  as_forwarded_host :: "string option option"

subsection \<open>Names of parameters\<close>

text \<open>\<open>parse_qsl\<close> and \<open>urlencode\<close> of a list of pairs.\<close>

definition parse_qsl :: "string \<Rightarrow> (string \<times> string) list" where
  "parse_qsl qs = List.map_filter parse_pair (py_split (CHR ''&'') qs)"

definition urlencode_pairs :: "(string \<times> string) list \<Rightarrow> string" where
  "urlencode_pairs params = py_join ''&'' (map (\<lambda>(k, v). quote_plus k @ ''='' @ quote_plus v) params)"

definition lower_params :: "string \<Rightarrow> string" where
  "lower_params qs = urlencode_pairs (map (\<lambda>(k, v). (to_lower k, v)) (parse_qsl qs))"

definition case_insensitive_query :: "asgi_scope \<Rightarrow> asgi_scope" where
  "case_insensitive_query scope = (case as_query_string scope of
     None \<Rightarrow> scope
   | Some qs \<Rightarrow>
       if as_type scope \<noteq> ''http'' \<or> qs = [] then scope
       else scope\<lparr>as_query_string := Some (lower_params qs)\<rparr>)"

text \<open>The content type: of headers of the same name the last one counts.\<close>

definition is_form_data :: "asgi_scope \<Rightarrow> bool" where
  "is_form_data scope =
     (let content_type = (case map_of (rev (as_headers scope)) ''content-type'' of None \<Rightarrow> [] | Some v \<Rightarrow> v)
      in py_startswith content_type ''application/x-www-form-urlencoded'')"

text \<open>
  A message received: its type, and the body and the flag for more, when it has them.  \<open>receive\<close> is
  modelled by the messages still to come; with none left it never returns.
\<close>

record asgi_message =
  mg_type :: string
  mg_body :: "string option"
  mg_more_body :: "bool option"

fun get_body :: "asgi_message list \<Rightarrow> (string \<times> asgi_message list) option" where
  "get_body [] = None"
| "get_body (m # ms) =
     (let body = (case mg_body m of None \<Rightarrow> [] | Some b \<Rightarrow> b) in
      if mg_more_body m = Some True then map_option (\<lambda>(rest, ms). (body @ rest, ms)) (get_body ms)
      else Some (body, ms))"

text \<open>The wrapped \<open>receive\<close>, with its flag \<open>processed\<close> and the messages still to come.\<close>

definition form_message :: "string \<Rightarrow> asgi_message" where
  "form_message body = \<lparr>mg_type = ''http.request'', mg_body = Some body, mg_more_body = Some False\<rparr>"

definition wrapped_receive :: "bool \<times> asgi_message list \<Rightarrow> (asgi_message \<times> bool \<times> asgi_message list) option" where
  "wrapped_receive = (\<lambda>(processed, ms).
     if processed then Some (form_message [], processed, ms)
     else map_option (\<lambda>(body, ms). (form_message (lower_params body), True, ms)) (get_body ms))"

definition wraps_receive :: "asgi_scope \<Rightarrow> bool" where
  "wraps_receive scope \<longleftrightarrow> as_type scope = ''http'' \<and> as_method scope = ''POST'' \<and> is_form_data scope"

text \<open>What the application is given when it asks for a message, from the middleware.\<close>

definition form_receive :: "asgi_scope \<Rightarrow> bool \<times> asgi_message list \<Rightarrow> (asgi_message \<times> bool \<times> asgi_message list) option" where
  "form_receive scope = (\<lambda>(processed, ms).
     if wraps_receive scope then wrapped_receive (processed, ms)
     else (case ms of [] \<Rightarrow> None | m # ms \<Rightarrow> Some (m, processed, ms)))"

text \<open>The first \<open>n\<close> messages the application gets.\<close>

fun form_messages :: "nat \<Rightarrow> asgi_scope \<Rightarrow> bool \<times> asgi_message list \<Rightarrow> asgi_message list option" where
  "form_messages 0 scope r = Some []"
| "form_messages (Suc n) scope r = (case form_receive scope r of
     None \<Rightarrow> None
   | Some (m, r) \<Rightarrow> map_option (Cons m) (form_messages n scope r))"

lemma parse_pair_quoted:
  assumes "v \<noteq> []"
  shows "parse_pair (quote_plus k @ ''='' @ quote_plus v) = Some (k, v)"
proof -
  have "CHR ''='' \<notin> set (quote_plus k)" using quote_plus_chars not_quoted by blast
  then show ?thesis using assms by (simp add: parse_pair_def)
qed

lemma parse_urlencode_pairs:
  assumes "\<forall>(k, v) \<in> set params. v \<noteq> []"
  shows "parse_qsl (urlencode_pairs params) = params"
proof (cases params)
  case Nil
  then show ?thesis by (simp add: parse_qsl_def urlencode_pairs_def List.map_filter_simps parse_pair_def py_split1_def)
next
  case (Cons p ps)
  let ?enc = "\<lambda>(k, v). quote_plus k @ ''='' @ quote_plus v"
  have "\<forall>w \<in> set (map ?enc params). CHR ''&'' \<notin> set w" using quote_plus_chars not_quoted by fastforce
  then have "py_split (CHR ''&'') (py_join ''&'' (map ?enc params)) = map ?enc params"
    using Cons by (intro py_split_join) simp_all
  moreover have "List.map_filter parse_pair (map ?enc qs) = qs" if "\<forall>(k, v) \<in> set qs. v \<noteq> []" for qs
    using that by (induction qs) (auto simp: List.map_filter_simps parse_pair_quoted [simplified])
  ultimately show ?thesis using assms by (simp add: parse_qsl_def urlencode_pairs_def)
qed

lemma parse_qsl_values: "\<forall>(k, v) \<in> set (parse_qsl qs). v \<noteq> []"
  by (auto simp: parse_qsl_def List.map_filter_def parse_pair_def split: list.splits if_splits)

lemma parse_lower_params: "parse_qsl (lower_params qs) = map (\<lambda>(k, v). (to_lower k, v)) (parse_qsl qs)"
  using parse_qsl_values [of qs] unfolding lower_params_def by (intro parse_urlencode_pairs) auto

lemma get_body_chunks:
  assumes "bodies \<noteq> []"
  shows "get_body (map (\<lambda>b. \<lparr>mg_type = ''http.request'', mg_body = Some b, mg_more_body = Some True\<rparr>) (butlast bodies)
      @ form_message (last bodies) # ms) = Some (concat bodies, ms)"
  using assms
proof (induction bodies)
  case (Cons b bodies)
  then show ?case by (cases bodies) (auto simp: form_message_def Let_def)
qed simp

lemma form_messages_processed:
  "wraps_receive scope \<Longrightarrow> form_messages n scope (True, ms) = Some (replicate n (form_message []))"
  by (induction n) (auto simp: form_receive_def wrapped_receive_def)

text \<open> C30. However the body of a form is cut into chunks, the application gets it in one message, whose
  parameters are those of the form, in the same order and with their names in lower case, and blank
  ones left out; every further message is an empty body, whatever the client still sends, its
  disconnection included.  The parameters of a query string are treated the same way. \<close>
theorem ivoa_parameters_lowercased:
  assumes "wraps_receive scope" "bodies \<noteq> []"
    and "as_type request = ''http''" "as_query_string request = Some qs"
  shows "(\<exists>body. form_messages (Suc n) scope (False,
      map (\<lambda>b. \<lparr>mg_type = ''http.request'', mg_body = Some b, mg_more_body = Some True\<rparr>) (butlast bodies)
      @ form_message (last bodies) # ms) = Some (form_message body # replicate n (form_message [])) \<and>
      parse_qsl body = map (\<lambda>(k, v). (to_lower k, v)) (parse_qsl (concat bodies))) \<and>
    (\<exists>qs'. case_insensitive_query request = request\<lparr>as_query_string := Some qs'\<rparr> \<and>
      parse_qsl qs' = map (\<lambda>(k, v). (to_lower k, v)) (parse_qsl qs))"
proof
  have "form_receive scope (False, map (\<lambda>b. \<lparr>mg_type = ''http.request'', mg_body = Some b, mg_more_body = Some True\<rparr>) (butlast bodies)
      @ form_message (last bodies) # ms) = Some (form_message (lower_params (concat bodies)), True, ms)"
    using assms(1) by (simp add: form_receive_def wrapped_receive_def get_body_chunks [OF assms(2)])
  then show "\<exists>body. form_messages (Suc n) scope (False,
      map (\<lambda>b. \<lparr>mg_type = ''http.request'', mg_body = Some b, mg_more_body = Some True\<rparr>) (butlast bodies)
      @ form_message (last bodies) # ms) = Some (form_message body # replicate n (form_message [])) \<and>
      parse_qsl body = map (\<lambda>(k, v). (to_lower k, v)) (parse_qsl (concat bodies))"
    using form_messages_processed [OF assms(1)] parse_lower_params by auto
  show "\<exists>qs'. case_insensitive_query request = request\<lparr>as_query_string := Some qs'\<rparr> \<and>
      parse_qsl qs' = map (\<lambda>(k, v). (to_lower k, v)) (parse_qsl qs)"
  proof (cases "qs = []")
    case True
    have "request = request\<lparr>as_query_string := Some []\<rparr>" using assms(4) True by simp
    moreover have "parse_qsl [] = []" by (simp add: parse_qsl_def List.map_filter_simps parse_pair_def py_split1_def)
    ultimately show ?thesis using assms(4) True by (intro exI [of _ "[]"]) (simp add: case_insensitive_query_def)
  next
    case False
    then show ?thesis using assms(3,4) parse_lower_params by (auto simp: case_insensitive_query_def)
  qed
qed

definition demo_scope :: asgi_scope where
  "demo_scope = \<lparr>as_type = ''http'', as_method = ''POST'', as_client = None, as_scheme = ''http'', as_query_string = Some ''ID=x'',
     as_headers = [(''content-type'', ''application/x-www-form-urlencoded'')], as_forwarded_host = None\<rparr>"

lemma ivoa_parameters_lowercased_witness:
  "wraps_receive demo_scope \<and> (\<exists>body. form_messages 2 demo_scope (False,
      [\<lparr>mg_type = ''http.request'', mg_body = Some ''RUN'', mg_more_body = Some True\<rparr>, form_message ''ID=a+b''])
      = Some [form_message body, form_message []] \<and> parse_qsl body = [(''runid'', ''a b'')])"
proof -
  have w: "wraps_receive demo_scope" by code_simp
  have "map (\<lambda>(k, v). (to_lower k, v)) (parse_qsl (concat [''RUN'', ''ID=a+b''])) = [(''runid'', ''a b'')]" by code_simp
  then show ?thesis
    using ivoa_parameters_lowercased [OF w, of "[''RUN'', ''ID=a+b'']" demo_scope "''ID=x''" 1 "[]"] w
    by (auto simp: demo_scope_def numeral_2_eq_2)
qed

subsection \<open>Clients behind proxies\<close>

text \<open>\<open>headers.getlist\<close>, of a name in lower case.\<close>

definition getlist :: "asgi_scope \<Rightarrow> string \<Rightarrow> string list" where
  "getlist scope name = map snd (filter (\<lambda>h. fst h = name) (as_headers scope))"

text \<open>\<open>ip_address\<close> stands for the parser of addresses.\<close>

definition get_forwarded_for :: "(string \<Rightarrow> 'ip option) \<Rightarrow> asgi_scope \<Rightarrow> 'ip list" where
  "get_forwarded_for ip_address scope =
     concat (map (\<lambda>header. List.map_filter (\<lambda>entry.
         let entry_stripped = py_strip entry in if entry_stripped = [] then None else ip_address entry_stripped)
       (py_split (CHR '','') header)) (getlist scope ''x-forwarded-for''))"

definition get_forwarded_host :: "asgi_scope \<Rightarrow> string option" where
  "get_forwarded_host scope = (case getlist scope ''x-forwarded-host'' of [h] \<Rightarrow> Some (py_strip h) | _ \<Rightarrow> None)"

definition get_forwarded_proto :: "asgi_scope \<Rightarrow> string list" where
  "get_forwarded_proto scope = (case getlist scope ''x-forwarded-proto'' of
     [h] \<Rightarrow> map py_strip (py_split (CHR '','') h) | _ \<Rightarrow> [])"

text \<open>The first address, with its index, that is in none of the networks.\<close>

fun find_client :: "('ip \<Rightarrow> bool) list \<Rightarrow> nat \<Rightarrow> 'ip list \<Rightarrow> ('ip \<times> nat) option" where
  "find_client proxies n [] = None"
| "find_client proxies n (ip # ips) =
     (if list_ex (\<lambda>network. network ip) proxies then find_client proxies (Suc n) ips else Some (ip, n))"

definition x_forwarded ::
  "(string \<Rightarrow> 'ip option) \<Rightarrow> ('ip \<Rightarrow> string) \<Rightarrow> ('ip \<Rightarrow> bool) list \<Rightarrow> asgi_scope \<Rightarrow> asgi_scope" where
  "x_forwarded ip_address ip_str proxies scope =
     (if as_type scope \<noteq> ''http'' then scope
      else let forwarded_for = rev (get_forwarded_for ip_address scope) in
        if forwarded_for = [] then scope\<lparr>as_forwarded_host := Some None\<rparr>
        else let (client, index) = (case find_client proxies 0 forwarded_for of
                 Some (ip, n) \<Rightarrow> (ip_str ip, Some n)
               | None \<Rightarrow> (ip_str (last forwarded_for), None));
               scope = scope\<lparr>as_client := Some (client, case as_client scope of None \<Rightarrow> None | Some c \<Rightarrow> snd c)\<rparr>;
               proto = rev (get_forwarded_proto scope);
               scope = (if proto = [] then scope
                 else scope\<lparr>as_scheme := (case index of
                   Some n \<Rightarrow> if length proto \<le> n then last proto else proto ! n
                 | None \<Rightarrow> last proto)\<rparr>)
             in scope\<lparr>as_forwarded_host := Some (get_forwarded_host scope)\<rparr>)"

text \<open>The position from the left of the last address that is not one of a proxy, if there is one.\<close>

definition rightmost_untrusted :: "('ip \<Rightarrow> bool) list \<Rightarrow> 'ip list \<Rightarrow> nat \<Rightarrow> bool" where
  "rightmost_untrusted proxies ips i \<longleftrightarrow>
     i < length ips \<and> \<not> (\<exists>network \<in> set proxies. network (ips ! i)) \<and>
     (\<forall>j. i < j \<and> j < length ips \<longrightarrow> (\<exists>network \<in> set proxies. network (ips ! j)))"

definition trusted :: "('ip \<Rightarrow> bool) list \<Rightarrow> 'ip \<Rightarrow> bool" where
  "trusted proxies ip \<longleftrightarrow> (\<exists>network \<in> set proxies. network ip)"

lemma list_ex_trusted [simp]: "list_ex (\<lambda>network. network ip) proxies = trusted proxies ip"
  by (simp add: trusted_def list_ex_iff)

lemma rightmost_trusted:
  "rightmost_untrusted proxies ips i \<longleftrightarrow>
     i < length ips \<and> \<not> trusted proxies (ips ! i) \<and> (\<forall>j. i < j \<and> j < length ips \<longrightarrow> trusted proxies (ips ! j))"
  by (simp add: rightmost_untrusted_def trusted_def)

lemma find_client_eq:
  "find_client proxies n ips = (case dropWhile (trusted proxies) ips of
     [] \<Rightarrow> None | ip # _ \<Rightarrow> Some (ip, n + length (takeWhile (trusted proxies) ips)))"
proof (induction ips arbitrary: n)
  case (Cons a ips)
  show ?case
  proof (cases "trusted proxies a")
    case True
    have "find_client proxies n (a # ips) = find_client proxies (Suc n) ips" using True by simp
    then show ?thesis using True unfolding Cons.IH [of "Suc n"] by (cases "dropWhile (trusted proxies) ips") (simp_all del: dropWhile_eq_Nil_conv)
  qed simp
qed simp

lemma find_client_rightmost:
  assumes "rightmost_untrusted proxies ips i"
  shows "find_client proxies 0 (rev ips) = Some (ips ! i, length ips - 1 - i)"
proof -
  have i: "i < length ips" "\<not> trusted proxies (ips ! i)"
    and r: "\<And>j. i < j \<Longrightarrow> j < length ips \<Longrightarrow> trusted proxies (ips ! j)"
    using assms by (simp_all add: rightmost_trusted)
  let ?n = "length ips - 1 - i"
  have t: "takeWhile (trusted proxies) (rev ips) = take ?n (rev ips)"
    using i r by (intro takeWhile_eq_take_P_nth) (simp_all add: rev_nth)
  have n: "?n < length (rev ips)" "rev ips ! ?n = ips ! i" using i(1) by (simp_all add: rev_nth)
  have "dropWhile (trusted proxies) (rev ips) = drop ?n (rev ips)"
    using t n(1) by (metis dropWhile_eq_drop length_take min.absorb4)
  then have "dropWhile (trusted proxies) (rev ips) = ips ! i # drop (Suc ?n) (rev ips)"
    using n by (metis Cons_nth_drop_Suc)
  then show ?thesis using t n(1) by (simp add: find_client_eq)
qed

lemma find_client_none:
  assumes "\<nexists>i. rightmost_untrusted proxies ips i"
  shows "find_client proxies 0 (rev ips) = None"
proof -
  have "\<forall>ip \<in> set ips. trusted proxies ip"
  proof (rule ccontr)
    assume "\<not> (\<forall>ip \<in> set ips. trusted proxies ip)"
    then obtain ps x ss where "ips = ps @ x # ss" "\<not> trusted proxies x" "\<forall>y \<in> set ss. trusted proxies y"
      using split_list_last_prop [of ips "\<lambda>ip. \<not> trusted proxies ip"] by auto
    then have "rightmost_untrusted proxies ips (length ps)"
      by (auto simp: rightmost_trusted nth_append nth_Cons')
    then show False using assms by blast
  qed
  then have "dropWhile (trusted proxies) (rev ips) = []" by (simp add: dropWhile_eq_Nil_conv)
  then show ?thesis by (simp only: find_client_eq list.case)
qed

lemma forwarded_update [simp]:
  "get_forwarded_proto (scope\<lparr>as_client := c\<rparr>) = get_forwarded_proto scope"
  "get_forwarded_host (scope\<lparr>as_client := c\<rparr>) = get_forwarded_host scope"
  "get_forwarded_host (scope\<lparr>as_client := c, as_scheme := d\<rparr>) = get_forwarded_host scope"
  by (simp_all add: get_forwarded_proto_def get_forwarded_host_def getlist_def)

text \<open> C29. Behind proxies the client is the right-most forwarded address that is not one of a trusted proxy,
  or the left-most one when all are; its port is the one of the connection.  The scheme is the
  one of the same position counted from the right, or the left-most one when there are fewer
  schemes than that; so with one scheme for each address it is that of the client.  The host
  is the one forwarded host there is. \<close>
theorem forwarded_client_found:
  assumes "as_type scope = ''http''" "get_forwarded_for ip_address scope = ips" "ips \<noteq> []"
    and "if (\<exists>i. rightmost_untrusted proxies ips i) then rightmost_untrusted proxies ips i else i = 0"
    and "get_forwarded_proto scope = schemes"
  shows "x_forwarded ip_address ip_str proxies scope = scope\<lparr>
    as_client := Some (ip_str (ips ! i), case as_client scope of None \<Rightarrow> None | Some c \<Rightarrow> snd c),
    as_scheme := (if schemes = [] then as_scheme scope
      else if length ips \<le> length schemes + i \<and> (\<exists>i. rightmost_untrusted proxies ips i)
      then schemes ! (length schemes + i - length ips) else hd schemes),
    as_forwarded_host := Some (get_forwarded_host scope)\<rparr>"
proof -
  let ?proto = "rev schemes" and ?n = "length ips - 1 - i"
  have last: "last (rev ips) = ips ! 0" "schemes \<noteq> [] \<Longrightarrow> last ?proto = hd schemes"
    using assms(3) by (simp_all add: last_rev hd_conv_nth)
  show ?thesis
  proof (cases "\<exists>i. rightmost_untrusted proxies ips i")
    case True
    then have i: "rightmost_untrusted proxies ips i" using assms(4) by simp
    then have "i < length ips" by (simp add: rightmost_untrusted_def)
    then have "length ?proto \<le> ?n \<longleftrightarrow> \<not> length ips \<le> length schemes + i"
      and "length ips \<le> length schemes + i \<Longrightarrow> ?proto ! ?n = schemes ! (length schemes + i - length ips)"
      by (auto simp: rev_nth intro: arg_cong [of _ _ "nth schemes"])
    then show ?thesis using True assms(1-3,5) last(2) find_client_rightmost [OF i]
      by (simp add: x_forwarded_def Let_def)
  next
    case False
    have "i = 0" using False assms(4) by presburger
    then show ?thesis using False assms(1-3,5) last find_client_none [OF False]
      by (auto simp: x_forwarded_def Let_def)
  qed
qed

definition demo_proxied :: asgi_scope where
  "demo_proxied = demo_scope\<lparr>as_client := Some (''10.0.0.1'', Some 80),
     as_headers := [(''x-forwarded-for'', ''1.1.1.1, 2.2.2.2, 10.0.0.2''), (''x-forwarded-proto'', ''https,http,http'')]\<rparr>"

lemma forwarded_client_found_witness:
  "as_client (x_forwarded Some (\<lambda>ip. ip) [\<lambda>ip. py_startswith ip ''10.''] demo_proxied) = Some (''2.2.2.2'', Some 80)"
proof -
  let ?ips = "[''1.1.1.1'', ''2.2.2.2'', ''10.0.0.2'']"
  have g: "get_forwarded_for Some demo_proxied = ?ips" "get_forwarded_proto demo_proxied = [''https'', ''http'', ''http'']"
    by code_simp+
  have t: "trusted [\<lambda>ip. py_startswith ip ''10.''] ''10.0.0.2''" "\<not> trusted [\<lambda>ip. py_startswith ip ''10.''] ''2.2.2.2''"
    by (simp_all add: trusted_def py_startswith_def)
  have r: "rightmost_untrusted [\<lambda>ip. py_startswith ip ''10.''] ?ips 1"
    using t by (auto simp: rightmost_trusted less_Suc_eq numeral_3_eq_3)
  have type: "as_type demo_proxied = ''http''" by (simp add: demo_proxied_def demo_scope_def)
  have pos: "if (\<exists>i. rightmost_untrusted [\<lambda>ip. py_startswith ip ''10.''] ?ips i)
    then rightmost_untrusted [\<lambda>ip. py_startswith ip ''10.''] ?ips 1 else 1 = (0 :: nat)" using r by metis
  have "as_client (x_forwarded Some (\<lambda>ip. ip) [\<lambda>ip. py_startswith ip ''10.''] demo_proxied)
      = Some (?ips ! 1, case as_client demo_proxied of None \<Rightarrow> None | Some c \<Rightarrow> snd c)"
    by (subst forwarded_client_found [OF type g(1) _ pos g(2)]) simp_all
  then show ?thesis by (simp add: demo_proxied_def)
qed

end
