(* ===== verification/RedisStore.thy ===== *)
theory RedisStore
  imports Prelude PyText Blockkit
begin

text \<open>
  Pydantic models in Redis, \<open>safir.redis._storage\<close>.  The Redis client, the JSON of a model and the
  encryption are parameters; what Redis documents of its commands is \<open>redis_ok\<close>.  A key is given
  its prefix by every operation, so a store is a map of its own inside the database.
\<close>

subsection \<open>The store\<close>

text \<open>The errors: that of a stored object that cannot be read, with its key and the original error, and those of the client.\<close>

datatype redis_error = DeserializeError string string string | RedisClientError string

record 'w redis =
  rs_get :: "string \<Rightarrow> ('w, redis_error, string option) eff"
  rs_set :: "string \<Rightarrow> string \<Rightarrow> int option \<Rightarrow> ('w, redis_error, unit) eff"
  rs_delete :: "string \<Rightarrow> ('w, redis_error, int) eff"
  rs_scan_iter :: "string \<Rightarrow> ('w, redis_error, string list) eff"

text \<open>
  A kind of store: the prefix, and how objects become bytes and are read from them; an exception of the
  latter is its text.  The options are those of \<open>model_dump_json\<close>.
\<close>

record dump_options =
  exclude_unset :: bool
  exclude_defaults :: bool
  exclude_none :: bool

record 'o redis_storage =
  st_key_prefix :: string
  st_serialize :: "dump_options \<Rightarrow> 'o \<Rightarrow> string"
  st_deserialize :: "string \<Rightarrow> string + 'o"

text \<open>The plain store and the encrypted one, over the JSON of a model and a Fernet key.\<close>

definition plain_storage ::
  "(dump_options \<Rightarrow> 'o \<Rightarrow> string) \<Rightarrow> (string \<Rightarrow> string + 'o) \<Rightarrow> string \<Rightarrow> 'o redis_storage" where
  "plain_storage model_dump_json model_validate_json key_prefix =
     \<lparr>st_key_prefix = key_prefix, st_serialize = model_dump_json, st_deserialize = model_validate_json\<rparr>"

definition encrypted_storage ::
  "(dump_options \<Rightarrow> 'o \<Rightarrow> string) \<Rightarrow> (string \<Rightarrow> string + 'o) \<Rightarrow> (string \<Rightarrow> string) \<Rightarrow> (string \<Rightarrow> string + string) \<Rightarrow> string
     \<Rightarrow> 'o redis_storage" where
  "encrypted_storage model_dump_json model_validate_json encrypt decrypt key_prefix =
     (let plain = plain_storage model_dump_json model_validate_json key_prefix in
      plain\<lparr>st_serialize := (\<lambda>opts obj. encrypt (st_serialize plain opts obj)),
        st_deserialize := (\<lambda>data. case decrypt data of Inl e \<Rightarrow> Inl e | Inr data \<Rightarrow> model_validate_json data)\<rparr>)"

definition prefix_key :: "'o redis_storage \<Rightarrow> string \<Rightarrow> string" where
  "prefix_key st key = st_key_prefix st @ key"

definition redis_delete :: "'o redis_storage \<Rightarrow> 'w redis \<Rightarrow> string \<Rightarrow> ('w, redis_error, bool) eff" where
  "redis_delete st r key = bind_eff (rs_delete r (prefix_key st key)) (\<lambda>number. ret_eff (0 < number))"

fun delete_each :: "'w redis \<Rightarrow> string list \<Rightarrow> ('w, redis_error, unit) eff" where
  "delete_each r [] = ret_eff ()"
| "delete_each r (key # keys) = bind_eff (rs_delete r key) (\<lambda>_. delete_each r keys)"

definition redis_delete_all :: "'o redis_storage \<Rightarrow> 'w redis \<Rightarrow> string \<Rightarrow> ('w, redis_error, unit) eff" where
  "redis_delete_all st r pattern = bind_eff (rs_scan_iter r (prefix_key st pattern)) (delete_each r)"

definition redis_get :: "'o redis_storage \<Rightarrow> 'w redis \<Rightarrow> string \<Rightarrow> ('w, redis_error, 'o option) eff" where
  "redis_get st r key =
     (let full_key = prefix_key st key in
      bind_eff (rs_get r full_key) (\<lambda>data. case data of
        None \<Rightarrow> ret_eff None
      | Some data \<Rightarrow>
          if data = [] then ret_eff None
          else (case st_deserialize st data of
            Inl error \<Rightarrow> raise_eff (DeserializeError (''Cannot deserialize data for key '' @ full_key) full_key error)
          | Inr obj \<Rightarrow> ret_eff (Some obj))))"

definition redis_scan :: "'o redis_storage \<Rightarrow> 'w redis \<Rightarrow> string \<Rightarrow> ('w, redis_error, string list) eff" where
  "redis_scan st r pattern = bind_eff (rs_scan_iter r (prefix_key st pattern)) (\<lambda>keys.
     ret_eff (map (\<lambda>key. py_removeprefix key (st_key_prefix st)) keys))"

definition redis_store ::
  "'o redis_storage \<Rightarrow> 'w redis \<Rightarrow> string \<Rightarrow> 'o \<Rightarrow> int option \<Rightarrow> dump_options \<Rightarrow> ('w, redis_error, unit) eff" where
  "redis_store st r key obj lifetime opts = rs_set r (prefix_key st key) (st_serialize st opts obj) lifetime"

text \<open>The alert of a \<open>DeserializeError\<close>: its message with the key and the error added.\<close>

definition deserialize_error_to_slack :: "slack_message \<Rightarrow> string \<Rightarrow> string \<Rightarrow> slack_message" where
  "deserialize_error_to_slack message key error =
     message\<lparr>sm_fields := sm_fields message @ [SlackTextField ''Key'' key],
       sm_blocks := sm_blocks message @ [SlackCodeBlock ''Error'' error]\<rparr>"

subsection \<open>What Redis promises\<close>

text \<open>
  \<open>live w\<close> is what the database holds at the moment; \<open>glob pattern key\<close> says that a pattern matches a
  key.  A key with no special character in it matches itself only.
\<close>

definition plain_key :: "string \<Rightarrow> bool" where
  "plain_key s \<longleftrightarrow> set s \<inter> {CHR ''*'', CHR ''?'', CHR ''['', CHR 92} = {}"

definition glob_ok :: "(string \<Rightarrow> string \<Rightarrow> bool) \<Rightarrow> bool" where
  "glob_ok glob \<longleftrightarrow> (\<forall>p q key. plain_key p \<longrightarrow> (glob (p @ q) key \<longleftrightarrow> (\<exists>rest. key = p @ rest \<and> glob q rest)))"

definition redis_ok :: "'w redis \<Rightarrow> ('w \<Rightarrow> string \<rightharpoonup> string) \<Rightarrow> (string \<Rightarrow> string \<Rightarrow> bool) \<Rightarrow> bool" where
  "redis_ok r live glob \<longleftrightarrow>
     (\<forall>key w. \<exists>w'. rs_get r key w = (Inr (live w key), w') \<and> live w' = live w) \<and>
     (\<forall>key data ex w. (case ex of None \<Rightarrow> True | Some n \<Rightarrow> 0 < n) \<longrightarrow>
        (\<exists>w'. rs_set r key data ex w = (Inr (), w') \<and> live w' = (live w)(key \<mapsto> data))) \<and>
     (\<forall>key w. \<exists>w'. rs_delete r key w = (Inr (if live w key = None then 0 else 1), w') \<and> live w' = (live w)(key := None)) \<and>
     (\<forall>pattern w. \<exists>keys w'. rs_scan_iter r pattern w = (Inr keys, w') \<and> live w' = live w \<and>
        set keys = {key \<in> dom (live w). glob pattern key})"

text \<open>The map a store is, and the rest of the database.\<close>

definition store_map :: "'o redis_storage \<Rightarrow> (string \<rightharpoonup> string) \<Rightarrow> string \<rightharpoonup> 'o" where
  "store_map st rows key = (case rows (prefix_key st key) of
     None \<Rightarrow> None
   | Some data \<Rightarrow> (case st_deserialize st data of Inl _ \<Rightarrow> None | Inr obj \<Rightarrow> Some obj))"

definition readable :: "'o redis_storage \<Rightarrow> (string \<rightharpoonup> string) \<Rightarrow> bool" where
  "readable st rows \<longleftrightarrow> (\<forall>key data. rows (prefix_key st key) = Some data \<longrightarrow>
     data \<noteq> [] \<and> (\<exists>obj. st_deserialize st data = Inr obj))"

definition same_elsewhere :: "'o redis_storage \<Rightarrow> (string \<rightharpoonup> string) \<Rightarrow> (string \<rightharpoonup> string) \<Rightarrow> bool" where
  "same_elsewhere st rows rows' \<longleftrightarrow> (\<forall>k. (\<nexists>key. k = prefix_key st key) \<longrightarrow> rows' k = rows k)"

lemma prefix_key_inj [simp]: "prefix_key st a = prefix_key st b \<longleftrightarrow> a = b"
  by (simp add: prefix_key_def)

lemma store_map_None:
  assumes "readable st rows"
  shows "store_map st rows key = None \<longleftrightarrow> rows (prefix_key st key) = None"
proof (cases "rows (prefix_key st key)")
  case (Some data)
  then obtain obj where "st_deserialize st data = Inr obj" using assms unfolding readable_def by blast
  then show ?thesis using Some by (simp add: store_map_def)
qed (simp add: store_map_def)

lemma delete_each_ok:
  assumes "redis_ok r live glob"
  shows "\<exists>w'. delete_each r keys w = (Inr (), w') \<and> live w' = (live w) |` (- set keys)"
proof (induction keys arbitrary: w)
  case (Cons key keys)
  obtain w1 where d: "rs_delete r key w = (Inr (if live w key = None then 0 else 1), w1)" "live w1 = (live w)(key := None)"
    using assms unfolding redis_ok_def by metis
  obtain w' where "delete_each r keys w1 = (Inr (), w')" "live w' = (live w1) |` (- set keys)" using Cons.IH by blast
  moreover have "((live w)(key := None)) |` (- set keys) = (live w) |` (- set (key # keys))"
    by (rule ext) (simp add: restrict_map_def)
  ultimately show ?case using d by (simp add: eff_simps)
qed (simp add: eff_simps restrict_map_def)

lemma store_map_restrict:
  assumes "plain_key (st_key_prefix st)" "glob_ok glob"
    and "set keys = {key \<in> dom rows. glob (prefix_key st pattern) key}"
  shows "store_map st (rows |` (- set keys)) = store_map st rows |` {k. \<not> glob pattern k}"
    "same_elsewhere st rows (rows |` (- set keys))"
proof -
  have g: "glob (prefix_key st pattern) key \<longleftrightarrow> (\<exists>rest. key = prefix_key st rest \<and> glob pattern rest)" for key
    using assms(1,2) by (simp add: glob_ok_def prefix_key_def)
  show "store_map st (rows |` (- set keys)) = store_map st rows |` {k. \<not> glob pattern k}"
    by (rule ext) (auto simp: store_map_def restrict_map_def assms(3) g split: option.split)
  show "same_elsewhere st rows (rows |` (- set keys))"
    unfolding same_elsewhere_def by (auto simp: restrict_map_def assms(3) g)
qed

text \<open> C27. A store whose prefix has no special characters is a map of its own: storing, getting, deleting,
  deleting by a pattern and scanning act on it as on a map from keys to objects, what was stored is
  read back, and no key without the prefix is touched. \<close>
theorem redis_storage_is_map:
  assumes "redis_ok r live glob" "glob_ok glob" "plain_key (st_key_prefix st)" "readable st (live w)"
    and "st_serialize st opts obj \<noteq> []" "st_deserialize st (st_serialize st opts obj) = Inr obj"
    and "case lifetime of None \<Rightarrow> True | Some n \<Rightarrow> 0 < n"
  shows "(\<exists>w'. redis_store st r key obj lifetime opts w = (Inr (), w') \<and>
      store_map st (live w') = (store_map st (live w))(key \<mapsto> obj) \<and> readable st (live w') \<and> same_elsewhere st (live w) (live w')) \<and>
    (\<exists>w'. redis_get st r key w = (Inr (store_map st (live w) key), w') \<and> live w' = live w) \<and>
    (\<exists>w'. redis_delete st r key w = (Inr (store_map st (live w) key \<noteq> None), w') \<and>
      store_map st (live w') = (store_map st (live w))(key := None) \<and> readable st (live w') \<and> same_elsewhere st (live w) (live w')) \<and>
    (\<exists>w'. redis_delete_all st r pattern w = (Inr (), w') \<and>
      store_map st (live w') = (store_map st (live w)) |` {k. \<not> glob pattern k} \<and> readable st (live w') \<and>
      same_elsewhere st (live w) (live w')) \<and>
    (\<exists>keys w'. redis_scan st r pattern w = (Inr keys, w') \<and> live w' = live w \<and>
      set keys = {k \<in> dom (store_map st (live w)). glob pattern k})"
proof (intro conjI)
  have get: "\<exists>w'. rs_get r key w = (Inr (live w key), w') \<and> live w' = live w" for key
    using assms(1) unfolding redis_ok_def by blast
  have del: "\<exists>w'. rs_delete r key w = (Inr (if live w key = None then 0 else 1), w') \<and> live w' = (live w)(key := None)" for key
    using assms(1) unfolding redis_ok_def by blast
  have scan: "\<exists>keys w'. rs_scan_iter r pattern w = (Inr keys, w') \<and> live w' = live w \<and>
        set keys = {key \<in> dom (live w). glob pattern key}" for pattern
    using assms(1) unfolding redis_ok_def by blast
  obtain w1 where set: "rs_set r (prefix_key st key) (st_serialize st opts obj) lifetime w = (Inr (), w1)"
      "live w1 = (live w)(prefix_key st key \<mapsto> st_serialize st opts obj)"
    using assms(1,7) unfolding redis_ok_def by blast
  have "store_map st (live w1) = (store_map st (live w))(key \<mapsto> obj)"
    by (rule ext) (simp add: store_map_def set(2) assms(6))
  moreover have "readable st (live w1)" using assms(4-6) by (simp add: readable_def set(2))
  moreover have "same_elsewhere st (live w) (live w1)" by (auto simp: same_elsewhere_def set(2))
  ultimately show "\<exists>w'. redis_store st r key obj lifetime opts w = (Inr (), w') \<and>
      store_map st (live w') = (store_map st (live w))(key \<mapsto> obj) \<and> readable st (live w') \<and> same_elsewhere st (live w) (live w')"
    using set(1) by (auto simp: redis_store_def)
  obtain w2 where g: "rs_get r (prefix_key st key) w = (Inr (live w (prefix_key st key)), w2)" "live w2 = live w" using get by blast
  have "redis_get st r key w = (Inr (store_map st (live w) key), w2)"
  proof (cases "live w (prefix_key st key)")
    case (Some data)
    then obtain o1 where "data \<noteq> []" "st_deserialize st data = Inr o1" using assms(4) unfolding readable_def by blast
    then show ?thesis using g Some by (simp add: redis_get_def store_map_def eff_simps Let_def)
  qed (use g in \<open>simp add: redis_get_def store_map_def eff_simps Let_def\<close>)
  then show "\<exists>w'. redis_get st r key w = (Inr (store_map st (live w) key), w') \<and> live w' = live w" using g(2) by blast
  obtain w3 where d: "rs_delete r (prefix_key st key) w = (Inr (if live w (prefix_key st key) = None then 0 else 1), w3)"
      "live w3 = (live w)(prefix_key st key := None)" using del by blast
  have "store_map st (live w) key \<noteq> None \<longleftrightarrow> live w (prefix_key st key) \<noteq> None"
    using store_map_None [OF assms(4)] by (auto simp: dom_def)
  moreover have "store_map st (live w3) = (store_map st (live w))(key := None)"
    by (rule ext) (simp add: store_map_def d(2))
  moreover have "readable st (live w3)" using assms(4) by (simp add: readable_def d(2))
  moreover have "same_elsewhere st (live w) (live w3)" by (auto simp: same_elsewhere_def d(2))
  ultimately show "\<exists>w'. redis_delete st r key w = (Inr (store_map st (live w) key \<noteq> None), w') \<and>
      store_map st (live w') = (store_map st (live w))(key := None) \<and> readable st (live w') \<and> same_elsewhere st (live w) (live w')"
    using d(1) by (auto simp: redis_delete_def eff_simps)
  obtain keys w4 where s: "rs_scan_iter r (prefix_key st pattern) w = (Inr keys, w4)" "live w4 = live w"
      "set keys = {key \<in> dom (live w). glob (prefix_key st pattern) key}" using scan by blast
  obtain w5 where e: "delete_each r keys w4 = (Inr (), w5)" "live w5 = (live w4) |` (- set keys)"
    using delete_each_ok [OF assms(1)] by blast
  have "readable st (live w5)" using assms(4) by (auto simp: readable_def e(2) s(2) restrict_map_def)
  then show "\<exists>w'. redis_delete_all st r pattern w = (Inr (), w') \<and>
      store_map st (live w') = (store_map st (live w)) |` {k. \<not> glob pattern k} \<and> readable st (live w') \<and>
      same_elsewhere st (live w) (live w')"
    using store_map_restrict [OF assms(3,2) s(3)] s(1,2) e by (simp add: redis_delete_all_def eff_simps)
  have glob: "glob (prefix_key st pattern) k \<longleftrightarrow> (\<exists>rest. k = prefix_key st rest \<and> glob pattern rest)" for k
    using assms(2,3) by (simp add: glob_ok_def prefix_key_def)
  have dom: "k \<in> dom (store_map st (live w)) \<longleftrightarrow> prefix_key st k \<in> dom (live w)" for k
    using store_map_None [OF assms(4)] by (auto simp: dom_def)
  have rm: "py_removeprefix (prefix_key st k) (st_key_prefix st) = k" for k by (simp add: prefix_key_def)
  have "set (map (\<lambda>key. py_removeprefix key (st_key_prefix st)) keys) = {k \<in> dom (store_map st (live w)). glob pattern k}"
  proof -
    have "{key \<in> dom (live w). glob (prefix_key st pattern) key} =
      prefix_key st ` {k \<in> dom (store_map st (live w)). glob pattern k}" by (auto simp: glob dom)
    then show ?thesis unfolding set_map s(3) by (simp add: image_image rm)
  qed
  then show "\<exists>keys w'. redis_scan st r pattern w = (Inr keys, w') \<and> live w' = live w \<and>
      set keys = {k \<in> dom (store_map st (live w)). glob pattern k}"
    using s(1,2) by (simp add: redis_scan_def eff_simps)
qed

text \<open>An encrypted store reads back what it stored if the plain one does and decryption undoes encryption.\<close>

lemma encrypted_storage_roundtrip:
  assumes "decrypt (encrypt (dump opts obj)) = Inr (dump opts obj)" "load (dump opts obj) = Inr obj"
  shows "st_deserialize (encrypted_storage dump load encrypt decrypt p) (st_serialize (encrypted_storage dump load encrypt decrypt p) opts obj)
    = Inr obj"
  using assms by (simp add: encrypted_storage_def plain_storage_def)

subsection \<open>An example\<close>

text \<open>A database of a finite list of rows, and patterns of stars and question marks.\<close>

fun demo_glob :: "string \<Rightarrow> string \<Rightarrow> bool" where
  "demo_glob [] key = (key = [])"
| "demo_glob (c # p) [] = (c = CHR ''*'' \<and> demo_glob p [])"
| "demo_glob (c # p) (x # key) =
     (if c = CHR ''*'' then demo_glob p (x # key) \<or> demo_glob (c # p) key
      else (c = CHR ''?'' \<or> c = x) \<and> demo_glob p key)"

definition table_redis :: "(string \<times> string) list redis" where
  "table_redis = \<lparr>rs_get = (\<lambda>key. read_eff (\<lambda>rows. map_of rows key)),
     rs_set = (\<lambda>key data ex. modify_eff (\<lambda>rows. (key, data) # rows)),
     rs_delete = (\<lambda>key rows. (Inr (if map_of rows key = None then 0 else 1), filter (\<lambda>kv. fst kv \<noteq> key) rows)),
     rs_scan_iter = (\<lambda>pattern. read_eff (\<lambda>rows. filter (demo_glob pattern) (map fst rows)))\<rparr>"

lemma demo_glob_ok: "glob_ok demo_glob"
proof -
  have "demo_glob (p @ q) key \<longleftrightarrow> (\<exists>rest. key = p @ rest \<and> demo_glob q rest)" if "plain_key p" for p q key
    using that
  proof (induction p arbitrary: key)
    case (Cons c p)
    then show ?case by (cases key) (auto simp: plain_key_def)
  qed simp
  then show ?thesis by (simp add: glob_ok_def)
qed

lemma map_of_filter_key: "map_of (filter (\<lambda>kv. fst kv \<noteq> key) rows) = (map_of rows)(key := None)"
  by (induction rows) (auto simp: fun_eq_iff)

lemma table_redis_ok: "redis_ok table_redis map_of demo_glob"
  by (auto simp: redis_ok_def table_redis_def eff_simps map_of_filter_key dom_map_of_conv_image_fst)

definition demo_storage :: "string redis_storage" where
  "demo_storage = plain_storage (\<lambda>_ obj. CHR ''j'' # obj) (\<lambda>data. Inr (tl data)) ''app:''"

lemma redis_storage_is_map_witness:
  "redis_ok table_redis map_of demo_glob \<and> glob_ok demo_glob \<and> plain_key (st_key_prefix demo_storage) \<and>
   (\<exists>w'. redis_get demo_storage table_redis ''a'' [(''app:a'', ''jx''), (''other'', ''y'')] = (Inr (Some ''x''), w'))"
proof -
  let ?rows = "[(''app:a'', ''jx''), (''other'', ''y'')]" and ?opts = "\<lparr>exclude_unset = False, exclude_defaults = False, exclude_none = False\<rparr>"
  have p: "plain_key (st_key_prefix demo_storage)" by code_simp
  have key: "prefix_key demo_storage k = ''app:'' @ k" for k by (simp add: prefix_key_def demo_storage_def plain_storage_def)
  have rd: "readable demo_storage (map_of ?rows)"
    by (auto simp: readable_def demo_storage_def plain_storage_def prefix_key_def split: if_splits)
  have "\<exists>w'. redis_get demo_storage table_redis ''a'' ?rows = (Inr (store_map demo_storage (map_of ?rows) ''a''), w')"
    using redis_storage_is_map [where r = table_redis and live = map_of and glob = demo_glob and st = demo_storage and w = ?rows
        and opts = ?opts and obj = "''z''" and lifetime = None and key = "''a''" and pattern = "''*''"] table_redis_ok demo_glob_ok p rd
    by (auto simp: demo_storage_def plain_storage_def)
  moreover have "store_map demo_storage (map_of ?rows) ''a'' = Some ''x''"
    by (simp add: store_map_def key) (simp add: demo_storage_def plain_storage_def)
  ultimately show ?thesis using table_redis_ok demo_glob_ok p by simp
qed

end
