(* ===== verification/UrlText.thy ===== *)
theory UrlText
  imports HttpLink
begin

text \<open>
  The URLs of the standard library, \<open>urllib.parse\<close>: \<open>quote\<close>, \<open>urlsplit\<close> and the parts of its result,
  and \<open>geturl\<close>.  Texts are ASCII.  Whether the text in brackets is an IPv6 address is a parameter.
\<close>

subsection \<open>Quoting\<close>

text \<open>\<open>quote(s, safe="")\<close> and \<open>unquote\<close>.\<close>

definition quote :: "string \<Rightarrow> string" where
  "quote s = concat (map (\<lambda>c. if c = CHR '' '' then ''%20'' else quote_char c) s)"

fun unquote :: "string \<Rightarrow> string" where
  "unquote [] = []"
| "unquote (c # s) =
     (if c = CHR ''%'' then
        (case s of
           a # b # r \<Rightarrow> (case (hex_val a, hex_val b) of
             (Some x, Some y) \<Rightarrow> char_of (16 * x + y) # unquote r
           | _ \<Rightarrow> c # unquote s)
         | _ \<Rightarrow> c # unquote s)
      else c # unquote s)"

lemma unquote_quoted_char: "unquote ((if c = CHR '' '' then ''%20'' else quote_char c) @ s) = c # unquote s"
proof (cases "c = CHR '' ''")
  case True
  have "hex_val (CHR ''2'') = Some 2" "hex_val (CHR ''0'') = Some 0" by (simp_all add: hex_val_def)
  moreover have "char_of (32 :: nat) = CHR '' ''" by code_simp
  ultimately show ?thesis using True by simp
next
  case False
  have b: "(of_char c :: nat) < 256" by (rule of_char_bound)
  show ?thesis
  proof (cases "url_safe c")
    case True
    then have "c \<noteq> CHR ''%''" by (auto simp: url_safe_def)
    then show ?thesis using False True by (simp add: quote_char_def)
  next
    case unsafe: False
    have "hex_val (hex_char (of_char c div 16)) = Some (of_char c div 16)" "hex_val (hex_char (of_char c mod 16)) = Some (of_char c mod 16)"
      using b by (intro hex_val_char; linarith)+
    then show ?thesis using False unsafe by (simp add: quote_char_def)
  qed
qed

lemma unquote_quote_id [simp]: "unquote (quote s) = s"
  by (induction s) (simp_all add: quote_def unquote_quoted_char)

lemma quote_chars: "c \<in> set (quote s) \<Longrightarrow> url_safe c \<or> c = CHR ''%''"
proof -
  assume "c \<in> set (quote s)"
  then obtain d where d: "c \<in> set (if d = CHR '' '' then ''%20'' else quote_char d)"
    unfolding quote_def set_concat set_map by blast
  have "url_safe (CHR ''2'')" "url_safe (CHR ''0'')" by code_simp+
  moreover have "url_safe (hex_char (of_char d div 16))" "url_safe (hex_char (of_char d mod 16))"
    using of_char_bound [of d] by (intro hex_char_safe; linarith)+
  ultimately show ?thesis using d by (auto simp: quote_char_def split: if_splits)
qed

lemma quote_clean: "c \<in> set (quote s) \<Longrightarrow> 32 < (of_char c :: nat) \<and> c \<notin> {CHR '':'', CHR ''@'', CHR ''/'', CHR ''?'', CHR ''#'', CHR 91, CHR 93}"
  using quote_chars [of c s] by (auto simp: url_safe_def Let_def)

subsection \<open>Splitting\<close>

record split_url =
  su_scheme :: string
  su_netloc :: string
  su_path :: string
  su_query :: string
  su_fragment :: string

definition ascii_alpha :: "char \<Rightarrow> bool" where
  "ascii_alpha c = (let n = of_char c :: nat in 65 \<le> n \<and> n \<le> 90 \<or> 97 \<le> n \<and> n \<le> 122)"

definition scheme_char :: "char \<Rightarrow> bool" where
  "scheme_char c \<longleftrightarrow> ascii_alpha c \<or> is_digit c \<or> c \<in> {CHR ''+'', CHR ''-'', CHR ''.''}"

definition split_scheme :: "string \<Rightarrow> string \<times> string" where
  "split_scheme url = (case py_partition (CHR '':'') url of (scheme, found, rest) \<Rightarrow>
     if found \<and> scheme \<noteq> [] \<and> ascii_alpha (hd scheme) \<and> list_all scheme_char scheme then (to_lower scheme, rest)
     else ([], url))"

definition netloc_end :: "char \<Rightarrow> bool" where
  "netloc_end c \<longleftrightarrow> c \<in> {CHR ''/'', CHR ''?'', CHR ''#''}"

definition split_netloc :: "string \<Rightarrow> string \<times> string" where
  "split_netloc url =
     (if py_startswith url ''//''
      then (takeWhile (\<lambda>c. \<not> netloc_end c) (drop 2 url), dropWhile (\<lambda>c. \<not> netloc_end c) (drop 2 url))
      else ([], url))"

text \<open>\<open>bracket_ok\<close> checks what is in brackets; \<open>None\<close> is a \<open>ValueError\<close>.  Leading white space and control characters, and tabs and newlines, are ignored.\<close>

definition urlsplit :: "(string \<Rightarrow> bool) \<Rightarrow> string \<Rightarrow> split_url option" where
  "urlsplit bracket_ok url =
     (let url = filter (\<lambda>c. (of_char c :: nat) \<notin> {9, 10, 13}) (dropWhile (\<lambda>c. (of_char c :: nat) \<le> 32) url);
          (scheme, url) = split_scheme url;
          (netloc, url) = split_netloc url;
          opening = CHR 91 \<in> set netloc; closing = CHR 93 \<in> set netloc
      in if opening \<noteq> closing \<or> opening \<and> \<not> bracket_ok netloc then None
         else let (url, _, fragment) = py_partition (CHR ''#'') url;
                  (url, _, query) = py_partition (CHR ''?'') url
              in Some \<lparr>su_scheme = scheme, su_netloc = netloc, su_path = url, su_query = query, su_fragment = fragment\<rparr>)"

definition split_username :: "split_url \<Rightarrow> string option" where
  "split_username s = (case py_rpartition (CHR ''@'') (su_netloc s) of (info, found, _) \<Rightarrow>
     if found then Some (fst (py_partition (CHR '':'') info)) else None)"

definition split_password :: "split_url \<Rightarrow> string option" where
  "split_password s = (case py_rpartition (CHR ''@'') (su_netloc s) of (info, found, _) \<Rightarrow>
     if found then (case py_partition (CHR '':'') info of (_, found, password) \<Rightarrow> if found then Some password else None)
     else None)"

text \<open>The host and the port as text.\<close>

definition hostinfo :: "split_url \<Rightarrow> string \<times> string" where
  "hostinfo s =
     (let (_, _, host) = py_rpartition (CHR ''@'') (su_netloc s);
          (_, opening, bracketed) = py_partition (CHR 91) host
      in if opening then (let (host, _, rest) = py_partition (CHR 93) bracketed; (_, _, port) = py_partition (CHR '':'') rest in (host, port))
         else (let (host, _, port) = py_partition (CHR '':'') host in (host, port)))"

definition split_hostname :: "split_url \<Rightarrow> string option" where
  "split_hostname s = (let (host, _) = hostinfo s in
     if host = [] then None
     else let (name, percent, zone) = py_partition (CHR ''%'') host in
       Some (to_lower name @ (if percent then CHR ''%'' # zone else [])))"

text \<open>The port: \<open>None\<close> is a \<open>ValueError\<close>, \<open>Some None\<close> no port.\<close>

definition split_port :: "split_url \<Rightarrow> int option option" where
  "split_port s = (let (_, port) = hostinfo s in
     if port = [] then Some None
     else if \<not> list_all is_digit port then None
     else if digits_val port \<le> 65535 then Some (Some (int (digits_val port))) else None)"

definition uses_netloc :: "string list" where
  "uses_netloc = [[], ''ftp'', ''http'', ''gopher'', ''nntp'', ''telnet'', ''imap'', ''wais'', ''file'', ''mms'', ''https'', ''shttp'',
     ''snews'', ''prospero'', ''rtsp'', ''rtsps'', ''rtspu'', ''rsync'', ''svn'', ''svn+ssh'', ''sftp'', ''nfs'', ''git'', ''git+ssh'',
     ''ws'', ''wss'', ''itms-services'']"

definition geturl :: "split_url \<Rightarrow> string" where
  "geturl s =
     (let url = su_path s;
          url = (if su_netloc s \<noteq> [] then ''//'' @ su_netloc s @ (if url \<noteq> [] \<and> hd url \<noteq> CHR ''/'' then CHR ''/'' # url else url)
                 else if py_startswith url ''//'' then ''//'' @ url
                 else if su_scheme s \<noteq> [] \<and> su_scheme s \<in> set uses_netloc \<and> (url = [] \<or> hd url = CHR ''/'') then ''//'' @ url
                 else url);
          url = (if su_scheme s \<noteq> [] then su_scheme s @ CHR '':'' # url else url);
          url = (if su_query s \<noteq> [] then url @ CHR ''?'' # su_query s else url)
      in if su_fragment s \<noteq> [] then url @ CHR ''#'' # su_fragment s else url)"

subsection \<open>Round trips\<close>

text \<open>The parts of a URL that survive being put together and split again.\<close>

definition split_ok :: "(string \<Rightarrow> bool) \<Rightarrow> split_url \<Rightarrow> bool" where
  "split_ok bracket_ok s \<longleftrightarrow>
     su_scheme s \<noteq> [] \<and> ascii_alpha (hd (su_scheme s)) \<and> list_all scheme_char (su_scheme s) \<and> to_lower (su_scheme s) = su_scheme s \<and>
     su_netloc s \<noteq> [] \<and> list_all (\<lambda>c. \<not> netloc_end c) (su_netloc s) \<and>
     (CHR 91 \<in> set (su_netloc s) \<longleftrightarrow> CHR 93 \<in> set (su_netloc s)) \<and> (CHR 91 \<in> set (su_netloc s) \<longrightarrow> bracket_ok (su_netloc s)) \<and>
     (su_path s = [] \<or> hd (su_path s) = CHR ''/'') \<and> CHR ''?'' \<notin> set (su_path s) \<and> CHR ''#'' \<notin> set (su_path s) \<and>
     CHR ''#'' \<notin> set (su_query s) \<and>
     list_all (\<lambda>c. 32 < (of_char c :: nat)) (su_scheme s @ su_netloc s @ su_path s @ su_query s @ su_fragment s)"

lemma scheme_char_colon: "list_all scheme_char s \<Longrightarrow> CHR '':'' \<notin> set s"
  by (auto simp: list_all_iff scheme_char_def ascii_alpha_def is_digit_def)

lemma split_netloc_append:
  assumes "list_all (\<lambda>c. \<not> netloc_end c) n" "r = [] \<or> netloc_end (hd r)"
  shows "split_netloc (CHR ''/'' # CHR ''/'' # n @ r) = (n, r)"
proof -
  have "\<forall>c \<in> set n. \<not> netloc_end c" using assms(1) by (simp add: list_all_iff)
  then show ?thesis using assms(2)
    by (cases r) (auto simp: split_netloc_def py_startswith_def takeWhile_append2 dropWhile_append2)
qed

lemma clean_text:
  assumes "list_all (\<lambda>c. 32 < (of_char c :: nat)) u"
  shows "filter (\<lambda>c. (of_char c :: nat) \<notin> {9, 10, 13}) (dropWhile (\<lambda>c. (of_char c :: nat) \<le> 32) u) = u"
proof -
  have "dropWhile (\<lambda>c. (of_char c :: nat) \<le> 32) u = u" using assms by (cases u) auto
  then show ?thesis using assms by (auto simp: list_all_iff filter_id_conv)
qed

lemma geturl_ok:
  assumes "split_ok b s"
  shows "geturl s = su_scheme s @ CHR '':'' # CHR ''/'' # CHR ''/'' # su_netloc s @ su_path s
    @ (if su_query s = [] then [] else CHR ''?'' # su_query s) @ (if su_fragment s = [] then [] else CHR ''#'' # su_fragment s)"
  using assms by (auto simp: geturl_def split_ok_def)

lemma urlsplit_geturl:
  assumes "split_ok b s"
  shows "urlsplit b (geturl s) = Some s"
proof -
  let ?q = "if su_query s = [] then [] else CHR ''?'' # su_query s"
  let ?f = "if su_fragment s = [] then [] else CHR ''#'' # su_fragment s"
  let ?r = "su_path s @ ?q @ ?f"
  have u: "geturl s = su_scheme s @ CHR '':'' # CHR ''/'' # CHR ''/'' # su_netloc s @ ?r" by (rule geturl_ok [OF assms])
  have clean: "list_all (\<lambda>c. 32 < (of_char c :: nat)) (geturl s)"
    using assms unfolding u by (simp add: split_ok_def)
  have scheme: "split_scheme (geturl s) = (su_scheme s, CHR ''/'' # CHR ''/'' # su_netloc s @ ?r)"
    using assms scheme_char_colon [of "su_scheme s"] unfolding u by (simp add: split_scheme_def split_ok_def)
  have netloc: "split_netloc (CHR ''/'' # CHR ''/'' # su_netloc s @ ?r) = (su_netloc s, ?r)"
  proof (rule split_netloc_append)
    show "?r = [] \<or> netloc_end (hd ?r)" using assms by (cases "su_path s") (auto simp: split_ok_def netloc_end_def)
  qed (use assms in \<open>simp add: split_ok_def\<close>)
  have "CHR ''#'' \<notin> set (su_path s @ ?q)" using assms by (auto simp: split_ok_def)
  then have "py_partition (CHR ''#'') ((su_path s @ ?q) @ ?f) = (su_path s @ ?q, su_fragment s \<noteq> [], su_fragment s)"
    by (cases "su_fragment s = []") (simp_all del: append_assoc)
  then have frag: "py_partition (CHR ''#'') ?r = (su_path s @ ?q, su_fragment s \<noteq> [], su_fragment s)" by simp
  have "CHR ''?'' \<notin> set (su_path s)" using assms by (simp add: split_ok_def)
  then have query: "py_partition (CHR ''?'') (su_path s @ ?q) = (su_path s, su_query s \<noteq> [], su_query s)"
    by (cases "su_query s = []") simp_all
  have br: "\<not> ((CHR 91 \<in> set (su_netloc s)) \<noteq> (CHR 93 \<in> set (su_netloc s)) \<or> CHR 91 \<in> set (su_netloc s) \<and> \<not> b (su_netloc s))"
    using assms by (auto simp: split_ok_def)
  show ?thesis
    unfolding urlsplit_def clean_text [OF clean] scheme Let_def prod.case netloc frag query if_not_P [OF br] by simp
qed

end
