(* ===== verification/DatabaseUrls.thy ===== *)
theory DatabaseUrls
  imports UrlText
begin

text \<open>
  The settings of a database and its URL: \<open>safir.database._config\<close> and \<open>build_database_url\<close> of
  \<open>safir.database._connection\<close>.  A URL in the settings is the text that pydantic makes of it.
\<close>

subsection \<open>URLs with a password\<close>

text \<open>The causes of a \<open>ValueError\<close>: a URL that cannot be split, a port that is not a number, and no user name.\<close>

datatype url_error = UrlSyntax | UrlPort | NoUsername string

definition async_scheme :: "string \<Rightarrow> string" where
  "async_scheme scheme =
     (if scheme = ''postgresql'' then ''postgresql+asyncpg''
      else if scheme = ''mysql'' then ''mysql+asyncmy'' else scheme)"

definition with_password :: "split_url \<Rightarrow> string option \<Rightarrow> string \<Rightarrow> url_error + split_url" where
  "with_password s username password =
     (let netloc = none_str username @ '':'' @ quote password @ ''@'' @ none_str (split_hostname s) in
      case split_port s of
        None \<Rightarrow> Inl UrlPort
      | Some port \<Rightarrow>
          let netloc = (case port of None \<Rightarrow> netloc | Some p \<Rightarrow> if p = 0 then netloc else netloc @ '':'' @ int_str p)
          in Inr (s\<lparr>su_netloc := netloc\<rparr>))"

definition build_database_url :: "(string \<Rightarrow> bool) \<Rightarrow> string \<Rightarrow> string option \<Rightarrow> url_error + string" where
  "build_database_url bracket_ok url password = (case urlsplit bracket_ok url of
     None \<Rightarrow> Inl UrlSyntax
   | Some s \<Rightarrow>
       let s = s\<lparr>su_scheme := async_scheme (su_scheme s)\<rparr> in
       if password = None \<or> password = Some [] then Inr (geturl s)
       else if split_username s = None \<or> split_username s = Some [] then Inl (NoUsername url)
       else (case with_password s (split_username s) (the password) of Inl e \<Rightarrow> Inl e | Inr s \<Rightarrow> Inr (geturl s)))"

subsection \<open>The settings\<close>

text \<open>The values of keyword arguments; a mapping of further ones is one of them.\<close>

datatype kwarg = KwStr string | KwInt int | KwBool bool | KwDict "(string \<times> kwarg) list"

text \<open>The keyword arguments of \<open>create_database_engine\<close>; a timeout is passed on as it is.\<close>

record engine_options =
  eo_connect_args :: "(string \<times> kwarg) list option"
  eo_isolation_level :: "string option"
  eo_max_overflow :: "int option"
  eo_pool_pre_ping :: "bool option"
  eo_pool_recycle :: "int option"
  eo_pool_size :: "int option"
  eo_pool_timeout :: "kwarg option"

record base_database_config =
  dc_isolation_level :: "string option"
  dc_max_overflow :: "int option"
  dc_pool_pre_ping :: "bool option"
  dc_pool_recycle :: "int option"
  dc_pool_size :: "int option"
  dc_pool_timeout :: "int option"

record cloud_sql_config = base_database_config +
  cs_project :: string
  cs_region :: string
  cs_instance :: string
  cs_database :: string
  cs_service_account :: string

record database_config = base_database_config +
  db_url :: string
  db_password :: string

text \<open>A keyword argument that is given when there is a value for it.\<close>

definition opt_kwarg :: "string \<Rightarrow> ('a \<Rightarrow> kwarg) \<Rightarrow> 'a option \<Rightarrow> (string \<times> kwarg) list" where
  "opt_kwarg name f v = (case v of None \<Rightarrow> [] | Some a \<Rightarrow> [(name, f a)])"

definition str_kwarg :: "string \<Rightarrow> string option \<Rightarrow> (string \<times> kwarg) list" where
  "str_kwarg name v = (if v = None \<or> v = Some [] then [] else [(name, KwStr (the v))])"

definition engine_kwargs :: "'a base_database_config_scheme \<Rightarrow> (string \<times> kwarg) list" where
  "engine_kwargs c =
     str_kwarg ''isolation_level'' (dc_isolation_level c) @ opt_kwarg ''max_overflow'' KwInt (dc_max_overflow c)
     @ opt_kwarg ''pool_pre_ping'' KwBool (dc_pool_pre_ping c) @ opt_kwarg ''pool_recycle'' KwInt (dc_pool_recycle c)
     @ opt_kwarg ''pool_size'' KwInt (dc_pool_size c) @ opt_kwarg ''pool_timeout'' KwInt (dc_pool_timeout c)"

definition create_engine_kwargs :: "engine_options \<Rightarrow> (string \<times> kwarg) list" where
  "create_engine_kwargs o1 =
     (case eo_connect_args o1 of None \<Rightarrow> [] | Some a \<Rightarrow> if a = [] then [] else [(''connect_args'', KwDict a)])
     @ str_kwarg ''isolation_level'' (eo_isolation_level o1) @ opt_kwarg ''max_overflow'' KwInt (eo_max_overflow o1)
     @ opt_kwarg ''pool_pre_ping'' KwBool (eo_pool_pre_ping o1) @ opt_kwarg ''pool_recycle'' KwInt (eo_pool_recycle o1)
     @ opt_kwarg ''pool_size'' KwInt (eo_pool_size o1) @ opt_kwarg ''pool_timeout'' (\<lambda>t. t) (eo_pool_timeout o1)"

text \<open>\<open>_remove_none\<close>, of the mapping the settings are made from.\<close>

definition remove_none :: "(string \<times> 'v option) list \<Rightarrow> (string \<times> 'v option) list" where
  "remove_none data = filter (\<lambda>(_, v). v \<noteq> None) data"

definition instance_connection_name :: "cloud_sql_config \<Rightarrow> string" where
  "instance_connection_name c = cs_project c @ '':'' @ cs_region c @ '':'' @ cs_instance c"

definition cloud_mock_url :: string where
  "cloud_mock_url = ''postgresql+asyncpg://''"

definition cloud_user :: "cloud_sql_config \<Rightarrow> string" where
  "cloud_user c = py_removesuffix (cs_service_account c) ''.gserviceaccount.com''"

definition validate_url :: "(string \<Rightarrow> bool) \<Rightarrow> string \<Rightarrow> url_error + string" where
  "validate_url bracket_ok v = (case urlsplit bracket_ok v of
     None \<Rightarrow> Inl UrlSyntax
   | Some s \<Rightarrow> if split_username s = None \<or> split_username s = Some [] then Inl (NoUsername v) else Inr v)"

definition build_url :: "(string \<Rightarrow> bool) \<Rightarrow> database_config \<Rightarrow> bool \<Rightarrow> url_error + string" where
  "build_url bracket_ok c is_async = (case urlsplit bracket_ok (db_url c) of
     None \<Rightarrow> Inl UrlSyntax
   | Some s \<Rightarrow>
       let s = (if is_async then s\<lparr>su_scheme := async_scheme (su_scheme s)\<rparr> else s) in
       (case with_password s (split_username s) (db_password c) of Inl e \<Rightarrow> Inl e | Inr s \<Rightarrow> Inr (geturl s)))"

subsection \<open>Authenticated URLs\<close>

text \<open>A network location, from its parts.\<close>

definition netloc_of :: "string \<Rightarrow> string option \<Rightarrow> string \<Rightarrow> int option \<Rightarrow> string" where
  "netloc_of user password host port =
     user @ (case password of None \<Rightarrow> [] | Some p \<Rightarrow> CHR '':'' # p) @ CHR ''@'' # host @ (case port of None \<Rightarrow> [] | Some p \<Rightarrow> CHR '':'' # int_str p)"

text \<open>Parts without the characters that separate them; a host is a name or an IPv4 address.\<close>

definition plain_part :: "string \<Rightarrow> bool" where
  "plain_part t \<longleftrightarrow> t \<noteq> [] \<and> list_all (\<lambda>c. 32 < (of_char c :: nat) \<and> \<not> netloc_end c \<and> c \<notin> {CHR '':'', CHR ''@'', CHR 91, CHR 93}) t"

definition parts_ok :: "string \<Rightarrow> string option \<Rightarrow> string \<Rightarrow> int option \<Rightarrow> bool" where
  "parts_ok user password host port \<longleftrightarrow>
     plain_part user \<and> plain_part host \<and> CHR ''%'' \<notin> set host \<and>
     (\<forall>p. password = Some p \<longrightarrow> p = [] \<or> plain_part p) \<and> (\<forall>p. port = Some p \<longrightarrow> 0 \<le> p \<and> p \<le> 65535)"

lemma plain_part_not: "plain_part t \<Longrightarrow> c \<in> {CHR '':'', CHR ''@'', CHR 91, CHR 93, CHR ''/'', CHR ''?'', CHR ''#''} \<Longrightarrow> c \<notin> set t"
  by (auto simp: plain_part_def list_all_iff netloc_end_def)

lemma int_str_nonneg: "0 \<le> p \<Longrightarrow> list_all is_digit (int_str p) \<and> int_str p \<noteq> [] \<and> digits_val (int_str p) = nat p"
  using nat_str_digits [of "nat p"] by (simp add: int_str_def)

lemma digits_not: "list_all is_digit t \<Longrightarrow> c \<in> {CHR '':'', CHR ''@'', CHR 91, CHR 93, CHR ''/'', CHR ''?'', CHR ''#'', CHR ''%''} \<Longrightarrow> c \<notin> set t"
  by (auto simp: list_all_iff is_digit_def)

lemma netloc_parts:
  assumes "parts_ok user password host port" "su_netloc s = netloc_of user password host port"
  shows "split_username s = Some user" "split_password s = password"
    "split_hostname s = Some (to_lower host)" "split_port s = Some port"
proof -
  let ?p = "case port of None \<Rightarrow> [] | Some p \<Rightarrow> CHR '':'' # int_str p"
  let ?w = "case password of None \<Rightarrow> [] | Some p \<Rightarrow> CHR '':'' # p"
  have host: "CHR ''@'' \<notin> set host" "CHR 91 \<notin> set host" "CHR '':'' \<notin> set host" "CHR ''%'' \<notin> set host" "host \<noteq> []"
    and user: "CHR '':'' \<notin> set user"
    using assms(1) plain_part_not unfolding parts_ok_def by (blast, blast, blast, blast, auto simp: plain_part_def plain_part_not)
  have port: "port = Some q \<Longrightarrow> list_all is_digit (int_str q) \<and> int_str q \<noteq> [] \<and> digits_val (int_str q) = nat q \<and> 0 \<le> q \<and> q \<le> 65535" for q
    using assms(1) int_str_nonneg [of q] by (simp add: parts_ok_def)
  have "CHR ''@'' \<notin> set (host @ ?p)" "CHR 91 \<notin> set (host @ ?p)"
    using host(1,2) port digits_not by (auto split: option.split)
  then have at: "py_rpartition (CHR ''@'') ((user @ ?w) @ CHR ''@'' # host @ ?p) = (user @ ?w, True, host @ ?p)"
    and open_: "py_partition (CHR 91) (host @ ?p) = (host @ ?p, False, [])"
    by (simp_all del: append_assoc)
  have n: "su_netloc s = (user @ ?w) @ CHR ''@'' # host @ ?p" using assms(2) by (simp add: netloc_of_def)
  show "split_username s = Some user" using user unfolding split_username_def n at by (cases password) simp_all
  show "split_password s = password" using user unfolding split_password_def n at by (cases password) simp_all
  have info: "hostinfo s = (host, case port of None \<Rightarrow> [] | Some p \<Rightarrow> int_str p)"
    using host(3) unfolding hostinfo_def n at Let_def prod.case open_ by (cases port) simp_all
  show "split_hostname s = Some (to_lower host)" using host(4,5) by (simp add: split_hostname_def info)
  show "split_port s = Some port"
  proof (cases port)
    case (Some q)
    then show ?thesis using port [OF Some] by (auto simp: split_port_def info nat_le_iff)
  qed (simp add: split_port_def info)
qed

lemma to_lower_char:
  assumes "c \<in> set (to_lower t)"
  shows "c \<in> set t \<or> (97 \<le> (of_char c :: nat) \<and> (of_char c :: nat) \<le> 122)"
proof -
  obtain d where d: "d \<in> set t" "c = (let n = of_char d :: nat in if 65 \<le> n \<and> n \<le> 90 then char_of (n + 32) else d)"
    using assms unfolding to_lower_def by auto
  show ?thesis
  proof (cases "65 \<le> (of_char d :: nat) \<and> (of_char d :: nat) \<le> 90")
    case True
    then have "c = char_of ((of_char d :: nat) + 32)" using d(2) by simp
    then have "(of_char c :: nat) = of_char d + 32" using True by simp
    then show ?thesis using True by simp
  qed (use d in auto)
qed

lemma plain_lower: "plain_part t \<Longrightarrow> plain_part (to_lower t)"
  using to_lower_char [of _ t] by (fastforce simp: plain_part_def list_all_iff netloc_end_def to_lower_def)

lemma plain_quote: "quote t = [] \<or> plain_part (quote t)"
  using quote_clean [of _ t] by (auto simp: plain_part_def list_all_iff netloc_end_def)

lemma netloc_of_ok:
  assumes "parts_ok user password host port"
  shows "netloc_of user password host port \<noteq> []"
    "list_all (\<lambda>c. 32 < (of_char c :: nat) \<and> \<not> netloc_end c) (netloc_of user password host port)"
    "CHR 91 \<notin> set (netloc_of user password host port)" "CHR 93 \<notin> set (netloc_of user password host port)"
proof -
  let ?ok = "\<lambda>c. 32 < (of_char c :: nat) \<and> \<not> netloc_end c \<and> c \<noteq> CHR 91 \<and> c \<noteq> CHR 93"
  have part: "list_all ?ok t" if "plain_part t" for t using that by (auto simp: plain_part_def list_all_iff)
  have digits: "list_all ?ok t" if "list_all is_digit t" for t
    using that by (auto simp: list_all_iff is_digit_def netloc_end_def)
  have sep: "?ok (CHR '':'')" "?ok (CHR ''@'')" by (simp_all add: netloc_end_def)
  have w: "list_all ?ok (case password of None \<Rightarrow> [] | Some p \<Rightarrow> CHR '':'' # p)"
    using assms part sep(1) by (cases password) (auto simp: parts_ok_def)
  have p: "list_all ?ok (case port of None \<Rightarrow> [] | Some p \<Rightarrow> CHR '':'' # int_str p)"
    using assms digits int_str_nonneg sep(1) by (cases port) (auto simp: parts_ok_def)
  have "plain_part user" "plain_part host" using assms by (simp_all add: parts_ok_def)
  then have all: "list_all ?ok (netloc_of user password host port)"
    using part w p sep(2) by (simp add: netloc_of_def)
  then show "list_all (\<lambda>c. 32 < (of_char c :: nat) \<and> \<not> netloc_end c) (netloc_of user password host port)"
    "CHR 91 \<notin> set (netloc_of user password host port)" "CHR 93 \<notin> set (netloc_of user password host port)"
    by (auto simp: list_all_iff)
  show "netloc_of user password host port \<noteq> []" by (simp add: netloc_of_def)
qed

lemma split_ok_netloc:
  assumes "split_ok b s" "parts_ok user password host port"
  shows "split_ok b (s\<lparr>su_netloc := netloc_of user password host port\<rparr>)"
  using assms(1) netloc_of_ok [OF assms(2)] by (auto simp: split_ok_def list_all_iff)

lemma async_scheme_ok:
  assumes "split_ok b s"
  shows "split_ok b (s\<lparr>su_scheme := async_scheme (su_scheme s)\<rparr>)"
proof -
  let ?good = "\<lambda>sc. ascii_alpha (hd sc) \<and> list_all scheme_char sc \<and> to_lower sc = sc \<and> list_all (\<lambda>c. 32 < (of_char c :: nat)) sc"
  have "?good ''postgresql+asyncpg''" "?good ''mysql+asyncmy''" by code_simp+
  moreover have "async_scheme (su_scheme s) \<in> {''postgresql+asyncpg'', ''mysql+asyncmy'', su_scheme s}"
    by (simp add: async_scheme_def)
  moreover have "?good (su_scheme s)" using assms by (simp add: split_ok_def)
  ultimately have "?good (async_scheme (su_scheme s))" by (elim insertE emptyE) (simp_all only:)
  moreover have "async_scheme (su_scheme s) \<noteq> []" using assms by (simp add: async_scheme_def split_ok_def)
  ultimately show ?thesis using assms by (simp add: split_ok_def)
qed

text \<open>The network location with the password in it.\<close>

definition auth_port :: "int option \<Rightarrow> int option" where
  "auth_port port = (if port = Some 0 then None else port)"

lemma with_password_ok:
  assumes "parts_ok user old host port" "su_netloc s = netloc_of user old host port"
  shows "with_password s (split_username s) pw = Inr (s\<lparr>su_netloc := netloc_of user (Some (quote pw)) (to_lower host) (auth_port port)\<rparr>)"
    "parts_ok user (Some (quote pw)) (to_lower host) (auth_port port)"
proof -
  note parts = netloc_parts [OF assms]
  show "with_password s (split_username s) pw = Inr (s\<lparr>su_netloc := netloc_of user (Some (quote pw)) (to_lower host) (auth_port port)\<rparr>)"
    unfolding with_password_def parts by (cases port) (simp_all add: netloc_of_def auth_port_def none_str_def)
  have "CHR ''%'' \<notin> set (to_lower host)" using assms(1) to_lower_char [of "CHR ''%''" host] by (auto simp: parts_ok_def)
  then show "parts_ok user (Some (quote pw)) (to_lower host) (auth_port port)"
    using assms(1) plain_lower plain_quote by (auto simp: parts_ok_def auth_port_def)
qed

text \<open>The brackets of an IPv6 address are lost, and with them the host.\<close>

lemma ipv6_host_lost:
  "build_database_url (\<lambda>_. True) ''postgresql://u@[::1]/db'' (Some ''p'') = Inr ''postgresql+asyncpg://u:p@::1/db''"
  "map_option split_hostname (urlsplit (\<lambda>_. True) ''postgresql://u@[::1]/db'') = Some (Some ''::1'')"
  "map_option split_hostname (urlsplit (\<lambda>_. True) ''postgresql+asyncpg://u:p@::1/db'') = Some None"
  by code_simp+

end
