(* ===== verification/Database.thy ===== *)
theory Database
  imports DatabaseUrls
begin

text \<open>
  Engines and transactions of a database: the retrying of transactions (\<open>safir.database._retry\<close>),
  engines and their managers (\<open>_connection\<close>, \<open>_manager\<close>), the initialization of a schema
  (\<open>_initialize\<close>) and the version that Alembic keeps in the database (\<open>_alembic\<close>).  The functions of
  SQLAlchemy, of Alembic and of the Cloud SQL connector are parameters; an engine or a connector is
  known by a number.
\<close>

subsection \<open>Trying again\<close>

text \<open>
  Exceptions as the code tells them apart, each with its text: \<open>OperationalError\<close> and \<open>ProgrammingError\<close>
  are two of the \<open>DBAPIError\<close>s, \<open>DriverError\<close> stands for the others and for \<open>InterfaceError\<close>, and a refused
  connection is an \<open>OSError\<close>.
\<close>

datatype db_error =
    DriverError string
  | OperationalError string
  | ProgrammingError string
  | OSError string
  | DatabaseInitializationError "string option"
  | AlembicConfigError string
  | DbRuntimeError string
  | DbValueError url_error
  | OtherDbError string

fun suppressed :: "db_error \<Rightarrow> bool" where
  "suppressed (DriverError _) = True"
| "suppressed (OperationalError _) = True"
| "suppressed (ProgrammingError _) = True"
| "suppressed _ = False"

text \<open>The errors of a database that is not ready yet, with their text.\<close>

fun not_ready :: "db_error \<Rightarrow> string option" where
  "not_ready (OperationalError e) = Some e"
| "not_ready (OSError e) = Some e"
| "not_ready _ = None"

text \<open>\<open>tries\<close> attempts of whose errors some are suppressed, each of these followed by a sleep, then a last one.\<close>

fun retry_loop :: "nat \<Rightarrow> (db_error \<Rightarrow> bool) \<Rightarrow> ('w \<Rightarrow> 'w) \<Rightarrow> ('w, db_error, 'a) eff \<Rightarrow> ('w, db_error, 'a) eff" where
  "retry_loop 0 again sleep f = f"
| "retry_loop (Suc tries) again sleep f = (\<lambda>w. case f w of
     (Inr a, w) \<Rightarrow> (Inr a, w)
   | (Inl e, w) \<Rightarrow> if again e then retry_loop tries again sleep f (sleep w) else (Inl e, w))"

definition retry_async_transaction ::
  "(int \<Rightarrow> 'w \<Rightarrow> 'w) \<Rightarrow> int \<Rightarrow> int \<Rightarrow> ('w, db_error, 'a) eff \<Rightarrow> ('w, db_error, 'a) eff" where
  "retry_async_transaction sleep delay max_tries f = retry_loop (nat (max_tries - 1)) suppressed (sleep delay) f"

text \<open>The world in which attempt number \<open>k\<close>, from 0, is made when all before it failed.\<close>

fun before_attempt :: "('w \<Rightarrow> 'w) \<Rightarrow> ('w, db_error, 'a) eff \<Rightarrow> nat \<Rightarrow> 'w \<Rightarrow> 'w" where
  "before_attempt sleep f 0 w = w"
| "before_attempt sleep f (Suc k) w = before_attempt sleep f k (sleep (snd (f w)))"

lemma retry_loop_attempts:
  "\<exists>k \<le> tries. retry_loop tries again sleep f w = f (before_attempt sleep f k w) \<and>
     (\<forall>j < k. \<exists>e. fst (f (before_attempt sleep f j w)) = Inl e \<and> again e) \<and>
     (k < tries \<longrightarrow> (case fst (f (before_attempt sleep f k w)) of Inl e \<Rightarrow> \<not> again e | Inr _ \<Rightarrow> True))"
proof (induction tries arbitrary: w)
  case (Suc tries)
  show ?case
  proof (cases "\<exists>e. fst (f w) = Inl e \<and> again e")
    case True
    then obtain e w' where f: "f w = (Inl e, w')" "again e" by (metis prod.collapse)
    obtain k where k: "k \<le> tries" "retry_loop tries again sleep f (sleep w') = f (before_attempt sleep f k (sleep w'))"
      "\<forall>j < k. \<exists>e. fst (f (before_attempt sleep f j (sleep w'))) = Inl e \<and> again e"
      "k < tries \<longrightarrow> (case fst (f (before_attempt sleep f k (sleep w'))) of Inl e \<Rightarrow> \<not> again e | Inr _ \<Rightarrow> True)"
      using Suc.IH by blast
    have "\<exists>e. fst (f (before_attempt sleep f j w)) = Inl e \<and> again e" if "j < Suc k" for j
      using that k(3) f by (cases j) auto
    then show ?thesis using k f by (intro exI [of _ "Suc k"]) auto
  next
    case False
    then have "retry_loop (Suc tries) again sleep f w = f w" by (cases "f w"; cases "fst (f w)") auto
    moreover have "case fst (f w) of Inl e \<Rightarrow> \<not> again e | Inr _ \<Rightarrow> True" using False by (auto split: sum.split)
    ultimately show ?thesis by (intro exI [of _ 0]) simp
  qed
qed simp

subsection \<open>Transactions\<close>

text \<open>What \<open>async with engine.begin()\<close> and \<open>session.begin()\<close> do around their body.\<close>

record 'w db_connection =
  co_begin :: "('w, db_error, unit) eff"
  co_commit :: "('w, db_error, unit) eff"
  co_rollback :: "('w, db_error, unit) eff"

definition in_transaction :: "'w db_connection \<Rightarrow> ('w, db_error, 'a) eff \<Rightarrow> ('w, db_error, 'a) eff" where
  "in_transaction c body =
     bind_eff (co_begin c) (\<lambda>_.
     bind_eff (catch_eff body (\<lambda>e. bind_eff (co_rollback c) (\<lambda>_. raise_eff e))) (\<lambda>a.
     bind_eff (co_commit c) (\<lambda>_. ret_eff a)))"

text \<open>The statements that make and drop a schema; \<open>CREATE SCHEMA\<close> is there when the schema has a name.\<close>

record 'w db_schema =
  sc_create_schema :: "('w, db_error, unit) eff option"
  sc_drop_all :: "('w, db_error, unit) eff"
  sc_create_all :: "('w, db_error, unit) eff"

definition schema_transaction :: "'w db_connection \<Rightarrow> 'w db_schema \<Rightarrow> bool \<Rightarrow> ('w, db_error, unit) eff" where
  "schema_transaction c schema reset = in_transaction c
     (bind_eff (case sc_create_schema schema of None \<Rightarrow> ret_eff () | Some m \<Rightarrow> m) (\<lambda>_.
      bind_eff (if reset then sc_drop_all schema else ret_eff ()) (\<lambda>_. sc_create_all schema)))"

text \<open>Five attempts, with two seconds after each that failed.\<close>

fun initialize_loop ::
  "nat \<Rightarrow> (int \<Rightarrow> 'w \<Rightarrow> 'w) \<Rightarrow> ('w, db_error, unit) eff \<Rightarrow> string option \<Rightarrow> ('w, db_error, unit) eff" where
  "initialize_loop 0 sleep transaction error = raise_eff (DatabaseInitializationError error)"
| "initialize_loop (Suc n) sleep transaction error = (\<lambda>w. case transaction w of
     (Inr _, w) \<Rightarrow> (Inr (), w)
   | (Inl e, w) \<Rightarrow> (case not_ready e of
       Some text \<Rightarrow> initialize_loop n sleep transaction (Some text) (sleep 2000000 w)
     | None \<Rightarrow> (Inl e, w)))"

definition initialize_with_engine ::
  "(int \<Rightarrow> 'w \<Rightarrow> 'w) \<Rightarrow> 'w db_connection \<Rightarrow> 'w db_schema \<Rightarrow> bool \<Rightarrow> ('w, db_error, unit) eff" where
  "initialize_with_engine sleep c schema reset = initialize_loop 5 sleep (schema_transaction c schema reset) None"

text \<open>\<open>drop_version\<close> executes \<open>DROP TABLE alembic_version\<close>.\<close>

definition unstamp_database :: "'w db_connection \<Rightarrow> ('w, db_error, unit) eff \<Rightarrow> ('w, db_error, unit) eff" where
  "unstamp_database c drop_version = in_transaction c
     (catch_eff drop_version (\<lambda>e. case e of ProgrammingError _ \<Rightarrow> ret_eff () | _ \<Rightarrow> raise_eff e))"

definition drop_database ::
  "'w db_connection \<Rightarrow> 'w db_schema \<Rightarrow> ('w, db_error, unit) eff \<Rightarrow> ('w, db_error, unit) eff" where
  "drop_database c schema drop_version =
     bind_eff (in_transaction c (sc_drop_all schema)) (\<lambda>_. unstamp_database c drop_version)"

text \<open>The heads of the migrations in the database and those of the scripts, and the one head to stamp it with.\<close>

definition is_database_current ::
  "'w db_connection \<Rightarrow> ('w, db_error, string list) eff \<Rightarrow> ('w, db_error, string list) eff \<Rightarrow> ('w, db_error, bool) eff" where
  "is_database_current c get_current_heads get_heads =
     bind_eff (in_transaction c get_current_heads) (\<lambda>current.
     bind_eff get_heads (\<lambda>expected. ret_eff (set current = set expected)))"

definition stamp_database_async ::
  "'w db_connection \<Rightarrow> ('w, db_error, string option) eff \<Rightarrow> (string \<Rightarrow> ('w, db_error, unit) eff) \<Rightarrow> ('w, db_error, unit) eff
     \<Rightarrow> ('w, db_error, unit) eff" where
  "stamp_database_async c get_current_head set_version drop_version =
     bind_eff get_current_head (\<lambda>current_head.
       if current_head = None \<or> current_head = Some []
       then raise_eff (AlembicConfigError ''Unable to find head of Alembic migrations'')
       else bind_eff (unstamp_database c drop_version) (\<lambda>_. in_transaction c (set_version (the current_head))))"

text \<open>
  \<open>factory\<close> makes a session of the engine, \<open>begin\<close> gives its transaction and \<open>execute\<close> runs the statement that
  checks it, if there is one.
\<close>

definition create_async_session ::
  "(int \<Rightarrow> 'w \<Rightarrow> 'w) \<Rightarrow> ('w, db_error, 's) eff \<Rightarrow> ('s \<Rightarrow> 'w db_connection) \<Rightarrow> ('s \<Rightarrow> ('w, db_error, unit) eff) option
     \<Rightarrow> ('w, db_error, 's) eff" where
  "create_async_session sleep factory begin_of execute =
     bind_eff factory (\<lambda>session. case execute of
       None \<Rightarrow> ret_eff session
     | Some execute \<Rightarrow> retry_loop 5 (\<lambda>e. not_ready e \<noteq> None) (sleep 2000000)
         (in_transaction (begin_of session) (bind_eff (execute session) (\<lambda>_. ret_eff session))))"

subsection \<open>Engines\<close>

text \<open>
  The library: making and disposing of engines, and making and closing connectors.  The connections of an
  engine for Cloud SQL are made by a function that is known by what it passes to the connector.
\<close>

datatype ip_type = PublicIP | PrivateIP | PscIP

record cloud_creator =
  cc_connector :: int
  cc_instance :: string
  cc_driver :: string
  cc_user :: string
  cc_database :: string
  cc_ip_type :: ip_type
  cc_connect_args :: "(string \<times> kwarg) list"

record 'w sql_lib =
  sl_create_async_engine :: "string \<Rightarrow> cloud_creator option \<Rightarrow> (string \<times> kwarg) list \<Rightarrow> ('w, db_error, int) eff"
  sl_dispose :: "int \<Rightarrow> ('w, db_error, unit) eff"
  sl_create_connector :: "(string \<times> kwarg) list \<Rightarrow> ('w, db_error, int) eff"
  sl_close_connector :: "int \<Rightarrow> ('w, db_error, unit) eff"

definition url_eff :: "url_error + string \<Rightarrow> ('w, db_error, string) eff" where
  "url_eff r = lift_eff (map_sum DbValueError (\<lambda>u. u) r)"

definition create_database_engine ::
  "'w sql_lib \<Rightarrow> (string \<Rightarrow> bool) \<Rightarrow> string \<Rightarrow> string option \<Rightarrow> engine_options \<Rightarrow> ('w, db_error, int) eff" where
  "create_database_engine lib bracket_ok url password opts =
     bind_eff (url_eff (build_database_url bracket_ok url password)) (\<lambda>url.
       sl_create_async_engine lib url None (create_engine_kwargs opts))"

datatype engine_config = CloudSql cloud_sql_config | External database_config

record engine_manager =
  em_config :: engine_config
  em_connect_args :: "(string \<times> kwarg) list"
  em_engine :: "int option"
  em_connector :: "int option"

definition new_engine_manager :: "engine_config \<Rightarrow> (string \<times> kwarg) list option \<Rightarrow> engine_manager" where
  "new_engine_manager config connect_args =
     \<lparr>em_config = config, em_connect_args = (case connect_args of None \<Rightarrow> [] | Some a \<Rightarrow> a), em_engine = None, em_connector = None\<rparr>"

text \<open>An effect on the world as one on a manager and the world.\<close>

definition on_world :: "('w, 'e, 'a) eff \<Rightarrow> ('m \<times> 'w, 'e, 'a) eff" where
  "on_world f = (\<lambda>(m, w). case f w of (r, w) \<Rightarrow> (r, (m, w)))"

definition base_manager_aclose :: "'w sql_lib \<Rightarrow> (engine_manager \<times> 'w, db_error, unit) eff" where
  "base_manager_aclose lib =
     bind_eff (read_eff (\<lambda>(m, _). em_engine m)) (\<lambda>engine. case engine of
       None \<Rightarrow> ret_eff ()
     | Some e \<Rightarrow> bind_eff (on_world (sl_dispose lib e)) (\<lambda>_. modify_eff (\<lambda>(m, w). (m\<lparr>em_engine := None\<rparr>, w))))"

definition cloud_manager_aclose :: "'w sql_lib \<Rightarrow> (engine_manager \<times> 'w, db_error, unit) eff" where
  "cloud_manager_aclose lib =
     bind_eff (bind_eff (read_eff (\<lambda>(m, _). em_connector m)) (\<lambda>connector. case connector of
       None \<Rightarrow> ret_eff ()
     | Some c \<Rightarrow> bind_eff (on_world (sl_close_connector lib c)) (\<lambda>_. modify_eff (\<lambda>(m, w). (m\<lparr>em_connector := None\<rparr>, w)))))
     (\<lambda>_. base_manager_aclose lib)"

definition cloud_create_engine :: "'w sql_lib \<Rightarrow> cloud_sql_config \<Rightarrow> (engine_manager \<times> 'w, db_error, int) eff" where
  "cloud_create_engine lib config = (\<lambda>(m, w).
     if em_engine m \<noteq> None then (Inl (DbRuntimeError ''Call aclose before creating another engine''), (m, w))
     else (case sl_create_connector lib [(''enable_iam_auth'', KwBool True)] w of
       (Inl e, w) \<Rightarrow> (Inl e, (m, w))
     | (Inr connector, w) \<Rightarrow>
         let creator = \<lparr>cc_connector = connector, cc_instance = instance_connection_name config, cc_driver = ''asyncpg'',
           cc_user = cloud_user config, cc_database = cs_database config, cc_ip_type = PrivateIP,
           cc_connect_args = em_connect_args m\<rparr> in
         (case sl_create_async_engine lib cloud_mock_url (Some creator) (engine_kwargs config) w of
           (Inl e, w) \<Rightarrow> (case sl_close_connector lib connector w of
              (Inl e, w) \<Rightarrow> (Inl e, (m, w)) | (Inr _, w) \<Rightarrow> (Inl e, (m, w)))
         | (Inr engine, w) \<Rightarrow> (Inr engine, (m\<lparr>em_connector := Some connector, em_engine := Some engine\<rparr>, w)))))"

definition manager_kwargs :: "engine_manager \<Rightarrow> database_config \<Rightarrow> (string \<times> kwarg) list" where
  "manager_kwargs m config = engine_kwargs config @ (if em_connect_args m = [] then [] else [(''connect_args'', KwDict (em_connect_args m))])"

definition external_create_engine ::
  "'w sql_lib \<Rightarrow> (string \<Rightarrow> bool) \<Rightarrow> database_config \<Rightarrow> (engine_manager \<times> 'w, db_error, int) eff" where
  "external_create_engine lib bracket_ok config = (\<lambda>(m, w).
     if em_engine m \<noteq> None then (Inl (DbRuntimeError ''Call aclose before creating another engine''), (m, w))
     else (case bind_eff (url_eff (build_url bracket_ok config True)) (\<lambda>url. sl_create_async_engine lib url None (manager_kwargs m config)) w of
       (Inl e, w) \<Rightarrow> (Inl e, (m, w))
     | (Inr engine, w) \<Rightarrow> (Inr engine, (m\<lparr>em_engine := Some engine\<rparr>, w))))"

definition manager_create_engine :: "'w sql_lib \<Rightarrow> (string \<Rightarrow> bool) \<Rightarrow> (engine_manager \<times> 'w, db_error, int) eff" where
  "manager_create_engine lib bracket_ok =
     bind_eff (read_eff (\<lambda>(m, _). em_config m)) (\<lambda>config. case config of
       CloudSql c \<Rightarrow> cloud_create_engine lib c | External c \<Rightarrow> external_create_engine lib bracket_ok c)"

definition manager_aclose :: "'w sql_lib \<Rightarrow> (engine_manager \<times> 'w, db_error, unit) eff" where
  "manager_aclose lib =
     bind_eff (read_eff (\<lambda>(m, _). em_config m)) (\<lambda>config. case config of
       CloudSql _ \<Rightarrow> cloud_manager_aclose lib | External _ \<Rightarrow> base_manager_aclose lib)"

text \<open>\<open>async with engine_manager(config, connect_args) as engine\<close> around a body.\<close>

definition with_engine ::
  "'w sql_lib \<Rightarrow> (string \<Rightarrow> bool) \<Rightarrow> engine_config \<Rightarrow> (string \<times> kwarg) list option \<Rightarrow> (int \<Rightarrow> ('w, db_error, 'a) eff)
     \<Rightarrow> ('w, db_error, 'a) eff" where
  "with_engine lib bracket_ok config connect_args body = (\<lambda>w.
     case manager_create_engine lib bracket_ok (new_engine_manager config connect_args, w) of
       (Inl e, (_, w)) \<Rightarrow> (Inl e, w)
     | (Inr engine, (m, w)) \<Rightarrow> (case body engine w of (r, w) \<Rightarrow>
         (case manager_aclose lib (m, w) of (Inl e, (_, w)) \<Rightarrow> (Inl e, w) | (Inr _, (_, w)) \<Rightarrow> (r, w))))"

text \<open>\<open>connection\<close> gives the transactions of an engine; the database is given by an engine or by its settings.\<close>

definition initialize_database ::
  "'w sql_lib \<Rightarrow> (string \<Rightarrow> bool) \<Rightarrow> (int \<Rightarrow> 'w \<Rightarrow> 'w) \<Rightarrow> (int \<Rightarrow> 'w db_connection) \<Rightarrow> int + engine_config \<Rightarrow> 'w db_schema \<Rightarrow> bool
     \<Rightarrow> ('w, db_error, unit) eff" where
  "initialize_database lib bracket_ok sleep connection engine_or_config schema reset = (case engine_or_config of
     Inl engine \<Rightarrow> initialize_with_engine sleep (connection engine) schema reset
   | Inr config \<Rightarrow> with_engine lib bracket_ok config None (\<lambda>engine. initialize_with_engine sleep (connection engine) schema reset))"

text \<open>\<open>migrate\<close> runs the migrations on a connection of an engine.\<close>

definition run_migrations_online ::
  "'w sql_lib \<Rightarrow> (string \<Rightarrow> bool) \<Rightarrow> (int \<Rightarrow> ('w, db_error, unit) eff) \<Rightarrow> (string \<times> string option) + engine_config
     \<Rightarrow> ('w, db_error, unit) eff" where
  "run_migrations_online lib bracket_ok migrate url_or_config = (case url_or_config of
     Inr config \<Rightarrow> with_engine lib bracket_ok config None migrate
   | Inl (url, password) \<Rightarrow>
       bind_eff (create_database_engine lib bracket_ok url password
         \<lparr>eo_connect_args = None, eo_isolation_level = None, eo_max_overflow = None, eo_pool_pre_ping = None,
           eo_pool_recycle = None, eo_pool_size = None, eo_pool_timeout = None\<rparr>) (\<lambda>engine.
       bind_eff (migrate engine) (\<lambda>_. sl_dispose lib engine)))"

text \<open>
  Offline the context is configured with a URL, literal binds and the options of the dialect, and the migrations are run
  in its transaction.
\<close>

definition run_migrations_offline ::
  "(string \<Rightarrow> bool) \<Rightarrow> (string \<Rightarrow> bool \<Rightarrow> (string \<times> string) list \<Rightarrow> ('w, db_error, unit) eff) \<Rightarrow> 'w db_connection
     \<Rightarrow> ('w, db_error, unit) eff \<Rightarrow> string \<Rightarrow> ('w, db_error, unit) eff" where
  "run_migrations_offline bracket_ok configure transaction run_migrations url =
     bind_eff (url_eff (build_database_url bracket_ok url None)) (\<lambda>url.
     bind_eff (configure url True [(''paramstyle'', ''named'')]) (\<lambda>_. in_transaction transaction run_migrations))"

definition stamp_database ::
  "(string \<Rightarrow> ('w, db_error, 'c) eff) \<Rightarrow> ('c \<Rightarrow> string \<Rightarrow> ('w, db_error, unit) eff) \<Rightarrow> string \<Rightarrow> ('w, db_error, unit) eff" where
  "stamp_database read_config stamp config_path = bind_eff (read_config config_path) (\<lambda>config. stamp config ''head'')"

text \<open>A failing migration is rolled back and its error raised, when the rollback works.\<close>

lemma offline_migrations_rolled_back:
  assumes "build_database_url bracket_ok url None = Inr u" "configure u True [(''paramstyle'', ''named'')] w = (Inr (), w1)"
    and "co_begin c w1 = (Inr (), w2)" "run_migrations w2 = (Inl e, w3)" "co_rollback c w3 = (Inr (), w4)"
  shows "run_migrations_offline bracket_ok configure c run_migrations url w = (Inl e, w4)"
  using assms by (simp add: run_migrations_offline_def url_eff_def in_transaction_def eff_simps)

subsection \<open>What the library promises\<close>

text \<open>
  \<open>live w\<close> is what is open at the moment.  A function that makes something makes it new or fails with
  nothing made, and one that closes something closes it or fails with it still open.
\<close>

datatype resource = Engine int | Connector int

definition makes :: "('w \<Rightarrow> resource set) \<Rightarrow> (int \<Rightarrow> resource) \<Rightarrow> ('w, db_error, int) eff \<Rightarrow> bool" where
  "makes live kind f \<longleftrightarrow> (\<forall>w. case f w of
     (Inl _, w') \<Rightarrow> live w' = live w
   | (Inr n, w') \<Rightarrow> kind n \<notin> live w \<and> live w' = insert (kind n) (live w))"

definition closes :: "('w \<Rightarrow> resource set) \<Rightarrow> resource \<Rightarrow> ('w, db_error, unit) eff \<Rightarrow> bool" where
  "closes live res f \<longleftrightarrow> (\<forall>w. case f w of
     (Inl _, w') \<Rightarrow> live w' = live w
   | (Inr _, w') \<Rightarrow> live w' = live w - {res})"

definition sql_lib_ok :: "'w sql_lib \<Rightarrow> ('w \<Rightarrow> resource set) \<Rightarrow> bool" where
  "sql_lib_ok lib live \<longleftrightarrow>
     (\<forall>url creator kwargs. makes live Engine (sl_create_async_engine lib url creator kwargs)) \<and>
     (\<forall>kwargs. makes live Connector (sl_create_connector lib kwargs)) \<and>
     (\<forall>n. closes live (Engine n) (sl_dispose lib n)) \<and>
     (\<forall>n. closes live (Connector n) (sl_close_connector lib n))"

fun close_resource :: "'w sql_lib \<Rightarrow> resource \<Rightarrow> ('w, db_error, unit) eff" where
  "close_resource lib (Engine n) = sl_dispose lib n"
| "close_resource lib (Connector n) = sl_close_connector lib n"

text \<open>The closing of a resource raises \<open>e\<close> in some world.\<close>

definition closing_fails :: "'w sql_lib \<Rightarrow> resource \<Rightarrow> db_error \<Rightarrow> bool" where
  "closing_fails lib res e \<longleftrightarrow> (\<exists>w. fst (close_resource lib res w) = Inl e)"

lemma makesE:
  assumes "makes live kind f"
  obtains (failed) e w' where "f w = (Inl e, w')" "live w' = live w"
  | (made) n w' where "f w = (Inr n, w')" "kind n \<notin> live w" "live w' = insert (kind n) (live w)"
  using assms unfolding makes_def by (cases "f w"; cases "fst (f w)") (auto dest!: spec [of _ w])

lemma closesE:
  assumes "closes live res f"
  obtains (failed) e w' where "f w = (Inl e, w')" "live w' = live w"
  | (closed) w' where "f w = (Inr (), w')" "live w' = live w - {res}"
  using assms unfolding closes_def by (cases "f w"; cases "fst (f w)") (auto dest!: spec [of _ w])

lemma closing_cases:
  assumes "sql_lib_ok lib live"
  obtains (failed) e w' where "close_resource lib res w = (Inl e, w')" "live w' = live w" "closing_fails lib res e"
  | (closed) w' where "close_resource lib res w = (Inr (), w')" "live w' = live w - {res}"
proof -
  have "closes live res (close_resource lib res)" using assms by (cases res) (simp_all add: sql_lib_ok_def)
  then show ?thesis
  proof (cases rule: closesE [of live res _ w])
    case (failed e w')
    then have "closing_fails lib res e" unfolding closing_fails_def by (intro exI [of _ w]) simp
    with failed show ?thesis by (rule that(1))
  next
    case (closed w')
    then show ?thesis by (rule that(2))
  qed
qed

lemma makes_bind_url: "makes live kind f \<Longrightarrow> makes live kind (bind_eff (url_eff r) (\<lambda>_. f))"
  by (cases r) (simp_all add: makes_def url_eff_def eff_simps)

lemma makes_url_engine:
  assumes "sql_lib_ok lib live"
  shows "makes live Engine (bind_eff (url_eff r) (\<lambda>url. sl_create_async_engine lib url creator kwargs))"
  using assms by (cases r) (simp_all add: makes_def url_eff_def eff_simps sql_lib_ok_def)

lemma create_database_engine_makes:
  "sql_lib_ok lib live \<Longrightarrow> makes live Engine (create_database_engine lib b url password opts)"
  unfolding create_database_engine_def by (rule makes_url_engine)

text \<open>What a manager holds open.\<close>

definition held :: "engine_manager \<Rightarrow> resource set" where
  "held m = (case em_engine m of None \<Rightarrow> {} | Some e \<Rightarrow> {Engine e}) \<union> (case em_connector m of None \<Rightarrow> {} | Some c \<Rightarrow> {Connector c})"

lemma manager_create_engine_cases:
  assumes "sql_lib_ok lib live" "held m = {}"
  obtains (failed) e m' w' where "manager_create_engine lib b (m, w) = (Inl e, (m', w'))"
      "live w' = live w \<or> (\<exists>c. Connector c \<notin> live w \<and> live w' = insert (Connector c) (live w) \<and> closing_fails lib (Connector c) e)"
  | (made) n m' w' where "manager_create_engine lib b (m, w) = (Inr n, (m', w'))" "em_config m' = em_config m" "em_engine m' = Some n"
      "held m' \<inter> live w = {}" "live w' = held m' \<union> live w"
      "em_connector m' \<noteq> None \<longrightarrow> (\<exists>c. em_config m = CloudSql c)"
proof -
  have none: "em_engine m = None" "em_connector m = None"
    using assms(2) by (auto simp: held_def split: option.splits)
  show ?thesis
  proof (cases "em_config m")
    case (External c)
    have "makes live Engine (bind_eff (url_eff (build_url b c True)) (\<lambda>url. sl_create_async_engine lib url None (manager_kwargs m c)))"
      by (rule makes_url_engine [OF assms(1)])
    then show ?thesis
    proof (cases rule: makesE [of live Engine _ w])
      case (failed e w')
      then show ?thesis using External none that(1) by (simp add: manager_create_engine_def external_create_engine_def eff_simps)
    next
      case (made n w')
      then have "manager_create_engine lib b (m, w) = (Inr n, (m\<lparr>em_engine := Some n\<rparr>, w'))"
        using External none by (simp add: manager_create_engine_def external_create_engine_def eff_simps)
      then show ?thesis using made(2,3) none by (intro that(2) [of n "m\<lparr>em_engine := Some n\<rparr>" w']) (auto simp: held_def)
    qed
  next
    case (CloudSql c)
    have "makes live Connector (sl_create_connector lib [(''enable_iam_auth'', KwBool True)])" using assms(1) by (simp add: sql_lib_ok_def)
    then show ?thesis
    proof (cases rule: makesE [of live Connector _ w])
      case (failed e w')
      then show ?thesis using CloudSql none that(1) by (simp add: manager_create_engine_def cloud_create_engine_def eff_simps)
    next
      case connector: (made k w1)
      let ?creator = "\<lparr>cc_connector = k, cc_instance = instance_connection_name c, cc_driver = ''asyncpg'', cc_user = cloud_user c,
           cc_database = cs_database c, cc_ip_type = PrivateIP, cc_connect_args = em_connect_args m\<rparr>"
      have "makes live Engine (sl_create_async_engine lib cloud_mock_url (Some ?creator) (engine_kwargs c))"
        using assms(1) by (simp add: sql_lib_ok_def)
      then show ?thesis
      proof (cases rule: makesE [of live Engine _ w1])
        case (failed e w2)
        show ?thesis
        proof (cases rule: closing_cases [OF assms(1), of "Connector k" w2])
          case (1 e' w3)
          then have "manager_create_engine lib b (m, w) = (Inl e', (m, w3))"
            using CloudSql none connector(1) failed(1) by (simp add: manager_create_engine_def cloud_create_engine_def eff_simps)
          moreover have "live w3 = insert (Connector k) (live w)" using 1(2) failed(2) connector(3) by simp
          ultimately show ?thesis using that(1) 1(3) connector(2) by blast
        next
          case (2 w3)
          then have "manager_create_engine lib b (m, w) = (Inl e, (m, w3))"
            using CloudSql none connector(1) failed(1) by (simp add: manager_create_engine_def cloud_create_engine_def eff_simps)
          moreover have "live w3 = live w" using 2(2) failed(2) connector(2,3) by simp
          ultimately show ?thesis using that(1) by blast
        qed
      next
        case (made n w2)
        let ?m = "m\<lparr>em_connector := Some k, em_engine := Some n\<rparr>"
        have "manager_create_engine lib b (m, w) = (Inr n, (?m, w2))"
          using CloudSql none connector(1) made(1) by (simp add: manager_create_engine_def cloud_create_engine_def eff_simps)
        then show ?thesis using made(2,3) connector(2,3) none CloudSql by (intro that(2) [of n ?m w2]) (auto simp: held_def)
      qed
    qed
  qed
qed

lemma base_manager_aclose_cases:
  assumes "sql_lib_ok lib live" "em_engine m = Some n"
  obtains (failed) e w' where "base_manager_aclose lib (m, w) = (Inl e, (m, w'))" "live w' = live w" "closing_fails lib (Engine n) e"
  | (closed) w' where "base_manager_aclose lib (m, w) = (Inr (), (m\<lparr>em_engine := None\<rparr>, w'))" "live w' = live w - {Engine n}"
  using assms(2)
  by (cases rule: closing_cases [OF assms(1), of "Engine n" w])
    (auto simp: base_manager_aclose_def on_world_def eff_simps intro: that)

lemma manager_aclose_cases:
  assumes "sql_lib_ok lib live" "em_engine m = Some n" "em_connector m \<noteq> None \<longrightarrow> (\<exists>c. em_config m = CloudSql c)"
  obtains (failed) e res m' w' where "manager_aclose lib (m, w) = (Inl e, (m', w'))" "res \<in> held m" "closing_fails lib res e"
      "live w' = live w \<or> live w' = live w - (held m - {Engine n})"
  | (closed) m' w' where "manager_aclose lib (m, w) = (Inr (), (m', w'))" "live w' = live w - held m"
proof (cases "em_connector m")
  case None
  then have h: "held m = {Engine n}" and a: "manager_aclose lib (m, w) = base_manager_aclose lib (m, w)"
    using assms(2) by (cases "em_config m"; simp add: held_def manager_aclose_def cloud_manager_aclose_def eff_simps)+
  show ?thesis using h a that by (cases rule: base_manager_aclose_cases [OF assms(1,2), of w]) auto
next
  case (Some k)
  then obtain c where c: "em_config m = CloudSql c" using assms(3) by auto
  have h: "held m = {Engine n, Connector k}" using Some assms(2) by (auto simp: held_def)
  let ?m = "m\<lparr>em_connector := None\<rparr>"
  show ?thesis
  proof (cases rule: closing_cases [OF assms(1), of "Connector k" w])
    case failed: (1 e w')
    then have "manager_aclose lib (m, w) = (Inl e, (m, w'))"
      using Some c by (simp add: manager_aclose_def cloud_manager_aclose_def on_world_def eff_simps)
    then show ?thesis using failed h that(1) by blast
  next
    case closed: (2 w1)
    then have a: "manager_aclose lib (m, w) = base_manager_aclose lib (?m, w1)"
      using Some c by (simp add: manager_aclose_def cloud_manager_aclose_def on_world_def eff_simps)
    have e: "em_engine ?m = Some n" using assms(2) by simp
    show ?thesis
    proof (cases rule: base_manager_aclose_cases [OF assms(1) e, of w1])
      case failed: (1 e w')
      then have "live w' = live w - (held m - {Engine n})" using closed(2) h by auto
      then show ?thesis using failed a h that(1) [where e = e and res = "Engine n" and m' = ?m and w' = w'] by simp
    next
      case closed2: (2 w')
      then have "live w' = live w - held m" using closed(2) h by auto
      then show ?thesis using closed2(1) a that(2) by simp
    qed
  qed
qed

text \<open> C31. The engine of an engine manager lives as long as the body it is used in, which gets a new one: however the body
  ends, its outcome is the one of the whole, and afterwards exactly that is open which was open before, the
  connector of a Cloud SQL engine included, unless the closing of what the manager made fails.  Then its error is raised in
  place of the outcome and the engine stays open, with its connector if that is what could not be closed.  When
  no engine can be made the body is not run, and nothing stays open either but a connector whose closing failed. \<close>
theorem engine_manager_releases:
  assumes "sql_lib_ok lib live" "\<forall>engine w. live (snd (body engine w)) = live w"
  shows "case with_engine lib b config connect_args body w of (r, w') \<Rightarrow>
    (case manager_create_engine lib b (new_engine_manager config connect_args, w) of
       (Inl e, (_, w1)) \<Rightarrow> r = Inl e \<and> w' = w1 \<and> (live w' = live w \<or>
         (\<exists>c. Connector c \<notin> live w \<and> live w' = insert (Connector c) (live w) \<and> closing_fails lib (Connector c) e))
     | (Inr engine, (_, w1)) \<Rightarrow> Engine engine \<in> live w1 - live w \<and> live w \<subseteq> live w1 \<and>
         (r = fst (body engine w1) \<and> live w' = live w \<or>
          (\<exists>e. \<exists>res \<in> live w1 - live w. r = Inl e \<and> closing_fails lib res e \<and>
             (live w' = live w1 \<or> live w' = insert (Engine engine) (live w)))))"
proof -
  let ?m = "new_engine_manager config connect_args"
  have held: "held ?m = {}" by (simp add: held_def new_engine_manager_def)
  show ?thesis
  proof (cases rule: manager_create_engine_cases [OF assms(1) held, of b w])
    case (1 e m' w')
    then show ?thesis by (simp add: with_engine_def)
  next
    case made: (2 n m' w1)
    obtain r w2 where body: "body n w1 = (r, w2)" by (cases "body n w1")
    have l2: "live w2 = live w1" using assms(2) body by (metis snd_conv)
    have c: "em_connector m' \<noteq> None \<longrightarrow> (\<exists>c. em_config m' = CloudSql c)" using made(2,6) by simp
    have n: "Engine n \<in> held m'" using made(3) by (simp add: held_def)
    show ?thesis
    proof (cases rule: manager_aclose_cases [OF assms(1) made(3) c, of w2])
      case failed: (1 e res m'' w3)
      have "live w3 = live w1 \<or> live w3 = insert (Engine n) (live w)" using failed(4) l2 made(4,5) n by blast
      moreover have "res \<in> live w1 - live w" using failed(2) made(4,5) by blast
      ultimately show ?thesis using made(1,4,5) body failed(1,3) n by (auto simp: with_engine_def)
    next
      case closed: (2 m'' w3)
      have "live w3 = live w" using closed(2) l2 made(4,5) by blast
      then show ?thesis using made(1,4,5) body closed(1) n by (auto simp: with_engine_def)
    qed
  qed
qed

text \<open>A library that numbers what it makes beyond what is open, and fails for the URL of a database without a host.\<close>

fun resource_number :: "resource \<Rightarrow> int" where
  "resource_number (Engine n) = n"
| "resource_number (Connector n) = n"

fun fresh_number :: "resource list \<Rightarrow> int" where
  "fresh_number [] = 0"
| "fresh_number (r # rs) = max (resource_number r + 1) (fresh_number rs)"

definition demo_lib :: "resource list sql_lib" where
  "demo_lib = \<lparr>sl_create_async_engine = (\<lambda>url creator kwargs w.
       if creator = None \<and> url = ''postgresql+asyncpg://u:p@None'' then (Inl (OtherDbError url), w)
       else (Inr (fresh_number w), Engine (fresh_number w) # w)),
     sl_dispose = (\<lambda>n w. (Inr (), filter (\<lambda>r. r \<noteq> Engine n) w)),
     sl_create_connector = (\<lambda>_ w. (Inr (fresh_number w), Connector (fresh_number w) # w)),
     sl_close_connector = (\<lambda>n w. (Inr (), filter (\<lambda>r. r \<noteq> Connector n) w))\<rparr>"

lemma fresh_number_greater: "r \<in> set w \<Longrightarrow> resource_number r < fresh_number w"
  by (induction w) auto

lemma fresh_number_new: "Engine (fresh_number w) \<notin> set w" "Connector (fresh_number w) \<notin> set w"
  using fresh_number_greater by fastforce+

lemma demo_lib_ok: "sql_lib_ok demo_lib set"
  by (auto simp: sql_lib_ok_def makes_def closes_def demo_lib_def fresh_number_new)

lemma demo_lib_closes: "\<not> closing_fails demo_lib res e"
  by (cases res) (simp_all add: closing_fails_def demo_lib_def)

definition demo_cloud :: cloud_sql_config where
  "demo_cloud = \<lparr>dc_isolation_level = None, dc_max_overflow = None, dc_pool_pre_ping = None, dc_pool_recycle = None, dc_pool_size = None,
     dc_pool_timeout = None, cs_project = ''p'', cs_region = ''r'', cs_instance = ''i'', cs_database = ''d'', cs_service_account = ''a''\<rparr>"

lemma engine_manager_releases_witness:
  "\<exists>r w'. with_engine demo_lib (\<lambda>_. True) (CloudSql demo_cloud) None (\<lambda>engine. raise_eff (OtherDbError ''body'') :: (_, _, unit) eff)
      [Engine 3] = (r, w') \<and> set w' = {Engine 3} \<and> r = Inl (OtherDbError ''body'')"
proof -
  let ?body = "\<lambda>engine. raise_eff (OtherDbError ''body'') :: (resource list, _, unit) eff"
  have b: "\<forall>engine w. set (snd (?body engine w)) = set w" by (simp add: eff_simps)
  have "\<exists>m w1. manager_create_engine demo_lib (\<lambda>_. True) (new_engine_manager (CloudSql demo_cloud) None, [Engine 3]) = (Inr 5, (m, w1))"
    by (simp add: manager_create_engine_def cloud_create_engine_def new_engine_manager_def demo_lib_def eff_simps)
  then show ?thesis
    using engine_manager_releases [OF demo_lib_ok b, where b = "\<lambda>_. True" and config = "CloudSql demo_cloud" and connect_args = None
        and w = "[Engine 3]"]
    by (auto simp: demo_lib_closes raise_eff_def split: prod.splits)
qed

subsection \<open>Two ways to the same engine\<close>

text \<open>The arguments of \<open>create_database_engine\<close> that say the same as the settings of a manager.\<close>

definition options_of :: "database_config \<Rightarrow> (string \<times> kwarg) list option \<Rightarrow> engine_options" where
  "options_of c connect_args = \<lparr>eo_connect_args = connect_args, eo_isolation_level = dc_isolation_level c,
     eo_max_overflow = dc_max_overflow c, eo_pool_pre_ping = dc_pool_pre_ping c, eo_pool_recycle = dc_pool_recycle c,
     eo_pool_size = dc_pool_size c, eo_pool_timeout = map_option KwInt (dc_pool_timeout c)\<rparr>"

lemma map_of_kwargs:
  "name \<noteq> k \<Longrightarrow> map_of (str_kwarg name v) k = None" "name \<noteq> k \<Longrightarrow> map_of (opt_kwarg name f v') k = None"
  by (simp_all add: str_kwarg_def opt_kwarg_def split: option.split)

lemma kwargs_agree:
  "map_of (manager_kwargs (new_engine_manager (External c) connect_args) c) = map_of (create_engine_kwargs (options_of c connect_args))"
proof -
  have n: "map_of (engine_kwargs c) ''connect_args'' = None"
    by (simp add: engine_kwargs_def map_of_kwargs)
  have "create_engine_kwargs (options_of c connect_args) =
    (case connect_args of None \<Rightarrow> [] | Some a \<Rightarrow> if a = [] then [] else [(''connect_args'', KwDict a)]) @ engine_kwargs c"
    by (simp add: create_engine_kwargs_def engine_kwargs_def options_of_def opt_kwarg_def split: option.split)
  then show ?thesis using n
    by (auto simp: manager_kwargs_def new_engine_manager_def fun_eq_iff map_add_def split: option.split)
qed

text \<open>The URLs of the settings and of \<open>create_database_engine\<close>.\<close>

lemma built_url:
  assumes "split_ok b s" "su_netloc s = netloc_of user old host port" "parts_ok user old host port" "db_url c = geturl s"
    and "s' = s\<lparr>su_scheme := async_scheme (su_scheme s), su_netloc := netloc_of user (Some (quote (db_password c))) (to_lower host) (auth_port port)\<rparr>"
  shows "build_url b c True = Inr (geturl s')"
    "build_database_url b (db_url c) (Some (db_password c)) =
       Inr (geturl (if db_password c = [] then s\<lparr>su_scheme := async_scheme (su_scheme s)\<rparr> else s'))"
    "split_ok b s'" "parts_ok user (Some (quote (db_password c))) (to_lower host) (auth_port port)"
proof -
  let ?s = "s\<lparr>su_scheme := async_scheme (su_scheme s)\<rparr>"
  have n: "su_netloc ?s = netloc_of user old host port" using assms(2) by simp
  have w: "with_password ?s (split_username ?s) (db_password c) = Inr s'"
    using with_password_ok(1) [OF assms(3) n] assms(5) by simp
  have u: "split_username ?s = Some user" "user \<noteq> []"
    using netloc_parts(1) [OF assms(3) n] assms(3) by (simp_all add: parts_ok_def plain_part_def)
  show "build_url b c True = Inr (geturl s')"
    using w by (simp add: build_url_def assms(4) urlsplit_geturl [OF assms(1)])
  show "build_database_url b (db_url c) (Some (db_password c)) = Inr (geturl (if db_password c = [] then ?s else s'))"
    using w u by (simp add: build_database_url_def assms(4) urlsplit_geturl [OF assms(1)])
  show p: "parts_ok user (Some (quote (db_password c))) (to_lower host) (auth_port port)"
    by (rule with_password_ok(2) [OF assms(3,2)])
  show "split_ok b s'"
    using split_ok_netloc [OF async_scheme_ok [OF assms(1)] p] assms(5) by simp
qed

text \<open> C32. An engine for the settings of a database is the same whether its manager makes it or
  \<open>create_database_engine\<close> with the same arguments, unless the password is empty: the library is called with the same URL and the same
  keyword arguments.  The URL of the manager has the password, which reads back whatever characters it has, in place of any other,
  and the scheme of the asynchronous driver; everything else is that of the settings, the host in lower
  case.  For an empty password that URL has an empty one, in place of any other, while \<open>create_database_engine\<close>
  keeps the network location of the settings, with the password in it if there is one. \<close>
theorem database_engines_agree:
  assumes "\<forall>url creator kw kw' w. map_of kw = map_of kw' \<longrightarrow> sl_create_async_engine lib url creator kw w = sl_create_async_engine lib url creator kw' w"
    and "split_ok b s" "su_netloc s = netloc_of user old host port" "parts_ok user old host port"
    and "db_url c = geturl s"
  shows "\<exists>url url' s'.
    fst (manager_create_engine lib b (new_engine_manager (External c) args, w)) = fst (sl_create_async_engine lib url None (create_engine_kwargs (options_of c args)) w) \<and>
    create_database_engine lib b (db_url c) (Some (db_password c)) (options_of c args) w = sl_create_async_engine lib url' None (create_engine_kwargs (options_of c args)) w \<and>
    urlsplit b url = Some s' \<and> su_scheme s' = async_scheme (su_scheme s) \<and> split_username s' = Some user \<and>
    map_option unquote (split_password s') = Some (db_password c) \<and> split_hostname s' = Some (to_lower host) \<and>
    split_port s' = Some (if port = Some 0 then None else port) \<and>
    su_path s' = su_path s \<and> su_query s' = su_query s \<and> su_fragment s' = su_fragment s \<and>
    (if db_password c \<noteq> [] then url' = url
     else urlsplit b url' = Some (s\<lparr>su_scheme := async_scheme (su_scheme s)\<rparr>) \<and> (old \<noteq> Some [] \<longrightarrow> url' \<noteq> url))"
proof -
  let ?a = "s\<lparr>su_scheme := async_scheme (su_scheme s)\<rparr>"
  let ?s = "?a\<lparr>su_netloc := netloc_of user (Some (quote (db_password c))) (to_lower host) (auth_port port)\<rparr>"
  let ?u = "if db_password c = [] then ?a else ?s"
  let ?m = "new_engine_manager (External c) args"
  have eq: "?s = s\<lparr>su_scheme := async_scheme (su_scheme s), su_netloc := netloc_of user (Some (quote (db_password c))) (to_lower host) (auth_port port)\<rparr>"
    by simp
  note u = built_url [OF assms(2-5) eq]
  have "su_netloc ?s = netloc_of user (Some (quote (db_password c))) (to_lower host) (auth_port port)" by simp
  note parts = netloc_parts [OF u(4) this]
  have split: "urlsplit b (geturl ?s) = Some ?s" by (rule urlsplit_geturl [OF u(3)])
  have "sl_create_async_engine lib (geturl ?s) None (manager_kwargs ?m c) w = sl_create_async_engine lib (geturl ?s) None (create_engine_kwargs (options_of c args)) w"
    using assms(1) kwargs_agree by blast
  moreover have "em_engine ?m = None" "em_config ?m = External c" by (simp_all add: new_engine_manager_def)
  ultimately have m: "fst (manager_create_engine lib b (?m, w)) = fst (sl_create_async_engine lib (geturl ?s) None (create_engine_kwargs (options_of c args)) w)"
    by (simp add: manager_create_engine_def external_create_engine_def url_eff_def u(1) eff_simps split: prod.split sum.split)
  have d: "create_database_engine lib b (db_url c) (Some (db_password c)) (options_of c args) w
      = sl_create_async_engine lib (geturl ?u) None (create_engine_kwargs (options_of c args)) w"
    by (simp only: create_database_engine_def url_eff_def u(2) lift_eff_def bind_eff_apply map_sum.simps) simp
  have e: "urlsplit b (geturl ?a) = Some ?a" by (rule urlsplit_geturl [OF async_scheme_ok [OF assms(2)]])
  have ne: "geturl ?a \<noteq> geturl ?s" if "db_password c = []" "old \<noteq> Some []"
  proof
    assume "geturl ?a = geturl ?s"
    then have "split_password ?a = split_password ?s" using split e by simp
    moreover have "split_password ?a = old" using netloc_parts(2) [OF assms(4), of ?a] assms(3) by simp
    ultimately show False using that parts(2) by (simp add: quote_def)
  qed
  show ?thesis
    by (intro exI [of _ "geturl ?s"] exI [of _ "geturl ?u"] exI [of _ ?s] conjI m d split) (use e ne parts in \<open>auto simp: auth_port_def\<close>)
qed

definition demo_split :: split_url where
  "demo_split = \<lparr>su_scheme = ''postgresql'', su_netloc = ''u@Host'', su_path = ''/d'', su_query = [], su_fragment = []\<rparr>"

definition demo_database :: database_config where
  "demo_database = \<lparr>dc_isolation_level = None, dc_max_overflow = Some 3, dc_pool_pre_ping = None, dc_pool_recycle = None, dc_pool_size = None,
     dc_pool_timeout = None, db_url = geturl demo_split, db_password = ''p/?''\<rparr>"

lemma database_engines_agree_witness:
  "\<exists>url s'. create_database_engine demo_lib (\<lambda>_. True) ''postgresql://u@Host/d'' (Some ''p/?'') (options_of demo_database None) []
      = sl_create_async_engine demo_lib url None (create_engine_kwargs (options_of demo_database None)) [] \<and>
    urlsplit (\<lambda>_. True) url = Some s' \<and> su_scheme s' = ''postgresql+asyncpg'' \<and> split_hostname s' = Some ''host'' \<and>
    map_option unquote (split_password s') = Some ''p/?''"
proof -
  let ?b = "\<lambda>_ :: string. True" and ?c = demo_database
  have so: "split_ok ?b demo_split" by code_simp
  have net: "su_netloc demo_split = netloc_of ''u'' None ''Host'' None" by code_simp
  have "plain_part ''u''" "plain_part ''Host''" by code_simp+
  then have po: "parts_ok ''u'' None ''Host'' None" by (simp add: parts_ok_def)
  have url: "db_url ?c = geturl demo_split" and p: "db_password ?c = ''p/?''" by (simp_all add: demo_database_def)
  have pw: "db_password ?c \<noteq> []" by (simp add: p)
  have lib: "\<forall>url creator kw kw' w. map_of kw = map_of kw' \<longrightarrow>
      sl_create_async_engine demo_lib url creator kw w = sl_create_async_engine demo_lib url creator kw' w" by (simp add: demo_lib_def)
  have g: "geturl demo_split = ''postgresql://u@Host/d''" and a: "async_scheme (su_scheme demo_split) = ''postgresql+asyncpg''"
    and l: "to_lower ''Host'' = ''host''" by code_simp+
  have "\<exists>url s'. create_database_engine demo_lib ?b (db_url ?c) (Some (db_password ?c)) (options_of ?c None) []
      = sl_create_async_engine demo_lib url None (create_engine_kwargs (options_of ?c None)) [] \<and>
    urlsplit ?b url = Some s' \<and> su_scheme s' = async_scheme (su_scheme demo_split) \<and> split_hostname s' = Some (to_lower ''Host'') \<and>
    map_option unquote (split_password s') = Some (db_password ?c)"
  proof -
    obtain url s' where
      "create_database_engine demo_lib ?b (db_url ?c) (Some (db_password ?c)) (options_of ?c None) []
        = sl_create_async_engine demo_lib url None (create_engine_kwargs (options_of ?c None)) []"
      "urlsplit ?b url = Some s'" "su_scheme s' = async_scheme (su_scheme demo_split)" "split_hostname s' = Some (to_lower ''Host'')"
      "map_option unquote (split_password s') = Some (db_password ?c)"
      using database_engines_agree [OF lib so net po url, of None "[]"] pw by (elim exE conjE) (simp only: if_True not_False_eq_True)
    then show ?thesis by (intro exI conjI)
  qed
  then show ?thesis unfolding url g a l p .
qed

end
