(* ===== verification/Dependencies.thy ===== *)
theory Dependencies
  imports Database
begin

text \<open>
  The dependencies of a web application that hold something for its requests (\<open>safir.dependencies\<close>):
  database sessions (\<open>db_session\<close>), an arq queue (\<open>arq\<close>), an HTTP client (\<open>http_client\<close>), a configuration
  (\<open>config\<close>) and its file (\<open>safir.pydantic._settings\<close>), the publishers of events (\<open>metrics\<close>), a logger (\<open>logger\<close>)
  and the headers of Gafaelfawr (\<open>gafaelfawr\<close>).
\<close>

subsection \<open>The database session dependency\<close>

text \<open>The state next to the world; a session maker is known by its engine.\<close>

record db_dependency =
  dd_engine :: "int option"
  dd_engine_created :: bool
  dd_sessionmaker :: "int option"

definition new_db_dependency :: db_dependency where
  "new_db_dependency = \<lparr>dd_engine = None, dd_engine_created = False, dd_sessionmaker = None\<rparr>"

text \<open>A session is made by the engine of the session maker.\<close>

definition open_session :: "(db_dependency \<times> 'w, db_error, int) eff" where
  "open_session = bind_eff (read_eff (\<lambda>(d, _). dd_sessionmaker d)) (\<lambda>m. case m of
     None \<Rightarrow> raise_eff (DbRuntimeError ''db_session_dependency not initialized'')
   | Some engine \<Rightarrow> ret_eff engine)"

definition db_aclose :: "'w sql_lib \<Rightarrow> (db_dependency \<times> 'w, db_error, unit) eff" where
  "db_aclose lib = (\<lambda>(d, w). case dd_engine d of
     None \<Rightarrow> (Inr (), (d, w))
   | Some engine \<Rightarrow>
       if \<not> dd_engine_created d then (Inr (), (d, w))
       else (case sl_dispose lib engine w of
         (Inl e, w) \<Rightarrow> (Inl e, (d, w))
       | (Inr _, w) \<Rightarrow> (Inr (), (d\<lparr>dd_engine := None, dd_engine_created := False, dd_sessionmaker := None\<rparr>, w))))"

definition close_old_engine :: "'w sql_lib \<Rightarrow> (db_dependency \<times> 'w, db_error, unit) eff" where
  "close_old_engine lib =
     bind_eff (read_eff (\<lambda>(d, _). dd_engine d)) (\<lambda>engine. if engine \<noteq> None then db_aclose lib else ret_eff ())"

definition db_initialize ::
  "'w sql_lib \<Rightarrow> (string \<Rightarrow> bool) \<Rightarrow> string \<Rightarrow> string option \<Rightarrow> engine_options \<Rightarrow> (db_dependency \<times> 'w, db_error, unit) eff" where
  "db_initialize lib bracket_ok url password opts =
     bind_eff (close_old_engine lib) (\<lambda>_.
     bind_eff (on_world (create_database_engine lib bracket_ok url password opts)) (\<lambda>engine.
     modify_eff (\<lambda>(d, w). (d\<lparr>dd_engine := Some engine, dd_engine_created := True, dd_sessionmaker := Some engine\<rparr>, w))))"

definition db_initialize_with_engine :: "'w sql_lib \<Rightarrow> int \<Rightarrow> (db_dependency \<times> 'w, db_error, unit) eff" where
  "db_initialize_with_engine lib engine =
     bind_eff (close_old_engine lib) (\<lambda>_.
     modify_eff (\<lambda>(d, w). (d\<lparr>dd_engine := Some engine, dd_sessionmaker := Some engine\<rparr>, w)))"

text \<open>Any sequence of uses in a world with the engines of others, which it may be given.\<close>

inductive db_reach :: "'w sql_lib \<Rightarrow> (string \<Rightarrow> bool) \<Rightarrow> ('w \<Rightarrow> resource set) \<Rightarrow> 'w \<Rightarrow> db_dependency \<times> 'w \<Rightarrow> bool"
  for lib bracket_ok live w0 where
  db_new: "db_reach lib bracket_ok live w0 (new_db_dependency, w0)"
| db_init: "db_reach lib bracket_ok live w0 s \<Longrightarrow> db_reach lib bracket_ok live w0 (snd (db_initialize lib bracket_ok url password opts s))"
| db_init_with: "db_reach lib bracket_ok live w0 s \<Longrightarrow> Engine engine \<in> live w0 \<Longrightarrow>
    db_reach lib bracket_ok live w0 (snd (db_initialize_with_engine lib engine s))"
| db_close: "db_reach lib bracket_ok live w0 s \<Longrightarrow> db_reach lib bracket_ok live w0 (snd (db_aclose lib s))"

text \<open>The engine of its own.\<close>

definition own_engine :: "db_dependency \<Rightarrow> resource set" where
  "own_engine d = (if dd_engine_created d then (case dd_engine d of None \<Rightarrow> {} | Some e \<Rightarrow> {Engine e}) else {})"

definition db_inv :: "('w \<Rightarrow> resource set) \<Rightarrow> 'w \<Rightarrow> db_dependency \<times> 'w \<Rightarrow> bool" where
  "db_inv live w0 s \<longleftrightarrow> (case s of (d, w) \<Rightarrow>
     live w = own_engine d \<union> live w0 \<and> own_engine d \<inter> live w0 = {} \<and> dd_sessionmaker d = dd_engine d \<and>
     (dd_engine_created d \<longrightarrow> dd_engine d \<noteq> None) \<and>
     (\<forall>e. \<not> dd_engine_created d \<longrightarrow> dd_engine d = Some e \<longrightarrow> Engine e \<in> live w0))"

text \<open>Closing, with the engine gone when it succeeds.\<close>

lemma db_inv_aclose:
  assumes "sql_lib_ok lib live" "db_inv live w0 (d, w)" "db_aclose lib (d, w) = (r, (d', w'))"
  shows "db_inv live w0 (d', w') \<and> (r = Inr () \<longrightarrow> \<not> dd_engine_created d')"
proof (cases "dd_engine_created d")
  case False
  then have "d' = d" "w' = w" using assms(3) by (auto simp: db_aclose_def split: option.splits)
  then show ?thesis using assms(2) False by simp
next
  case True
  then obtain e where e: "dd_engine d = Some e" using assms(2) by (auto simp: db_inv_def)
  have "closes live (Engine e) (sl_dispose lib e)" using assms(1) by (simp add: sql_lib_ok_def)
  then show ?thesis
  proof (cases rule: closesE [of live _ _ w])
    case (failed x w1)
    then show ?thesis using assms(2,3) True e by (auto simp: db_aclose_def db_inv_def own_engine_def)
  next
    case (closed w1)
    then have "d' = d\<lparr>dd_engine := None, dd_engine_created := False, dd_sessionmaker := None\<rparr>" "w' = w1"
      using assms(3) True e by (auto simp: db_aclose_def)
    then show ?thesis using assms(2) True e closed(2) by (auto simp: db_inv_def own_engine_def)
  qed
qed

lemma db_inv_close_old:
  assumes "sql_lib_ok lib live" "db_inv live w0 (d, w)" "close_old_engine lib (d, w) = (r, (d', w'))"
  shows "db_inv live w0 (d', w') \<and> (r = Inr () \<longrightarrow> \<not> dd_engine_created d')"
proof (cases "dd_engine d")
  case None
  then have "d' = d" "w' = w" using assms(3) by (simp_all add: close_old_engine_def eff_simps)
  then show ?thesis using assms(2) None by (auto simp: db_inv_def)
next
  case (Some e)
  then have "db_aclose lib (d, w) = (r, (d', w'))" using assms(3) by (simp add: close_old_engine_def eff_simps)
  then show ?thesis by (rule db_inv_aclose [OF assms(1,2)])
qed

lemma db_inv_initialize:
  assumes "sql_lib_ok lib live" "db_inv live w0 (d, w)"
  shows "db_inv live w0 (snd (db_initialize lib b url password opts (d, w)))"
proof (cases "close_old_engine lib (d, w)")
  case (fields r d1 w1)
  note inv = db_inv_close_old [OF assms fields]
  show ?thesis
  proof (cases r)
    case (Inl e)
    then show ?thesis using fields inv by (simp add: db_initialize_def eff_simps)
  next
    case (Inr u)
    then have c: "\<not> dd_engine_created d1" using inv by simp
    have "makes live Engine (create_database_engine lib b url password opts)" by (rule create_database_engine_makes [OF assms(1)])
    then show ?thesis
    proof (cases rule: makesE [of live Engine _ w1])
      case (failed e w2)
      then show ?thesis using fields inv Inr by (simp add: db_initialize_def on_world_def eff_simps db_inv_def)
    next
      case (made n w2)
      then show ?thesis using fields inv Inr c
        by (auto simp: db_initialize_def on_world_def eff_simps db_inv_def own_engine_def)
    qed
  qed
qed

lemma db_inv_initialize_with:
  assumes "sql_lib_ok lib live" "db_inv live w0 (d, w)" "Engine engine \<in> live w0"
  shows "db_inv live w0 (snd (db_initialize_with_engine lib engine (d, w)))"
proof (cases "close_old_engine lib (d, w)")
  case (fields r d1 w1)
  note inv = db_inv_close_old [OF assms(1,2) fields]
  show ?thesis
  proof (cases r)
    case (Inl e)
    then show ?thesis using fields inv by (simp add: db_initialize_with_engine_def eff_simps)
  next
    case (Inr u)
    then show ?thesis using fields inv assms(3)
      by (auto simp: db_initialize_with_engine_def eff_simps db_inv_def own_engine_def)
  qed
qed

lemma db_inv_close:
  assumes "sql_lib_ok lib live" "db_inv live w0 s"
  shows "db_inv live w0 (snd (db_aclose lib s))"
proof -
  obtain d w where s: "s = (d, w)" by (cases s)
  obtain r d' w' where c: "db_aclose lib (d, w) = (r, (d', w'))" by (cases "db_aclose lib (d, w)") auto
  show ?thesis using db_inv_aclose [OF assms(1) assms(2) [unfolded s] c] c s by simp
qed

lemma db_reach_inv:
  assumes "db_reach lib b live w0 s" "sql_lib_ok lib live"
  shows "db_inv live w0 s"
  using assms(1)
proof (induction rule: db_reach.induct)
  case db_new
  then show ?case by (simp add: new_db_dependency_def db_inv_def own_engine_def)
next
  case (db_init s url password opts)
  obtain d w where "s = (d, w)" by (cases s)
  then show ?case using db_inv_initialize [OF assms(2), of w0 d w] db_init.IH by simp
next
  case (db_init_with s engine)
  obtain d w where "s = (d, w)" by (cases s)
  then show ?case using db_inv_initialize_with [OF assms(2), of w0 d w] db_init_with by simp
next
  case (db_close s)
  then show ?case using db_inv_close [OF assms(2)] by blast
qed

text \<open> C28. Whatever sequence of initializations, with an engine of its own or with one of others, and of
  closings, failing or not, the dependency goes through: of the engines it made exactly the one in use is
  open, no engine of others is closed, and sessions come from the engine in use, which is open;
  when closing succeeds all it made is closed, and after closing an engine of its own there are no sessions. \<close>
theorem db_session_engines:
  assumes "sql_lib_ok lib live" "db_reach lib b live w0 (d, w)"
  shows "live w = own_engine d \<union> live w0 \<and> own_engine d \<inter> live w0 = {} \<and>
    (case dd_engine d of
       None \<Rightarrow> (\<exists>e. fst (open_session (d, w)) = Inl e)
     | Some e \<Rightarrow> fst (open_session (d, w)) = Inr e \<and> Engine e \<in> live w) \<and>
    (case db_aclose lib (d, w) of
       (Inl _, (d', w')) \<Rightarrow> d' = d \<and> live w' = live w
     | (Inr _, (d', w')) \<Rightarrow> live w' = live w0 \<and> (dd_engine_created d \<longrightarrow> (\<exists>e. fst (open_session (d', w')) = Inl e)))"
proof -
  have inv: "db_inv live w0 (d, w)" by (rule db_reach_inv [OF assms(2,1)])
  then have m: "dd_sessionmaker d = dd_engine d" "live w = own_engine d \<union> live w0" "own_engine d \<inter> live w0 = {}"
    by (simp_all add: db_inv_def)
  have s: "case dd_engine d of
       None \<Rightarrow> (\<exists>e. fst (open_session (d, w)) = Inl e)
     | Some e \<Rightarrow> fst (open_session (d, w)) = Inr e \<and> Engine e \<in> live w"
    using inv by (cases "dd_engine d") (auto simp: open_session_def eff_simps db_inv_def own_engine_def)
  have c: "case db_aclose lib (d, w) of
       (Inl _, (d', w')) \<Rightarrow> d' = d \<and> live w' = live w
     | (Inr _, (d', w')) \<Rightarrow> live w' = live w0 \<and> (dd_engine_created d \<longrightarrow> (\<exists>e. fst (open_session (d', w')) = Inl e))"
  proof (cases "dd_engine_created d")
    case False
    then show ?thesis using m by (cases "dd_engine d") (simp_all add: db_aclose_def own_engine_def)
  next
    case True
    then obtain e where e: "dd_engine d = Some e" using inv by (auto simp: db_inv_def)
    have "closes live (Engine e) (sl_dispose lib e)" using assms(1) by (simp add: sql_lib_ok_def)
    then show ?thesis
    proof (cases rule: closesE [of live _ _ w])
      case (failed x w1)
      then show ?thesis using True e by (simp add: db_aclose_def)
    next
      case (closed w1)
      then show ?thesis using True e m by (auto simp: db_aclose_def own_engine_def open_session_def eff_simps)
    qed
  qed
  show ?thesis using m s c by blast
qed

definition no_options :: engine_options where
  "no_options = \<lparr>eo_connect_args = None, eo_isolation_level = None, eo_max_overflow = None, eo_pool_pre_ping = None,
     eo_pool_recycle = None, eo_pool_size = None, eo_pool_timeout = None\<rparr>"

lemma db_session_engines_witness:
  "\<exists>d w. db_reach demo_lib (\<lambda>_. True) set [Engine 3] (d, w) \<and> fst (open_session (d, w)) = Inr 4 \<and> set w = {Engine 3, Engine 4}"
proof -
  let ?s = "snd (db_initialize demo_lib (\<lambda>_. True) ''postgresql://u@h/d'' None no_options (new_db_dependency, [Engine 3]))"
  let ?d = "\<lparr>dd_engine = Some 4, dd_engine_created = True, dd_sessionmaker = Some 4\<rparr>"
  have "build_database_url (\<lambda>_. True) ''postgresql://u@h/d'' None = Inr ''postgresql+asyncpg://u@h/d''" by code_simp
  then have s: "?s = (?d, [Engine 4, Engine 3])"
    by (simp add: db_initialize_def close_old_engine_def create_database_engine_def url_eff_def on_world_def eff_simps demo_lib_def new_db_dependency_def)
  have "db_reach demo_lib (\<lambda>_. True) set [Engine 3] ?s" by (intro db_reach.intros)
  then have r: "db_reach demo_lib (\<lambda>_. True) set [Engine 3] (?d, [Engine 4, Engine 3])" unfolding s .
  have "fst (open_session (?d, [Engine 4, Engine 3])) = Inr 4"
    using db_session_engines [OF demo_lib_ok(1) r] by simp
  then show ?thesis using r by (intro exI [of _ ?d] exI [of _ "[Engine 4, Engine 3]"]) auto
qed

subsection \<open>The other dependencies\<close>

text \<open>
  The arq queue: \<open>make_redis\<close> connects to Redis, \<open>make_mock\<close> makes a mock queue, and \<open>close\<close> closes
  a queue.
\<close>

definition arq_initialize ::
  "('r \<Rightarrow> ('w, db_error, 'q) eff) \<Rightarrow> 'q \<Rightarrow> bool \<Rightarrow> 'r option \<Rightarrow> ('q option \<times> 'w, db_error, unit) eff" where
  "arq_initialize make_redis make_mock production redis_settings = (\<lambda>(queue, w).
     if production then
       (case redis_settings of
          None \<Rightarrow> (Inl (DbRuntimeError ''The redis_settings argument must be set for arq in production.''), (queue, w))
        | Some settings \<Rightarrow> (case make_redis settings w of
            (Inl e, w) \<Rightarrow> (Inl e, (queue, w))
          | (Inr q, w) \<Rightarrow> (Inr (), (Some q, w))))
     else (Inr (), (Some make_mock, w)))"

definition arq_call_dependency :: "('q option \<times> 'w, db_error, 'q) eff" where
  "arq_call_dependency = (\<lambda>(queue, w). case queue of
     None \<Rightarrow> (Inl (DbRuntimeError ''ArqDependency is not initialized''), (queue, w))
   | Some q \<Rightarrow> (Inr q, (queue, w)))"

definition arq_aclose :: "('q \<Rightarrow> ('w, db_error, unit) eff) \<Rightarrow> ('q option \<times> 'w, db_error, unit) eff" where
  "arq_aclose close = (\<lambda>(queue, w). case queue of
     None \<Rightarrow> (Inr (), (queue, w))
   | Some q \<Rightarrow> (case close q w of (Inl e, w) \<Rightarrow> (Inl e, (queue, w)) | (Inr _, w) \<Rightarrow> (Inr (), (None, w))))"

text \<open>The configuration, loaded from its file when it is first asked for; an object is always true as a condition.\<close>

record 'c config_dependency =
  cd_path :: string
  cd_config :: "'c option"

definition load_config :: "(string \<Rightarrow> db_error + 'c) \<Rightarrow> ('c config_dependency, db_error, 'c) eff" where
  "load_config from_file = (\<lambda>s. case cd_config s of
     Some c \<Rightarrow> (Inr c, s)
   | None \<Rightarrow> (case from_file (cd_path s) of Inl e \<Rightarrow> (Inl e, s) | Inr c \<Rightarrow> (Inr c, s\<lparr>cd_config := Some c\<rparr>)))"

definition set_config_path :: "(string \<Rightarrow> db_error + 'c) \<Rightarrow> string \<Rightarrow> ('c config_dependency, db_error, unit) eff" where
  "set_config_path from_file path = (\<lambda>s. let s = s\<lparr>cd_path := path\<rparr> in
     case from_file path of Inl e \<Rightarrow> (Inl e, s) | Inr c \<Rightarrow> (Inr (), s\<lparr>cd_config := Some c\<rparr>))"

text \<open>A configuration once loaded stays the one of the path, also when loading that of a new path fails.\<close>

lemma load_config_again:
  "load_config from_file s = (Inr c, t) \<Longrightarrow> load_config from_file t = (Inr c, t)"
  by (auto simp: load_config_def split: option.splits sum.splits)

lemma set_config_path_then_load:
  "set_config_path from_file path s = (Inr (), t) \<Longrightarrow> \<exists>c. from_file path = Inr c \<and> load_config from_file t = (Inr c, t)"
  by (auto simp: set_config_path_def load_config_def Let_def split: sum.splits)

text \<open>
  The HTTP client, made with a timeout in seconds and redirects when it is first asked for.
\<close>

definition default_http_timeout :: int where
  "default_http_timeout = 20"

definition http_client_dependency :: "(int \<Rightarrow> bool \<Rightarrow> ('w, 'e, 'h) eff) \<Rightarrow> ('h option \<times> 'w, 'e, 'h) eff" where
  "http_client_dependency make_client = (\<lambda>(client, w). case client of
     Some c \<Rightarrow> (Inr c, (client, w))
   | None \<Rightarrow> (case make_client default_http_timeout True w of
       (Inl e, w) \<Rightarrow> (Inl e, (client, w)) | (Inr c, w) \<Rightarrow> (Inr c, (Some c, w))))"

definition http_client_aclose :: "('h \<Rightarrow> ('w, 'e, unit) eff) \<Rightarrow> ('h option \<times> 'w, 'e, unit) eff" where
  "http_client_aclose close = (\<lambda>(client, w). case client of
     None \<Rightarrow> (Inr (), (client, w))
   | Some c \<Rightarrow> (case close c w of (Inl e, w) \<Rightarrow> (Inl e, (client, w)) | (Inr _, w) \<Rightarrow> (Inr (), (None, w))))"

text \<open>The publishers of events: an event maker, whose publishers \<open>initialize\<close> makes, and whether it was initialized.\<close>

definition initialize_events :: "'m \<Rightarrow> ('m \<Rightarrow> ('w, db_error, unit) eff) \<Rightarrow> (bool \<times> 'w, db_error, unit) eff" where
  "initialize_events manager maker_initialize = (\<lambda>(initialized, w). case maker_initialize manager w of
     (Inl e, w) \<Rightarrow> (Inl e, (initialized, w)) | (Inr _, w) \<Rightarrow> (Inr (), (True, w)))"

definition dependency_events :: "'v \<Rightarrow> (bool \<times> 'w, db_error, 'v) eff" where
  "dependency_events maker = (\<lambda>(initialized, w).
     if \<not> initialized then (Inl (DbRuntimeError ''EventsDependency not initialized''), (initialized, w))
     else (Inr maker, (initialized, w)))"

text \<open>
  The logger: made when first asked for, and bound anew to the request, with the host of its client
  and its user agent when it has them, and to a new identifier.
\<close>

record log_request =
  lr_method :: string
  lr_url :: string
  lr_client_host :: "string option"
  lr_user_agent :: "string option"

definition request_data :: "log_request \<Rightarrow> (string \<times> string) list" where
  "request_data r =
     [(''requestMethod'', lr_method r), (''requestUrl'', lr_url r)]
     @ (case lr_client_host r of None \<Rightarrow> [] | Some h \<Rightarrow> [(''remoteIp'', h)])
     @ (case lr_user_agent r of None \<Rightarrow> [] | Some a \<Rightarrow> if a = [] then [] else [(''userAgent'', a)])"

definition logger_dependency ::
  "'l option \<Rightarrow> ('l \<Rightarrow> (string \<times> string) list \<Rightarrow> string \<Rightarrow> 'l) \<Rightarrow> (string option) \<Rightarrow> log_request \<Rightarrow> string \<Rightarrow> ('l option, db_error, 'l) eff" where
  "logger_dependency get_logger new_logger logger_name request uuid = (\<lambda>logger.
     case (case logger of Some l \<Rightarrow> Some l | None \<Rightarrow> get_logger) of
       None \<Rightarrow> (Inl (DbRuntimeError (''Unable to get logger for '' @ none_str logger_name)), None)
     | Some l \<Rightarrow> (Inr (new_logger l (request_data request) uuid), Some l))"

subsection \<open>Headers of Gafaelfawr\<close>

text \<open>
  The headers of a request, with names of any case; the framework answers a request that lacks one that a
  dependency needs with a validation error for the header.
\<close>

datatype header_error = HeaderMissing string

definition required_header :: "string \<Rightarrow> (string \<times> string) list \<Rightarrow> header_error + string" where
  "required_header name headers = (case List.find (\<lambda>(k, _). to_lower k = name) headers of
     None \<Rightarrow> Inl (HeaderMissing name) | Some (_, v) \<Rightarrow> Inr v)"

definition auth_dependency :: "(string \<times> string) list \<Rightarrow> header_error + string" where
  "auth_dependency headers = required_header ''x-auth-request-user'' headers"

definition auth_delegated_token_dependency :: "(string \<times> string) list \<Rightarrow> header_error + string" where
  "auth_delegated_token_dependency headers = required_header ''x-auth-request-token'' headers"

definition auth_logger_dependency :: "('l \<Rightarrow> string \<times> string \<Rightarrow> 'l) \<Rightarrow> string \<Rightarrow> 'l \<Rightarrow> 'l" where
  "auth_logger_dependency bind user logger = bind logger (''user'', user)"

text \<open>The first header of the name decides who the user is, whatever follows.\<close>

lemma auth_dependency_first: "to_lower name = ''x-auth-request-user'' \<Longrightarrow> auth_dependency ((name, user) # headers) = Inr user"
  by (simp add: auth_dependency_def required_header_def)

subsection \<open>Settings from a YAML file\<close>

text \<open>
  The sources of the settings, the ones of higher priority first; the keyword arguments are those of the file.  The
  library takes a setting from the first source that has it.
\<close>

definition settings_customise_sources :: "'s \<Rightarrow> 's \<Rightarrow> 's \<Rightarrow> 's \<Rightarrow> 's list" where
  "settings_customise_sources init_settings env_settings dotenv_settings file_secret_settings = [env_settings, init_settings]"

definition settings_from_file ::
  "(string \<Rightarrow> db_error + string) \<Rightarrow> (string \<Rightarrow> db_error + json) \<Rightarrow> (json \<Rightarrow> db_error + 'c) \<Rightarrow> string \<Rightarrow> db_error + 'c" where
  "settings_from_file read safe_load model_validate path = (case read path of
     Inl e \<Rightarrow> Inl e
   | Inr text \<Rightarrow> (case safe_load text of Inl e \<Rightarrow> Inl e | Inr d \<Rightarrow> model_validate d))"

definition setting_value :: "(string \<rightharpoonup> json) list \<Rightarrow> string \<Rightarrow> json option" where
  "setting_value sources name = (case List.find (\<lambda>s. s name \<noteq> None) sources of None \<Rightarrow> None | Some s \<Rightarrow> s name)"

text \<open>The environment overrides the file, and nothing is read from other sources.\<close>

lemma environment_overrides_file:
  "setting_value (settings_customise_sources file environ dotenv secrets) name =
     (case environ name of Some v \<Rightarrow> Some v | None \<Rightarrow> file name)"
  by (cases "environ name"; cases "file name") (simp_all add: setting_value_def settings_customise_sources_def)

text \<open>A file that is read into settings is what the configuration dependency then gives.\<close>

lemma load_config_from_file:
  assumes "read path = Inr t" "safe_load t = Inr d" "model_validate d = Inr c"
  shows "load_config (settings_from_file read safe_load model_validate) \<lparr>cd_path = path, cd_config = None\<rparr> =
    (Inr c, \<lparr>cd_path = path, cd_config = Some c\<rparr>)"
  using assms by (simp add: load_config_def settings_from_file_def)

end
