(* ===== verification/PydanticTypes.thy ===== *)
theory PydanticTypes
  imports Pagination
begin

text \<open>
  Validators and types for Pydantic models: \<open>safir.pydantic._validators\<close> and \<open>_types\<close>.  A validator is
  the function from the value given to the error or the value of the field; what Pydantic does before and
  after it is not part of it.
\<close>

subsection \<open>Datetimes\<close>

text \<open>A value of any type: what the validators tell apart.\<close>

datatype any_value = AnyNone | AnyInt int | AnyStr string | AnyDatetime py_datetime | AnyOther

text \<open>
  \<open>range_error\<close> is the error of the platform for a number of seconds out of the range of datetimes.  A
  conversion to UTC beyond the range is an \<open>OverflowError\<close>.
\<close>

definition normalize_datetime :: "(int \<Rightarrow> time_error) \<Rightarrow> any_value \<Rightarrow> time_error + py_datetime option" where
  "normalize_datetime range_error v = (case v of
     AnyNone \<Rightarrow> Inr None
   | AnyInt n \<Rightarrow>
       if us_ok (epoch_us + n * 1000000) then Inr (Some \<lparr>dt_us = epoch_us + n * 1000000, dt_tz = FixedTz 0\<rparr>)
       else Inl (range_error n)
   | AnyDatetime t \<Rightarrow> (case utcoffset (dt_tz t) of
       Some offset \<Rightarrow>
         if us_ok (dt_us t - offset) then Inr (Some \<lparr>dt_us = dt_us t - offset, dt_tz = FixedTz 0\<rparr>) else Inl TimeOverflowError
     | None \<Rightarrow> Inr (Some (t\<lparr>dt_tz := FixedTz 0\<rparr>)))
   | _ \<Rightarrow> Inl TimeValueError)"

definition normalize_isodatetime :: "any_value \<Rightarrow> time_error + py_datetime option" where
  "normalize_isodatetime v = (case v of
     AnyNone \<Rightarrow> Inr None
   | AnyStr s \<Rightarrow> map_sum (\<lambda>e. e) Some (parse_isodatetime s)
   | _ \<Rightarrow> Inl TimeValueError)"

text \<open>The instant a value denotes, in microseconds, one without a time zone being in UTC.\<close>

fun instant_of :: "any_value \<Rightarrow> int option" where
  "instant_of (AnyInt n) = Some (epoch_us + n * 1000000)"
| "instant_of (AnyDatetime t) = Some (dt_us t - (case utcoffset (dt_tz t) of None \<Rightarrow> 0 | Some z \<Rightarrow> z))"
| "instant_of _ = None"

text \<open>The values that are datetimes, or numbers, within the range.\<close>

definition in_range :: "any_value \<Rightarrow> bool" where
  "in_range v \<longleftrightarrow> (case instant_of v of None \<Rightarrow> False | Some us \<Rightarrow> us_ok us)"

text \<open> C33. A value of the type \<open>UtcDatetime\<close> is in UTC and is the instant that was given, as seconds or as a datetime in
  any time zone or none: the validator accepts exactly what is within the range of datetimes, leaves what
  it made as it is, and what it made can be stored in the database and read back the same. \<close>
theorem utc_datetime_normalized:
  assumes "\<forall>t. v = AnyDatetime t \<longrightarrow> us_ok (dt_us t)"
  shows "(case normalize_datetime range_error v of
      Inl _ \<Rightarrow> v \<noteq> AnyNone \<and> \<not> in_range v
    | Inr None \<Rightarrow> v = AnyNone
    | Inr (Some t) \<Rightarrow> in_range v \<and> dt_tz t = FixedTz 0 \<and> instant_of v = Some (dt_us t) \<and>
        normalize_datetime range_error (AnyDatetime t) = Inr (Some t) \<and>
        (case datetime_to_db (Some t) of Inl _ \<Rightarrow> False | Inr stored \<Rightarrow> datetime_from_db stored = Inr (Some t)))"
proof (cases v)
  case (AnyInt n)
  then show ?thesis by (auto simp: normalize_datetime_def in_range_def datetime_to_db_def datetime_from_db_def)
next
  case (AnyDatetime t)
  then show ?thesis using assms
    by (cases "dt_tz t") (auto simp: normalize_datetime_def in_range_def datetime_to_db_def datetime_from_db_def)
qed (auto simp: normalize_datetime_def in_range_def)

lemma utc_datetime_normalized_witness:
  "normalize_datetime (\<lambda>_. TimeValueError) (AnyDatetime \<lparr>dt_us = 7200000000, dt_tz = OtherTz 3600000000\<rparr>)
     = Inr (Some \<lparr>dt_us = 3600000000, dt_tz = FixedTz 0\<rparr>) \<and>
   in_range (AnyDatetime \<lparr>dt_us = 7200000000, dt_tz = OtherTz 3600000000\<rparr>)"
proof -
  let ?v = "AnyDatetime \<lparr>dt_us = 7200000000, dt_tz = OtherTz 3600000000\<rparr>"
  have "\<forall>t. ?v = AnyDatetime t \<longrightarrow> us_ok (dt_us t)" by (auto simp: us_ok_def day_us_def)
  moreover have "normalize_datetime (\<lambda>_. TimeValueError) ?v = Inr (Some \<lparr>dt_us = 3600000000, dt_tz = FixedTz 0\<rparr>)"
    by (simp add: normalize_datetime_def us_ok_def day_us_def)
  ultimately show ?thesis using utc_datetime_normalized [of ?v "\<lambda>_. TimeValueError"] by simp
qed

text \<open>What the validator of \<open>IvoaIsoDatetime\<close> accepts is in UTC, and its serialization reads back to the second.\<close>

lemma normalize_isodatetime_utc:
  "normalize_isodatetime v = Inr (Some t) \<Longrightarrow> dt_tz t = FixedTz 0 \<and> (\<exists>s. v = AnyStr s \<and> parse_isodatetime s = Inr t)"
  by (auto simp: normalize_isodatetime_def parse_isodatetime_def split: any_value.splits option.splits if_splits)

subsection \<open>One of several settings\<close>

text \<open>The names in the messages.\<close>

definition settings_text :: "string list \<Rightarrow> string" where
  "settings_text settings =
     (if length settings = 2 then settings ! 0 @ '' and '' @ settings ! 1
      else py_join '', '' (butlast settings) @ '', and '' @ last settings)"

text \<open>\<open>given\<close> says which attributes of the model are there and not \<open>None\<close>; the loop over the names.\<close>

fun one_of_loop :: "string \<Rightarrow> (string \<Rightarrow> bool) \<Rightarrow> bool \<Rightarrow> string list \<Rightarrow> string + unit" where
  "one_of_loop options given seen [] = (if \<not> seen then Inl (''one of '' @ options @ '' must be given'') else Inr ())"
| "one_of_loop options given seen (setting # settings) =
     (if given setting then
        (if seen then Inl (''only one of '' @ options @ '' may be given'') else one_of_loop options given True settings)
      else one_of_loop options given seen settings)"

definition validate_exactly_one_of :: "string list \<Rightarrow> string + ((string \<Rightarrow> bool) \<Rightarrow> string + unit)" where
  "validate_exactly_one_of settings =
     (if length settings < 2 then Inl ''validate_exactly_one_of takes at least two field names''
      else Inr (\<lambda>given. one_of_loop (settings_text settings) given False settings))"

lemma one_of_loop_count:
  "one_of_loop options given seen settings =
     (let n = length (filter given settings) + (if seen then 1 else 0) in
      if n = 0 then Inl (''one of '' @ options @ '' must be given'')
      else if n = 1 then Inr () else Inl (''only one of '' @ options @ '' may be given''))"
  by (induction settings arbitrary: seen) (auto simp: Let_def)

text \<open>The validator accepts a model exactly when one of the attributes is given.\<close>

lemma exactly_one_of:
  assumes "validate_exactly_one_of settings = Inr validator"
  shows "validator given = Inr () \<longleftrightarrow> length (filter given settings) = 1"
  using assms by (auto simp: validate_exactly_one_of_def one_of_loop_count Let_def split: if_splits)

subsection \<open>URLs and durations\<close>

text \<open>The parts of a Pydantic URL; \<open>url_build\<close> puts one together, and the host is as \<open>unicode_host\<close> gives it.\<close>

record dsn =
  ds_scheme :: string
  ds_username :: "string option"
  ds_password :: "string option"
  ds_host :: "string option"
  ds_port :: "int option"
  ds_path :: "string option"
  ds_query :: "string option"
  ds_fragment :: "string option"

definition validate_env_dsn ::
  "(string \<rightharpoonup> string) \<Rightarrow> (dsn \<Rightarrow> dsn) \<Rightarrow> string \<Rightarrow> string \<Rightarrow> dsn \<Rightarrow> dsn option" where
  "validate_env_dsn env url_build port_var host_var v = (case env port_var of
     None \<Rightarrow> Some v
   | Some port \<Rightarrow>
       if port = [] then Some v
       else (case py_int port of
         None \<Rightarrow> None
       | Some p \<Rightarrow>
           let host = (case env host_var of
                 Some h \<Rightarrow> h
               | None \<Rightarrow> (case ds_host v of None \<Rightarrow> ''localhost'' | Some h \<Rightarrow> if h = [] then ''localhost'' else h));
               path = (case ds_path v of None \<Rightarrow> None
                 | Some path \<Rightarrow> if path = [] then Some path else Some (dropWhile (\<lambda>c. c = CHR ''/'') path))
           in Some (url_build (v\<lparr>ds_host := Some host, ds_port := Some p, ds_path := path\<rparr>))))"

definition validate_env_async_postgres_dsn :: "(string \<rightharpoonup> string) \<Rightarrow> (dsn \<Rightarrow> dsn) \<Rightarrow> dsn \<Rightarrow> dsn option" where
  "validate_env_async_postgres_dsn env url_build v = validate_env_dsn env url_build ''POSTGRES_5432_TCP_PORT'' ''POSTGRES_HOST'' v"

definition validate_env_redis_dsn :: "(string \<rightharpoonup> string) \<Rightarrow> (dsn \<Rightarrow> dsn) \<Rightarrow> dsn \<Rightarrow> dsn option" where
  "validate_env_redis_dsn env url_build v = validate_env_dsn env url_build ''REDIS_6379_TCP_PORT'' ''REDIS_HOST'' v"

text \<open>A duration as it is given: a text, a number of seconds, or a \<open>timedelta\<close> in microseconds; \<open>to_float\<close> is \<open>float\<close> of a text.\<close>

datatype 'f duration_input = DurText string | DurNumber 'f | DurDelta int

definition validate_human_timedelta :: "(string \<Rightarrow> 'f option) \<Rightarrow> 'f duration_input \<Rightarrow> time_error + 'f duration_input" where
  "validate_human_timedelta to_float v = (case v of
     DurText s \<Rightarrow> (case to_float s of
         Some x \<Rightarrow> Inr (DurNumber x)
       | None \<Rightarrow> map_sum (\<lambda>e. e) DurDelta (parse_timedelta s))
   | _ \<Rightarrow> Inr v)"

definition validate_seconds_timedelta :: "(string \<Rightarrow> 'f option) \<Rightarrow> 'f duration_input \<Rightarrow> time_error + 'f duration_input" where
  "validate_seconds_timedelta to_float v = (case v of
     DurText s \<Rightarrow> (case to_float s of Some x \<Rightarrow> Inr (DurNumber x) | None \<Rightarrow> Inl TimeValueError)
   | _ \<Rightarrow> Inr v)"

end
