(* ===== verification/WebErrors.thy ===== *)
theory WebErrors
  imports SlackAlerts
begin

text \<open>
  Errors of requests and of message handlers: \<open>safir.fastapi._errors\<close> and \<open>safir.models._errors\<close>, the
  error handler of FastStream (\<open>safir.kafka._exceptions\<close>), and the setup of Sentry
  (\<open>safir.sentry._config\<close>).
\<close>

subsection \<open>Errors of requests\<close>

datatype error_location = LocBody | LocHeader | LocPath | LocQuery

fun location_value :: "error_location \<Rightarrow> string" where
  "location_value LocBody = ''body''"
| "location_value LocHeader = ''header''"
| "location_value LocPath = ''path''"
| "location_value LocQuery = ''query''"

record error_detail =
  ed_loc :: "string list option"
  ed_msg :: string
  ed_type :: string

text \<open>An exception: its class gives \<open>error\<close> and \<open>status_code\<close>.\<close>

record client_request_error =
  ce_class :: string
  ce_error :: string
  ce_status_code :: int
  ce_message :: string
  ce_location :: "error_location option"
  ce_field_path :: "string list option"

definition client_request_error_class :: "string \<times> int" where
  "client_request_error_class = (''validation_failed'', 422)"

definition new_client_request_error ::
  "string \<Rightarrow> string \<times> int \<Rightarrow> string \<Rightarrow> error_location option \<Rightarrow> string list option \<Rightarrow> client_request_error" where
  "new_client_request_error name class_vars message location field_path =
     \<lparr>ce_class = name, ce_error = fst class_vars, ce_status_code = snd class_vars, ce_message = message,
      ce_location = location, ce_field_path = field_path\<rparr>"

datatype detail_value = DetailStr string | DetailList "string list"

definition client_error_to_dict :: "client_request_error \<Rightarrow> (string \<times> detail_value) list" where
  "client_error_to_dict e =
     [(''msg'', DetailStr (ce_message e)), (''type'', DetailStr (ce_error e))]
     @ (case ce_location e of
          None \<Rightarrow> []
        | Some l \<Rightarrow> (case ce_field_path e of
            None \<Rightarrow> [(''loc'', DetailList [location_value l])]
          | Some path \<Rightarrow> [(''loc'', DetailList (location_value l # path))]))"

text \<open>The answer: its status and the list under \<open>detail\<close>.\<close>

definition client_request_error_handler :: "client_request_error \<Rightarrow> int \<times> (string \<times> detail_value) list list" where
  "client_request_error_handler e = (ce_status_code e, [client_error_to_dict e])"

text \<open>A dictionary as \<open>ErrorDetail\<close> reads it.\<close>

definition detail_of_dict :: "(string \<times> detail_value) list \<Rightarrow> error_detail option" where
  "detail_of_dict d = (case (map_of d ''msg'', map_of d ''type'') of
     (Some (DetailStr m), Some (DetailStr t)) \<Rightarrow> (case map_of d ''loc'' of
         None \<Rightarrow> Some \<lparr>ed_loc = None, ed_msg = m, ed_type = t\<rparr>
       | Some (DetailList l) \<Rightarrow> Some \<lparr>ed_loc = Some l, ed_msg = m, ed_type = t\<rparr>
       | _ \<Rightarrow> None)
   | _ \<Rightarrow> None)"

text \<open>How the reporting code sees the exception, whose class derives from \<open>SlackIgnoredException\<close>.\<close>

definition client_error_alert :: "client_request_error \<Rightarrow> alert_exc" where
  "client_error_alert e = AlertIgnored (ce_class e) (ce_message e)"

lemma client_error_detail:
  "detail_of_dict (client_error_to_dict e) = Some \<lparr>ed_loc = map_option (\<lambda>l. location_value l # or_empty (ce_field_path e)) (ce_location e),
     ed_msg = ce_message e, ed_type = ce_error e\<rparr>"
  by (auto simp: detail_of_dict_def client_error_to_dict_def or_empty_def split: option.split)

subsection \<open>Handlers of messages\<close>

text \<open>The client of the FastStream handler, none at first, is set by \<open>initialize_slack\<close>.\<close>

definition initialize_slack :: "string \<Rightarrow> string \<Rightarrow> slack_client" where
  "initialize_slack hook_url application = \<lparr>sc_hook_url = hook_url, sc_application = application\<rparr>"

definition faststream_handle_error :: "'w alert_env \<Rightarrow> slack_client option \<Rightarrow> alert_exc \<Rightarrow> ('w, alert_exc, 'r) eff" where
  "faststream_handle_error env slack_client exc = (\<lambda>w. case report_exception env slack_client exc w of
     (Inl err, w) \<Rightarrow> (Inl (slack_error_exc err), w)
   | (Inr _, w) \<Rightarrow> (Inl exc, w))"

text \<open>A message handler behind the middleware.\<close>

definition faststream_middleware :: "'w alert_env \<Rightarrow> slack_client option \<Rightarrow> ('w, alert_exc, 'r) eff \<Rightarrow> ('w, alert_exc, 'r) eff" where
  "faststream_middleware env slack_client handler = catch_eff handler (faststream_handle_error env slack_client)"

lemma faststream_reports:
  assumes "\<forall>name msg. e \<noteq> AlertIgnored name msg"
  shows "faststream_middleware env client (\<lambda>w. (Inl e, f w)) w =
        (let captured = ae_capture env e (f w) in case client of
           None \<Rightarrow> (Inl e, captured)
         | Some slack \<Rightarrow> (case alert_payload env slack e captured of
             Inl err \<Rightarrow> (Inl (slack_error_exc err), captured)
           | Inr p \<Rightarrow> (Inl e, case ae_post env (sc_hook_url slack) p captured of
               (Inr _, w1) \<Rightarrow> w1 | (Inl _, w1) \<Rightarrow> ae_log_error env ''Posting Slack message failed'' w1)))"
proof -
  have r: "report_exception env client e (f w) = (case client of None \<Rightarrow> ret_eff () | Some slack \<Rightarrow> post_exception env slack e)
      (ae_capture env e (f w))"
    using assms by (cases e; hypsubst; simp add: report_exception_def eff_simps split: option.split)
  have m: "faststream_middleware env client (\<lambda>w. (Inl e, f w)) w = (case report_exception env client e (f w) of
      (Inl err, w) \<Rightarrow> (Inl (slack_error_exc err), w) | (Inr _, w) \<Rightarrow> (Inl e, w))"
    by (simp add: faststream_middleware_def faststream_handle_error_def catch_eff_apply)
  show ?thesis
  proof (cases client)
    case None
    then show ?thesis unfolding m r by (simp add: ret_eff_def Let_def)
  next
    case (Some slack)
    then show ?thesis unfolding m r
      by (cases "alert_payload env slack e (ae_capture env e (f w))") (simp_all add: post_exception_payload Let_def)
  qed
qed

text \<open> C34. An error of a client's request is answered with its own status and one detail that reads back as its message, its
  type and its place, the location before the path of fields, and a path without a location is left
  out; it is never reported, whether it is raised in a route or in a message handler, and goes on as
  it is.  Any other exception of a message handler, but for the ignored ones, is captured by Sentry, whether there is a
  Slack client or not; with one, its payload is posted once, if it has one, and the exception goes on, also when the
  POST fails; if its message cannot be formatted, the failure of the formatting goes on in its place.  With the clock in
  UTC every exception whose message has at most ten fields and short headings has a payload. \<close>
theorem client_errors_answered:
  "(\<exists>d. client_request_error_handler c = (ce_status_code c, [d]) \<and>
      detail_of_dict d = Some \<lparr>ed_loc = map_option (\<lambda>l. location_value l # or_empty (ce_field_path c)) (ce_location c),
        ed_msg = ce_message c, ed_type = ce_error c\<rparr>) \<and>
    wrapped_route_handler env client (\<lambda>w. (Inl (client_error_alert c), f w)) w = (Inl (client_error_alert c), f w) \<and>
    faststream_middleware env client (\<lambda>w. (Inl (client_error_alert c), f w)) w = (Inl (client_error_alert c), f w) \<and>
    faststream_middleware env client (\<lambda>w. (Inl (AlertIgnored name msg), f w)) w = (Inl (AlertIgnored name msg), f w) \<and>
    ((\<forall>name msg. e \<noteq> AlertIgnored name msg) \<longrightarrow>
      faststream_middleware env client (\<lambda>w. (Inl e, f w)) w =
        (let captured = ae_capture env e (f w) in case client of
           None \<Rightarrow> (Inl e, captured)
         | Some slack \<Rightarrow> (case alert_payload env slack e captured of
             Inl err \<Rightarrow> (Inl (slack_error_exc err), captured)
           | Inr p \<Rightarrow> (Inl e, case ae_post env (sc_hook_url slack) p captured of
               (Inr _, w1) \<Rightarrow> w1 | (Inl _, w1) \<Rightarrow> ae_log_error env ''Posting Slack message failed'' w1)))) \<and>
    (alert_formattable e \<and> utcoffset (dt_tz (ae_now env w)) = Some 0 \<longrightarrow>
      (\<exists>p. alert_payload env slack e w = Inr p \<and> payload_ok p))"
proof -
  have 1: "\<exists>d. client_request_error_handler c = (ce_status_code c, [d]) \<and>
      detail_of_dict d = Some \<lparr>ed_loc = map_option (\<lambda>l. location_value l # or_empty (ce_field_path c)) (ce_location c),
        ed_msg = ce_message c, ed_type = ce_error c\<rparr>"
    by (simp add: client_request_error_handler_def client_error_detail)
  have 2: "wrapped_route_handler env client (\<lambda>w. (Inl (client_error_alert c), f w)) w = (Inl (client_error_alert c), f w)"
    by (simp add: wrapped_route_handler_def client_error_alert_def eff_simps)
  have 3: "faststream_middleware env client (\<lambda>w. (Inl (AlertIgnored name msg), f w)) w = (Inl (AlertIgnored name msg), f w)" for name msg
    by (simp add: faststream_middleware_def faststream_handle_error_def report_exception_def eff_simps)
  have 4: "faststream_middleware env client (\<lambda>w. (Inl e, f w)) w =
        (let captured = ae_capture env e (f w) in case client of
           None \<Rightarrow> (Inl e, captured)
         | Some slack \<Rightarrow> (case alert_payload env slack e captured of
             Inl err \<Rightarrow> (Inl (slack_error_exc err), captured)
           | Inr p \<Rightarrow> (Inl e, case ae_post env (sc_hook_url slack) p captured of
               (Inr _, w1) \<Rightarrow> w1 | (Inl _, w1) \<Rightarrow> ae_log_error env ''Posting Slack message failed'' w1)))"
    if "\<forall>name msg. e \<noteq> AlertIgnored name msg" using faststream_reports [OF that] .
  have 5: "alert_formattable e \<and> utcoffset (dt_tz (ae_now env w)) = Some 0 \<longrightarrow>
      (\<exists>p. alert_payload env slack e w = Inr p \<and> payload_ok p)"
    by (intro impI, elim conjE) (rule alert_payload_ok)
  show ?thesis
    by (intro conjI impI 1 2 3 5 4) (simp_all add: 3 client_error_alert_def)
qed

lemma client_errors_answered_witness:
  "fst (client_request_error_handler (new_client_request_error ''UnknownUserError'' (''unknown_user'', 404) ''No such user''
      (Some LocPath) (Some [''username'']))) = 404 \<and>
   faststream_middleware alert_demo_env (Some (initialize_slack ''https://hook'' ''App''))
      (\<lambda>w. (Inl (AlertOther ''ValueError'' ''bad''), w) :: (alert_exc + unit) \<times> _) (0, [])
     = (Inl (AlertOther ''ValueError'' ''bad''), (1, [''Posting Slack message failed'']))"
proof -
  let ?slack = "initialize_slack ''https://hook'' ''App''"
  note th = client_errors_answered [where f = "\<lambda>w. w" and w = "(0, [])" and c = "new_client_request_error ''UnknownUserError''
      (''unknown_user'', 404) ''No such user'' (Some LocPath) (Some [''username''])" and env = alert_demo_env
      and client = "Some ?slack" and slack = ?slack and e = "AlertOther ''ValueError'' ''bad''"]
  have f: "alert_formattable (AlertOther ''ValueError'' ''bad'')" "utcoffset (dt_tz (ae_now alert_demo_env (0, []))) = Some 0"
    "ae_capture alert_demo_env e w = w" for e w
    by (simp_all add: alert_formattable_def alert_demo_env_def)
  obtain p where p: "alert_payload alert_demo_env ?slack (AlertOther ''ValueError'' ''bad'') (0, []) = Inr p"
    using th [THEN conjunct2, THEN conjunct2, THEN conjunct2, THEN conjunct2, THEN conjunct2] f(1,2) by blast
  have "ae_post alert_demo_env u p (0, []) = (Inl ''down'', (1, []))" "ae_log_error alert_demo_env m (1, []) = (1, [m])" for u m
    by (simp_all add: alert_demo_env_def)
  then have "faststream_middleware alert_demo_env (Some ?slack)
      (\<lambda>w. (Inl (AlertOther ''ValueError'' ''bad''), w) :: (alert_exc + unit) \<times> _) (0, [])
     = (Inl (AlertOther ''ValueError'' ''bad''), (1, [''Posting Slack message failed'']))"
    using th [THEN conjunct2, THEN conjunct2, THEN conjunct2, THEN conjunct2, THEN conjunct1] p
    by (simp add: f(3) Let_def initialize_slack_def)
  moreover have "fst (client_request_error_handler (new_client_request_error ''UnknownUserError'' (''unknown_user'', 404) ''No such user''
      (Some LocPath) (Some [''username'']))) = 404"
    by (simp add: client_request_error_handler_def new_client_request_error_def)
  ultimately show ?thesis by blast
qed

subsection \<open>Sentry\<close>

text \<open>\<open>to_float\<close> reads the sample rate, \<open>None\<close> when it is not a number from 0 to 1; the variables of the
  environment are known by their names in upper case.\<close>

record 'f sentry_config =
  sy_dsn :: string
  sy_environment :: string
  sy_traces_sample_rate :: "'f option"

definition sentry_config_from_env :: "(string \<rightharpoonup> string) \<Rightarrow> (string \<Rightarrow> 'f option) \<Rightarrow> 'f sentry_config option" where
  "sentry_config_from_env environ to_float = (case (environ ''SENTRY_DSN'', environ ''SENTRY_ENVIRONMENT'') of
     (Some dsn, Some e) \<Rightarrow> (case environ ''SENTRY_TRACES_SAMPLE_RATE'' of
         None \<Rightarrow> Some \<lparr>sy_dsn = dsn, sy_environment = e, sy_traces_sample_rate = None\<rparr>
       | Some rate \<Rightarrow> (case to_float rate of
           None \<Rightarrow> None
         | Some r \<Rightarrow> Some \<lparr>sy_dsn = dsn, sy_environment = e, sy_traces_sample_rate = Some r\<rparr>))
   | _ \<Rightarrow> None)"

definition should_enable_sentry :: "(string \<rightharpoonup> string) \<Rightarrow> bool" where
  "should_enable_sentry environ \<longleftrightarrow> environ ''SENTRY_DSN'' \<noteq> None \<and> environ ''SENTRY_DSN'' \<noteq> Some []"

datatype sentry_error = SentryValidationError | SentryTypeError

text \<open>
  \<open>sentry_init\<close> is the function of the SDK, given the settings, the release and the further arguments; a name
  given twice is a \<open>TypeError\<close>.
\<close>

definition initialize_sentry ::
  "(string \<rightharpoonup> string) \<Rightarrow> (string \<Rightarrow> 'f option) \<Rightarrow> ('f sentry_config \<Rightarrow> string \<Rightarrow> (string \<times> 'k) list \<Rightarrow> 'w \<Rightarrow> 'w) \<Rightarrow> string
     \<Rightarrow> (string \<times> 'k) list \<Rightarrow> ('w, sentry_error, unit) eff" where
  "initialize_sentry environ to_float sentry_init release additional_kwargs =
     (if \<not> should_enable_sentry environ then ret_eff ()
      else (case sentry_config_from_env environ to_float of
        None \<Rightarrow> raise_eff SentryValidationError
      | Some config \<Rightarrow>
          if fst ` set additional_kwargs \<inter> {''before_send'', ''release'', ''dsn'', ''environment'', ''traces_sample_rate''} \<noteq> {}
          then raise_eff SentryTypeError
          else modify_eff (sentry_init config release additional_kwargs)))"

end
