(* ===== verification/Logging.thy ===== *)
theory Logging
  imports PyText
begin

text \<open>
  Logging (\<open>safir.logging\<close>): the levels and profiles (\<open>_models.py\<close>), the setup of an application's logger
  (\<open>_structlog.py\<close>) and the parser of uvicorn's access log (\<open>_uvicorn.py\<close>).  Handlers and the processors
  of structlog are known by what they are.
\<close>

subsection \<open>Levels and profiles\<close>

datatype log_level = LevelDebug | LevelInfo | LevelWarning | LevelError | LevelCritical

definition log_levels :: "(string \<times> log_level) list" where
  "log_levels = [(''DEBUG'', LevelDebug), (''INFO'', LevelInfo), (''WARNING'', LevelWarning), (''ERROR'', LevelError), (''CRITICAL'', LevelCritical)]"

datatype profile = Production | Development

definition profiles :: "(string \<times> profile) list" where
  "profiles = [(''production'', Production), (''development'', Development)]"

text \<open>\<open>str.upper\<close> of ASCII text.\<close>

definition to_upper :: "string \<Rightarrow> string" where
  "to_upper s = map (\<lambda>c. let n = of_char c :: nat in if 97 \<le> n \<and> n \<le> 122 then char_of (n - 32) else c) s"

text \<open>\<open>LogLevel(value)\<close>: the values are the names, and \<open>_missing_\<close> tries the upper case; \<open>None\<close> is a \<open>ValueError\<close>.\<close>

definition log_level_missing :: "string \<Rightarrow> log_level option" where
  "log_level_missing value = map_of log_levels (to_upper value)"

definition log_level_of_value :: "string \<Rightarrow> log_level option" where
  "log_level_of_value value = (case map_of log_levels value of Some l \<Rightarrow> Some l | None \<Rightarrow> log_level_missing value)"

subsection \<open>The setup\<close>

datatype log_processor =
    FilterByLevel | AddLoggerName | PositionalArgumentsFormatter | TimeStamper | StackInfoRenderer | UnicodeDecoder
  | AddLogSeverity | FormatExcInfo | JSONRenderer | AddLogLevel | ConsoleRenderer

datatype log_handler = StdoutHandler | OtherHandler string

text \<open>The loggers by name, each with its handlers and level, the processors, and the name the logger dependency uses.\<close>

record logging_state =
  lg_loggers :: "string \<Rightarrow> log_handler list \<times> log_level option"
  lg_processors :: "log_processor list"
  lg_dependency_name :: "string option"

definition log_processors :: "profile \<Rightarrow> bool \<Rightarrow> log_processor list" where
  "log_processors profile add_timestamp =
     [FilterByLevel, AddLoggerName, PositionalArgumentsFormatter] @ (if add_timestamp then [TimeStamper] else [])
     @ [StackInfoRenderer, UnicodeDecoder]
     @ (if profile = Production then [AddLogSeverity, FormatExcInfo, JSONRenderer] else [AddLogLevel, ConsoleRenderer])"

text \<open>
  The level and the profile are given as such or as text, whose unknown names raise a \<open>KeyError\<close>, here
  \<open>None\<close>; \<open>update_dependency\<close> says whether the logger dependency could be imported.
\<close>

definition configure_logging ::
  "bool \<Rightarrow> string \<Rightarrow> string + profile \<Rightarrow> string + log_level \<Rightarrow> bool \<Rightarrow> logging_state \<Rightarrow> logging_state option" where
  "configure_logging update_dependency name profile log_level add_timestamp s =
     (case (case log_level of Inr l \<Rightarrow> Some l | Inl t \<Rightarrow> map_of log_levels (to_upper t)) of
        None \<Rightarrow> None
      | Some level \<Rightarrow> (case (case profile of Inr p \<Rightarrow> Some p | Inl t \<Rightarrow> map_of profiles t) of
          None \<Rightarrow> None
        | Some profile \<Rightarrow> Some (s\<lparr>lg_loggers := (lg_loggers s)(name := ([StdoutHandler], Some level)),
            lg_processors := log_processors profile add_timestamp,
            lg_dependency_name := (if update_dependency then Some name else lg_dependency_name s)\<rparr>)))"

text \<open>
  The settings \<open>configure_uvicorn_logging\<close> and \<open>configure_alembic_logging\<close> hand to the logging library:
  formatters by name, each with the processors of foreign entries and those of all entries, handlers with their level,
  formatter and stream (the default is standard error), and loggers with their handlers.
\<close>

datatype chain_processor = ChainSeverity | ChainAccessLog | ChainRemoveMeta | ChainFormatExcInfo | ChainJSONRenderer

datatype log_stream = ExtStdout | DefaultStderr

record dict_handler =
  dh_level :: log_level
  dh_formatter :: string
  dh_stream :: log_stream

record dict_logger =
  dl_handlers :: "string list"
  dl_level :: log_level
  dl_propagate :: bool

record dict_config =
  dc_disable_existing :: bool
  dc_formatters :: "(string \<times> chain_processor list \<times> chain_processor list) list"
  dc_handlers :: "(string \<times> dict_handler) list"
  dc_loggers :: "(string \<times> dict_logger) list"

definition formatter_processors :: "chain_processor list" where
  "formatter_processors = [ChainRemoveMeta, ChainFormatExcInfo, ChainJSONRenderer]"

definition configure_uvicorn_logging :: "string + log_level \<Rightarrow> dict_config option" where
  "configure_uvicorn_logging log_level =
     (case (case log_level of Inr l \<Rightarrow> Some l | Inl t \<Rightarrow> map_of log_levels (to_upper t)) of
        None \<Rightarrow> None
      | Some level \<Rightarrow> Some \<lparr>dc_disable_existing = False,
          dc_formatters = [(''json-access'', [ChainSeverity, ChainAccessLog], formatter_processors),
            (''json'', [ChainSeverity], formatter_processors)],
          dc_handlers = [(''uvicorn.access'', \<lparr>dh_level = level, dh_formatter = ''json-access'', dh_stream = ExtStdout\<rparr>),
            (''uvicorn.default'', \<lparr>dh_level = level, dh_formatter = ''json'', dh_stream = DefaultStderr\<rparr>)],
          dc_loggers = [(''uvicorn.error'', \<lparr>dl_handlers = [''uvicorn.default''], dl_level = level, dl_propagate = False\<rparr>),
            (''uvicorn.access'', \<lparr>dl_handlers = [''uvicorn.access''], dl_level = level, dl_propagate = False\<rparr>)]\<rparr>)"

definition configure_alembic_logging :: "string + log_level \<Rightarrow> dict_config option" where
  "configure_alembic_logging log_level =
     (case (case log_level of Inr l \<Rightarrow> Some l | Inl t \<Rightarrow> map_of log_levels (to_upper t)) of
        None \<Rightarrow> None
      | Some level \<Rightarrow> Some \<lparr>dc_disable_existing = False,
          dc_formatters = [(''json'', [ChainSeverity], formatter_processors)],
          dc_handlers = [(''alembic'', \<lparr>dh_level = level, dh_formatter = ''json'', dh_stream = ExtStdout\<rparr>)],
          dc_loggers = [(''alembic'', \<lparr>dl_handlers = [''alembic''], dl_level = level, dl_propagate = False\<rparr>)]\<rparr>)"

text \<open>What a logger writes, and where: the streams of its handlers with the processors of their formatters.\<close>

definition logger_outputs :: "dict_config \<Rightarrow> string \<Rightarrow> (log_stream \<times> chain_processor list) list" where
  "logger_outputs d name = (case map_of (dc_loggers d) name of
     None \<Rightarrow> []
   | Some l \<Rightarrow> List.map_filter (\<lambda>h. case map_of (dc_handlers d) h of
       None \<Rightarrow> None
     | Some h \<Rightarrow> map_option (\<lambda>(pre, procs). (dh_stream h, pre @ procs)) (map_of (dc_formatters d) (dh_formatter h))) (dl_handlers l))"

text \<open>
  Each logger has one output; only uvicorn's access log goes through the parser of access entries, and only the log of
  its errors goes to standard error.
\<close>

lemma uvicorn_logging_outputs:
  assumes "configure_uvicorn_logging level = Some d"
  shows "logger_outputs d ''uvicorn.access'' = [(ExtStdout, [ChainSeverity, ChainAccessLog] @ formatter_processors)]"
    and "logger_outputs d ''uvicorn.error'' = [(DefaultStderr, ChainSeverity # formatter_processors)]"
  using assms by (auto simp: configure_uvicorn_logging_def logger_outputs_def map_filter_def split: option.splits)

lemma alembic_logging_outputs:
  "configure_alembic_logging level = Some d \<Longrightarrow>
   logger_outputs d ''alembic'' = [(ExtStdout, ChainSeverity # formatter_processors)]"
  by (auto simp: configure_alembic_logging_def logger_outputs_def map_filter_def split: option.splits)

text \<open>Configuring again replaces what was configured before.\<close>

lemma configure_logging_again:
  assumes "configure_logging u name p1 l1 t1 s = Some s1" "configure_logging u name p2 l2 t2 s1 = Some s2"
  shows "configure_logging u name p2 l2 t2 s = Some s2"
  using assms by (auto simp: configure_logging_def split: option.splits)

subsection \<open>Log entries\<close>

text \<open>The event dictionary: the message, the severity, the data on the HTTP request, and other entries.\<close>

record log_entry =
  le_event :: string
  le_severity :: "string option"
  le_http_request :: "(string \<times> string) list option"
  le_rest :: "(string \<times> string) list"

text \<open>\<open>level_of\<close> is how structlog names the level of a method.\<close>

definition add_log_severity :: "(string \<Rightarrow> string) \<Rightarrow> string \<Rightarrow> log_entry \<Rightarrow> log_entry" where
  "add_log_severity level_of method_name entry = entry\<lparr>le_severity := Some (level_of method_name)\<rparr>"

text \<open>The pattern of an access log entry, read from the left: none of its parts can end later than it does.\<close>

definition uvicorn_access_regex :: "string \<Rightarrow> (string \<times> string) option" where
  "uvicorn_access_regex s =
     (let host = takeWhile (\<lambda>c. is_digit c \<or> c = CHR ''.'') s; r = drop (length host) s in
      if host = [] \<or> \<not> py_startswith r '':'' then None
      else let r = drop 1 r; port = takeWhile is_digit r; r = drop (length port) r in
        if port = [] \<or> \<not> py_startswith r ('' - '' @ [CHR 34]) then None
        else let r = drop 4 r; request = takeWhile (\<lambda>c. c \<noteq> CHR 34) r; r = drop (length request) r in
          if request = [] \<or> \<not> py_startswith r [CHR 34, CHR '' ''] then None
          else let r = drop 2 r; status = takeWhile is_digit r; r = drop (length status) r in
            if status = [] \<or> (r \<noteq> [] \<and> r \<noteq> [CHR 10]) then None else Some (request, status))"

text \<open>A request that is not three words or more raises a \<open>ValueError\<close>, here \<open>None\<close>.\<close>

definition process_uvicorn_access_log :: "log_entry \<Rightarrow> log_entry option" where
  "process_uvicorn_access_log entry = (case uvicorn_access_regex (le_event entry) of
     None \<Rightarrow> Some entry
   | Some (request, status) \<Rightarrow> (case py_split1 (CHR '' '') request of
       [meth, rest] \<Rightarrow> (case py_rpartition (CHR '' '') rest of (url, found, protocol) \<Rightarrow>
         if \<not> found then None
         else let data = (case le_http_request entry of None \<Rightarrow> [] | Some d \<Rightarrow> d);
                  data = AList.update ''protocol'' protocol data;
                  data = AList.update ''requestMethod'' meth data;
                  data = AList.update ''requestUrl'' url data;
                  data = AList.update ''status'' status data
              in Some (entry\<lparr>le_http_request := Some data\<rparr>))
     | _ \<Rightarrow> None))"

text \<open>The message uvicorn writes for a request.\<close>

definition access_text :: "string \<Rightarrow> nat \<Rightarrow> string \<Rightarrow> string \<Rightarrow> string \<Rightarrow> nat \<Rightarrow> string" where
  "access_text host port meth url protocol status =
     host @ '':'' @ nat_str port @ '' - '' @ [CHR 34] @ meth @ '' '' @ url @ '' '' @ protocol @ [CHR 34] @ '' '' @ nat_str status"

lemma takeWhile_append_stop:
  assumes "\<forall>c \<in> set a. P c" "\<not> P x"
  shows "takeWhile P (a @ x # r) = a" "drop (length a) (a @ x # r) = x # r"
  using assms by (simp_all add: takeWhile_append2)

lemma uvicorn_access_regex_text:
  assumes "host \<noteq> []" "list_all (\<lambda>c. is_digit c \<or> c = CHR ''.'') host" "request \<noteq> []" "CHR 34 \<notin> set request"
  shows "uvicorn_access_regex (host @ '':'' @ nat_str port @ '' - '' @ [CHR 34] @ request @ [CHR 34] @ '' '' @ nat_str status)
    = Some (request, nat_str status)"
proof -
  have n: "\<forall>c \<in> set (nat_str k). is_digit c" "nat_str k \<noteq> []" for k using nat_str_digits [of k] by (simp_all add: list_all_iff)
  let ?r3 = "CHR 34 # CHR '' '' # nat_str status" and ?d = "\<lambda>c. is_digit c \<or> c = CHR ''.''"
  let ?r2 = "CHR '' '' # CHR ''-'' # CHR '' '' # CHR 34 # request @ ?r3"
  have s: "\<not> is_digit (CHR '' '')" "\<not> ?d (CHR '':'')" by (simp_all add: is_digit_def)
  have h: "\<forall>c \<in> set host. ?d c" using assms(2) by (simp add: list_all_iff)
  have q: "\<forall>c \<in> set request. c \<noteq> CHR 34" using assms(4) by blast
  have e: "takeWhile is_digit (nat_str status) = nat_str status" using n(1) by (simp add: takeWhile_eq_all_conv)
  note stops = takeWhile_append_stop [OF h s(2), of "nat_str port @ ?r2"]
    takeWhile_append_stop [OF n(1) s(1), of port "tl ?r2"]
    takeWhile_append_stop [of request "\<lambda>c. c \<noteq> CHR 34" "CHR 34" "tl ?r3", OF q]
  show ?thesis using assms(1,3) n(2) stops
    by (simp add: uvicorn_access_regex_def Let_def py_startswith_def e)
qed

text \<open>The entry that uvicorn logs for a request is taken apart into the method, the URL, the protocol and the status it
  was made of, whatever spaces the URL has; the data there is on the request is kept otherwise, and so is
  the rest of the entry. \<close>
theorem access_log_roundtrip:
  assumes "host \<noteq> []" "list_all (\<lambda>c. is_digit c \<or> c = CHR ''.'') host"
    and "CHR '' '' \<notin> set meth" "CHR '' '' \<notin> set protocol" "CHR 34 \<notin> set (meth @ url @ protocol)"
    and "le_event entry = access_text host port meth url protocol status"
  shows "\<exists>data. process_uvicorn_access_log entry = Some (entry\<lparr>le_http_request := Some data\<rparr>) \<and>
    map_of data = (map_of (case le_http_request entry of None \<Rightarrow> [] | Some d \<Rightarrow> d))
      (''protocol'' \<mapsto> protocol, ''requestMethod'' \<mapsto> meth, ''requestUrl'' \<mapsto> url, ''status'' \<mapsto> nat_str status)"
proof -
  let ?request = "meth @ '' '' @ url @ '' '' @ protocol"
  have "uvicorn_access_regex (le_event entry) = Some (?request, nat_str status)"
    using uvicorn_access_regex_text [OF assms(1,2), of ?request port status] assms(5,6) by (simp add: access_text_def)
  moreover have "py_split1 (CHR '' '') ?request = [meth, url @ '' '' @ protocol]" using assms(3) by simp
  moreover have "py_rpartition (CHR '' '') (url @ '' '' @ protocol) = (url, True, protocol)" using assms(4) by simp
  ultimately have "process_uvicorn_access_log entry = Some (entry\<lparr>le_http_request := Some
      (AList.update ''status'' (nat_str status) (AList.update ''requestUrl'' url (AList.update ''requestMethod'' meth
        (AList.update ''protocol'' protocol (case le_http_request entry of None \<Rightarrow> [] | Some d \<Rightarrow> d)))))\<rparr>)"
    by (simp add: process_uvicorn_access_log_def Let_def)
  then show ?thesis by (intro exI conjI) (assumption, simp add: map_of_update)
qed

definition demo_entry :: log_entry where
  "demo_entry = \<lparr>le_event = ''10.0.0.1:80 - '' @ [CHR 34] @ ''GET /a b HTTP/1.1'' @ [CHR 34] @ '' 200'', le_severity = None,
     le_http_request = None, le_rest = []\<rparr>"

lemma access_log_roundtrip_witness:
  "\<exists>data. process_uvicorn_access_log demo_entry = Some (demo_entry\<lparr>le_http_request := Some data\<rparr>) \<and>
     map_of data ''requestUrl'' = Some ''/a b'' \<and> map_of data ''status'' = Some ''200''"
proof -
  have "char_of (56 :: nat) = CHR ''8''" "char_of (48 :: nat) = CHR ''0''" "char_of (50 :: nat) = CHR ''2''" by code_simp+
  then have n: "nat_str 80 = ''80''" "nat_str 200 = ''200''"
    by (simp_all add: nat_str.simps [of 80] nat_str.simps [of 8] nat_str.simps [of 200] nat_str.simps [of 20] nat_str.simps [of 2]
        nat_str.simps [of 0] digit_char_def)
  have "list_all (\<lambda>c. is_digit c \<or> c = CHR ''.'') ''10.0.0.1''" by (simp add: is_digit_def)
  then show ?thesis
    using access_log_roundtrip [of "''10.0.0.1''" "''GET''" "''HTTP/1.1''" "''/a b''" demo_entry 80 200] n
    by (auto simp: demo_entry_def access_text_def)
qed

end
