(* ===== verification/AppTools.thy ===== *)
theory AppTools
  imports UrlText
begin

text \<open>
  Small tools of applications: the metadata of their package (\<open>safir.metadata\<close>), the help command
  (\<open>safir.click._help\<close>), coroutines run by commands (\<open>safir.asyncio._run\<close>), the configuration of a
  Kubernetes client (\<open>safir.kubernetes._init\<close>) and the signing of URLs of Google Cloud Storage (\<open>safir.gcs._signing\<close>).
\<close>

subsection \<open>Metadata\<close>

text \<open>The headers of a package's metadata, in order; \<open>get\<close> ignores the case of a name, \<open>items\<close> gives it as it is.\<close>

type_synonym message = "(string \<times> string) list"

definition message_get :: "message \<Rightarrow> string \<Rightarrow> string option" where
  "message_get meta name = map_of (map (\<lambda>(k, v). (to_lower k, v)) meta) (to_lower name)"

fun get_project_url :: "message \<Rightarrow> string \<Rightarrow> string option" where
  "get_project_url [] label = None"
| "get_project_url ((key, value) # meta) label =
     (let prefix = label @ '', '' in
      if key = ''Project-URL'' \<and> py_startswith value prefix then Some (drop (length prefix) value)
      else get_project_url meta label)"

record metadata_model =
  md_name :: string
  md_version :: string
  md_description :: "string option"
  md_repository_url :: "string option"
  md_documentation_url :: "string option"

definition get_metadata :: "message \<Rightarrow> string \<Rightarrow> metadata_model" where
  "get_metadata pkg_metadata application_name =
     (let repository_url = get_project_url pkg_metadata ''Source'';
          repository_url = (if repository_url \<in> {None, Some []} then get_project_url pkg_metadata ''Source code'' else repository_url);
          documentation_url = get_project_url pkg_metadata ''Homepage'';
          documentation_url = (if documentation_url \<in> {None, Some []} then message_get pkg_metadata ''Home-page'' else documentation_url)
      in \<lparr>md_name = application_name,
          md_version = (case message_get pkg_metadata ''Version'' of None \<Rightarrow> ''0.0.0'' | Some v \<Rightarrow> v),
          md_description = message_get pkg_metadata ''Summary'', md_repository_url = repository_url,
          md_documentation_url = documentation_url\<rparr>)"

text \<open>The URL is that of the first entry of its label; other entries do not matter.\<close>

lemma get_project_url_first:
  assumes "\<forall>(k, v) \<in> set before. \<not> (k = ''Project-URL'' \<and> py_startswith v (label @ '', ''))"
  shows "get_project_url (before @ (''Project-URL'', label @ '', '' @ url) # after) label = Some url"
  using assms by (induction before label rule: get_project_url.induct) (auto simp: py_startswith_def Let_def)

lemma get_project_url_none:
  "get_project_url meta label = None \<longleftrightarrow> (\<forall>(k, v) \<in> set meta. \<not> (k = ''Project-URL'' \<and> py_startswith v (label @ '', '')))"
  by (induction meta label rule: get_project_url.induct) (auto simp: Let_def)

subsection \<open>The help command\<close>

text \<open>Commands and groups of Click by a name of their own; \<open>help\<close> is the text of a command in a context.\<close>

datatype click_command = ClickCommand string | ClickGroup string "(string \<times> click_command) list"

fun click_commands :: "click_command \<Rightarrow> (string \<times> click_command) list" where
  "click_commands (ClickGroup _ commands) = commands"
| "click_commands (ClickCommand _) = []"

text \<open>The context: its name and the help of its parent, if it has one; and what was printed.\<close>

record click_context =
  cx_info_name :: string
  cx_parent_help :: "string option"
  cx_echoed :: "string list"

datatype help_error = ClickUsageError string | ClickRuntimeError

definition click_echo :: "(click_context \<Rightarrow> string) \<Rightarrow> (click_context, help_error, unit) eff" where
  "click_echo text = modify_eff (\<lambda>ctx. ctx\<lparr>cx_echoed := cx_echoed ctx @ [text ctx]\<rparr>)"

definition display_help ::
  "(click_command \<Rightarrow> click_context \<Rightarrow> string) \<Rightarrow> click_command \<Rightarrow> string option \<Rightarrow> string option
     \<Rightarrow> (click_context, help_error, unit) eff" where
  "display_help help main topic subtopic =
     (let topic = (case topic of None \<Rightarrow> [] | Some t \<Rightarrow> t); subtopic = (case subtopic of None \<Rightarrow> [] | Some t \<Rightarrow> t) in
      if topic = [] then
        bind_eff (read_eff cx_parent_help) (\<lambda>parent. case parent of
          None \<Rightarrow> raise_eff ClickRuntimeError
        | Some text \<Rightarrow> click_echo (\<lambda>_. text))
      else case map_of (click_commands main) topic of
        None \<Rightarrow> raise_eff (ClickUsageError (''Unknown help topic '' @ topic))
      | Some found \<Rightarrow>
          if subtopic = [] then
            bind_eff (modify_eff (\<lambda>ctx. ctx\<lparr>cx_info_name := topic\<rparr>)) (\<lambda>_. click_echo (help found))
          else (case map_of (click_commands found) subtopic of
            Some command \<Rightarrow> bind_eff (modify_eff (\<lambda>ctx. ctx\<lparr>cx_info_name := topic @ '' '' @ subtopic\<rparr>)) (\<lambda>_. click_echo (help command))
          | None \<Rightarrow> raise_eff (ClickUsageError (''Unknown help topic '' @ topic @ '' '' @ subtopic))))"

text \<open>Help is printed exactly once, or nothing is printed and a known error says which topic is unknown.\<close>

lemma display_help_once:
  "(case display_help help main topic subtopic ctx of
     (Inr _, ctx') \<Rightarrow> \<exists>text. cx_echoed ctx' = cx_echoed ctx @ [text]
   | (Inl e, ctx') \<Rightarrow> ctx' = ctx \<and> (e = ClickRuntimeError \<longleftrightarrow> topic \<in> {None, Some []} \<and> cx_parent_help ctx = None))"
  unfolding display_help_def click_echo_def by (simp add: eff_simps Let_def split: option.split)

subsection \<open>Kubernetes\<close>

definition initialize_kubernetes ::
  "(string \<rightharpoonup> string) \<Rightarrow> ('w, 'e, unit) eff \<Rightarrow> ('w, 'e, unit) eff \<Rightarrow> ('w, 'e, unit) eff" where
  "initialize_kubernetes environ load_incluster_config load_kube_config =
     (if ''KUBERNETES_PORT'' \<in> dom environ then load_incluster_config else load_kube_config)"

subsection \<open>Signed URLs\<close>

text \<open>The service, its default credentials and what it asks the library to sign.\<close>

record 'c signing_service =
  sv_lifetime :: int
  sv_service_account :: string
  sv_credentials :: 'c

record 'c signing_credentials =
  sc_source_credentials :: 'c
  sc_target_principal :: string
  sc_target_scopes :: string
  sc_lifetime :: int

record 'c signing_request =
  sr_bucket :: string
  sr_blob :: string
  sr_version :: string
  sr_expiration :: int
  sr_method :: string
  sr_response_type :: "string option"
  sr_credentials :: "'c signing_credentials"

text \<open>One hour, in microseconds.\<close>

definition default_lifetime :: int where
  "default_lifetime = 3600000000"

definition new_signing_service :: "string \<Rightarrow> int option \<Rightarrow> 'c \<Rightarrow> 'c signing_service" where
  "new_signing_service service_account lifetime credentials =
     \<lparr>sv_lifetime = (case lifetime of None \<Rightarrow> default_lifetime | Some l \<Rightarrow> l), sv_service_account = service_account,
      sv_credentials = credentials\<rparr>"

text \<open>\<open>None\<close> is a \<open>ValueError\<close>, that of \<open>urlsplit\<close> or that of the scheme.\<close>

definition signed_url :: "(string \<Rightarrow> bool) \<Rightarrow> 'c signing_service \<Rightarrow> string \<Rightarrow> string option \<Rightarrow> 'c signing_request option" where
  "signed_url bracket_ok service uri mime_type = (case urlsplit bracket_ok uri of
     None \<Rightarrow> None
   | Some parsed_uri \<Rightarrow>
       if su_scheme parsed_uri \<notin> {''s3'', ''gs''} then None
       else Some \<lparr>sr_bucket = su_netloc parsed_uri, sr_blob = drop 1 (su_path parsed_uri), sr_version = ''v4'',
         sr_expiration = sv_lifetime service, sr_method = ''GET'', sr_response_type = mime_type,
         sr_credentials = \<lparr>sc_source_credentials = sv_credentials service, sc_target_principal = sv_service_account service,
           sc_target_scopes = ''https://www.googleapis.com/auth/devstorage.read_only'', sc_lifetime = 2\<rparr>\<rparr>)"

text \<open>
  The object of a URI is signed, if its name has no question mark, hash, space or control character; a name is
  otherwise cut off at the first of the first two.
\<close>

lemma signed_url_object:
  assumes "scheme \<in> {''s3'', ''gs''}" "bucket \<noteq> []" "list_all (\<lambda>c. \<not> netloc_end c \<and> c \<notin> {CHR 91, CHR 93}) bucket"
    and "CHR ''?'' \<notin> set name" "CHR ''#'' \<notin> set name" "CHR ''#'' \<notin> set query"
    and "list_all (\<lambda>c. 32 < (of_char c :: nat)) (bucket @ name @ query @ fragment)"
  shows "\<exists>r. signed_url bracket_ok service (scheme @ ''://'' @ bucket @ ''/'' @ name
      @ (if query = [] then [] else CHR ''?'' # query) @ (if fragment = [] then [] else CHR ''#'' # fragment)) mime_type = Some r \<and>
    sr_bucket r = bucket \<and> sr_blob r = name \<and> sr_method r = ''GET'' \<and> sr_expiration r = sv_lifetime service"
proof -
  let ?s = "\<lparr>su_scheme = scheme, su_netloc = bucket, su_path = CHR ''/'' # name, su_query = query, su_fragment = fragment\<rparr>"
  have sch: "scheme \<noteq> []" "ascii_alpha (hd scheme)" "list_all scheme_char scheme" "to_lower scheme = scheme"
      "list_all (\<lambda>c. 32 < (of_char c :: nat)) scheme"
    using assms(1) by (auto simp: ascii_alpha_def scheme_char_def is_digit_def to_lower_def char_of_def Let_def)
  have br: "CHR 91 \<notin> set bucket" "CHR 93 \<notin> set bucket" "list_all (\<lambda>c. \<not> netloc_end c) bucket"
    using assms(3) by (auto simp: list_all_iff)
  have ok: "split_ok bracket_ok ?s" using assms sch br by (simp add: split_ok_def)
  let ?u = "scheme @ ''://'' @ bucket @ ''/'' @ name
      @ (if query = [] then [] else CHR ''?'' # query) @ (if fragment = [] then [] else CHR ''#'' # fragment)"
  have "geturl ?s = ?u" using geturl_ok [OF ok] by (cases "query = []"; cases "fragment = []") simp_all
  then have "urlsplit bracket_ok ?u = Some ?s" using urlsplit_geturl [OF ok] by metis
  then show ?thesis unfolding signed_url_def using assms(1) by simp
qed

subsection \<open>Coroutines run by synchronous code\<close>

text \<open>The world of a thread: whether an event loop runs in it.  \<open>asyncio.run\<close> refuses to start a second one.\<close>

record 'w loop_world =
  lw_running :: bool
  lw_world :: 'w

definition asyncio_run :: "'e \<Rightarrow> ('w loop_world, 'e, 'a) eff \<Rightarrow> ('w loop_world, 'e, 'a) eff" where
  "asyncio_run already_running main = (\<lambda>s. if lw_running s then (Inl already_running, s)
     else (case main (s\<lparr>lw_running := True\<rparr>) of (r, s) \<Rightarrow> (r, s\<lparr>lw_running := False\<rparr>)))"

definition run_with_asyncio :: "'e \<Rightarrow> ('x \<Rightarrow> ('w loop_world, 'e, 'a) eff) \<Rightarrow> 'x \<Rightarrow> ('w loop_world, 'e, 'a) eff" where
  "run_with_asyncio already_running f = (\<lambda>args. asyncio_run already_running (f args))"

text \<open>A command that calls another one decorated so is refused, as the documentation says.\<close>

lemma run_with_asyncio_nested:
  "run_with_asyncio e (\<lambda>x. run_with_asyncio e g (h x)) x s = (Inl e, s)"
  by (cases "lw_running s") (simp_all add: run_with_asyncio_def asyncio_run_def)

end
