(* ===== verification/Base64.thy ===== *)
theory Base64
  imports PyText
begin

text \<open>
  Base64 as the standard library decodes it (\<open>base64.b64decode\<close> without validation, \<open>binascii.a2b_base64\<close>): characters
  outside of the alphabet are skipped.  A byte is a character of the text.
\<close>

definition b64_char :: "nat \<Rightarrow> char" where
  "b64_char n =
     (if n < 26 then char_of (65 + n) else if n < 52 then char_of (71 + n) else if n < 62 then char_of (n - 4)
      else if n = 62 then CHR ''+'' else CHR ''/'')"

definition b64_val :: "char \<Rightarrow> nat option" where
  "b64_val c = (let n = of_char c :: nat in
     if 65 \<le> n \<and> n \<le> 90 then Some (n - 65) else if 97 \<le> n \<and> n \<le> 122 then Some (n - 71)
     else if 48 \<le> n \<and> n \<le> 57 then Some (n + 4) else if c = CHR ''+'' then Some 62 else if c = CHR ''/'' then Some 63 else None)"

lemma b64_val_char [simp]:
  assumes "n < 64"
  shows "b64_val (b64_char n) = Some n"
proof -
  consider "n < 26" | "26 \<le> n" "n < 52" | "52 \<le> n" "n < 62" | "n = 62" | "n = 63" using assms by linarith
  then show ?thesis by cases (auto simp: b64_char_def b64_val_def Let_def)
qed

lemma b64_val_pad [simp]: "b64_val (CHR ''='') = None"
  by (simp add: b64_val_def Let_def)

lemma b64_char_not_pad: "n < 64 \<Longrightarrow> b64_char n \<noteq> CHR ''=''"
  using b64_val_char [of n] b64_val_pad by (metis option.distinct(1))

text \<open>
  The decoder: the position in a group of four, the bits left over from the character before, and the padding seen
  since.  \<open>None\<close> is the error of a group that is not complete.  Bytes wrap around at 256, as in the C code, where they never
  have to.
\<close>

fun a2b_base64 :: "nat \<Rightarrow> nat \<Rightarrow> nat \<Rightarrow> string \<Rightarrow> string option" where
  "a2b_base64 quad_pos leftchar pads [] = (if quad_pos = 0 then Some [] else None)"
| "a2b_base64 quad_pos leftchar pads (c # s) =
     (if c = CHR ''='' then
        (if 2 \<le> quad_pos \<and> 4 \<le> quad_pos + (pads + 1) then Some []
         else a2b_base64 quad_pos leftchar (if 2 \<le> quad_pos then pads + 1 else pads) s)
      else (case b64_val c of
        None \<Rightarrow> a2b_base64 quad_pos leftchar pads s
      | Some v \<Rightarrow>
          (if quad_pos = 0 then a2b_base64 1 v 0 s
           else if quad_pos = 1 then map_option ((#) (char_of (leftchar * 4 + v div 16))) (a2b_base64 2 (v mod 16) 0 s)
           else if quad_pos = 2 then map_option ((#) (char_of (leftchar * 16 + v div 4))) (a2b_base64 3 (v mod 4) 0 s)
           else map_option ((#) (char_of (leftchar * 64 + v))) (a2b_base64 0 0 0 s))))"

text \<open>\<open>b64decode\<close> of a text, which has to be ASCII.\<close>

definition b64decode :: "string \<Rightarrow> string option" where
  "b64decode s = (if list_all (\<lambda>c. (of_char c :: nat) < 128) s then a2b_base64 0 0 0 s else None)"

subsection \<open>Encoding\<close>

text \<open>The encoding of RFC 4648.\<close>

fun b64encode :: "string \<Rightarrow> string" where
  "b64encode [] = []"
| "b64encode [a] = (let x = of_char a :: nat in [b64_char (x div 4), b64_char (x mod 4 * 16), CHR ''='', CHR ''=''])"
| "b64encode [a, b] = (let x = of_char a :: nat; y = of_char b in
     [b64_char (x div 4), b64_char (x mod 4 * 16 + y div 16), b64_char (y mod 16 * 4), CHR ''=''])"
| "b64encode (a # b # c # s) = (let x = of_char a :: nat; y = of_char b; z = of_char c in
     [b64_char (x div 4), b64_char (x mod 4 * 16 + y div 16), b64_char (y mod 16 * 4 + z div 64), b64_char (z mod 64)]
     @ b64encode s)"

definition b64_text :: "char \<Rightarrow> bool" where
  "b64_text c \<longleftrightarrow> c = CHR ''='' \<or> b64_val c \<noteq> None"

lemma group_bits:
  fixes x y :: nat
  assumes "y < 256"
  shows "(x * 16 + y div 16) div 16 = x" "(x * 16 + y div 16) mod 16 = y div 16"
    "(x * 4 + y div 64) div 4 = x" "(x * 4 + y div 64) mod 4 = y div 64"
proof -
  have "y div 16 < 16" "y div 64 < 4" using assms by linarith+
  then show "(x * 16 + y div 16) div 16 = x" "(x * 16 + y div 16) mod 16 = y div 16"
    "(x * 4 + y div 64) div 4 = x" "(x * 4 + y div 64) mod 4 = y div 64" by simp_all
qed

text \<open>Other characters, such as line breaks, do not matter.\<close>

lemma a2b_base64_filter: "a2b_base64 q l p (filter b64_text s) = a2b_base64 q l p s"
  by (induction q l p s rule: a2b_base64.induct) (auto simp: b64_text_def split: option.split)

lemma a2b_base64_encode: "a2b_base64 0 0 p (b64encode s) = Some s"
proof (induction s arbitrary: p rule: b64encode.induct)
  case (2 a)
  have x: "(of_char a :: nat) < 256" by (rule of_char_bound)
  then have "of_char a div 4 < (64 :: nat)" "of_char a mod 4 * 16 < (64 :: nat)" by linarith+
  then show ?case by (simp add: Let_def b64_char_not_pad)
next
  case (3 a b)
  have x: "(of_char a :: nat) < 256" and y: "(of_char b :: nat) < 256" by (rule of_char_bound)+
  then have "of_char a div 4 < (64 :: nat)" "of_char a mod 4 * 16 + of_char b div 16 < (64 :: nat)" "of_char b mod 16 * 4 < (64 :: nat)"
    by linarith+
  moreover have "of_char a div 4 * 4 + of_char a mod 4 = (of_char a :: nat)" "of_char b div 16 * 16 + of_char b mod 16 = (of_char b :: nat)"
    by simp_all
  moreover have "of_char b div 16 mod 16 = (of_char b div 16 :: nat)" using y by (intro mod_less) linarith
  ultimately show ?case by (simp add: Let_def b64_char_not_pad group_bits [OF y])
next
  case (4 a b c s)
  have x: "(of_char a :: nat) < 256" and y: "(of_char b :: nat) < 256" and z: "(of_char c :: nat) < 256" by (rule of_char_bound)+
  then have "of_char a div 4 < (64 :: nat)" "of_char a mod 4 * 16 + of_char b div 16 < (64 :: nat)"
      "of_char b mod 16 * 4 + of_char c div 64 < (64 :: nat)" "of_char c mod 64 < (64 :: nat)" by linarith+
  moreover have "of_char a div 4 * 4 + of_char a mod 4 = (of_char a :: nat)" "of_char b div 16 * 16 + of_char b mod 16 = (of_char b :: nat)"
      "of_char c div 64 * 64 + of_char c mod 64 = (of_char c :: nat)" by simp_all
  moreover have "of_char b div 16 mod 16 = (of_char b div 16 :: nat)" using y by (intro mod_less) linarith
  moreover have "of_char c div 64 mod 4 = (of_char c div 64 :: nat)" using z by (intro mod_less) linarith
  ultimately show ?case using 4 by (simp add: Let_def b64_char_not_pad group_bits [OF y] group_bits [OF z])
qed simp

lemma b64decode_encoded:
  assumes "filter b64_text s = b64encode bytes" "list_all (\<lambda>c. (of_char c :: nat) < 128) s"
  shows "b64decode s = Some bytes"
  using assms a2b_base64_filter [of 0 0 0 s] a2b_base64_encode [of 0 bytes] by (simp add: b64decode_def)

end
