(* ===== verification/GitHub.thy ===== *)
theory GitHub
  imports Prelude Base64
begin

text \<open>
  The resources of GitHub's REST API (\<open>safir.github.models\<close>): the models, how Pydantic reads each of them from JSON, and
  the decoding of a blob.
\<close>

subsection \<open>Reading models\<close>

text \<open>
  How Pydantic reads a value of a plain type from JSON, and the text of a URL, are parameters; \<open>'u\<close> is \<open>HttpUrl\<close>.
\<close>

record 'u pydantic_types =
  pt_str :: "json \<Rightarrow> string option"
  pt_int :: "json \<Rightarrow> int option"
  pt_bool :: "json \<Rightarrow> bool option"
  pt_url :: "json \<Rightarrow> 'u option"
  pt_url_text :: "'u \<Rightarrow> string"

text \<open>A value in the form it is dumped in is read as itself.\<close>

definition pt_ok :: "'u pydantic_types \<Rightarrow> bool" where
  "pt_ok T \<longleftrightarrow> (\<forall>s. pt_str T (JStr s) = Some s) \<and> (\<forall>i. pt_int T (JInt i) = Some i) \<and>
     (\<forall>b. pt_bool T (JBool b) = Some b) \<and> (\<forall>u. pt_url T (JStr (pt_url_text T u)) = Some u)"

lemma pt_okD [simp]:
  assumes "pt_ok T"
  shows "pt_str T (JStr s) = Some s" "pt_int T (JInt i) = Some i" "pt_bool T (JBool b) = Some b"
    "pt_url T (JStr (pt_url_text T u)) = Some u"
  using assms by (simp_all add: pt_ok_def)

text \<open>The members of an object: other members are ignored, and a missing one has its default, if there is one.\<close>

fun object_fields :: "json \<Rightarrow> (string \<times> json) list option" where
  "object_fields (JObj d) = Some d"
| "object_fields _ = None"

definition required :: "(json \<Rightarrow> 'a option) \<Rightarrow> (string \<times> json) list \<Rightarrow> string \<Rightarrow> 'a option" where
  "required read d name = Option.bind (map_of d name) read"

definition optional :: "(json \<Rightarrow> 'a option) \<Rightarrow> 'a \<Rightarrow> (string \<times> json) list \<Rightarrow> string \<Rightarrow> 'a option" where
  "optional read unset d name = (case map_of d name of None \<Rightarrow> Some unset | Some v \<Rightarrow> read v)"

definition read_nullable :: "(json \<Rightarrow> 'a option) \<Rightarrow> json \<Rightarrow> 'a option option" where
  "read_nullable read j = (if j = JNull then Some None else map_option Some (read j))"

definition read_list :: "(json \<Rightarrow> 'a option) \<Rightarrow> json \<Rightarrow> 'a list option" where
  "read_list read j = (case j of JArr js \<Rightarrow> those (map read js) | _ \<Rightarrow> None)"

definition read_enum :: "('a \<Rightarrow> string) \<Rightarrow> 'a list \<Rightarrow> json \<Rightarrow> 'a option" where
  "read_enum value members j = (case j of JStr s \<Rightarrow> List.find (\<lambda>a. value a = s) members | _ \<Rightarrow> None)"

lemma those_read: "(\<And>x. x \<in> set xs \<Longrightarrow> read (dump x) = Some x) \<Longrightarrow> those (map (\<lambda>x. read (dump x)) xs) = Some xs"
  by (induction xs) auto

lemma read_list_dumped [simp]:
  "(\<And>x. x \<in> set xs \<Longrightarrow> read (dump x) = Some x) \<Longrightarrow> read_list read (JArr (map dump xs)) = Some xs"
  using those_read [of xs read dump] by (simp add: read_list_def comp_def)

lemma read_nullable_dumped [simp]:
  "(\<And>v. x = Some v \<Longrightarrow> read (dump v) = Some v \<and> dump v \<noteq> JNull) \<Longrightarrow>
   read_nullable read (case x of None \<Rightarrow> JNull | Some v \<Rightarrow> dump v) = Some x"
  by (cases x) (simp_all add: read_nullable_def)

lemma required_cons [simp]: "required read ((k, v) # d) name = (if k = name then read v else required read d name)"
  by (simp add: required_def)

lemma optional_cons [simp]: "optional read unset ((k, v) # d) name = (if k = name then read v else optional read unset d name)"
  by (simp add: optional_def)

subsection \<open>Resources\<close>

record github_repo_owner =
  go_login :: string

definition read_github_repo_owner :: "'u pydantic_types \<Rightarrow> json \<Rightarrow> github_repo_owner option" where
  "read_github_repo_owner T j = Option.bind (object_fields j) (\<lambda>d. map_option (\<lambda>v_login. \<lparr>go_login = v_login\<rparr>) (required (pt_str T) d ''login''))"

definition dump_github_repo_owner :: "'u pydantic_types \<Rightarrow> github_repo_owner \<Rightarrow> json" where
  "dump_github_repo_owner T x = JObj [(''login'', JStr (go_login x))]"

lemma read_dump_github_repo_owner [simp]: "pt_ok T \<Longrightarrow> read_github_repo_owner T (dump_github_repo_owner T x) = Some x"
  by (cases x) (simp add: read_github_repo_owner_def dump_github_repo_owner_def)

record 'u github_user =
  gu_login :: string
  gu_html_url :: "'u"
  gu_url :: "'u"
  gu_avatar_url :: "'u"

definition read_github_user :: "'u pydantic_types \<Rightarrow> json \<Rightarrow> 'u github_user option" where
  "read_github_user T j = Option.bind (object_fields j) (\<lambda>d.
     case (required (pt_str T) d ''login'', required (pt_url T) d ''html_url'', required (pt_url T) d ''url'',
           required (pt_url T) d ''avatar_url'') of
       (Some v_login, Some v_html_url, Some v_url, Some v_avatar_url) \<Rightarrow>
         Some \<lparr>gu_login = v_login, gu_html_url = v_html_url, gu_url = v_url, gu_avatar_url = v_avatar_url\<rparr>
     | _ \<Rightarrow> None)"

definition dump_github_user :: "'u pydantic_types \<Rightarrow> 'u github_user \<Rightarrow> json" where
  "dump_github_user T x = JObj [(''login'', JStr (gu_login x)), (''html_url'', JStr (pt_url_text T (gu_html_url x))),
     (''url'', JStr (pt_url_text T (gu_url x))), (''avatar_url'', JStr (pt_url_text T (gu_avatar_url x)))]"

lemma read_dump_github_user [simp]: "pt_ok T \<Longrightarrow> read_github_user T (dump_github_user T x) = Some x"
  by (cases x) (simp add: read_github_user_def dump_github_user_def)

record 'u github_repository =
  gr_name :: string
  gr_full_name :: string
  gr_owner :: github_repo_owner
  gr_default_branch :: string
  gr_html_url :: "'u"
  gr_branches_url :: string
  gr_contents_url :: string
  gr_trees_url :: string
  gr_blobs_url :: string

definition read_github_repository :: "'u pydantic_types \<Rightarrow> json \<Rightarrow> 'u github_repository option" where
  "read_github_repository T j = Option.bind (object_fields j) (\<lambda>d.
     case (required (pt_str T) d ''name'', required (pt_str T) d ''full_name'',
           required (read_github_repo_owner T) d ''owner'', required (pt_str T) d ''default_branch'',
           required (pt_url T) d ''html_url'', required (pt_str T) d ''branches_url'',
           required (pt_str T) d ''contents_url'', required (pt_str T) d ''trees_url'',
           required (pt_str T) d ''blobs_url'') of
       (Some v_name, Some v_full_name, Some v_owner, Some v_default_branch, Some v_html_url, Some v_branches_url,
        Some v_contents_url, Some v_trees_url, Some v_blobs_url) \<Rightarrow>
         Some \<lparr>gr_name = v_name, gr_full_name = v_full_name, gr_owner = v_owner, gr_default_branch = v_default_branch,
         gr_html_url = v_html_url, gr_branches_url = v_branches_url, gr_contents_url = v_contents_url,
         gr_trees_url = v_trees_url, gr_blobs_url = v_blobs_url\<rparr>
     | _ \<Rightarrow> None)"

definition dump_github_repository :: "'u pydantic_types \<Rightarrow> 'u github_repository \<Rightarrow> json" where
  "dump_github_repository T x = JObj [(''name'', JStr (gr_name x)), (''full_name'', JStr (gr_full_name x)),
     (''owner'', dump_github_repo_owner T (gr_owner x)), (''default_branch'', JStr (gr_default_branch x)),
     (''html_url'', JStr (pt_url_text T (gr_html_url x))), (''branches_url'', JStr (gr_branches_url x)),
     (''contents_url'', JStr (gr_contents_url x)), (''trees_url'', JStr (gr_trees_url x)),
     (''blobs_url'', JStr (gr_blobs_url x))]"

lemma read_dump_github_repository [simp]: "pt_ok T \<Longrightarrow> read_github_repository T (dump_github_repository T x) = Some x"
  by (cases x) (simp add: read_github_repository_def dump_github_repository_def)

datatype github_pull_state =
    PullOpen | PullClosed

fun github_pull_state_value :: "github_pull_state \<Rightarrow> string" where
  "github_pull_state_value PullOpen = ''open''"
| "github_pull_state_value PullClosed = ''closed''"

definition github_pull_state_members :: "github_pull_state list" where
  "github_pull_state_members = [PullOpen, PullClosed]"

lemma github_pull_state_values [simp]: "read_enum github_pull_state_value github_pull_state_members (JStr (github_pull_state_value a)) = Some a"
  by (cases a) (simp_all add: read_enum_def github_pull_state_members_def)

record github_pull_request_head =
  gh_sha :: string

definition read_github_pull_request_head :: "'u pydantic_types \<Rightarrow> json \<Rightarrow> github_pull_request_head option" where
  "read_github_pull_request_head T j = Option.bind (object_fields j) (\<lambda>d. map_option (\<lambda>v_sha. \<lparr>gh_sha = v_sha\<rparr>) (required (pt_str T) d ''sha''))"

definition dump_github_pull_request_head :: "'u pydantic_types \<Rightarrow> github_pull_request_head \<Rightarrow> json" where
  "dump_github_pull_request_head T x = JObj [(''sha'', JStr (gh_sha x))]"

lemma read_dump_github_pull_request_head [simp]: "pt_ok T \<Longrightarrow> read_github_pull_request_head T (dump_github_pull_request_head T x) = Some x"
  by (cases x) (simp add: read_github_pull_request_head_def dump_github_pull_request_head_def)

record 'u github_pull_request =
  gp_html_url :: "'u"
  gp_number :: int
  gp_title :: string
  gp_state :: github_pull_state
  gp_draft :: bool
  gp_merged :: bool
  gp_user :: "'u github_user"
  gp_head :: github_pull_request_head

definition read_github_pull_request :: "'u pydantic_types \<Rightarrow> json \<Rightarrow> 'u github_pull_request option" where
  "read_github_pull_request T j = Option.bind (object_fields j) (\<lambda>d.
     case (required (pt_url T) d ''html_url'', required (pt_int T) d ''number'', required (pt_str T) d ''title'',
           required (read_enum github_pull_state_value github_pull_state_members) d ''state'',
           required (pt_bool T) d ''draft'', required (pt_bool T) d ''merged'', required (read_github_user T) d ''user'',
           required (read_github_pull_request_head T) d ''head'') of
       (Some v_html_url, Some v_number, Some v_title, Some v_state, Some v_draft, Some v_merged, Some v_user,
        Some v_head) \<Rightarrow>
         Some \<lparr>gp_html_url = v_html_url, gp_number = v_number, gp_title = v_title, gp_state = v_state, gp_draft = v_draft,
         gp_merged = v_merged, gp_user = v_user, gp_head = v_head\<rparr>
     | _ \<Rightarrow> None)"

definition dump_github_pull_request :: "'u pydantic_types \<Rightarrow> 'u github_pull_request \<Rightarrow> json" where
  "dump_github_pull_request T x = JObj [(''html_url'', JStr (pt_url_text T (gp_html_url x))), (''number'', JInt (gp_number x)),
     (''title'', JStr (gp_title x)), (''state'', JStr (github_pull_state_value (gp_state x))),
     (''draft'', JBool (gp_draft x)), (''merged'', JBool (gp_merged x)),
     (''user'', dump_github_user T (gp_user x)), (''head'', dump_github_pull_request_head T (gp_head x))]"

lemma read_dump_github_pull_request [simp]: "pt_ok T \<Longrightarrow> read_github_pull_request T (dump_github_pull_request T x) = Some x"
  by (cases x) (simp add: read_github_pull_request_def dump_github_pull_request_def)

record 'u github_branch_commit =
  gc_sha :: string
  gc_url :: "'u"

definition read_github_branch_commit :: "'u pydantic_types \<Rightarrow> json \<Rightarrow> 'u github_branch_commit option" where
  "read_github_branch_commit T j = Option.bind (object_fields j) (\<lambda>d.
     case (required (pt_str T) d ''sha'', required (pt_url T) d ''url'') of
       (Some v_sha, Some v_url) \<Rightarrow>
         Some \<lparr>gc_sha = v_sha, gc_url = v_url\<rparr>
     | _ \<Rightarrow> None)"

definition dump_github_branch_commit :: "'u pydantic_types \<Rightarrow> 'u github_branch_commit \<Rightarrow> json" where
  "dump_github_branch_commit T x = JObj [(''sha'', JStr (gc_sha x)), (''url'', JStr (pt_url_text T (gc_url x)))]"

lemma read_dump_github_branch_commit [simp]: "pt_ok T \<Longrightarrow> read_github_branch_commit T (dump_github_branch_commit T x) = Some x"
  by (cases x) (simp add: read_github_branch_commit_def dump_github_branch_commit_def)

record 'u github_branch =
  gb_name :: string
  gb_commit :: "'u github_branch_commit"

definition read_github_branch :: "'u pydantic_types \<Rightarrow> json \<Rightarrow> 'u github_branch option" where
  "read_github_branch T j = Option.bind (object_fields j) (\<lambda>d.
     case (required (pt_str T) d ''name'', required (read_github_branch_commit T) d ''commit'') of
       (Some v_name, Some v_commit) \<Rightarrow>
         Some \<lparr>gb_name = v_name, gb_commit = v_commit\<rparr>
     | _ \<Rightarrow> None)"

definition dump_github_branch :: "'u pydantic_types \<Rightarrow> 'u github_branch \<Rightarrow> json" where
  "dump_github_branch T x = JObj [(''name'', JStr (gb_name x)), (''commit'', dump_github_branch_commit T (gb_commit x))]"

lemma read_dump_github_branch [simp]: "pt_ok T \<Longrightarrow> read_github_branch T (dump_github_branch T x) = Some x"
  by (cases x) (simp add: read_github_branch_def dump_github_branch_def)

record 'u github_blob =
  gl_content :: string
  gl_encoding :: string
  gl_url :: "'u"
  gl_sha :: string
  gl_size :: int

definition read_github_blob :: "'u pydantic_types \<Rightarrow> json \<Rightarrow> 'u github_blob option" where
  "read_github_blob T j = Option.bind (object_fields j) (\<lambda>d.
     case (required (pt_str T) d ''content'', required (pt_str T) d ''encoding'', required (pt_url T) d ''url'',
           required (pt_str T) d ''sha'', required (pt_int T) d ''size'') of
       (Some v_content, Some v_encoding, Some v_url, Some v_sha, Some v_size) \<Rightarrow>
         Some \<lparr>gl_content = v_content, gl_encoding = v_encoding, gl_url = v_url, gl_sha = v_sha, gl_size = v_size\<rparr>
     | _ \<Rightarrow> None)"

definition dump_github_blob :: "'u pydantic_types \<Rightarrow> 'u github_blob \<Rightarrow> json" where
  "dump_github_blob T x = JObj [(''content'', JStr (gl_content x)), (''encoding'', JStr (gl_encoding x)),
     (''url'', JStr (pt_url_text T (gl_url x))), (''sha'', JStr (gl_sha x)), (''size'', JInt (gl_size x))]"

lemma read_dump_github_blob [simp]: "pt_ok T \<Longrightarrow> read_github_blob T (dump_github_blob T x) = Some x"
  by (cases x) (simp add: read_github_blob_def dump_github_blob_def)

datatype github_check_suite_status =
    SuiteQueued | SuiteInProgress | SuiteCompleted

fun github_check_suite_status_value :: "github_check_suite_status \<Rightarrow> string" where
  "github_check_suite_status_value SuiteQueued = ''queued''"
| "github_check_suite_status_value SuiteInProgress = ''in_progress''"
| "github_check_suite_status_value SuiteCompleted = ''completed''"

definition github_check_suite_status_members :: "github_check_suite_status list" where
  "github_check_suite_status_members = [SuiteQueued, SuiteInProgress, SuiteCompleted]"

lemma github_check_suite_status_values [simp]: "read_enum github_check_suite_status_value github_check_suite_status_members (JStr (github_check_suite_status_value a)) = Some a"
  by (cases a) (simp_all add: read_enum_def github_check_suite_status_members_def)

datatype github_check_suite_conclusion =
    SuiteConclusionSuccess | SuiteConclusionFailure | SuiteConclusionNeutral | SuiteConclusionCancelled |
  SuiteConclusionTimedOut | SuiteConclusionActionRequired | SuiteConclusionStale

fun github_check_suite_conclusion_value :: "github_check_suite_conclusion \<Rightarrow> string" where
  "github_check_suite_conclusion_value SuiteConclusionSuccess = ''success''"
| "github_check_suite_conclusion_value SuiteConclusionFailure = ''failure''"
| "github_check_suite_conclusion_value SuiteConclusionNeutral = ''neutral''"
| "github_check_suite_conclusion_value SuiteConclusionCancelled = ''cancelled''"
| "github_check_suite_conclusion_value SuiteConclusionTimedOut = ''timed_out''"
| "github_check_suite_conclusion_value SuiteConclusionActionRequired = ''action_required''"
| "github_check_suite_conclusion_value SuiteConclusionStale = ''stale''"

definition github_check_suite_conclusion_members :: "github_check_suite_conclusion list" where
  "github_check_suite_conclusion_members = [SuiteConclusionSuccess, SuiteConclusionFailure, SuiteConclusionNeutral, SuiteConclusionCancelled,
    SuiteConclusionTimedOut, SuiteConclusionActionRequired, SuiteConclusionStale]"

lemma github_check_suite_conclusion_values [simp]: "read_enum github_check_suite_conclusion_value github_check_suite_conclusion_members (JStr (github_check_suite_conclusion_value a)) = Some a"
  by (cases a) (simp_all add: read_enum_def github_check_suite_conclusion_members_def)

record 'u github_check_run_pr_info =
  gi_url :: "'u"
  gi_number :: int

definition read_github_check_run_pr_info :: "'u pydantic_types \<Rightarrow> json \<Rightarrow> 'u github_check_run_pr_info option" where
  "read_github_check_run_pr_info T j = Option.bind (object_fields j) (\<lambda>d.
     case (required (pt_url T) d ''url'', required (pt_int T) d ''number'') of
       (Some v_url, Some v_number) \<Rightarrow>
         Some \<lparr>gi_url = v_url, gi_number = v_number\<rparr>
     | _ \<Rightarrow> None)"

definition dump_github_check_run_pr_info :: "'u pydantic_types \<Rightarrow> 'u github_check_run_pr_info \<Rightarrow> json" where
  "dump_github_check_run_pr_info T x = JObj [(''url'', JStr (pt_url_text T (gi_url x))), (''number'', JInt (gi_number x))]"

lemma read_dump_github_check_run_pr_info [simp]: "pt_ok T \<Longrightarrow> read_github_check_run_pr_info T (dump_github_check_run_pr_info T x) = Some x"
  by (cases x) (simp add: read_github_check_run_pr_info_def dump_github_check_run_pr_info_def)

record 'u github_check_suite =
  gs_id :: int
  gs_head_branch :: string
  gs_head_sha :: string
  gs_url :: "'u"
  gs_status :: github_check_suite_status
  gs_conclusion :: "github_check_suite_conclusion option"
  gs_pull_requests :: "'u github_check_run_pr_info list"

definition read_github_check_suite :: "'u pydantic_types \<Rightarrow> json \<Rightarrow> 'u github_check_suite option" where
  "read_github_check_suite T j = Option.bind (object_fields j) (\<lambda>d.
     case (required (pt_int T) d ''id'', required (pt_str T) d ''head_branch'', required (pt_str T) d ''head_sha'',
           required (pt_url T) d ''url'',
           required (read_enum github_check_suite_status_value github_check_suite_status_members) d ''status'',
           required (read_nullable (read_enum github_check_suite_conclusion_value github_check_suite_conclusion_members)) d ''conclusion'',
           required (read_list (read_github_check_run_pr_info T)) d ''pull_requests'') of
       (Some v_id, Some v_head_branch, Some v_head_sha, Some v_url, Some v_status, Some v_conclusion,
        Some v_pull_requests) \<Rightarrow>
         Some \<lparr>gs_id = v_id, gs_head_branch = v_head_branch, gs_head_sha = v_head_sha, gs_url = v_url, gs_status = v_status,
         gs_conclusion = v_conclusion, gs_pull_requests = v_pull_requests\<rparr>
     | _ \<Rightarrow> None)"

definition dump_github_check_suite :: "'u pydantic_types \<Rightarrow> 'u github_check_suite \<Rightarrow> json" where
  "dump_github_check_suite T x = JObj [(''id'', JInt (gs_id x)), (''head_branch'', JStr (gs_head_branch x)), (''head_sha'', JStr (gs_head_sha x)),
     (''url'', JStr (pt_url_text T (gs_url x))),
     (''status'', JStr (github_check_suite_status_value (gs_status x))),
     (''conclusion'', (case gs_conclusion x of None \<Rightarrow> JNull | Some v \<Rightarrow> JStr (github_check_suite_conclusion_value (v)))),
     (''pull_requests'', JArr (map (dump_github_check_run_pr_info T) (gs_pull_requests x)))]"

lemma read_dump_github_check_suite [simp]: "pt_ok T \<Longrightarrow> read_github_check_suite T (dump_github_check_suite T x) = Some x"
  by (cases x) (simp add: read_github_check_suite_def dump_github_check_suite_def)

datatype github_check_run_status =
    RunQueued | RunInProgress | RunCompleted

fun github_check_run_status_value :: "github_check_run_status \<Rightarrow> string" where
  "github_check_run_status_value RunQueued = ''queued''"
| "github_check_run_status_value RunInProgress = ''in_progress''"
| "github_check_run_status_value RunCompleted = ''completed''"

definition github_check_run_status_members :: "github_check_run_status list" where
  "github_check_run_status_members = [RunQueued, RunInProgress, RunCompleted]"

lemma github_check_run_status_values [simp]: "read_enum github_check_run_status_value github_check_run_status_members (JStr (github_check_run_status_value a)) = Some a"
  by (cases a) (simp_all add: read_enum_def github_check_run_status_members_def)

datatype github_check_run_conclusion =
    RunConclusionSuccess | RunConclusionFailure | RunConclusionNeutral | RunConclusionCancelled |
  RunConclusionTimedOut | RunConclusionActionRequired | RunConclusionStale

fun github_check_run_conclusion_value :: "github_check_run_conclusion \<Rightarrow> string" where
  "github_check_run_conclusion_value RunConclusionSuccess = ''success''"
| "github_check_run_conclusion_value RunConclusionFailure = ''failure''"
| "github_check_run_conclusion_value RunConclusionNeutral = ''neutral''"
| "github_check_run_conclusion_value RunConclusionCancelled = ''cancelled''"
| "github_check_run_conclusion_value RunConclusionTimedOut = ''timed_out''"
| "github_check_run_conclusion_value RunConclusionActionRequired = ''action_required''"
| "github_check_run_conclusion_value RunConclusionStale = ''stale''"

definition github_check_run_conclusion_members :: "github_check_run_conclusion list" where
  "github_check_run_conclusion_members = [RunConclusionSuccess, RunConclusionFailure, RunConclusionNeutral, RunConclusionCancelled,
    RunConclusionTimedOut, RunConclusionActionRequired, RunConclusionStale]"

lemma github_check_run_conclusion_values [simp]: "read_enum github_check_run_conclusion_value github_check_run_conclusion_members (JStr (github_check_run_conclusion_value a)) = Some a"
  by (cases a) (simp_all add: read_enum_def github_check_run_conclusion_members_def)

datatype github_check_run_annotation_level =
    AnnotationNotice | AnnotationWarning | AnnotationFailure

fun github_check_run_annotation_level_value :: "github_check_run_annotation_level \<Rightarrow> string" where
  "github_check_run_annotation_level_value AnnotationNotice = ''notice''"
| "github_check_run_annotation_level_value AnnotationWarning = ''warning''"
| "github_check_run_annotation_level_value AnnotationFailure = ''failure''"

definition github_check_run_annotation_level_members :: "github_check_run_annotation_level list" where
  "github_check_run_annotation_level_members = [AnnotationNotice, AnnotationWarning, AnnotationFailure]"

lemma github_check_run_annotation_level_values [simp]: "read_enum github_check_run_annotation_level_value github_check_run_annotation_level_members (JStr (github_check_run_annotation_level_value a)) = Some a"
  by (cases a) (simp_all add: read_enum_def github_check_run_annotation_level_members_def)

record github_check_suite_id =
  gd_id :: int

definition read_github_check_suite_id :: "'u pydantic_types \<Rightarrow> json \<Rightarrow> github_check_suite_id option" where
  "read_github_check_suite_id T j = Option.bind (object_fields j) (\<lambda>d. map_option (\<lambda>v_id. \<lparr>gd_id = v_id\<rparr>) (required (pt_int T) d ''id''))"

definition dump_github_check_suite_id :: "'u pydantic_types \<Rightarrow> github_check_suite_id \<Rightarrow> json" where
  "dump_github_check_suite_id T x = JObj [(''id'', JInt (gd_id x))]"

lemma read_dump_github_check_suite_id [simp]: "pt_ok T \<Longrightarrow> read_github_check_suite_id T (dump_github_check_suite_id T x) = Some x"
  by (cases x) (simp add: read_github_check_suite_id_def dump_github_check_suite_id_def)

record github_check_run_output =
  gt_title :: "string option"
  gt_summary :: "string option"
  gt_text :: "string option"

definition read_github_check_run_output :: "'u pydantic_types \<Rightarrow> json \<Rightarrow> github_check_run_output option" where
  "read_github_check_run_output T j = Option.bind (object_fields j) (\<lambda>d.
     case (optional (read_nullable (pt_str T)) None d ''title'', optional (read_nullable (pt_str T)) None d ''summary'',
           optional (read_nullable (pt_str T)) None d ''text'') of
       (Some v_title, Some v_summary, Some v_text) \<Rightarrow>
         Some \<lparr>gt_title = v_title, gt_summary = v_summary, gt_text = v_text\<rparr>
     | _ \<Rightarrow> None)"

definition dump_github_check_run_output :: "'u pydantic_types \<Rightarrow> github_check_run_output \<Rightarrow> json" where
  "dump_github_check_run_output T x = JObj [(''title'', (case gt_title x of None \<Rightarrow> JNull | Some v \<Rightarrow> JStr v)),
     (''summary'', (case gt_summary x of None \<Rightarrow> JNull | Some v \<Rightarrow> JStr v)),
     (''text'', (case gt_text x of None \<Rightarrow> JNull | Some v \<Rightarrow> JStr v))]"

lemma read_dump_github_check_run_output [simp]: "pt_ok T \<Longrightarrow> read_github_check_run_output T (dump_github_check_run_output T x) = Some x"
  by (cases x) (simp add: read_github_check_run_output_def dump_github_check_run_output_def)

lemma dump_github_check_run_output_object [simp]: "dump_github_check_run_output T x \<noteq> JNull"
  by (simp add: dump_github_check_run_output_def)

record 'u github_check_run =
  gn_id :: int
  gn_external_id :: "string option"
  gn_head_sha :: string
  gn_status :: github_check_run_status
  gn_conclusion :: "github_check_run_conclusion option"
  gn_name :: string
  gn_url :: "'u"
  gn_html_url :: "'u"
  gn_check_suite :: github_check_suite_id
  gn_output :: "github_check_run_output option"
  gn_pull_requests :: "'u github_check_run_pr_info list"

definition read_github_check_run :: "'u pydantic_types \<Rightarrow> json \<Rightarrow> 'u github_check_run option" where
  "read_github_check_run T j = Option.bind (object_fields j) (\<lambda>d.
     case (required (pt_int T) d ''id'', required (read_nullable (pt_str T)) d ''external_id'',
           required (pt_str T) d ''head_sha'',
           required (read_enum github_check_run_status_value github_check_run_status_members) d ''status'',
           optional (read_nullable (read_enum github_check_run_conclusion_value github_check_run_conclusion_members)) None d ''conclusion'',
           required (pt_str T) d ''name'', required (pt_url T) d ''url'', required (pt_url T) d ''html_url'',
           required (read_github_check_suite_id T) d ''check_suite'',
           optional (read_nullable (read_github_check_run_output T)) None d ''output'',
           optional (read_list (read_github_check_run_pr_info T)) [] d ''pull_requests'') of
       (Some v_id, Some v_external_id, Some v_head_sha, Some v_status, Some v_conclusion, Some v_name, Some v_url,
        Some v_html_url, Some v_check_suite, Some v_output, Some v_pull_requests) \<Rightarrow>
         Some \<lparr>gn_id = v_id, gn_external_id = v_external_id, gn_head_sha = v_head_sha, gn_status = v_status,
         gn_conclusion = v_conclusion, gn_name = v_name, gn_url = v_url, gn_html_url = v_html_url,
         gn_check_suite = v_check_suite, gn_output = v_output, gn_pull_requests = v_pull_requests\<rparr>
     | _ \<Rightarrow> None)"

definition dump_github_check_run :: "'u pydantic_types \<Rightarrow> 'u github_check_run \<Rightarrow> json" where
  "dump_github_check_run T x = JObj [(''id'', JInt (gn_id x)),
     (''external_id'', (case gn_external_id x of None \<Rightarrow> JNull | Some v \<Rightarrow> JStr v)),
     (''head_sha'', JStr (gn_head_sha x)), (''status'', JStr (github_check_run_status_value (gn_status x))),
     (''conclusion'', (case gn_conclusion x of None \<Rightarrow> JNull | Some v \<Rightarrow> JStr (github_check_run_conclusion_value (v)))),
     (''name'', JStr (gn_name x)), (''url'', JStr (pt_url_text T (gn_url x))),
     (''html_url'', JStr (pt_url_text T (gn_html_url x))),
     (''check_suite'', dump_github_check_suite_id T (gn_check_suite x)),
     (''output'', (case gn_output x of None \<Rightarrow> JNull | Some v \<Rightarrow> dump_github_check_run_output T (v))),
     (''pull_requests'', JArr (map (dump_github_check_run_pr_info T) (gn_pull_requests x)))]"

lemma read_dump_github_check_run [simp]: "pt_ok T \<Longrightarrow> read_github_check_run T (dump_github_check_run T x) = Some x"
  by (cases x) (simp add: read_github_check_run_def dump_github_check_run_def)

subsection \<open>Blobs\<close>

datatype 'u blob_error = BlobNotImplemented string 'u | BlobValueError

text \<open>\<open>decode\<close>; \<open>utf8\<close> is the decoding of bytes as text.\<close>

definition decode_blob :: "(string \<Rightarrow> string option) \<Rightarrow> 'u github_blob \<Rightarrow> 'u blob_error + string" where
  "decode_blob utf8 blob =
     (if gl_encoding blob = ''base64'' then
        (case b64decode (gl_content blob) of
           None \<Rightarrow> Inl BlobValueError
         | Some bytes \<Rightarrow> (case utf8 bytes of None \<Rightarrow> Inl BlobValueError | Some text \<Rightarrow> Inr text))
      else Inl (BlobNotImplemented (gl_encoding blob) (gl_url blob)))"

text \<open> C35. A blob of GitHub decodes to the text whose bytes it encodes, whatever line breaks and other characters outside of the
  alphabet its content is broken up with, and bytes that are no text are an error; other encodings are refused whatever the content, with an
  error that names the encoding and the address of the blob. \<close>
theorem github_blob_decoded:
  "if gl_encoding blob = ''base64''
   then filter b64_text (gl_content blob) = b64encode bytes \<and> list_all (\<lambda>c. (of_char c :: nat) < 128) (gl_content blob) \<longrightarrow>
     decode_blob utf8 blob = (case utf8 bytes of None \<Rightarrow> Inl BlobValueError | Some decoded \<Rightarrow> Inr decoded)
   else decode_blob utf8 blob = Inl (BlobNotImplemented (gl_encoding blob) (gl_url blob))"
  using b64decode_encoded [of "gl_content blob" bytes] by (simp add: decode_blob_def)

definition demo_blob :: "string github_blob" where
  "demo_blob = \<lparr>gl_content = ''YW'' @ [CHR 10] @ ''Jj'' @ [CHR 10], gl_encoding = ''base64'', gl_url = ''https://api'', gl_sha = ''0'', gl_size = 3\<rparr>"

lemma github_blob_decoded_witness:
  "decode_blob Some demo_blob = Inr ''abc''"
proof -
  have "filter b64_text (gl_content demo_blob) = b64encode ''abc''" by code_simp
  moreover have "list_all (\<lambda>c. (of_char c :: nat) < 128) (gl_content demo_blob)" by (simp add: demo_blob_def)
  ultimately show ?thesis using github_blob_decoded [of demo_blob "''abc''" Some] by (simp add: demo_blob_def)
qed

end
