(* ===== verification/GitHubEvents.thy ===== *)
theory GitHubEvents
  imports GitHub
begin

text \<open>
  The payloads of GitHub's webhooks (\<open>safir.github.webhooks\<close>) and the making of clients of a GitHub App
  (\<open>safir.github._client\<close>).
\<close>

subsection \<open>Payloads\<close>

record github_app_installation =
  ga_id :: int

definition read_github_app_installation :: "'u pydantic_types \<Rightarrow> json \<Rightarrow> github_app_installation option" where
  "read_github_app_installation T j = Option.bind (object_fields j) (\<lambda>d. map_option (\<lambda>v_id. \<lparr>ga_id = v_id\<rparr>) (required (pt_int T) d ''id''))"

definition dump_github_app_installation :: "'u pydantic_types \<Rightarrow> github_app_installation \<Rightarrow> json" where
  "dump_github_app_installation T x = JObj [(''id'', JInt (ga_id x))]"

lemma read_dump_github_app_installation [simp]: "pt_ok T \<Longrightarrow> read_github_app_installation T (dump_github_app_installation T x) = Some x"
  by (cases x) (simp add: read_github_app_installation_def dump_github_app_installation_def)

record 'u github_push_event =
  ge_repository :: "'u github_repository"
  ge_installation :: github_app_installation
  ge_ref :: string
  ge_before :: string
  ge_after :: string

definition read_github_push_event :: "'u pydantic_types \<Rightarrow> json \<Rightarrow> 'u github_push_event option" where
  "read_github_push_event T j = Option.bind (object_fields j) (\<lambda>d.
     case (required (read_github_repository T) d ''repository'',
           required (read_github_app_installation T) d ''installation'', required (pt_str T) d ''ref'',
           required (pt_str T) d ''before'', required (pt_str T) d ''after'') of
       (Some v_repository, Some v_installation, Some v_ref, Some v_before, Some v_after) \<Rightarrow>
         Some \<lparr>ge_repository = v_repository, ge_installation = v_installation, ge_ref = v_ref, ge_before = v_before,
         ge_after = v_after\<rparr>
     | _ \<Rightarrow> None)"

definition dump_github_push_event :: "'u pydantic_types \<Rightarrow> 'u github_push_event \<Rightarrow> json" where
  "dump_github_push_event T x = JObj [(''repository'', dump_github_repository T (ge_repository x)),
     (''installation'', dump_github_app_installation T (ge_installation x)), (''ref'', JStr (ge_ref x)),
     (''before'', JStr (ge_before x)), (''after'', JStr (ge_after x))]"

lemma read_dump_github_push_event [simp]: "pt_ok T \<Longrightarrow> read_github_push_event T (dump_github_push_event T x) = Some x"
  by (cases x) (simp add: read_github_push_event_def dump_github_push_event_def)

record github_app_installation_event_repo =
  gq_name :: string
  gq_full_name :: string

definition read_github_app_installation_event_repo :: "'u pydantic_types \<Rightarrow> json \<Rightarrow> github_app_installation_event_repo option" where
  "read_github_app_installation_event_repo T j = Option.bind (object_fields j) (\<lambda>d.
     case (required (pt_str T) d ''name'', required (pt_str T) d ''full_name'') of
       (Some v_name, Some v_full_name) \<Rightarrow>
         Some \<lparr>gq_name = v_name, gq_full_name = v_full_name\<rparr>
     | _ \<Rightarrow> None)"

definition dump_github_app_installation_event_repo :: "'u pydantic_types \<Rightarrow> github_app_installation_event_repo \<Rightarrow> json" where
  "dump_github_app_installation_event_repo T x = JObj [(''name'', JStr (gq_name x)), (''full_name'', JStr (gq_full_name x))]"

lemma read_dump_github_app_installation_event_repo [simp]: "pt_ok T \<Longrightarrow> read_github_app_installation_event_repo T (dump_github_app_installation_event_repo T x) = Some x"
  by (cases x) (simp add: read_github_app_installation_event_repo_def dump_github_app_installation_event_repo_def)

definition owner_name :: "github_app_installation_event_repo \<Rightarrow> string" where
  "owner_name repo = hd (py_split (CHR ''/'') (gq_full_name repo))"

datatype github_app_installation_event_action =
    InstallationCreated | InstallationDeleted | InstallationNewPermissionsAccepted | InstallationSuspend |
  InstallationUnsuspend

fun github_app_installation_event_action_value :: "github_app_installation_event_action \<Rightarrow> string" where
  "github_app_installation_event_action_value InstallationCreated = ''created''"
| "github_app_installation_event_action_value InstallationDeleted = ''deleted''"
| "github_app_installation_event_action_value InstallationNewPermissionsAccepted = ''new_permissions_accepted''"
| "github_app_installation_event_action_value InstallationSuspend = ''suspend''"
| "github_app_installation_event_action_value InstallationUnsuspend = ''unsuspend''"

definition github_app_installation_event_action_members :: "github_app_installation_event_action list" where
  "github_app_installation_event_action_members = [InstallationCreated, InstallationDeleted, InstallationNewPermissionsAccepted, InstallationSuspend,
    InstallationUnsuspend]"

lemma github_app_installation_event_action_values [simp]: "read_enum github_app_installation_event_action_value github_app_installation_event_action_members (JStr (github_app_installation_event_action_value a)) = Some a"
  by (cases a) (simp_all add: read_enum_def github_app_installation_event_action_members_def)

record github_app_installation_event =
  gf_action :: github_app_installation_event_action
  gf_repositories :: "github_app_installation_event_repo list"
  gf_installation :: github_app_installation

definition read_github_app_installation_event :: "'u pydantic_types \<Rightarrow> json \<Rightarrow> github_app_installation_event option" where
  "read_github_app_installation_event T j = Option.bind (object_fields j) (\<lambda>d.
     case (required (read_enum github_app_installation_event_action_value github_app_installation_event_action_members) d ''action'',
           required (read_list (read_github_app_installation_event_repo T)) d ''repositories'',
           required (read_github_app_installation T) d ''installation'') of
       (Some v_action, Some v_repositories, Some v_installation) \<Rightarrow>
         Some \<lparr>gf_action = v_action, gf_repositories = v_repositories, gf_installation = v_installation\<rparr>
     | _ \<Rightarrow> None)"

definition dump_github_app_installation_event :: "'u pydantic_types \<Rightarrow> github_app_installation_event \<Rightarrow> json" where
  "dump_github_app_installation_event T x = JObj [(''action'', JStr (github_app_installation_event_action_value (gf_action x))),
     (''repositories'', JArr (map (dump_github_app_installation_event_repo T) (gf_repositories x))),
     (''installation'', dump_github_app_installation T (gf_installation x))]"

lemma read_dump_github_app_installation_event [simp]: "pt_ok T \<Longrightarrow> read_github_app_installation_event T (dump_github_app_installation_event T x) = Some x"
  by (cases x) (simp add: read_github_app_installation_event_def dump_github_app_installation_event_def)

datatype github_app_installation_repositories_event_action =
    RepositoriesAdded | RepositoriesRemoved

fun github_app_installation_repositories_event_action_value :: "github_app_installation_repositories_event_action \<Rightarrow> string" where
  "github_app_installation_repositories_event_action_value RepositoriesAdded = ''added''"
| "github_app_installation_repositories_event_action_value RepositoriesRemoved = ''removed''"

definition github_app_installation_repositories_event_action_members :: "github_app_installation_repositories_event_action list" where
  "github_app_installation_repositories_event_action_members = [RepositoriesAdded, RepositoriesRemoved]"

lemma github_app_installation_repositories_event_action_values [simp]: "read_enum github_app_installation_repositories_event_action_value github_app_installation_repositories_event_action_members (JStr (github_app_installation_repositories_event_action_value a)) = Some a"
  by (cases a) (simp_all add: read_enum_def github_app_installation_repositories_event_action_members_def)

record github_app_installation_repositories_event =
  gv_action :: github_app_installation_repositories_event_action
  gv_repositories_added :: "github_app_installation_event_repo list"
  gv_repositories_removed :: "github_app_installation_event_repo list"
  gv_installation :: github_app_installation

definition read_github_app_installation_repositories_event :: "'u pydantic_types \<Rightarrow> json \<Rightarrow> github_app_installation_repositories_event option" where
  "read_github_app_installation_repositories_event T j = Option.bind (object_fields j) (\<lambda>d.
     case (required (read_enum github_app_installation_repositories_event_action_value github_app_installation_repositories_event_action_members) d ''action'',
           required (read_list (read_github_app_installation_event_repo T)) d ''repositories_added'',
           required (read_list (read_github_app_installation_event_repo T)) d ''repositories_removed'',
           required (read_github_app_installation T) d ''installation'') of
       (Some v_action, Some v_repositories_added, Some v_repositories_removed, Some v_installation) \<Rightarrow>
         Some \<lparr>gv_action = v_action, gv_repositories_added = v_repositories_added,
         gv_repositories_removed = v_repositories_removed, gv_installation = v_installation\<rparr>
     | _ \<Rightarrow> None)"

definition dump_github_app_installation_repositories_event :: "'u pydantic_types \<Rightarrow> github_app_installation_repositories_event \<Rightarrow> json" where
  "dump_github_app_installation_repositories_event T x = JObj [(''action'', JStr (github_app_installation_repositories_event_action_value (gv_action x))),
     (''repositories_added'', JArr (map (dump_github_app_installation_event_repo T) (gv_repositories_added x))),
     (''repositories_removed'', JArr (map (dump_github_app_installation_event_repo T) (gv_repositories_removed x))),
     (''installation'', dump_github_app_installation T (gv_installation x))]"

lemma read_dump_github_app_installation_repositories_event [simp]: "pt_ok T \<Longrightarrow> read_github_app_installation_repositories_event T (dump_github_app_installation_repositories_event T x) = Some x"
  by (cases x) (simp add: read_github_app_installation_repositories_event_def dump_github_app_installation_repositories_event_def)

datatype github_pull_request_event_action =
    PullRequestAssigned | PullRequestAutoMergeDisabled | PullRequestAutoMergeEnabled | PullRequestClosed |
  PullRequestConvertedToDraft | PullRequestDemilestoned | PullRequestDequeued | PullRequestEdited |
  PullRequestLabeled | PullRequestLocked | PullRequestMilestoned | PullRequestOpened |
  PullRequestReadyForReview | PullRequestReopened | PullRequestReviewRequestRemoved |
  PullRequestReviewRequested | PullRequestSynchronize | PullRequestUnassigned | PullRequestUnlabeled |
  PullRequestUnlocked

fun github_pull_request_event_action_value :: "github_pull_request_event_action \<Rightarrow> string" where
  "github_pull_request_event_action_value PullRequestAssigned = ''assigned''"
| "github_pull_request_event_action_value PullRequestAutoMergeDisabled = ''auto_merge_disabled''"
| "github_pull_request_event_action_value PullRequestAutoMergeEnabled = ''auto_merge_enabled''"
| "github_pull_request_event_action_value PullRequestClosed = ''closed''"
| "github_pull_request_event_action_value PullRequestConvertedToDraft = ''converted_to_draft''"
| "github_pull_request_event_action_value PullRequestDemilestoned = ''demilestoned''"
| "github_pull_request_event_action_value PullRequestDequeued = ''dequeued''"
| "github_pull_request_event_action_value PullRequestEdited = ''edited''"
| "github_pull_request_event_action_value PullRequestLabeled = ''labeled''"
| "github_pull_request_event_action_value PullRequestLocked = ''locked''"
| "github_pull_request_event_action_value PullRequestMilestoned = ''milestoned''"
| "github_pull_request_event_action_value PullRequestOpened = ''opened''"
| "github_pull_request_event_action_value PullRequestReadyForReview = ''ready_for_review''"
| "github_pull_request_event_action_value PullRequestReopened = ''reopened''"
| "github_pull_request_event_action_value PullRequestReviewRequestRemoved = ''review_request_removed''"
| "github_pull_request_event_action_value PullRequestReviewRequested = ''review_requested''"
| "github_pull_request_event_action_value PullRequestSynchronize = ''synchronize''"
| "github_pull_request_event_action_value PullRequestUnassigned = ''unassigned''"
| "github_pull_request_event_action_value PullRequestUnlabeled = ''unlabeled''"
| "github_pull_request_event_action_value PullRequestUnlocked = ''unlocked''"

definition github_pull_request_event_action_members :: "github_pull_request_event_action list" where
  "github_pull_request_event_action_members = [PullRequestAssigned, PullRequestAutoMergeDisabled, PullRequestAutoMergeEnabled, PullRequestClosed,
    PullRequestConvertedToDraft, PullRequestDemilestoned, PullRequestDequeued, PullRequestEdited,
    PullRequestLabeled, PullRequestLocked, PullRequestMilestoned, PullRequestOpened, PullRequestReadyForReview,
    PullRequestReopened, PullRequestReviewRequestRemoved, PullRequestReviewRequested, PullRequestSynchronize,
    PullRequestUnassigned, PullRequestUnlabeled, PullRequestUnlocked]"

lemma github_pull_request_event_action_values [simp]: "read_enum github_pull_request_event_action_value github_pull_request_event_action_members (JStr (github_pull_request_event_action_value a)) = Some a"
  by (cases a) (simp_all add: read_enum_def github_pull_request_event_action_members_def)

record 'u github_pull_request_event =
  gw_repository :: "'u github_repository"
  gw_installation :: github_app_installation
  gw_action :: github_pull_request_event_action
  gw_number :: int
  gw_pull_request :: "'u github_pull_request"

definition read_github_pull_request_event :: "'u pydantic_types \<Rightarrow> json \<Rightarrow> 'u github_pull_request_event option" where
  "read_github_pull_request_event T j = Option.bind (object_fields j) (\<lambda>d.
     case (required (read_github_repository T) d ''repository'',
           required (read_github_app_installation T) d ''installation'',
           required (read_enum github_pull_request_event_action_value github_pull_request_event_action_members) d ''action'',
           required (pt_int T) d ''number'', required (read_github_pull_request T) d ''pull_request'') of
       (Some v_repository, Some v_installation, Some v_action, Some v_number, Some v_pull_request) \<Rightarrow>
         Some \<lparr>gw_repository = v_repository, gw_installation = v_installation, gw_action = v_action, gw_number = v_number,
         gw_pull_request = v_pull_request\<rparr>
     | _ \<Rightarrow> None)"

definition dump_github_pull_request_event :: "'u pydantic_types \<Rightarrow> 'u github_pull_request_event \<Rightarrow> json" where
  "dump_github_pull_request_event T x = JObj [(''repository'', dump_github_repository T (gw_repository x)),
     (''installation'', dump_github_app_installation T (gw_installation x)),
     (''action'', JStr (github_pull_request_event_action_value (gw_action x))), (''number'', JInt (gw_number x)),
     (''pull_request'', dump_github_pull_request T (gw_pull_request x))]"

lemma read_dump_github_pull_request_event [simp]: "pt_ok T \<Longrightarrow> read_github_pull_request_event T (dump_github_pull_request_event T x) = Some x"
  by (cases x) (simp add: read_github_pull_request_event_def dump_github_pull_request_event_def)

datatype github_check_suite_event_action =
    SuiteEventCompleted | SuiteEventRequested | SuiteEventRerequested

fun github_check_suite_event_action_value :: "github_check_suite_event_action \<Rightarrow> string" where
  "github_check_suite_event_action_value SuiteEventCompleted = ''completed''"
| "github_check_suite_event_action_value SuiteEventRequested = ''requested''"
| "github_check_suite_event_action_value SuiteEventRerequested = ''rerequested''"

definition github_check_suite_event_action_members :: "github_check_suite_event_action list" where
  "github_check_suite_event_action_members = [SuiteEventCompleted, SuiteEventRequested, SuiteEventRerequested]"

lemma github_check_suite_event_action_values [simp]: "read_enum github_check_suite_event_action_value github_check_suite_event_action_members (JStr (github_check_suite_event_action_value a)) = Some a"
  by (cases a) (simp_all add: read_enum_def github_check_suite_event_action_members_def)

record 'u github_check_suite_event =
  gx_action :: github_check_suite_event_action
  gx_check_suite :: "'u github_check_suite"
  gx_repository :: "'u github_repository"
  gx_installation :: github_app_installation

definition read_github_check_suite_event :: "'u pydantic_types \<Rightarrow> json \<Rightarrow> 'u github_check_suite_event option" where
  "read_github_check_suite_event T j = Option.bind (object_fields j) (\<lambda>d.
     case (required (read_enum github_check_suite_event_action_value github_check_suite_event_action_members) d ''action'',
           required (read_github_check_suite T) d ''check_suite'', required (read_github_repository T) d ''repository'',
           required (read_github_app_installation T) d ''installation'') of
       (Some v_action, Some v_check_suite, Some v_repository, Some v_installation) \<Rightarrow>
         Some \<lparr>gx_action = v_action, gx_check_suite = v_check_suite, gx_repository = v_repository,
         gx_installation = v_installation\<rparr>
     | _ \<Rightarrow> None)"

definition dump_github_check_suite_event :: "'u pydantic_types \<Rightarrow> 'u github_check_suite_event \<Rightarrow> json" where
  "dump_github_check_suite_event T x = JObj [(''action'', JStr (github_check_suite_event_action_value (gx_action x))),
     (''check_suite'', dump_github_check_suite T (gx_check_suite x)),
     (''repository'', dump_github_repository T (gx_repository x)),
     (''installation'', dump_github_app_installation T (gx_installation x))]"

lemma read_dump_github_check_suite_event [simp]: "pt_ok T \<Longrightarrow> read_github_check_suite_event T (dump_github_check_suite_event T x) = Some x"
  by (cases x) (simp add: read_github_check_suite_event_def dump_github_check_suite_event_def)

datatype github_check_run_event_action =
    RunEventCompleted | RunEventCreated | RunEventRequestedAction | RunEventRerequested

fun github_check_run_event_action_value :: "github_check_run_event_action \<Rightarrow> string" where
  "github_check_run_event_action_value RunEventCompleted = ''completed''"
| "github_check_run_event_action_value RunEventCreated = ''created''"
| "github_check_run_event_action_value RunEventRequestedAction = ''requested_action''"
| "github_check_run_event_action_value RunEventRerequested = ''rerequested''"

definition github_check_run_event_action_members :: "github_check_run_event_action list" where
  "github_check_run_event_action_members = [RunEventCompleted, RunEventCreated, RunEventRequestedAction, RunEventRerequested]"

lemma github_check_run_event_action_values [simp]: "read_enum github_check_run_event_action_value github_check_run_event_action_members (JStr (github_check_run_event_action_value a)) = Some a"
  by (cases a) (simp_all add: read_enum_def github_check_run_event_action_members_def)

record 'u github_check_run_event =
  gy_action :: github_check_run_event_action
  gy_repository :: "'u github_repository"
  gy_installation :: github_app_installation
  gy_check_run :: "'u github_check_run"

definition read_github_check_run_event :: "'u pydantic_types \<Rightarrow> json \<Rightarrow> 'u github_check_run_event option" where
  "read_github_check_run_event T j = Option.bind (object_fields j) (\<lambda>d.
     case (required (read_enum github_check_run_event_action_value github_check_run_event_action_members) d ''action'',
           required (read_github_repository T) d ''repository'',
           required (read_github_app_installation T) d ''installation'',
           required (read_github_check_run T) d ''check_run'') of
       (Some v_action, Some v_repository, Some v_installation, Some v_check_run) \<Rightarrow>
         Some \<lparr>gy_action = v_action, gy_repository = v_repository, gy_installation = v_installation,
         gy_check_run = v_check_run\<rparr>
     | _ \<Rightarrow> None)"

definition dump_github_check_run_event :: "'u pydantic_types \<Rightarrow> 'u github_check_run_event \<Rightarrow> json" where
  "dump_github_check_run_event T x = JObj [(''action'', JStr (github_check_run_event_action_value (gy_action x))),
     (''repository'', dump_github_repository T (gy_repository x)),
     (''installation'', dump_github_app_installation T (gy_installation x)),
     (''check_run'', dump_github_check_run T (gy_check_run x))]"

lemma read_dump_github_check_run_event [simp]: "pt_ok T \<Longrightarrow> read_github_check_run_event T (dump_github_check_run_event T x) = Some x"
  by (cases x) (simp add: read_github_check_run_event_def dump_github_check_run_event_def)

text \<open>A payload with further members.\<close>

definition with_members :: "json \<Rightarrow> (string \<times> json) list \<Rightarrow> json" where
  "with_members j extra = (case j of JObj d \<Rightarrow> JObj (d @ extra) | _ \<Rightarrow> j)"

lemma owner_name_full:
  "CHR ''/'' \<notin> set owner \<Longrightarrow> gq_full_name repo = owner @ CHR ''/'' # name \<Longrightarrow> owner_name repo = owner"
  by (simp add: owner_name_def py_split_append)

text \<open>The values of the actions are distinct, and no other text is an action.\<close>

lemma read_enum_unknown: "\<forall>a. value a \<noteq> s \<Longrightarrow> read_enum value members (JStr s) = None"
  by (simp add: read_enum_def find_None_iff)

text \<open>
  Every payload of a webhook is read as the event it was made of, whatever further members GitHub puts into it, and one
  whose action is not among the known ones is refused. \<close>
theorem webhook_payloads_read:
  assumes "pt_ok T"
  shows "read_github_push_event T (with_members (dump_github_push_event T push) extra) = Some push \<and>
    read_github_app_installation_event T (with_members (dump_github_app_installation_event T installation) extra) = Some installation \<and>
    read_github_app_installation_repositories_event T
      (with_members (dump_github_app_installation_repositories_event T repositories) extra) = Some repositories \<and>
    read_github_pull_request_event T (with_members (dump_github_pull_request_event T pull) extra) = Some pull \<and>
    read_github_check_suite_event T (with_members (dump_github_check_suite_event T suite) extra) = Some suite \<and>
    read_github_check_run_event T (with_members (dump_github_check_run_event T run) extra) = Some run \<and>
    (s \<notin> range github_pull_request_event_action_value \<longrightarrow>
       read_github_pull_request_event T (JObj ((''action'', JStr s) # extra)) = None)"
proof (intro conjI impI)
  show "read_github_push_event T (with_members (dump_github_push_event T push) extra) = Some push"
    using assms by (cases push) (simp add: read_github_push_event_def dump_github_push_event_def with_members_def)
  show "read_github_app_installation_event T (with_members (dump_github_app_installation_event T installation) extra) = Some installation"
    using assms by (cases installation) (simp add: read_github_app_installation_event_def dump_github_app_installation_event_def with_members_def)
  show "read_github_app_installation_repositories_event T
      (with_members (dump_github_app_installation_repositories_event T repositories) extra) = Some repositories"
    using assms by (cases repositories)
      (simp add: read_github_app_installation_repositories_event_def dump_github_app_installation_repositories_event_def with_members_def)
  show "read_github_pull_request_event T (with_members (dump_github_pull_request_event T pull) extra) = Some pull"
    using assms by (cases pull) (simp add: read_github_pull_request_event_def dump_github_pull_request_event_def with_members_def)
  show "read_github_check_suite_event T (with_members (dump_github_check_suite_event T suite) extra) = Some suite"
    using assms by (cases suite) (simp add: read_github_check_suite_event_def dump_github_check_suite_event_def with_members_def)
  show "read_github_check_run_event T (with_members (dump_github_check_run_event T run) extra) = Some run"
    using assms by (cases run) (simp add: read_github_check_run_event_def dump_github_check_run_event_def with_members_def)
  show "read_github_pull_request_event T (JObj ((''action'', JStr s) # extra)) = None"
    if "s \<notin> range github_pull_request_event_action_value"
  proof -
    have "read_enum github_pull_request_event_action_value github_pull_request_event_action_members (JStr s) = None"
      by (rule read_enum_unknown) (use that in auto)
    then show ?thesis by (simp add: read_github_pull_request_event_def split: option.split)
  qed
qed

text \<open>Types that take texts as URLs.\<close>

definition demo_pydantic :: "string pydantic_types" where
  "demo_pydantic = \<lparr>pt_str = (\<lambda>j. case j of JStr s \<Rightarrow> Some s | _ \<Rightarrow> None), pt_int = (\<lambda>j. case j of JInt i \<Rightarrow> Some i | _ \<Rightarrow> None),
     pt_bool = (\<lambda>j. case j of JBool b \<Rightarrow> Some b | _ \<Rightarrow> None), pt_url = (\<lambda>j. case j of JStr s \<Rightarrow> Some s | _ \<Rightarrow> None),
     pt_url_text = (\<lambda>u. u)\<rparr>"

definition demo_installation :: github_app_installation_event where
  "demo_installation = \<lparr>gf_action = InstallationSuspend,
     gf_repositories = [\<lparr>gq_name = ''safir'', gq_full_name = ''lsst-sqre/safir''\<rparr>], gf_installation = \<lparr>ga_id = 7\<rparr>\<rparr>"

lemma webhook_payloads_read_witness:
  "read_github_app_installation_event demo_pydantic (JObj [(''action'', JStr ''suspend''),
      (''repositories'', JArr [JObj [(''name'', JStr ''safir''), (''full_name'', JStr ''lsst-sqre/safir'')]]),
      (''installation'', JObj [(''id'', JInt 7)]), (''requester'', JNull)]) = Some demo_installation"
proof -
  have "pt_ok demo_pydantic" by (simp add: pt_ok_def demo_pydantic_def)
  from webhook_payloads_read [OF this, where installation = demo_installation and extra = "[(''requester'', JNull)]", THEN conjunct2, THEN conjunct1]
  have "read_github_app_installation_event demo_pydantic
      (with_members (dump_github_app_installation_event demo_pydantic demo_installation) [(''requester'', JNull)]) = Some demo_installation" .
  then show ?thesis
    by (simp add: with_members_def dump_github_app_installation_event_def dump_github_app_installation_event_repo_def
        dump_github_app_installation_def demo_installation_def)
qed

subsection \<open>Clients of an app\<close>

text \<open>The factory, and a client of the API: an HTTP client, the name it gives as its user agent and its token.\<close>

record 'h app_client_factory =
  af_app_id :: int
  af_app_key :: string
  af_app_name :: string
  af_http_client :: 'h

record 'h github_api =
  ap_client :: 'h
  ap_requester :: string
  ap_oauth_token :: "string option"

text \<open>
  The functions of gidgethub: \<open>get_jwt\<close> of an app and its key, the access token of an installation for a client, the
  installation, the app and its key, and an item of a client, a path, its variables and a token.  A missing member of an
  answer is a \<open>KeyError\<close>.
\<close>

datatype 'e github_exc = GitHubKeyError | GitHubRaised 'e

record ('w, 'h, 'e) gidgethub =
  gg_get_jwt :: "string \<Rightarrow> string \<Rightarrow> ('w, 'e github_exc, string) eff"
  gg_access_token :: "'h github_api \<Rightarrow> string \<Rightarrow> string \<Rightarrow> string \<Rightarrow> ('w, 'e github_exc, (string \<times> string) list) eff"
  gg_getitem :: "'h github_api \<Rightarrow> string \<Rightarrow> (string \<times> string) list \<Rightarrow> string \<Rightarrow> ('w, 'e github_exc, (string \<times> int) list) eff"

definition get_member :: "(string \<times> 'a) list \<Rightarrow> string \<Rightarrow> ('w, 'e github_exc, 'a) eff" where
  "get_member d name = (case map_of d name of None \<Rightarrow> raise_eff GitHubKeyError | Some v \<Rightarrow> ret_eff v)"

definition get_app_jwt :: "('w, 'h, 'e) gidgethub \<Rightarrow> 'h app_client_factory \<Rightarrow> ('w, 'e github_exc, string) eff" where
  "get_app_jwt g f = gg_get_jwt g (int_str (af_app_id f)) (af_app_key f)"

definition create_client :: "'h app_client_factory \<Rightarrow> string option \<Rightarrow> 'h github_api" where
  "create_client f oauth_token = \<lparr>ap_client = af_http_client f, ap_requester = af_app_name f, ap_oauth_token = oauth_token\<rparr>"

definition create_anonymous_client :: "'h app_client_factory \<Rightarrow> 'h github_api" where
  "create_anonymous_client f = create_client f None"

definition create_installation_client ::
  "('w, 'h, 'e) gidgethub \<Rightarrow> 'h app_client_factory \<Rightarrow> int \<Rightarrow> ('w, 'e github_exc, 'h github_api) eff" where
  "create_installation_client g f installation_id =
     bind_eff (gg_access_token g (create_anonymous_client f) (int_str installation_id) (int_str (af_app_id f)) (af_app_key f)) (\<lambda>token_info.
     bind_eff (get_member token_info ''token'') (\<lambda>token.
     ret_eff (create_client f (Some token))))"

definition create_installation_client_for_repo ::
  "('w, 'h, 'e) gidgethub \<Rightarrow> 'h app_client_factory \<Rightarrow> string \<Rightarrow> string \<Rightarrow> ('w, 'e github_exc, 'h github_api) eff" where
  "create_installation_client_for_repo g f owner repo =
     bind_eff (get_app_jwt g f) (\<lambda>app_jwt.
     let anon_client = create_anonymous_client f in
     bind_eff (gg_getitem g anon_client ''/repos/{owner}/{repo}/installation'' [(''owner'', owner), (''repo'', repo)] app_jwt)
       (\<lambda>installation_data.
     bind_eff (get_member installation_data ''id'') (\<lambda>installation_id.
     create_installation_client g f installation_id)))"

text \<open>A client that is returned shares the HTTP client and has the token of the installation.\<close>

lemma installation_client_token:
  assumes "create_installation_client g f i w = (Inr api, w')"
  obtains info where "gg_access_token g (create_anonymous_client f) (int_str i) (int_str (af_app_id f)) (af_app_key f) w = (Inr info, w')"
    "ap_oauth_token api = map_of info ''token''" "ap_oauth_token api \<noteq> None" "ap_client api = af_http_client f"
  using assms by (auto simp: create_installation_client_def get_member_def create_client_def eff_simps
      split: sum.splits prod.splits option.splits)

end
