(* ===== verification/UWSApp.thy ===== *)
theory UWSApp
  imports UWSHandlers UWSWorkers Dependencies
begin

text \<open>
  How an application puts the UWS layer together: the dependency that builds the components for a request
  (\<open>safir.uws._dependencies\<close>), the routes and the worker of \<open>UWSApplication\<close> (\<open>safir.uws._app\<close>), the
  context of its worker (\<open>safir.uws._workers\<close>), and the backend worker (\<open>safir.arq.uws\<close>).
\<close>

subsection \<open>Queues\<close>

text \<open>
  \<open>make_redis\<close> connects to Redis, with a default queue, and \<open>make_mock\<close> makes a mock queue; a
  queue that is not named is that of the arq library, \<open>arq_default\<close>.
\<close>

record ('w, 'q) queue_factory =
  qf_redis :: "redis_settings \<Rightarrow> string \<Rightarrow> ('w, exc, 'q) eff"
  qf_mock :: "string \<Rightarrow> 'w \<Rightarrow> 'q \<times> 'w"
  qf_arq_default :: string

definition make_queue ::
  "('w, 'q) queue_factory \<Rightarrow> arq_mode \<Rightarrow> redis_settings \<Rightarrow> string \<Rightarrow> ('w, exc, 'q) eff" where
  "make_queue qf mode settings default_queue_name =
     (if mode = Production then qf_redis qf settings default_queue_name
      else (\<lambda>w. case qf_mock qf default_queue_name w of (q, w) \<Rightarrow> (Inr q, w)))"

subsection \<open>The dependency\<close>

text \<open>
  The dependency: its queue, and its configuration and result store, which are attributes that are not there before
  it is initialized.  A result store is its configuration.
\<close>

record 'q uws_dependency =
  ud_arq :: "'q option"
  ud_config :: "uws_config option"

record ('q, 'h, 'l) uws_factory =
  uf_config :: uws_config
  uf_result_store :: uws_config
  uf_arq :: 'q
  uf_http_client :: 'h
  uf_logger :: 'l

definition new_uws_dependency :: "'q uws_dependency" where
  "new_uws_dependency = \<lparr>ud_arq = None, ud_config = None\<rparr>"

definition uws_dependency_call ::
  "'h \<Rightarrow> 'l \<Rightarrow> 'q uws_dependency \<Rightarrow> exc + ('q, 'h, 'l) uws_factory" where
  "uws_dependency_call http_client logger d = (case ud_arq d of
     None \<Rightarrow> Inl (ExcOther ''RuntimeError'' ''UWSDependency not initialized'')
   | Some arq \<Rightarrow> (case ud_config d of
       None \<Rightarrow> Inl (ExcOther ''AttributeError'' ''_config'')
     | Some config \<Rightarrow> Inr \<lparr>uf_config = config, uf_result_store = config, uf_arq = arq, uf_http_client = http_client,
         uf_logger = logger\<rparr>))"

definition uws_initialize ::
  "('w, 'q) queue_factory \<Rightarrow> uws_config \<Rightarrow> ('q uws_dependency \<times> 'w, exc, unit) eff" where
  "uws_initialize qf config = (\<lambda>(d, w). let d = d\<lparr>ud_config := Some config\<rparr> in
     case ud_arq d of
       Some _ \<Rightarrow> (Inr (), (d, w))
     | None \<Rightarrow> (case make_queue qf (cfg_arq_mode config) (cfg_arq_redis_settings config) (qf_arq_default qf) w of
         (Inl e, w) \<Rightarrow> (Inl e, (d, w))
       | (Inr q, w) \<Rightarrow> (Inr (), (d\<lparr>ud_arq := Some q\<rparr>, w))))"

definition override_arq_queue :: "'q \<Rightarrow> 'q uws_dependency \<Rightarrow> 'q uws_dependency" where
  "override_arq_queue arq_queue d = d\<lparr>ud_arq := Some arq_queue\<rparr>"

text \<open>What the factory builds: a store is its configuration and client, a service the queue and a store.\<close>

definition create_result_store :: "('q, 'h, 'l) uws_factory \<Rightarrow> uws_config" where
  "create_result_store f = uf_result_store f"

definition create_job_store :: "('q, 'h, 'l) uws_factory \<Rightarrow> uws_config \<times> 'h" where
  "create_job_store f = (uf_config f, uf_http_client f)"

definition create_job_service :: "('q, 'h, 'l) uws_factory \<Rightarrow> uws_config \<times> 'q \<times> (uws_config \<times> 'h) \<times> 'l" where
  "create_job_service f = (uf_config f, uf_arq f, create_job_store f, uf_logger f)"

definition runid_post_dependency :: "string option \<Rightarrow> string option" where
  "runid_post_dependency runid = runid"

text \<open>A queue that was given first is kept, and after initialization every request gets the last configuration.\<close>

lemma uws_initialize_then_call:
  assumes "uws_initialize qf config (d, w) = (Inr (), (d', w'))"
  shows "\<exists>arq. ud_arq d' = Some arq \<and> (ud_arq d = None \<or> ud_arq d = Some arq) \<and>
    uws_dependency_call h l d' = Inr \<lparr>uf_config = config, uf_result_store = config, uf_arq = arq, uf_http_client = h, uf_logger = l\<rparr>"
  using assms by (auto simp: uws_initialize_def uws_dependency_call_def Let_def split: option.splits prod.splits sum.splits)

subsection \<open>Routes\<close>

text \<open>A path is the list of its segments; \<open>JobIdSegment\<close> is \<open>{job_id}\<close>, which takes any segment that is not empty.\<close>

datatype path_segment = Literal string | JobIdSegment

datatype uws_route_name =
    GetJobList | GetJob | DeleteJob | DeleteJobViaPost | GetJobDestruction | PostJobDestruction | GetJobError
  | GetJobExecutionDuration | PostJobExecutionDuration | GetJobOwner | GetJobParameters | GetJobPhase | PostJobPhase
  | GetJobQuote | GetJobResults | GetAvailability | GetSync | PostSync | CreateJob

type_synonym route_entry = "http_method \<times> path_segment list \<times> uws_route_name"

definition uws_router :: "route_entry list" where
  "uws_router =
     [(GET, [], GetJobList), (GET, [JobIdSegment], GetJob), (DELETE, [JobIdSegment], DeleteJob),
      (POST, [JobIdSegment], DeleteJobViaPost),
      (GET, [JobIdSegment, Literal ''destruction''], GetJobDestruction),
      (POST, [JobIdSegment, Literal ''destruction''], PostJobDestruction),
      (GET, [JobIdSegment, Literal ''error''], GetJobError),
      (GET, [JobIdSegment, Literal ''executionduration''], GetJobExecutionDuration),
      (POST, [JobIdSegment, Literal ''executionduration''], PostJobExecutionDuration),
      (GET, [JobIdSegment, Literal ''owner''], GetJobOwner),
      (GET, [JobIdSegment, Literal ''parameters''], GetJobParameters),
      (GET, [JobIdSegment, Literal ''phase''], GetJobPhase),
      (POST, [JobIdSegment, Literal ''phase''], PostJobPhase),
      (GET, [JobIdSegment, Literal ''quote''], GetJobQuote),
      (GET, [JobIdSegment, Literal ''results''], GetJobResults)]"

definition install_availability_handler :: "route_entry list \<Rightarrow> route_entry list" where
  "install_availability_handler router = router @ [(GET, [Literal ''availability''], GetAvailability)]"

definition install_sync_get_handler :: "route_entry list \<Rightarrow> route_entry list" where
  "install_sync_get_handler router = router @ [(GET, [Literal ''sync''], GetSync)]"

definition install_sync_post_handler :: "route_entry list \<Rightarrow> route_entry list" where
  "install_sync_post_handler router = router @ [(POST, [Literal ''sync''], PostSync)]"

definition install_async_post_handler :: "route_entry list \<Rightarrow> route_entry list" where
  "install_async_post_handler router = router @ [(POST, [Literal ''jobs''], CreateJob)]"

definition install_handlers :: "uws_config \<Rightarrow> route_entry list \<Rightarrow> route_entry list" where
  "install_handlers cfg router =
     (let router = router @ map (\<lambda>(m, p, n). (m, Literal ''jobs'' # p, n)) uws_router;
          router = install_availability_handler router;
          router = (if cfg_sync_get_route cfg \<noteq> None then install_sync_get_handler router else router);
          router = (if cfg_sync_post_route cfg \<noteq> None then install_sync_post_handler router else router)
      in install_async_post_handler router)"

text \<open>The first route of a router whose method and path fit.\<close>

fun segment_fits :: "path_segment \<Rightarrow> string \<Rightarrow> bool" where
  "segment_fits (Literal l) s = (s = l)"
| "segment_fits JobIdSegment s = (s \<noteq> [])"

definition route_fits :: "http_method \<Rightarrow> string list \<Rightarrow> route_entry \<Rightarrow> bool" where
  "route_fits m path r = (case r of (m', p, _) \<Rightarrow> m' = m \<and> list_all2 segment_fits p path)"

definition find_route :: "route_entry list \<Rightarrow> http_method \<Rightarrow> string list \<Rightarrow> uws_route_name option" where
  "find_route router m path = map_option (\<lambda>(_, _, n). n) (List.find (route_fits m path) router)"

text \<open>The middleware of an application, the last added first.\<close>

datatype uws_middleware = CaseInsensitiveFormMiddleware | CaseInsensitiveQueryMiddleware

definition install_middleware :: "uws_middleware list \<Rightarrow> uws_middleware list" where
  "install_middleware stack = CaseInsensitiveQueryMiddleware # CaseInsensitiveFormMiddleware # stack"

text \<open>No two of the installed routes fit the same request, so that the order of installation does not matter.\<close>

lemma installed_routes:
  "set (install_handlers cfg []) = (\<lambda>(m, p, n). (m, Literal ''jobs'' # p, n)) ` set uws_router
    \<union> {(GET, [Literal ''availability''], GetAvailability), (POST, [Literal ''jobs''], CreateJob)}
    \<union> (if cfg_sync_get_route cfg \<noteq> None then {(GET, [Literal ''sync''], GetSync)} else {})
    \<union> (if cfg_sync_post_route cfg \<noteq> None then {(POST, [Literal ''sync''], PostSync)} else {})"
  by (auto simp: install_handlers_def Let_def install_availability_handler_def install_sync_get_handler_def
      install_sync_post_handler_def install_async_post_handler_def)

text \<open>The method and path of each name.\<close>

fun route_of :: "uws_route_name \<Rightarrow> http_method \<times> path_segment list" where
  "route_of GetJobList = (GET, [Literal ''jobs''])"
| "route_of GetJob = (GET, [Literal ''jobs'', JobIdSegment])"
| "route_of DeleteJob = (DELETE, [Literal ''jobs'', JobIdSegment])"
| "route_of DeleteJobViaPost = (POST, [Literal ''jobs'', JobIdSegment])"
| "route_of GetJobDestruction = (GET, [Literal ''jobs'', JobIdSegment, Literal ''destruction''])"
| "route_of PostJobDestruction = (POST, [Literal ''jobs'', JobIdSegment, Literal ''destruction''])"
| "route_of GetJobError = (GET, [Literal ''jobs'', JobIdSegment, Literal ''error''])"
| "route_of GetJobExecutionDuration = (GET, [Literal ''jobs'', JobIdSegment, Literal ''executionduration''])"
| "route_of PostJobExecutionDuration = (POST, [Literal ''jobs'', JobIdSegment, Literal ''executionduration''])"
| "route_of GetJobOwner = (GET, [Literal ''jobs'', JobIdSegment, Literal ''owner''])"
| "route_of GetJobParameters = (GET, [Literal ''jobs'', JobIdSegment, Literal ''parameters''])"
| "route_of GetJobPhase = (GET, [Literal ''jobs'', JobIdSegment, Literal ''phase''])"
| "route_of PostJobPhase = (POST, [Literal ''jobs'', JobIdSegment, Literal ''phase''])"
| "route_of GetJobQuote = (GET, [Literal ''jobs'', JobIdSegment, Literal ''quote''])"
| "route_of GetJobResults = (GET, [Literal ''jobs'', JobIdSegment, Literal ''results''])"
| "route_of GetAvailability = (GET, [Literal ''availability''])"
| "route_of GetSync = (GET, [Literal ''sync''])"
| "route_of PostSync = (POST, [Literal ''sync''])"
| "route_of CreateJob = (POST, [Literal ''jobs''])"

lemma route_of_inj: "route_of a = route_of b \<Longrightarrow> a = b"
  by (cases a; cases b) simp_all

lemma route_of_shape:
  "\<exists>l. snd (route_of n) = [Literal l] \<or> snd (route_of n) = [Literal ''jobs'', JobIdSegment] \<or>
     snd (route_of n) = [Literal ''jobs'', JobIdSegment, Literal l]"
  by (cases n) simp_all

lemma installed_route_of:
  assumes "r \<in> set (install_handlers cfg [])"
  shows "r = (fst (route_of (snd (snd r))), snd (route_of (snd (snd r))), snd (snd r))"
proof -
  have "\<forall>r \<in> set uws_router. (fst r, Literal ''jobs'' # fst (snd r)) = route_of (snd (snd r))" by (simp add: uws_router_def)
  then show ?thesis using assms by (auto simp: installed_routes split: if_splits) (metis fst_conv snd_conv)+
qed

lemma route_unique:
  assumes "r \<in> set (install_handlers cfg [])" "r' \<in> set (install_handlers cfg [])" "route_fits m path r" "route_fits m path r'"
  shows "r = r'"
proof -
  obtain n n' where r: "r = (fst (route_of n), snd (route_of n), n)" "r' = (fst (route_of n'), snd (route_of n'), n')"
    using installed_route_of [OF assms(1)] installed_route_of [OF assms(2)] by blast
  then have f: "fst (route_of n) = m" "fst (route_of n') = m" "list_all2 segment_fits (snd (route_of n)) path"
      "list_all2 segment_fits (snd (route_of n')) path"
    using assms(3,4) unfolding route_fits_def by simp_all
  have "snd (route_of n) = snd (route_of n')"
    using f(3,4) route_of_shape [of n] route_of_shape [of n'] by (auto simp: list_all2_Cons1)
  then have "route_of n = route_of n'" using f(1,2) by (simp add: prod_eq_iff)
  then show ?thesis using r route_of_inj by blast
qed

lemma find_route_some:
  assumes "\<forall>r \<in> set R. \<forall>r' \<in> set R. route_fits m path r \<longrightarrow> route_fits m path r' \<longrightarrow> r = r'"
  shows "find_route R m path = Some n \<longleftrightarrow> (\<exists>p. (m, p, n) \<in> set R \<and> list_all2 segment_fits p path)"
proof
  assume "find_route R m path = Some n"
  then obtain r where "List.find (route_fits m path) R = Some r" "snd (snd r) = n" by (auto simp: find_route_def)
  then have "r \<in> set R" "route_fits m path r" "snd (snd r) = n" by (auto simp: find_Some_iff)
  then show "\<exists>p. (m, p, n) \<in> set R \<and> list_all2 segment_fits p path"
    by (cases r) (auto simp: route_fits_def)
next
  assume "\<exists>p. (m, p, n) \<in> set R \<and> list_all2 segment_fits p path"
  then obtain p where p: "(m, p, n) \<in> set R" "route_fits m path (m, p, n)" by (auto simp: route_fits_def)
  then obtain r where r: "List.find (route_fits m path) R = Some r"
    by (cases "List.find (route_fits m path) R") (auto simp: find_None_iff)
  then have "r \<in> set R" "route_fits m path r" by (auto simp: find_Some_iff)
  then have "r = (m, p, n)" using assms p by blast
  then show "find_route R m path = Some n" using r by (simp add: find_route_def)
qed

text \<open>A request reaches at most one of the routes an application installs, so it does not matter in which order they are
  installed: the route a request is given to is the one its method and path fit; there are routes of synchronous jobs
  exactly when they are configured, and a job is never reached under the name of another route. \<close>
theorem uws_routes_unambiguous:
  shows "(find_route (install_handlers cfg []) m path = Some n \<longleftrightarrow>
      (\<exists>p. (m, p, n) \<in> set (install_handlers cfg []) \<and> list_all2 segment_fits p path)) \<and>
    (set R = set (install_handlers cfg []) \<longrightarrow> find_route R m path = find_route (install_handlers cfg []) m path) \<and>
    (find_route (install_handlers cfg []) GET [''sync''] = (if cfg_sync_get_route cfg = None then None else Some GetSync)) \<and>
    (find_route (install_handlers cfg []) POST [''sync''] = (if cfg_sync_post_route cfg = None then None else Some PostSync))"
proof (intro conjI impI)
  let ?I = "install_handlers cfg []"
  have u: "\<forall>r \<in> set ?I. \<forall>r' \<in> set ?I. route_fits m path r \<longrightarrow> route_fits m path r' \<longrightarrow> r = r'" for m path
    using route_unique by blast
  note some = find_route_some [OF u]
  show "find_route ?I m path = Some n \<longleftrightarrow> (\<exists>p. (m, p, n) \<in> set ?I \<and> list_all2 segment_fits p path)" by (rule some)
  show "find_route R m path = find_route ?I m path" if "set R = set ?I"
  proof -
    have "\<forall>r \<in> set R. \<forall>r' \<in> set R. route_fits m path r \<longrightarrow> route_fits m path r' \<longrightarrow> r = r'" using u that by simp
    from find_route_some [OF this] have "find_route R m path = Some n \<longleftrightarrow> find_route ?I m path = Some n" for n using some that by simp
    then show ?thesis by (metis not_None_eq)
  qed
  have sync: "(\<exists>p. (m, p, n) \<in> set ?I \<and> list_all2 segment_fits p [''sync'']) \<longleftrightarrow>
      m = GET \<and> n = GetSync \<and> cfg_sync_get_route cfg \<noteq> None \<or> m = POST \<and> n = PostSync \<and> cfg_sync_post_route cfg \<noteq> None" for m n
    by (auto simp: installed_routes list_all2_Cons2)
  show "find_route ?I GET [''sync''] = (if cfg_sync_get_route cfg = None then None else Some GetSync)"
    using some [of GET "[''sync'']"] sync [of GET] by (cases "find_route ?I GET [''sync'']") auto
  show "find_route ?I POST [''sync''] = (if cfg_sync_post_route cfg = None then None else Some PostSync)"
    using some [of POST "[''sync'']"] sync [of POST] by (cases "find_route ?I POST [''sync'']") auto
qed

lemma uws_routes_unambiguous_witness:
  "find_route (rev (install_handlers cfg [])) POST [''sync''] = (if cfg_sync_post_route cfg = None then None else Some PostSync)"
  using uws_routes_unambiguous [of cfg POST "[''sync'']" PostSync "rev (install_handlers cfg [])"] by simp

subsection \<open>The worker of the database\<close>

text \<open>The configuration of an arq worker, but for its hooks; an unset queue is that of the arq library.\<close>

record worker_settings =
  ws_functions :: "string list"
  ws_redis_settings :: redis_settings
  ws_job_completion_wait :: int
  ws_job_timeout :: int
  ws_max_jobs :: int
  ws_allow_abort_jobs :: bool
  ws_queue_name :: string

definition uws_queue_name :: string where
  "uws_queue_name = ''uws:queue''"

text \<open>Times in microseconds; the timeout of the HTTP client is in seconds.\<close>

definition uws_database_timeout :: int where
  "uws_database_timeout = 30000000"

definition wobbly_request_timeout :: int where
  "wobbly_request_timeout = 20"

definition uws_build_worker :: "uws_config \<Rightarrow> worker_settings" where
  "uws_build_worker cfg =
     \<lparr>ws_functions = [''uws_job_started'', ''uws_job_completed''], ws_redis_settings = cfg_arq_redis_settings cfg,
      ws_job_completion_wait = uws_database_timeout, ws_job_timeout = uws_database_timeout, ws_max_jobs = 10,
      ws_allow_abort_jobs = False, ws_queue_name = uws_queue_name\<rparr>"

text \<open>The context of the worker: its queue and client, the Slack client of its alerts and the job store.\<close>

record ('q, 'h) uws_worker_context =
  uc_arq :: 'q
  uc_http_client :: 'h
  uc_slack :: "slack_client option"
  uc_storage :: "uws_config \<times> 'h"

definition create_uws_worker_context ::
  "('w, 'q) queue_factory \<Rightarrow> (int \<Rightarrow> ('w, exc, 'h) eff) \<Rightarrow> uws_config \<Rightarrow> ('w, exc, ('q, 'h) uws_worker_context) eff" where
  "create_uws_worker_context qf make_client cfg =
     bind_eff (make_queue qf (cfg_arq_mode cfg) (cfg_arq_redis_settings cfg) (qf_arq_default qf)) (\<lambda>arq.
     bind_eff (make_client wobbly_request_timeout) (\<lambda>http_client.
     let slack = (case cfg_slack_webhook cfg of
           None \<Rightarrow> None
         | Some url \<Rightarrow> if url = [] then None else Some \<lparr>sc_hook_url = url, sc_application = ''vo-cutouts-db-worker''\<rparr>)
     in ret_eff \<lparr>uc_arq = arq, uc_http_client = http_client, uc_slack = slack, uc_storage = (cfg, http_client)\<rparr>))"

text \<open>Closing the client of the context and then the one of the HTTP client dependency, if it has one; the queue is left.\<close>

definition close_uws_worker_context ::
  "('h \<Rightarrow> ('w, exc, unit) eff) \<Rightarrow> ('q, 'h) uws_worker_context \<Rightarrow> ('h option \<times> 'w, exc, unit) eff" where
  "close_uws_worker_context close ctx =
     bind_eff (on_world (close (uc_http_client ctx))) (\<lambda>_. http_client_aclose close)"

subsection \<open>The backend worker\<close>

record worker_config =
  wc_arq_mode :: arq_mode
  wc_arq_queue_url :: string
  wc_arq_queue_password :: "string option"
  wc_grace_period :: int
  wc_timeout :: int

text \<open>\<open>arq_redis_settings\<close>: a port out of range or a path that is no integer raises, here \<open>None\<close>.\<close>

definition worker_redis_settings :: "(string \<Rightarrow> bool) \<Rightarrow> worker_config \<Rightarrow> redis_settings option" where
  "worker_redis_settings bracket_ok c = (case urlsplit bracket_ok (wc_arq_queue_url c) of
     None \<Rightarrow> None
   | Some url \<Rightarrow>
       (case (if su_path url \<noteq> [] then py_int (py_lstrip_char (CHR ''/'') (su_path url)) else Some 0) of
          None \<Rightarrow> None
        | Some database \<Rightarrow> (case split_port url of
            None \<Rightarrow> None
          | Some port \<Rightarrow> Some \<lparr>rs_host = (case split_hostname url of None \<Rightarrow> ''localhost'' | Some h \<Rightarrow> h),
              rs_port = (case port of None \<Rightarrow> 6379 | Some p \<Rightarrow> if p = 0 then 6379 else p), rs_database = database,
              rs_password = wc_arq_queue_password c\<rparr>)))"

text \<open>\<open>name\<close> is the qualified name of the worker function.\<close>

definition backend_build_worker :: "(string \<Rightarrow> bool) \<Rightarrow> string \<Rightarrow> string \<Rightarrow> worker_config \<Rightarrow> worker_settings option" where
  "backend_build_worker bracket_ok arq_default name c =
     map_option (\<lambda>settings. \<lparr>ws_functions = [name], ws_redis_settings = settings, ws_job_completion_wait = wc_grace_period c,
       ws_job_timeout = wc_timeout c, ws_max_jobs = 1, ws_allow_abort_jobs = True, ws_queue_name = arq_default\<rparr>)
     (worker_redis_settings bracket_ok c)"

text \<open>The context: the queue of the messages and a process pool.  A configuration whose settings raise does so here too.\<close>

definition backend_startup ::
  "('w, 'q) queue_factory \<Rightarrow> (string \<Rightarrow> bool) \<Rightarrow> ('w, exc, 'p) eff \<Rightarrow> worker_config \<Rightarrow> ('w, exc, 'q \<times> 'p) eff" where
  "backend_startup qf bracket_ok make_pool c =
     bind_eff (if wc_arq_mode c = Production
               then (case worker_redis_settings bracket_ok c of
                  None \<Rightarrow> raise_eff (ExcOther ''ValueError'' [])
                | Some settings \<Rightarrow> qf_redis qf settings uws_queue_name)
               else (\<lambda>w. case qf_mock qf uws_queue_name w of (q, w) \<Rightarrow> (Inr q, w))) (\<lambda>arq.
     bind_eff make_pool (\<lambda>pool. ret_eff (arq, pool)))"

definition backend_shutdown :: "('p \<Rightarrow> ('w, exc, unit) eff) \<Rightarrow> 'q \<times> 'p \<Rightarrow> ('w, exc, unit) eff" where
  "backend_shutdown shutdown_pool ctx = shutdown_pool (snd ctx)"

text \<open>The pool is killed, shut down and made again.\<close>

definition restart_pool ::
  "('p \<Rightarrow> int list) \<Rightarrow> (int \<Rightarrow> ('w, exc, unit) eff) \<Rightarrow> ('p \<Rightarrow> ('w, exc, unit) eff) \<Rightarrow> ('w, exc, 'p) eff \<Rightarrow> 'p \<Rightarrow> ('w, exc, 'p) eff" where
  "restart_pool processes kill shutdown make_pool pool =
     bind_eff (foldr (\<lambda>pid rest. bind_eff (kill pid) (\<lambda>_. rest)) (processes pool) (ret_eff ())) (\<lambda>_.
     bind_eff (shutdown pool) (\<lambda>_. make_pool))"

subsection \<open>The workers fit together\<close>

text \<open>A Redis URL of an application and the text of it that the worker has are the same, and so are their passwords.\<close>

definition same_redis :: "(string \<Rightarrow> bool) \<Rightarrow> uws_app_settings \<Rightarrow> worker_config \<Rightarrow> bool" where
  "same_redis bracket_ok app c \<longleftrightarrow>
     (\<exists>url port. urlsplit bracket_ok (wc_arq_queue_url c) = Some url \<and> split_port url = Some port \<and>
        app_arq_queue_url app = \<lparr>ru_host = split_hostname url, ru_port = port, ru_path = (if su_path url = [] then None else Some (su_path url))\<rparr>) \<and>
     app_arq_queue_password app = wc_arq_queue_password c \<and> wc_arq_queue_password c \<noteq> Some [] \<and> app_arq_mode app = wc_arq_mode c"

lemma split_hostname_not_Nil: "split_hostname url \<noteq> Some []"
  by (auto simp: split_hostname_def to_lower_def py_partition_def Let_def split: prod.splits if_splits list.splits)

lemma same_redis_settings:
  assumes "same_redis bracket_ok app c"
  shows "build_arq_redis_settings (app_arq_queue_url app) (app_arq_queue_password app) = worker_redis_settings bracket_ok c"
proof -
  obtain url port where u: "urlsplit bracket_ok (wc_arq_queue_url c) = Some url" "split_port url = Some port"
      "app_arq_queue_url app = \<lparr>ru_host = split_hostname url, ru_port = port, ru_path = (if su_path url = [] then None else Some (su_path url))\<rparr>"
    and p: "app_arq_queue_password app = wc_arq_queue_password c" "wc_arq_queue_password c \<noteq> Some []"
    using assms by (auto simp: same_redis_def)
  show ?thesis using u p split_hostname_not_Nil [of url]
    by (cases "split_hostname url"; cases "wc_arq_queue_password c")
      (auto simp: build_arq_redis_settings_def worker_redis_settings_def truthy_def split: option.split)
qed

text \<open> C36. A service whose application and backend worker have the same Redis URL and password in production is connected: both
  workers and the application use the same Redis; the application enqueues jobs, and the database worker looks for
  their results, on the queue the backend listens to, under a name it runs, and it can abort them; the backend sends its messages
  to the queue the database worker listens to, and only such as that worker runs. \<close>
theorem uws_workers_connected:
  assumes "same_redis bracket_ok app c" "wc_arq_mode c = Production"
    and "build_uws_config app post_route parse convert xml slack sync_get sync_post url_lifetime vd ve wait name = Some cfg"
  shows "\<exists>backend. backend_build_worker bracket_ok (qf_arq_default qf) name c = Some backend \<and>
    ws_redis_settings backend = ws_redis_settings (uws_build_worker cfg) \<and>
    cfg_worker cfg \<in> set (ws_functions backend) \<and> ws_allow_abort_jobs backend \<and> ws_max_jobs backend = 1 \<and>
    uws_initialize qf cfg (new_uws_dependency, w) =
      (case qf_redis qf (ws_redis_settings backend) (ws_queue_name backend) w of
         (Inl e, w) \<Rightarrow> (Inl e, (\<lparr>ud_arq = None, ud_config = Some cfg\<rparr>, w))
       | (Inr q, w) \<Rightarrow> (Inr (), (\<lparr>ud_arq = Some q, ud_config = Some cfg\<rparr>, w))) \<and>
    (\<forall>ctx w'. create_uws_worker_context qf make_client cfg w = (Inr ctx, w') \<longrightarrow>
      (\<exists>w1. qf_redis qf (ws_redis_settings backend) (ws_queue_name backend) w = (Inr (uc_arq ctx), w1))) \<and>
    backend_startup qf bracket_ok make_pool c =
      bind_eff (qf_redis qf (ws_redis_settings (uws_build_worker cfg)) (ws_queue_name (uws_build_worker cfg)))
        (\<lambda>arq. bind_eff make_pool (\<lambda>pool. ret_eff (arq, pool))) \<and>
    worker_run (env\<lparr>wv_enqueue := (\<lambda>task args. if task \<in> set (ws_functions (uws_build_worker cfg)) then wv_enqueue env task args
      else raise_eff (JobNotQueued None))\<rparr>) = worker_run env"
proof -
  obtain settings where s: "worker_redis_settings bracket_ok c = Some settings"
      "cfg_arq_redis_settings cfg = settings" "cfg_arq_mode cfg = Production" "cfg_worker cfg = name"
    using assms(2,3) same_redis_settings [OF assms(1)] assms(1)
    by (auto simp: build_uws_config_def same_redis_def split: option.splits)
  let ?W = "uws_build_worker cfg"
  let ?B = "\<lparr>ws_functions = [name], ws_redis_settings = settings, ws_job_completion_wait = wc_grace_period c,
    ws_job_timeout = wc_timeout c, ws_max_jobs = 1, ws_allow_abort_jobs = True, ws_queue_name = qf_arq_default qf\<rparr>"
  have b: "backend_build_worker bracket_ok (qf_arq_default qf) name c = Some ?B" by (simp add: backend_build_worker_def s(1))
  have i: "uws_initialize qf cfg (new_uws_dependency, w) = (case qf_redis qf settings (qf_arq_default qf) w of
         (Inl e, w) \<Rightarrow> (Inl e, (\<lparr>ud_arq = None, ud_config = Some cfg\<rparr>, w))
       | (Inr q, w) \<Rightarrow> (Inr (), (\<lparr>ud_arq = Some q, ud_config = Some cfg\<rparr>, w)))"
    by (simp add: uws_initialize_def new_uws_dependency_def make_queue_def s split: prod.split sum.split)
  have x: "\<exists>w1. qf_redis qf settings (qf_arq_default qf) w = (Inr (uc_arq ctx), w1)"
    if "create_uws_worker_context qf make_client cfg w = (Inr ctx, w')" for ctx w'
    using that by (auto simp: create_uws_worker_context_def make_queue_def s eff_simps Let_def split: prod.splits sum.splits)
  have m: "backend_startup qf bracket_ok make_pool c = bind_eff (qf_redis qf settings (ws_queue_name ?W))
      (\<lambda>arq. bind_eff make_pool (\<lambda>pool. ret_eff (arq, pool)))"
    by (simp add: backend_startup_def assms(2) s(1) uws_build_worker_def)
  let ?env = "env\<lparr>wv_enqueue := (\<lambda>task args. if task \<in> set (ws_functions ?W) then wv_enqueue env task args
      else raise_eff (JobNotQueued None))\<rparr>"
  have e: "wv_enqueue ?env ''uws_job_started'' = wv_enqueue env ''uws_job_started''"
      "wv_enqueue ?env ''uws_job_completed'' = wv_enqueue env ''uws_job_completed''"
      "wv_now ?env = wv_now env" "wv_execute ?env = wv_execute env" "wv_restart_pool ?env = wv_restart_pool env"
      "wv_parse ?env = wv_parse env" "wv_seconds_str ?env = wv_seconds_str env"
    by (simp_all add: uws_build_worker_def)
  have r: "worker_run ?env = worker_run env" unfolding worker_run_def e by (rule refl)
  show ?thesis
    by (rule exI [of _ ?B]) (use b i x m r s in \<open>simp add: uws_build_worker_def\<close>)
qed

definition demo_backend :: worker_config where
  "demo_backend = \<lparr>wc_arq_mode = Production, wc_arq_queue_url = ''redis://redis/2'', wc_arq_queue_password = None,
     wc_grace_period = 0, wc_timeout = 0\<rparr>"

definition demo_app_settings :: uws_app_settings where
  "demo_app_settings = default_app_settings \<lparr>ru_host = Some ''redis'', ru_port = None, ru_path = Some ''/2''\<rparr> ''sa'' ''gs://b'' ''https://w''"

lemma uws_workers_connected_witness:
  "\<exists>cfg backend. build_uws_config demo_app_settings \<lparr>rt_summary = [], rt_description = None\<rparr> Some Inr (\<lambda>p. p) None None None 0 None None 0 ''cutout''
      = Some cfg \<and> backend_build_worker (\<lambda>_. True) ''arq:queue'' ''cutout'' demo_backend = Some backend \<and>
    ws_redis_settings backend = ws_redis_settings (uws_build_worker cfg) \<and> cfg_worker cfg = ''cutout''"
proof -
  have url: "urlsplit (\<lambda>_. True) ''redis://redis/2'' = Some \<lparr>su_scheme = ''redis'', su_netloc = ''redis'', su_path = ''/2'', su_query = [], su_fragment = []\<rparr>"
    by code_simp
  have host: "split_hostname \<lparr>su_scheme = ''redis'', su_netloc = ''redis'', su_path = ''/2'', su_query = [], su_fragment = []\<rparr> = Some ''redis''"
    "split_port \<lparr>su_scheme = ''redis'', su_netloc = ''redis'', su_path = ''/2'', su_query = [], su_fragment = []\<rparr> = Some None"
    by code_simp+
  have same: "same_redis (\<lambda>_. True) demo_app_settings demo_backend"
    by (simp add: same_redis_def demo_app_settings_def demo_backend_def default_app_settings_def url host)
  have "py_int ''2'' = Some 2" by code_simp
  then obtain cfg where cfg: "build_uws_config demo_app_settings \<lparr>rt_summary = [], rt_description = None\<rparr> Some Inr (\<lambda>p. p) None None None 0 None None 0 ''cutout''
      = Some cfg" "cfg_worker cfg = ''cutout''"
    by (simp add: build_uws_config_def build_arq_redis_settings_def demo_app_settings_def default_app_settings_def truthy_def py_lstrip_char_def)
  let ?qf = "\<lparr>qf_redis = (\<lambda>s n w. (Inr (s, n), w)), qf_mock = (\<lambda>n w. ((cfg_arq_redis_settings cfg, n), w)), qf_arq_default = ''arq:queue''\<rparr>"
  have "wc_arq_mode demo_backend = Production" by (simp add: demo_backend_def)
  from uws_workers_connected [OF same this cfg(1), where qf = ?qf and w = "()" and make_client = "\<lambda>_. ret_eff ()" and make_pool = "ret_eff ()" and env = demo_worker_env]
  have "\<exists>backend. backend_build_worker (\<lambda>_. True) (qf_arq_default ?qf) ''cutout'' demo_backend = Some backend \<and>
      ws_redis_settings backend = ws_redis_settings (uws_build_worker cfg)"
    by (rule ex_forward) simp
  then show ?thesis using cfg by auto
qed

end
