(* ===== verification/ArqClients.thy ===== *)
theory ArqClients
  imports ArqQueue
begin

text \<open>
  The interface of an arq queue, the class \<open>ArqQueue\<close> of \<open>safir.arq._queue\<close>, with its two implementations, and what
  a client may rely on without knowing which it has: a queue that is not named is the default queue.
\<close>

subsection \<open>The interface\<close>

text \<open>The abstract methods, on a world \<open>'w\<close>; a timeout is in microseconds.\<close>

record ('w, 'v, 'a, 'e) arq_queue =
  aq_default_queue_name :: string
  aq_enqueue :: "string \<Rightarrow> 'v list \<Rightarrow> string option \<Rightarrow> (string \<times> 'v) list \<Rightarrow> ('w, arq_error, 'v job_metadata) eff"
  aq_abort_job :: "string \<Rightarrow> string option \<Rightarrow> int option \<Rightarrow> ('w, arq_error, bool) eff"
  aq_get_job_metadata :: "string \<Rightarrow> string option \<Rightarrow> ('w, arq_error, 'v job_metadata) eff"
  aq_get_job_result :: "string \<Rightarrow> string option \<Rightarrow> ('w, arq_error, ('v, 'a, 'e) job_result) eff"
  aq_aclose :: "('w, arq_error, unit) eff"

definition redis_arq_queue :: "('w, 'v, 'a, 'e) arq_pool \<Rightarrow> string \<Rightarrow> ('w, 'v, 'a, 'e) arq_queue" where
  "redis_arq_queue pool default_queue_name = \<lparr>aq_default_queue_name = default_queue_name,
     aq_enqueue = redis_enqueue pool default_queue_name, aq_abort_job = redis_abort_job pool default_queue_name,
     aq_get_job_metadata = redis_get_job_metadata pool default_queue_name,
     aq_get_job_result = redis_get_job_result pool default_queue_name, aq_aclose = redis_aclose pool\<rparr>"

text \<open>\<open>initialize\<close>: the pool has the same default queue; \<open>create_pool\<close> connects to Redis.\<close>

definition redis_initialize ::
  "('r \<Rightarrow> string \<Rightarrow> ('w, 'x, ('w, 'v, 'a, 'e) arq_pool) eff) \<Rightarrow> 'r \<Rightarrow> string \<Rightarrow> ('w, 'x, ('w, 'v, 'a, 'e) arq_queue) eff" where
  "redis_initialize create_pool redis_settings default_queue_name =
     bind_eff (create_pool redis_settings default_queue_name) (\<lambda>pool. ret_eff (redis_arq_queue pool default_queue_name))"

text \<open>The mock draws identifiers and reads the clock, here \<open>uuid\<close> and \<open>now\<close>; it ignores timeouts and closing.\<close>

definition mock_arq_queue ::
  "string \<Rightarrow> int \<Rightarrow> string \<Rightarrow> (('v, 'a, 'e) mock_arq, 'v, 'a, 'e) arq_queue" where
  "mock_arq_queue uuid now default_queue_name = \<lparr>aq_default_queue_name = default_queue_name,
     aq_enqueue = mock_enqueue uuid now, aq_abort_job = (\<lambda>job_id queue_name timeout. mock_abort_job now job_id queue_name),
     aq_get_job_metadata = mock_get_job_metadata, aq_get_job_result = mock_get_job_result, aq_aclose = ret_eff ()\<rparr>"

subsection \<open>What a client relies on\<close>

text \<open>Every method treats no name, or an empty one, as the name of the default queue.\<close>

locale arq_client =
  fixes q :: "('w, 'v, 'a, 'e) arq_queue" and ok :: "'w \<Rightarrow> bool"
  assumes enqueue_default: "ok w \<Longrightarrow> queue = None \<or> queue = Some [] \<Longrightarrow>
      aq_enqueue q name args queue kwargs w = aq_enqueue q name args (Some (aq_default_queue_name q)) kwargs w"
    and abort_default: "ok w \<Longrightarrow> queue = None \<or> queue = Some [] \<Longrightarrow>
      aq_abort_job q job_id queue timeout w = aq_abort_job q job_id (Some (aq_default_queue_name q)) timeout w"
    and metadata_default: "ok w \<Longrightarrow> queue = None \<or> queue = Some [] \<Longrightarrow>
      aq_get_job_metadata q job_id queue w = aq_get_job_metadata q job_id (Some (aq_default_queue_name q)) w"
    and result_default: "ok w \<Longrightarrow> queue = None \<or> queue = Some [] \<Longrightarrow>
      aq_get_job_result q job_id queue w = aq_get_job_result q job_id (Some (aq_default_queue_name q)) w"
    and enqueue_ok: "ok w \<Longrightarrow> ok (snd (aq_enqueue q name args queue kwargs w))"
begin

text \<open>A job enqueued without a queue name is seen as one enqueued on the default queue, and the other way round.\<close>

lemma enqueue_then_metadata:
  assumes "ok w" "queue = None \<or> queue = Some []" "queue' = None \<or> queue' = Some []"
  shows "bind_eff (aq_enqueue q name args queue kwargs) (\<lambda>job. aq_get_job_metadata q (jm_id job) queue') w =
    bind_eff (aq_enqueue q name args (Some (aq_default_queue_name q)) kwargs)
      (\<lambda>job. aq_get_job_metadata q (jm_id job) (Some (aq_default_queue_name q))) w"
proof -
  have "ok (snd (aq_enqueue q name args (Some (aq_default_queue_name q)) kwargs w))" by (rule enqueue_ok [OF assms(1)])
  then show ?thesis
    using metadata_default [OF _ assms(3)] unfolding bind_eff_apply enqueue_default [OF assms(1,2)]
    by (auto split: prod.split sum.split)
qed

end

lemma resolve_queue_default: "queue = None \<or> queue = Some [] \<Longrightarrow> resolve_queue dflt queue = resolve_queue dflt (Some dflt)"
  by (auto simp: resolve_queue_def)

interpretation redis_client: arq_client "redis_arq_queue pool dflt" "\<lambda>_. True" for pool dflt
  by unfold_locales
    (auto simp: redis_arq_queue_def redis_enqueue_def redis_abort_job_def redis_get_job_metadata_def redis_get_job_result_def resolve_queue_def)

lemma mock_queue_default: "queue = None \<or> queue = Some [] \<Longrightarrow> mock_queue s queue = mock_queue s (Some (ma_default s))"
  by (auto simp: mock_queue_def resolve_queue_def)

lemma mock_enqueue_keeps_default: "ma_default (snd (mock_enqueue uuid now name args queue kwargs s)) = ma_default s"
  by (simp add: mock_enqueue_def put_metadata_def Let_def split: option.split)

interpretation mock_client: arq_client "mock_arq_queue uuid now dflt" "\<lambda>s. ma_default s = dflt" for uuid now dflt
proof (unfold_locales, goal_cases)
  case (1 s queue)
  then show ?case using mock_queue_default [of queue s] by (simp add: mock_arq_queue_def mock_enqueue_def)
next
  case (2 s queue)
  then show ?case using mock_queue_default [of queue s] by (simp add: mock_arq_queue_def mock_abort_job_def)
next
  case (3 s queue)
  then show ?case using mock_queue_default [of queue s] by (simp add: mock_arq_queue_def mock_get_job_metadata_def)
next
  case (4 s queue)
  then show ?case using mock_queue_default [of queue s] by (simp add: mock_arq_queue_def mock_get_job_result_def)
next
  case (5 s)
  then show ?case by (simp add: mock_arq_queue_def mock_enqueue_keeps_default)
qed

end
