(* ===== verification/KubeObjects.thy ===== *)
theory KubeObjects
  imports PyText "HOL-Library.Sublist"
begin

text \<open>
  What the Kubernetes mock (src/src/safir/testing/kubernetes/_mock.py) keeps and compares: the models of the
  Kubernetes client, custom objects, which are dictionaries, and the label and field selectors.
\<close>

subsection \<open>Exceptions\<close>

text \<open>\<open>KubeInjected\<close> is what the error callback or a hook of a test raises, \<open>KubeQueueClosed\<close> what a closed stream does.\<close>

datatype kube_exc =
    ApiException int string | KubeAssertion string | KubeValueError string | KubeKeyError string
  | KubeTypeError | KubeAttributeError string | KubeQueueClosed | KubeInjected string

subsection \<open>Objects\<close>

text \<open>
  Of a model the mock reads and writes the metadata, the version and kind, the status and the template of the
  pods of a job; the rest is its content.  A template is its metadata and the specification of the pod.  Every
  model has metadata; labels that are not set are \<open>JNull\<close>.
\<close>

record kube_meta =
  km_name :: "string option"
  km_generate_name :: "string option"
  km_namespace :: "string option"
  km_labels :: json
  km_annotations :: json
  km_resource_version :: "string option"

datatype kube_status =
    NoStatus | IngressStatus json | PodStatus json "int option" | JobStatus int | OtherStatus json

record kube_model =
  ko_api_version :: "string option"
  ko_kind :: "string option"
  ko_metadata :: kube_meta
  ko_status :: kube_status
  ko_template :: "(kube_meta option \<times> json) option"
  ko_content :: json

datatype kube_object = Model kube_model | Custom "(string \<times> json) list"

definition empty_meta :: kube_meta where
  "empty_meta = \<lparr>km_name = None, km_generate_name = None, km_namespace = None, km_labels = JNull, km_annotations = JNull,
     km_resource_version = None\<rparr>"

text \<open>\<open>d[key]\<close> of a value that should be a dictionary.\<close>

definition json_get :: "string \<Rightarrow> json \<Rightarrow> kube_exc + json" where
  "json_get key d = (case d of
     JObj ms \<Rightarrow> (case map_of ms key of None \<Rightarrow> Inl (KubeKeyError key) | Some v \<Rightarrow> Inr v)
   | _ \<Rightarrow> Inl KubeTypeError)"

fun json_truthy :: "json \<Rightarrow> bool" where
  "json_truthy JNull = False"
| "json_truthy (JBool b) = b"
| "json_truthy (JInt i) = (i \<noteq> 0)"
| "json_truthy (JStr s) = (s \<noteq> [])"
| "json_truthy (JArr xs) = (xs \<noteq> [])"
| "json_truthy (JObj ms) = (ms \<noteq> [])"

text \<open>\<open>o.metadata.labels\<close>, which a dictionary does not have.\<close>

definition object_labels :: "kube_object \<Rightarrow> kube_exc + json" where
  "object_labels o' = (case o' of
     Model m \<Rightarrow> Inr (km_labels (ko_metadata m))
   | Custom _ \<Rightarrow> Inl (KubeAttributeError ''metadata''))"

subsection \<open>Selectors\<close>

text \<open>The match of \<open>([^!=]+)==?(.*)\<close> at the start of a requirement; the dot does not match a newline.\<close>

definition requirement_match :: "string \<Rightarrow> (string \<times> string) option" where
  "requirement_match r =
     (let key = takeWhile (\<lambda>c. c \<noteq> CHR ''!'' \<and> c \<noteq> CHR ''='') r in
      if key = [] then None
      else (case drop (length key) r of
          [] \<Rightarrow> None
        | c # rest \<Rightarrow>
            if c \<noteq> CHR ''='' then None
            else (let rest = (case rest of [] \<Rightarrow> [] | d # ds \<Rightarrow> if d = CHR ''='' then ds else rest)
                  in Some (key, takeWhile (\<lambda>c. c \<noteq> CHR 0x0A) rest))))"

fun parse_requirements :: "string list \<Rightarrow> (string \<times> string) list \<Rightarrow> kube_exc + (string \<times> string) list" where
  "parse_requirements [] result = Inr result"
| "parse_requirements (r # rs) result = (case requirement_match r of
     None \<Rightarrow> Inl (KubeAssertion [])
   | Some (key, v) \<Rightarrow> if v = [] then Inl (KubeAssertion []) else parse_requirements rs (AList.update key v result))"

definition parse_label_selector :: "string \<Rightarrow> kube_exc + (string \<times> string) list" where
  "parse_label_selector label_selector = parse_requirements (py_split (CHR '','') label_selector) []"

text \<open>The loop over the required labels; \<open>in\<close> on a string looks for a part of it.\<close>

fun check_each :: "(string \<times> string) list \<Rightarrow> json \<Rightarrow> kube_exc + bool" where
  "check_each [] obj_labels = Inr True"
| "check_each ((label, v) # rest) obj_labels = (case obj_labels of
     JObj ms \<Rightarrow> if map_of ms label = Some (JStr v) then check_each rest obj_labels else Inr False
   | JArr xs \<Rightarrow> if JStr label \<in> set xs then Inl KubeTypeError else Inr False
   | JStr s \<Rightarrow> if sublist label s then Inl KubeTypeError else Inr False
   | _ \<Rightarrow> Inl KubeTypeError)"

definition check_labels :: "json \<Rightarrow> string option \<Rightarrow> kube_exc + bool" where
  "check_labels obj_labels label_selector = (case label_selector of
     None \<Rightarrow> Inr True
   | Some sel \<Rightarrow>
       if sel = [] then Inr True
       else if \<not> json_truthy obj_labels then Inr False
       else (case parse_label_selector sel of
           Inl e \<Rightarrow> Inl e
         | Inr labels \<Rightarrow> check_each labels obj_labels))"

text \<open>The name in a field selector, the group of \<open>metadata\.name=(.*)$\<close>; the dollar also matches before a final newline.\<close>

definition selected_name :: "string \<Rightarrow> string option" where
  "selected_name field_selector =
     (if \<not> py_startswith ''metadata.name='' field_selector then None
      else (let rest = drop 14 field_selector; name = takeWhile (\<lambda>c. c \<noteq> CHR 0x0A) rest; tail = drop (length name) rest
            in if (tail = [] \<or> tail = [CHR 0x0A]) \<and> name \<noteq> [] then Some name else None))"

subsection \<open>What a selector selects\<close>

text \<open>The labels of a dictionary of strings.\<close>

definition labels_json :: "(string \<times> string) list option \<Rightarrow> json" where
  "labels_json ls = (case ls of None \<Rightarrow> JNull | Some ls \<Rightarrow> JObj (map (\<lambda>(k, v). (k, JStr v)) ls))"

text \<open>A selector of the labels of a dictionary, and the parts of it that a selector can hold.\<close>

definition selector_text :: "(string \<times> string) list \<Rightarrow> string" where
  "selector_text reqs = py_join '','' (map (\<lambda>(k, v). k @ ''='' @ v) reqs)"

definition requirement_ok :: "string \<times> string \<Rightarrow> bool" where
  "requirement_ok r \<longleftrightarrow> fst r \<noteq> [] \<and> snd r \<noteq> [] \<and> CHR '','' \<notin> set (fst r) \<and> CHR '','' \<notin> set (snd r) \<and>
     CHR ''='' \<notin> set (fst r) \<and> CHR ''!'' \<notin> set (fst r) \<and> CHR 0x0A \<notin> set (snd r) \<and> hd (snd r) \<noteq> CHR ''=''"

lemma requirement_match_ok:
  assumes "requirement_ok (k, v)"
  shows "requirement_match (k @ ''='' @ v) = Some (k, v)"
proof -
  have "takeWhile (\<lambda>c. c \<noteq> CHR ''!'' \<and> c \<noteq> CHR ''='') (k @ ''='' @ v) = k"
    using assms by (subst takeWhile_append2) (auto simp: requirement_ok_def)
  moreover have "takeWhile (\<lambda>c. c \<noteq> CHR 0x0A) v = v"
    using assms by (subst takeWhile_eq_all_conv) (auto simp: requirement_ok_def)
  ultimately show ?thesis
    using assms by (cases v) (auto simp: requirement_match_def requirement_ok_def Let_def)
qed

lemma parse_requirements_ok:
  "\<forall>r \<in> set reqs. requirement_ok r \<Longrightarrow>
    parse_requirements (map (\<lambda>(k, v). k @ ''='' @ v) reqs) acc = Inr (fold (\<lambda>(k, v). AList.update k v) reqs acc)"
proof (induction reqs arbitrary: acc)
  case Nil
  then show ?case by simp
next
  case (Cons r reqs)
  obtain k v where r: "r = (k, v)" by (cases r)
  have "requirement_match (k @ CHR ''='' # v) = Some (k, v)" "v \<noteq> []"
    using Cons.prems requirement_match_ok [of k v] by (simp_all add: r requirement_ok_def)
  then show ?case using Cons by (simp add: r)
qed

lemma fold_update_distinct:
  "distinct (map fst reqs) \<Longrightarrow> fst ` set acc \<inter> fst ` set reqs = {} \<Longrightarrow>
    fold (\<lambda>(k, v). AList.update k v) reqs acc = acc @ reqs"
proof (induction reqs arbitrary: acc)
  case Nil
  then show ?case by simp
next
  case (Cons r reqs)
  obtain k v where r: "r = (k, v)" by (cases r)
  have "AList.update k v acc = acc @ [(k, v)]"
    using Cons.prems(2) unfolding r by (induction acc) auto
  then show ?case using Cons.IH [of "acc @ [(k, v)]"] Cons.prems by (auto simp: r)
qed

lemma check_each_object:
  "check_each reqs (JObj ms) = Inr (\<forall>(k, v) \<in> set reqs. map_of ms k = Some (JStr v))"
  by (induction reqs) auto

lemma map_of_labels: "map_of (map (\<lambda>(k, v). (k, JStr v)) ls) k = map_option JStr (map_of ls k)"
  by (induction ls) auto

lemma selector_part_no_comma: "requirement_ok (k, v) \<Longrightarrow> CHR '','' \<notin> set (k @ ''='' @ v)"
  by (auto simp: requirement_ok_def)

text \<open>A selector made of labels is satisfied by exactly the objects that have all of them.\<close>

lemma label_selector_selects:
  assumes "reqs \<noteq> []" "distinct (map fst reqs)" "\<forall>r \<in> set reqs. requirement_ok r"
  shows "check_labels (labels_json labels) (Some (selector_text reqs)) =
    Inr (case labels of None \<Rightarrow> False | Some ls \<Rightarrow> \<forall>(k, v) \<in> set reqs. map_of ls k = Some v)"
proof -
  let ?parts = "map (\<lambda>(k, v). k @ ''='' @ v) reqs"
  have "\<forall>w \<in> set ?parts. CHR '','' \<notin> set w" using assms(3) selector_part_no_comma by fastforce
  then have "py_split (CHR '','') (selector_text reqs) = ?parts"
    using assms(1) unfolding selector_text_def by (intro py_split_join) simp_all
  then have p: "parse_label_selector (selector_text reqs) = Inr reqs"
    using parse_requirements_ok [OF assms(3), of "[]"] fold_update_distinct [OF assms(2), of "[]"]
    by (simp add: parse_label_selector_def)
  obtain k v rest where "reqs = (k, v) # rest" using assms(1) by (cases reqs) auto
  then have ne: "selector_text reqs \<noteq> []" by (cases rest) (auto simp: selector_text_def)
  show ?thesis
  proof (cases labels)
    case None
    then show ?thesis using ne by (simp add: check_labels_def labels_json_def)
  next
    case (Some ls)
    have "map_option JStr o' = Some (JStr v) \<longleftrightarrow> o' = Some v" for o' v by (cases o') auto
    then have e: "check_each reqs (JObj (map (\<lambda>(k, v). (k, JStr v)) ls)) = Inr (\<forall>(k, v) \<in> set reqs. map_of ls k = Some v)"
      by (simp only: check_each_object map_of_labels)
    show ?thesis
    proof (cases "ls = []")
      case True
      then show ?thesis using ne Some assms(1) by (cases reqs) (auto simp: check_labels_def labels_json_def)
    next
      case False
      then have "json_truthy (JObj (map (\<lambda>(k, v). (k, JStr v)) ls))" by simp
      then show ?thesis using ne p Some e by (simp add: check_labels_def labels_json_def)
    qed
  qed
qed

end
