(* ===== verification/KubeStore.thy ===== *)
theory KubeStore
  imports KubeObjects MultiQueue
begin

text \<open>
  The state of the Kubernetes mock (src/src/safir/testing/kubernetes/_mock.py) and the helpers its methods share:
  the tables of objects, the streams of events, hooks and injected errors.

  The mock keeps the objects it is given and hands them out, without copying them, so objects are addressed
  by numbers in a heap.  An event of a model holds what the model was when the event happened, an event of
  a custom object the dictionary itself.  A dictionary is an association list, in the order of its keys.
\<close>

subsection \<open>State\<close>

datatype kube_event_object = Snapshot kube_model | Live nat

type_synonym kube_event = "string \<times> kube_event_object"

text \<open>The stream of namespaces, the stream of a namespace and a key, and the stream of a key of the cluster.\<close>

datatype kube_stream = NamespaceStream | NamespacedStream string string | ClusterStream string

type_synonym kube_table = "(string option \<times> nat) list"

text \<open>\<open>kb_fresh\<close> is the next address; a hook is a number, given its meaning by the environment.\<close>

record kube =
  kb_heap :: "nat \<Rightarrow> kube_object"
  kb_fresh :: nat
  kb_initial_pod_phase :: string
  kb_cluster_objects :: "(string \<times> kube_table) list"
  kb_create_hooks :: "(string \<times> nat) list"
  kb_custom_kinds :: "(string \<times> string) list"
  kb_nodes :: "nat list"
  kb_objects :: "(string \<times> (string \<times> kube_table) list) list"
  kb_events :: "string \<Rightarrow> nat list"
  kb_streams :: "kube_stream \<Rightarrow> kube_event mqueue"

type_synonym 'a kube_eff = "(kube, kube_exc, 'a) eff"

datatype kube_arg = ArgStr string | ArgOpt "string option" | ArgObject nat | ArgPatch "json list"

text \<open>
  What is around the mock: the error callback and the hooks, which may use the mock, the clock, in microseconds,
  and the hexadecimal digits of the next random bytes.
\<close>

record kube_env =
  ke_error_callback :: "(string \<Rightarrow> kube_arg list \<Rightarrow> unit kube_eff) option"
  ke_hook :: "nat \<Rightarrow> nat \<Rightarrow> unit kube_eff"
  ke_now :: int
  ke_random :: string

definition new_kube :: "(nat \<Rightarrow> kube_object) \<Rightarrow> nat \<Rightarrow> int \<Rightarrow> kube" where
  "new_kube h n t = \<lparr>kb_heap = h, kb_fresh = n, kb_initial_pod_phase = ''Running'', kb_cluster_objects = [],
     kb_create_hooks = [], kb_custom_kinds = [], kb_nodes = [], kb_objects = [], kb_events = (\<lambda>_. []),
     kb_streams = (\<lambda>_. mq_init t)\<rparr>"

definition kube_assert :: "bool \<Rightarrow> unit kube_eff" where
  "kube_assert b = (if b then ret_eff () else raise_eff (KubeAssertion []))"

subsection \<open>The heap\<close>

definition get_heap :: "nat \<Rightarrow> kube_object kube_eff" where
  "get_heap a = read_eff (\<lambda>s. kb_heap s a)"

definition put_heap :: "nat \<Rightarrow> kube_object \<Rightarrow> unit kube_eff" where
  "put_heap a ob = modify_eff (\<lambda>s. s\<lparr>kb_heap := (kb_heap s)(a := ob)\<rparr>)"

definition kube_alloc :: "kube_object \<Rightarrow> nat kube_eff" where
  "kube_alloc ob = (\<lambda>s. (Inr (kb_fresh s), s\<lparr>kb_heap := (kb_heap s)(kb_fresh s := ob), kb_fresh := Suc (kb_fresh s)\<rparr>))"

text \<open>An attribute of an object: a dictionary has none.\<close>

definition the_model :: "string \<Rightarrow> nat \<Rightarrow> kube_model kube_eff" where
  "the_model attr a = bind_eff (get_heap a) (\<lambda>ob. case ob of
     Model m \<Rightarrow> ret_eff m
   | Custom _ \<Rightarrow> raise_eff (KubeAttributeError attr))"

definition the_dict :: "nat \<Rightarrow> (string \<times> json) list kube_eff" where
  "the_dict a = bind_eff (get_heap a) (\<lambda>ob. case ob of
     Model _ \<Rightarrow> raise_eff (KubeAttributeError ''get'')
   | Custom d \<Rightarrow> ret_eff d)"

subsection \<open>Streams\<close>

definition next_resource_version :: "kube_event mqueue \<Rightarrow> string" where
  "next_resource_version q = int_str (mq_qsize q + 1)"

definition put_event :: "kube_stream \<Rightarrow> kube_event \<Rightarrow> unit kube_eff" where
  "put_event st ev = (\<lambda>s. case mq_put ev (kb_streams s st) of
     (Inl _, _) \<Rightarrow> (Inl KubeQueueClosed, s)
   | (Inr _, q) \<Rightarrow> (Inr (), s\<lparr>kb_streams := (kb_streams s)(st := q)\<rparr>))"

text \<open>\<open>add_event\<close> and \<open>add_custom_event\<close>.\<close>

definition event_object :: "nat \<Rightarrow> kube_object \<Rightarrow> kube_event_object" where
  "event_object a ob = (case ob of Model m \<Rightarrow> Snapshot m | Custom _ \<Rightarrow> Live a)"

definition add_event :: "kube_stream \<Rightarrow> string \<Rightarrow> nat \<Rightarrow> unit kube_eff" where
  "add_event st act a = bind_eff (get_heap a) (\<lambda>ob. put_event st (act, event_object a ob))"

subsection \<open>Tables\<close>

definition kind_tables :: "kube \<Rightarrow> string \<Rightarrow> (string \<times> kube_table) list" where
  "kind_tables s ns = or_empty (map_of (kb_objects s) ns)"

definition kind_table :: "kube \<Rightarrow> string \<Rightarrow> string \<Rightarrow> kube_table" where
  "kind_table s ns key = or_empty (map_of (kind_tables s ns) key)"

definition set_table :: "string \<Rightarrow> string \<Rightarrow> kube_table \<Rightarrow> kube \<Rightarrow> kube" where
  "set_table ns key t s = s\<lparr>kb_objects := AList.update ns (AList.update key t (kind_tables s ns)) (kb_objects s)\<rparr>"

definition cluster_table :: "kube \<Rightarrow> string \<Rightarrow> kube_table" where
  "cluster_table s key = or_empty (map_of (kb_cluster_objects s) key)"

definition set_cluster_table :: "string \<Rightarrow> kube_table \<Rightarrow> kube \<Rightarrow> kube" where
  "set_cluster_table key t s = s\<lparr>kb_cluster_objects := AList.update key t (kb_cluster_objects s)\<rparr>"

definition get_object :: "string \<Rightarrow> string \<Rightarrow> string option \<Rightarrow> nat kube_eff" where
  "get_object ns key name = (\<lambda>s. case map_of (kind_table s ns key) name of
     None \<Rightarrow> (Inl (ApiException 404 (ns @ ''/'' @ none_str name @ '' not found'')), s)
   | Some a \<Rightarrow> (Inr a, s))"

definition get_cluster_object :: "string \<Rightarrow> string option \<Rightarrow> nat kube_eff" where
  "get_cluster_object key name = (\<lambda>s. case map_of (cluster_table s key) name of
     None \<Rightarrow> (Inl (ApiException 404 (none_str name @ '' not found'')), s)
   | Some a \<Rightarrow> (Inr a, s))"

subsection \<open>Injected errors and hooks\<close>

definition maybe_error :: "kube_env \<Rightarrow> string \<Rightarrow> kube_arg list \<Rightarrow> unit kube_eff" where
  "maybe_error env mname args = (case ke_error_callback env of None \<Rightarrow> ret_eff () | Some callback \<Rightarrow> callback mname args)"

definition run_hook :: "kube_env \<Rightarrow> string \<Rightarrow> nat \<Rightarrow> unit kube_eff" where
  "run_hook env kind a = (\<lambda>s. case map_of (kb_create_hooks s) kind of
     None \<Rightarrow> (Inr (), s)
   | Some h \<Rightarrow> ke_hook env h a s)"

text \<open>The kind of a key: the last kind of a custom object that has it, or the key itself.\<close>

definition hook_kind :: "kube \<Rightarrow> string \<Rightarrow> string" where
  "hook_kind s key = fold (\<lambda>(candidate, full_key) kind. if full_key = key then candidate else kind) (kb_custom_kinds s) key"

subsection \<open>Storing and deleting\<close>

text \<open>The resource version is set in the metadata of the object.\<close>

definition stamp :: "string \<Rightarrow> nat \<Rightarrow> unit kube_eff" where
  "stamp version a = bind_eff (get_heap a) (\<lambda>ob. case ob of
     Model m \<Rightarrow> put_heap a (Model (m\<lparr>ko_metadata := (ko_metadata m)\<lparr>km_resource_version := Some version\<rparr>\<rparr>))
   | Custom d \<Rightarrow> (case map_of d ''metadata'' of
         None \<Rightarrow> raise_eff (KubeKeyError ''metadata'')
       | Some (JObj ms) \<Rightarrow>
           put_heap a (Custom (AList.update ''metadata'' (JObj (AList.update ''resourceVersion'' (JStr version) ms)) d))
       | Some _ \<Rightarrow> raise_eff KubeTypeError))"

definition object_stream :: "string \<Rightarrow> string \<Rightarrow> kube_stream" where
  "object_stream ns key = (if key = ''Namespace'' then NamespaceStream else NamespacedStream ns key)"

definition store_object :: "kube_env \<Rightarrow> string \<Rightarrow> string \<Rightarrow> string option \<Rightarrow> nat \<Rightarrow> bool \<Rightarrow> unit kube_eff" where
  "store_object env ns key name a replace =
     bind_eff (if replace then bind_eff (get_object ns key name) (\<lambda>_. ret_eff ())
       else bind_eff (modify_eff (\<lambda>s. set_table ns key (kind_table s ns key) s)) (\<lambda>_.
         (\<lambda>s. if name \<in> fst ` set (kind_table s ns key)
            then (Inl (ApiException 409 (ns @ ''/'' @ none_str name @ '' exists'')), s) else (Inr (), s)))) (\<lambda>_.
     let st = object_stream ns key in
     bind_eff (read_eff (\<lambda>s. next_resource_version (kb_streams s st))) (\<lambda>version.
     bind_eff (stamp version a) (\<lambda>_.
     bind_eff (modify_eff (\<lambda>s. set_table ns key (AList.update name a (kind_table s ns key)) s)) (\<lambda>_.
     bind_eff (add_event st (if replace then ''MODIFIED'' else ''ADDED'') a) (\<lambda>_.
     bind_eff (read_eff (\<lambda>s. hook_kind s key)) (\<lambda>kind. run_hook env kind a))))))"

definition store_cluster_object :: "string \<Rightarrow> string option \<Rightarrow> nat \<Rightarrow> bool \<Rightarrow> unit kube_eff" where
  "store_cluster_object key name a replace =
     bind_eff (if replace then bind_eff (get_cluster_object key name) (\<lambda>_. ret_eff ())
       else bind_eff (modify_eff (\<lambda>s. set_cluster_table key (cluster_table s key) s)) (\<lambda>_.
         (\<lambda>s. if name \<in> fst ` set (cluster_table s key)
            then (Inl (ApiException 409 (none_str name @ '' exists'')), s) else (Inr (), s)))) (\<lambda>_.
     let st = ClusterStream key in
     bind_eff (read_eff (\<lambda>s. next_resource_version (kb_streams s st))) (\<lambda>version.
     bind_eff (stamp version a) (\<lambda>_.
     bind_eff (modify_eff (\<lambda>s. set_cluster_table key (AList.update name a (cluster_table s key)) s)) (\<lambda>_.
     add_event st (if replace then ''MODIFIED'' else ''ADDED'') a))))"

definition policy_ok :: "string \<Rightarrow> unit kube_eff" where
  "policy_ok propagation_policy =
     (if propagation_policy \<in> {''Foreground'', ''Background'', ''Orphan''} then ret_eff ()
      else raise_eff (KubeAssertion (''Invalid propagation_policy '' @ propagation_policy)))"

text \<open>The status of a deletion is its code.\<close>

definition delete_object :: "string \<Rightarrow> string \<Rightarrow> string option \<Rightarrow> string \<Rightarrow> int kube_eff" where
  "delete_object ns key name propagation_policy =
     bind_eff (policy_ok propagation_policy) (\<lambda>_.
     bind_eff (get_object ns key name) (\<lambda>a.
     bind_eff (modify_eff (\<lambda>s. set_table ns key (AList.delete name (kind_table s ns key)) s)) (\<lambda>_.
     bind_eff (add_event (NamespacedStream ns key) ''DELETED'' a) (\<lambda>_. ret_eff 200))))"

definition delete_cluster_object :: "string \<Rightarrow> string option \<Rightarrow> string \<Rightarrow> int kube_eff" where
  "delete_cluster_object key name propagation_policy =
     bind_eff (policy_ok propagation_policy) (\<lambda>_.
     bind_eff (get_cluster_object key name) (\<lambda>a.
     bind_eff (modify_eff (\<lambda>s. set_cluster_table key (AList.delete name (cluster_table s key)) s)) (\<lambda>_.
     bind_eff (add_event (ClusterStream key) ''DELETED'' a) (\<lambda>_. ret_eff 200))))"

subsection \<open>Metadata\<close>

text \<open>An attribute that is set must have the expected value, another is set to it.\<close>

definition fill_or_check ::
  "(kube_model \<Rightarrow> string option) \<Rightarrow> (string option \<Rightarrow> kube_model \<Rightarrow> kube_model) \<Rightarrow> string option \<Rightarrow> nat \<Rightarrow> unit kube_eff" where
  "fill_or_check attr set_attr expected a = bind_eff (the_model ''api_version'' a) (\<lambda>m.
     if attr m \<noteq> None \<and> attr m \<noteq> Some [] then kube_assert (attr m = expected) else put_heap a (Model (set_attr expected m)))"

definition kube_update_metadata :: "nat \<Rightarrow> string \<Rightarrow> string \<Rightarrow> string option \<Rightarrow> unit kube_eff" where
  "kube_update_metadata a api_version kind ns =
     bind_eff (fill_or_check ko_api_version (\<lambda>v m. m\<lparr>ko_api_version := v\<rparr>) (Some api_version) a) (\<lambda>_.
     bind_eff (fill_or_check ko_kind (\<lambda>v m. m\<lparr>ko_kind := v\<rparr>) (Some kind) a) (\<lambda>_.
     fill_or_check (\<lambda>m. km_namespace (ko_metadata m)) (\<lambda>v m. m\<lparr>ko_metadata := (ko_metadata m)\<lparr>km_namespace := v\<rparr>\<rparr>) ns a))"

definition object_name :: "nat \<Rightarrow> string option kube_eff" where
  "object_name a = bind_eff (the_model ''metadata'' a) (\<lambda>m. ret_eff (km_name (ko_metadata m)))"

subsection \<open>Listing\<close>

fun select_each :: "('a \<Rightarrow> kube_exc + bool) \<Rightarrow> 'a list \<Rightarrow> kube_exc + 'a list" where
  "select_each f [] = Inr []"
| "select_each f (x # xs) = (case f x of Inl e \<Rightarrow> Inl e
     | Inr b \<Rightarrow> (case select_each f xs of Inl e \<Rightarrow> Inl e | Inr ys \<Rightarrow> Inr (if b then x # ys else ys)))"

definition check_object :: "kube \<Rightarrow> string option \<Rightarrow> nat \<Rightarrow> kube_exc + bool" where
  "check_object s label_selector a = (case object_labels (kb_heap s a) of
     Inl e \<Rightarrow> Inl e
   | Inr labels \<Rightarrow> check_labels labels label_selector)"

text \<open>The object of a name that a field selector asks for, if it is there and has the labels.\<close>

definition list_selected :: "(string option \<Rightarrow> nat kube_eff) \<Rightarrow> string \<Rightarrow> string option \<Rightarrow> nat list kube_eff" where
  "list_selected get_obj field_selector label_selector = (case selected_name field_selector of
     None \<Rightarrow> raise_eff (KubeValueError (''Field selector '' @ field_selector @ '' not supported''))
   | Some name \<Rightarrow> catch_eff
       (bind_eff (get_obj (Some name)) (\<lambda>a s. (case check_object s label_selector a of
          Inl e \<Rightarrow> Inl e | Inr b \<Rightarrow> Inr (if b then [a] else []), s)))
       (\<lambda>e. case e of ApiException _ _ \<Rightarrow> ret_eff [] | _ \<Rightarrow> raise_eff e))"

definition list_table :: "kube_table \<Rightarrow> string option \<Rightarrow> nat list kube_eff" where
  "list_table t label_selector = (\<lambda>s. (select_each (check_object s label_selector) (map snd t), s))"

definition list_objects :: "string \<Rightarrow> string \<Rightarrow> string option \<Rightarrow> string option \<Rightarrow> nat list kube_eff" where
  "list_objects ns key field_selector label_selector = (\<lambda>s.
     if map_of (kb_objects s) ns = None then (Inl (KubeKeyError ns), s)
     else if map_of (kind_tables s ns) key = None then (Inr [], s)
     else if field_selector \<noteq> None \<and> field_selector \<noteq> Some []
       then list_selected (get_object ns key) (the field_selector) label_selector s
     else list_table (kind_table s ns key) label_selector s)"

definition list_cluster_objects :: "string \<Rightarrow> string option \<Rightarrow> string option \<Rightarrow> nat list kube_eff" where
  "list_cluster_objects key field_selector label_selector = (\<lambda>s.
     if map_of (kb_cluster_objects s) key = None then (Inr [], s)
     else if field_selector \<noteq> None \<and> field_selector \<noteq> Some []
       then list_selected (get_cluster_object key) (the field_selector) label_selector s
     else list_table (cluster_table s key) label_selector s)"

subsection \<open>Watches\<close>

text \<open>A watcher before its first line is read: all it does is checked or started later, but for the field selector.\<close>

record kube_watcher =
  kw_stream :: kube_stream
  kw_resource_version :: "string option"
  kw_timeout_seconds :: "int option"
  kw_name :: "string option"
  kw_label_selector :: "string option"

definition build_watch_response ::
  "kube_stream \<Rightarrow> string option \<Rightarrow> int option \<Rightarrow> string option \<Rightarrow> string option \<Rightarrow> kube_watcher kube_eff" where
  "build_watch_response st resource_version timeout_seconds field_selector label_selector =
     (if field_selector = None \<or> field_selector = Some []
      then ret_eff \<lparr>kw_stream = st, kw_resource_version = resource_version, kw_timeout_seconds = timeout_seconds,
             kw_name = None, kw_label_selector = label_selector\<rparr>
      else (case selected_name (the field_selector) of
          None \<Rightarrow> raise_eff (KubeAssertion [])
        | Some name \<Rightarrow> ret_eff \<lparr>kw_stream = st, kw_resource_version = resource_version,
            kw_timeout_seconds = timeout_seconds, kw_name = Some name, kw_label_selector = label_selector\<rparr>))"

text \<open>The arguments of a listing, and its result: the objects, or a watcher.\<close>

record list_args =
  la_field_selector :: "string option"
  la_label_selector :: "string option"
  la_resource_version :: "string option"
  la_timeout_seconds :: "int option"
  la_watch :: bool
  la_preload_content :: bool

definition default_list_args :: list_args where
  "default_list_args = \<lparr>la_field_selector = None, la_label_selector = None, la_resource_version = None,
     la_timeout_seconds = None, la_watch = False, la_preload_content = True\<rparr>"

datatype kube_listing = Items "nat list" | Watching kube_watcher

definition list_or_watch :: "nat list kube_eff \<Rightarrow> kube_stream \<Rightarrow> list_args \<Rightarrow> kube_listing kube_eff" where
  "list_or_watch listing st args =
     (if \<not> la_watch args then bind_eff listing (\<lambda>xs. ret_eff (Items xs))
      else bind_eff (kube_assert (\<not> la_preload_content args)) (\<lambda>_.
        bind_eff (build_watch_response st (la_resource_version args) (la_timeout_seconds args) (la_field_selector args)
          (la_label_selector args)) (\<lambda>w. ret_eff (Watching w))))"

end
