(* ===== verification/KubeMock.thy ===== *)
theory KubeMock
  imports KubeStore "HOL-Library.List_Lexorder" "HOL-Library.Char_ord"
begin

text \<open>
  The methods of the Kubernetes mock (\<open>MockKubernetesApi\<close>, src/src/safir/testing/kubernetes/_mock.py): every call of the
  API it simulates, and what it offers to tests.  Arguments that are ignored are left out, and each
  method of the class is a function of its name; \<open>name\<close> is the metadata of the object, or an argument.
\<close>

subsection \<open>What the methods of a kind share\<close>

definition create_kind :: "kube_env \<Rightarrow> string \<Rightarrow> string \<Rightarrow> string \<Rightarrow> string \<Rightarrow> nat \<Rightarrow> unit kube_eff" where
  "create_kind env mname api_version kind ns a =
     bind_eff (maybe_error env mname [ArgStr ns, ArgObject a]) (\<lambda>_.
     bind_eff (kube_update_metadata a api_version kind (Some ns)) (\<lambda>_.
     bind_eff (object_name a) (\<lambda>name. store_object env ns kind name a False)))"

definition delete_kind :: "kube_env \<Rightarrow> string \<Rightarrow> string \<Rightarrow> string \<Rightarrow> string \<Rightarrow> string \<Rightarrow> int kube_eff" where
  "delete_kind env mname kind name ns propagation_policy =
     bind_eff (maybe_error env mname [ArgStr name, ArgStr ns]) (\<lambda>_. delete_object ns kind (Some name) propagation_policy)"

definition read_kind :: "kube_env \<Rightarrow> string \<Rightarrow> string \<Rightarrow> string \<Rightarrow> string \<Rightarrow> nat kube_eff" where
  "read_kind env mname kind name ns =
     bind_eff (maybe_error env mname [ArgStr name, ArgStr ns]) (\<lambda>_. get_object ns kind (Some name))"

text \<open>A listing of a namespace: one that is not there is not found.\<close>

definition namespace_exists :: "string \<Rightarrow> unit kube_eff" where
  "namespace_exists ns = (\<lambda>s. if map_of (kb_objects s) ns = None
     then (Inl (ApiException 404 (''Namespace '' @ ns @ '' not found'')), s) else (Inr (), s))"

definition list_kind :: "kube_env \<Rightarrow> string \<Rightarrow> string \<Rightarrow> string \<Rightarrow> list_args \<Rightarrow> kube_listing kube_eff" where
  "list_kind env mname kind ns args =
     bind_eff (maybe_error env mname [ArgStr ns, ArgOpt (la_field_selector args)]) (\<lambda>_.
     bind_eff (namespace_exists ns) (\<lambda>_.
     list_or_watch (list_objects ns kind (la_field_selector args) (la_label_selector args)) (NamespacedStream ns kind) args))"

text \<open>The object is copied and the changes of the patch made to the copy, which then replaces it.\<close>

definition deepcopy :: "nat \<Rightarrow> nat kube_eff" where
  "deepcopy a = bind_eff (get_heap a) kube_alloc"

definition patch_each :: "(json \<Rightarrow> nat \<Rightarrow> unit kube_eff) \<Rightarrow> json list \<Rightarrow> nat \<Rightarrow> unit kube_eff" where
  "patch_each change body a = foldr (\<lambda>c rest. bind_eff (change c a) (\<lambda>_. rest)) body (ret_eff ())"

definition change_op :: "json \<Rightarrow> unit kube_eff" where
  "change_op c = bind_eff (lift_eff (json_get ''op'' c)) (\<lambda>p. kube_assert (p = JStr ''replace''))"

definition change_path :: "string \<Rightarrow> json \<Rightarrow> unit kube_eff" where
  "change_path path c = bind_eff (lift_eff (json_get ''path'' c)) (\<lambda>p. kube_assert (p = JStr path))"

definition patch_kind ::
  "kube_env \<Rightarrow> string \<Rightarrow> string \<Rightarrow> (json \<Rightarrow> nat \<Rightarrow> unit kube_eff) \<Rightarrow> string \<Rightarrow> string \<Rightarrow> json list \<Rightarrow> nat kube_eff" where
  "patch_kind env mname kind change name ns body =
     bind_eff (maybe_error env mname [ArgStr name, ArgStr ns]) (\<lambda>_.
     bind_eff (get_object ns kind (Some name)) (\<lambda>a.
     bind_eff (deepcopy a) (\<lambda>b.
     bind_eff (patch_each change body b) (\<lambda>_.
     bind_eff (store_object env ns kind (Some name) b True) (\<lambda>_. ret_eff b)))))"

subsection \<open>Kinds without anything of their own\<close>

definition create_namespaced_config_map :: "kube_env \<Rightarrow> string \<Rightarrow> nat \<Rightarrow> unit kube_eff" where
  "create_namespaced_config_map env = create_kind env ''create_namespaced_config_map'' ''v1'' ''ConfigMap''"

definition create_namespaced_network_policy :: "kube_env \<Rightarrow> string \<Rightarrow> nat \<Rightarrow> unit kube_eff" where
  "create_namespaced_network_policy env = create_kind env ''create_namespaced_network_policy'' ''networking.k8s.io/v1'' ''NetworkPolicy''"

definition create_namespaced_persistent_volume_claim :: "kube_env \<Rightarrow> string \<Rightarrow> nat \<Rightarrow> unit kube_eff" where
  "create_namespaced_persistent_volume_claim env = create_kind env ''create_namespaced_persistent_volume_claim'' ''v1'' ''PersistentVolumeClaim''"

definition create_namespaced_resource_quota :: "kube_env \<Rightarrow> string \<Rightarrow> nat \<Rightarrow> unit kube_eff" where
  "create_namespaced_resource_quota env = create_kind env ''create_namespaced_resource_quota'' ''v1'' ''ResourceQuota''"

definition create_namespaced_secret :: "kube_env \<Rightarrow> string \<Rightarrow> nat \<Rightarrow> unit kube_eff" where
  "create_namespaced_secret env = create_kind env ''create_namespaced_secret'' ''v1'' ''Secret''"

definition create_namespaced_service :: "kube_env \<Rightarrow> string \<Rightarrow> nat \<Rightarrow> unit kube_eff" where
  "create_namespaced_service env = create_kind env ''create_namespaced_service'' ''v1'' ''Service''"

definition create_namespaced_service_account :: "kube_env \<Rightarrow> string \<Rightarrow> nat \<Rightarrow> unit kube_eff" where
  "create_namespaced_service_account env = create_kind env ''create_namespaced_service_account'' ''v1'' ''ServiceAccount''"

definition delete_namespaced_config_map :: "kube_env \<Rightarrow> string \<Rightarrow> string \<Rightarrow> string \<Rightarrow> int kube_eff" where
  "delete_namespaced_config_map env = delete_kind env ''delete_namespaced_config_map'' ''ConfigMap''"

definition read_namespaced_config_map :: "kube_env \<Rightarrow> string \<Rightarrow> string \<Rightarrow> nat kube_eff" where
  "read_namespaced_config_map env = read_kind env ''read_namespaced_config_map'' ''ConfigMap''"

definition read_namespaced_network_policy :: "kube_env \<Rightarrow> string \<Rightarrow> string \<Rightarrow> nat kube_eff" where
  "read_namespaced_network_policy env = read_kind env ''read_namespaced_network_policy'' ''NetworkPolicy''"

definition delete_namespaced_persistent_volume_claim :: "kube_env \<Rightarrow> string \<Rightarrow> string \<Rightarrow> string \<Rightarrow> int kube_eff" where
  "delete_namespaced_persistent_volume_claim env = delete_kind env ''delete_namespaced_persistent_volume_claim'' ''PersistentVolumeClaim''"

definition read_namespaced_persistent_volume_claim :: "kube_env \<Rightarrow> string \<Rightarrow> string \<Rightarrow> nat kube_eff" where
  "read_namespaced_persistent_volume_claim env = read_kind env ''read_namespaced_persistent_volume_claim'' ''PersistentVolumeClaim''"

definition list_namespaced_persistent_volume_claim :: "kube_env \<Rightarrow> string \<Rightarrow> list_args \<Rightarrow> kube_listing kube_eff" where
  "list_namespaced_persistent_volume_claim env = list_kind env ''list_namespaced_persistent_volume_claim'' ''PersistentVolumeClaim''"

definition read_namespaced_resource_quota :: "kube_env \<Rightarrow> string \<Rightarrow> string \<Rightarrow> nat kube_eff" where
  "read_namespaced_resource_quota env = read_kind env ''read_namespaced_resource_quota'' ''ResourceQuota''"

definition read_namespaced_secret :: "kube_env \<Rightarrow> string \<Rightarrow> string \<Rightarrow> nat kube_eff" where
  "read_namespaced_secret env = read_kind env ''read_namespaced_secret'' ''Secret''"

definition delete_namespaced_service :: "kube_env \<Rightarrow> string \<Rightarrow> string \<Rightarrow> string \<Rightarrow> int kube_eff" where
  "delete_namespaced_service env = delete_kind env ''delete_namespaced_service'' ''Service''"

definition read_namespaced_service :: "kube_env \<Rightarrow> string \<Rightarrow> string \<Rightarrow> nat kube_eff" where
  "read_namespaced_service env = read_kind env ''read_namespaced_service'' ''Service''"

definition list_namespaced_service :: "kube_env \<Rightarrow> string \<Rightarrow> list_args \<Rightarrow> kube_listing kube_eff" where
  "list_namespaced_service env = list_kind env ''list_namespaced_service'' ''Service''"

definition delete_namespaced_service_account :: "kube_env \<Rightarrow> string \<Rightarrow> string \<Rightarrow> string \<Rightarrow> int kube_eff" where
  "delete_namespaced_service_account env = delete_kind env ''delete_namespaced_service_account'' ''ServiceAccount''"

definition read_namespaced_service_account :: "kube_env \<Rightarrow> string \<Rightarrow> string \<Rightarrow> nat kube_eff" where
  "read_namespaced_service_account env = read_kind env ''read_namespaced_service_account'' ''ServiceAccount''"

definition list_namespaced_service_account :: "kube_env \<Rightarrow> string \<Rightarrow> list_args \<Rightarrow> kube_listing kube_eff" where
  "list_namespaced_service_account env = list_kind env ''list_namespaced_service_account'' ''ServiceAccount''"

definition delete_namespaced_ingress :: "kube_env \<Rightarrow> string \<Rightarrow> string \<Rightarrow> string \<Rightarrow> int kube_eff" where
  "delete_namespaced_ingress env = delete_kind env ''delete_namespaced_ingress'' ''Ingress''"

definition read_namespaced_ingress :: "kube_env \<Rightarrow> string \<Rightarrow> string \<Rightarrow> nat kube_eff" where
  "read_namespaced_ingress env = read_kind env ''read_namespaced_ingress'' ''Ingress''"

definition list_namespaced_ingress :: "kube_env \<Rightarrow> string \<Rightarrow> list_args \<Rightarrow> kube_listing kube_eff" where
  "list_namespaced_ingress env = list_kind env ''list_namespaced_ingress'' ''Ingress''"

definition read_namespaced_job :: "kube_env \<Rightarrow> string \<Rightarrow> string \<Rightarrow> nat kube_eff" where
  "read_namespaced_job env = read_kind env ''read_namespaced_job'' ''Job''"

definition list_namespaced_job :: "kube_env \<Rightarrow> string \<Rightarrow> list_args \<Rightarrow> kube_listing kube_eff" where
  "list_namespaced_job env = list_kind env ''list_namespaced_job'' ''Job''"

definition delete_namespaced_pod :: "kube_env \<Rightarrow> string \<Rightarrow> string \<Rightarrow> string \<Rightarrow> int kube_eff" where
  "delete_namespaced_pod env = delete_kind env ''delete_namespaced_pod'' ''Pod''"

definition read_namespaced_pod :: "kube_env \<Rightarrow> string \<Rightarrow> string \<Rightarrow> nat kube_eff" where
  "read_namespaced_pod env = read_kind env ''read_namespaced_pod'' ''Pod''"

definition list_namespaced_pod :: "kube_env \<Rightarrow> string \<Rightarrow> list_args \<Rightarrow> kube_listing kube_eff" where
  "list_namespaced_pod env = list_kind env ''list_namespaced_pod'' ''Pod''"

definition read_namespaced_pod_status :: "kube_env \<Rightarrow> string \<Rightarrow> string \<Rightarrow> nat kube_eff" where
  "read_namespaced_pod_status env = read_kind env ''read_namespaced_pod_status'' ''Pod''"

subsection \<open>Secrets\<close>

definition set_meta :: "(kube_meta \<Rightarrow> kube_meta) \<Rightarrow> nat \<Rightarrow> unit kube_eff" where
  "set_meta f a = bind_eff (the_model ''metadata'' a) (\<lambda>m. put_heap a (Model (m\<lparr>ko_metadata := f (ko_metadata m)\<rparr>)))"

definition secret_change :: "json \<Rightarrow> nat \<Rightarrow> unit kube_eff" where
  "secret_change c a = bind_eff (change_op c) (\<lambda>_.
     bind_eff (lift_eff (json_get ''path'' c)) (\<lambda>path.
     if path = JStr ''/metadata/annotations''
     then bind_eff (lift_eff (json_get ''value'' c)) (\<lambda>v. set_meta (\<lambda>m. m\<lparr>km_annotations := v\<rparr>) a)
     else if path = JStr ''/metadata/labels''
     then bind_eff (lift_eff (json_get ''value'' c)) (\<lambda>v. set_meta (\<lambda>m. m\<lparr>km_labels := v\<rparr>) a)
     else raise_eff (KubeAssertion ''unsupported path'')))"

definition patch_namespaced_secret :: "kube_env \<Rightarrow> string \<Rightarrow> string \<Rightarrow> json list \<Rightarrow> nat kube_eff" where
  "patch_namespaced_secret env = patch_kind env ''patch_namespaced_secret'' ''Secret'' secret_change"

definition replace_namespaced_secret :: "kube_env \<Rightarrow> string \<Rightarrow> string \<Rightarrow> nat \<Rightarrow> unit kube_eff" where
  "replace_namespaced_secret env name ns a =
     bind_eff (maybe_error env ''replace_namespaced_secret'' [ArgStr ns, ArgObject a]) (\<lambda>_.
     store_object env ns ''Secret'' (Some name) a True)"

subsection \<open>Ingresses\<close>

definition set_status :: "kube_status \<Rightarrow> nat \<Rightarrow> unit kube_eff" where
  "set_status st a = bind_eff (the_model ''status'' a) (\<lambda>m. put_heap a (Model (m\<lparr>ko_status := st\<rparr>)))"

definition create_namespaced_ingress :: "kube_env \<Rightarrow> string \<Rightarrow> nat \<Rightarrow> unit kube_eff" where
  "create_namespaced_ingress env ns a =
     bind_eff (maybe_error env ''create_namespaced_ingress'' [ArgStr ns, ArgObject a]) (\<lambda>_.
     bind_eff (kube_update_metadata a ''networking.k8s.io/v1'' ''Ingress'' (Some ns)) (\<lambda>_.
     bind_eff (set_status (IngressStatus (JArr [])) a) (\<lambda>_.
     bind_eff (object_name a) (\<lambda>name. store_object env ns ''Ingress'' name a False))))"

text \<open>An attribute of a status that is not there cannot be set.\<close>

definition ingress_change :: "json \<Rightarrow> nat \<Rightarrow> unit kube_eff" where
  "ingress_change c a = bind_eff (change_op c) (\<lambda>_.
     bind_eff (change_path ''/status/loadBalancer/ingress'' c) (\<lambda>_.
     bind_eff (lift_eff (json_get ''value'' c)) (\<lambda>v.
     bind_eff (the_model ''status'' a) (\<lambda>m. case ko_status m of
         IngressStatus _ \<Rightarrow> set_status (IngressStatus v) a
       | _ \<Rightarrow> raise_eff (KubeAttributeError ''load_balancer'')))))"

definition patch_namespaced_ingress_status :: "kube_env \<Rightarrow> string \<Rightarrow> string \<Rightarrow> json list \<Rightarrow> nat kube_eff" where
  "patch_namespaced_ingress_status env = patch_kind env ''patch_namespaced_ingress'' ''Ingress'' ingress_change"

subsection \<open>Events\<close>

definition create_namespaced_event :: "kube_env \<Rightarrow> string \<Rightarrow> nat \<Rightarrow> unit kube_eff" where
  "create_namespaced_event env ns a =
     bind_eff (maybe_error env ''create_namespaced_event'' [ArgStr ns, ArgObject a]) (\<lambda>_.
     bind_eff (kube_update_metadata a ''v1'' ''Event'' (Some ns)) (\<lambda>_.
     bind_eff (read_eff (\<lambda>s. next_resource_version (kb_streams s (NamespacedStream ns ''Event'')))) (\<lambda>version.
     bind_eff (stamp version a) (\<lambda>_.
     bind_eff (add_event (NamespacedStream ns ''Event'') ''ADDED'' a) (\<lambda>_.
     bind_eff (modify_eff (\<lambda>s. s\<lparr>kb_events := (kb_events s)(ns := kb_events s ns @ [a])\<rparr>)) (\<lambda>_.
     run_hook env ''Event'' a))))))"

definition list_namespaced_event :: "kube_env \<Rightarrow> string \<Rightarrow> list_args \<Rightarrow> kube_listing kube_eff" where
  "list_namespaced_event env ns args =
     bind_eff (maybe_error env ''list_namespaced_event'' [ArgStr ns]) (\<lambda>_.
     list_or_watch (read_eff (\<lambda>s. kb_events s ns)) (NamespacedStream ns ''Event'')
       (args\<lparr>la_field_selector := None, la_label_selector := None\<rparr>))"

subsection \<open>Pods\<close>

text \<open>The event of a pod that started; the start time is cut to seconds.\<close>

definition pod_start_event :: "string option \<Rightarrow> string \<Rightarrow> kube_model" where
  "pod_start_event name ns = \<lparr>ko_api_version = None, ko_kind = None,
     ko_metadata = empty_meta\<lparr>km_name := Some (none_str name @ ''-start''), km_namespace := Some ns\<rparr>,
     ko_status = NoStatus, ko_template = None,
     ko_content = JObj [(''message'', JStr (''Pod '' @ none_str name @ '' started'')),
       (''involvedObject'', JObj [(''kind'', JStr ''Pod''), (''name'', case name of None \<Rightarrow> JNull | Some n \<Rightarrow> JStr n),
         (''namespace'', JStr ns)])]\<rparr>"

definition create_namespaced_pod :: "kube_env \<Rightarrow> string \<Rightarrow> nat \<Rightarrow> unit kube_eff" where
  "create_namespaced_pod env ns a =
     bind_eff (maybe_error env ''create_namespaced_pod'' [ArgStr ns, ArgObject a]) (\<lambda>_.
     bind_eff (kube_update_metadata a ''v1'' ''Pod'' (Some ns)) (\<lambda>_.
     bind_eff (read_eff kb_initial_pod_phase) (\<lambda>phase.
     bind_eff (set_status (PodStatus (JStr phase) (Some (ke_now env div 1000000 * 1000000))) a) (\<lambda>_.
     bind_eff (object_name a) (\<lambda>name.
     bind_eff (store_object env ns ''Pod'' name a False) (\<lambda>_.
     bind_eff (read_eff kb_initial_pod_phase) (\<lambda>phase.
     if phase = ''Running''
     then bind_eff (object_name a) (\<lambda>name.
       bind_eff (kube_alloc (Model (pod_start_event name ns))) (\<lambda>event. create_namespaced_event env ns event))
     else ret_eff ())))))))"

definition pod_change :: "json \<Rightarrow> nat \<Rightarrow> unit kube_eff" where
  "pod_change c a = bind_eff (change_op c) (\<lambda>_.
     bind_eff (change_path ''/status/phase'' c) (\<lambda>_.
     bind_eff (lift_eff (json_get ''value'' c)) (\<lambda>v.
     bind_eff (the_model ''status'' a) (\<lambda>m. case ko_status m of
         PodStatus _ start \<Rightarrow> set_status (PodStatus v start) a
       | _ \<Rightarrow> raise_eff (KubeAttributeError ''phase'')))))"

definition patch_namespaced_pod_status :: "kube_env \<Rightarrow> string \<Rightarrow> string \<Rightarrow> json list \<Rightarrow> nat kube_eff" where
  "patch_namespaced_pod_status env = patch_kind env ''patch_namespaced_pod'' ''Pod'' pod_change"

subsection \<open>Jobs\<close>

text \<open>The metadata of the pod of a job, from the template; the random suffix is five digits.\<close>

definition copied_meta :: "kube_meta option \<Rightarrow> kube_meta" where
  "copied_meta source = (case source of None \<Rightarrow> empty_meta
   | Some src \<Rightarrow> empty_meta\<lparr>km_name := km_name src, km_generate_name := km_generate_name src,
       km_labels := (if json_truthy (km_labels src) then km_labels src else JNull),
       km_annotations := (if json_truthy (km_annotations src) then km_annotations src else JNull)\<rparr>)"

definition unset :: "string option \<Rightarrow> bool" where
  "unset v \<longleftrightarrow> v = None \<or> v = Some []"

definition generated_name :: "string option \<Rightarrow> string \<Rightarrow> kube_meta \<Rightarrow> kube_meta" where
  "generated_name name random meta =
     (if unset (km_name meta)
      then (let meta = (if unset (km_generate_name meta) then meta\<lparr>km_generate_name := Some (none_str name @ ''-'')\<rparr> else meta)
            in meta\<lparr>km_name := Some (the (km_generate_name meta) @ take 5 random)\<rparr>)
      else meta)"

definition set_label :: "string \<Rightarrow> json \<Rightarrow> json \<Rightarrow> kube_exc + json" where
  "set_label k v labels = (case labels of JObj ms \<Rightarrow> Inr (JObj (AList.update k v ms)) | _ \<Rightarrow> Inl KubeTypeError)"

definition job_pod :: "string option \<Rightarrow> string \<Rightarrow> string \<Rightarrow> kube_meta option \<Rightarrow> json \<Rightarrow> kube_exc + kube_model" where
  "job_pod name ns random source spec =
     (let meta = generated_name name random (copied_meta source) in
      case set_label ''job-name'' (case name of None \<Rightarrow> JNull | Some n \<Rightarrow> JStr n) (km_labels meta) of
        Inl e \<Rightarrow> Inl e
      | Inr labels \<Rightarrow> Inr \<lparr>ko_api_version = None, ko_kind = None,
          ko_metadata = meta\<lparr>km_labels := labels, km_namespace := Some ns\<rparr>, ko_status = NoStatus, ko_template = None,
          ko_content = spec\<rparr>)"

definition create_namespaced_job :: "kube_env \<Rightarrow> string \<Rightarrow> nat \<Rightarrow> unit kube_eff" where
  "create_namespaced_job env ns a =
     bind_eff (maybe_error env ''create_namespaced_job'' [ArgStr ns, ArgObject a]) (\<lambda>_.
     bind_eff (kube_update_metadata a ''batch/v1'' ''Job'' (Some ns)) (\<lambda>_.
     bind_eff (object_name a) (\<lambda>name.
     bind_eff (store_object env ns ''Job'' name a False) (\<lambda>_.
     bind_eff (the_model ''metadata'' a) (\<lambda>job. case ko_template job of
       None \<Rightarrow> raise_eff (KubeAttributeError ''template'')
     | Some (source, spec) \<Rightarrow>
       bind_eff (lift_eff (job_pod (km_name (ko_metadata job)) ns (ke_random env) source spec)) (\<lambda>pod.
       bind_eff (kube_alloc (Model pod)) (\<lambda>p.
       bind_eff (create_namespaced_pod env ns p) (\<lambda>_.
       bind_eff (the_model ''status'' p) (\<lambda>pod. case ko_status pod of
           NoStatus \<Rightarrow> raise_eff (KubeAttributeError ''phase'')
         | PodStatus phase _ \<Rightarrow> if phase = JStr ''Running'' then set_status (JobStatus 1) a else ret_eff ()
         | _ \<Rightarrow> ret_eff ())))))))))"

definition delete_pods :: "kube_env \<Rightarrow> string \<Rightarrow> nat list \<Rightarrow> unit kube_eff" where
  "delete_pods env ns pods = foldr (\<lambda>p rest.
     bind_eff (object_name p) (\<lambda>name.
     bind_eff (maybe_error env ''delete_namespaced_pod'' [case name of None \<Rightarrow> ArgOpt None | Some n \<Rightarrow> ArgStr n, ArgStr ns]) (\<lambda>_.
     bind_eff (delete_object ns ''Pod'' name ''Foreground'') (\<lambda>_. rest)))) pods (ret_eff ())"

definition delete_namespaced_job :: "kube_env \<Rightarrow> string \<Rightarrow> string \<Rightarrow> string \<Rightarrow> int kube_eff" where
  "delete_namespaced_job env name ns propagation_policy =
     bind_eff (maybe_error env ''delete_namespaced_job'' [ArgStr name, ArgStr ns]) (\<lambda>_.
     bind_eff (list_namespaced_pod env ns (default_list_args\<lparr>la_label_selector := Some (''job-name=='' @ name)\<rparr>)) (\<lambda>pods.
     bind_eff (if propagation_policy \<noteq> ''Orphan''
       then delete_pods env ns (case pods of Items ps \<Rightarrow> ps | Watching _ \<Rightarrow> []) else ret_eff ()) (\<lambda>_.
     delete_object ns ''Job'' (Some name) propagation_policy)))"

subsection \<open>Namespaces\<close>

text \<open>A namespace has a name.\<close>

definition create_namespace :: "kube_env \<Rightarrow> nat \<Rightarrow> unit kube_eff" where
  "create_namespace env a =
     bind_eff (maybe_error env ''create_namespace'' [ArgObject a]) (\<lambda>_.
     bind_eff (kube_update_metadata a ''v1'' ''Namespace'' None) (\<lambda>_.
     bind_eff (object_name a) (\<lambda>name. case name of
       None \<Rightarrow> raise_eff KubeTypeError
     | Some n \<Rightarrow> (\<lambda>s. if map_of (kb_objects s) n \<noteq> None
         then (Inl (ApiException 409 (''Namespace '' @ n @ '' already exists'')), s)
         else store_object env n ''Namespace'' name a False s))))"

definition read_namespace :: "kube_env \<Rightarrow> string \<Rightarrow> nat kube_eff" where
  "read_namespace env name =
     bind_eff (maybe_error env ''read_namespace'' [ArgStr name]) (\<lambda>_. get_object name ''Namespace'' (Some name))"

definition api_handled :: "'a kube_eff \<Rightarrow> 'a kube_eff \<Rightarrow> 'a kube_eff" where
  "api_handled body handler = catch_eff body (\<lambda>e. case e of ApiException _ _ \<Rightarrow> handler | _ \<Rightarrow> raise_eff e)"

definition delete_namespace :: "kube_env \<Rightarrow> string \<Rightarrow> unit kube_eff" where
  "delete_namespace env name =
     bind_eff (maybe_error env ''delete_namespace'' []) (\<lambda>_ s.
     if map_of (kb_objects s) name = None then (Inl (ApiException 404 (name @ '' not found'')), s)
     else bind_eff (api_handled
         (bind_eff (read_namespace env name) (\<lambda>ns. add_event NamespaceStream ''DELETED'' ns)) (ret_eff ())) (\<lambda>_.
       modify_eff (\<lambda>s. s\<lparr>kb_objects := AList.delete name (kb_objects s)\<rparr>)) s)"

text \<open>The loop over the names of all namespaces; one without its own object is skipped.\<close>

definition list_namespaces :: "kube_env \<Rightarrow> string option \<Rightarrow> string list \<Rightarrow> nat list kube_eff" where
  "list_namespaces env label_selector names = foldr (\<lambda>name rest.
     bind_eff (api_handled (bind_eff (read_namespace env name) (\<lambda>a. ret_eff (Some a))) (ret_eff None)) (\<lambda>found. case found of
       None \<Rightarrow> rest
     | Some a \<Rightarrow> bind_eff (\<lambda>s. (check_object s label_selector a, s)) (\<lambda>b.
         bind_eff rest (\<lambda>others. ret_eff (if b then a # others else others))))) names (ret_eff [])"

definition list_namespace :: "kube_env \<Rightarrow> list_args \<Rightarrow> kube_listing kube_eff" where
  "list_namespace env args =
     bind_eff (maybe_error env ''list_namespace'' []) (\<lambda>_.
     list_or_watch
       (if unset (la_field_selector args)
        then (\<lambda>s. list_namespaces env (la_label_selector args) (map fst (kb_objects s)) s)
        else list_selected (\<lambda>name. get_object (the name) ''Namespace'' name) (the (la_field_selector args)) (la_label_selector args))
       NamespaceStream args)"

subsection \<open>Nodes and persistent volumes\<close>

definition list_node :: "kube_env \<Rightarrow> string option \<Rightarrow> nat list kube_eff" where
  "list_node env label_selector =
     bind_eff (maybe_error env ''list_node'' []) (\<lambda>_ s. (select_each (check_object s label_selector) (kb_nodes s), s))"

definition create_persistent_volume :: "kube_env \<Rightarrow> nat \<Rightarrow> unit kube_eff" where
  "create_persistent_volume env a =
     bind_eff (maybe_error env ''create_persistent_volume'' [ArgObject a]) (\<lambda>_.
     bind_eff (kube_update_metadata a ''v1'' ''PersistentVolume'' None) (\<lambda>_.
     bind_eff (object_name a) (\<lambda>name. store_cluster_object ''PersistentVolume'' name a False)))"

definition delete_persistent_volume :: "kube_env \<Rightarrow> string \<Rightarrow> string \<Rightarrow> int kube_eff" where
  "delete_persistent_volume env name propagation_policy =
     bind_eff (maybe_error env ''delete_persistent_volume'' [ArgStr name]) (\<lambda>_.
     delete_cluster_object ''PersistentVolume'' (Some name) propagation_policy)"

definition list_persistent_volume :: "kube_env \<Rightarrow> list_args \<Rightarrow> kube_listing kube_eff" where
  "list_persistent_volume env args =
     bind_eff (maybe_error env ''list_persistent_volume'' [ArgOpt (la_field_selector args)]) (\<lambda>_.
     list_or_watch (list_cluster_objects ''PersistentVolume'' (la_field_selector args) (la_label_selector args))
       (ClusterStream ''PersistentVolume'') args)"

definition read_persistent_volume :: "kube_env \<Rightarrow> string \<Rightarrow> nat kube_eff" where
  "read_persistent_volume env name =
     bind_eff (maybe_error env ''read_persistent_volume'' [ArgStr name]) (\<lambda>_. get_cluster_object ''PersistentVolume'' (Some name))"

subsection \<open>Custom objects\<close>

text \<open>The key of a custom object; its kind and name are strings.\<close>

definition custom_key :: "string \<Rightarrow> string \<Rightarrow> string \<Rightarrow> string" where
  "custom_key grp version plural = grp @ ''/'' @ version @ ''/'' @ plural"

definition json_string :: "json \<Rightarrow> kube_exc + string" where
  "json_string v = (case v of JStr t \<Rightarrow> Inr t | _ \<Rightarrow> Inl KubeTypeError)"

definition dict_get :: "string \<Rightarrow> (string \<times> json) list \<Rightarrow> kube_exc + json" where
  "dict_get k d = json_get k (JObj d)"

text \<open>\<open>body.get("api_version", body["apiVersion"])\<close>, whose default is evaluated first, and the assertion on it.\<close>

definition check_api_version :: "(string \<times> json) list \<Rightarrow> string \<Rightarrow> string \<Rightarrow> unit kube_eff" where
  "check_api_version d grp version = bind_eff (lift_eff (dict_get ''apiVersion'' d)) (\<lambda>fallback.
     kube_assert ((case map_of d ''api_version'' of None \<Rightarrow> fallback | Some v \<Rightarrow> v) = JStr (grp @ ''/'' @ version)))"

definition metadata_get :: "string \<Rightarrow> (string \<times> json) list \<Rightarrow> kube_exc + json" where
  "metadata_get k d = (case dict_get ''metadata'' d of Inl e \<Rightarrow> Inl e | Inr m \<Rightarrow> json_get k m)"

text \<open>\<open>body["metadata"].get("namespace")\<close>, and setting it.\<close>

definition custom_namespace :: "nat \<Rightarrow> string \<Rightarrow> unit kube_eff" where
  "custom_namespace a ns = bind_eff (the_dict a) (\<lambda>d. bind_eff (lift_eff (dict_get ''metadata'' d)) (\<lambda>m. case m of
       JObj ms \<Rightarrow>
         (let old = (case map_of ms ''namespace'' of None \<Rightarrow> JNull | Some v \<Rightarrow> v)
          in if json_truthy old then kube_assert (old = JStr ns)
             else put_heap a (Custom (AList.update ''metadata'' (JObj (AList.update ''namespace'' (JStr ns) ms)) d)))
     | _ \<Rightarrow> raise_eff (KubeAttributeError ''get'')))"

definition create_namespaced_custom_object ::
  "kube_env \<Rightarrow> string \<Rightarrow> string \<Rightarrow> string \<Rightarrow> string \<Rightarrow> nat \<Rightarrow> unit kube_eff" where
  "create_namespaced_custom_object env grp version ns plural a =
     bind_eff (maybe_error env ''create_namespaced_custom_object''
       [ArgStr grp, ArgStr version, ArgStr ns, ArgStr plural, ArgObject a]) (\<lambda>_.
     bind_eff (the_dict a) (\<lambda>d.
     bind_eff (check_api_version d grp version) (\<lambda>_.
     let key = custom_key grp version plural in
     bind_eff (bind_eff (lift_eff (dict_get ''kind'' d)) (\<lambda>k. lift_eff (json_string k))) (\<lambda>kind.
     bind_eff (\<lambda>s. case map_of (kb_custom_kinds s) kind of
         Some known \<Rightarrow> kube_assert (key = known) s
       | None \<Rightarrow> (Inr (), s\<lparr>kb_custom_kinds := AList.update kind key (kb_custom_kinds s)\<rparr>)) (\<lambda>_.
     bind_eff (custom_namespace a ns) (\<lambda>_.
     bind_eff (the_dict a) (\<lambda>d.
     bind_eff (bind_eff (lift_eff (metadata_get ''name'' d)) (\<lambda>n. lift_eff (json_string n))) (\<lambda>name.
     store_object env ns key (Some name) a False))))))))"

definition delete_namespaced_custom_object ::
  "kube_env \<Rightarrow> string \<Rightarrow> string \<Rightarrow> string \<Rightarrow> string \<Rightarrow> string \<Rightarrow> string \<Rightarrow> int kube_eff" where
  "delete_namespaced_custom_object env grp version ns plural name propagation_policy =
     bind_eff (maybe_error env ''delete_namespaced_custom_object'' [ArgStr name, ArgStr ns]) (\<lambda>_.
     delete_object ns (custom_key grp version plural) (Some name) propagation_policy)"

definition get_namespaced_custom_object ::
  "kube_env \<Rightarrow> string \<Rightarrow> string \<Rightarrow> string \<Rightarrow> string \<Rightarrow> string \<Rightarrow> nat kube_eff" where
  "get_namespaced_custom_object env grp version ns plural name =
     bind_eff (maybe_error env ''get_namespaced_custom_object''
       [ArgStr grp, ArgStr version, ArgStr ns, ArgStr plural, ArgStr name]) (\<lambda>_.
     get_object ns (custom_key grp version plural) (Some name))"

definition list_cluster_custom_object :: "kube_env \<Rightarrow> string \<Rightarrow> string \<Rightarrow> string \<Rightarrow> nat list kube_eff" where
  "list_cluster_custom_object env grp version plural =
     bind_eff (maybe_error env ''list_cluster_custom_object'' [ArgStr grp, ArgStr version, ArgStr plural]) (\<lambda>_.
     read_eff (\<lambda>s. concat (map (\<lambda>(_, kinds). map snd (or_empty (map_of kinds (custom_key grp version plural)))) (kb_objects s))))"

definition list_namespaced_custom_object ::
  "kube_env \<Rightarrow> string \<Rightarrow> string \<Rightarrow> string \<Rightarrow> string \<Rightarrow> list_args \<Rightarrow> kube_listing kube_eff" where
  "list_namespaced_custom_object env grp version ns plural args =
     bind_eff (maybe_error env ''list_namespaced_custom_object''
       [ArgStr grp, ArgStr version, ArgStr ns, ArgStr plural, ArgOpt (la_field_selector args)]) (\<lambda>_.
     bind_eff (namespace_exists ns) (\<lambda>_.
     let key = custom_key grp version plural in
     list_or_watch (list_objects ns key (la_field_selector args) (la_label_selector args)) (NamespacedStream ns key) args))"

definition custom_change :: "json \<Rightarrow> nat \<Rightarrow> unit kube_eff" where
  "custom_change c a = bind_eff (change_op c) (\<lambda>_.
     bind_eff (change_path ''/status'' c) (\<lambda>_.
     bind_eff (lift_eff (json_get ''value'' c)) (\<lambda>v.
     bind_eff (the_dict a) (\<lambda>d. put_heap a (Custom (AList.update ''status'' v d))))))"

definition patch_namespaced_custom_object_status ::
  "kube_env \<Rightarrow> string \<Rightarrow> string \<Rightarrow> string \<Rightarrow> string \<Rightarrow> string \<Rightarrow> json list \<Rightarrow> nat kube_eff" where
  "patch_namespaced_custom_object_status env grp version ns plural name body =
     bind_eff (maybe_error env ''patch_namespaced_custom_object_status''
       [ArgStr grp, ArgStr version, ArgStr ns, ArgStr plural, ArgPatch body]) (\<lambda>_.
     let key = custom_key grp version plural in
     bind_eff (get_object ns key (Some name)) (\<lambda>a.
     bind_eff (deepcopy a) (\<lambda>b.
     bind_eff (patch_each custom_change body b) (\<lambda>_.
     bind_eff (store_object env ns key (Some name) b True) (\<lambda>_. ret_eff b)))))"

definition replace_namespaced_custom_object ::
  "kube_env \<Rightarrow> string \<Rightarrow> string \<Rightarrow> string \<Rightarrow> string \<Rightarrow> string \<Rightarrow> nat \<Rightarrow> unit kube_eff" where
  "replace_namespaced_custom_object env grp version ns plural name a =
     bind_eff (maybe_error env ''replace_namespaced_custom_object''
       [ArgStr grp, ArgStr version, ArgStr ns, ArgStr plural, ArgStr name, ArgObject a]) (\<lambda>_.
     bind_eff (the_dict a) (\<lambda>d.
     bind_eff (check_api_version d grp version) (\<lambda>_.
     let key = custom_key grp version plural in
     bind_eff (bind_eff (lift_eff (dict_get ''kind'' d)) (\<lambda>k. lift_eff (json_string k))) (\<lambda>kind.
     bind_eff (\<lambda>s. case map_of (kb_custom_kinds s) kind of
         None \<Rightarrow> (Inl (KubeKeyError kind), s) | Some known \<Rightarrow> kube_assert (key = known) s) (\<lambda>_.
     bind_eff (bind_eff (lift_eff (metadata_get ''namespace'' d)) (\<lambda>n. kube_assert (n = JStr ns))) (\<lambda>_.
     store_object env ns key (Some name) a True))))))"

subsection \<open>What tests may do\<close>

text \<open>The objects of a table in the order of their names; names that cannot be compared raise.\<close>

definition sorted_table :: "kube_table \<Rightarrow> kube_exc + nat list" where
  "sorted_table t =
     (if length t \<le> 1 \<or> None \<notin> fst ` set t then Inr (map snd (sort_key (\<lambda>p. the (fst p)) t)) else Inl KubeTypeError)"

definition collect_tables :: "(kube_exc + nat list) list \<Rightarrow> kube_exc + nat list" where
  "collect_tables ts = map_sum (\<lambda>e. e) concat (traverse (\<lambda>t. t) ts)"

definition get_all_objects_for_test :: "string \<Rightarrow> nat list kube_eff" where
  "get_all_objects_for_test kind = (\<lambda>s.
     let key = (case map_of (kb_custom_kinds s) kind of None \<Rightarrow> kind | Some key \<Rightarrow> key) in
     (collect_tables (map (\<lambda>ns. sorted_table (kind_table s ns key)) (sort (map fst (kb_objects s)))), s))"

definition get_namespace_objects_for_test :: "string \<Rightarrow> nat list kube_eff" where
  "get_namespace_objects_for_test ns = (\<lambda>s.
     (collect_tables (map (\<lambda>key. sorted_table (kind_table s ns key)) (sort (map fst (kind_tables s ns)))), s))"

definition register_create_hook_for_test :: "string \<Rightarrow> nat option \<Rightarrow> unit kube_eff" where
  "register_create_hook_for_test kind hook = modify_eff (\<lambda>s. s\<lparr>kb_create_hooks := (case hook of
       Some h \<Rightarrow> AList.update kind h (kb_create_hooks s)
     | None \<Rightarrow> AList.delete kind (kb_create_hooks s))\<rparr>)"

definition set_nodes_for_test :: "nat list \<Rightarrow> unit kube_eff" where
  "set_nodes_for_test nodes = modify_eff (\<lambda>s. s\<lparr>kb_nodes := nodes\<rparr>)"

end
