(* ===== verification/KubeKept.thy ===== *)
theory KubeKept
  imports KubeInvariant
begin

text \<open>
  The methods of the Kubernetes mock keep its invariant, only add to the streams, and do not turn an object into one
  of another kind.
\<close>

subsection \<open>What is kept\<close>

definition kind_at :: "kube \<Rightarrow> nat \<Rightarrow> string \<Rightarrow> bool" where
  "kind_at s a k \<longleftrightarrow> k \<noteq> [] \<and> (\<exists>m. kb_heap s a = Model m \<and> ko_kind m = Some k)"

definition mock_kept :: "string set \<Rightarrow> kube \<Rightarrow> kube \<Rightarrow> bool" where
  "mock_kept D s s' \<longleftrightarrow> (kube_inv D s \<longrightarrow> kube_inv D s' \<and> kb_fresh s \<le> kb_fresh s' \<and>
     (\<forall>st. grows (kb_streams s st) (kb_streams s' st)) \<and> (\<forall>a k. a < kb_fresh s \<longrightarrow> kind_at s a k \<longrightarrow> kind_at s' a k))"

lemma kept_refl [simp, intro]: "mock_kept D s s"
  by (simp add: mock_kept_def)

lemma kept_trans: "mock_kept D s t \<Longrightarrow> mock_kept D t u \<Longrightarrow> mock_kept D s u"
  unfolding mock_kept_def by (meson le_trans grows_trans order.strict_trans2)

lemma kept_bind:
  assumes "mock_kept D s (snd (m s))" "\<And>x. m s = (Inr x, snd (m s)) \<Longrightarrow> mock_kept D (snd (m s)) (snd (k x (snd (m s))))"
  shows "mock_kept D s (snd (bind_eff m k s))"
proof (cases "m s")
  case (Pair r t)
  then show ?thesis using assms kept_trans by (cases r) (auto simp: bind_eff_def)
qed

lemma kept_same: "snd (m s) = s \<Longrightarrow> mock_kept D s (snd (m s))"
  by simp

lemma kept_bind_same:
  assumes "\<And>s. snd (m s) = s" "\<And>x. m s = (Inr x, s) \<Longrightarrow> mock_kept D s (snd (k x s))"
  shows "mock_kept D s (snd (bind_eff m k s))"
  using kept_bind [of D s m k] assms by (metis kept_refl)

lemma kept_inv: "(kube_inv D s \<Longrightarrow> mock_kept D s t) \<Longrightarrow> mock_kept D s t"
  by (simp add: mock_kept_def)

lemma kept_catch:
  assumes "mock_kept D s (snd (m s))" "\<And>e. m s = (Inl e, snd (m s)) \<Longrightarrow> mock_kept D (snd (m s)) (snd (h e (snd (m s))))"
  shows "mock_kept D s (snd (catch_eff m h s))"
proof (cases "m s")
  case (Pair r t)
  then show ?thesis using assms kept_trans by (cases r) (auto simp: catch_eff_def)
qed

subsection \<open>Changes that no view shows\<close>

lemma kube_invD:
  assumes "kube_inv D s"
  shows "stream_ok (kb_streams s st)" "versions_ok (stream_events s st)" "placed s" "coherent D s"
    "distinct (map fst (kind_table s ns key))" "distinct (map fst (cluster_table s key))"
  using assms by (simp_all add: kube_inv_def)

lemma placedD:
  assumes "kube_inv D s" "plain st" "objects_of s st name = Some a"
  shows "a < kb_fresh s" "\<exists>m. kb_heap s a = Model m \<and> meta_ok st name m"
  using assms unfolding kube_inv_def placed_def by blast+

lemma kube_inv_unseen:
  assumes inv: "kube_inv D s"
    and streams: "\<And>st. stream_ok (kb_streams s' st) \<and> versions_ok (stream_events s' st) \<and>
      (plain st \<longrightarrow> stream_events s' st = stream_events s st)"
    and objects: "\<And>st. plain st \<Longrightarrow> objects_of s' st = objects_of s st"
    and tables: "\<And>ns key. distinct (map fst (kind_table s' ns key))" "\<And>key. distinct (map fst (cluster_table s' key))"
    and fresh: "kb_fresh s \<le> kb_fresh s'"
    and heap: "\<And>st name a m. plain st \<Longrightarrow> objects_of s st name = Some a \<Longrightarrow> kb_heap s a = Model m \<Longrightarrow> meta_ok st name m \<Longrightarrow>
      the_view (stream_key st) (kb_heap s' a) = the_view (stream_key st) (kb_heap s a) \<and>
      (\<exists>m'. kb_heap s' a = Model m' \<and> meta_ok st name m')"
  shows "kube_inv D s'"
proof -
  have view: "kube_view s' st = kube_view s st" if "plain st" for st
    using objects [OF that] placedD(2) [OF inv that] heap [OF that]
    by (intro ext) (fastforce simp: kube_view_def split: option.split)
  have "placed s'"
    unfolding placed_def
  proof (intro allI impI)
    fix st name a
    assume p: "plain st" "objects_of s' st name = Some a"
    then have o: "objects_of s st name = Some a" using objects by simp
    then obtain m where "kb_heap s a = Model m" "meta_ok st name m" using placedD(2) [OF inv p(1)] by blast
    then show "a < kb_fresh s' \<and> (\<exists>m. kb_heap s' a = Model m \<and> meta_ok st name m)"
      using heap [OF p(1) o] placedD(1) [OF inv p(1) o] fresh by auto
  qed
  moreover have "coherent D s'"
    using kube_invD(4) [OF inv] streams view unfolding coherent_def by simp
  ultimately show ?thesis using streams tables by (simp add: kube_inv_def)
qed

text \<open>The tables after an update of another part of the state.\<close>

lemma kind_tables_updates [simp]:
  "kind_tables (s\<lparr>kb_heap := h\<rparr>) = kind_tables s" "kind_tables (s\<lparr>kb_fresh := n\<rparr>) = kind_tables s"
  "kind_tables (s\<lparr>kb_streams := q\<rparr>) = kind_tables s" "kind_tables (s\<lparr>kb_events := e\<rparr>) = kind_tables s"
  "kind_tables (s\<lparr>kb_create_hooks := hk\<rparr>) = kind_tables s" "kind_tables (s\<lparr>kb_custom_kinds := ck\<rparr>) = kind_tables s"
  "kind_tables (s\<lparr>kb_nodes := nd\<rparr>) = kind_tables s" "kind_tables (s\<lparr>kb_initial_pod_phase := ph\<rparr>) = kind_tables s"
  "kind_tables (s\<lparr>kb_cluster_objects := co\<rparr>) = kind_tables s"
  by (simp_all add: fun_eq_iff kind_tables_def)

lemma kind_table_updates [simp]:
  "kind_table (s\<lparr>kb_heap := h\<rparr>) = kind_table s" "kind_table (s\<lparr>kb_fresh := n\<rparr>) = kind_table s"
  "kind_table (s\<lparr>kb_streams := q\<rparr>) = kind_table s" "kind_table (s\<lparr>kb_events := e\<rparr>) = kind_table s"
  "kind_table (s\<lparr>kb_create_hooks := hk\<rparr>) = kind_table s" "kind_table (s\<lparr>kb_custom_kinds := ck\<rparr>) = kind_table s"
  "kind_table (s\<lparr>kb_nodes := nd\<rparr>) = kind_table s" "kind_table (s\<lparr>kb_initial_pod_phase := ph\<rparr>) = kind_table s"
  "kind_table (s\<lparr>kb_cluster_objects := co\<rparr>) = kind_table s"
  by (simp_all add: fun_eq_iff kind_table_def)

lemma cluster_table_updates [simp]:
  "cluster_table (s\<lparr>kb_heap := h\<rparr>) = cluster_table s" "cluster_table (s\<lparr>kb_fresh := n\<rparr>) = cluster_table s"
  "cluster_table (s\<lparr>kb_streams := q\<rparr>) = cluster_table s" "cluster_table (s\<lparr>kb_events := e\<rparr>) = cluster_table s"
  "cluster_table (s\<lparr>kb_create_hooks := hk\<rparr>) = cluster_table s" "cluster_table (s\<lparr>kb_custom_kinds := ck\<rparr>) = cluster_table s"
  "cluster_table (s\<lparr>kb_nodes := nd\<rparr>) = cluster_table s" "cluster_table (s\<lparr>kb_initial_pod_phase := ph\<rparr>) = cluster_table s"
  "cluster_table (s\<lparr>kb_objects := ob\<rparr>) = cluster_table s" "cluster_table (set_table ns key t s) = cluster_table s"
  by (simp_all add: fun_eq_iff cluster_table_def set_table_def)

lemma kind_table_set [simp]:
  "kind_table (set_table ns key t s) ns' key' = (if ns' = ns \<and> key' = key then t else kind_table s ns' key')"
  by (simp add: kind_table_def kind_tables_def set_table_def map_of_update or_empty_def)

lemma cluster_table_set [simp]:
  "cluster_table (set_cluster_table key t s) key' = (if key' = key then t else cluster_table s key')"
  "kind_table (set_cluster_table key t s) = kind_table s"
  by (simp_all add: cluster_table_def set_cluster_table_def map_of_update or_empty_def)

lemma set_table_fields [simp]:
  "kb_heap (set_table ns key t s) = kb_heap s" "kb_fresh (set_table ns key t s) = kb_fresh s"
  "kb_streams (set_table ns key t s) = kb_streams s" "kb_create_hooks (set_table ns key t s) = kb_create_hooks s"
  "kb_heap (set_cluster_table key t s) = kb_heap s" "kb_fresh (set_cluster_table key t s) = kb_fresh s"
  "kb_streams (set_cluster_table key t s) = kb_streams s"
  by (simp_all add: set_table_def set_cluster_table_def)

lemma objects_of_cong: "kind_table s' = kind_table s \<Longrightarrow> cluster_table s' = cluster_table s \<Longrightarrow> objects_of s' st = objects_of s st"
  by (cases st) (auto simp: fun_eq_iff split: option.split)

lemma stored_objects: "\<not> stored s a \<Longrightarrow> plain st \<Longrightarrow> objects_of s st name = Some b \<Longrightarrow> b \<noteq> a"
  by (auto simp: stored_def)

text \<open>Everything but the heap at an address that is not stored, and the part of the state nothing here depends on.\<close>

lemma kept_unseen:
  assumes "\<And>st. kb_streams s' st = kb_streams s st"
    and "kind_table s' = kind_table s" "cluster_table s' = cluster_table s" "kb_fresh s \<le> kb_fresh s'"
    and "\<And>b. stored s b \<Longrightarrow> kb_heap s' b = kb_heap s b"
    and "\<And>b k. b < kb_fresh s \<Longrightarrow> kind_at s b k \<Longrightarrow> kind_at s' b k"
  shows "mock_kept D s s'"
  unfolding mock_kept_def
proof (intro impI conjI)
  assume inv: "kube_inv D s"
  have st: "stream_ok (kb_streams s' st) \<and> stream_events s' st = stream_events s st" for st
    using assms(1) kube_invD(1) [OF inv] by simp
  show "kube_inv D s'"
  proof (rule kube_inv_unseen [OF inv])
    show "stream_ok (kb_streams s' st) \<and> versions_ok (stream_events s' st) \<and> (plain st \<longrightarrow> stream_events s' st = stream_events s st)" for st
      using st [of st] kube_invD(2) [OF inv] by simp
    show "objects_of s' st = objects_of s st" for st by (rule objects_of_cong [OF assms(2,3)])
    show "distinct (map fst (kind_table s' ns key))" "distinct (map fst (cluster_table s' key))" for ns key
      using kube_invD(5,6) [OF inv] assms(2,3) by simp_all
    show "kb_fresh s \<le> kb_fresh s'" by fact
    show "the_view (stream_key st) (kb_heap s' a) = the_view (stream_key st) (kb_heap s a) \<and> (\<exists>m'. kb_heap s' a = Model m' \<and> meta_ok st name m')"
      if "plain st" "objects_of s st name = Some a" "kb_heap s a = Model m" "meta_ok st name m" for st name a m
    proof -
      have "stored s a" using that(1,2) by (auto simp: stored_def)
      then show ?thesis using assms(5) that by simp
    qed
  qed
  show "kb_fresh s \<le> kb_fresh s'" by fact
  show "\<forall>st. grows (kb_streams s st) (kb_streams s' st)" using assms(1) by simp
  show "\<forall>a k. a < kb_fresh s \<longrightarrow> kind_at s a k \<longrightarrow> kind_at s' a k" using assms(6) by blast
qed

lemma kept_heap:
  assumes "\<not> stored s a" "\<And>k. a < kb_fresh s \<Longrightarrow> kind_at s a k \<Longrightarrow> kind_at (s\<lparr>kb_heap := (kb_heap s)(a := ob)\<rparr>) a k"
  shows "mock_kept D s (s\<lparr>kb_heap := (kb_heap s)(a := ob)\<rparr>)"
proof (rule kept_unseen)
  show "kb_heap (s\<lparr>kb_heap := (kb_heap s)(a := ob)\<rparr>) b = kb_heap s b" if "stored s b" for b
    using that assms(1) by auto
  show "kind_at (s\<lparr>kb_heap := (kb_heap s)(a := ob)\<rparr>) b k" if "b < kb_fresh s" "kind_at s b k" for b k
    using that assms(2) by (cases "b = a") (auto simp: kind_at_def)
qed simp_all

lemma not_stored_fresh: "kube_inv D s \<Longrightarrow> kb_fresh s \<le> a \<Longrightarrow> \<not> stored s a"
  using placedD(1) unfolding stored_def by fastforce

lemma kept_alloc: "mock_kept D s (snd (kube_alloc ob s))"
proof (rule kept_inv)
  assume inv: "kube_inv D s"
  show ?thesis
    unfolding kube_alloc_def snd_conv
  proof (rule kept_unseen)
    show "kb_heap (s\<lparr>kb_heap := (kb_heap s)(kb_fresh s := ob), kb_fresh := Suc (kb_fresh s)\<rparr>) b = kb_heap s b" if "stored s b" for b
      using that not_stored_fresh [OF inv] by auto
  qed (simp_all add: kind_at_def)
qed


subsection \<open>Events of stored objects\<close>

text \<open>An object is stored or deleted, and its event put into the stream of its table.\<close>

lemma kube_view_commit:
  assumes home: "\<And>st' name'. plain st' \<Longrightarrow> objects_of s st' name' = Some a \<Longrightarrow> st' = st \<and> name' = name"
    and heap: "kb_heap s' = (kb_heap s)(a := Model m)"
    and entry: "objects_of s' st = (objects_of s st)(name := (if del then None else Some a))"
    and others: "\<And>st'. plain st' \<Longrightarrow> st' \<noteq> st \<Longrightarrow> objects_of s' st' = objects_of s st'"
    and "plain st'"
  shows "kube_view s' st' = (if st' = st then (kube_view s st)(name := (if del then None else Some (model_view (stream_key st) m)))
    else kube_view s st')"
proof (rule ext)
  fix n
  have b: "objects_of s st' n = Some b \<Longrightarrow> b = a \<Longrightarrow> st' = st \<and> n = name" for b using home \<open>plain st'\<close> by blast
  show "kube_view s' st' n = (if st' = st then (kube_view s st)(name := (if del then None else Some (model_view (stream_key st) m)))
    else kube_view s st') n"
  proof (cases "st' = st")
    case True
    have "kube_view s' st n = kube_view s st n" if "n \<noteq> name"
    proof -
      have "objects_of s' st n = objects_of s st n" using that entry by simp
      moreover have "objects_of s st n = Some a' \<Longrightarrow> a' \<noteq> a" for a' using b [of a'] that True by blast
      ultimately show ?thesis by (cases "objects_of s st n") (simp_all add: kube_view_def heap)
    qed
    moreover have "kube_view s' st name = (if del then None else Some (model_view (stream_key st) m))"
      by (simp add: kube_view_def entry heap the_view_def)
    ultimately show ?thesis using True by simp
  next
    case False
    have "objects_of s st' n = Some a' \<Longrightarrow> a' \<noteq> a" for a' using b [of a'] False by blast
    then show ?thesis using others [OF \<open>plain st'\<close> False] False
      by (cases "objects_of s st' n") (simp_all add: kube_view_def heap)
  qed
qed

lemma kube_inv_commit:
  assumes inv: "kube_inv D s" and st: "plain st" "meta_ok st name m" "a < kb_fresh s"
    and home: "\<And>st' name'. plain st' \<Longrightarrow> objects_of s st' name' = Some a \<Longrightarrow> st' = st \<and> name' = name"
    and act: "del \<longleftrightarrow> act = ''DELETED''"
    and version: "\<not> del \<Longrightarrow> km_resource_version (ko_metadata m) = Some (int_str (int (length (stream_events s st)) + 1))"
    and streams: "kb_streams s' = (kb_streams s)(st := snd (mq_put (act, Snapshot m) (kb_streams s st)))"
    and heap: "kb_heap s' = (kb_heap s)(a := Model m)" and fresh: "kb_fresh s' = kb_fresh s"
    and entry: "objects_of s' st = (objects_of s st)(name := (if del then None else Some a))"
    and others: "\<And>st'. plain st' \<Longrightarrow> st' \<noteq> st \<Longrightarrow> objects_of s' st' = objects_of s st'"
    and tables: "\<And>ns key. distinct (map fst (kind_table s' ns key))" "\<And>key. distinct (map fst (cluster_table s' key))"
  shows "kube_inv D s'"
proof -
  have put: "stream_ok (snd (mq_put (act, Snapshot m) (kb_streams s st)))"
      "stream_items (snd (mq_put (act, Snapshot m) (kb_streams s st))) = stream_events s st @ [(act, Snapshot m)]"
    using stream_put [OF kube_invD(1) [OF inv]] by simp_all
  have events: "stream_events s' st' = (if st' = st then stream_events s st @ [(act, Snapshot m)] else stream_events s st')" for st'
    using put(2) by (simp add: streams)
  have ok: "stream_ok (kb_streams s' st')" for st' using put(1) kube_invD(1) [OF inv] by (simp add: streams)
  have versions: "versions_ok (stream_events s' st')" for st'
    unfolding events using kube_invD(2) [OF inv] version act by (auto intro: versions_snoc)
  have "placed s'"
    unfolding placed_def
  proof (intro allI impI)
    fix st' n b
    assume p: "plain st'" "objects_of s' st' n = Some b"
    show "b < kb_fresh s' \<and> (\<exists>m. kb_heap s' b = Model m \<and> meta_ok st' n m)"
    proof (cases "st' = st \<and> n = name")
      case True
      then show ?thesis using p st entry by (auto simp: heap fresh split: if_splits)
    next
      case False
      then have o: "objects_of s st' n = Some b" using p others entry by (cases "st' = st") auto
      then have "b \<noteq> a" using home p(1) False by blast
      then show ?thesis using placedD [OF inv p(1) o] by (simp add: heap fresh)
    qed
  qed
  moreover have "coherent D s'"
    unfolding coherent_def
  proof (intro allI impI conjI)
    fix st'
    assume p: "plain st'"
    let ?new = "if del then None else Some (model_view (stream_key st) m)"
    have view: "kube_view s' st' = (if st' = st then (kube_view s st)(name := ?new) else kube_view s st')"
      by (rule kube_view_commit [OF home heap entry others p])
    have r: "replayed st (stream_events s' st) = (replayed st (stream_events s st))(name := ?new)"
      using st(2) act by (simp add: events replayed_snoc meta_ok_def)
    have seen: "replayed st' (stream_events s' st') =
        (if st' = st then (replayed st (stream_events s st))(name := ?new) else replayed st' (stream_events s st'))"
      using r by (simp add: events)
    have "list_all is_snapshot (stream_events s st')" using kube_invD(4) [OF inv] p by (simp add: coherent_def)
    then show "list_all is_snapshot (stream_events s' st')" by (auto simp: events)
    have c: "kube_view s st' n = Some x \<Longrightarrow> replayed st' (stream_events s st') n = Some x"
        "\<not> lossy D st' \<Longrightarrow> replayed st' (stream_events s st') = kube_view s st'" for n x
      using kube_invD(4) [OF inv] p by (auto simp: coherent_def)
    show "replayed st' (stream_events s' st') n = Some x" if "kube_view s' st' n = Some x" for n x
      using that c(1) [of n x] unfolding view seen by (auto split: if_splits)
    show "replayed st' (stream_events s' st') = kube_view s' st'" if "\<not> lossy D st'"
      using c(2) [OF that] unfolding view seen by auto
  qed
  ultimately show ?thesis using ok versions tables by (simp add: kube_inv_def)
qed

lemma kept_commit:
  assumes "kube_inv D s \<Longrightarrow> kube_inv D s'" "kb_streams s' = (kb_streams s)(st := snd (mq_put ev (kb_streams s st)))"
    "kb_fresh s' = kb_fresh s" "\<And>a k. a < kb_fresh s \<Longrightarrow> kind_at s a k \<Longrightarrow> kind_at s' a k"
  shows "mock_kept D s s'"
proof (rule kept_inv)
  assume inv: "kube_inv D s"
  have "grows (kb_streams s st') (kb_streams s' st')" for st'
    using grows_put [OF kube_invD(1) [OF inv]] by (simp add: assms(2))
  then show ?thesis using assms by (simp add: mock_kept_def)
qed

text \<open>An event of another stream, such as one of custom objects.\<close>

lemma kube_inv_foreign:
  assumes inv: "kube_inv D s" and st: "\<not> plain st" "\<not> stored s a"
    and version: "\<And>act m. ev = (act, Snapshot m) \<Longrightarrow> act \<noteq> ''DELETED'' \<Longrightarrow>
      km_resource_version (ko_metadata m) = Some (int_str (int (length (stream_events s st)) + 1))"
    and streams: "kb_streams s' = (kb_streams s)(st := snd (mq_put ev (kb_streams s st)))"
    and heap: "kb_heap s' = (kb_heap s)(a := ob)" and fresh: "kb_fresh s' = kb_fresh s"
    and others: "\<And>st'. plain st' \<Longrightarrow> objects_of s' st' = objects_of s st'"
    and tables: "\<And>ns key. distinct (map fst (kind_table s' ns key))" "\<And>key. distinct (map fst (cluster_table s' key))"
  shows "kube_inv D s'"
proof (rule kube_inv_unseen [OF inv])
  have put: "stream_ok (snd (mq_put ev (kb_streams s st)))" "stream_items (snd (mq_put ev (kb_streams s st))) = stream_events s st @ [ev]"
    using stream_put [OF kube_invD(1) [OF inv]] by simp_all
  have "versions_ok (stream_events s st @ [ev])"
    using kube_invD(2) [OF inv] version by (auto intro: versions_snoc)
  then show "stream_ok (kb_streams s' st') \<and> versions_ok (stream_events s' st') \<and> (plain st' \<longrightarrow> stream_events s' st' = stream_events s st')" for st'
    using put kube_invD(1,2) [OF inv] st(1) by (auto simp: streams)
  show "the_view (stream_key st') (kb_heap s' b) = the_view (stream_key st') (kb_heap s b) \<and> (\<exists>m'. kb_heap s' b = Model m' \<and> meta_ok st' name m')"
    if "plain st'" "objects_of s st' name = Some b" "kb_heap s b = Model m" "meta_ok st' name m" for st' name b m
    using stored_objects [OF st(2) that(1,2)] that by (simp add: heap)
qed (use assms in simp_all)

end
