(* ===== verification/KubeOps.thy ===== *)
theory KubeOps
  imports KubeKept
begin

text \<open>Storing and deleting keep the invariant, and so does every method of the Kubernetes mock.\<close>

subsection \<open>The tables of a stream\<close>

lemma objects_set_table:
  assumes "map_of t = (map_of (kind_table s ns key))(name := e)" "key = ''Namespace'' \<longrightarrow> name = Some ns"
    "plain st \<or> st = object_stream ns key"
  shows "objects_of (set_table ns key t s) st = (if st = object_stream ns key then (objects_of s st)(name := e) else objects_of s st)"
  using assms by (cases st) (auto simp: object_stream_def fun_eq_iff split: option.split)

lemma kind_table_ensure [simp]: "kind_table (set_table ns key (kind_table s ns key) s) = kind_table s"
  by (auto simp: fun_eq_iff)

lemma kept_ensure: "mock_kept D s (set_table ns key (kind_table s ns key) s)"
  by (rule kept_unseen) (simp_all add: kind_at_def)

lemma kept_ensure_cluster: "mock_kept D s (set_cluster_table key (cluster_table s key) s)"
  by (rule kept_unseen) (auto simp: kind_at_def fun_eq_iff)

subsection \<open>Storing\<close>

definition stamped :: "string \<Rightarrow> kube_object \<Rightarrow> kube_object option" where
  "stamped v ob = (case ob of
     Model m \<Rightarrow> Some (Model (m\<lparr>ko_metadata := (ko_metadata m)\<lparr>km_resource_version := Some v\<rparr>\<rparr>))
   | Custom d \<Rightarrow> (case map_of d ''metadata'' of
       Some (JObj ms) \<Rightarrow> Some (Custom (AList.update ''metadata'' (JObj (AList.update ''resourceVersion'' (JStr v) ms)) d))
     | _ \<Rightarrow> None))"

lemma stamp_stamped:
  "\<exists>e. stamp v a s = (case stamped v (kb_heap s a) of None \<Rightarrow> (Inl e, s) | Some ob \<Rightarrow> (Inr (), s\<lparr>kb_heap := (kb_heap s)(a := ob)\<rparr>))"
  by (auto simp: stamp_def stamped_def get_heap_def put_heap_def eff_simps split: kube_object.split option.split json.split)

text \<open>The end of storing: the version, the table and the event.\<close>

definition store_end :: "kube_stream \<Rightarrow> (kube \<Rightarrow> kube) \<Rightarrow> nat \<Rightarrow> string \<Rightarrow> unit kube_eff" where
  "store_end st set_entry a act =
     bind_eff (read_eff (\<lambda>s. next_resource_version (kb_streams s st))) (\<lambda>version.
     bind_eff (stamp version a) (\<lambda>_.
     bind_eff (modify_eff set_entry) (\<lambda>_. add_event st act a)))"

definition put_state :: "kube_stream \<Rightarrow> kube_event \<Rightarrow> kube \<Rightarrow> kube" where
  "put_state st ev s = s\<lparr>kb_streams := (kb_streams s)(st := snd (mq_put ev (kb_streams s st)))\<rparr>"

lemma put_state_fields [simp]:
  "kb_heap (put_state st ev s) = kb_heap s" "kb_fresh (put_state st ev s) = kb_fresh s"
  "kind_table (put_state st ev s) = kind_table s" "cluster_table (put_state st ev s) = cluster_table s"
  "kb_streams (put_state st ev s) = (kb_streams s)(st := snd (mq_put ev (kb_streams s st)))"
  by (simp_all add: put_state_def)

lemma objects_of_put_state [simp]: "objects_of (put_state st ev s) = objects_of s"
  by (rule ext, rule objects_of_cong) simp_all

lemma put_event_ok: "stream_ok (kb_streams s st) \<Longrightarrow> put_event st ev s = (Inr (), put_state st ev s)"
proof -
  assume "stream_ok (kb_streams s st)"
  from conjunct1 [OF stream_put [OF this]] have e: "mq_put ev (kb_streams s st) = (Inr (), snd (mq_put ev (kb_streams s st)))" .
  obtain r q where p: "mq_put ev (kb_streams s st) = (r, q)" by (cases "mq_put ev (kb_streams s st)")
  have "r = Inr ()" using e unfolding p by simp
  then show ?thesis using p by (simp add: put_event_def put_state_def)
qed

lemma store_end_outcome:
  assumes "stream_ok (kb_streams s st)" "kb_streams (set_entry (s\<lparr>kb_heap := h\<rparr>)) = kb_streams s" "kb_heap (set_entry (s\<lparr>kb_heap := h\<rparr>)) = h"
    "stamped (next_resource_version (kb_streams s st)) (kb_heap s a) = Some ob" "h = (kb_heap s)(a := ob)"
  shows "store_end st set_entry a act s = (Inr (), put_state st (act, event_object a ob) (set_entry (s\<lparr>kb_heap := h\<rparr>)))"
proof -
  obtain e where "stamp (next_resource_version (kb_streams s st)) a s = (Inr (), s\<lparr>kb_heap := h\<rparr>)"
    using stamp_stamped [of "next_resource_version (kb_streams s st)" a s] assms(4,5) by auto
  moreover have "put_event st ev (set_entry (s\<lparr>kb_heap := h\<rparr>)) = (Inr (), put_state st ev (set_entry (s\<lparr>kb_heap := h\<rparr>)))" for ev
    by (rule put_event_ok) (use assms(1,2) in simp)
  ultimately show ?thesis
    using assms(3,5) by (simp add: store_end_def add_event_def get_heap_def eff_simps)
qed

lemma store_end_failed:
  assumes "stamped (next_resource_version (kb_streams s st)) (kb_heap s a) = None"
  shows "snd (store_end st set_entry a act s) = s"
  using stamp_stamped [of "next_resource_version (kb_streams s st)" a s] assms by (auto simp: store_end_def eff_simps)

text \<open>An object may be stored in a table when its metadata has the kind, namespace and name of its place.\<close>

definition storable :: "kube \<Rightarrow> kube_stream \<Rightarrow> string option \<Rightarrow> nat \<Rightarrow> bool" where
  "storable s st name a \<longleftrightarrow> a < kb_fresh s \<and>
     (if plain st then (\<exists>m. kb_heap s a = Model m \<and> meta_ok st name m) \<and>
        (\<forall>st' name'. plain st' \<longrightarrow> objects_of s st' name' = Some a \<longrightarrow> st' = st \<and> name' = name)
      else \<not> stored s a)"

lemma kept_store_end:
  assumes act: "act \<noteq> ''DELETED''" and ok: "storable s st name a"
    and fields: "\<And>h. kb_streams (set_entry (s\<lparr>kb_heap := h\<rparr>)) = kb_streams s" "\<And>h. kb_heap (set_entry (s\<lparr>kb_heap := h\<rparr>)) = h"
      "\<And>h. kb_fresh (set_entry (s\<lparr>kb_heap := h\<rparr>)) = kb_fresh s"
    and entry: "\<And>h st'. plain st' \<Longrightarrow> objects_of (set_entry (s\<lparr>kb_heap := h\<rparr>)) st' =
      (if st' = st then (objects_of s st)(name \<mapsto> a) else objects_of s st')"
    and tables: "\<And>h ns key. kube_inv D s \<Longrightarrow> distinct (map fst (kind_table (set_entry (s\<lparr>kb_heap := h\<rparr>)) ns key))"
      "\<And>h key. kube_inv D s \<Longrightarrow> distinct (map fst (cluster_table (set_entry (s\<lparr>kb_heap := h\<rparr>)) key))"
  shows "mock_kept D s (snd (store_end st set_entry a act s))"
proof (rule kept_inv)
  assume inv: "kube_inv D s"
  note strm = kube_invD(1) [OF inv]
  show ?thesis
  proof (cases "stamped (next_resource_version (kb_streams s st)) (kb_heap s a)")
    case None
    then show ?thesis by (simp add: store_end_failed)
  next
    case (Some ob)
    let ?h = "(kb_heap s)(a := ob)"
    let ?t = "set_entry (s\<lparr>kb_heap := ?h\<rparr>)"
    let ?s = "put_state st (act, event_object a ob) ?t"
    have out: "snd (store_end st set_entry a act s) = ?s"
      using store_end_outcome [where set_entry = set_entry and h = ?h, OF strm fields(1,2) Some refl] by simp
    have s: "kb_streams ?s = (kb_streams s)(st := snd (mq_put (act, event_object a ob) (kb_streams s st)))"
        "kb_heap ?s = ?h" "kb_fresh ?s = kb_fresh s" "objects_of ?s st' = objects_of ?t st'"
        "kind_table ?s = kind_table ?t" "cluster_table ?s = cluster_table ?t" for st'
      by (simp_all add: fields)
    have kind: "kind_at ?s b k" if "kind_at s b k" for b k
    proof (cases "b = a")
      case True
      then obtain m where m: "kb_heap s a = Model m" "ko_kind m = Some k" "k \<noteq> []" using \<open>kind_at s b k\<close> by (auto simp: kind_at_def)
      have "ob = Model (m\<lparr>ko_metadata := (ko_metadata m)\<lparr>km_resource_version := Some (next_resource_version (kb_streams s st))\<rparr>\<rparr>)"
        using Some unfolding m(1) stamped_def by simp
      then show ?thesis using m True by (simp add: kind_at_def fields(2))
    next
      case False
      then show ?thesis using \<open>kind_at s b k\<close> by (simp add: kind_at_def fields(2))
    qed
    have "kube_inv D ?s"
    proof (cases "plain st")
      case True
      have "\<exists>m. kb_heap s a = Model m \<and> meta_ok st name m" and a: "a < kb_fresh s"
        and home: "\<And>st' name'. plain st' \<Longrightarrow> objects_of s st' name' = Some a \<Longrightarrow> st' = st \<and> name' = name"
        using ok True unfolding storable_def by (simp_all only: if_True)
      then obtain m where m: "kb_heap s a = Model m" "meta_ok st name m" by blast
      let ?m = "m\<lparr>ko_metadata := (ko_metadata m)\<lparr>km_resource_version := Some (next_resource_version (kb_streams s st))\<rparr>\<rparr>"
      have ob: "ob = Model ?m" using Some m(1) by (simp add: stamped_def)
      show ?thesis
      proof (rule kube_inv_commit [where del = False and st = st and name = name and a = a and m = ?m and act = act, OF inv True _ a])
        show "meta_ok st name ?m" using m(2) by (simp add: meta_ok_def)
        show "st' = st \<and> name' = name" if "plain st'" "objects_of s st' name' = Some a" for st' name' using home that .
        show "km_resource_version (ko_metadata ?m) = Some (int_str (int (length (stream_events s st)) + 1))"
          by (simp add: stream_version strm)
        show "kb_streams ?s = (kb_streams s)(st := snd (mq_put (act, Snapshot ?m) (kb_streams s st)))"
          by (simp add: fields(1) ob event_object_def)
        show "kb_heap ?s = (kb_heap s)(a := Model ?m)" using s(2) ob by simp
        show "objects_of ?s st = (objects_of s st)(name := if False then None else Some a)"
          using entry [OF True, of ?h] by (simp only: s(4)) simp
        show "objects_of ?s st' = objects_of s st'" if "plain st'" "st' \<noteq> st" for st'
          using entry [OF that(1), of ?h] that(2) by (simp only: s(4)) simp
      qed (simp_all add: fields tables inv act)
    next
      case False
      show ?thesis
      proof (rule kube_inv_foreign [where a = a, OF inv False])
        show "\<not> stored s a" using ok False by (simp add: storable_def)
        show "km_resource_version (ko_metadata m) = Some (int_str (int (length (stream_events s st)) + 1))"
          if "(act, event_object a ob) = (act', Snapshot m)" for act' m
          using that Some strm
          by (auto simp: event_object_def stamped_def stream_version split: kube_object.splits option.splits json.splits)
        show "objects_of ?s st' = objects_of s st'" if "plain st'" for st'
          using entry [OF that, of ?h] that False by (simp only: s(4)) auto
      qed (simp_all add: fields tables inv)
    qed
    then show ?thesis unfolding out using kind s by (intro kept_commit [where st = st and ev = "(act, event_object a ob)"]) auto
  qed
qed


subsection \<open>What is around the mock\<close>

text \<open>
  The error callback raises or does nothing, and lets namespaces be read; a hook may do to the mock what keeps the
  invariant, as every method does.
\<close>

definition env_ok :: "string set \<Rightarrow> kube_env \<Rightarrow> bool" where
  "env_ok D env \<longleftrightarrow> (\<forall>callback. ke_error_callback env = Some callback \<longrightarrow>
       (\<forall>mname args s. snd (callback mname args s) = s) \<and>
       (\<forall>args s c e. fst (callback ''read_namespace'' args s) \<noteq> Inl (ApiException c e))) \<and>
     (\<forall>h a s. mock_kept D s (snd (ke_hook env h a s)))"

lemma maybe_error_same: "env_ok D env \<Longrightarrow> snd (maybe_error env mname args s) = s"
  by (auto simp: env_ok_def maybe_error_def eff_simps split: option.split)

lemma kept_hook: "env_ok D env \<Longrightarrow> mock_kept D s (snd (run_hook env kind a s))"
  by (auto simp: env_ok_def run_hook_def split: option.split)

lemma kept_maybe:
  assumes "env_ok D env" "\<And>x. maybe_error env mname args s = (Inr x, s) \<Longrightarrow> mock_kept D s (snd (k x s))"
  shows "mock_kept D s (snd (bind_eff (maybe_error env mname args) k s))"
  by (rule kept_bind_same) (use assms maybe_error_same in auto)

subsection \<open>Storing an object\<close>

definition store_check :: "string \<Rightarrow> string \<Rightarrow> string option \<Rightarrow> bool \<Rightarrow> unit kube_eff" where
  "store_check ns key name replace =
     (if replace then bind_eff (get_object ns key name) (\<lambda>_. ret_eff ())
      else bind_eff (modify_eff (\<lambda>s. set_table ns key (kind_table s ns key) s)) (\<lambda>_.
         (\<lambda>s. if name \<in> fst ` set (kind_table s ns key)
            then (Inl (ApiException 409 (ns @ ''/'' @ none_str name @ '' exists'')), s) else (Inr (), s))))"

definition set_object :: "string \<Rightarrow> string \<Rightarrow> string option \<Rightarrow> nat \<Rightarrow> kube \<Rightarrow> kube" where
  "set_object ns key name a s = set_table ns key (AList.update name a (kind_table s ns key)) s"

lemma store_object_split:
  "store_object env ns key name a replace = bind_eff (store_check ns key name replace) (\<lambda>_.
     bind_eff (store_end (object_stream ns key) (set_object ns key name a) a (if replace then ''MODIFIED'' else ''ADDED'')) (\<lambda>_.
     bind_eff (read_eff (\<lambda>s. hook_kind s key)) (\<lambda>kind. run_hook env kind a)))"
  unfolding store_object_def store_check_def store_end_def set_object_def Let_def by (simp only: bind_eff_assoc)

lemma store_check_state:
  "snd (store_check ns key name replace s) = s \<or> snd (store_check ns key name replace s) = set_table ns key (kind_table s ns key) s"
  by (auto simp: store_check_def get_object_def eff_simps split: option.split)

lemma storable_ensure: "storable s st name a \<Longrightarrow> storable (set_table ns key (kind_table s ns key) s) st name a"
proof -
  have o: "objects_of (set_table ns key (kind_table s ns key) s) st' = objects_of s st'" for st'
    by (rule objects_of_cong) simp_all
  then have "stored (set_table ns key (kind_table s ns key) s) a = stored s a" by (simp add: stored_def)
  then show "storable s st name a \<Longrightarrow> storable (set_table ns key (kind_table s ns key) s) st name a"
    by (simp add: storable_def o)
qed

lemma kept_store_check: "mock_kept D s (snd (store_check ns key name replace s))"
  using store_check_state [of ns key name replace s] by (elim disjE) (simp_all only: kept_refl kept_ensure)

lemma storable_check: "storable s st name a \<Longrightarrow> storable (snd (store_check ns key name replace s)) st name a"
  using store_check_state [of ns key name replace s] by (elim disjE) (simp_all only: storable_ensure)

lemma kept_store_object_end:
  assumes "storable s (object_stream ns key) name a" "key = ''Namespace'' \<longrightarrow> name = Some ns" "act \<noteq> ''DELETED''"
  shows "mock_kept D s (snd (store_end (object_stream ns key) (set_object ns key name a) a act s))"
proof (rule kept_store_end [OF assms(3,1)])
  fix h :: "nat \<Rightarrow> kube_object" and st'
  let ?s = "s\<lparr>kb_heap := h\<rparr>"
  show "kb_streams (set_object ns key name a ?s) = kb_streams s" "kb_heap (set_object ns key name a ?s) = h"
      "kb_fresh (set_object ns key name a ?s) = kb_fresh s"
    by (simp_all add: set_object_def)
  have o: "objects_of ?s st = objects_of s st" for st by (rule objects_of_cong) simp_all
  show "objects_of (set_object ns key name a ?s) st' =
      (if st' = object_stream ns key then (objects_of s (object_stream ns key))(name \<mapsto> a) else objects_of s st')" if "plain st'"
    unfolding set_object_def
    by (subst objects_set_table [where e = "Some a" and name = name]) (use assms(2) that in \<open>simp_all add: map_of_update o\<close>)
  show "distinct (map fst (kind_table (set_object ns key name a ?s) ns' key'))" if "kube_inv D s" for ns' key'
    using kube_invD(5) [OF that] by (auto simp: set_object_def intro: distinct_update)
  show "distinct (map fst (cluster_table (set_object ns key name a ?s) key'))" if "kube_inv D s" for key'
    using kube_invD(6) [OF that] by (simp add: set_object_def)
qed

lemma kept_store_object:
  assumes "env_ok D env" "storable s (object_stream ns key) name a" "key = ''Namespace'' \<longrightarrow> name = Some ns"
  shows "mock_kept D s (snd (store_object env ns key name a replace s))"
  unfolding store_object_split
proof (rule kept_bind)
  let ?s = "snd (store_check ns key name replace s)"
  let ?act = "if replace then ''MODIFIED'' else ''ADDED''"
  show "mock_kept D s ?s" by (rule kept_store_check)
  have "storable ?s (object_stream ns key) name a" by (rule storable_check [OF assms(2)])
  then show "mock_kept D ?s (snd (bind_eff (store_end (object_stream ns key) (set_object ns key name a) a ?act) (\<lambda>_.
      bind_eff (read_eff (\<lambda>s. hook_kind s key)) (\<lambda>kind. run_hook env kind a)) ?s))"
    by (intro kept_bind [OF kept_store_object_end] kept_bind_same kept_hook [OF assms(1)])
      (use assms(3) in \<open>simp_all add: read_eff_apply\<close>)
qed

subsection \<open>Objects of the cluster\<close>

definition store_cluster_check :: "string \<Rightarrow> string option \<Rightarrow> bool \<Rightarrow> unit kube_eff" where
  "store_cluster_check key name replace =
     (if replace then bind_eff (get_cluster_object key name) (\<lambda>_. ret_eff ())
      else bind_eff (modify_eff (\<lambda>s. set_cluster_table key (cluster_table s key) s)) (\<lambda>_.
         (\<lambda>s. if name \<in> fst ` set (cluster_table s key)
            then (Inl (ApiException 409 (none_str name @ '' exists'')), s) else (Inr (), s))))"

lemma store_cluster_split:
  "store_cluster_object key name a replace = bind_eff (store_cluster_check key name replace) (\<lambda>_.
     store_end (ClusterStream key) (\<lambda>s. set_cluster_table key (AList.update name a (cluster_table s key)) s) a
       (if replace then ''MODIFIED'' else ''ADDED''))"
  unfolding store_cluster_object_def store_cluster_check_def store_end_def Let_def ..

lemma cluster_ensure [simp]: "cluster_table (set_cluster_table key (cluster_table s key) s) = cluster_table s"
  by (auto simp: fun_eq_iff)

lemma objects_set_cluster:
  "objects_of (set_cluster_table key t s) st = (if st = ClusterStream key then map_of t else objects_of s st)"
  by (cases st) (auto simp: fun_eq_iff split: option.split)

lemma kept_store_cluster:
  assumes "storable s (ClusterStream key) name a"
  shows "mock_kept D s (snd (store_cluster_object key name a replace s))"
  unfolding store_cluster_split
proof (rule kept_bind)
  let ?t = "snd (store_cluster_check key name replace s)"
  have t: "?t = s \<or> ?t = set_cluster_table key (cluster_table s key) s"
    by (auto simp: store_cluster_check_def get_cluster_object_def eff_simps split: option.split)
  then show "mock_kept D s ?t" by (elim disjE) (simp_all only: kept_refl kept_ensure_cluster)
  have o: "objects_of ?t st = objects_of s st" for st
    using t by (elim disjE) (simp_all, rule objects_of_cong, simp_all)
  have ht: "kb_heap ?t = kb_heap s" "kb_fresh ?t = kb_fresh s" using t by auto
  have "storable ?t (ClusterStream key) name a"
    using assms unfolding storable_def stored_def o ht .
  then show "mock_kept D ?t (snd (store_end (ClusterStream key) (\<lambda>s. set_cluster_table key (AList.update name a (cluster_table s key)) s) a
      (if replace then ''MODIFIED'' else ''ADDED'') ?t))"
  proof (rule kept_store_end [rotated])
    fix h :: "nat \<Rightarrow> kube_object" and st'
    let ?s = "?t\<lparr>kb_heap := h\<rparr>"
    have "objects_of ?s st = objects_of ?t st" for st by (rule objects_of_cong) simp_all
    then show "objects_of (set_cluster_table key (AList.update name a (cluster_table ?s key)) ?s) st' =
        (if st' = ClusterStream key then (objects_of ?t (ClusterStream key))(name \<mapsto> a) else objects_of ?t st')"
      by (auto simp: objects_set_cluster map_of_update fun_eq_iff)
    show "distinct (map fst (cluster_table (set_cluster_table key (AList.update name a (cluster_table ?s key)) ?s) key'))"
      if "kube_inv D ?t" for key'
      using kube_invD(6) [OF that] by (auto intro: distinct_update)
    show "distinct (map fst (kind_table (set_cluster_table key (AList.update name a (cluster_table ?s key)) ?s) ns key'))"
      if "kube_inv D ?t" for ns key'
      using kube_invD(5) [OF that] by simp
  qed simp_all
qed


subsection \<open>Deleting\<close>

text \<open>The entry is removed and its object reported.\<close>

lemma kept_delete_entry:
  assumes found: "objects_of s st name = Some a"
    and fields: "kb_streams t = kb_streams s" "kb_heap t = kb_heap s" "kb_fresh t = kb_fresh s"
    and entry: "objects_of t st = (objects_of s st)(name := None)"
    and others: "\<And>st'. plain st' \<Longrightarrow> st' \<noteq> st \<Longrightarrow> objects_of t st' = objects_of s st'"
    and tables: "\<And>ns key. kube_inv D s \<Longrightarrow> distinct (map fst (kind_table t ns key))"
      "\<And>key. kube_inv D s \<Longrightarrow> distinct (map fst (cluster_table t key))"
  shows "mock_kept D s (snd (add_event st ''DELETED'' a t))"
proof (rule kept_inv)
  assume inv: "kube_inv D s"
  let ?ev = "(''DELETED'', event_object a (kb_heap s a))"
  have out: "snd (add_event st ''DELETED'' a t) = put_state st ?ev t"
    using put_event_ok [of t st ?ev] kube_invD(1) [OF inv] by (simp add: add_event_def get_heap_def eff_simps fields)
  have "kube_inv D (put_state st ?ev t)"
  proof (cases "plain st")
    case True
    obtain m where m: "kb_heap s a = Model m" "meta_ok st name m" using placedD(2) [OF inv True found] by blast
    show ?thesis
    proof (rule kube_inv_commit [where del = True and st = st and name = name and a = a and m = m and act = "''DELETED''", OF inv True m(2)])
      show "a < kb_fresh s" by (rule placedD(1) [OF inv True found])
      show "st' = st \<and> name' = name" if "plain st'" "objects_of s st' name' = Some a" for st' name'
      proof -
        from placedD(2) [OF inv that] obtain m' where "kb_heap s a = Model m'" "meta_ok st' name' m'" by blast
        then show ?thesis using m meta_ok_home [OF _ _ that(1) True] by simp
      qed
      show "kb_streams (put_state st ?ev t) = (kb_streams s)(st := snd (mq_put (''DELETED'', Snapshot m) (kb_streams s st)))"
        by (simp add: fields m event_object_def)
      show "kb_heap (put_state st ?ev t) = (kb_heap s)(a := Model m)"
        unfolding put_state_fields fields using m(1) by (simp add: fun_upd_idem)
    qed (use entry others tables [OF inv] in \<open>simp_all add: fields\<close>)
  next
    case False
    show ?thesis
    proof (rule kube_inv_foreign [where a = "kb_fresh s" and ob = "kb_heap s (kb_fresh s)" and st = st and ev = ?ev, OF inv False])
      show "\<not> stored s (kb_fresh s)" using not_stored_fresh [OF inv] by simp
      show "objects_of (put_state st ?ev t) st' = objects_of s st'" if "plain st'" for st'
        using others [OF that] that False by auto
    qed (use tables [OF inv] in \<open>simp_all add: fields\<close>)
  qed
  then show ?thesis unfolding out
    by (intro kept_commit [where st = st and ev = ?ev]) (simp_all add: fields kind_at_def)
qed

lemma kept_delete_object:
  assumes "key \<noteq> ''Namespace''"
  shows "mock_kept D s (snd (delete_object ns key name policy s))"
proof (cases "policy \<in> {''Foreground'', ''Background'', ''Orphan''}")
  case False
  then show ?thesis by (simp add: delete_object_def policy_ok_def eff_simps)
next
  case policy: True
  show ?thesis
  proof (cases "map_of (kind_table s ns key) name")
    case None
    then show ?thesis using policy by (auto simp: delete_object_def policy_ok_def get_object_def eff_simps)
  next
    case (Some a)
    let ?st = "NamespacedStream ns key"
    let ?t = "set_table ns key (AList.delete name (kind_table s ns key)) s"
    have "snd (delete_object ns key name policy s) = snd (add_event ?st ''DELETED'' a ?t)"
      using policy Some by (simp add: delete_object_def policy_ok_def get_object_def eff_simps split: prod.split sum.split)
    moreover have "mock_kept D s (snd (add_event ?st ''DELETED'' a ?t))"
    proof (rule kept_delete_entry [where name = name])
      have st: "object_stream ns key = ?st" using assms by (simp add: object_stream_def)
      have o: "objects_of ?t st' = (if st' = ?st then (objects_of s st')(name := None) else objects_of s st')"
        if "plain st' \<or> st' = ?st" for st'
        using objects_set_table [of "AList.delete name (kind_table s ns key)" s ns key name None st'] assms that st
        by (simp add: map_of_delete_eq)
      show "objects_of ?t ?st = (objects_of s ?st)(name := None)" using o [of ?st] by simp
      show "objects_of ?t st' = objects_of s st'" if "plain st'" "st' \<noteq> ?st" for st' using o [of st'] that by simp
      show "distinct (map fst (kind_table ?t ns' key'))" if "kube_inv D s" for ns' key'
        using kube_invD(5) [OF that] by (auto intro: distinct_delete)
      show "distinct (map fst (cluster_table ?t key'))" if "kube_inv D s" for key'
        using kube_invD(6) [OF that] by simp
    qed (simp_all add: Some)
    ultimately show ?thesis by simp
  qed
qed

lemma kept_delete_cluster: "mock_kept D s (snd (delete_cluster_object key name policy s))"
proof (cases "policy \<in> {''Foreground'', ''Background'', ''Orphan''}")
  case False
  then show ?thesis by (simp add: delete_cluster_object_def policy_ok_def eff_simps)
next
  case policy: True
  show ?thesis
  proof (cases "map_of (cluster_table s key) name")
    case None
    then show ?thesis using policy by (auto simp: delete_cluster_object_def policy_ok_def get_cluster_object_def eff_simps)
  next
    case (Some a)
    let ?st = "ClusterStream key"
    let ?t = "set_cluster_table key (AList.delete name (cluster_table s key)) s"
    have "snd (delete_cluster_object key name policy s) = snd (add_event ?st ''DELETED'' a ?t)"
      using policy Some
      by (simp add: delete_cluster_object_def policy_ok_def get_cluster_object_def eff_simps split: prod.split sum.split)
    moreover have "mock_kept D s (snd (add_event ?st ''DELETED'' a ?t))"
    proof (rule kept_delete_entry [where name = name])
      show "objects_of ?t ?st = (objects_of s ?st)(name := None)"
        by (auto simp: objects_set_cluster map_of_delete_eq fun_eq_iff)
      show "objects_of ?t st' = objects_of s st'" if "plain st'" "st' \<noteq> ?st" for st' using that(2) by (simp add: objects_set_cluster)
      show "distinct (map fst (kind_table ?t ns' key'))" if "kube_inv D s" for ns' key'
        using kube_invD(5) [OF that] by simp
      show "distinct (map fst (cluster_table ?t key'))" if "kube_inv D s" for key'
        using kube_invD(6) [OF that] by (auto intro: distinct_delete)
    qed (simp_all add: Some)
    ultimately show ?thesis by simp
  qed
qed

end
