(* ===== verification/KubeMethods.thy ===== *)
theory KubeMethods
  imports KubeOps
begin

text \<open>Every method of the Kubernetes mock keeps the invariant, when its client follows the rules of the mock.\<close>

subsection \<open>An object of the client\<close>

text \<open>What a method does to an object that is not stored yet.\<close>

definition owned :: "string set \<Rightarrow> nat \<Rightarrow> kube \<Rightarrow> kube \<Rightarrow> bool" where
  "owned D a s s' \<longleftrightarrow> mock_kept D s s' \<and> free s' a"

lemma owned_trans: "owned D a s t \<Longrightarrow> owned D a t u \<Longrightarrow> owned D a s u"
  using kept_trans by (auto simp: owned_def)

lemma stored_heap [simp]: "stored (s\<lparr>kb_heap := h\<rparr>) a = stored s a"
proof -
  have "objects_of (s\<lparr>kb_heap := h\<rparr>) st = objects_of s st" for st by (rule objects_of_cong) simp_all
  then show ?thesis by (simp add: stored_def)
qed

lemma owned_heap:
  assumes "free s a" "\<And>k. kind_at s a k \<Longrightarrow> \<exists>m. ob = Model m \<and> ko_kind m = Some k"
  shows "owned D a s (s\<lparr>kb_heap := (kb_heap s)(a := ob)\<rparr>)"
proof -
  have "mock_kept D s (s\<lparr>kb_heap := (kb_heap s)(a := ob)\<rparr>)"
    by (rule kept_heap) (use assms in \<open>auto simp: free_def kind_at_def\<close>)
  then show ?thesis using assms(1) by (simp add: owned_def free_def)
qed

lemma fill_or_check_cases:
  assumes "fill_or_check attr set_attr expected a s = (r, s')"
  obtains (error) e where "r = Inl e" "s' = s"
  | (same) m where "kb_heap s a = Model m" "attr m = expected" "s' = s"
  | (filled) m where "kb_heap s a = Model m" "attr m = None \<or> attr m = Some []"
      "s' = s\<lparr>kb_heap := (kb_heap s)(a := Model (set_attr expected m))\<rparr>"
  using assms by (auto simp: fill_or_check_def the_model_def get_heap_def put_heap_def kube_assert_def eff_simps
      split: kube_object.splits if_splits)

lemma update_metadata_owned:
  assumes "free s a" "k \<noteq> []" "kube_update_metadata a v k ns s = (r, s')"
  shows "owned D a s s' \<and> (r = Inr () \<longrightarrow> (\<exists>m. kb_heap s' a = Model m \<and> ko_kind m = Some k \<and> km_namespace (ko_metadata m) = ns))"
proof -
  let ?f1 = "fill_or_check ko_api_version (\<lambda>v m. m\<lparr>ko_api_version := v\<rparr>) (Some v) a"
  let ?f2 = "fill_or_check ko_kind (\<lambda>v m. m\<lparr>ko_kind := v\<rparr>) (Some k) a"
  let ?f3 = "fill_or_check (\<lambda>m. km_namespace (ko_metadata m)) (\<lambda>v m. m\<lparr>ko_metadata := (ko_metadata m)\<lparr>km_namespace := v\<rparr>\<rparr>) ns a"
  obtain r1 s1 where f1: "?f1 s = (r1, s1)" by (cases "?f1 s")
  obtain r2 s2 where f2: "?f2 s1 = (r2, s2)" by (cases "?f2 s1")
  obtain r3 s3 where f3: "?f3 s2 = (r3, s3)" by (cases "?f3 s2")
  have o1: "owned D a s s1" using f1
  proof (cases rule: fill_or_check_cases)
    case (filled m)
    show ?thesis unfolding filled by (rule owned_heap [OF assms(1)]) (auto simp: kind_at_def filled)
  qed (use assms(1) in \<open>simp_all add: owned_def\<close>)
  then have g1: "free s1 a" by (simp add: owned_def)
  have o2: "owned D a s1 s2" using f2
  proof (cases rule: fill_or_check_cases)
    case (filled m)
    show ?thesis unfolding filled by (rule owned_heap [OF g1]) (use filled in \<open>auto simp: kind_at_def\<close>)
  qed (use g1 in \<open>simp_all add: owned_def\<close>)
  then have g2: "free s2 a" by (simp add: owned_def)
  have o3: "owned D a s2 s3" using f3
  proof (cases rule: fill_or_check_cases)
    case (filled m)
    show ?thesis unfolding filled by (rule owned_heap [OF g2]) (auto simp: kind_at_def filled)
  qed (use g2 in \<open>simp_all add: owned_def\<close>)
  have k2: "\<exists>m. kb_heap s2 a = Model m \<and> ko_kind m = Some k" if "r2 = Inr ()"
    using f2 that by (cases rule: fill_or_check_cases) auto
  have k3: "\<exists>m. kb_heap s3 a = Model m \<and> ko_kind m = Some k \<and> km_namespace (ko_metadata m) = ns" if "r2 = Inr ()" "r3 = Inr ()"
    using f3 k2 [OF that(1)] that by (cases rule: fill_or_check_cases) auto
  have "kube_update_metadata a v k ns s = (case r1 of Inl e \<Rightarrow> (Inl e, s1) | Inr _ \<Rightarrow> (case r2 of Inl e \<Rightarrow> (Inl e, s2) | Inr _ \<Rightarrow> (r3, s3)))"
    by (cases r1; cases r2) (simp_all add: kube_update_metadata_def bind_eff_apply f1 f2 f3)
  then have "(r, s') = (case r1 of Inl e \<Rightarrow> (Inl e, s1) | Inr _ \<Rightarrow> (case r2 of Inl e \<Rightarrow> (Inl e, s2) | Inr _ \<Rightarrow> (r3, s3)))"
    using assms(3) by simp
  then show ?thesis
    using o1 owned_trans [OF o1 o2] owned_trans [OF owned_trans [OF o1 o2] o3] k3 by (cases r1; cases r2) auto
qed

lemma object_name_state: "snd (object_name a s) = s"
  by (auto simp: object_name_def the_model_def get_heap_def eff_simps split: kube_object.split)

lemma object_name_model: "object_name a s = (Inr name, s') \<Longrightarrow> kb_heap s a = Model m \<Longrightarrow> km_name (ko_metadata m) = name"
  by (auto simp: object_name_def the_model_def get_heap_def eff_simps)

lemma the_model_state: "snd (the_model attr a s) = s"
  by (auto simp: the_model_def get_heap_def eff_simps split: kube_object.split)

lemma set_status_owned: "free s a \<Longrightarrow> owned D a s (snd (set_status x a s))"
  using owned_heap [of s a] by (auto simp: set_status_def the_model_def get_heap_def put_heap_def eff_simps owned_def kind_at_def split: kube_object.split)

lemma storable_free:
  assumes "free s a" "kb_heap s a = Model m" "meta_ok st name m"
  shows "storable s st name a"
  using assms by (auto simp: storable_def free_def stored_def)

subsection \<open>Creating\<close>

lemma kept_store_new:
  assumes env: "env_ok D env" and free: "free s a" and m: "kb_heap s a = Model m" "ko_kind m = Some key"
    and ns: "km_namespace (ko_metadata m) = Some ns" "key \<noteq> ''Namespace''"
  shows "mock_kept D s (snd (bind_eff (object_name a) (\<lambda>name. store_object env ns key name a False) s))"
proof (rule kept_bind_same [OF object_name_state])
  fix name
  assume n: "object_name a s = (Inr name, s)"
  have "meta_ok (object_stream ns key) name m"
    using object_name_model [OF n m(1)] m ns by (simp add: meta_ok_def object_stream_def)
  then show "mock_kept D s (snd (store_object env ns key name a False s))"
    using ns(2) by (intro kept_store_object [OF env storable_free [OF free m(1)]]) simp_all
qed

text \<open>An object of the client, its metadata updated, and then \<open>k\<close>.\<close>

lemma kept_update_then:
  assumes free: "free s a" "kind \<noteq> []"
    and rest: "\<And>s' m. free s' a \<Longrightarrow> kb_heap s' a = Model m \<Longrightarrow> ko_kind m = Some kind \<Longrightarrow> km_namespace (ko_metadata m) = ns \<Longrightarrow>
      mock_kept D s' (snd (k s'))"
  shows "mock_kept D s (snd (bind_eff (kube_update_metadata a v kind ns) (\<lambda>_. k) s))"
proof -
  obtain r s' where u: "kube_update_metadata a v kind ns s = (r, s')" by (cases "kube_update_metadata a v kind ns s")
  note o = update_metadata_owned [OF free u]
  show ?thesis
  proof (rule kept_bind)
    show "mock_kept D s (snd (kube_update_metadata a v kind ns s))" using o by (simp add: u owned_def)
    show "mock_kept D (snd (kube_update_metadata a v kind ns s)) (snd (k (snd (kube_update_metadata a v kind ns s))))"
      if "kube_update_metadata a v kind ns s = (Inr x, snd (kube_update_metadata a v kind ns s))" for x
    proof -
      have "r = Inr ()" using that u by simp
      then obtain m where "kb_heap s' a = Model m" "ko_kind m = Some kind" "km_namespace (ko_metadata m) = ns" using o by blast
      then show ?thesis using rest o by (simp add: u owned_def)
    qed
  qed
qed

lemma kept_create_kind:
  assumes "env_ok D env" "free s a" "kind \<noteq> []" "kind \<noteq> ''Namespace''"
  shows "mock_kept D s (snd (create_kind env mname v kind ns a s))"
  unfolding create_kind_def
  by (rule kept_maybe [OF assms(1)], rule kept_update_then [OF assms(2,3)], rule kept_store_new [OF assms(1)], assumption+, rule assms(4))

lemma set_status_model: "kb_heap s a = Model m \<Longrightarrow> kb_heap (snd (set_status x a s)) a = Model (m\<lparr>ko_status := x\<rparr>)"
  by (simp add: set_status_def the_model_def get_heap_def put_heap_def eff_simps)

lemma kept_status_then:
  assumes "free s a" "kb_heap s a = Model m"
    and "\<And>s'. free s' a \<Longrightarrow> kb_heap s' a = Model (m\<lparr>ko_status := x\<rparr>) \<Longrightarrow> mock_kept D s' (snd (k s'))"
  shows "mock_kept D s (snd (bind_eff (set_status x a) (\<lambda>_. k) s))"
  using set_status_owned [OF assms(1), of D x] assms(3) set_status_model [OF assms(2), of x]
  by (intro kept_bind) (auto simp: owned_def)

lemma kept_create_ingress:
  assumes "env_ok D env" "free s a"
  shows "mock_kept D s (snd (create_namespaced_ingress env ns a s))"
  unfolding create_namespaced_ingress_def
  by (rule kept_maybe [OF assms(1)], rule kept_update_then [OF assms(2)], simp, rule kept_status_then, assumption+,
      rule kept_store_new [OF assms(1)], assumption+, simp_all)


text \<open>A new event: its stream has no table.\<close>

lemma kept_event_end:
  assumes env: "env_ok D env" and free: "free s a"
  shows "mock_kept D s (snd (bind_eff (read_eff (\<lambda>s. next_resource_version (kb_streams s (NamespacedStream ns ''Event'')))) (\<lambda>version.
     bind_eff (stamp version a) (\<lambda>_. bind_eff (add_event (NamespacedStream ns ''Event'') ''ADDED'' a) (\<lambda>_.
     bind_eff (modify_eff (\<lambda>s. s\<lparr>kb_events := (kb_events s)(ns := kb_events s ns @ [a])\<rparr>)) (\<lambda>_.
     run_hook env ''Event'' a)))) s))"
proof -
  let ?st = "NamespacedStream ns ''Event''"
  let ?k = "\<lambda>_. bind_eff (modify_eff (\<lambda>s. s\<lparr>kb_events := (kb_events s)(ns := kb_events s ns @ [a])\<rparr>)) (\<lambda>_. run_hook env ''Event'' a)"
  have e: "bind_eff (read_eff (\<lambda>s. next_resource_version (kb_streams s ?st))) (\<lambda>version.
     bind_eff (stamp version a) (\<lambda>_. bind_eff (add_event ?st ''ADDED'' a) ?k)) = bind_eff (store_end ?st (\<lambda>s. s) a ''ADDED'') ?k"
    unfolding store_end_def bind_eff_assoc by (simp add: bind_eff_def modify_eff_def)
  have "storable s ?st name a" for name using free by (simp add: storable_def free_def)
  then have "mock_kept D s (snd (store_end ?st (\<lambda>s. s\<lparr>kb_objects := kb_objects s\<rparr>) a ''ADDED'' s))"
  proof (rule kept_store_end [rotated])
    fix h :: "nat \<Rightarrow> kube_object" and st'
    let ?s = "s\<lparr>kb_heap := h, kb_objects := kb_objects (s\<lparr>kb_heap := h\<rparr>)\<rparr>"
    have "?s = s\<lparr>kb_heap := h\<rparr>" by simp
    show "objects_of ?s st' = (if st' = ?st then (objects_of s ?st)(None \<mapsto> a) else objects_of s st')" if "plain st'"
      using that objects_of_cong [of "s\<lparr>kb_heap := h\<rparr>" s st'] by auto
    show "distinct (map fst (kind_table ?s ns' key))" if "kube_inv D s" for ns' key
      using kube_invD(5) [OF that] by simp
    show "distinct (map fst (cluster_table ?s key))" if "kube_inv D s" for key
      using kube_invD(6) [OF that] by simp
  qed simp_all
  then have "mock_kept D s (snd (store_end ?st (\<lambda>s. s) a ''ADDED'' s))" by simp
  moreover have "mock_kept D t (snd (?k () t))" for t
  proof (rule kept_bind)
    show "mock_kept D t (snd (modify_eff (\<lambda>s. s\<lparr>kb_events := (kb_events s)(ns := kb_events s ns @ [a])\<rparr>) t))"
      unfolding modify_eff_apply snd_conv by (rule kept_unseen) (simp_all add: kind_at_def)
  qed (rule kept_hook [OF env])
  ultimately show ?thesis unfolding e by (rule kept_bind)
qed

lemma kept_create_event:
  assumes "env_ok D env" "free s a"
  shows "mock_kept D s (snd (create_namespaced_event env ns a s))"
  unfolding create_namespaced_event_def
  by (rule kept_maybe [OF assms(1)], rule kept_update_then [OF assms(2)], simp, rule kept_event_end [OF assms(1)], assumption)

text \<open>A new object of the mock's own.\<close>

lemma kept_alloc_then:
  assumes "\<And>s' a. kube_inv D s \<Longrightarrow> mock_kept D s s' \<Longrightarrow> free s' a \<Longrightarrow> kb_heap s' a = ob \<Longrightarrow> kb_streams s' = kb_streams s \<Longrightarrow>
    mock_kept D s' (snd (k a s'))"
  shows "mock_kept D s (snd (bind_eff (kube_alloc ob) k s))"
proof (rule kept_inv)
  assume inv: "kube_inv D s"
  let ?t = "snd (kube_alloc ob s)"
  have t: "mock_kept D s ?t" by (rule kept_alloc)
  have o: "objects_of ?t st = objects_of s st" for st by (rule objects_of_cong) (simp_all add: kube_alloc_def)
  have "stored ?t (kb_fresh s) = stored s (kb_fresh s)" by (simp add: stored_def o)
  then have "free ?t (kb_fresh s)" using not_stored_fresh [OF inv] by (simp add: free_def kube_alloc_def)
  then have "mock_kept D ?t (snd (k (kb_fresh s) ?t))" by (rule assms [OF inv t]) (simp_all add: kube_alloc_def)
  then show ?thesis using t kept_trans by (auto simp: bind_eff_def kube_alloc_def)
qed

lemma kept_create_pod:
  assumes env: "env_ok D env" and free: "free s a"
  shows "mock_kept D s (snd (create_namespaced_pod env ns a s))"
  unfolding create_namespaced_pod_def
proof (rule kept_maybe [OF env], rule kept_update_then [OF free], simp)
  fix s' m
  assume s': "free s' a" "kb_heap s' a = Model m" "ko_kind m = Some ''Pod''" "km_namespace (ko_metadata m) = Some ns"
  let ?post = "\<lambda>phase. if phase = ''Running'' then bind_eff (object_name a) (\<lambda>name.
      bind_eff (kube_alloc (Model (pod_start_event name ns))) (\<lambda>event. create_namespaced_event env ns event)) else ret_eff ()"
  have "mock_kept D t (snd (?post phase t))" for phase t
    by (auto simp: ret_eff_apply intro!: kept_bind_same [OF object_name_state] kept_alloc_then kept_create_event [OF env])
  then have e: "mock_kept D t (snd (bind_eff (read_eff kb_initial_pod_phase) ?post t))" for t
    by (intro kept_bind_same) (simp_all add: read_eff_apply)
  show "mock_kept D s' (snd (bind_eff (read_eff kb_initial_pod_phase) (\<lambda>phase.
     bind_eff (set_status (PodStatus (JStr phase) (Some (ke_now env div 1000000 * 1000000))) a) (\<lambda>_.
     bind_eff (object_name a) (\<lambda>name. bind_eff (store_object env ns ''Pod'' name a False) (\<lambda>_.
       bind_eff (read_eff kb_initial_pod_phase) ?post)))) s'))"
  proof (rule kept_bind_same)
    show "snd (read_eff kb_initial_pod_phase t) = t" for t by (simp add: read_eff_apply)
    fix phase
    show "mock_kept D s' (snd (bind_eff (set_status (PodStatus (JStr phase) (Some (ke_now env div 1000000 * 1000000))) a) (\<lambda>_.
     bind_eff (object_name a) (\<lambda>name. bind_eff (store_object env ns ''Pod'' name a False) (\<lambda>_.
       bind_eff (read_eff kb_initial_pod_phase) ?post))) s'))"
    proof (rule kept_status_then [OF s'(1,2)])
      fix t
      assume t: "free t a" "kb_heap t a = Model (m\<lparr>ko_status := PodStatus (JStr phase) (Some (ke_now env div 1000000 * 1000000))\<rparr>)"
      have "mock_kept D t (snd (bind_eff (bind_eff (object_name a) (\<lambda>name. store_object env ns ''Pod'' name a False)) (\<lambda>_.
          bind_eff (read_eff kb_initial_pod_phase) ?post) t))"
        by (rule kept_bind, rule kept_store_new [OF env t], simp add: s'(3), simp add: s'(4), simp, rule e)
      then show "mock_kept D t (snd (bind_eff (object_name a) (\<lambda>name. bind_eff (store_object env ns ''Pod'' name a False) (\<lambda>_.
          bind_eff (read_eff kb_initial_pod_phase) ?post)) t))"
        by (simp only: bind_eff_assoc)
    qed
  qed
qed


subsection \<open>Jobs\<close>

lemma kept_kind:
  assumes "kube_inv D s" "mock_kept D s t" "kind_at s a k" "a < kb_fresh s"
  shows "kind_at t a k" "a < kb_fresh t"
  using assms unfolding mock_kept_def by (auto dest: order.strict_trans2)

text \<open>Changing the status of a job shows in no view.\<close>

lemma kept_job_status:
  assumes "kind_at s a ''Job''"
  shows "mock_kept D s (snd (set_status x a s))"
proof (rule kept_inv)
  assume inv: "kube_inv D s"
  obtain m where m: "kb_heap s a = Model m" "ko_kind m = Some ''Job''" using assms by (auto simp: kind_at_def)
  let ?t = "s\<lparr>kb_heap := (kb_heap s)(a := Model (m\<lparr>ko_status := x\<rparr>))\<rparr>"
  have t: "snd (set_status x a s) = ?t"
    using m(1) by (simp add: set_status_def the_model_def get_heap_def put_heap_def eff_simps)
  have "kube_inv D ?t"
  proof (rule kube_inv_unseen [OF inv])
    show "stream_ok (kb_streams ?t st) \<and> versions_ok (stream_events ?t st) \<and> (plain st \<longrightarrow> stream_events ?t st = stream_events s st)" for st
      using kube_invD(1,2) [OF inv] by simp
    show "objects_of ?t st = objects_of s st" for st by (rule objects_of_cong) simp_all
    show "the_view (stream_key st) (kb_heap ?t b) = the_view (stream_key st) (kb_heap s b) \<and> (\<exists>m'. kb_heap ?t b = Model m' \<and> meta_ok st name m')"
      if "plain st" "objects_of s st name = Some b" "kb_heap s b = Model m'" "meta_ok st name m'" for st name b m'
    proof (cases "b = a")
      case True
      then have "m' = m" using that(3) m(1) by simp
      then have "stream_key st = ''Job''" using that(4) m(2) by (simp add: meta_ok_def)
      then show ?thesis using True \<open>m' = m\<close> that(4) m(1) by (simp add: the_view_def model_view_status meta_ok_def)
    qed (use that in simp)
  qed (use kube_invD(5,6) [OF inv] in simp_all)
  moreover have "kind_at s b k \<Longrightarrow> kind_at ?t b k" for b k using m by (auto simp: kind_at_def)
  ultimately show ?thesis unfolding t by (simp add: mock_kept_def)
qed

lemma kept_create_job:
  assumes env: "env_ok D env" and free: "free s a"
  shows "mock_kept D s (snd (create_namespaced_job env ns a s))"
  unfolding create_namespaced_job_def
proof (rule kept_maybe [OF env], rule kept_update_then [OF free], simp)
  fix s1 m
  assume s1: "free s1 a" "kb_heap s1 a = Model m" "ko_kind m = Some ''Job''" "km_namespace (ko_metadata m) = Some ns"
  let ?status = "\<lambda>p. bind_eff (the_model ''status'' p) (\<lambda>pod. case ko_status pod of
           NoStatus \<Rightarrow> raise_eff (KubeAttributeError ''phase'')
         | PodStatus phase _ \<Rightarrow> if phase = JStr ''Running'' then set_status (JobStatus 1) a else ret_eff ()
         | _ \<Rightarrow> ret_eff ())"
  let ?rest = "bind_eff (the_model ''metadata'' a) (\<lambda>job. case ko_template job of
       None \<Rightarrow> raise_eff (KubeAttributeError ''template'')
     | Some (source, spec) \<Rightarrow>
       bind_eff (lift_eff (job_pod (km_name (ko_metadata job)) ns (ke_random env) source spec)) (\<lambda>pod.
       bind_eff (kube_alloc (Model pod)) (\<lambda>p.
       bind_eff (create_namespaced_pod env ns p) (\<lambda>_. ?status p))))"
  have status: "mock_kept D t (snd (?status p t))" if "kind_at t a ''Job''" for t p
    by (rule kept_bind_same [OF the_model_state])
      (use kept_job_status [OF that] in \<open>auto simp: eff_simps split: kube_status.split\<close>)
  have rest: "mock_kept D t (snd (?rest t))" if t: "kind_at t a ''Job''" "a < kb_fresh t" for t
  proof (rule kept_bind_same [OF the_model_state])
    fix job
    show "mock_kept D t (snd ((case ko_template job of
       None \<Rightarrow> raise_eff (KubeAttributeError ''template'')
     | Some (source, spec) \<Rightarrow>
       bind_eff (lift_eff (job_pod (km_name (ko_metadata job)) ns (ke_random env) source spec)) (\<lambda>pod.
       bind_eff (kube_alloc (Model pod)) (\<lambda>p.
       bind_eff (create_namespaced_pod env ns p) (\<lambda>_. ?status p)))) t))"
    proof (cases "ko_template job")
      case None
      then show ?thesis by (simp add: eff_simps)
    next
      case (Some tm)
      have "mock_kept D t (snd (bind_eff (kube_alloc (Model pod)) (\<lambda>p. bind_eff (create_namespaced_pod env ns p) (\<lambda>_. ?status p)) t))" for pod
      proof (rule kept_alloc_then)
        fix u p
        assume u: "kube_inv D t" "mock_kept D t u" "free u p"
        let ?v = "snd (create_namespaced_pod env ns p u)"
        have v: "mock_kept D u ?v" by (rule kept_create_pod [OF env u(3)])
        have kind: "kind_at ?v a ''Job''" using kept_kind(1) [OF u(1) kept_trans [OF u(2) v] t] .
        show "mock_kept D u (snd (bind_eff (create_namespaced_pod env ns p) (\<lambda>_. ?status p) u))"
          by (rule kept_bind, rule v, rule status [OF kind])
      qed
      then show ?thesis
        by (cases tm; cases "job_pod (km_name (ko_metadata job)) ns (ke_random env) (fst tm) (snd tm)")
          (simp_all add: Some bind_eff_apply lift_eff_apply)
    qed
  qed
  have "mock_kept D s1 (snd (bind_eff (bind_eff (object_name a) (\<lambda>name. store_object env ns ''Job'' name a False)) (\<lambda>_. ?rest) s1))"
  proof (rule kept_inv)
    assume inv: "kube_inv D s1"
    let ?m = "bind_eff (object_name a) (\<lambda>name. store_object env ns ''Job'' name a False)"
    have k: "mock_kept D s1 (snd (?m s1))" by (rule kept_store_new [OF env s1]) simp
    have "kind_at s1 a ''Job''" "a < kb_fresh s1" using s1 by (simp_all add: kind_at_def free_def)
    note kind = kept_kind [OF inv k this]
    show ?thesis by (rule kept_bind, rule k, rule rest [OF kind])
  qed
  then show "mock_kept D s1 (snd (bind_eff (object_name a) (\<lambda>name. bind_eff (store_object env ns ''Job'' name a False) (\<lambda>_. ?rest)) s1))"
    by (simp only: bind_eff_assoc)
qed


subsection \<open>Deleting and listing\<close>

lemma kept_delete_kind: "env_ok D env \<Longrightarrow> kind \<noteq> ''Namespace'' \<Longrightarrow> mock_kept D s (snd (delete_kind env mname kind name ns policy s))"
  unfolding delete_kind_def by (rule kept_maybe, assumption, rule kept_delete_object)

lemma get_object_state: "snd (get_object ns key name s) = s"
  by (simp add: get_object_def split: option.split)

lemma get_cluster_state: "snd (get_cluster_object key name s) = s"
  by (simp add: get_cluster_object_def split: option.split)

lemma list_selected_state:
  assumes "\<And>name s. snd (get_obj name s) = s"
  shows "snd (list_selected get_obj fs ls s) = s"
proof (cases "selected_name fs")
  case (Some name)
  have "snd (get_obj (Some name) s) = s" by (rule assms)
  then show ?thesis using Some
    by (cases "get_obj (Some name) s") (auto simp: list_selected_def eff_simps split: sum.split kube_exc.split)
qed (simp add: list_selected_def eff_simps)

lemma list_objects_state: "snd (list_objects ns key fs ls s) = s"
  by (simp add: list_objects_def list_table_def list_selected_state get_object_state)

lemma list_or_watch_state:
  assumes "\<And>s. snd (listing s) = s"
  shows "snd (list_or_watch listing st args s) = s"
  using assms [of s] by (cases "listing s")
    (auto simp: list_or_watch_def kube_assert_def build_watch_response_def eff_simps split: sum.split option.split prod.split)

lemma list_kind_state: "env_ok D env \<Longrightarrow> snd (list_kind env mname kind ns args s) = s"
  using maybe_error_same [of D env mname "[ArgStr ns, ArgOpt (la_field_selector args)]" s]
    list_or_watch_state [where listing = "list_objects ns kind (la_field_selector args) (la_label_selector args)", OF list_objects_state,
      of "NamespacedStream ns kind" args s]
  by (cases "maybe_error env mname [ArgStr ns, ArgOpt (la_field_selector args)] s")
    (auto simp: list_kind_def namespace_exists_def bind_eff_apply split: sum.split prod.split)

lemma kept_delete_pods: "env_ok D env \<Longrightarrow> mock_kept D s (snd (delete_pods env ns ps s))"
proof (induction ps arbitrary: s)
  case Nil
  then show ?case by (simp add: delete_pods_def ret_eff_apply)
next
  case (Cons p ps)
  have d: "delete_pods env ns (p # ps) = bind_eff (object_name p) (\<lambda>name.
     bind_eff (maybe_error env ''delete_namespaced_pod'' [case name of None \<Rightarrow> ArgOpt None | Some n \<Rightarrow> ArgStr n, ArgStr ns]) (\<lambda>_.
     bind_eff (delete_object ns ''Pod'' name ''Foreground'') (\<lambda>_. delete_pods env ns ps)))"
    by (simp add: delete_pods_def)
  show ?case unfolding d
    by (rule kept_bind_same [OF object_name_state], rule kept_maybe [OF Cons.prems], rule kept_bind,
        rule kept_delete_object, simp, rule Cons.IH [OF Cons.prems])
qed

lemma kept_delete_job:
  assumes "env_ok D env"
  shows "mock_kept D s (snd (delete_namespaced_job env name ns policy s))"
  unfolding delete_namespaced_job_def
proof (rule kept_maybe [OF assms], rule kept_bind_same)
  show "snd (list_namespaced_pod env ns (default_list_args\<lparr>la_label_selector := Some (''job-name=='' @ name)\<rparr>) t) = t" for t
    unfolding list_namespaced_pod_def by (rule list_kind_state [OF assms])
  fix pods
  show "mock_kept D s (snd (bind_eff (if policy \<noteq> ''Orphan''
       then delete_pods env ns (case pods of Items ps \<Rightarrow> ps | Watching _ \<Rightarrow> []) else ret_eff ()) (\<lambda>_.
     delete_object ns ''Job'' (Some name) policy) s))"
  proof (rule kept_bind)
    show "mock_kept D s (snd ((if policy \<noteq> ''Orphan''
       then delete_pods env ns (case pods of Items ps \<Rightarrow> ps | Watching _ \<Rightarrow> []) else ret_eff ()) s))"
      using kept_delete_pods [OF assms] by (simp add: ret_eff_apply)
  qed (simp add: kept_delete_object)
qed

subsection \<open>Patching and replacing\<close>

text \<open>A change of a patch keeps what places an object.\<close>

definition patch_ok :: "string set \<Rightarrow> (json \<Rightarrow> nat \<Rightarrow> unit kube_eff) \<Rightarrow> bool" where
  "patch_ok D change \<longleftrightarrow> (\<forall>c st name s b. free s b \<longrightarrow> (\<exists>m. kb_heap s b = Model m \<and> meta_ok st name m) \<longrightarrow>
     owned D b s (snd (change c b s)) \<and> (\<exists>m. kb_heap (snd (change c b s)) b = Model m \<and> meta_ok st name m))"

lemma patch_each_keeps:
  assumes "\<And>c t. free t b \<Longrightarrow> P t \<Longrightarrow> owned D b t (snd (change c b t)) \<and> P (snd (change c b t))" "free s b" "P s"
  shows "owned D b s (snd (patch_each change body b s)) \<and> P (snd (patch_each change body b s))"
  using assms(2,3)
proof (induction body arbitrary: s)
  case Nil
  then show ?case by (simp add: patch_each_def ret_eff_apply owned_def)
next
  case (Cons c body)
  obtain r t where c: "change c b s = (r, t)" by (cases "change c b s")
  have t: "owned D b s t" "P t" using assms(1) [OF Cons.prems, of c] by (simp_all add: c)
  then have "free t b" by (simp add: owned_def)
  note IH = Cons.IH [OF this t(2)]
  show ?case
  proof (cases r)
    case (Inl e)
    then show ?thesis using t c by (simp add: patch_each_def bind_eff_apply)
  next
    case (Inr x)
    then have "snd (patch_each change (c # body) b s) = snd (patch_each change body b t)"
      using c by (simp add: patch_each_def bind_eff_apply)
    then show ?thesis using IH owned_trans [OF t(1)] by simp
  qed
qed

lemma patch_each_ok:
  assumes "patch_ok D change" "free s b" "\<exists>m. kb_heap s b = Model m \<and> meta_ok st name m"
  shows "owned D b s (snd (patch_each change body b s)) \<and>
    (\<exists>m. kb_heap (snd (patch_each change body b s)) b = Model m \<and> meta_ok st name m)"
  by (rule patch_each_keeps [where P = "\<lambda>t. \<exists>m. kb_heap t b = Model m \<and> meta_ok st name m"])
    (use assms in \<open>simp_all add: patch_ok_def\<close>)

lemma kept_patch_kind:
  assumes env: "env_ok D env" and change: "patch_ok D change" and key: "plain (NamespacedStream ns kind)"
  shows "mock_kept D s (snd (patch_kind env mname kind change name ns body s))"
  unfolding patch_kind_def
proof (rule kept_maybe [OF env], rule kept_bind_same [OF get_object_state], rule kept_inv)
  fix a
  assume get: "get_object ns kind (Some name) s = (Inr a, s)" and inv: "kube_inv D s"
  let ?st = "NamespacedStream ns kind"
  have st: "object_stream ns kind = ?st" using key by (auto simp: object_stream_def)
  have "objects_of s ?st (Some name) = Some a" using get by (auto simp: get_object_def split: option.splits)
  from placedD(2) [OF inv key this] obtain m where m: "kb_heap s a = Model m" "meta_ok ?st (Some name) m" by blast
  have d: "deepcopy a s = kube_alloc (Model m) s" by (simp add: deepcopy_def get_heap_def eff_simps m(1))
  let ?k = "\<lambda>b. bind_eff (patch_each change body b) (\<lambda>_. bind_eff (store_object env ns kind (Some name) b True) (\<lambda>_. ret_eff b))"
  have "mock_kept D s (snd (bind_eff (kube_alloc (Model m)) ?k s))"
  proof (rule kept_alloc_then)
    fix t b
    assume t: "free t b" "kb_heap t b = Model m"
    note p = patch_each_ok [OF change t(1), of ?st "Some name" body]
    let ?u = "snd (patch_each change body b t)"
    have u: "owned D b t ?u" "\<exists>m. kb_heap ?u b = Model m \<and> meta_ok ?st (Some name) m" using p t(2) m(2) by auto
    obtain m' where m': "kb_heap ?u b = Model m'" "meta_ok ?st (Some name) m'" using u(2) by blast
    have "free ?u b" using u(1) by (simp add: owned_def)
    note s = storable_free [OF this m']
    have store: "mock_kept D ?u (snd (store_object env ns kind (Some name) b True ?u))"
      by (rule kept_store_object [OF env]) (use s st key in auto)
    show "mock_kept D t (snd (?k b t))"
      by (rule kept_bind, use u(1) in \<open>simp add: owned_def\<close>, rule kept_bind, rule store, simp add: ret_eff_apply)
  qed
  moreover have "bind_eff (deepcopy a) ?k s = bind_eff (kube_alloc (Model m)) ?k s" by (simp add: bind_eff_apply d)
  ultimately show "mock_kept D s (snd (bind_eff (deepcopy a) ?k s))" by simp
qed

lemma owned_same: "free s b \<Longrightarrow> owned D b s s"
  by (simp add: owned_def)

lemma set_meta_owned:
  assumes "free s b" "kb_heap s b = Model m"
  shows "owned D b s (snd (set_meta f b s))"
  using owned_heap [OF assms(1), of "Model (m\<lparr>ko_metadata := f (ko_metadata m)\<rparr>)" D] assms(2)
  by (simp add: set_meta_def the_model_def get_heap_def put_heap_def eff_simps kind_at_def)

lemma set_meta_model: "kb_heap s b = Model m \<Longrightarrow> kb_heap (snd (set_meta f b s)) b = Model (m\<lparr>ko_metadata := f (ko_metadata m)\<rparr>)"
  by (simp add: set_meta_def the_model_def get_heap_def put_heap_def eff_simps)

text \<open>The outcomes of a change: nothing, or the one assignment it makes.\<close>

lemma secret_change_cases:
  "snd (secret_change c b s) = s \<or> (\<exists>v. snd (secret_change c b s) = snd (set_meta (\<lambda>m. m\<lparr>km_annotations := v\<rparr>) b s)) \<or>
    (\<exists>v. snd (secret_change c b s) = snd (set_meta (\<lambda>m. m\<lparr>km_labels := v\<rparr>) b s))"
  by (auto simp: secret_change_def change_op_def kube_assert_def eff_simps split: sum.splits prod.splits if_splits)

lemma secret_patch_ok: "patch_ok D secret_change"
  unfolding patch_ok_def
proof (intro allI impI, elim exE conjE)
  fix c st name s b m
  assume a: "free s b" "kb_heap s b = Model m" "meta_ok st name m"
  have "meta_ok st name (m\<lparr>ko_metadata := (ko_metadata m)\<lparr>km_annotations := v\<rparr>\<rparr>)"
      "meta_ok st name (m\<lparr>ko_metadata := (ko_metadata m)\<lparr>km_labels := v\<rparr>\<rparr>)" for v
    using a(3) by (simp_all add: meta_ok_def)
  then show "owned D b s (snd (secret_change c b s)) \<and> (\<exists>m. kb_heap (snd (secret_change c b s)) b = Model m \<and> meta_ok st name m)"
    using secret_change_cases [of c b s] set_meta_owned [OF a(1,2)] set_meta_model [OF a(2)] owned_same [OF a(1)] a(2,3) by auto
qed

lemma status_change_cases:
  "snd (ingress_change c b s) = s \<or> (\<exists>x. snd (ingress_change c b s) = snd (set_status x b s))"
  "snd (pod_change c b s) = s \<or> (\<exists>x. snd (pod_change c b s) = snd (set_status x b s))"
  using the_model_state [of "''status''" b s]
  by (auto simp: ingress_change_def pod_change_def change_op_def change_path_def kube_assert_def eff_simps
      split: sum.splits prod.splits if_splits kube_status.splits)

lemma status_patch_ok:
  assumes "\<And>c b s. snd (change c b s) = s \<or> (\<exists>x. snd (change c b s) = snd (set_status x b s))"
  shows "patch_ok D change"
  unfolding patch_ok_def
proof (intro allI impI, elim exE conjE)
  fix c st name s b m
  assume a: "free s b" "kb_heap s b = Model m" "meta_ok st name m"
  have "meta_ok st name (m\<lparr>ko_status := x\<rparr>)" for x using a(3) by (simp add: meta_ok_def)
  then show "owned D b s (snd (change c b s)) \<and> (\<exists>m. kb_heap (snd (change c b s)) b = Model m \<and> meta_ok st name m)"
    using assms [of c b s] set_status_owned [OF a(1), of D] set_status_model [OF a(2)] owned_same [OF a(1)] a(2,3) by auto
qed


text \<open>
  Replacing a secret by an object of its name and namespace, as a client does that read it, changed it and stores it
  again: the change in place and the replacement are one step.
\<close>

definition replaces :: "kube_stream \<Rightarrow> string \<Rightarrow> nat \<Rightarrow> kube_model \<Rightarrow> kube \<Rightarrow> bool" where
  "replaces st name a m s \<longleftrightarrow> a < kb_fresh s \<and> meta_ok st (Some name) m \<and> objects_of s st (Some name) \<noteq> None \<and>
     (\<forall>st' name'. plain st' \<longrightarrow> objects_of s st' name' = Some a \<longrightarrow> st' = st \<and> name' = Some name) \<and>
     (\<forall>k. kind_at s a k \<longrightarrow> ko_kind m = Some k)"

lemma store_end_over:
  assumes "stream_ok (kb_streams s st)" "\<And>h. kb_streams (set_entry (s\<lparr>kb_heap := h\<rparr>)) = kb_streams s"
    "\<And>h. kb_heap (set_entry (s\<lparr>kb_heap := h\<rparr>)) = h"
  shows "snd (store_end st set_entry a act (s\<lparr>kb_heap := (kb_heap s)(a := Model m)\<rparr>)) =
    (let m' = m\<lparr>ko_metadata := (ko_metadata m)\<lparr>km_resource_version := Some (next_resource_version (kb_streams s st))\<rparr>\<rparr>
     in put_state st (act, Snapshot m') (set_entry (s\<lparr>kb_heap := (kb_heap s)(a := Model m')\<rparr>)))"
proof -
  let ?s = "s\<lparr>kb_heap := (kb_heap s)(a := Model m)\<rparr>"
  let ?m = "m\<lparr>ko_metadata := (ko_metadata m)\<lparr>km_resource_version := Some (next_resource_version (kb_streams s st))\<rparr>\<rparr>"
  have "store_end st set_entry a act ?s = (Inr (), put_state st (act, event_object a (Model ?m)) (set_entry (?s\<lparr>kb_heap := (kb_heap s)(a := Model ?m)\<rparr>)))"
    by (rule store_end_outcome) (simp_all add: assms stamped_def)
  then show ?thesis by (simp add: Let_def event_object_def)
qed

text \<open>Storing over an object that the client has changed.\<close>

lemma kept_replace:
  assumes env: "env_ok D env" and r: "replaces (NamespacedStream ns key) name a m s" and key: "plain (NamespacedStream ns key)"
  shows "mock_kept D s (snd (store_object env ns key (Some name) a True (s\<lparr>kb_heap := (kb_heap s)(a := Model m)\<rparr>)))"
proof (rule kept_inv)
  assume inv: "kube_inv D s"
  let ?st = "NamespacedStream ns key"
  let ?s = "s\<lparr>kb_heap := (kb_heap s)(a := Model m)\<rparr>"
  have st: "object_stream ns key = ?st" using key by (auto simp: object_stream_def)
  obtain b where b: "map_of (kind_table s ns key) (Some name) = Some b" using r by (auto simp: replaces_def)
  then have check: "store_check ns key (Some name) True ?s = (Inr (), ?s)"
    by (simp add: store_check_def get_object_def eff_simps)
  let ?m = "m\<lparr>ko_metadata := (ko_metadata m)\<lparr>km_resource_version := Some (next_resource_version (kb_streams s ?st))\<rparr>\<rparr>"
  let ?t = "put_state ?st (''MODIFIED'', Snapshot ?m) (set_object ns key (Some name) a (s\<lparr>kb_heap := (kb_heap s)(a := Model ?m)\<rparr>))"
  have out: "snd (store_end ?st (set_object ns key (Some name) a) a ''MODIFIED'' ?s) = ?t"
    by (subst store_end_over) (simp_all add: kube_invD(1) [OF inv] set_object_def Let_def)
  have o: "objects_of (s\<lparr>kb_heap := h\<rparr>) st' = objects_of s st'" for h st' by (rule objects_of_cong) simp_all
  have obj: "objects_of ?t st' = (if st' = ?st then (objects_of s st')(Some name \<mapsto> a) else objects_of s st')" if "plain st'" for st'
    unfolding objects_of_put_state set_object_def
    by (subst objects_set_table [where e = "Some a" and name = "Some name"]) (use that key in \<open>auto simp: map_of_update o st\<close>)
  have "kube_inv D ?t"
  proof (rule kube_inv_commit [where del = False and st = ?st and name = "Some name" and a = a and m = ?m and act = "''MODIFIED''", OF inv key])
    show "meta_ok ?st (Some name) ?m" using r by (simp add: replaces_def meta_ok_def)
    show "a < kb_fresh s" using r by (simp add: replaces_def)
    show "st' = ?st \<and> name' = Some name" if "plain st'" "objects_of s st' name' = Some a" for st' name'
      using r that unfolding replaces_def by blast
    show "objects_of ?t ?st = (objects_of s ?st)(Some name := if False then None else Some a)" using obj [OF key] by simp
    show "objects_of ?t st' = objects_of s st'" if "plain st'" "st' \<noteq> ?st" for st' using obj [OF that(1)] that(2) by simp
    show "distinct (map fst (kind_table ?t ns' key'))" for ns' key'
      using kube_invD(5) [OF inv] by (auto simp: set_object_def intro: distinct_update)
    show "distinct (map fst (cluster_table ?t key'))" for key'
      using kube_invD(6) [OF inv] by (simp add: set_object_def)
  qed (simp_all add: set_object_def stream_version kube_invD(1) [OF inv])
  then have t: "mock_kept D s ?t"
  proof (intro kept_commit)
    show "kind_at ?t b k" if "kind_at s b k" for b k
      using that r by (cases "b = a") (auto simp: kind_at_def replaces_def set_object_def)
  qed (simp_all add: set_object_def)
  have "mock_kept D ?t (snd (bind_eff (read_eff (\<lambda>s. hook_kind s key)) (\<lambda>kind. run_hook env kind a) ?t))"
    by (rule kept_bind_same) (simp_all add: read_eff_apply kept_hook [OF env])
  then have "mock_kept D s (snd (bind_eff (store_end ?st (set_object ns key (Some name) a) a ''MODIFIED'') (\<lambda>_.
      bind_eff (read_eff (\<lambda>s. hook_kind s key)) (\<lambda>kind. run_hook env kind a)) ?s))"
    using t out kept_trans [OF t]
    by (cases "store_end ?st (set_object ns key (Some name) a) a ''MODIFIED'' ?s"; cases "fst (store_end ?st (set_object ns key (Some name) a) a ''MODIFIED'' ?s)")
      (auto simp: bind_eff_apply)
  then show "mock_kept D s (snd (store_object env ns key (Some name) a True ?s))"
    unfolding store_object_split by (simp add: bind_eff_apply check st)
qed

subsection \<open>Namespaces and persistent volumes\<close>

lemma kept_create_namespace:
  assumes env: "env_ok D env" and free: "free s a"
  shows "mock_kept D s (snd (create_namespace env a s))"
  unfolding create_namespace_def
proof (rule kept_maybe [OF env], rule kept_update_then [OF free], simp, rule kept_bind_same [OF object_name_state])
  fix s' m name
  assume s': "free s' a" "kb_heap s' a = Model m" "ko_kind m = Some ''Namespace''" "km_namespace (ko_metadata m) = None"
    and n: "object_name a s' = (Inr name, s')"
  show "mock_kept D s' (snd ((case name of None \<Rightarrow> raise_eff KubeTypeError
     | Some n \<Rightarrow> (\<lambda>s. if map_of (kb_objects s) n \<noteq> None
         then (Inl (ApiException 409 (''Namespace '' @ n @ '' already exists'')), s)
         else store_object env n ''Namespace'' name a False s)) s'))"
  proof (cases name)
    case (Some n')
    have "meta_ok NamespaceStream name m" using object_name_model [OF n s'(2)] s' by (simp add: meta_ok_def)
    then have "mock_kept D s' (snd (store_object env n' ''Namespace'' name a False s'))"
      by (intro kept_store_object [OF env]) (simp_all add: object_stream_def storable_free [OF s'(1,2)] Some)
    then show ?thesis using Some by simp
  qed (simp add: raise_eff_apply)
qed

text \<open>A namespace that has no object of its own any more is dropped with all it has.\<close>

definition drop_namespace :: "string \<Rightarrow> kube \<Rightarrow> kube" where
  "drop_namespace n s = s\<lparr>kb_objects := AList.delete n (kb_objects s)\<rparr>"

lemma kind_table_drop: "kind_table (drop_namespace n s) ns key = (if ns = n then [] else kind_table s ns key)"
  by (simp add: drop_namespace_def kind_table_def kind_tables_def map_of_delete_eq or_empty_def)

lemma kept_drop_namespace:
  assumes D: "n \<in> D" and gone: "objects_of s NamespaceStream (Some n) = None"
  shows "mock_kept D s (drop_namespace n s)"
  unfolding mock_kept_def
proof (intro impI conjI)
  assume inv: "kube_inv D s"
  let ?t = "drop_namespace n s"
  have f: "kb_heap ?t = kb_heap s" "kb_fresh ?t = kb_fresh s" "kb_streams ?t = kb_streams s" "cluster_table ?t = cluster_table s"
    by (simp_all add: drop_namespace_def cluster_table_def fun_eq_iff)
  have o: "objects_of ?t st name = objects_of s st name \<or> objects_of ?t st name = None \<and> lossy D st" for st name
    using gone D by (cases st) (auto simp: kind_table_drop f lossy_def split: option.splits)
  have "placed ?t"
    unfolding placed_def f
  proof (intro allI impI)
    fix st name a
    assume p: "plain st" "objects_of ?t st name = Some a"
    then have "objects_of s st name = Some a" using o [of st name] by auto
    then show "a < kb_fresh s \<and> (\<exists>m. kb_heap s a = Model m \<and> meta_ok st name m)" using placedD [OF inv p(1)] by blast
  qed
  moreover have "coherent D ?t"
    unfolding coherent_def f
  proof (intro allI impI conjI)
    fix st
    assume p: "plain st"
    show "list_all is_snapshot (stream_events s st)" using kube_invD(4) [OF inv] p by (simp add: coherent_def)
    have v: "kube_view ?t st name = (case objects_of ?t st name of None \<Rightarrow> None | Some a \<Rightarrow> the_view (stream_key st) (kb_heap s a))" for name
      unfolding kube_view_def f by (rule refl)
    show "replayed st (stream_events s st) name = Some m" if "kube_view ?t st name = Some m" for name m
    proof -
      have "kube_view s st name = Some m" using that o [of st name] unfolding v kube_view_def [of s] by (cases "objects_of s st name") auto
      then show ?thesis using kube_invD(4) [OF inv] p unfolding coherent_def by blast
    qed
    show "replayed st (stream_events s st) = kube_view ?t st" if "\<not> lossy D st"
    proof -
      have "kube_view ?t st = kube_view s st" using o [of st] that by (intro ext) (simp add: v kube_view_def [of s])
      then show ?thesis using kube_invD(4) [OF inv] p that unfolding coherent_def by simp
    qed
  qed
  ultimately show "kube_inv D ?t"
    using kube_invD [OF inv] by (simp add: kube_inv_def f kind_table_drop)
qed (simp_all add: drop_namespace_def kind_at_def)


lemma drop_set_table: "drop_namespace n (put_state st ev (set_table n key t s)) = drop_namespace n (put_state st ev s)"
  by (simp add: drop_namespace_def put_state_def set_table_def delete_update_same)

lemma kept_delete_namespace_entry:
  assumes D: "n \<in> D" and found: "map_of (kind_table s n ''Namespace'') (Some n) = Some a" and inv: "kube_inv D s"
  shows "mock_kept D s (drop_namespace n (snd (add_event NamespaceStream ''DELETED'' a s)))"
proof -
  let ?t = "set_table n ''Namespace'' (AList.delete (Some n) (kind_table s n ''Namespace'')) s"
  let ?ev = "(''DELETED'', event_object a (kb_heap s a))"
  have out: "snd (add_event NamespaceStream ''DELETED'' a t) = put_state NamespaceStream (''DELETED'', event_object a (kb_heap t a)) t"
    if "kb_streams t = kb_streams s" for t
    using put_event_ok [of t NamespaceStream] kube_invD(1) [OF inv] that by (simp add: add_event_def get_heap_def eff_simps)
  have o: "objects_of ?t st' = (if st' = NamespaceStream then (objects_of s st')(Some n := None) else objects_of s st')"
    if "plain st'" for st'
    using objects_set_table [of "AList.delete (Some n) (kind_table s n ''Namespace'')" s n "''Namespace''" "Some n" None st'] that
    by (simp add: map_of_delete_eq object_stream_def)
  have "mock_kept D s (snd (add_event NamespaceStream ''DELETED'' a ?t))"
  proof (rule kept_delete_entry [where name = "Some n"])
    show "objects_of s NamespaceStream (Some n) = Some a" using found by simp
    show "objects_of ?t NamespaceStream = (objects_of s NamespaceStream)(Some n := None)" using o [of NamespaceStream] by simp
    show "objects_of ?t st' = objects_of s st'" if "plain st'" "st' \<noteq> NamespaceStream" for st' using o [OF that(1)] that(2) by simp
    show "distinct (map fst (kind_table ?t ns' key'))" if "kube_inv D s" for ns' key'
      using kube_invD(5) [OF that] by (auto intro: distinct_delete)
    show "distinct (map fst (cluster_table ?t key'))" if "kube_inv D s" for key'
      using kube_invD(6) [OF that] by simp
  qed simp_all
  moreover have "snd (add_event NamespaceStream ''DELETED'' a ?t) = put_state NamespaceStream ?ev ?t" by (simp add: out)
  ultimately have k: "mock_kept D s (put_state NamespaceStream ?ev ?t)" by simp
  have "objects_of (put_state NamespaceStream ?ev ?t) NamespaceStream (Some n) = None" using o [of NamespaceStream] by simp
  from kept_trans [OF k kept_drop_namespace [OF D this]] show ?thesis by (simp add: out drop_set_table)
qed

lemma kept_delete_namespace:
  assumes env: "env_ok D env" and D: "n \<in> D"
  shows "mock_kept D s (snd (delete_namespace env n s))"
  unfolding delete_namespace_def
proof (rule kept_maybe [OF env], rule kept_inv)
  assume inv: "kube_inv D s"
  let ?read = "maybe_error env ''read_namespace'' [ArgStr n]"
  have same: "snd (?read s) = s" by (rule maybe_error_same [OF env])
  have callback: "fst (?read s) \<noteq> Inl (ApiException c e)" for c e
    using env by (auto simp: maybe_error_def env_ok_def eff_simps split: option.split)
  have drop: "modify_eff (\<lambda>s. s\<lparr>kb_objects := AList.delete n (kb_objects s)\<rparr>) t = (Inr (), drop_namespace n t)" for t
    by (simp add: modify_eff_apply drop_namespace_def)
  let ?body = "api_handled (bind_eff (read_namespace env n) (\<lambda>ns. add_event NamespaceStream ''DELETED'' ns)) (ret_eff ())"
  have "mock_kept D s (snd (bind_eff ?body (\<lambda>_. modify_eff (\<lambda>s. s\<lparr>kb_objects := AList.delete n (kb_objects s)\<rparr>)) s))"
  proof (cases "?read s")
    case (Pair r t)
    then have t: "t = s" using same by simp
    show ?thesis
    proof (cases r)
      case (Inl e)
      then have "?body s = (Inl e, s)"
        using Pair t callback by (cases e) (auto simp: api_handled_def read_namespace_def eff_simps)
      then show ?thesis by (simp add: bind_eff_apply)
    next
      case (Inr x)
      show ?thesis
      proof (cases "map_of (kind_table s n ''Namespace'') (Some n)")
        case None
        then have "?body s = (Inr (), s)"
          using Pair t Inr by (simp add: api_handled_def read_namespace_def get_object_def eff_simps)
        moreover have "mock_kept D s (drop_namespace n s)" by (rule kept_drop_namespace [OF D]) (simp add: None)
        ultimately show ?thesis by (simp add: bind_eff_apply drop)
      next
        case (Some a)
        have ok: "add_event NamespaceStream ''DELETED'' a s = (Inr (), snd (add_event NamespaceStream ''DELETED'' a s))"
          using put_event_ok [of s NamespaceStream] kube_invD(1) [OF inv] by (simp add: add_event_def get_heap_def eff_simps)
        have "?body s = add_event NamespaceStream ''DELETED'' a s"
          using Pair t Inr Some ok
          by (cases "add_event NamespaceStream ''DELETED'' a s") (simp add: api_handled_def read_namespace_def get_object_def eff_simps)
        moreover have "mock_kept D s (drop_namespace n (snd (add_event NamespaceStream ''DELETED'' a s)))"
          by (rule kept_delete_namespace_entry [OF D Some inv])
        ultimately show ?thesis using ok by (cases "add_event NamespaceStream ''DELETED'' a s") (simp add: bind_eff_apply drop)
      qed
    qed
  qed
  then show "mock_kept D s (snd (if map_of (kb_objects s) n = None then (Inl (ApiException 404 (n @ '' not found'')), s)
     else bind_eff ?body (\<lambda>_. modify_eff (\<lambda>s. s\<lparr>kb_objects := AList.delete n (kb_objects s)\<rparr>)) s))"
    by simp
qed

lemma kept_create_volume:
  assumes env: "env_ok D env" and free: "free s a"
  shows "mock_kept D s (snd (create_persistent_volume env a s))"
  unfolding create_persistent_volume_def
proof (rule kept_maybe [OF env], rule kept_update_then [OF free], simp, rule kept_bind_same [OF object_name_state])
  fix s' m name
  assume s': "free s' a" "kb_heap s' a = Model m" "ko_kind m = Some ''PersistentVolume''" "km_namespace (ko_metadata m) = None"
    and n: "object_name a s' = (Inr name, s')"
  have "meta_ok (ClusterStream ''PersistentVolume'') name m" using object_name_model [OF n s'(2)] s' by (simp add: meta_ok_def)
  then show "mock_kept D s' (snd (store_cluster_object ''PersistentVolume'' name a False s'))"
    by (intro kept_store_cluster storable_free [OF s'(1,2)])
qed

lemma kept_delete_volume: "env_ok D env \<Longrightarrow> mock_kept D s (snd (delete_persistent_volume env name policy s))"
  unfolding delete_persistent_volume_def by (rule kept_maybe, assumption, rule kept_delete_cluster)


subsection \<open>Custom objects\<close>

definition custom_at :: "nat \<Rightarrow> kube \<Rightarrow> bool" where
  "custom_at a s \<longleftrightarrow> a < kb_fresh s \<and> (\<exists>d. kb_heap s a = Custom d)"

lemma custom_free: "kube_inv D s \<Longrightarrow> custom_at a s \<Longrightarrow> free s a"
  using placedD(2) by (fastforce simp: custom_at_def free_def stored_def)

lemma kept_custom_store:
  assumes "env_ok D env" "free s a" "CHR ''/'' \<in> set key"
  shows "mock_kept D s (snd (store_object env ns key name a replace s))"
proof (rule kept_store_object [OF assms(1)])
  have "key \<noteq> ''Namespace''" using assms(3) by auto
  then show "storable s (object_stream ns key) name a" "key = ''Namespace'' \<longrightarrow> name = Some ns"
    using assms(2,3) by (simp_all add: object_stream_def storable_def free_def)
qed

lemma custom_key_slash: "CHR ''/'' \<in> set (custom_key grp version plural)"
  by (simp add: custom_key_def)

text \<open>A step on a custom object, and what comes after it.\<close>

lemma kept_custom_then:
  assumes "custom_at a s" "\<And>t. kube_inv D t \<Longrightarrow> custom_at a t \<Longrightarrow> mock_kept D t (snd (m t)) \<and> custom_at a (snd (m t))"
    "\<And>t x. custom_at a t \<Longrightarrow> mock_kept D t (snd (k x t))"
  shows "mock_kept D s (snd (bind_eff m k s))"
proof (rule kept_inv)
  assume "kube_inv D s"
  note m = assms(2) [OF this assms(1)]
  show ?thesis by (rule kept_bind, use m in simp, rule assms(3), use m in simp)
qed

lemma the_dict_state: "snd (the_dict a s) = s"
  by (auto simp: the_dict_def get_heap_def eff_simps split: kube_object.split)

lemma lift_state: "snd (lift_eff r s) = s"
  by (simp add: lift_eff_apply)

lemma bind_lift_state: "(\<And>x s. snd (k x s) = s) \<Longrightarrow> snd (bind_eff (lift_eff r) k s) = s"
  by (cases r) (simp_all add: bind_eff_apply lift_eff_apply)

lemma kube_assert_state: "snd (kube_assert b s) = s"
  by (simp add: kube_assert_def eff_simps)

lemma check_api_version_state: "snd (check_api_version d grp version s) = s"
  unfolding check_api_version_def by (rule bind_lift_state) (rule kube_assert_state)

lemma kept_custom_same:
  assumes "\<And>s. snd (m s) = s" "\<And>x. mock_kept D s (snd (k x s))"
  shows "mock_kept D s (snd (bind_eff m k s))"
  by (rule kept_bind_same) (rule assms)+

lemma kept_settings:
  "mock_kept D s (s\<lparr>kb_custom_kinds := ck\<rparr>)" "mock_kept D s (s\<lparr>kb_create_hooks := hk\<rparr>)" "mock_kept D s (s\<lparr>kb_nodes := nd\<rparr>)"
  "mock_kept D s (s\<lparr>kb_initial_pod_phase := ph\<rparr>)"
  by (rule kept_unseen; simp add: kind_at_def)+

lemma custom_namespace_keeps:
  assumes "kube_inv D s" "custom_at a s"
  shows "mock_kept D s (snd (custom_namespace a ns s)) \<and> custom_at a (snd (custom_namespace a ns s))"
proof -
  have "snd (custom_namespace a ns s) = s \<or> (\<exists>d. snd (custom_namespace a ns s) = s\<lparr>kb_heap := (kb_heap s)(a := Custom d)\<rparr>)"
    by (auto simp: custom_namespace_def the_dict_def get_heap_def put_heap_def kube_assert_def eff_simps Let_def
        split: kube_object.splits sum.splits json.splits)
  moreover have "owned D a s (s\<lparr>kb_heap := (kb_heap s)(a := Custom d)\<rparr>)" for d
    using assms(2) by (intro owned_heap [OF custom_free [OF assms]]) (auto simp: custom_at_def kind_at_def)
  ultimately show ?thesis using assms(2) by (auto simp: owned_def custom_at_def)
qed

lemma kept_create_custom:
  assumes env: "env_ok D env" and a: "custom_at a s"
  shows "mock_kept D s (snd (create_namespaced_custom_object env grp version ns plural a s))"
  unfolding create_namespaced_custom_object_def Let_def
proof (rule kept_maybe [OF env], rule kept_custom_same [OF the_dict_state], rule kept_custom_same [OF check_api_version_state],
    rule kept_custom_same, rule bind_lift_state, rule lift_state)
  fix kind
  let ?key = "custom_key grp version plural"
  have store: "mock_kept D t (snd (bind_eff (the_dict a) (\<lambda>d.
     bind_eff (bind_eff (lift_eff (metadata_get ''name'' d)) (\<lambda>n. lift_eff (json_string n))) (\<lambda>name.
     store_object env ns ?key (Some name) a False)) t))" if "custom_at a t" for t
  proof (rule kept_custom_same [OF the_dict_state], rule kept_custom_same, rule bind_lift_state, rule lift_state, rule kept_inv)
    assume "kube_inv D t"
    from custom_free [OF this that] show "mock_kept D t (snd (store_object env ns ?key (Some name) a False t))" for name
      by (rule kept_custom_store [OF env _ custom_key_slash])
  qed
  show "mock_kept D s (snd (bind_eff (\<lambda>s. case map_of (kb_custom_kinds s) kind of
         Some known \<Rightarrow> kube_assert (?key = known) s
       | None \<Rightarrow> (Inr (), s\<lparr>kb_custom_kinds := AList.update kind ?key (kb_custom_kinds s)\<rparr>)) (\<lambda>_.
     bind_eff (custom_namespace a ns) (\<lambda>_. bind_eff (the_dict a) (\<lambda>d.
     bind_eff (bind_eff (lift_eff (metadata_get ''name'' d)) (\<lambda>n. lift_eff (json_string n))) (\<lambda>name.
     store_object env ns ?key (Some name) a False)))) s))"
  proof (rule kept_custom_then [OF a])
    show "mock_kept D t (snd (case map_of (kb_custom_kinds t) kind of Some known \<Rightarrow> kube_assert (?key = known) t
        | None \<Rightarrow> (Inr (), t\<lparr>kb_custom_kinds := AList.update kind ?key (kb_custom_kinds t)\<rparr>))) \<and>
      custom_at a (snd (case map_of (kb_custom_kinds t) kind of Some known \<Rightarrow> kube_assert (?key = known) t
        | None \<Rightarrow> (Inr (), t\<lparr>kb_custom_kinds := AList.update kind ?key (kb_custom_kinds t)\<rparr>)))" if "custom_at a t" for t
      using that kept_settings(1) by (auto simp: kube_assert_state custom_at_def split: option.split)
    show "mock_kept D t (snd (bind_eff (custom_namespace a ns) (\<lambda>_. bind_eff (the_dict a) (\<lambda>d.
     bind_eff (bind_eff (lift_eff (metadata_get ''name'' d)) (\<lambda>n. lift_eff (json_string n))) (\<lambda>name.
     store_object env ns ?key (Some name) a False))) t))" if "custom_at a t" for t
      by (rule kept_custom_then [OF that custom_namespace_keeps store])
  qed
qed

lemma kept_delete_custom:
  assumes "env_ok D env"
  shows "mock_kept D s (snd (delete_namespaced_custom_object env grp version ns plural name policy s))"
proof -
  have "custom_key grp version plural \<noteq> ''Namespace''" using custom_key_slash [of grp version plural] by auto
  then show ?thesis unfolding delete_namespaced_custom_object_def
    by (rule kept_maybe [OF assms kept_delete_object])
qed

lemma kept_replace_custom:
  assumes env: "env_ok D env" and a: "custom_at a s"
  shows "mock_kept D s (snd (replace_namespaced_custom_object env grp version ns plural name a s))"
  unfolding replace_namespaced_custom_object_def Let_def
proof (rule kept_maybe [OF env], rule kept_custom_same [OF the_dict_state], rule kept_custom_same [OF check_api_version_state],
    rule kept_custom_same, rule bind_lift_state, rule lift_state, rule kept_custom_same)
  show "snd (case map_of (kb_custom_kinds t) kind of None \<Rightarrow> (Inl (KubeKeyError kind), t)
      | Some known \<Rightarrow> kube_assert (custom_key grp version plural = known) t) = t" for t kind
    by (auto simp: kube_assert_state split: option.split)
  fix d
  show "mock_kept D s (snd (bind_eff (bind_eff (lift_eff (metadata_get ''namespace'' d)) (\<lambda>n. kube_assert (n = JStr ns))) (\<lambda>_.
     store_object env ns (custom_key grp version plural) (Some name) a True) s))"
  proof (rule kept_custom_same, rule bind_lift_state, rule kube_assert_state, rule kept_inv)
    assume "kube_inv D s"
    from custom_free [OF this a] show "mock_kept D s (snd (store_object env ns (custom_key grp version plural) (Some name) a True s))"
      by (rule kept_custom_store [OF env _ custom_key_slash])
  qed
qed

lemma custom_change_owned:
  assumes "free t b"
  shows "owned D b t (snd (custom_change c b t))"
proof -
  have "snd (custom_change c b t) = t \<or> (\<exists>d d'. kb_heap t b = Custom d \<and> snd (custom_change c b t) = t\<lparr>kb_heap := (kb_heap t)(b := Custom d')\<rparr>)"
    by (auto simp: custom_change_def change_op_def change_path_def kube_assert_def the_dict_def get_heap_def put_heap_def eff_simps
        split: kube_object.splits sum.splits if_splits)
  moreover have "owned D b t (t\<lparr>kb_heap := (kb_heap t)(b := Custom d')\<rparr>)" if "kb_heap t b = Custom d" for d d'
    using that by (intro owned_heap [OF assms]) (simp add: kind_at_def)
  ultimately show ?thesis using owned_same [OF assms] by auto
qed

lemma kept_patch_custom:
  assumes env: "env_ok D env"
  shows "mock_kept D s (snd (patch_namespaced_custom_object_status env grp version ns plural name body s))"
  unfolding patch_namespaced_custom_object_status_def Let_def
proof (rule kept_maybe [OF env], rule kept_bind_same [OF get_object_state])
  fix a
  let ?key = "custom_key grp version plural"
  let ?k = "\<lambda>b. bind_eff (patch_each custom_change body b) (\<lambda>_. bind_eff (store_object env ns ?key (Some name) b True) (\<lambda>_. ret_eff b))"
  have "mock_kept D s (snd (bind_eff (kube_alloc (kb_heap s a)) ?k s))"
  proof (rule kept_alloc_then)
    fix t b
    assume t: "free t b"
    let ?u = "snd (patch_each custom_change body b t)"
    have u: "owned D b t ?u"
      using patch_each_keeps [where P = "\<lambda>_. True" and D = D and change = custom_change and body = body, OF _ t] custom_change_owned by blast
    then have "free ?u b" by (simp add: owned_def)
    note store = kept_custom_store [OF env this custom_key_slash]
    show "mock_kept D t (snd (?k b t))"
      by (rule kept_bind, use u in \<open>simp add: owned_def\<close>, rule kept_bind, rule store, simp add: ret_eff_apply)
  qed
  moreover have "bind_eff (deepcopy a) ?k s = bind_eff (kube_alloc (kb_heap s a)) ?k s"
    by (simp add: bind_eff_apply deepcopy_def get_heap_def eff_simps)
  ultimately show "mock_kept D s (snd (bind_eff (deepcopy a) ?k s))" by simp
qed

end
