(* ===== verification/KubeWatch.thy ===== *)
theory KubeWatch
  imports KubeMethods
begin

text \<open>
  Watches of the Kubernetes mock (\<open>_EventStream.build_watch_response\<close>, src/src/safir/testing/kubernetes/_mock.py), runs of the mock by any
  clients, and what a client that lists and then watches knows.
\<close>

subsection \<open>Watchers\<close>

text \<open>
  Reading the first line starts the watch: only then the resource version is read, the size of the queue taken and
  the reader of the queue made, whose number is the result.  A negative start counts from the end of the queue.
\<close>

definition start_position :: "kube_watcher \<Rightarrow> kube_event mqueue \<Rightarrow> int option" where
  "start_position w q = (case kw_resource_version w of
     None \<Rightarrow> Some (mq_qsize q)
   | Some v \<Rightarrow> if v = [] then Some (mq_qsize q) else py_int v)"

definition start_watch :: "kube_watcher \<Rightarrow> nat kube_eff" where
  "start_watch w = (\<lambda>s. let q = kb_streams s (kw_stream w) in case start_position w q of
     None \<Rightarrow> (Inl (KubeValueError (the (kw_resource_version w))), s)
   | Some n \<Rightarrow>
       (let start = (if n < 0 then max 0 (int (length (cur_list q)) + n) else n);
            timeout = map_option (\<lambda>t. 1000000 * t) (kw_timeout_seconds w)
        in case mq_aiter_from (nat start) timeout q of
             (r, q) \<Rightarrow> (Inr r, s\<lparr>kb_streams := (kb_streams s)(kw_stream w := q)\<rparr>)))"

text \<open>\<open>event["object"]["metadata"][key]\<close>, where the dictionary of a model has all attributes.\<close>

definition event_meta :: "kube \<Rightarrow> string \<Rightarrow> (kube_meta \<Rightarrow> json) \<Rightarrow> kube_event_object \<Rightarrow> kube_exc + json" where
  "event_meta s key attr ob = (case ob of
     Snapshot m \<Rightarrow> Inr (attr (ko_metadata m))
   | Live a \<Rightarrow> (case kb_heap s a of Custom d \<Rightarrow> metadata_get key d | Model _ \<Rightarrow> Inl KubeTypeError))"

definition name_json :: "kube_meta \<Rightarrow> json" where
  "name_json m = (case km_name m of None \<Rightarrow> JNull | Some n \<Rightarrow> JStr n)"

text \<open>Whether a watcher passes an event on.\<close>

definition watch_selects :: "kube \<Rightarrow> kube_watcher \<Rightarrow> kube_event \<Rightarrow> kube_exc + bool" where
  "watch_selects s w ev =
     (let by_labels = (case event_meta s ''labels'' km_labels (snd ev) of
            Inl e \<Rightarrow> Inl e | Inr labels \<Rightarrow> check_labels labels (kw_label_selector w))
      in case kw_name w of
           None \<Rightarrow> by_labels
         | Some n \<Rightarrow> (case event_meta s ''name'' name_json (snd ev) of
               Inl e \<Rightarrow> Inl e
             | Inr v \<Rightarrow> if v \<noteq> JStr n then Inr False else by_labels))"

text \<open>
  The lines a watcher gives for the events its reader has yielded, and the exception that ended it; \<open>None\<close> is the
  empty line at the timeout.
\<close>

fun watch_events :: "kube \<Rightarrow> kube_watcher \<Rightarrow> kube_event list \<Rightarrow> kube_event list \<times> kube_exc option" where
  "watch_events s w [] = ([], None)"
| "watch_events s w (ev # evs) = (case watch_selects s w ev of
     Inl e \<Rightarrow> ([], Some e)
   | Inr b \<Rightarrow> (case watch_events s w evs of (lines, e) \<Rightarrow> (if b then ev # lines else lines, e)))"

definition watch_lines :: "kube \<Rightarrow> kube_watcher \<Rightarrow> nat \<Rightarrow> kube_event option list \<times> kube_exc option" where
  "watch_lines s w r = (case mq_readers (kb_streams s (kw_stream w)) r of
     None \<Rightarrow> ([], None)
   | Some rd \<Rightarrow> (case watch_events s w (rd_out rd) of (lines, e) \<Rightarrow>
       (map Some lines @ (if e = None \<and> rd_pc rd = TimedOut then [None] else []), e)))"

subsection \<open>Runs\<close>

text \<open>The methods that create, delete and patch objects of a namespace.\<close>

definition kube_creates :: "kube_env \<Rightarrow> (string \<Rightarrow> nat \<Rightarrow> unit kube_eff) set" where
  "kube_creates env = {create_namespaced_config_map env, create_namespaced_event env, create_namespaced_ingress env,
     create_namespaced_job env, create_namespaced_network_policy env, create_namespaced_persistent_volume_claim env,
     create_namespaced_pod env, create_namespaced_resource_quota env, create_namespaced_secret env,
     create_namespaced_service env, create_namespaced_service_account env}"

definition kube_deletes :: "kube_env \<Rightarrow> (string \<Rightarrow> string \<Rightarrow> string \<Rightarrow> int kube_eff) set" where
  "kube_deletes env = {delete_namespaced_config_map env, delete_namespaced_ingress env, delete_namespaced_job env,
     delete_namespaced_persistent_volume_claim env, delete_namespaced_pod env, delete_namespaced_service env,
     delete_namespaced_service_account env}"

definition kube_patches :: "kube_env \<Rightarrow> (string \<Rightarrow> string \<Rightarrow> json list \<Rightarrow> nat kube_eff) set" where
  "kube_patches env = {patch_namespaced_secret env, patch_namespaced_ingress_status env, patch_namespaced_pod_status env}"

text \<open>
  What clients may do: call the methods with objects of their own, make and change such objects, replace a secret
  they have read and changed, delete a namespace of \<open>D\<close>, and watch.  Methods that read change nothing.
\<close>

inductive kube_step :: "string set \<Rightarrow> kube_env \<Rightarrow> kube \<Rightarrow> kube \<Rightarrow> bool" for D env where
  new: "kube_step D env s (snd (kube_alloc ob s))"
| change: "free s a \<Longrightarrow> kube_step D env s (s\<lparr>kb_heap := (kb_heap s)(a := ob)\<rparr>)"
| create: "free s a \<Longrightarrow> create \<in> kube_creates env \<Longrightarrow> kube_step D env s (snd (create ns a s))"
| create_ns: "free s a \<Longrightarrow> kube_step D env s (snd (create_namespace env a s))"
| create_pv: "free s a \<Longrightarrow> kube_step D env s (snd (create_persistent_volume env a s))"
| create_custom: "custom_at a s \<Longrightarrow> kube_step D env s (snd (create_namespaced_custom_object env grp version ns plural a s))"
| replace_custom: "custom_at a s \<Longrightarrow> kube_step D env s (snd (replace_namespaced_custom_object env grp version ns plural name a s))"
| patch_custom: "kube_step D env s (snd (patch_namespaced_custom_object_status env grp version ns plural name body s))"
| delete_custom: "kube_step D env s (snd (delete_namespaced_custom_object env grp version ns plural name policy s))"
| delete: "delete \<in> kube_deletes env \<Longrightarrow> kube_step D env s (snd (delete name ns policy s))"
| delete_pv: "kube_step D env s (snd (delete_persistent_volume env name policy s))"
| delete_ns: "n \<in> D \<Longrightarrow> kube_step D env s (snd (delete_namespace env n s))"
| patch: "patch \<in> kube_patches env \<Longrightarrow> kube_step D env s (snd (patch name ns body s))"
| replace: "replaces (NamespacedStream ns ''Secret'') name a m s \<Longrightarrow> t = s\<lparr>kb_heap := (kb_heap s)(a := Model m)\<rparr> \<Longrightarrow>
    fst (maybe_error env ''replace_namespaced_secret'' [ArgStr ns, ArgObject a] t) = Inr () \<Longrightarrow>
    kube_step D env s (snd (replace_namespaced_secret env name ns a t))"
| hook: "kube_step D env s (snd (register_create_hook_for_test kind h s))"
| nodes: "kube_step D env s (snd (set_nodes_for_test nds s))"
| phase: "kube_step D env s (s\<lparr>kb_initial_pod_phase := ph\<rparr>)"
| watch: "start_watch w s = (r, s') \<Longrightarrow> kube_step D env s s'"
| reader: "reader_moves (kb_streams s st) q \<Longrightarrow> kube_step D env s (s\<lparr>kb_streams := (kb_streams s)(st := q)\<rparr>)"
| tick: "0 \<le> d \<Longrightarrow> kube_step D env s (s\<lparr>kb_streams := (\<lambda>st. (kb_streams s st)\<lparr>mq_now := mq_now (kb_streams s st) + d\<rparr>)\<rparr>)"

definition kube_reach :: "string set \<Rightarrow> kube_env \<Rightarrow> kube \<Rightarrow> bool" where
  "kube_reach D env s \<longleftrightarrow> (\<exists>h n t. (kube_step D env)\<^sup>*\<^sup>* (new_kube h n t) s)"

lemmas kind_creates = create_namespaced_config_map_def create_namespaced_network_policy_def
  create_namespaced_persistent_volume_claim_def create_namespaced_resource_quota_def create_namespaced_secret_def
  create_namespaced_service_def create_namespaced_service_account_def

lemmas kind_deletes = delete_namespaced_config_map_def delete_namespaced_ingress_def
  delete_namespaced_persistent_volume_claim_def delete_namespaced_pod_def delete_namespaced_service_def
  delete_namespaced_service_account_def

lemmas kind_patches = patch_namespaced_secret_def patch_namespaced_ingress_status_def patch_namespaced_pod_status_def

lemma kept_creates: "env_ok D env \<Longrightarrow> free s a \<Longrightarrow> create \<in> kube_creates env \<Longrightarrow> mock_kept D s (snd (create ns a s))"
  by (auto simp: kube_creates_def kind_creates kept_create_kind kept_create_event kept_create_ingress kept_create_job kept_create_pod)

lemma kept_deletes: "env_ok D env \<Longrightarrow> delete \<in> kube_deletes env \<Longrightarrow> mock_kept D s (snd (delete name ns policy s))"
  by (auto simp: kube_deletes_def kind_deletes kept_delete_kind kept_delete_job)

lemma kept_patches: "env_ok D env \<Longrightarrow> patch \<in> kube_patches env \<Longrightarrow> mock_kept D s (snd (patch name ns body s))"
  by (auto simp: kube_patches_def kind_patches intro!: kept_patch_kind secret_patch_ok status_patch_ok status_change_cases)

lemma kept_replace_secret:
  assumes env: "env_ok D env" and r: "replaces (NamespacedStream ns ''Secret'') name a m s"
    and t: "t = s\<lparr>kb_heap := (kb_heap s)(a := Model m)\<rparr>"
    and ok: "fst (maybe_error env ''replace_namespaced_secret'' [ArgStr ns, ArgObject a] t) = Inr ()"
  shows "mock_kept D s (snd (replace_namespaced_secret env name ns a t))"
proof -
  have "maybe_error env ''replace_namespaced_secret'' [ArgStr ns, ArgObject a] t = (Inr (), t)"
    using ok maybe_error_same [OF env] by (metis prod.collapse)
  then show ?thesis using kept_replace [OF env r] by (simp add: replace_namespaced_secret_def bind_eff_apply t)
qed

text \<open>A step keeps the invariant and only adds to the streams.\<close>

definition step_kept :: "string set \<Rightarrow> kube \<Rightarrow> kube \<Rightarrow> bool" where
  "step_kept D s s' \<longleftrightarrow> (kube_inv D s \<longrightarrow> kube_inv D s' \<and> (\<forall>st. grows (kb_streams s st) (kb_streams s' st)))"

lemma kept_step: "mock_kept D s s' \<Longrightarrow> step_kept D s s'"
  by (simp add: mock_kept_def step_kept_def)

lemma step_kept_heap: "free s a \<Longrightarrow> step_kept D s (s\<lparr>kb_heap := (kb_heap s)(a := ob)\<rparr>)"
proof -
  assume f: "free s a"
  let ?s = "s\<lparr>kb_heap := (kb_heap s)(a := ob)\<rparr>"
  have "kube_inv D ?s" if inv: "kube_inv D s"
  proof (rule kube_inv_unseen [OF inv])
    show "objects_of ?s st = objects_of s st" for st by (rule objects_of_cong) simp_all
    show "the_view (stream_key st) (kb_heap ?s b) = the_view (stream_key st) (kb_heap s b) \<and> (\<exists>m'. kb_heap ?s b = Model m' \<and> meta_ok st name m')"
      if "plain st" "objects_of s st name = Some b" "kb_heap s b = Model m" "meta_ok st name m" for st name b m
      using that stored_objects [of s a st name b] f by (simp add: free_def)
  qed (use kube_invD [OF inv] in simp_all)
  then show ?thesis by (simp add: step_kept_def)
qed

lemma step_kept_streams:
  assumes "\<And>st. stream_ok (kb_streams s st) \<Longrightarrow> stream_ok (q st) \<and> stream_items (q st) = stream_events s st \<and> grows (kb_streams s st) (q st)"
  shows "step_kept D s (s\<lparr>kb_streams := q\<rparr>)"
  unfolding step_kept_def
proof (intro impI conjI allI)
  assume inv: "kube_inv D s"
  note ok = assms [OF kube_invD(1) [OF inv]]
  show "kube_inv D (s\<lparr>kb_streams := q\<rparr>)"
  proof (rule kube_inv_unseen [OF inv])
    show "stream_ok (kb_streams (s\<lparr>kb_streams := q\<rparr>) st) \<and> versions_ok (stream_events (s\<lparr>kb_streams := q\<rparr>) st) \<and>
        (plain st \<longrightarrow> stream_events (s\<lparr>kb_streams := q\<rparr>) st = stream_events s st)" for st
      using ok [of st] kube_invD(2) [OF inv, of st] by simp
    show "objects_of (s\<lparr>kb_streams := q\<rparr>) st = objects_of s st" for st by (rule objects_of_cong) simp_all
  qed (use kube_invD [OF inv] in simp_all)
  show "grows (kb_streams s st) (kb_streams (s\<lparr>kb_streams := q\<rparr>) st)" for st using ok by simp
qed

lemma start_watch_state:
  assumes "start_watch w s = (r, s')"
  shows "s' = s \<or> (\<exists>n d i q. mq_aiter_from n d (kb_streams s (kw_stream w)) = (i, q) \<and> s' = s\<lparr>kb_streams := (kb_streams s)(kw_stream w := q)\<rparr>)"
  using assms by (auto simp: start_watch_def Let_def split: option.splits prod.splits)

lemma step_kept_watch: "start_watch w s = (r, s') \<Longrightarrow> step_kept D s s'"
proof -
  assume "start_watch w s = (r, s')"
  then consider "s' = s" | n d i q where "mq_aiter_from n d (kb_streams s (kw_stream w)) = (i, q)" "s' = s\<lparr>kb_streams := (kb_streams s)(kw_stream w := q)\<rparr>"
    using start_watch_state by blast
  then show ?thesis
  proof cases
    case 2
    show ?thesis unfolding 2(2)
      by (rule step_kept_streams) (use stream_aiter [OF _ 2(1)] grows_aiter [OF _ 2(1)] in auto)
  qed (simp add: step_kept_def)
qed

lemma kube_step_kept:
  assumes "kube_step D env s s'" "env_ok D env"
  shows "step_kept D s s'"
  using assms
proof (induction rule: kube_step.induct)
  case (change s a ob)
  then show ?case by (intro step_kept_heap)
next
  case (watch w s r s')
  then show ?case by (intro step_kept_watch)
next
  case (reader s st q)
  then show ?case using stream_reader grows_reader by (intro step_kept_streams) (auto split: if_splits)
next
  case (tick d s)
  then show ?case using stream_tick grows_tick by (intro step_kept_streams) auto
next
  case (create s a create ns)
  then show ?case by (intro kept_step kept_creates)
next
  case (delete delete s name ns policy)
  then show ?case by (intro kept_step kept_deletes)
next
  case (patch patch s name ns body)
  then show ?case by (intro kept_step kept_patches)
next
  case (replace ns name a m s t)
  then show ?case by (intro kept_step kept_replace_secret)
qed (auto intro!: kept_step kept_alloc kept_create_namespace kept_create_volume kept_create_custom kept_replace_custom
    kept_patch_custom kept_delete_custom kept_delete_volume kept_delete_namespace
    kept_settings simp: register_create_hook_for_test_def set_nodes_for_test_def modify_eff_apply)

lemma kube_run_kept: "(kube_step D env)\<^sup>*\<^sup>* s s' \<Longrightarrow> env_ok D env \<Longrightarrow> step_kept D s s'"
proof (induction rule: rtranclp_induct)
  case base
  then show ?case by (simp add: step_kept_def)
next
  case (step s' s'')
  then show ?case using kube_step_kept [OF step.hyps(2)] grows_trans unfolding step_kept_def by meson
qed

lemma kube_reach_inv: "kube_reach D env s \<Longrightarrow> env_ok D env \<Longrightarrow> kube_inv D s"
  using kube_run_kept kube_inv_new unfolding kube_reach_def step_kept_def by blast


subsection \<open>Replay from a list\<close>

text \<open>The last event of a name decides what a replay gives for it.\<close>

lemma replay_last: "(\<forall>t. replay evs t name = t name) \<or> (\<exists>c. \<forall>t. replay evs t name = c)"
proof (induction evs)
  case Nil
  then show ?case by simp
next
  case (Cons ev evs)
  obtain act ob where ev: "ev = (act, ob)" by (cases ev)
  show ?case using Cons.IH by (cases ob) (auto simp: ev)
qed

lemma replay_cong:
  "map_option f (t name) = map_option f (t' name) \<Longrightarrow> map_option f (replay evs t name) = map_option f (replay evs t' name)"
  using replay_last [of evs name] by (elim disjE exE) simp_all

text \<open>A replay may begin anywhere before the list was made: what the list shows already is shown again.\<close>

lemma replay_overlap:
  assumes "map_option f (listed name) = map_option f (replay (before @ again) Map.empty name)"
  shows "map_option f (replay (again @ later) listed name) = map_option f (replay (before @ again @ later) Map.empty name)"
proof -
  have "map_option f (replay again listed name) = map_option f (replay again (replay before Map.empty) name)"
    using replay_last [of again name]
  proof (elim disjE exE)
    assume "\<forall>t. replay again t name = t name"
    then show ?thesis using assms by simp
  qed simp
  then show ?thesis using replay_cong by simp
qed

lemma replay_selected:
  "list_all is_snapshot evs \<Longrightarrow>
    replay (filter (\<lambda>ev. event_name ev = name) evs) t name = replay evs t name"
  if event_name: "\<And>act m. event_name (act, Snapshot m) = km_name (ko_metadata m)"
proof (induction evs arbitrary: t)
  case Nil
  then show ?case by simp
next
  case (Cons ev evs)
  obtain act m where ev: "ev = (act, Snapshot m)" using Cons.prems by (cases ev rule: is_snapshot.cases) auto
  have c: "replay xs t name = replay xs t' name" if "t name = t' name" for xs t t'
    using replay_last [of xs name] that by (elim disjE exE) simp_all
  show ?case
  proof (cases "km_name (ko_metadata m) = name")
    case False
    then show ?thesis using Cons c [of t "apply_event (act, Snapshot m) t" evs] by (auto simp: ev event_name)
  qed (use Cons in \<open>simp add: ev event_name\<close>)
qed

lemma replay_origin: "list_all is_snapshot evs \<Longrightarrow> replay evs Map.empty name = Some m \<Longrightarrow>
    \<exists>i < length evs. \<exists>act. evs ! i = (act, Snapshot m) \<and> act \<noteq> ''DELETED''"
proof (induction evs arbitrary: m rule: rev_induct)
  case (snoc ev evs)
  obtain act m' where ev: "ev = (act, Snapshot m')" using snoc.prems by (cases ev rule: is_snapshot.cases) auto
  show ?case
  proof (cases "km_name (ko_metadata m') = name")
    case True
    then show ?thesis using snoc.prems by (intro exI [of _ "length evs"]) (auto simp: ev split: if_splits)
  next
    case False
    then obtain i act' where "i < length evs" "evs ! i = (act', Snapshot m)" "act' \<noteq> ''DELETED''"
      using snoc by (auto simp: ev)
    then show ?thesis by (intro exI [of _ i]) (simp add: nth_append)
  qed
qed simp

subsection \<open>What a watcher gives\<close>

definition event_name :: "kube_event \<Rightarrow> string option" where
  "event_name ev = (case snd ev of Snapshot m \<Rightarrow> km_name (ko_metadata m) | Live _ \<Rightarrow> None)"

lemma watch_events_selected:
  assumes "list_all is_snapshot evs" "kw_label_selector w = None"
  shows "watch_events s w evs =
    (case kw_name w of None \<Rightarrow> evs | Some n \<Rightarrow> filter (\<lambda>ev. event_name ev = Some n) evs, None)"
  using assms(1)
proof (induction evs)
  case Nil
  then show ?case by (simp split: option.split)
next
  case (Cons ev evs)
  obtain act m where ev: "ev = (act, Snapshot m)" using Cons.prems by (cases ev rule: is_snapshot.cases) auto
  have "watch_selects s w ev = Inr (case kw_name w of None \<Rightarrow> True | Some n \<Rightarrow> event_name ev = Some n)"
    using assms(2)
    by (simp add: watch_selects_def ev event_meta_def check_labels_def name_json_def event_name_def split: option.split)
  then show ?case using Cons by (simp split: option.split)
qed

text \<open>The objects a list of the stream's table gives, by their names.\<close>

definition kube_listed :: "kube \<Rightarrow> kube_stream \<Rightarrow> string option \<Rightarrow> kube_model option" where
  "kube_listed s st name = (case objects_of s st name of
     None \<Rightarrow> None
   | Some a \<Rightarrow> (case kb_heap s a of Model m \<Rightarrow> Some m | Custom _ \<Rightarrow> None))"

lemma kube_view_listed: "kube_view s st name = map_option (model_view (stream_key st)) (kube_listed s st name)"
  by (simp add: kube_view_def kube_listed_def the_view_def split: option.split kube_object.split)

lemma model_view_meta: "model_view key m = model_view key m' \<Longrightarrow> ko_metadata m = ko_metadata m'"
  by (auto simp: model_view_def split: if_splits dest: arg_cong [where f = ko_metadata])

text \<open>The version of a stored object is the place of an event of the stream.\<close>

lemma listed_version:
  assumes inv: "kube_inv D s" and st: "plain st" and m: "kube_listed s st name = Some m"
  shows "\<exists>i < length (stream_events s st). km_resource_version (ko_metadata m) = Some (int_str (int i + 1))"
proof -
  have c: "list_all is_snapshot (stream_events s st)"
    "kube_view s st name = Some m' \<Longrightarrow> replayed st (stream_events s st) name = Some m'" for m'
    using kube_invD(4) [OF inv] st unfolding coherent_def by blast+
  have "replayed st (stream_events s st) name = Some (model_view (stream_key st) m)"
    using c(2) by (simp add: kube_view_listed m)
  then obtain m' where m': "replay (stream_events s st) Map.empty name = Some m'" "model_view (stream_key st) m' = model_view (stream_key st) m"
    by (auto simp: replayed_def)
  obtain i act where "i < length (stream_events s st)" "stream_events s st ! i = (act, Snapshot m')" "act \<noteq> ''DELETED''"
    using replay_origin [OF c(1) m'(1)] by blast
  moreover from this have "km_resource_version (ko_metadata m') = Some (int_str (int i + 1))"
    using kube_invD(2) [OF inv, of st] unfolding versions_ok_def by blast
  ultimately show ?thesis using model_view_meta [OF m'(2)] by auto
qed

lemma start_watch_position:
  assumes "start_watch w s = (Inr r, s')" "kw_resource_version w = Some (int_str (int n))"
  shows "\<exists>rd. mq_readers (kb_streams s' (kw_stream w)) r = Some rd \<and> rd_start rd = n"
  using assms by (auto simp: start_watch_def start_position_def mq_aiter_from_def Let_def split: if_splits)

lemma reader_reads_all:
  assumes ok: "stream_ok q" and rd: "mq_readers q r = Some rd" "rd_pc rd = Waiting" "\<not> mq_set q r"
  shows "rd_out rd = drop (rd_start rd) (stream_items q)"
proof -
  have inv: "mq_inv q" using ok by (simp add: stream_ok_def)
  have "rd_list rd = 0" using mq_invD(5) [OF inv rd(1)] ok by (simp add: stream_ok_def)
  moreover have "reader_step r q = None" using rd by (simp add: reader_step_def)
  ultimately show ?thesis
    using stuck_reader [OF inv rd(1)] rd(2) stream_list [OF ok] by (simp add: drop_map)
qed


text \<open>A reader of a stream that is scheduled on its own comes to wait for more.\<close>

lemma reader_settles:
  assumes ok: "stream_ok q" and rd: "mq_readers q r = Some rd" "rd_pc rd = Created" and n: "n = length (cur_list q) + 5"
  shows "\<exists>rd'. mq_readers (run_reader n r q) r = Some rd' \<and> rd_pc rd' = Waiting \<and> \<not> mq_set (run_reader n r q) r"
proof -
  have inv: "mq_inv q" and c: "mq_contents q = 0" using ok by (simp_all add: stream_ok_def)
  have l: "rd_list rd = 0" using mq_invD(5) [OF inv rd(1)] ok by (simp add: stream_ok_def)
  have stop: "reader_step r (run_reader n r q) = None"
    by (rule run_reader_stops) (use rank_bound [OF inv rd(1)] n l c in simp)
  obtain rd' where rd': "mq_readers (run_reader n r q) r = Some rd'" "rd_list rd' = rd_list rd"
      and ls: "mq_lists (run_reader n r q) = mq_lists q"
    using run_reader_frame [OF rd(1)] by blast
  have pc: "rd_pc rd' \<notin> {TimedOut, Closed}" using run_reader_stop [OF rd(1) _ rd'(1)] rd(2) by simp
  have "rd_pc rd' \<noteq> Returned"
  proof
    assume "rd_pc rd' = Returned"
    then show False using mq_invD(6) [OF run_reader_inv [OF inv] rd'(1)] rd'(2) ls l ok by (simp add: rd_ok_def stream_ok_def)
  qed
  then have "rd_pc rd' = Waiting \<and> \<not> mq_set (run_reader n r q) r"
    using stop rd'(1) pc by (auto simp: reader_step_def Let_def split: reader_pc.splits list.splits cell.splits if_splits)
  then show ?thesis using rd'(1) by blast
qed

lemma kube_run_reader:
  "(kube_step D env)\<^sup>*\<^sup>* s (s\<lparr>kb_streams := (kb_streams s)(st := run_reader n r (kb_streams s st))\<rparr>)"
proof (induction n arbitrary: s)
  case 0
  then show ?case by simp
next
  case (Suc n)
  show ?case
  proof (cases "reader_step r (kb_streams s st)")
    case (Some q)
    let ?t = "s\<lparr>kb_streams := (kb_streams s)(st := q)\<rparr>"
    have "kube_step D env s ?t" using Some by (intro kube_step.reader) (auto simp: reader_moves_def)
    then show ?thesis using Suc.IH [of ?t] Some by (simp cong: if_cong)
  qed simp
qed

lemma replay_from_list:
  assumes inv: "kube_inv D s0" "kube_inv D s1" and st: "plain st" "\<not> lossy D st"
    and more: "prefix (stream_events s0 st) (stream_events s1 st)" and n: "n \<le> length (stream_events s0 st)"
  shows "map_option (model_view (stream_key st)) (replay (drop n (stream_events s1 st)) (kube_listed s0 st) name) = kube_view s1 st name"
proof -
  obtain later where e: "stream_events s1 st = stream_events s0 st @ later" using more by (auto elim: prefixE)
  have c: "map_option (model_view (stream_key st)) (replay (stream_events s st) Map.empty name) = kube_view s st name" if "kube_inv D s" for s
  proof -
    have "replayed st (stream_events s st) = kube_view s st" using kube_invD(4) [OF that] st unfolding coherent_def by blast
    then show ?thesis by (metis replayed_def)
  qed
  have "map_option (model_view (stream_key st)) (kube_listed s0 st name) =
      map_option (model_view (stream_key st)) (replay (take n (stream_events s0 st) @ drop n (stream_events s0 st)) Map.empty name)"
    using c [OF inv(1)] by (simp add: kube_view_listed)
  from replay_overlap [where f = "model_view (stream_key st)" and listed = "kube_listed s0 st" and name = name and later = later, OF this] show ?thesis
    using c [OF inv(2)] n by (simp add: e flip: append_assoc)
qed

lemma watch_lines_waiting:
  assumes "mq_readers (kb_streams s (kw_stream w)) r = Some rd" "rd_pc rd = Waiting" "watch_events s w (rd_out rd) = (evs, None)"
  shows "watch_lines s w r = (map Some evs, None)"
  using assms by (simp add: watch_lines_def)

subsection \<open>Properties\<close>

lemma zero_str: "int_str 0 = ''0''"
  by code_simp

text \<open>A mock without injected errors and hooks that has stored a secret, and a client that watches after a list.\<close>

definition demo_kube_env :: kube_env where
  "demo_kube_env = \<lparr>ke_error_callback = None, ke_hook = (\<lambda>_ _. ret_eff ()), ke_now = 0, ke_random = []\<rparr>"

definition demo_secret :: kube_model where
  "demo_secret = \<lparr>ko_api_version = None, ko_kind = None, ko_metadata = empty_meta\<lparr>km_name := Some ''token''\<rparr>, ko_status = NoStatus,
     ko_template = None, ko_content = JNull\<rparr>"

definition demo_kube :: kube where
  "demo_kube = snd (create_namespaced_secret demo_kube_env ''ns'' 0 (new_kube (\<lambda>_. Model demo_secret) 1 0))"

definition demo_watcher :: kube_watcher where
  "demo_watcher = \<lparr>kw_stream = NamespacedStream ''ns'' ''Secret'', kw_resource_version = Some (int_str 1), kw_timeout_seconds = None,
     kw_name = Some ''token'', kw_label_selector = None\<rparr>"

definition demo_patched :: kube where
  "demo_patched = snd (patch_namespaced_secret demo_kube_env ''token'' ''ns''
     [JObj [(''op'', JStr ''replace''), (''path'', JStr ''/metadata/labels''), (''value'', JObj [(''a'', JStr ''b'')])]] demo_kube)"

definition demo_watching :: kube where
  "demo_watching = snd (start_watch demo_watcher demo_patched)"

definition demo_watch_waiting :: "nat \<Rightarrow> kube" where
  "demo_watch_waiting r = (let st = kw_stream demo_watcher; q = kb_streams demo_watching st
     in demo_watching\<lparr>kb_streams := (kb_streams demo_watching)(st := run_reader (length (cur_list q) + 5) r q)\<rparr>)"

lemmas mock_simps = eff_simps store_object_def store_cluster_object_def stamp_def get_heap_def put_heap_def
  add_event_def put_event_def event_object_def kind_table_def kind_tables_def set_table_def hook_kind_def run_hook_def
  object_stream_def next_resource_version_def get_object_def kube_update_metadata_def fill_or_check_def the_model_def object_name_def
  kube_alloc_def maybe_error_def kube_assert_def or_empty_def mq_put_def mq_qsize_def mq_finished_def append_cell_def mq_init_def
  new_kube_def Let_def

lemma demo_kube_env_ok: "env_ok D demo_kube_env"
  by (simp add: env_ok_def demo_kube_env_def ret_eff_def)

lemma free_new: "a < n \<Longrightarrow> free (new_kube h n t) a"
proof -
  have "objects_of (new_kube h n t) st name = None" for st name
    by (cases st) (auto simp: new_kube_def kind_table_def kind_tables_def cluster_table_def or_empty_def split: option.split)
  then show "a < n \<Longrightarrow> free (new_kube h n t) a" by (simp add: free_def stored_def) (simp add: new_kube_def)
qed

lemma demo_kube_steps:
  "kube_reach D demo_kube_env demo_kube" "(kube_step D demo_kube_env)\<^sup>*\<^sup>* demo_kube demo_patched"
  "(kube_step D demo_kube_env)\<^sup>*\<^sup>* demo_watching (demo_watch_waiting r)"
proof -
  have "kube_step D demo_kube_env (new_kube (\<lambda>_. Model demo_secret) 1 0) demo_kube"
    unfolding demo_kube_def
    by (rule kube_step.create [where create = "create_namespaced_secret demo_kube_env"]) (simp_all add: free_new kube_creates_def)
  then show "kube_reach D demo_kube_env demo_kube" unfolding kube_reach_def by blast
  have "kube_step D demo_kube_env demo_kube demo_patched"
    unfolding demo_patched_def
    by (rule kube_step.patch [where patch = "patch_namespaced_secret demo_kube_env"]) (simp add: kube_patches_def)
  then show "(kube_step D demo_kube_env)\<^sup>*\<^sup>* demo_kube demo_patched" by (rule r_into_rtranclp)
  show "(kube_step D demo_kube_env)\<^sup>*\<^sup>* demo_watching (demo_watch_waiting r)" unfolding demo_watch_waiting_def Let_def by (rule kube_run_reader)
qed

text \<open> C37. Nothing is missed between a list and a watch: a client lists the objects of a table, then watches from the
  resource version of one of the listed objects (or from \<open>0\<close>), optionally only one name.  Whatever the clients of
  the mock do before the watch starts and after, when the watcher waits for more it has raised nothing, and the events
  it gave, applied to the list, are the objects stored now, for every name that is watched.  For jobs this is up to
  their status, and it is shown for tables whose namespace is not deleted.
\<close>

theorem kube_list_then_watch:
  assumes env: "env_ok D env" and s0: "kube_reach D env s0" and st: "plain st" "\<not> lossy D st"
    and w: "kw_stream w = st" "kw_label_selector w = None" "kw_resource_version w = Some v"
    and v: "v = ''0'' \<or> (\<exists>listed m. kube_listed s0 st listed = Some m \<and> km_resource_version (ko_metadata m) = Some v)"
    and before: "(kube_step D env)\<^sup>*\<^sup>* s0 s'" and start: "start_watch w s' = (Inr r, s'')"
    and after: "(kube_step D env)\<^sup>*\<^sup>* s'' s1"
    and rd: "mq_readers (kb_streams s1 st) r = Some rd" "rd_pc rd = Waiting" "\<not> mq_set (kb_streams s1 st) r"
  shows "\<exists>evs. watch_lines s1 w r = (map Some evs, None) \<and>
    (\<forall>name. (kw_name w = None \<or> kw_name w = name) \<longrightarrow>
       map_option (model_view (stream_key st)) (replay evs (kube_listed s0 st) name) = kube_view s1 st name)"
proof -
  have i0: "kube_inv D s0" by (rule kube_reach_inv [OF s0 env])
  have "kube_step D env s' s''" by (rule kube_step.watch [OF start])
  then have i1: "kube_inv D s''" "kube_inv D s1" and g: "grows (kb_streams s0 st) (kb_streams s1 st)" "grows (kb_streams s'' st) (kb_streams s1 st)"
    using kube_run_kept [OF before env] kube_run_kept [OF after env] kube_step_kept [OF _ env] i0 grows_trans
    unfolding step_kept_def by meson+
  obtain n where n: "v = int_str (int n)" "n \<le> length (stream_events s0 st)"
  proof (cases "v = ''0''")
    case True
    then show ?thesis using that [of 0] by (simp add: zero_str)
  next
    case False
    then obtain listed m where "kube_listed s0 st listed = Some m" "km_resource_version (ko_metadata m) = Some v" using v by blast
    then show ?thesis using listed_version [OF i0 st(1), of listed m] that [of "Suc i" for i] by (auto simp: add.commute)
  qed
  have "rd_start rd = n"
    using start_watch_position [OF start] w(1,3) n(1) g(2) rd(1) unfolding grows_def by (metis option.inject)
  then have out: "rd_out rd = drop n (stream_events s1 st)"
    using reader_reads_all [OF kube_invD(1) [OF i1(2)] rd] by simp
  have "list_all is_snapshot (stream_events s1 st)" using kube_invD(4) [OF i1(2)] st(1) unfolding coherent_def by blast
  then have snap: "list_all is_snapshot (rd_out rd)" using out by (simp add: list_all_iff) (meson in_set_dropD)
  define evs where "evs = (case kw_name w of None \<Rightarrow> rd_out rd | Some n \<Rightarrow> filter (\<lambda>ev. event_name ev = Some n) (rd_out rd))"
  have "watch_events s1 w (rd_out rd) = (evs, None)" using watch_events_selected [OF snap w(2)] by (simp add: evs_def)
  then have "watch_lines s1 w r = (map Some evs, None)" using rd w(1) by (intro watch_lines_waiting) simp_all
  moreover have "replay evs (kube_listed s0 st) name = replay (rd_out rd) (kube_listed s0 st) name"
    if "kw_name w = None \<or> kw_name w = name" for name
    using that replay_selected [OF _ snap, of event_name] by (auto simp: evs_def event_name_def split: option.split)
  ultimately show ?thesis
    using replay_from_list [OF i0 i1(2) st _ n(2)] g(1) out unfolding grows_def by metis
qed


lemma demo_kube_value:
  "kube_listed demo_kube (kw_stream demo_watcher) (Some ''token'') = Some (demo_secret\<lparr>ko_api_version := Some ''v1'',
     ko_kind := Some ''Secret'', ko_metadata := (ko_metadata demo_secret)\<lparr>km_namespace := Some ''ns'', km_resource_version := Some (int_str 1)\<rparr>\<rparr>)"
  unfolding demo_kube_def create_namespaced_secret_def create_kind_def
  by (simp add: mock_simps demo_kube_env_def demo_secret_def empty_meta_def kube_listed_def demo_watcher_def)

lemma demo_watch_start:
  "\<exists>r rd. start_watch demo_watcher s = (Inr r, snd (start_watch demo_watcher s)) \<and>
     mq_readers (kb_streams (snd (start_watch demo_watcher s)) (kw_stream demo_watcher)) r = Some rd \<and> rd_pc rd = Created"
  by (simp add: start_watch_def start_position_def mq_aiter_from_def demo_watcher_def Let_def)

theorem kube_list_then_watch_witness:
  "\<exists>r evs. watch_lines (demo_watch_waiting r) demo_watcher r = (map Some evs, None) \<and>
     map_option (model_view ''Secret'') (replay evs (kube_listed demo_kube (kw_stream demo_watcher)) (Some ''token'')) =
     kube_view (demo_watch_waiting r) (kw_stream demo_watcher) (Some ''token'')"
proof -
  let ?st = "kw_stream demo_watcher"
  obtain r rd where r: "start_watch demo_watcher demo_patched = (Inr r, demo_watching)"
    and rd: "mq_readers (kb_streams demo_watching ?st) r = Some rd" "rd_pc rd = Created"
    using demo_watch_start [of demo_patched] unfolding demo_watching_def by blast
  have "kube_inv {} demo_watching"
    using kube_reach_inv [OF demo_kube_steps(1) demo_kube_env_ok] kube_run_kept [OF demo_kube_steps(2) demo_kube_env_ok]
      step_kept_watch [OF r] unfolding step_kept_def by blast
  then obtain rd' where rd': "mq_readers (kb_streams (demo_watch_waiting r) ?st) r = Some rd'" "rd_pc rd' = Waiting"
      "\<not> mq_set (kb_streams (demo_watch_waiting r) ?st) r"
    using reader_settles [OF kube_invD(1) rd refl] unfolding demo_watch_waiting_def Let_def by auto
  have w: "kw_label_selector demo_watcher = None" "kw_resource_version demo_watcher = Some (int_str 1)"
      "kw_name demo_watcher = Some ''token''" "plain ?st" "\<not> lossy {} ?st" "stream_key ?st = ''Secret''"
    by (simp_all add: demo_watcher_def lossy_def)
  have "\<exists>listed m. kube_listed demo_kube ?st listed = Some m \<and> km_resource_version (ko_metadata m) = Some (int_str 1)"
    using demo_kube_value by fastforce
  from kube_list_then_watch [OF demo_kube_env_ok demo_kube_steps(1) w(4,5) refl w(1,2) disjI2 [OF this] demo_kube_steps(2) r demo_kube_steps(3) rd']
  show ?thesis using w(3,6) by auto
qed

end
