(* ===== verification/KubeJobs.thy ===== *)
theory KubeJobs
  imports KubeWatch
begin

text \<open>
  Jobs of the Kubernetes mock and their pods (\<open>delete_namespaced_job\<close>, src/src/safir/testing/kubernetes/_mock.py): which
  objects the deletion of a job removes.
\<close>

subsection \<open>What a deletion does to the tables\<close>

lemma put_event_tables:
  assumes "put_event st ev s = (Inr x, s')"
  shows "kind_table s' = kind_table s \<and> kb_heap s' = kb_heap s"
  using assms by (auto simp: put_event_def split: prod.splits sum.splits)

lemma delete_object_done:
  assumes "delete_object ns key name policy s = (Inr code, s')"
  shows "code = 200 \<and> kb_heap s' = kb_heap s \<and> (\<exists>a. map_of (kind_table s ns key) name = Some a) \<and>
    (\<forall>ns' key'. kind_table s' ns' key' =
      (if ns' = ns \<and> key' = key then AList.delete name (kind_table s ns key) else kind_table s ns' key'))"
proof -
  obtain a where a: "map_of (kind_table s ns key) name = Some a" and code: "code = 200"
    and e: "put_event (NamespacedStream ns key) (''DELETED'', event_object a (kb_heap s a))
      (set_table ns key (AList.delete name (kind_table s ns key)) s) = (Inr (), s')"
    using assms
    by (auto simp: delete_object_def policy_ok_def get_object_def add_event_def get_heap_def eff_simps
        split: if_splits option.splits prod.splits sum.splits)
  show ?thesis using put_event_tables [OF e] a code by simp
qed

lemma delete_one:
  assumes "distinct (map fst t)" "distinct (map snd t)" "(n, p) \<in> set t"
  shows "AList.delete n t = filter (\<lambda>e. snd e \<noteq> p) t"
proof -
  have "fst e \<noteq> n \<longleftrightarrow> snd e \<noteq> p" if "e \<in> set t" for e
    using assms that by (metis distinct_map fst_conv inj_onD snd_conv)
  moreover have "AList.delete n t = filter (\<lambda>e. fst e \<noteq> n) t" by (auto simp: AList.delete_eq intro!: filter_cong)
  ultimately show ?thesis by (metis (mono_tags, lifting) filter_cong)
qed

text \<open>The pods of a list are removed and nothing else.\<close>

lemma delete_pods_done:
  assumes "env_ok D env" "delete_pods env ns ps s = (Inr x, s')"
    and "distinct (map fst (kind_table s ns ''Pod''))" "distinct (map snd (kind_table s ns ''Pod''))" "distinct ps"
    and "\<And>p. p \<in> set ps \<Longrightarrow> \<exists>n m. (n, p) \<in> set (kind_table s ns ''Pod'') \<and> kb_heap s p = Model m \<and> km_name (ko_metadata m) = n"
  shows "kb_heap s' = kb_heap s \<and> (\<forall>ns' key'. kind_table s' ns' key' =
    (if ns' = ns \<and> key' = ''Pod'' then filter (\<lambda>e. snd e \<notin> set ps) (kind_table s ns ''Pod'') else kind_table s ns' key'))"
  using assms(2-6)
proof (induction ps arbitrary: s)
  case Nil
  then show ?case by (simp add: delete_pods_def eff_simps)
next
  case (Cons p ps)
  let ?t = "kind_table s ns ''Pod''"
  obtain n m where p: "(n, p) \<in> set ?t" "kb_heap s p = Model m" "km_name (ko_metadata m) = n" using Cons.prems(5) [of p] by auto
  let ?args = "[case n of None \<Rightarrow> ArgOpt None | Some n \<Rightarrow> ArgStr n, ArgStr ns]"
  have no_error: "snd (maybe_error env ''delete_namespaced_pod'' ?args s) = s" by (rule maybe_error_same [OF assms(1)])
  obtain code s1 where d: "delete_object ns ''Pod'' n ''Foreground'' s = (Inr code, s1)" and rest: "delete_pods env ns ps s1 = (Inr x, s')"
    using Cons.prems(1) p(2,3) no_error
    by (auto simp: delete_pods_def object_name_def the_model_def get_heap_def eff_simps split: prod.splits sum.splits)
  note gone = delete_object_done [OF d]
  then have h1: "kb_heap s1 = kb_heap s" by simp
  have t1: "kind_table s1 ns ''Pod'' = filter (\<lambda>e. snd e \<noteq> p) ?t"
    using gone delete_one [OF Cons.prems(2,3) p(1)] by simp
  have "kb_heap s' = kb_heap s1 \<and> (\<forall>ns' key'. kind_table s' ns' key' =
    (if ns' = ns \<and> key' = ''Pod'' then filter (\<lambda>e. snd e \<notin> set ps) (kind_table s1 ns ''Pod'') else kind_table s1 ns' key'))"
  proof (rule Cons.IH [OF rest])
    show "distinct (map fst (kind_table s1 ns ''Pod''))" "distinct (map snd (kind_table s1 ns ''Pod''))"
      using Cons.prems(2,3) by (simp_all add: t1 distinct_map_filter)
    show "distinct ps" using Cons.prems(4) by simp
    show "\<exists>n m. (n, q) \<in> set (kind_table s1 ns ''Pod'') \<and> kb_heap s1 q = Model m \<and> km_name (ko_metadata m) = n" if "q \<in> set ps" for q
      using Cons.prems(4) Cons.prems(5) [of q] that h1 by (auto simp: t1)
  qed
  moreover have "filter (\<lambda>e. snd e \<notin> set ps) (filter (\<lambda>e. snd e \<noteq> p) ?t) = filter (\<lambda>e. snd e \<notin> set (p # ps)) ?t"
    by (simp add: conj_commute)
  ultimately show ?case using gone t1 by simp
qed

subsection \<open>The pods of a job\<close>

definition pod_of_job :: "kube \<Rightarrow> string \<Rightarrow> nat \<Rightarrow> bool" where
  "pod_of_job s job p \<longleftrightarrow> (\<exists>m ms. kb_heap s p = Model m \<and> km_labels (ko_metadata m) = JObj ms \<and>
     map_of ms ''job-name'' = Some (JStr job))"

lemma select_each_filter: "select_each f xs = Inr ys \<Longrightarrow> ys = filter (\<lambda>x. f x = Inr True) xs"
  by (induction xs arbitrary: ys) (auto split: sum.splits if_splits)

lemma job_selector:
  assumes "job \<noteq> []" "CHR '','' \<notin> set job" "CHR 0x0A \<notin> set job"
  shows "parse_label_selector (''job-name=='' @ job) = Inr [(''job-name'', job)]"
proof -
  have "py_split (CHR '','') (py_join '','' [''job-name=='' @ job]) = [''job-name=='' @ job]"
    using assms(2) by (intro py_split_join) simp_all
  then have split: "py_split (CHR '','') (''job-name=='' @ job) = [''job-name=='' @ job]" by simp
  have tail: "takeWhile (\<lambda>c. c \<noteq> CHR 0x0A) job = job" using assms(3) by (auto simp: takeWhile_eq_all_conv)
  have "requirement_match (''job-name=='' @ job) = Some (''job-name'', takeWhile (\<lambda>c. c \<noteq> CHR 0x0A) job)"
    by (simp add: requirement_match_def)
  then have "parse_requirements [''job-name=='' @ job] [] = Inr [(''job-name'', job)]" using assms(1) unfolding tail by simp
  then show ?thesis unfolding parse_label_selector_def split .
qed

lemma check_job_pod:
  assumes "job \<noteq> []" "CHR '','' \<notin> set job" "CHR 0x0A \<notin> set job"
  shows "check_object s (Some (''job-name=='' @ job)) p = Inr True \<longleftrightarrow> pod_of_job s job p"
proof (cases "kb_heap s p")
  case (Model m)
  have "check_each [(''job-name'', job)] labels = Inr True \<longleftrightarrow> (\<exists>ms. labels = JObj ms \<and> map_of ms ''job-name'' = Some (JStr job))" for labels
    by (cases labels) auto
  then show ?thesis
    using job_selector [OF assms]
    by (auto simp: check_object_def object_labels_def Model check_labels_def pod_of_job_def)
qed (simp add: check_object_def object_labels_def pod_of_job_def)

lemma list_job_pods:
  assumes env: "env_ok D env" and job: "job \<noteq> []" "CHR '','' \<notin> set job" "CHR 0x0A \<notin> set job"
    and l: "list_namespaced_pod env ns (default_list_args\<lparr>la_label_selector := Some (''job-name=='' @ job)\<rparr>) s = (Inr pods, s')"
  shows "s' = s \<and> pods = Items (filter (pod_of_job s job) (map snd (kind_table s ns ''Pod'')))"
proof -
  have m: "snd (maybe_error env ''list_namespaced_pod'' [ArgStr ns, ArgOpt None] s) = s" by (rule maybe_error_same [OF env])
  obtain r where r: "maybe_error env ''list_namespaced_pod'' [ArgStr ns, ArgOpt None] s = (r, s)" using m by (metis prod.collapse)
  let ?list = "list_objects ns ''Pod'' None (Some (''job-name=='' @ job))"
  have l: "bind_eff (namespace_exists ns) (\<lambda>_. bind_eff ?list (\<lambda>xs. ret_eff (Items xs))) s = (Inr pods, s')"
    using l r by (cases r) (simp_all add: list_namespaced_pod_def list_kind_def default_list_args_def list_or_watch_def bind_eff_apply)
  have same: "snd (?list s) = s" by (simp add: list_objects_def list_table_def)
  obtain ps where ps: "?list s = (Inr ps, s)" "pods = Items ps" "s' = s"
  proof (cases "?list s")
    case (Pair r t)
    then show ?thesis using l same that
      by (cases r) (auto simp: namespace_exists_def bind_eff_apply ret_eff_apply split: if_splits)
  qed
  have "ps = filter (\<lambda>p. f p = Inr True) (map snd (kind_table s ns ''Pod''))"
    if "f = check_object s (Some (''job-name=='' @ job))" for f
    using ps(1) select_each_filter [of f] unfolding list_objects_def list_table_def that [symmetric]
    by (auto simp: kind_table_def or_empty_def split: if_splits)
  then have "ps = filter (pod_of_job s job) (map snd (kind_table s ns ''Pod''))"
    by (simp only: check_job_pod [OF job])
  then show ?thesis using ps by simp
qed


subsection \<open>Properties\<close>

text \<open>The pods of a namespace have their places to themselves.\<close>

lemma pod_table_distinct:
  assumes inv: "kube_inv D s"
  shows "distinct (map fst (kind_table s ns ''Pod''))" "distinct (map snd (kind_table s ns ''Pod''))"
    "(n, p) \<in> set (kind_table s ns ''Pod'') \<Longrightarrow> \<exists>m. kb_heap s p = Model m \<and> km_name (ko_metadata m) = n"
proof -
  let ?st = "NamespacedStream ns ''Pod''"
  show d: "distinct (map fst (kind_table s ns ''Pod''))" by (rule kube_invD(5) [OF inv])
  have at: "\<exists>m. kb_heap s p = Model m \<and> km_name (ko_metadata m) = n" if "(n, p) \<in> set (kind_table s ns ''Pod'')" for n p
    using placedD(2) [OF inv, of ?st n p] that d by (auto simp: meta_ok_def)
  show "(n, p) \<in> set (kind_table s ns ''Pod'') \<Longrightarrow> \<exists>m. kb_heap s p = Model m \<and> km_name (ko_metadata m) = n" by (rule at)
  have "inj_on snd (set (kind_table s ns ''Pod''))"
  proof (rule inj_onI)
    fix x y
    assume a: "x \<in> set (kind_table s ns ''Pod'')" "y \<in> set (kind_table s ns ''Pod'')" "snd x = snd y"
    then have "fst x = fst y" using at [of "fst x" "snd x"] at [of "fst y" "snd y"] by (metis kube_object.inject(1) prod.collapse)
    then show "x = y" using a(3) by (rule prod_eqI)
  qed
  then show "distinct (map snd (kind_table s ns ''Pod''))" using d by (simp add: distinct_map)
qed

text \<open> C38. The deletion of a job cascades to its pods and to nothing else: when it succeeds, the job is gone, and, unless
  the pods are to be orphaned, exactly the pods of the namespace that have the label \<open>job-name\<close> of this job; every
  other object of the mock is still stored, unchanged.
\<close>

theorem kube_job_deletion_cascades:
  assumes env: "env_ok D env" and s: "kube_reach D env s"
    and job: "job \<noteq> []" "CHR '','' \<notin> set job" "CHR 0x0A \<notin> set job"
    and del: "delete_namespaced_job env job ns policy s = (Inr code, s')"
  shows "(\<exists>a. map_of (kind_table s ns ''Job'') (Some job) = Some a) \<and> kb_heap s' = kb_heap s \<and>
    (\<forall>ns' key. kind_table s' ns' key =
      (if ns' = ns \<and> key = ''Job'' then AList.delete (Some job) (kind_table s ns ''Job'')
       else if ns' = ns \<and> key = ''Pod'' \<and> policy \<noteq> ''Orphan'' then filter (\<lambda>(n, p). \<not> pod_of_job s job p) (kind_table s ns ''Pod'')
       else kind_table s ns' key))"
proof -
  let ?sel = "default_list_args\<lparr>la_label_selector := Some (''job-name=='' @ job)\<rparr>"
  let ?ps = "filter (pod_of_job s job) (map snd (kind_table s ns ''Pod''))"
  have inv: "kube_inv D s" by (rule kube_reach_inv [OF s env])
  note pods = pod_table_distinct [OF inv]
  have m: "snd (maybe_error env ''delete_namespaced_job'' [ArgStr job, ArgStr ns] s) = s" by (rule maybe_error_same [OF env])
  obtain l s0 where l: "list_namespaced_pod env ns ?sel s = (Inr l, s0)"
    and rest: "bind_eff (if policy \<noteq> ''Orphan'' then delete_pods env ns (case l of Items ps \<Rightarrow> ps | Watching _ \<Rightarrow> []) else ret_eff ())
      (\<lambda>_. delete_object ns ''Job'' (Some job) policy) s0 = (Inr code, s')"
    using del m unfolding delete_namespaced_job_def bind_eff_apply
    by (auto split: prod.splits sum.splits)
  have s0: "s0 = s" "l = Items ?ps" using list_job_pods [OF env job l] by simp_all
  obtain s1 where s1: "kb_heap s1 = kb_heap s" "\<And>ns' key. kind_table s1 ns' key =
      (if ns' = ns \<and> key = ''Pod'' \<and> policy \<noteq> ''Orphan'' then filter (\<lambda>e. snd e \<notin> set ?ps) (kind_table s ns ''Pod'') else kind_table s ns' key)"
    and last: "delete_object ns ''Job'' (Some job) policy s1 = (Inr code, s')"
  proof (cases "policy = ''Orphan''")
    case True
    then show ?thesis using rest s0 that [of s] by (simp add: bind_eff_apply ret_eff_apply)
  next
    case False
    obtain x s1 where d: "delete_pods env ns ?ps s = (Inr x, s1)" "delete_object ns ''Job'' (Some job) policy s1 = (Inr code, s')"
      using rest False unfolding s0 bind_eff_apply by (auto split: prod.splits sum.splits)
    have "kb_heap s1 = kb_heap s \<and> (\<forall>ns' key'. kind_table s1 ns' key' =
        (if ns' = ns \<and> key' = ''Pod'' then filter (\<lambda>e. snd e \<notin> set ?ps) (kind_table s ns ''Pod'') else kind_table s ns' key'))"
      by (rule delete_pods_done [OF env d(1) pods(1,2)]) (use pods(2,3) in \<open>force simp: distinct_filter\<close>)+
    then show ?thesis using d(2) False that [of s1] by simp
  qed
  have "filter (\<lambda>e. snd e \<notin> set ?ps) (kind_table s ns ''Pod'') = filter (\<lambda>(n, p). \<not> pod_of_job s job p) (kind_table s ns ''Pod'')"
    by (rule filter_cong) (auto simp: image_iff)
  then show ?thesis using delete_object_done [OF last] s1 by auto
qed


text \<open>A mock that has made one job with its pod.\<close>

definition demo_job :: kube_model where
  "demo_job = demo_secret\<lparr>ko_template := Some (Some (empty_meta\<lparr>km_labels := JObj [(''app'', JStr ''lab'')]\<rparr>), JNull)\<rparr>"

definition demo_jobs :: kube where
  "demo_jobs = snd (create_namespaced_job demo_kube_env ''ns'' 0 (new_kube (\<lambda>_. Model demo_job) 1 0))"

lemmas job_simps = create_namespaced_job_def job_pod_def copied_meta_def generated_name_def unset_def set_label_def lift_eff_def
  create_namespaced_pod_def set_status_def pod_start_event_def create_namespaced_event_def

lemma demo_jobs_reach: "kube_reach D demo_kube_env demo_jobs"
proof -
  have "kube_step D demo_kube_env (new_kube (\<lambda>_. Model demo_job) 1 0) demo_jobs"
    unfolding demo_jobs_def
    by (rule kube_step.create [where create = "create_namespaced_job demo_kube_env"]) (simp_all add: free_new kube_creates_def)
  then show ?thesis unfolding kube_reach_def by blast
qed

lemma demo_jobs_pods:
  "\<exists>n. kind_table demo_jobs ''ns'' ''Pod'' = [(n, 1)] \<and> pod_of_job demo_jobs ''token'' 1 \<and>
     kind_table demo_jobs ''ns'' ''Job'' = [(Some ''token'', 0)]"
  unfolding demo_jobs_def
  by (simp add: job_simps demo_job_def mock_simps demo_kube_env_def demo_secret_def empty_meta_def pod_of_job_def)

lemma demo_jobs_list:
  "list_namespaced_pod demo_kube_env ''ns'' (default_list_args\<lparr>la_label_selector := Some (''job-name=='' @ ''token'')\<rparr>) demo_jobs =
    (Inr (Items [1]), demo_jobs)"
proof -
  have "check_object demo_jobs (Some (''job-name=='' @ ''token'')) 1 = Inr True"
    using demo_jobs_pods by (subst check_job_pod) auto
  moreover have "map_of (kb_objects demo_jobs) ''ns'' \<noteq> None \<and> map_of (kind_tables demo_jobs ''ns'') ''Pod'' \<noteq> None"
    using demo_jobs_pods by (auto simp: kind_table_def kind_tables_def or_empty_def split: option.splits)
  ultimately show ?thesis
    using demo_jobs_pods
    by (auto simp: list_namespaced_pod_def list_kind_def namespace_exists_def default_list_args_def list_or_watch_def list_objects_def
        list_table_def maybe_error_def demo_kube_env_def eff_simps)
qed

lemma delete_object_works:
  assumes inv: "kube_inv D s" and a: "map_of (kind_table s ns key) name = Some a" and policy: "policy \<in> {''Foreground'', ''Background'', ''Orphan''}"
  shows "\<exists>s'. delete_object ns key name policy s = (Inr 200, s')"
proof -
  let ?t = "set_table ns key (AList.delete name (kind_table s ns key)) s"
  have "put_event (NamespacedStream ns key) ev ?t = (Inr (), put_state (NamespacedStream ns key) ev ?t)" for ev
    by (rule put_event_ok) (use kube_invD(1) [OF inv] in simp)
  then show ?thesis
    using a policy by (auto simp: delete_object_def policy_ok_def get_object_def add_event_def get_heap_def eff_simps)
qed

lemma demo_jobs_delete: "\<exists>s'. delete_namespaced_job demo_kube_env ''token'' ''ns'' ''Foreground'' demo_jobs = (Inr 200, s')"
proof -
  have inv: "kube_inv {} demo_jobs" by (rule kube_reach_inv [OF demo_jobs_reach demo_kube_env_ok])
  obtain n where t: "kind_table demo_jobs ''ns'' ''Pod'' = [(n, 1)]" and job: "kind_table demo_jobs ''ns'' ''Job'' = [(Some ''token'', 0)]"
    using demo_jobs_pods by blast
  then obtain m where pod: "kind_table demo_jobs ''ns'' ''Pod'' = [(n, 1)]" "kb_heap demo_jobs 1 = Model m" "km_name (ko_metadata m) = n"
    using pod_table_distinct(3) [OF inv, of n 1 "''ns''"] by auto
  obtain s1 where s1: "delete_object ''ns'' ''Pod'' n ''Foreground'' demo_jobs = (Inr 200, s1)"
    using delete_object_works [OF inv, of "''ns''" "''Pod''" n] pod by auto
  have "kube_inv {} s1" using kept_delete_object [of "''Pod''" "{}" demo_jobs "''ns''" n "''Foreground''"] inv s1 by (simp add: mock_kept_def)
  moreover have "map_of (kind_table s1 ''ns'' ''Job'') (Some ''token'') = Some 0" using delete_object_done [OF s1] job by simp
  ultimately obtain s2 where s2: "delete_object ''ns'' ''Job'' (Some ''token'') ''Foreground'' s1 = (Inr 200, s2)"
    using delete_object_works by blast
  have "delete_pods demo_kube_env ''ns'' [1] demo_jobs = (Inr (), s1)"
    using pod s1 by (simp add: delete_pods_def object_name_def the_model_def get_heap_def maybe_error_def demo_kube_env_def eff_simps)
  then show ?thesis
    using demo_jobs_list s2 by (simp add: delete_namespaced_job_def maybe_error_def demo_kube_env_def eff_simps)
qed

theorem kube_job_deletion_cascades_witness:
  "\<exists>s'. delete_namespaced_job demo_kube_env ''token'' ''ns'' ''Foreground'' demo_jobs = (Inr 200, s') \<and>
     kind_table s' ''ns'' ''Job'' = [] \<and> kind_table s' ''ns'' ''Pod'' = []"
proof -
  obtain s' where del: "delete_namespaced_job demo_kube_env ''token'' ''ns'' ''Foreground'' demo_jobs = (Inr 200, s')"
    using demo_jobs_delete by blast
  show ?thesis
    using kube_job_deletion_cascades [OF demo_kube_env_ok demo_jobs_reach _ _ _ del] demo_jobs_pods del by auto
qed

end
