(* ===== verification/KubeTools.thy ===== *)
theory KubeTools
  imports KubeWatch
begin

text \<open>
  What is around the Kubernetes mock: patching the Kubernetes library with it (\<open>patch_kubernetes\<close>,
  src/src/safir/testing/kubernetes/_mock.py) and comparing serialized objects (src/src/safir/testing/kubernetes/_strip.py).
\<close>

subsection \<open>Objects without their empty attributes\<close>

text \<open>A dictionary without the values that are \<open>None\<close>, also in the dictionaries and lists in it.\<close>

fun strip_none :: "(string \<times> json) list \<Rightarrow> (string \<times> json) list" and strip_value :: "json \<Rightarrow> json"
  and strip_items :: "json list \<Rightarrow> json list" where
  "strip_none [] = []"
| "strip_none ((key, v) # ms) = (if v = JNull then strip_none ms else (key, strip_value v) # strip_none ms)"
| "strip_value (JObj ms) = JObj (strip_none ms)"
| "strip_value (JArr xs) = JArr (strip_items xs)"
| "strip_value v = v"
| "strip_items [] = []"
| "strip_items (x # xs) = (case x of JObj ms \<Rightarrow> JObj (strip_none ms) | _ \<Rightarrow> x) # strip_items xs"


lemma strip_none_lookup:
  "distinct (map fst ms) \<Longrightarrow> map_of (strip_none ms) key =
    (case map_of ms key of None \<Rightarrow> None | Some v \<Rightarrow> if v = JNull then None else Some (strip_value v))"
proof (induction ms)
  case (Cons entry ms)
  obtain k v where e: "entry = (k, v)" by (cases entry)
  have "map_of ms k = None" using Cons.prems by (simp add: e map_of_eq_None_iff)
  then show ?case using Cons by (auto simp: e)
qed simp

lemma strip_idempotent:
  "strip_none (strip_none ms) = strip_none ms" "strip_value (strip_value v) = strip_value v"
  "strip_items (strip_items xs) = strip_items xs"
proof (induction ms and v and xs rule: strip_none_strip_value_strip_items.induct)
  case (2 key v ms)
  have "strip_value v \<noteq> JNull" if "v \<noteq> JNull" using that by (cases v) auto
  then show ?case using 2 by simp
next
  case (7 x xs)
  then show ?case by (cases x) auto
qed simp_all

subsection \<open>Patching the library\<close>

text \<open>
  The attributes of the library that are patched, each with the patches on it counted as often as it is named, and the
  environment.  \<open>with_patch\<close> is a \<open>with\<close> statement on a patch, which is undone in any case.
\<close>

record kube_patching =
  kp_patched :: "string list"
  kp_environ :: "string \<rightharpoonup> string"

type_synonym 'a patching_eff = "(kube_patching, kube_exc, 'a) eff"

definition start_patch :: "string \<Rightarrow> unit patching_eff" where
  "start_patch attr = modify_eff (\<lambda>w. w\<lparr>kp_patched := attr # kp_patched w\<rparr>)"

definition stop_patch :: "string \<Rightarrow> unit patching_eff" where
  "stop_patch attr = modify_eff (\<lambda>w. w\<lparr>kp_patched := remove1 attr (kp_patched w)\<rparr>)"

definition with_patch :: "string \<Rightarrow> 'a patching_eff \<Rightarrow> 'a patching_eff" where
  "with_patch attr m = bind_eff (start_patch attr) (\<lambda>_ w. case m w of (r, w) \<Rightarrow> (r, snd (stop_patch attr w)))"

definition kube_apis :: "string list" where
  "kube_apis = [''BatchV1Api'', ''CoreV1Api'', ''CustomObjectsApi'', ''NetworkingV1Api'']"

definition patch_kubernetes :: "'a patching_eff \<Rightarrow> 'a patching_eff" where
  "patch_kubernetes body =
     with_patch ''load_incluster_config''
       (bind_eff (foldr (\<lambda>api rest. bind_eff (start_patch api) (\<lambda>_. rest)) kube_apis (ret_eff ())) (\<lambda>_.
        bind_eff (with_patch ''request''
          (bind_eff (modify_eff (\<lambda>w. w\<lparr>kp_environ := (kp_environ w)(''KUBERNETES_PORT'' \<mapsto> ''tcp://10.0.0.1:443'')\<rparr>)) (\<lambda>_.
           bind_eff body (\<lambda>x. \<lambda>w. if kp_environ w ''KUBERNETES_PORT'' = None then (Inl (KubeKeyError ''KUBERNETES_PORT''), w)
             else (Inr x, w\<lparr>kp_environ := (kp_environ w)(''KUBERNETES_PORT'' := None)\<rparr>))))) (\<lambda>x.
        bind_eff (foldr (\<lambda>api rest. bind_eff (stop_patch api) (\<lambda>_. rest)) kube_apis (ret_eff ())) (\<lambda>_. ret_eff x))))"

text \<open>
  When the test that uses the mock returns, every patch is undone; when it raises, the classes of the library stay
  patched and the environment keeps the variable, because nothing is in a \<open>finally\<close> clause.
\<close>

lemma patch_kubernetes_undone:
  assumes "\<And>w. body w = (r, w)"
  shows "patch_kubernetes body w = (r, case r of
      Inr _ \<Rightarrow> w\<lparr>kp_environ := (kp_environ w)(''KUBERNETES_PORT'' := None)\<rparr>
    | Inl _ \<Rightarrow> w\<lparr>kp_patched := rev kube_apis @ kp_patched w, kp_environ := (kp_environ w)(''KUBERNETES_PORT'' \<mapsto> ''tcp://10.0.0.1:443'')\<rparr>)"
  using assms by (cases r) (simp_all add: patch_kubernetes_def with_patch_def start_patch_def stop_patch_def kube_apis_def eff_simps)

end
