(* ===== verification/TestData.thy ===== *)
theory TestData
  imports PyText "HOL-Library.List_Lexorder" "HOL-Library.Char_ord"
begin

text \<open>
  The expected outputs of test suites (\<open>Data\<close>, src/src/safir/testing/data/_data.py): files that a test compares its
  output with, and that it may update, keeping the wildcards in them.  A file holds a text or a JSON document, known by
  its value.
\<close>

subsection \<open>Values with wildcards\<close>

text \<open>What is read from a file: a JSON value in which \<open>PAny\<close> is \<open>unittest.mock.ANY\<close>, which is equal to everything.\<close>

datatype pattern = PAny | PNull | PBool bool | PInt int | PStr string | PArr "pattern list" | PObj "(string \<times> pattern) list"

fun convert_any :: "json \<Rightarrow> pattern" and convert_items :: "json list \<Rightarrow> pattern list"
  and convert_members :: "(string \<times> json) list \<Rightarrow> (string \<times> pattern) list" where
  "convert_any JNull = PNull"
| "convert_any (JBool b) = PBool b"
| "convert_any (JInt i) = PInt i"
| "convert_any (JStr s) = (if s = ''<ANY>'' then PAny else PStr s)"
| "convert_any (JArr xs) = PArr (convert_items xs)"
| "convert_any (JObj ms) = PObj (convert_members ms)"
| "convert_items [] = []"
| "convert_items (x # xs) = convert_any x # convert_items xs"
| "convert_members [] = []"
| "convert_members ((k, v) # ms) = (k, convert_any v) # convert_members ms"

text \<open>A list is filled up with \<open>None\<close>, as the values of missing keys are.\<close>

fun copy_wildcards :: "json \<Rightarrow> pattern \<Rightarrow> json" and copy_items :: "json list \<Rightarrow> pattern list \<Rightarrow> json list"
  and copy_members :: "(string \<times> json) list \<Rightarrow> (string \<times> pattern) list \<Rightarrow> (string \<times> json) list" where
  "copy_wildcards new PAny = JStr ''<ANY>''"
| "copy_wildcards (JArr xs) (PArr os) = JArr (copy_items xs os)"
| "copy_wildcards (JObj ms) (PObj os) = JObj (copy_members ms os)"
| "copy_wildcards new old = new"
| "copy_items [] os = []"
| "copy_items (x # xs) [] = copy_wildcards x PNull # copy_items xs []"
| "copy_items (x # xs) (p # ps) = copy_wildcards x p # copy_items xs ps"
| "copy_members [] os = []"
| "copy_members ((k, v) # ms) os =
     (k, copy_wildcards v (case map_of os k of None \<Rightarrow> PNull | Some p \<Rightarrow> p)) # copy_members ms os"

text \<open>
  \<open>seen == expected\<close>: a truth value is equal to a number, and dictionaries are equal when they have the same keys with
  equal values.
\<close>

fun json_matches :: "json \<Rightarrow> pattern \<Rightarrow> bool" and match_items :: "json list \<Rightarrow> pattern list \<Rightarrow> bool"
  and match_members :: "(string \<times> json) list \<Rightarrow> (string \<times> pattern) list \<Rightarrow> bool" where
  "json_matches v PAny = True"
| "json_matches JNull PNull = True"
| "json_matches (JBool b) (PBool c) = (b = c)"
| "json_matches (JBool b) (PInt i) = (i = of_bool b)"
| "json_matches (JInt i) (PBool b) = (i = of_bool b)"
| "json_matches (JInt i) (PInt j) = (i = j)"
| "json_matches (JStr s) (PStr t) = (s = t)"
| "json_matches (JArr xs) (PArr ps) = match_items xs ps"
| "json_matches (JObj ms) (PObj ps) = (match_members ms ps \<and> set (map fst ps) \<subseteq> set (map fst ms))"
| "json_matches v p = False"
| "match_items [] [] = True"
| "match_items (x # xs) (p # ps) = (json_matches x p \<and> match_items xs ps)"
| "match_items xs ps = False"
| "match_members [] ps = True"
| "match_members ((k, v) # ms) ps = ((case map_of ps k of None \<Rightarrow> False | Some p \<Rightarrow> json_matches v p) \<and> match_members ms ps)"

text \<open>Dictionaries as they are written, in the order of their keys.\<close>

fun sort_keys :: "json \<Rightarrow> json" and sort_items :: "json list \<Rightarrow> json list"
  and sort_members :: "(string \<times> json) list \<Rightarrow> (string \<times> json) list" where
  "sort_keys (JArr xs) = JArr (sort_items xs)"
| "sort_keys (JObj ms) = JObj (sort_key fst (sort_members ms))"
| "sort_keys v = v"
| "sort_items [] = []"
| "sort_items (x # xs) = sort_keys x # sort_items xs"
| "sort_members [] = []"
| "sort_members ((k, v) # ms) = (k, sort_keys v) # sort_members ms"

text \<open>Dictionaries have each key once.\<close>

fun dict_ok :: "json \<Rightarrow> bool" where
  "dict_ok (JArr xs) = list_all dict_ok xs"
| "dict_ok (JObj ms) = (distinct (map fst ms) \<and> list_all (\<lambda>(k, v). dict_ok v) ms)"
| "dict_ok v = True"


lemma items_maps [simp]:
  "convert_items xs = map convert_any xs" "sort_items xs = map sort_keys xs" "match_items xs ps = list_all2 json_matches xs ps"
proof -
  show "convert_items xs = map convert_any xs" by (induction xs) auto
  show "sort_items xs = map sort_keys xs" by (induction xs) auto
  show "match_items xs ps = list_all2 json_matches xs ps" by (induction xs ps rule: list_induct2') auto
qed

lemma members_maps [simp]:
  "convert_members ms = map (\<lambda>(k, v). (k, convert_any v)) ms" "sort_members ms = map (\<lambda>(k, v). (k, sort_keys v)) ms"
  "copy_members ms os = map (\<lambda>(k, v). (k, copy_wildcards v (case map_of os k of None \<Rightarrow> PNull | Some p \<Rightarrow> p))) ms"
  by (induction ms) auto

lemma match_members_iff [simp]:
  "match_members ms ps \<longleftrightarrow> (\<forall>(k, v) \<in> set ms. \<exists>p. map_of ps k = Some p \<and> json_matches v p)"
  by (induction ms) (auto split: option.splits)

lemma map_of_sort: "distinct (map fst ms) \<Longrightarrow> map_of (sort_key fst ms) = map_of ms"
  by (rule map_of_inject_set [THEN iffD2]) (simp_all add: distinct_map distinct_sort)

lemma map_of_values: "map_of (map (\<lambda>(k, v). (k, f k v)) ms) k = map_option (f k) (map_of ms k)"
  by (induction ms) auto

lemma fst_values [simp]: "map fst (map (\<lambda>(k, v). (k, f k v)) ms) = map fst ms"
  by (induction ms) auto

text \<open>What a dictionary is read as after it was written with other values.\<close>

lemma written_members:
  assumes "distinct (map fst ms)"
  shows "map_of (map (\<lambda>(k, v). (k, g v)) (sort_key fst (map (\<lambda>(k, v). (k, f k v)) ms))) k = map_option (\<lambda>v. g (f k v)) (map_of ms k)"
    "set (map fst (map (\<lambda>(k, v). (k, g v)) (sort_key fst (map (\<lambda>(k, v). (k, f k v)) ms)))) = fst ` set ms"
proof -
  have "distinct (map fst (map (\<lambda>(k, v). (k, f k v)) ms))" using assms by (simp only: fst_values)
  from map_of_sort [OF this]
  show "map_of (map (\<lambda>(k, v). (k, g v)) (sort_key fst (map (\<lambda>(k, v). (k, f k v)) ms))) k = map_option (\<lambda>v. g (f k v)) (map_of ms k)"
    by (simp add: map_of_values [of "\<lambda>k. g"] map_of_values option.map_comp comp_def)
  show "set (map fst (map (\<lambda>(k, v). (k, g v)) (sort_key fst (map (\<lambda>(k, v). (k, f k v)) ms)))) = fst ` set ms" by force
qed

subsection \<open>Updated data matches\<close>

lemma matches_members:
  assumes "distinct (map fst ms)" "\<And>k v. (k, v) \<in> set ms \<Longrightarrow> json_matches v (g (f k v))"
  shows "json_matches (JObj ms) (PObj (map (\<lambda>(k, v). (k, g v)) (sort_key fst (map (\<lambda>(k, v). (k, f k v)) ms))))"
proof -
  have "map_of ms k = Some v" if "(k, v) \<in> set ms" for k v using assms(1) that by simp
  then show ?thesis using assms(2) written_members [OF assms(1), where f = f and g = g] by auto
qed

lemma matches_itself: "dict_ok v \<Longrightarrow> json_matches v (convert_any (sort_keys v))"
proof (induction v)
  case (JArr xs)
  then show ?case by (auto simp: list_all2_conv_all_nth list_all_length)
next
  case (JObj ms)
  have "json_matches (JObj ms) (PObj (map (\<lambda>(k, v). (k, convert_any v)) (sort_key fst (map (\<lambda>(k, v). (k, sort_keys v)) ms))))"
    using JObj.prems by (intro matches_members JObj.IH) (auto simp: list_all_iff)
  then show ?case by simp
qed auto

lemma copy_items_nth:
  "length (copy_items xs ps) = length xs \<and>
    (\<forall>i < length xs. copy_items xs ps ! i = copy_wildcards (xs ! i) (if i < length ps then ps ! i else PNull))"
proof (induction xs ps rule: list_induct2')
  case (2 x xs)
  then show ?case by (induction xs arbitrary: x) (auto simp: nth_Cons split: nat.split)
next
  case (4 x xs p ps)
  then show ?case by (auto simp: nth_Cons split: nat.split)
qed auto

lemma updated_matches: "dict_ok v \<Longrightarrow> json_matches v (convert_any (sort_keys (copy_wildcards v p)))"
proof (induction v arbitrary: p)
  case (JArr xs)
  show ?case
  proof (cases p)
    case (PArr ps)
    then show ?thesis using JArr copy_items_nth [of xs ps] by (auto simp: list_all2_conv_all_nth list_all_length)
  qed (use matches_itself [OF JArr.prems] in auto)
next
  case (JObj ms)
  show ?case
  proof (cases p)
    case (PObj ps)
    let ?old = "\<lambda>k. case map_of ps k of None \<Rightarrow> PNull | Some p \<Rightarrow> p"
    have "json_matches (JObj ms) (PObj (map (\<lambda>(k, v). (k, convert_any v)) (sort_key fst (map (\<lambda>(k, v). (k, sort_keys (copy_wildcards v (?old k)))) ms))))"
      using JObj.prems by (intro matches_members JObj.IH) (auto simp: list_all_iff)
    then show ?thesis using PObj by (simp add: comp_def case_prod_beta')
  qed (use matches_itself [OF JObj.prems] in auto)
next
  case JNull
  then show ?case by (cases p) simp_all
next
  case (JBool b)
  then show ?case by (cases p) simp_all
next
  case (JInt i)
  then show ?case by (cases p) simp_all
next
  case (JStr t)
  then show ?case by (cases p) simp_all
qed


text \<open>Patterns as they are read: a dictionary has each key once, and no text is the wildcard's.\<close>

fun pattern_ok :: "pattern \<Rightarrow> bool" where
  "pattern_ok (PStr s) = (s \<noteq> ''<ANY>'')"
| "pattern_ok (PArr ps) = list_all pattern_ok ps"
| "pattern_ok (PObj ps) = (distinct (map fst ps) \<and> list_all (\<lambda>(k, p). pattern_ok p) ps)"
| "pattern_ok p = True"

lemma pattern_ok_read: "dict_ok v \<Longrightarrow> pattern_ok (convert_any v)"
proof (induction v)
  case (JObj ms)
  then show ?case by (fastforce simp: list_all_iff comp_def case_prod_beta')
qed (auto simp: list_all_iff)

lemma matches_object:
  "json_matches x (PObj ps) \<longleftrightarrow> (\<exists>ys. x = JObj ys \<and> (\<forall>(k, v) \<in> set ys. \<exists>p. map_of ps k = Some p \<and> json_matches v p) \<and> set (map fst ps) \<subseteq> set (map fst ys))"
  by (cases x) auto

lemma matches_array: "json_matches x (PArr ps) \<longleftrightarrow> (\<exists>ys. x = JArr ys \<and> list_all2 json_matches ys ps)"
  by (cases x) auto

text \<open>Data that matched already is accepted after an update exactly when it was before.\<close>

lemma updated_same:
  "pattern_ok p \<Longrightarrow> dict_ok seen \<Longrightarrow> json_matches seen p \<Longrightarrow>
    json_matches x (convert_any (sort_keys (copy_wildcards seen p))) \<longleftrightarrow> json_matches x p"
proof (induction p arbitrary: seen x)
  case (PArr ps)
  obtain xs where xs: "seen = JArr xs" "list_all2 json_matches xs ps" using PArr.prems(3) by (auto simp: matches_array)
  let ?qs = "map (\<lambda>v. convert_any (sort_keys v)) (copy_items xs ps)"
  have len: "length ?qs = length ps" "length xs = length ps" using xs(2) copy_items_nth [of xs ps] by (auto dest: list_all2_lengthD)
  have "json_matches y (?qs ! i) \<longleftrightarrow> json_matches y (ps ! i)" if "i < length ps" for i y
    using PArr that xs len copy_items_nth [of xs ps] by (auto simp: list_all_length list_all2_conv_all_nth)
  then have "list_all2 json_matches ys ?qs \<longleftrightarrow> list_all2 json_matches ys ps" for ys
    using len by (auto simp: list_all2_conv_all_nth)
  then show ?case by (simp add: xs(1) matches_array comp_def)
next
  case (PObj ps)
  obtain ms where m: "seen = JObj ms" "\<forall>(k, v) \<in> set ms. \<exists>p. map_of ps k = Some p \<and> json_matches v p"
      "set (map fst ps) \<subseteq> set (map fst ms)"
    using PObj.prems(3) unfolding matches_object by blast
  then have ms: "seen = JObj ms" "\<And>k v. (k, v) \<in> set ms \<Longrightarrow> \<exists>p. map_of ps k = Some p \<and> json_matches v p"
      "set (map fst ps) \<subseteq> set (map fst ms)"
    by blast+
  have d: "distinct (map fst ms)" and vs: "\<And>k v. (k, v) \<in> set ms \<Longrightarrow> dict_ok v"
    using PObj.prems(2) ms(1) by (auto simp: list_all_iff)
  let ?f = "\<lambda>k v. sort_keys (copy_wildcards v (case map_of ps k of None \<Rightarrow> PNull | Some p \<Rightarrow> p))"
  let ?qs = "map (\<lambda>(k, v). (k, convert_any v)) (sort_key fst (map (\<lambda>(k, v). (k, ?f k v)) ms))"
  have q: "convert_any (sort_keys (copy_wildcards seen (PObj ps))) = PObj ?qs"
    by (simp add: ms(1) comp_def case_prod_beta')
  have keys: "set (map fst ?qs) = set (map fst ps)"
    unfolding written_members(2) [OF d] using ms(2,3) by (force dest: map_of_SomeD)
  have same: "(\<exists>q. map_of ?qs k = Some q \<and> json_matches y q) \<longleftrightarrow> (\<exists>p. map_of ps k = Some p \<and> json_matches y p)" for k y
  proof (cases "map_of ms k")
    case None
    then have "k \<notin> set (map fst ps)" using ms(3) by (force simp: map_of_eq_None_iff)
    then have "map_of ps k = None" by (simp add: map_of_eq_None_iff)
    then show ?thesis using None unfolding written_members(1) [OF d] by simp
  next
    case (Some v)
    then have v: "(k, v) \<in> set ms" by (rule map_of_SomeD)
    obtain p where p: "map_of ps k = Some p" "json_matches v p" using ms(2) [OF v] by blast
    have "(k, p) \<in> set ps" using p(1) by (rule map_of_SomeD)
    then have "json_matches y (convert_any (sort_keys (copy_wildcards v p))) \<longleftrightarrow> json_matches y p"
      using PObj.IH [of "(k, p)" p v y] PObj.prems(1) vs [OF v] p(2) by (auto simp: list_all_iff)
    then show ?thesis using Some p(1) unfolding written_members(1) [OF d] by simp
  qed
  show ?case unfolding q matches_object keys same ..
next
  case (PStr t)
  then show ?case by (cases seen) auto
next
  case (PBool b)
  then show ?case by (cases seen; cases x) auto
next
  case (PInt i)
  then show ?case by (cases seen; cases x) auto
next
  case PNull
  then show ?case by (cases seen) auto
qed simp


subsection \<open>Files\<close>

text \<open>
  The file system, files and directories, and the fake one of a test while there is one, which can be paused: its own
  files, the files of the real one that it shows as they are, as long as it has none of its own at the path, and its
  directories.  A text is not a JSON document.
\<close>

datatype data_file = JsonDoc json | TextDoc string

datatype data_error = DataAssertion | DataNotFound string | DataInvalid string

record fake_fs =
  fk_files :: "string \<rightharpoonup> data_file"
  fk_mapped :: "string list"
  fk_dirs :: "string list"

record data_world =
  dw_real :: "string \<rightharpoonup> data_file"
  dw_dirs :: "string list"
  dw_fake :: "fake_fs option"
  dw_paused :: bool

type_synonym 'a data_eff = "(data_world, data_error, 'a) eff"

definition active_fake :: "data_world \<Rightarrow> fake_fs option" where
  "active_fake w = (if dw_paused w then None else dw_fake w)"

definition data_files :: "data_world \<Rightarrow> string \<rightharpoonup> data_file" where
  "data_files w name = (case active_fake w of
     None \<Rightarrow> dw_real w name
   | Some fk \<Rightarrow> (case fk_files fk name of
       Some f \<Rightarrow> Some f
     | None \<Rightarrow> if name \<in> set (fk_mapped fk) then dw_real w name else None))"

definition data_dirs :: "data_world \<Rightarrow> string list" where
  "data_dirs w = (case active_fake w of None \<Rightarrow> dw_dirs w | Some fk \<Rightarrow> fk_dirs fk)"

text \<open>The directory of a path with a slash in it.\<close>

definition parent_dir :: "string \<Rightarrow> string" where
  "parent_dir name = fst (py_rpartition (CHR ''/'') name)"

definition read_file :: "string \<Rightarrow> data_file data_eff" where
  "read_file name = (\<lambda>w. case data_files w name of None \<Rightarrow> (Inl (DataNotFound name), w) | Some f \<Rightarrow> (Inr f, w))"

text \<open>A file is opened for writing in a directory that exists.\<close>

definition write_file :: "string \<Rightarrow> data_file \<Rightarrow> unit data_eff" where
  "write_file name f = (\<lambda>w.
     if parent_dir name \<notin> set (data_dirs w) then (Inl (DataNotFound name), w)
     else (Inr (), case active_fake w of
       None \<Rightarrow> w\<lparr>dw_real := (dw_real w)(name \<mapsto> f)\<rparr>
     | Some fk \<Rightarrow> w\<lparr>dw_fake := Some (fk\<lparr>fk_files := (fk_files fk)(name \<mapsto> f)\<rparr>)\<rparr>))"

record test_data =
  td_root :: string
  td_fake_fs :: bool
  td_update :: bool

definition data_path :: "test_data \<Rightarrow> string \<Rightarrow> string option \<Rightarrow> string" where
  "data_path d path extension =
     td_root d @ ''/'' @ (case extension of None \<Rightarrow> path | Some e \<Rightarrow> path @ ''.'' @ e)"

text \<open>The fake file system is resumed only if the body does not raise.\<close>

definition pause_fake_fs :: "test_data \<Rightarrow> 'a data_eff \<Rightarrow> 'a data_eff" where
  "pause_fake_fs d body =
     bind_eff (if td_fake_fs d then modify_eff (\<lambda>w. w\<lparr>dw_paused := True\<rparr>) else ret_eff ()) (\<lambda>_.
     bind_eff body (\<lambda>x.
     bind_eff (if td_fake_fs d then modify_eff (\<lambda>w. w\<lparr>dw_paused := False\<rparr>) else ret_eff ()) (\<lambda>_. ret_eff x)))"

definition read_json :: "test_data \<Rightarrow> string \<Rightarrow> pattern data_eff" where
  "read_json d path = bind_eff (read_file (data_path d path (Some ''json''))) (\<lambda>f. case f of
     JsonDoc v \<Rightarrow> ret_eff (convert_any v)
   | TextDoc _ \<Rightarrow> raise_eff (DataInvalid path))"

definition write_json :: "test_data \<Rightarrow> json \<Rightarrow> string \<Rightarrow> unit data_eff" where
  "write_json d data path = (let name = data_path d path (Some ''json'') in pause_fake_fs d
     (bind_eff (read_eff (\<lambda>w. data_files w name \<noteq> None)) (\<lambda>found.
      bind_eff (if found then bind_eff (read_json d path) (\<lambda>old. ret_eff (copy_wildcards data old)) else ret_eff data) (\<lambda>data.
      write_file name (JsonDoc (sort_keys data))))))"

definition assert_json_matches :: "test_data \<Rightarrow> json \<Rightarrow> string \<Rightarrow> unit data_eff" where
  "assert_json_matches d seen path =
     bind_eff (if td_update d then write_json d seen path else ret_eff ()) (\<lambda>_.
     bind_eff (read_json d path) (\<lambda>expected. if json_matches seen expected then ret_eff () else raise_eff DataAssertion))"

text \<open>A Pydantic model is its dump, without its defaults or with them, and is validated by its type.\<close>

definition write_pydantic :: "test_data \<Rightarrow> (bool \<Rightarrow> json) \<Rightarrow> string \<Rightarrow> bool \<Rightarrow> unit data_eff" where
  "write_pydantic d model_dump path exclude_defaults = write_json d (model_dump exclude_defaults) path"

definition assert_pydantic_matches :: "test_data \<Rightarrow> (bool \<Rightarrow> json) \<Rightarrow> string \<Rightarrow> bool \<Rightarrow> unit data_eff" where
  "assert_pydantic_matches d model_dump path exclude_defaults =
     bind_eff (if td_update d then write_pydantic d model_dump path exclude_defaults else ret_eff ()) (\<lambda>_.
     let seen_json = model_dump exclude_defaults in
     bind_eff (read_json d path) (\<lambda>expected. if json_matches seen_json expected then ret_eff () else raise_eff DataAssertion))"

definition read_pydantic :: "(pattern \<Rightarrow> data_error + 'm) \<Rightarrow> test_data \<Rightarrow> string \<Rightarrow> 'm data_eff" where
  "read_pydantic model_validate d path = bind_eff (read_json d path) (\<lambda>v. lift_eff (model_validate v))"

definition py_rstrip :: "string \<Rightarrow> string" where
  "py_rstrip s = rev (dropWhile py_space (rev s))"

definition read_text :: "test_data \<Rightarrow> string \<Rightarrow> bool \<Rightarrow> string data_eff" where
  "read_text d path strip = bind_eff (read_file (data_path d path None)) (\<lambda>f. case f of
     TextDoc text \<Rightarrow> ret_eff (if strip then py_rstrip text else text)
   | JsonDoc _ \<Rightarrow> raise_eff (DataInvalid path))"

definition write_text :: "test_data \<Rightarrow> string \<Rightarrow> string \<Rightarrow> bool \<Rightarrow> unit data_eff" where
  "write_text d data path add_newline =
     pause_fake_fs d (write_file (data_path d path None) (TextDoc (if add_newline then data @ [CHR 0x0A] else data)))"

definition assert_text_matches :: "test_data \<Rightarrow> string \<Rightarrow> string \<Rightarrow> bool \<Rightarrow> unit data_eff" where
  "assert_text_matches d seen path strip =
     bind_eff (if td_update d then write_text d seen path strip else ret_eff ()) (\<lambda>_.
     bind_eff (read_text d path strip) (\<lambda>text. if seen = text then ret_eff () else raise_eff DataAssertion))"

text \<open>
  Where the test data are when the suite has a fake file system: \<open>Data\<close> knows it, it is not paused, and it shows the
  real file.
\<close>

definition shared_path :: "test_data \<Rightarrow> string \<Rightarrow> data_world \<Rightarrow> bool" where
  "shared_path d name w \<longleftrightarrow> (td_fake_fs d \<longrightarrow> (\<exists>fk. active_fake w = Some fk \<and> fk_files fk name = None \<and> name \<in> set (fk_mapped fk)))"

definition written_dirs :: "test_data \<Rightarrow> data_world \<Rightarrow> string list" where
  "written_dirs d w = (if td_fake_fs d then dw_dirs w else data_dirs w)"

lemma written_file:
  assumes "parent_dir name \<in> set (data_dirs w)"
  shows "\<exists>w'. write_file name f w = (Inr (), w') \<and> data_files w' = (data_files w)(name \<mapsto> f)"
  using assms by (cases "active_fake w") (auto simp: write_file_def data_files_def active_fake_def fun_eq_iff split: if_splits option.split)

text \<open>A write while the fake file system is paused.\<close>

lemma paused_write:
  assumes "shared_path d name w"
  shows "pause_fake_fs d (write_file name f) w = (if parent_dir name \<in> set (written_dirs d w)
    then (Inr (), snd (pause_fake_fs d (write_file name f) w))
    else (Inl (DataNotFound name), if td_fake_fs d then w\<lparr>dw_paused := True\<rparr> else w))"
    "parent_dir name \<in> set (written_dirs d w) \<Longrightarrow> data_files (snd (pause_fake_fs d (write_file name f) w)) = (data_files w)(name \<mapsto> f)"
proof -
  show "pause_fake_fs d (write_file name f) w = (if parent_dir name \<in> set (written_dirs d w)
    then (Inr (), snd (pause_fake_fs d (write_file name f) w))
    else (Inl (DataNotFound name), if td_fake_fs d then w\<lparr>dw_paused := True\<rparr> else w))"
    by (simp add: pause_fake_fs_def write_file_def written_dirs_def data_dirs_def active_fake_def eff_simps)
  assume p: "parent_dir name \<in> set (written_dirs d w)"
  show "data_files (snd (pause_fake_fs d (write_file name f) w)) = (data_files w)(name \<mapsto> f)"
  proof (cases "td_fake_fs d")
    case True
    then obtain fk where fk: "dw_fake w = Some fk" "\<not> dw_paused w" "fk_files fk name = None" "name \<in> set (fk_mapped fk)"
      using assms by (auto simp: shared_path_def active_fake_def split: if_splits)
    then have "snd (pause_fake_fs d (write_file name f) w) = w\<lparr>dw_real := (dw_real w)(name \<mapsto> f)\<rparr>"
      using True p by (simp add: pause_fake_fs_def write_file_def written_dirs_def data_dirs_def active_fake_def eff_simps)
    then show ?thesis using fk by (auto simp: data_files_def active_fake_def fun_eq_iff split: option.split)
  next
    case False
    then have "parent_dir name \<in> set (data_dirs w)" using p by (simp add: written_dirs_def)
    from written_file [OF this, of f] show ?thesis using False by (auto simp: pause_fake_fs_def eff_simps)
  qed
qed

text \<open>
  A text that is updated with a newline matches only if it ends in nothing that is white space, because all of it is
  removed when the file is read.
\<close>

lemma updated_text:
  assumes "td_update d" "shared_path d (data_path d path None) w" "parent_dir (data_path d path None) \<in> set (written_dirs d w)"
  shows "fst (assert_text_matches d seen path strip w) =
    (if strip \<and> py_rstrip seen \<noteq> seen then Inl DataAssertion else Inr ())"
proof -
  let ?text = "if strip then seen @ [CHR 0x0A] else seen"
  obtain w' where w': "pause_fake_fs d (write_file (data_path d path None) (TextDoc ?text)) w = (Inr (), w')"
      "data_files w' (data_path d path None) = Some (TextDoc ?text)"
    using paused_write [OF assms(2), of "TextDoc ?text"] assms(3) by (metis fun_upd_same snd_conv)
  have "py_rstrip (seen @ [CHR 0x0A]) = py_rstrip seen" by (simp add: py_rstrip_def py_space_def)
  then show ?thesis
    using assms(1) w'
    by (auto simp: assert_text_matches_def write_text_def read_text_def read_file_def eff_simps)
qed

lemma written_json:
  assumes d: "shared_path d (data_path d path (Some ''json'')) w" and w: "data_files w (data_path d path (Some ''json'')) = None \<or>
      (\<exists>old. data_files w (data_path d path (Some ''json'')) = Some (JsonDoc old))"
  shows "write_json d data path w = pause_fake_fs d (write_file (data_path d path (Some ''json'')) (JsonDoc (sort_keys
    (case data_files w (data_path d path (Some ''json'')) of Some (JsonDoc old) \<Rightarrow> copy_wildcards data (convert_any old) | _ \<Rightarrow> data)))) w"
proof -
  let ?n = "data_path d path (Some ''json'')"
  let ?w = "if td_fake_fs d then w\<lparr>dw_paused := True\<rparr> else w"
  have "data_files ?w ?n = data_files w ?n"
    using d by (auto simp: shared_path_def data_files_def active_fake_def split: if_splits)
  then show ?thesis using w
    by (auto simp: write_json_def pause_fake_fs_def read_json_def read_file_def Let_def eff_simps split: if_splits)
qed

lemma path_same [simp]: "data_path (d\<lparr>td_update := u\<rparr>) path e = data_path d path e"
  by (simp add: data_path_def split: option.split)

lemma assert_updated:
  "td_update d \<Longrightarrow> assert_json_matches d seen path =
    bind_eff (write_json d seen path) (\<lambda>_. assert_json_matches (d\<lparr>td_update := False\<rparr>) seen path)"
proof -
  assume u: "td_update d"
  have "read_json (d\<lparr>td_update := False\<rparr>) path = read_json d path" by (simp add: read_json_def)
  then have "assert_json_matches (d\<lparr>td_update := False\<rparr>) seen path = bind_eff (read_json d path)
      (\<lambda>expected. if json_matches seen expected then ret_eff () else raise_eff DataAssertion)"
    by (simp add: assert_json_matches_def fun_eq_iff bind_eff_apply ret_eff_apply)
  then show ?thesis using u by (simp add: assert_json_matches_def)
qed

lemma assertion_outcome:
  "\<not> td_update d \<Longrightarrow> data_files w (data_path d path (Some ''json'')) = Some (JsonDoc v) \<Longrightarrow>
    assert_json_matches d x path w = (if json_matches x (convert_any v) then Inr () else Inl DataAssertion, w)"
  by (simp add: assert_json_matches_def read_json_def read_file_def eff_simps)


lemma accepted_same:
  assumes "shared_path d (data_path d path (Some ''json'')) w" and seen: "dict_ok seen"
    and stored: "data_files w (data_path d path (Some ''json'')) = None \<or>
      (\<exists>old. data_files w (data_path d path (Some ''json'')) = Some (JsonDoc old) \<and> dict_ok old)"
    and that: "assert_json_matches (d\<lparr>td_update := False\<rparr>) seen path w = (Inr (), w)"
    and after: "\<And>x. assert_json_matches (d\<lparr>td_update := False\<rparr>) x path w' =
      (if json_matches x (convert_any (sort_keys new)) then Inr () else Inl DataAssertion, w')"
    and new: "new = (case data_files w (data_path d path (Some ''json'')) of Some (JsonDoc old) \<Rightarrow> copy_wildcards seen (convert_any old) | _ \<Rightarrow> seen)"
  shows "fst (assert_json_matches (d\<lparr>td_update := False\<rparr>) x path w') = fst (assert_json_matches (d\<lparr>td_update := False\<rparr>) x path w)"
proof (cases "data_files w (data_path d path (Some ''json''))")
  case None
  then show ?thesis using that by (simp add: assert_json_matches_def read_json_def read_file_def eff_simps)
next
  case (Some doc)
  then obtain old where old: "data_files w (data_path d path (Some ''json'')) = Some (JsonDoc old)" "dict_ok old" using stored by auto
  have before: "assert_json_matches (d\<lparr>td_update := False\<rparr>) y path w = (if json_matches y (convert_any old) then Inr () else Inl DataAssertion, w)" for y
    by (rule assertion_outcome) (simp_all add: old)
  have "json_matches seen (convert_any old)" using that before [of seen] by (simp split: if_splits)
  then show ?thesis using updated_same [OF pattern_ok_read [OF old(2)] seen, of x] old(1) before [of x] after [of x] new by simp
qed

subsection \<open>Properties\<close>

text \<open> C40. An update keeps what a test accepts.  The expected output is missing or a JSON document, and the output
  of the test is a JSON value; when the suite uses a fake file system it shows the file of the test data.  If the directory of
  the file exists, the assertion passes when outputs are updated and passes again when they are not, only that file changes, and if the
  test passed before the update, then every other output is accepted after it exactly when it was before, so the
  wildcards survive.  If the directory is missing, the update raises, nothing is written, and a fake file system
  stays paused. \<close>
theorem test_data_update_passes:
  assumes d: "td_update d" "shared_path d (data_path d path (Some ''json'')) w" and seen: "dict_ok seen"
    and stored: "data_files w (data_path d path (Some ''json'')) = None \<or>
      (\<exists>old. data_files w (data_path d path (Some ''json'')) = Some (JsonDoc old) \<and> dict_ok old)"
  shows "if parent_dir (data_path d path (Some ''json'')) \<in> set (written_dirs d w)
    then \<exists>w'. assert_json_matches d seen path w = (Inr (), w') \<and>
      assert_json_matches (d\<lparr>td_update := False\<rparr>) seen path w' = (Inr (), w') \<and>
      (\<forall>name. name \<noteq> data_path d path (Some ''json'') \<longrightarrow> data_files w' name = data_files w name) \<and>
      (assert_json_matches (d\<lparr>td_update := False\<rparr>) seen path w = (Inr (), w) \<longrightarrow>
        (\<forall>x. fst (assert_json_matches (d\<lparr>td_update := False\<rparr>) x path w') = fst (assert_json_matches (d\<lparr>td_update := False\<rparr>) x path w)))
    else assert_json_matches d seen path w =
      (Inl (DataNotFound (data_path d path (Some ''json''))), if td_fake_fs d then w\<lparr>dw_paused := True\<rparr> else w)"
proof -
  let ?name = "data_path d path (Some ''json'')"
  let ?d = "d\<lparr>td_update := False\<rparr>"
  obtain new where new: "new = (case data_files w ?name of Some (JsonDoc old) \<Rightarrow> copy_wildcards seen (convert_any old) | _ \<Rightarrow> seen)"
    by simp
  let ?r = "pause_fake_fs d (write_file ?name (JsonDoc (sort_keys new))) w"
  have "write_json d seen path w = ?r" using written_json [OF d(2), of seen] stored unfolding new by auto
  then have u: "assert_json_matches d seen path w = (case ?r of (Inl e, w) \<Rightarrow> (Inl e, w) | (Inr _, w) \<Rightarrow> assert_json_matches ?d seen path w)"
    by (simp add: assert_updated [OF d(1)] bind_eff_apply)
  note wr = paused_write [OF d(2), of "JsonDoc (sort_keys new)"]
  show ?thesis
  proof (cases "parent_dir ?name \<in> set (written_dirs d w)")
    case False
    then show ?thesis using u wr(1) by simp
  next
    case True
    obtain w' where w': "?r = (Inr (), w')" "data_files w' = (data_files w)(?name \<mapsto> JsonDoc (sort_keys new))"
      using wr(1) wr(2) [OF True] unfolding if_P [OF True] by blast
    have after: "assert_json_matches ?d x path w' = (if json_matches x (convert_any (sort_keys new)) then Inr () else Inl DataAssertion, w')" for x
      by (rule assertion_outcome) (simp_all add: w'(2))
    have m: "json_matches seen (convert_any (sort_keys new))"
      unfolding new using stored updated_matches [OF seen] matches_itself [OF seen] by auto
    have "assert_json_matches d seen path w = (Inr (), w')" "assert_json_matches ?d seen path w' = (Inr (), w')"
      using u w'(1) after [of seen] m by simp_all
    moreover have "fst (assert_json_matches ?d x path w') = fst (assert_json_matches ?d x path w)"
      if "assert_json_matches ?d seen path w = (Inr (), w)" for x
      by (rule accepted_same [OF d(2) seen stored that after new])
    moreover have "\<forall>name. name \<noteq> ?name \<longrightarrow> data_files w' name = data_files w name" by (simp add: w'(2))
    ultimately show ?thesis unfolding if_P [OF True] by blast
  qed
qed

text \<open>A stored output with a wildcard, and the output of a test.\<close>

definition demo_data :: test_data where
  "demo_data = \<lparr>td_root = ''data'', td_fake_fs = True, td_update = True\<rparr>"

definition demo_files :: data_world where
  "demo_files = \<lparr>dw_real = [''data/job.json'' \<mapsto> JsonDoc (JObj [(''id'', JStr ''<ANY>''), (''phase'', JStr ''HELD'')])],
     dw_dirs = [''data''],
     dw_fake = Some \<lparr>fk_files = Map.empty, fk_mapped = [''data/job.json''], fk_dirs = []\<rparr>, dw_paused = False\<rparr>"

theorem test_data_update_passes_witness:
  "\<exists>w'. assert_json_matches demo_data (JObj [(''id'', JInt 7), (''phase'', JStr ''HELD'')]) ''job'' demo_files = (Inr (), w') \<and>
     fst (assert_json_matches (demo_data\<lparr>td_update := False\<rparr>) (JObj [(''id'', JInt 8), (''phase'', JStr ''HELD'')]) ''job'' w') = Inr ()"
proof -
  let ?seen = "JObj [(''id'', JInt 7), (''phase'', JStr ''HELD'')]"
  have stored: "data_files demo_files (data_path demo_data ''job'' (Some ''json'')) =
      Some (JsonDoc (JObj [(''id'', JStr ''<ANY>''), (''phase'', JStr ''HELD'')]))"
    by (simp add: demo_data_def demo_files_def data_files_def active_fake_def data_path_def)
  have old: "assert_json_matches (demo_data\<lparr>td_update := False\<rparr>) (JObj [(''id'', JInt i), (''phase'', JStr ''HELD'')]) ''job'' demo_files =
      (Inr (), demo_files)" for i
    by (subst assertion_outcome [where v = "JObj [(''id'', JStr ''<ANY>''), (''phase'', JStr ''HELD'')]"])
      (simp_all add: demo_data_def demo_files_def data_files_def active_fake_def data_path_def)
  have "td_update demo_data" "shared_path demo_data (data_path demo_data ''job'' (Some ''json'')) demo_files" "dict_ok ?seen"
    by (simp_all add: demo_data_def demo_files_def shared_path_def active_fake_def data_path_def)
  moreover have "parent_dir (data_path demo_data ''job'' (Some ''json'')) \<in> set (written_dirs demo_data demo_files)" by code_simp
  ultimately show ?thesis using test_data_update_passes [of demo_data "''job''" demo_files ?seen] stored old by auto
qed

end
