(* ===== verification/TestSupport.thy ===== *)
theory TestSupport
  imports AppTools Logging Blockkit
begin

text \<open>
  The smaller doubles and helpers for test suites: the mock of Google Cloud Storage (\<open>testing/gcs/_mock.py\<close>), the Slack
  webhook (\<open>testing/slack/_mocks.py\<close>), what is captured of Sentry (\<open>testing/sentry/\<close>), the parsing of captured logs
  (src/safir-logging/src/safir/testing/logging/\<open>_parse.py\<close>) and the start of a server (\<open>testing/uvicorn/_spawn.py\<close>).
\<close>

datatype test_error = TestAssertion | TestNotFound string | TestKey string | TestType | TestValue string | TestRuntime | TestAttribute

subsection \<open>Google Cloud Storage\<close>

text \<open>Contents, size, time of modification and inode of the files below a path.\<close>

record stored_file =
  sf_content :: "nat list"
  sf_mtime :: int
  sf_inode :: nat

type_synonym file_tree = "string \<rightharpoonup> stored_file"

text \<open>Times are in microseconds; an expected expiration of zero is not checked.\<close>

record mock_blob =
  mb_name :: string
  mb_expected_expiration :: "int option"

definition blob_signed_url :: "mock_blob \<Rightarrow> string \<Rightarrow> int \<Rightarrow> string \<Rightarrow> test_error + string" where
  "blob_signed_url blob version expiration meth =
     (if version \<noteq> ''v4'' then Inl TestAssertion
      else if mb_expected_expiration blob \<notin> {None, Some 0, Some expiration} then Inl TestAssertion
      else if meth \<noteq> ''GET'' then Inl TestAssertion
      else Inr (''https://example.com/'' @ mb_name blob))"

text \<open>Whether the file exists is known from the making of the blob, its contents are read each time.\<close>

record mock_file_blob = mock_blob +
  fb_path :: string
  fb_exists :: bool
  fb_size :: "nat option"
  fb_updated :: "int option"
  fb_etag :: "string option"

definition new_file_blob :: "file_tree \<Rightarrow> string \<Rightarrow> string \<Rightarrow> int option \<Rightarrow> mock_file_blob" where
  "new_file_blob fs name path expected = (let f = fs path in
     \<lparr>mb_name = name, mb_expected_expiration = expected, fb_path = path, fb_exists = (f \<noteq> None),
      fb_size = map_option (\<lambda>f. length (sf_content f)) f, fb_updated = map_option sf_mtime f,
      fb_etag = map_option (\<lambda>f. nat_str (sf_inode f)) f\<rparr>)"

definition download_as_bytes :: "file_tree \<Rightarrow> mock_file_blob \<Rightarrow> test_error + nat list" where
  "download_as_bytes fs blob = (case fs (fb_path blob) of
     None \<Rightarrow> Inl (TestNotFound (fb_path blob)) | Some f \<Rightarrow> Inr (sf_content f))"

definition blob_open :: "file_tree \<Rightarrow> mock_file_blob \<Rightarrow> string \<Rightarrow> test_error + nat list" where
  "blob_open fs blob mode = (if mode \<noteq> ''rb'' then Inl TestAssertion else download_as_bytes fs blob)"

record mock_bucket =
  mk_expected_expiration :: "int option"
  mk_path :: "string option"

datatype some_blob = PlainBlob mock_blob | FileBlob mock_file_blob

definition bucket_blob :: "file_tree \<Rightarrow> mock_bucket \<Rightarrow> string \<Rightarrow> some_blob" where
  "bucket_blob fs bucket blob_name = (case mk_path bucket of
     Some path \<Rightarrow> FileBlob (new_file_blob fs blob_name (path @ ''/'' @ blob_name) (mk_expected_expiration bucket))
   | None \<Rightarrow> PlainBlob \<lparr>mb_name = blob_name, mb_expected_expiration = mk_expected_expiration bucket\<rparr>)"

record mock_storage_client =
  ms_bucket_name :: "string option"
  ms_expected_expiration :: "int option"
  ms_path :: "string option"

definition client_bucket :: "mock_storage_client \<Rightarrow> string \<Rightarrow> test_error + mock_bucket" where
  "client_bucket client bucket_name =
     (if ms_bucket_name client \<notin> {None, Some [], Some bucket_name} then Inl TestAssertion
      else Inr \<lparr>mk_expected_expiration = ms_expected_expiration client, mk_path = ms_path client\<rparr>)"

text \<open>What the signing of \<open>safir.gcs\<close> gets from the mock client.\<close>

definition answer_signing :: "file_tree \<Rightarrow> mock_storage_client \<Rightarrow> 'c signing_request \<Rightarrow> test_error + string" where
  "answer_signing fs client r = (case client_bucket client (sr_bucket r) of
     Inl e \<Rightarrow> Inl e
   | Inr bucket \<Rightarrow> blob_signed_url
       (case bucket_blob fs bucket (sr_blob r) of PlainBlob b \<Rightarrow> b | FileBlob b \<Rightarrow> mock_blob.truncate b)
       (sr_version r) (sr_expiration r) (sr_method r))"

text \<open>A service is accepted by the mock exactly if it signs with the lifetime and in the bucket the test expects.\<close>

lemma mock_accepts_signing:
  assumes "signed_url bracket_ok service uri mime_type = Some r"
  shows "answer_signing fs client r =
    (if ms_bucket_name client \<in> {None, Some [], Some (sr_bucket r)} \<and>
        ms_expected_expiration client \<in> {None, Some 0, Some (sv_lifetime service)}
     then Inr (''https://example.com/'' @ sr_blob r) else Inl TestAssertion)"
proof -
  have "sr_version r = ''v4''" "sr_method r = ''GET''" "sr_expiration r = sv_lifetime service"
    using assms by (auto simp: signed_url_def split: option.splits if_splits)
  then show ?thesis
    by (auto simp: answer_signing_def client_bucket_def bucket_blob_def blob_signed_url_def new_file_blob_def
        mock_blob.defs Let_def split: option.split)
qed

subsection \<open>Slack\<close>

text \<open>A body that is not JSON has no value and raises.\<close>

record mock_slack =
  mw_url :: string
  mw_messages :: "json list"

definition new_mock_slack :: "string \<Rightarrow> mock_slack" where
  "new_mock_slack url = \<lparr>mw_url = url, mw_messages = []\<rparr>"

definition post_webhook :: "json option \<Rightarrow> (mock_slack, test_error, nat) eff" where
  "post_webhook body = (case body of
     None \<Rightarrow> raise_eff (TestValue ''JSONDecodeError'')
   | Some message \<Rightarrow> bind_eff (modify_eff (\<lambda>m. m\<lparr>mw_messages := mw_messages m @ [message]\<rparr>)) (\<lambda>_. ret_eff 201))"

subsection \<open>Sentry\<close>

record sentry_attachment =
  at_filename :: string
  at_bytes :: "nat list"
  at_content_type :: string

record captured =
  ca_errors :: "json list"
  ca_transactions :: "json list"
  ca_attachments :: "sentry_attachment list"

datatype envelope_item = EventItem "json option" | TransactionItem "json option" | AttachmentItem sentry_attachment | OtherItem

text \<open>The items of an envelope are recorded up to one that has no payload; then the envelope goes to the real transport.\<close>

definition capture_item :: "envelope_item \<Rightarrow> (captured, test_error, unit) eff" where
  "capture_item item = (case item of
     EventItem None \<Rightarrow> raise_eff (TestValue ''Sentry event unexpectedly missing json payload'')
   | EventItem (Some j) \<Rightarrow> modify_eff (\<lambda>c. c\<lparr>ca_errors := ca_errors c @ [j]\<rparr>)
   | TransactionItem None \<Rightarrow> raise_eff (TestValue ''Sentry transaction unexpectedly missing json payload'')
   | TransactionItem (Some j) \<Rightarrow> modify_eff (\<lambda>c. c\<lparr>ca_transactions := ca_transactions c @ [j]\<rparr>)
   | AttachmentItem a \<Rightarrow> modify_eff (\<lambda>c. c\<lparr>ca_attachments := ca_attachments c @ [a]\<rparr>)
   | OtherItem \<Rightarrow> ret_eff ())"

primrec capture_envelope :: "(captured, test_error, unit) eff \<Rightarrow> envelope_item list \<Rightarrow> (captured, test_error, unit) eff" where
  "capture_envelope transport [] = transport"
| "capture_envelope transport (item # items) = bind_eff (capture_item item) (\<lambda>_. capture_envelope transport items)"

lemma events_captured:
  "capture_envelope (ret_eff ()) (map (EventItem \<circ> Some) js) c = (Inr (), c\<lparr>ca_errors := ca_errors c @ js\<rparr>)"
  by (induction js arbitrary: c) (simp_all add: capture_item_def eff_simps)

text \<open>The clients of the global and of the current scope; a client is made with a transport of its own unless one is given.\<close>

record 'c sentry_scopes =
  ss_global :: "'c option"
  ss_current :: "'c option"

definition sentry_inner :: "('t option \<Rightarrow> 'c) \<Rightarrow> 't \<Rightarrow> 't option \<Rightarrow> ('c sentry_scopes, 'e, unit) eff" where
  "sentry_inner make_client test_transport transport = modify_eff (\<lambda>s. s\<lparr>ss_global :=
     Some (make_client (case transport of None \<Rightarrow> Some test_transport | Some t \<Rightarrow> Some t))\<rparr>)"

definition sentry_init_fixture :: "('c sentry_scopes, 'e, 'a) eff \<Rightarrow> ('c sentry_scopes, 'e, 'a) eff" where
  "sentry_init_fixture body = (\<lambda>s. let old_client = ss_global s in
     case body (s\<lparr>ss_current := None\<rparr>) of (r, s) \<Rightarrow> (r, s\<lparr>ss_global := old_client\<rparr>))"

text \<open>Whatever the test does, the global client is the old one afterwards; that of the current scope is not restored.\<close>

lemma sentry_client_restored:
  "ss_global (snd (sentry_init_fixture body s)) = ss_global s"
  "ss_current (snd (sentry_init_fixture (ret_eff x) s)) = None"
  by (simp_all add: sentry_init_fixture_def Let_def eff_simps split: prod.split)

subsection \<open>Captured logs\<close>

text \<open>\<open>logging.getLevelName\<close>\<close>

definition level_name :: "nat \<Rightarrow> string" where
  "level_name level = (case map_of [(50, ''CRITICAL''), (40, ''ERROR''), (30, ''WARNING''), (20, ''INFO''), (10, ''DEBUG''), (0, ''NOTSET'')] level of
     None \<Rightarrow> ''Level '' @ nat_str level | Some n \<Rightarrow> n)"

text \<open>\<open>from_iso\<close> is \<open>datetime.fromisoformat\<close> with its time zone replaced by UTC, in microseconds.\<close>

definition assert_timestamp_recent :: "(string \<Rightarrow> int option) \<Rightarrow> json \<Rightarrow> int \<Rightarrow> test_error + unit" where
  "assert_timestamp_recent from_iso isotimestamp now = (case isotimestamp of
     JStr s \<Rightarrow>
       if s = [] \<or> last s \<noteq> CHR ''Z'' then Inl TestAssertion
       else (case from_iso (butlast s) of
         None \<Rightarrow> Inl (TestValue ''Invalid isoformat string'')
       | Some t \<Rightarrow> if now - 3600000000 < t \<and> t < now then Inr () else Inl TestAssertion)
   | _ \<Rightarrow> Inl TestAttribute)"

definition without :: "string \<Rightarrow> (string \<times> json) list \<Rightarrow> (string \<times> json) list" where
  "without k ms = filter (\<lambda>m. fst m \<noteq> k) ms"

text \<open>\<open>'userAgent' in request\<close> and the deletion of it, of a value that need not be a dictionary.\<close>

definition strip_user_agent :: "json \<Rightarrow> test_error + json" where
  "strip_user_agent request = (case request of
     JObj ms \<Rightarrow> Inr (JObj (without ''userAgent'' ms))
   | JArr xs \<Rightarrow> if JStr ''userAgent'' \<in> set xs then Inl TestType else Inr request
   | JStr s \<Rightarrow> if \<exists>i \<le> length s. py_startswith (drop i s) ''userAgent'' then Inl TestType else Inr request
   | _ \<Rightarrow> Inl TestType)"

definition strip_request :: "(string \<times> json) list \<Rightarrow> test_error + (string \<times> json) list" where
  "strip_request ms =
     (if ''request_id'' \<notin> fst ` set ms then Inr ms
      else case map_of ms ''httpRequest'' of
        None \<Rightarrow> Inl (TestKey ''httpRequest'')
      | Some request \<Rightarrow> (case strip_user_agent request of
          Inl e \<Rightarrow> Inl e
        | Inr request \<Rightarrow> Inr (map (\<lambda>m. if fst m = ''httpRequest'' then (fst m, request) else m) (without ''request_id'' ms))))"

text \<open>One record: its logger's name, its level and the value of its message, \<open>None\<close> if that is not JSON.\<close>

definition check_message ::
  "(string \<Rightarrow> int option) \<Rightarrow> int \<Rightarrow> string \<Rightarrow> nat \<Rightarrow> (string \<times> json) list \<Rightarrow> test_error + (string \<times> json) list" where
  "check_message from_iso now logger_name level ms =
     (case map_of ms ''logger'' of None \<Rightarrow> Inl (TestKey ''logger'') | Some logger \<Rightarrow>
      if logger \<noteq> JStr logger_name then Inl TestAssertion else
      let ms = without ''logger'' ms in
      case map_of ms ''severity'' of None \<Rightarrow> Inl (TestKey ''severity'') | Some severity \<Rightarrow>
      if severity \<noteq> JStr (to_lower (level_name level)) then Inl TestAssertion else
      case (case map_of ms ''timestamp'' of None \<Rightarrow> Inr () | Some t \<Rightarrow> assert_timestamp_recent from_iso t now) of
        Inl e \<Rightarrow> Inl e
      | Inr _ \<Rightarrow> strip_request (without ''timestamp'' ms))"

fun parse_log_tuples ::
  "(string \<Rightarrow> int option) \<Rightarrow> int \<Rightarrow> string \<Rightarrow> bool \<Rightarrow> (string \<times> nat \<times> json option) list \<Rightarrow> test_error + (string \<times> json) list list" where
  "parse_log_tuples from_iso now logger_name ignore_debug [] = Inr []"
| "parse_log_tuples from_iso now logger_name ignore_debug ((name, level, message) # records) = (case message of
     None \<Rightarrow> Inl (TestValue ''JSONDecodeError'')
   | Some message \<Rightarrow>
       if name \<noteq> logger_name then parse_log_tuples from_iso now logger_name ignore_debug records
       else (case message of
         JObj ms \<Rightarrow> (case check_message from_iso now logger_name level ms of
           Inl e \<Rightarrow> Inl e
         | Inr ms \<Rightarrow> (case parse_log_tuples from_iso now logger_name ignore_debug records of
             Inl e \<Rightarrow> Inl e
           | Inr rest \<Rightarrow> Inr (if \<not> ignore_debug \<or> map_of ms ''severity'' \<noteq> Some (JStr ''debug'') then ms # rest else rest)))
       | _ \<Rightarrow> Inl TestType))"

lemma without_keys [simp]: "fst ` set (without k ms) = fst ` set ms - {k}"
  by (force simp: without_def)

lemma map_of_without: "map_of (without k ms) k' = (if k' = k then None else map_of ms k')"
  by (induction ms) (auto simp: without_def)

lemma replaced_keys: "fst ` set (map (\<lambda>m. if fst m = k then (fst m, x) else m) ms) = fst ` set ms"
proof -
  have "map fst (map (\<lambda>m. if fst m = k then (fst m, x) else m) ms) = map fst ms" by simp
  then show ?thesis by (metis image_set)
qed

lemma strip_request_keys: "strip_request ms = Inr ms' \<Longrightarrow> fst ` set ms' = fst ` set ms - {''request_id''}"
proof -
  assume a: "strip_request ms = Inr ms'"
  show ?thesis
  proof (cases "''request_id'' \<in> fst ` set ms")
    case True
    with a obtain x where "ms' = map (\<lambda>m. if fst m = ''httpRequest'' then (fst m, x) else m) (without ''request_id'' ms)"
      by (auto simp: strip_request_def split: option.splits sum.splits)
    then show ?thesis by (simp only: replaced_keys without_keys)
  next
    case False
    then show ?thesis using a by (auto simp: strip_request_def)
  qed
qed

lemma strip_request_severity: "strip_request ms = Inr ms' \<Longrightarrow> map_of ms' ''severity'' = map_of ms ''severity''"
proof -
  have r: "map_of (map (\<lambda>m. if fst m = ''httpRequest'' then (fst m, x) else m) xs) ''severity'' = map_of xs ''severity''" for x xs
    by (induction xs) auto
  show "strip_request ms = Inr ms' \<Longrightarrow> map_of ms' ''severity'' = map_of ms ''severity''"
    by (auto simp: strip_request_def r map_of_without split: if_splits option.splits sum.splits)
qed

text \<open>What is checked in each message that is returned: it has its logger's severity, and nothing left that varies.\<close>

lemma check_message_result:
  assumes "check_message from_iso now logger_name level ms = Inr ms'"
  shows "map_of ms ''logger'' = Some (JStr logger_name)" "map_of ms' ''severity'' = Some (JStr (to_lower (level_name level)))"
    "fst ` set ms' = fst ` set ms - {''logger'', ''timestamp'', ''request_id''}"
proof -
  from assms have m: "map_of ms ''logger'' = Some (JStr logger_name)"
      "map_of ms ''severity'' = Some (JStr (to_lower (level_name level)))"
      "strip_request (without ''timestamp'' (without ''logger'' ms)) = Inr ms'"
    by (auto simp: check_message_def Let_def map_of_without split: option.splits if_splits sum.splits)
  show "map_of ms ''logger'' = Some (JStr logger_name)" by (rule m(1))
  show "map_of ms' ''severity'' = Some (JStr (to_lower (level_name level)))"
    using strip_request_severity [OF m(3)] m(2) by (simp add: map_of_without)
  show "fst ` set ms' = fst ` set ms - {''logger'', ''timestamp'', ''request_id''}"
    using strip_request_keys [OF m(3)] by auto
qed

lemma parsed_messages:
  "parse_log_tuples from_iso now logger_name False records = Inr messages \<Longrightarrow>
    length messages = length (filter (\<lambda>r. fst r = logger_name) records) \<and>
    (\<forall>ms \<in> set messages. fst ` set ms \<inter> {''logger'', ''timestamp'', ''request_id''} = {} \<and>
      (\<exists>(name, level, message) \<in> set records. name = logger_name \<and> map_of ms ''severity'' = Some (JStr (to_lower (level_name level)))))"
proof (induction records arbitrary: messages)
  case (Cons r records)
  obtain name level message where r: "r = (name, level, message)" by (cases r)
  show ?case
  proof (cases "name = logger_name")
    case False
    then show ?thesis using Cons r by (auto split: option.splits)
  next
    case True
    with Cons.prems r obtain ms ms' rest where m: "check_message from_iso now logger_name level ms = Inr ms'"
        "parse_log_tuples from_iso now logger_name False records = Inr rest" "messages = ms' # rest"
      by (auto split: option.splits json.splits sum.splits)
    show ?thesis using Cons.IH [OF m(2)] check_message_result [OF m(1)] True r m(3) by auto
  qed
qed simp

text \<open>Another logger's message that is not JSON is not ignored.\<close>

lemma foreign_text_refused:
  "name \<noteq> logger_name \<Longrightarrow> parse_log_tuples from_iso now logger_name ignore_debug ((name, level, None) # records) =
    Inl (TestValue ''JSONDecodeError'')"
  by simp

subsection \<open>Starting a server\<close>

datatype connect_result = Connected | ConnectTimeout | ConnectRefused | ConnectTimedOut | ConnectError string

datatype server_error = ServerNotListening | ServerOSError string

text \<open>
  The \<open>n\<close>-th attempt to connect, with its timeout, has a result and takes a time, in microseconds; the result is the end
  of the wait, with the attempt that was the last, and the time then.
\<close>

function wait_for_server ::
  "(nat \<Rightarrow> nat \<Rightarrow> connect_result \<times> nat) \<Rightarrow> nat \<Rightarrow> nat \<Rightarrow> nat \<Rightarrow> (server_error + nat) \<times> nat" where
  "wait_for_server connect deadline n now =
     (if deadline < now then (Inl ServerNotListening, now)
      else case connect n (deadline - now) of (result, d) \<Rightarrow>
        if result = Connected then (Inr n, now + d)
        else if result \<in> {ConnectTimeout, ConnectRefused, ConnectTimedOut}
        then wait_for_server connect deadline (n + 1) (now + d + 100000)
        else (Inl (ServerOSError (case result of ConnectError e \<Rightarrow> e | _ \<Rightarrow> [])), now + d))"
  by pat_completeness auto
termination by (relation "measure (\<lambda>(connect, deadline, n, now). deadline + 1 - now)") auto

declare wait_for_server.simps [simp del]

text \<open>The wait ends a tenth of a second after the timeout at the latest, and a server that never answers is reported.\<close>

lemma server_wait_bounded:
  assumes "\<And>n t. snd (connect n t) \<le> t"
  shows "now \<le> deadline + 100000 \<Longrightarrow> snd (wait_for_server connect deadline n now) \<le> deadline + 100000"
proof (induction "deadline + 1 - now" arbitrary: n now rule: less_induct)
  case less
  have d: "snd (connect n (deadline - now)) \<le> deadline - now" by (rule assms)
  show ?case
  proof (cases "deadline < now")
    case True
    then show ?thesis using less.prems by (simp add: wait_for_server.simps [of _ _ _ now])
  next
    case False
    then have "snd (wait_for_server connect deadline (n + 1) (now + snd (connect n (deadline - now)) + 100000)) \<le> deadline + 100000"
      using d by (intro less.hyps) auto
    then show ?thesis using False d by (auto simp: wait_for_server.simps [of _ _ _ now] split: prod.split)
  qed
qed

lemma server_never_listening:
  assumes "\<And>n t. fst (connect n t) \<in> {ConnectTimeout, ConnectRefused, ConnectTimedOut}"
  shows "fst (wait_for_server connect deadline n now) = Inl ServerNotListening"
proof (induction "deadline + 1 - now" arbitrary: n now rule: less_induct)
  case less
  have r: "fst (connect n (deadline - now)) \<noteq> Connected" "fst (connect n (deadline - now)) \<in> {ConnectTimeout, ConnectRefused, ConnectTimedOut}"
    using assms [of n "deadline - now"] by auto
  show ?case
  proof (cases "deadline < now")
    case True
    then show ?thesis by (simp add: wait_for_server.simps [of _ _ _ now])
  next
    case False
    then have "fst (wait_for_server connect deadline (n + 1) (now + snd (connect n (deadline - now)) + 100000)) = Inl ServerNotListening"
      by (intro less.hyps) auto
    then show ?thesis using False r by (auto simp: wait_for_server.simps [of _ _ _ now] split: prod.split)
  qed
qed

text \<open>
  The command, directory and environment of the process; the port, bound by the parent, is its standard input.  The
  first error is that of the arguments.  Logging and the process itself are left out.
\<close>

record uvicorn_command =
  uv_cmd :: "string list"
  uv_cwd :: string
  uv_env :: "string \<rightharpoonup> string"
  uv_capture :: bool

definition uvicorn_command_of ::
  "(string \<rightharpoonup> string) \<Rightarrow> string \<Rightarrow> string \<Rightarrow> string option \<Rightarrow> string option \<Rightarrow> bool \<Rightarrow> (string \<rightharpoonup> string) option
     \<Rightarrow> test_error + uvicorn_command" where
  "uvicorn_command_of environ cwd working_directory app factory capture env =
     (if truthy app \<and> truthy factory then Inl (TestValue ''Only one of app or factory may be given'')
      else if \<not> truthy app \<and> \<not> truthy factory then Inl (TestValue ''Neither of app nor factory was given'')
      else (let env = (case env of None \<Rightarrow> environ | Some e \<Rightarrow> environ ++ e);
                cmd = [''uvicorn'', ''--fd'', ''0''] @
                  (if truthy app then [the app] else [''--factory'', the factory])
            in Inr \<lparr>uv_cmd = cmd, uv_cwd = working_directory,
                 uv_env = env(''PYTHONPATH'' \<mapsto> (case env ''PYTHONPATH'' of None \<Rightarrow> cwd | Some p \<Rightarrow> p @ '':'' @ cwd)),
                 uv_capture = capture\<rparr>))"

definition spawn_uvicorn ::
  "(nat \<Rightarrow> nat \<Rightarrow> connect_result \<times> nat) \<Rightarrow> nat \<Rightarrow> (string \<rightharpoonup> string) \<Rightarrow> string \<Rightarrow> nat \<Rightarrow> string \<Rightarrow> string option
     \<Rightarrow> string option \<Rightarrow> bool \<Rightarrow> nat \<Rightarrow> (string \<rightharpoonup> string) option \<Rightarrow> test_error + (uvicorn_command \<times> (server_error + string))" where
  "spawn_uvicorn connect now environ cwd port working_directory app factory capture timeout env =
     (case uvicorn_command_of environ cwd working_directory app factory capture env of
        Inl e \<Rightarrow> Inl e
      | Inr command \<Rightarrow> Inr (command, case fst (wait_for_server connect (now + timeout) 0 now) of
          Inl e \<Rightarrow> Inl e | Inr _ \<Rightarrow> Inr (''http://127.0.0.1:'' @ nat_str port)))"

end
