(* ===== verification/JobRunner.thy ===== *)
theory JobRunner
  imports UWSLifecycle
begin

text \<open>
  The simulation of workers in test suites (\<open>MockUWSJobRunner\<close>, src/src/safir/testing/uws/_mocks.py), and how it compares
  with the messages that real workers send.  Its methods call the mock queue directly, so nothing else happens at those
  awaits.
\<close>

definition runner_delay :: "'w uws_env \<Rightarrow> nat option \<Rightarrow> ('w, exc, unit) eff" where
  "runner_delay env delay = (case delay of
     None \<Rightarrow> ret_eff ()
   | Some d \<Rightarrow> if d = 0 then ret_eff () else modify_eff (en_sleep env d))"

text \<open>\<open>assert job.message_id\<close>\<close>

definition runner_message :: "uws_job \<Rightarrow> ('w, exc, string) eff" where
  "runner_message job = (if truthy (sj_message_id job) then ret_eff (the (sj_message_id job))
     else raise_eff (ExcOther ''AssertionError'' []))"

definition runner_get_job_metadata ::
  "uws_config \<Rightarrow> uws_world uws_env \<Rightarrow> string \<Rightarrow> string \<Rightarrow> (uws_world, exc, arq_arg job_metadata) eff" where
  "runner_get_job_metadata cfg env token job_id =
     bind_eff (store_get cfg env token job_id) (\<lambda>job.
     bind_eff (runner_message job) (\<lambda>m. arq_call (on_arq (mock_get_job_metadata m None))))"

definition runner_get_job_result ::
  "uws_config \<Rightarrow> uws_world uws_env \<Rightarrow> string \<Rightarrow> string \<Rightarrow> (uws_world, exc, uws_arq_result) eff" where
  "runner_get_job_result cfg env token job_id =
     bind_eff (store_get cfg env token job_id) (\<lambda>job.
     bind_eff (runner_message job) (\<lambda>m. arq_call (on_arq (mock_get_job_result m None))))"

definition mark_in_progress ::
  "uws_config \<Rightarrow> uws_world uws_env \<Rightarrow> string \<Rightarrow> string \<Rightarrow> nat option \<Rightarrow> (uws_world, exc, uws_job) eff" where
  "mark_in_progress cfg env token job_id delay =
     bind_eff (runner_delay env delay) (\<lambda>_.
     bind_eff (store_get cfg env token job_id) (\<lambda>job.
     bind_eff (runner_message job) (\<lambda>m.
     bind_eff (arq_call (on_arq (mock_set_in_progress m None))) (\<lambda>_.
     bind_eff (read_eff (en_now env)) (\<lambda>now.
     bind_eff (mark_executing cfg env token job_id now) (\<lambda>_.
     store_get cfg env token job_id))))))"

text \<open>The results are a list, or an exception.\<close>

definition mark_complete ::
  "uws_config \<Rightarrow> uws_world uws_env \<Rightarrow> string \<Rightarrow> string \<Rightarrow> exc + worker_result list \<Rightarrow> nat option
     \<Rightarrow> (uws_world, exc, uws_job) eff" where
  "mark_complete cfg env token job_id results delay =
     bind_eff (runner_delay env delay) (\<lambda>_.
     bind_eff (store_get cfg env token job_id) (\<lambda>job.
     bind_eff (runner_message job) (\<lambda>m.
     bind_eff (read_eff uw_now) (\<lambda>now.
     bind_eff (arq_call (on_arq (mock_set_complete now m (case results of Inl e \<Rightarrow> Failed e | Inr rs \<Rightarrow> Returned rs) True None))) (\<lambda>_.
     bind_eff (arq_call (on_arq (mock_get_job_result m None))) (\<lambda>job_result.
     bind_eff (mark_completed cfg env token job_id (jr_result job_result)) (\<lambda>_.
     store_get cfg env token job_id)))))))"

lemma on_arq_now: "on_arq m w = (r, w') \<Longrightarrow> uw_now w' = uw_now w"
  by (auto simp: on_arq_def split: prod.splits)

lemma quiet_result: "en_result (quiet_env cfg) i = on_arq (mock_get_job_result i None)"
  by (simp add: quiet_env_def mock_env_def fun_eq_iff Let_def)

lemma str_without_user: "exc_str (set_user user e) = exc_str e"
  by (cases e) (simp_all add: set_user_def web_exception_str_def)

lemma name_without_user: "exc_name (set_user user e) = exc_name e"
  by (cases e) (simp_all add: set_user_def)

text \<open>What the end of a job is stored as by the simulation: a worker error is not converted.\<close>

definition simulated_update :: "exc + worker_result list \<Rightarrow> job_update" where
  "simulated_update results = (case results of
     Inr rs \<Rightarrow> UpdateCompleted (map from_worker_result rs)
   | Inl (ExcTask t) \<Rightarrow> UpdateError [task_to_job_error t]
   | Inl e \<Rightarrow> UpdateError [\<lparr>je_type = FATAL, je_code = ''Error'', je_message = ''Unknown error executing task'',
       je_detail = Some (exc_name e @ '': '' @ exc_str e)\<rparr>])"

lemma simulated_ok: "update_valid (simulated_update r)" "update_ok (simulated_update r)"
  by (cases r; simp add: simulated_update_def update_ok_def split: exc.split)+

lemma mark_simulated:
  "mark_completed cfg env t i (case results of Inl e \<Rightarrow> Failed e | Inr rs \<Rightarrow> Returned rs) =
    store_update cfg env t i (simulated_update results)"
  by (auto simp: mark_completed_def mark_failed_def simulated_update_def Let_def split: sum.split exc.split)

text \<open>Without a worker error it is what the worker stores.\<close>

lemma simulated_outcome:
  assumes "\<And>we. results \<noteq> Inl (ExcWorker we)"
  shows "outcome_update owner (case results of Inl e \<Rightarrow> Failed e | Inr rs \<Rightarrow> Returned rs) = Some (simulated_update results)"
proof (cases results)
  case (Inl e)
  then show ?thesis using assms
    by (cases e) (auto simp: outcome_update_def failure_error_def simulated_update_def str_without_user)
qed (simp add: outcome_update_def simulated_update_def)

lemma simulated_completion:
  assumes "token_owner token = Inr own" "world_good w" "stored_jobs own w i = Some j" "read_job cfg j = Inr job"
    and "sj_message_id j = Some m" "m \<noteq> []" "world_queue w m = Some q"
  obtains w1 w2 where
    "on_arq (mock_set_complete (uw_now w) m (case results of Inl e \<Rightarrow> Failed e | Inr rs \<Rightarrow> Returned rs) True None) w = (Inr (), w1)"
    "world_good w1" "stored_jobs own w1 = stored_jobs own w"
    "world_queue w1 = (world_queue w)(m \<mapsto> Done (case results of Inl e \<Rightarrow> Failed e | Inr rs \<Rightarrow> Returned rs))"
    "mark_complete cfg (quiet_env cfg) token i results None w = (read_job cfg (the (stored_jobs own w2 i)), w2)"
    "stored_jobs own w2 = (stored_jobs own w)(i \<mapsto> apply_update (uw_now w) (simulated_update results) j)"
    "world_queue w2 = world_queue w1"
proof -
  let ?r = "case results of Inl e \<Rightarrow> Failed e | Inr rs \<Rightarrow> Returned rs"
  have t: "owner_of_token token = Some own" using assms(1) by simp
  obtain w1 where w1: "on_arq (mock_set_complete (uw_now w) m ?r True None) w = (Inr (), w1)" "world_good w1"
    "world_queue w1 = (world_queue w)(m \<mapsto> Done ?r)" "stored_jobs own w1 = stored_jobs own w"
    by (rule queue_completed [OF assms(2,7)])
  have n: "uw_now w1 = uw_now w" by (rule on_arq_now [OF w1(1)])
  have "world_queue w1 m = Some (Done ?r)" using w1(3) by simp
  then obtain jr where jr: "on_arq (mock_get_job_result m None) w1 = (Inr jr, w1)" "jr_result jr = ?r"
    using quiet.result_ready [OF w1(2), where cfg = cfg] by (auto simp: quiet_result)
  have j: "stored_jobs own w1 i = Some j" using w1(4) assms(3) by simp
  obtain w2 where w2: "store_update cfg (quiet_env cfg) token i (simulated_update results) w1 = (Inr (), w2)" "world_good w2"
    "stored_jobs own w2 = (stored_jobs own w1)(i \<mapsto> apply_update (en_now (quiet_env cfg) w1) (simulated_update results) j)"
    "world_queue w2 = world_queue w1"
    using quiet.store_update_found [OF t w1(2) j simulated_ok, where cfg = cfg] by blast
  have "stored_jobs own w2 i = Some (apply_update (uw_now w) (simulated_update results) j)" using w2(3) n by simp
  note again = quiet.store_get_found [OF t w2(2) this]
  have "mark_complete cfg (quiet_env cfg) token i results None w = (read_job cfg (the (stored_jobs own w2 i)), w2)"
    using quiet.store_get_found [OF t assms(2,3)] assms(4-6) read_job_fields [OF assms(4)] w1(1) jr w2(1,3) n again
    by (simp add: mark_complete_def runner_delay_def runner_message_def truthy_def arq_call_def mark_simulated eff_simps)
  then show ?thesis using that [OF w1(1,2,4,3), of w2] w2 w1(4) n by simp
qed

subsection \<open>The simulation and the workers\<close>

text \<open> C39. The simulation of workers is faithful: marking a queued job as in progress does to the stored jobs and the queue
  what a worker's start message does that arrives at once, and marking it as complete, with a list of results or with an
  exception that is not a worker error and has its times in UTC, what the worker's completion does, except that the worker polls the
  queue first and so records a later end time.
\<close>
theorem mock_runner_simulates_worker:
  assumes "token_owner token = Inr own" "world_good w" "stored_jobs own w i = Some j" "read_job cfg j = Inr job"
    and "sj_message_id j = Some m" "m \<noteq> []" "world_queue w m = Some q"
    and "case results of Inl (ExcWorker _) \<Rightarrow> False | Inl e \<Rightarrow> exc_utc e | Inr _ \<Rightarrow> True"
  shows "(\<exists>w1 w2. on_arq (mock_set_in_progress m None) w = (Inr (), w1) \<and>
      uws_job_started cfg (quiet_env cfg) slack token i (uw_now w) w1 = (Inr (), w2) \<and>
      mark_in_progress cfg (quiet_env cfg) token i None w = (read_job cfg (the (stored_jobs own w2 i)), w2)) \<and>
    (\<exists>w1 w2 w3. on_arq (mock_set_complete (uw_now w) m (case results of Inl e \<Rightarrow> Failed e | Inr rs \<Rightarrow> Returned rs) True None) w = (Inr (), w1) \<and>
      uws_job_completed (Suc fuel) cfg (quiet_env cfg) slack token i w1 = Some (Inr (), w2) \<and>
      mark_complete cfg (quiet_env cfg) token i results None w = (read_job cfg (the (stored_jobs own w3 i)), w3) \<and>
      world_queue w3 = world_queue w2 \<and>
      stored_jobs own w3 = (stored_jobs own w2)(i \<mapsto> (the (stored_jobs own w2 i))\<lparr>sj_end_time := Some (no_microseconds (uw_now w))\<rparr>))"
proof
  have t: "owner_of_token token = Some own" using assms(1) by simp
  obtain w1 where w1: "on_arq (mock_set_in_progress m None) w = (Inr (), w1)" "world_good w1"
    "world_queue w1 = (world_queue w)(m \<mapsto> Running)" "stored_jobs own w1 = stored_jobs own w"
    by (rule queue_started [OF assms(2,7)])
  have n: "uw_now w1 = uw_now w" by (rule on_arq_now [OF w1(1)])
  have j: "stored_jobs own w1 i = Some j" using w1(4) assms(3) by simp
  let ?u = "UpdateExecuting (uw_now w)"
  have u: "update_valid ?u" "update_ok ?u" by (simp_all add: update_ok_def)
  obtain w2 where w2: "store_update cfg (quiet_env cfg) token i ?u w1 = (Inr (), w2)" "world_good w2"
    "stored_jobs own w2 = (stored_jobs own w1)(i \<mapsto> apply_update (en_now (quiet_env cfg) w1) ?u j)"
    using quiet.store_update_found [OF t w1(2) j u, where cfg = cfg] by blast
  have "stored_jobs own w2 i = Some (apply_update (uw_now w) ?u j)" using w2(3) n by simp
  note again = quiet.store_get_found [OF t w2(2) this]
  have "uws_job_started cfg (quiet_env cfg) slack token i (uw_now w) w1 = (Inr (), w2)"
    using w2(1) by (simp add: uws_job_started_def mark_executing_def eff_simps)
  moreover have "mark_in_progress cfg (quiet_env cfg) token i None w = (read_job cfg (the (stored_jobs own w2 i)), w2)"
    using quiet.store_get_found [OF t assms(2,3)] assms(4-6) read_job_fields [OF assms(4)] w1(1) w2(1,3) n again
    by (simp add: mark_in_progress_def runner_delay_def runner_message_def truthy_def arq_call_def mark_executing_def eff_simps)
  ultimately show "\<exists>w1 w2. on_arq (mock_set_in_progress m None) w = (Inr (), w1) \<and>
      uws_job_started cfg (quiet_env cfg) slack token i (uw_now w) w1 = (Inr (), w2) \<and>
      mark_in_progress cfg (quiet_env cfg) token i None w = (read_job cfg (the (stored_jobs own w2 i)), w2)"
    using w1(1) by blast
next
  have t: "owner_of_token token = Some own" using assms(1) by simp
  let ?r = "case results of Inl e \<Rightarrow> Failed e | Inr rs \<Rightarrow> Returned rs"
  have nw: "\<And>we. results \<noteq> Inl (ExcWorker we)" using assms(8) by auto
  obtain w1 w3 where w: "on_arq (mock_set_complete (uw_now w) m ?r True None) w = (Inr (), w1)"
    "world_good w1" "stored_jobs own w1 = stored_jobs own w" "world_queue w1 = (world_queue w)(m \<mapsto> Done ?r)"
    "mark_complete cfg (quiet_env cfg) token i results None w = (read_job cfg (the (stored_jobs own w3 i)), w3)"
    "stored_jobs own w3 = (stored_jobs own w)(i \<mapsto> apply_update (uw_now w) (simulated_update results) j)"
    "world_queue w3 = world_queue w1"
    by (rule simulated_completion [OF assms(1-7), where results = results])
  have c: "stored_jobs own w1 i = Some j" "truthy (sj_message_id j)"
    "world_queue w1 (the (sj_message_id j)) = Some (Done ?r)" "case ?r of Failed e \<Rightarrow> exc_utc e | _ \<Rightarrow> True"
    using w(3,4) assms(3,5,6,8) by (simp_all add: truthy_def split: sum.splits exc.splits)
  obtain w2 n where w2: "uws_job_completed (Suc fuel) cfg (quiet_env cfg) slack token i w1 = Some (Inr (), w2)"
    "stored_jobs own w2 = (stored_jobs own w1)(i \<mapsto> apply_update n (simulated_update results) j)" "world_queue w2 = world_queue w1"
    by (rule quiet.outcome_recorded [OF t w(2) c(1) assms(4) c(2,3,4) simulated_outcome [OF nw]])
  have "apply_update (uw_now w) (simulated_update results) j =
      (apply_update n (simulated_update results) j)\<lparr>sj_end_time := Some (no_microseconds (uw_now w))\<rparr>"
    by (simp add: simulated_update_def Let_def split: sum.split exc.split)
  then show "\<exists>w1 w2 w3. on_arq (mock_set_complete (uw_now w) m ?r True None) w = (Inr (), w1) \<and>
      uws_job_completed (Suc fuel) cfg (quiet_env cfg) slack token i w1 = Some (Inr (), w2) \<and>
      mark_complete cfg (quiet_env cfg) token i results None w = (read_job cfg (the (stored_jobs own w3 i)), w3) \<and>
      world_queue w3 = world_queue w2 \<and>
      stored_jobs own w3 = (stored_jobs own w2)(i \<mapsto> (the (stored_jobs own w2 i))\<lparr>sj_end_time := Some (no_microseconds (uw_now w))\<rparr>)"
    using w w2 by (intro exI [of _ w1] exI [of _ w2] exI [of _ w3]) simp
qed

text \<open>
  A worker error is another matter: the worker converts it to a task error with its own code and message, and the
  simulation stores an unknown one.
\<close>

lemma simulated_worker_error:
  assumes "token_owner token = Inr own" "world_good w" "stored_jobs own w i = Some j" "read_job cfg j = Inr job"
    and "sj_message_id j = Some m" "m \<noteq> []" "world_queue w m = Some q"
  shows "\<exists>w1 w2 w3. on_arq (mock_set_complete (uw_now w) m (Failed (ExcWorker we)) True None) w = (Inr (), w1) \<and>
    uws_job_completed (Suc fuel) cfg (quiet_env cfg) slack token i w1 = Some (Inr (), w2) \<and>
    mark_complete cfg (quiet_env cfg) token i (Inl (ExcWorker we)) None w = (read_job cfg (the (stored_jobs own w3 i)), w3) \<and>
    map_option sj_errors (stored_jobs own w2 i) = Some [task_to_job_error (task_from_worker_error (utc_datetime 0) we)] \<and>
    map_option sj_errors (stored_jobs own w3 i) = Some [\<lparr>je_type = FATAL, je_code = ''Error'',
      je_message = ''Unknown error executing task'', je_detail = Some (worker_class_name (wk_class we) @ '': '' @ wk_message we)\<rparr>]"
proof -
  have t: "owner_of_token token = Some own" using assms(1) by simp
  obtain w1 w3 where w: "on_arq (mock_set_complete (uw_now w) m (Failed (ExcWorker we)) True None) w = (Inr (), w1)"
    "world_good w1" "stored_jobs own w1 = stored_jobs own w" "world_queue w1 = (world_queue w)(m \<mapsto> Done (Failed (ExcWorker we)))"
    "mark_complete cfg (quiet_env cfg) token i (Inl (ExcWorker we)) None w = (read_job cfg (the (stored_jobs own w3 i)), w3)"
    "stored_jobs own w3 = (stored_jobs own w)(i \<mapsto> apply_update (uw_now w) (simulated_update (Inl (ExcWorker we))) j)"
    by (rule simulated_completion [OF assms(1-7), where results = "Inl (ExcWorker we)"]) simp
  have c: "stored_jobs own w1 i = Some j" "truthy (sj_message_id j)"
    "world_queue w1 (the (sj_message_id j)) = Some (Done (Failed (ExcWorker we)))"
    "case Failed (ExcWorker we) :: (worker_result list, exc) arq_outcome of Failed e \<Rightarrow> exc_utc e | _ \<Rightarrow> True"
    using w(3,4) assms(3,5,6) by (simp_all add: truthy_def exc_utc_def)
  have u: "outcome_update (sj_owner j) (Failed (ExcWorker we)) =
      Some (UpdateError [task_to_job_error (task_from_worker_error (utc_datetime 0) we)])"
    by (simp add: outcome_update_def failure_error_def)
  obtain w2 n where w2: "uws_job_completed (Suc fuel) cfg (quiet_env cfg) slack token i w1 = Some (Inr (), w2)"
    "stored_jobs own w2 = (stored_jobs own w1)(i \<mapsto>
       apply_update n (UpdateError [task_to_job_error (task_from_worker_error (utc_datetime 0) we)]) j)"
    by (rule quiet.outcome_recorded [OF t w(2) c(1) assms(4) c(2,3,4) u])
  show ?thesis
    using w w2 by (intro exI [of _ w1] exI [of _ w2] exI [of _ w3]) (simp add: simulated_update_def Let_def)
qed

theorem mock_runner_simulates_worker_witness:
  "\<exists>w i j w1 w2. stored_jobs demo_owner w i = Some j \<and> sj_phase j = QUEUED \<and>
     mark_complete demo_cfg (quiet_env demo_cfg) demo_token_ann i (Inr []) None w = (read_job demo_cfg (the (stored_jobs demo_owner w1 i)), w1) \<and>
     map_option sj_end_time (stored_jobs demo_owner w1 i) = Some (Some (no_microseconds (uw_now w))) \<and>
     mark_in_progress demo_cfg (quiet_env demo_cfg) demo_token_ann i None w = (read_job demo_cfg (the (stored_jobs demo_owner w2 i)), w2)"
proof -
  obtain w i m j job where w: "world_good w" "stored_jobs demo_owner w i = Some j" "read_job demo_cfg j = Inr job"
    "sj_phase j = QUEUED" "sj_message_id j = Some m" "m \<noteq> []" "world_queue w m = Some Waiting" by (rule demo_waiting)
  from mock_runner_simulates_worker [OF demo_token w(1-3,5-7), where results = "Inr []" and slack = None and fuel = 0]
  show ?thesis using w(2,4) by fastforce
qed

end
