(* ===== verification/Spec2Isabelle.thy ===== *)
theory Spec2Isabelle
  imports UWSLifecycle MultiQueue EventTesting MetricsConfig ArqMetrics Middleware RedisStore Dependencies PydanticTypes
    WebErrors Logging AppTools GitHubEvents UWSApp ArqClients KubeJobs KubeTools TestData TestSupport JobRunner
begin

text \<open>
  A verification development of Safir, the library that the web services of Rubin Observatory share
  (the packages \<open>safir\<close>, \<open>safir-arq\<close> and \<open>safir-logging\<close>).

  The program and its theories.  Paths are below \<open>src/src/safir\<close>, and \<open>arq/\<close> stands for
  \<open>src/safir-arq/src/safir/arq\<close>.

  \<^item> The UWS layer (\<open>uws/\<close>) runs asynchronous jobs for the users of a service.  Its data and
    exceptions are in \<open>UWSModels\<close> (\<open>_models.py\<close>, \<open>_exceptions.py\<close>, \<open>arq/uws.py\<close>), its
    configuration in \<open>UWSConfig\<close> (\<open>_config.py\<close>, \<open>arq/_config.py\<close>).  \<open>UWSStorage\<close> is the job
    store (\<open>_storage.py\<close>), which turns each operation into one request to the Wobbly service;
    \<open>UWSService\<close> the job service (\<open>_service.py\<close>, \<open>_results.py\<close>), which checks what may be
    done to a job and talks to the queue; \<open>UWSWorkers\<close> the two tasks that record the start and
    end of a job and the task that runs it (\<open>_workers.py\<close>, \<open>arq/uws.py\<close>); \<open>UWSHandlers\<close> the
    route handlers and error handlers (\<open>_handlers.py\<close>, \<open>_dependencies.py\<close>, \<open>_app.py\<close>); \<open>UWSApp\<close>
    how an application puts them together: the dependency of its requests, its routes and its two workers.
    An operation is a function from the world to its outcome and the world afterwards; the world and
    the calls that leave the library (HTTP, queue, clock, alerts) are the record \<open>uws_env\<close>.
  \<^item> \<open>MockWobbly\<close> (\<open>testing/uws/_mocks.py\<close>) and the mock queue of \<open>ArqQueue\<close> are the surroundings
    of the test suite; \<open>UWSMocks\<close> puts them together.  \<open>UWSInvariant\<close>, \<open>UWSBackend\<close>, \<open>UWSWorld\<close>
    and \<open>UWSLifecycle\<close> hold the theorems on the layer.  \<open>JobRunner\<close> is the simulation of workers of the test suite
    (\<open>testing/uws/_mocks.py\<close>), compared with the workers' messages.
  \<^item> \<open>ArqQueue\<close>: the queue clients of \<open>arq/_queue.py\<close>, \<open>_models.py\<close>, \<open>_exceptions.py\<close>; \<open>ArqClients\<close>: the
    interface they implement.
  \<^item> \<open>MultiQueue\<close>: \<open>asyncio/_multiqueue.py\<close>, a queue with many readers.  A reader is a coroutine
    that runs between its awaits; \<open>mq_step\<close> interleaves readers, writers and time.
  \<^item> \<open>Blockkit\<close> and \<open>SlackAlerts\<close>: Slack messages, exceptions that report themselves and the route
    class that reports them (\<open>slack/\<close>, \<open>sentry/_helpers.py\<close>).
  \<^item> \<open>PyText\<close> and \<open>TimeText\<close>: Python's string operations, and dates and times
    (\<open>datetime/\<close>, \<open>database/_datetime.py\<close>) on the proleptic Gregorian calendar.
  \<^item> \<open>Pagination\<close> and \<open>HttpLink\<close>: keyset pagination of database queries and its links
    (\<open>database/_pagination.py\<close>, \<open>http/_link.py\<close>).
  \<^item> \<open>Kafka\<close>: the schema manager and the connection settings (\<open>kafka/\<close>).  \<open>EventManager\<close>,
    \<open>EventRuns\<close> and \<open>EventNames\<close>: application metrics (\<open>metrics/_event_manager.py\<close>,
    \<open>_models.py\<close>); \<open>EventTesting\<close>: the assertions on published events (\<open>_testing.py\<close>);
    \<open>MetricsConfig\<close>: the settings of the metrics and the managers they make (\<open>_config.py\<close>);
    \<open>ArqMetrics\<close>: the events of arq workers and queues (\<open>arq.py\<close>).
  \<^item> \<open>Database\<close> and \<open>DatabaseUrls\<close> (\<open>database/_manager.py\<close>, \<open>_connection.py\<close>, \<open>_config.py\<close>,
    \<open>_retry.py\<close>, \<open>_initialize.py\<close>, \<open>_alembic.py\<close>): engines and what manages them, their URLs, transactions
    and retries; \<open>Dependencies\<close> (\<open>dependencies/\<close>): what holds an engine, a queue, a client or a
    configuration for the requests.  \<open>UrlText\<close> is the splitting of URLs of the standard library.
  \<^item> \<open>Middleware\<close> (\<open>middleware/\<close>): the parameters of IVOA services and clients behind proxies;
    \<open>RedisStore\<close> (\<open>redis/_storage.py\<close>): models kept in Redis; \<open>PydanticTypes\<close> (\<open>pydantic/\<close>): validators.
  \<^item> \<open>WebErrors\<close> (\<open>fastapi/_errors.py\<close>, \<open>models/_errors.py\<close>, \<open>kafka/_exceptions.py\<close>): errors as responses
    and as alerts; \<open>Logging\<close> (\<open>src/safir-logging/src/safir/logging/\<close>): what the set-ups hand to the logging
    libraries, and the processors of log entries.
  \<^item> \<open>GitHub\<close> and \<open>GitHubEvents\<close> (\<open>github/\<close>): the API client, resources and webhook payloads, over \<open>Base64\<close>;
    \<open>AppTools\<close>: package metadata, the help command, the Kubernetes configuration and the signing of GCS URLs.
  \<^item> The Kubernetes mock (\<open>testing/kubernetes/_mock.py\<close>), which simulates an API server for test suites: \<open>KubeObjects\<close>
    (models, custom objects, selectors), \<open>KubeStore\<close> (its tables, on a heap of objects, and its event streams, each a
    queue of \<open>MultiQueue\<close>), \<open>KubeMock\<close> (every method of the API and the methods for tests); \<open>KubeInvariant\<close>, \<open>KubeKept\<close>,
    \<open>KubeOps\<close> and \<open>KubeMethods\<close> show that each method keeps the invariant of tables and streams; \<open>KubeWatch\<close> has the
    watchers and the runs of any clients, \<open>KubeJobs\<close> jobs and their pods, \<open>KubeTools\<close> the patching of the client library
    and the stripping of serialized objects (\<open>_strip.py\<close>).
  \<^item> \<open>TestData\<close> (\<open>testing/data/_data.py\<close>): expected outputs with wildcards and their updating; \<open>TestSupport\<close>: the doubles
    of Google Cloud Storage, Slack and Sentry (\<open>testing/gcs/\<close>, \<open>testing/slack/\<close>, \<open>testing/sentry/\<close>), the checking of captured
    logs (\<open>src/safir-logging/src/safir/testing/logging/\<close>) and the start of a server (\<open>testing/uvicorn/\<close>).
  \<^item> \<open>Prelude\<close>: the effects all of them share, \<open>'s \<Rightarrow> ('e + 'a) \<times> 's\<close>: an exception is a value, and
    keeps the changes made before it.

  The interfaces.  \<open>world_invariant\<close> (UWSInvariant) is a predicate of the world kept by each single
  call out of the library; then every operation keeps it, and it is interpreted on the mock world.
  \<open>job_backend\<close> and \<open>uws_backend\<close> (UWSBackend) are the contract of the Wobbly service and of the
  queue, over which the operations of the store and of the service are characterised; they are
  interpreted on the mocks.  \<open>keyset_cursor\<close> (Pagination) is what the documentation of
  \<open>PaginationCursor\<close> demands of a cursor class, interpreted on \<open>DatetimeIdCursor\<close>.
  \<open>arq_client\<close> (ArqClients) is what a client of a queue relies on, interpreted on the Redis queue and on the mock.
  \<open>publisher_builder\<close> (EventNames) is what \<open>create_publisher\<close> asks of the three event managers.

  What is shown.
  \<^item> UWS: in every world reachable by any sequence of requests, worker messages and queue
    progress, stored jobs are well formed and belong to their owners, and no request of one user
    changes the jobs of another; what start, abort, delete and the updates do to a job and its
    task; the course of a job from its creation to its results; waiting polls at its delays, ends in time and
    answers with what is stored then; the worker's messages; what is stored survives the wire format, and what of an error
    that is raised survives pickling.
  \<^item> Queues: no wake-up of a reader is lost and each reader gets its items in order, whatever the
    interleaving; the writers refine a log, and the mock arq queue a table of jobs.
  \<^item> Alerts: messages stay within Slack's limits, and alerts are sent when they are due.
  \<^item> Times and cursors: parsing is total and round trips.
  \<^item> Pages: following the next links lists every row once and in order, and the previous links lead
    back; the links survive the header and keep the query.
  \<^item> Metrics: failures of the infrastructure never reach the application, the backoff is respected,
    publishing recovers; the assertions for tests are exact; the environment chooses the configuration.
  \<^item> Databases: an engine manager leaves nothing open, whatever its body does, but what it could not close; a session
    dependency has exactly the engine in use open; the two ways to make an engine agree on its arguments, and on its URL
    unless the password is empty.
  \<^item> Requests: the names of parameters become lowercase however a form is cut into messages, and the client
    is the right-most forwarded address that is not a proxy's.
  \<^item> Redis: a store is a map of its own inside the database.  Types: a UTC datetime is the instant that
    was given.
  \<^item> An application and its workers, once they have the same Redis, listen to each other's queues.  Errors of a
    client's request are answered and reported as they say.  The access log and the blobs of GitHub are read
    back as they were written.
  \<^item> Kubernetes mock: in every state reachable by any clients the events of a stream, replayed, are the objects stored,
    each at the version of its last event, so a client that lists and then watches misses nothing; the deletion of a
    job removes its pods and nothing else; label selectors select the objects that have the labels.
  \<^item> Test support: an update of an expected output keeps its wildcards and fails only for a missing directory; the simulation of workers does
    what workers do, short of worker errors; parsed log messages are those of their logger, without what varies; the
    wait for a server ends in time.
  Some theorems show where the code does not do what it means to: a completed task without a result is
  polled for ever, the end of an aborted task cannot be recorded, a timeout error cannot be
  unpickled, a queue closed twice miscounts, and an unrecoverable failure of the event manager is
  forgotten when a publish in flight fails after it.

  Bounds.  \<open>wait_loop\<close> and the other loops are functions with a termination proof.  Two take a number of
  steps: \<open>follow_next\<close>, the client of the pages, for which one more than the number of rows is proved to be
  enough, and \<open>poll_result\<close>, the polling for a result that may never end, which is \<open>None\<close> when the
  number of rounds it is given is used up; one round is proved to be enough once the result is there, and no number
  when it never is.  The timeout of arq, which cancels a message's function after 30 seconds, is not modelled.  Python integers are unbounded and are \<open>int\<close>; times are microseconds
  since the year 1; texts are lists of bytes, exact for ASCII.

  Not modelled.  The libraries Safir calls are parameters: pydantic's validation, the database, HTTP
  clients, Redis, Kafka, the schema registry, structlog.  Floats are parameters where they appear
  in texts.  The rendering of XML by vo-models and Jinja and the Sphinx helpers carry no behaviour of their own.  Of a Kubernetes
  model only the parts the mock reads or writes are told apart, the rest is one JSON value.  The containers of
  integration tests (\<open>testing/containers/\<close>) are environment variables and shell scripts, and the comparison of job
  documents (\<open>testing/uws/_assert.py\<close>) is all vo-models.
\<close>

end
